(* ===== verification/Prelude.thy ===== *)
theory Prelude
  imports Main "HOL-Library.Word" "HOL-Library.Monad_Syntax" "HOL-Library.Code_Target_Nat"
begin

text \<open>
  Shared vocabulary of the development: how the Rust program's integers, panics and
  results are read in HOL, and the generic lemmas the component theories use.

  \<^item> A \<open>usize\<close> is a natural number below \<open>2 ^ 64\<close>. Arithmetic is written with \<open>uadd\<close>,
    \<open>usub\<close> and \<open>umul\<close>, which are \<open>None\<close> exactly where the checked build of the program
    panics with an overflow. The same functions are Rust's \<open>checked_add\<close>,
    \<open>checked_sub\<close> and \<open>checked_mul\<close>, where \<open>None\<close> is an ordinary value.
  \<^item> A computation of type \<open>'a rust\<close> is \<open>None\<close> when the source panics (an overflow, a
    failed \<open>assert!\<close>, \<open>expect\<close>, \<open>unwrap\<close>, \<open>todo!\<close>, an index out of range) and
    \<open>Some\<close> of its value otherwise; it is sequenced with the option monad.
  \<^item> \<open>Result<T, E>\<close> is the sum \<open>E + T\<close>, with \<open>Inl\<close> for \<open>Err\<close>.
\<close>

section \<open>Integers, panics and results\<close>

type_synonym usize = nat
type_synonym u8 = "8 word"
type_synonym u64 = "64 word"
type_synonym 'a rust = "'a option"
type_synonym ('e, 'a) result = "'e + 'a"

abbreviation USIZE_BOUND :: nat where
  "USIZE_BOUND \<equiv> 2 ^ 64"

definition uadd :: "usize \<Rightarrow> usize \<Rightarrow> usize option" where
  "uadd a b = (if a + b < USIZE_BOUND then Some (a + b) else None)"

definition usub :: "usize \<Rightarrow> usize \<Rightarrow> usize option" where
  "usub a b = (if b \<le> a then Some (a - b) else None)"

definition umul :: "usize \<Rightarrow> usize \<Rightarrow> usize option" where
  "umul a b = (if a * b < USIZE_BOUND then Some (a * b) else None)"

definition usize_not :: "usize \<Rightarrow> usize" where
  "usize_not a = USIZE_BOUND - 1 - a"

definition rust_assert :: "bool \<Rightarrow> unit rust" where
  "rust_assert b = (if b then Some () else None)"

text \<open>\<open>expect\<close>/\<open>unwrap\<close> on an \<open>Option\<close> is the identity of the reading above; on a
  \<open>Result\<close> it drops the error branch.\<close>

fun expect_ok :: "('e, 'a) result \<Rightarrow> 'a rust" where
  "expect_ok (Inr a) = Some a"
| "expect_ok (Inl e) = None"

text \<open>A \<open>for\<close> loop over a finite iterator, threading the state.\<close>

fun for_each :: "('a \<Rightarrow> 's \<Rightarrow> 's rust) \<Rightarrow> 'a list \<Rightarrow> 's \<Rightarrow> 's rust" where
  "for_each f [] s = Some s"
| "for_each f (x # xs) s = do { s' \<leftarrow> f x s; for_each f xs s' }"

section \<open>Lemma collections\<close>

named_theorems rust_simps \<open>unfolding the arithmetic and panic vocabulary\<close>

lemmas rust_arith_defs [rust_simps] = uadd_def usub_def umul_def rust_assert_def

lemma uadd_eq_Some [simp]: "uadd a b = Some c \<longleftrightarrow> c = a + b \<and> a + b < USIZE_BOUND"
  by (auto simp: uadd_def)

lemma usub_eq_Some [simp]: "usub a b = Some c \<longleftrightarrow> c = a - b \<and> b \<le> a"
  by (auto simp: usub_def)

lemma umul_eq_Some [simp]: "umul a b = Some c \<longleftrightarrow> c = a * b \<and> a * b < USIZE_BOUND"
  by (auto simp: umul_def)

lemma uadd_eq_None [simp]: "uadd a b = None \<longleftrightarrow> USIZE_BOUND \<le> a + b"
  by (auto simp: uadd_def)

lemma usub_eq_None [simp]: "usub a b = None \<longleftrightarrow> a < b"
  by (auto simp: usub_def)

lemma umul_eq_None [simp]: "umul a b = None \<longleftrightarrow> USIZE_BOUND \<le> a * b"
  by (auto simp: umul_def)

lemma rust_assert_eq_Some [simp]: "rust_assert b = Some u \<longleftrightarrow> b"
  by (auto simp: rust_assert_def)

lemma rust_assert_eq_None [simp]: "rust_assert b = None \<longleftrightarrow> \<not> b"
  by (auto simp: rust_assert_def)

lemma expect_ok_eq_Some [simp]: "expect_ok r = Some a \<longleftrightarrow> r = Inr a"
  by (cases r) auto

lemma for_each_append:
  "for_each f (xs @ ys) s = do { s' \<leftarrow> for_each f xs s; for_each f ys s' }"
  by (induction xs arbitrary: s) (auto split: Option.bind_splits)

text \<open>The rule that lifts a one-step invariant to a whole loop.\<close>

lemma for_each_invariant:
  assumes "for_each f xs s = Some s'" and "P s"
    and "\<And>x t t'. x \<in> set xs \<Longrightarrow> P t \<Longrightarrow> f x t = Some t' \<Longrightarrow> P t'"
  shows "P s'"
  using assms
proof (induction xs arbitrary: s)
  case Nil
  then show ?case by simp
next
  case (Cons x xs)
  then obtain t where t: "f x s = Some t" "for_each f xs t = Some s'"
    by (auto split: Option.bind_splits)
  with Cons.prems have "P t" by auto
  with t(2) show ?case by (rule Cons.IH) (use Cons.prems(3) in auto)
qed

section \<open>Bits of words and numbers\<close>

lemma bit_word_eqI:
  fixes v w :: "'a::len word"
  assumes "\<And>n. n < LENGTH('a) \<Longrightarrow> bit v n \<longleftrightarrow> bit w n"
  shows "v = w"
  using assms by (auto intro: bit_eqI dest: bit_imp_le_length)

lemma nat_mask_shift: "k \<le> 64 \<Longrightarrow> usize_not (2 ^ k - 1) = push_bit k (mask (64 - k))"
proof -
  assume k: "k \<le> 64"
  have "(2::nat) ^ 64 = 2 ^ k * 2 ^ (64 - k)"
    using k by (simp flip: power_add)
  moreover have "(2::nat) ^ k \<le> 2 ^ 64"
    using k by (intro power_increasing) auto
  ultimately show ?thesis
    by (simp add: usize_not_def push_bit_eq_mult mask_eq_exp_minus_1 algebra_simps)
qed

lemma nat_bound_bit:
  assumes "(a::nat) < 2 ^ m" and "bit a n"
  shows "n < m"
proof (rule ccontr)
  assume "\<not> n < m"
  then have "(2::nat) ^ m \<le> 2 ^ n" by (intro power_increasing) auto
  with assms(1) have "a < 2 ^ n" by linarith
  then have "a div 2 ^ n = 0" by simp
  with assms(2) show False by (simp add: bit_iff_odd)
qed

end
