(* ===== verification/Addresses.thy ===== *)
theory Addresses
  imports Prelude
begin

unbundle bit_operations_syntax

text \<open>
  Physical and virtual addresses, frames and pages: \<open>kernel_api/src/memory/mod.rs\<close> and
  the operators of \<open>kernel_api/src/memory/type_ops.rs\<close>. The source's types are
  transparent wrappers of a \<open>usize\<close> with the alignment as a const parameter; here the
  alignment is an argument of the operations that take it.
\<close>

section \<open>Types\<close>

datatype PhysicalAddress = PhysicalAddress (paddr: usize)

datatype VirtualAddress = VirtualAddress (vaddr: usize)

datatype Frame = Frame (frame_base: PhysicalAddress)

datatype Page = Page (page_base: VirtualAddress)

datatype AllocError = AllocError

definition PAGE_SIZE :: usize where
  "PAGE_SIZE = 4096"

definition PAGE_MAP_OFFSET :: usize where
  "PAGE_MAP_OFFSET = 0xffff800000000000"

abbreviation faddr :: "Frame \<Rightarrow> usize" where
  "faddr f \<equiv> paddr (frame_base f)"

abbreviation pgaddr :: "Page \<Rightarrow> usize" where
  "pgaddr p \<equiv> vaddr (page_base p)"

text \<open>The derived orders compare the wrapped address.\<close>

instantiation Frame :: linorder
begin

definition less_eq_Frame :: "Frame \<Rightarrow> Frame \<Rightarrow> bool" where
  "less_eq_Frame f g \<longleftrightarrow> faddr f \<le> faddr g"

definition less_Frame :: "Frame \<Rightarrow> Frame \<Rightarrow> bool" where
  "less_Frame f g \<longleftrightarrow> faddr f < faddr g"

instance
  by standard (auto simp: less_eq_Frame_def less_Frame_def PhysicalAddress.expand Frame.expand)

end

instantiation Page :: linorder
begin

definition less_eq_Page :: "Page \<Rightarrow> Page \<Rightarrow> bool" where
  "less_eq_Page p q \<longleftrightarrow> pgaddr p \<le> pgaddr q"

definition less_Page :: "Page \<Rightarrow> Page \<Rightarrow> bool" where
  "less_Page p q \<longleftrightarrow> pgaddr p < pgaddr q"

instance
  by standard (auto simp: less_eq_Page_def less_Page_def VirtualAddress.expand Page.expand)

end

lemmas frame_order_defs = less_eq_Frame_def less_Frame_def
lemmas page_order_defs = less_eq_Page_def less_Page_def

section \<open>Operations of \<open>memory/mod.rs\<close>\<close>

definition phys_align_down :: "usize \<Rightarrow> PhysicalAddress \<Rightarrow> PhysicalAddress rust" where
  "phys_align_down new_align self = do {
     m \<leftarrow> usub new_align 1;
     Some (PhysicalAddress (paddr self AND usize_not m)) }"

definition phys_align_up :: "usize \<Rightarrow> PhysicalAddress \<Rightarrow> PhysicalAddress rust" where
  "phys_align_up new_align self = do {
     s \<leftarrow> uadd (paddr self) new_align;
     a \<leftarrow> usub s 1;
     phys_align_down new_align (PhysicalAddress a) }"

definition phys_new :: "usize \<Rightarrow> usize \<Rightarrow> PhysicalAddress rust" where
  "phys_new align addr = do {
     aligned \<leftarrow> phys_align_down align (PhysicalAddress addr);
     if paddr aligned \<noteq> addr then None else Some aligned }"

definition to_virtual :: "PhysicalAddress \<Rightarrow> VirtualAddress rust" where
  "to_virtual self = do { a \<leftarrow> uadd (paddr self) PAGE_MAP_OFFSET; Some (VirtualAddress a) }"

definition frame_to_page :: "Frame \<Rightarrow> Page rust" where
  "frame_to_page self = do { b \<leftarrow> to_virtual (frame_base self); Some (Page b) }"

definition frame_new :: "PhysicalAddress \<Rightarrow> Frame" where
  "frame_new b = Frame b"

definition frame_zero :: "Frame rust" where
  "frame_zero = do { a \<leftarrow> phys_new PAGE_SIZE 0; Some (frame_new a) }"

definition frame_checked_sub :: "Frame \<Rightarrow> usize \<Rightarrow> Frame option rust" where
  "frame_checked_sub self rhs = do {
     d \<leftarrow> umul rhs PAGE_SIZE;
     case usub (faddr self) d of
       Some addr \<Rightarrow> do { b \<leftarrow> phys_new PAGE_SIZE addr; Some (Some (Frame b)) }
     | None \<Rightarrow> Some None }"

definition frame_start :: "Frame \<Rightarrow> PhysicalAddress" where
  "frame_start self = frame_base self"

definition frame_end :: "Frame \<Rightarrow> PhysicalAddress rust" where
  "frame_end self = do { a \<leftarrow> uadd (faddr self) PAGE_SIZE; phys_new 4096 a }"

definition virt_align_down :: "usize \<Rightarrow> VirtualAddress \<Rightarrow> VirtualAddress rust" where
  "virt_align_down new_align self = do {
     m \<leftarrow> usub new_align 1;
     Some (VirtualAddress (vaddr self AND usize_not m)) }"

definition virt_align_up :: "usize \<Rightarrow> VirtualAddress \<Rightarrow> VirtualAddress rust" where
  "virt_align_up new_align self = do {
     s \<leftarrow> uadd (vaddr self) new_align;
     a \<leftarrow> usub s 1;
     virt_align_down new_align (VirtualAddress a) }"

definition virt_align_down_runtime :: "VirtualAddress \<Rightarrow> usize \<Rightarrow> VirtualAddress rust" where
  "virt_align_down_runtime self new_alignment = do {
     m \<leftarrow> usub new_alignment 1;
     Some (VirtualAddress (vaddr self AND usize_not m)) }"

definition virt_align_up_runtime :: "VirtualAddress \<Rightarrow> usize \<Rightarrow> VirtualAddress rust" where
  "virt_align_up_runtime self new_alignment = do {
     s \<leftarrow> uadd (vaddr self) new_alignment;
     a \<leftarrow> usub s 1;
     virt_align_down_runtime (VirtualAddress a) new_alignment }"

definition phys_align_down_runtime :: "PhysicalAddress \<Rightarrow> usize \<Rightarrow> PhysicalAddress rust" where
  "phys_align_down_runtime self new_alignment = do {
     m \<leftarrow> usub new_alignment 1;
     Some (PhysicalAddress (paddr self AND usize_not m)) }"

definition phys_align_up_runtime :: "PhysicalAddress \<Rightarrow> usize \<Rightarrow> PhysicalAddress rust" where
  "phys_align_up_runtime self new_alignment = do {
     s \<leftarrow> uadd (paddr self) new_alignment;
     a \<leftarrow> usub s 1;
     phys_align_down_runtime (PhysicalAddress a) new_alignment }"

definition virt_new :: "usize \<Rightarrow> usize \<Rightarrow> VirtualAddress rust" where
  "virt_new align addr = do {
     aligned \<leftarrow> virt_align_down align (VirtualAddress addr);
     if vaddr aligned \<noteq> addr then None else Some aligned }"

definition page_new :: "VirtualAddress \<Rightarrow> Page" where
  "page_new b = Page b"

definition page_start :: "Page \<Rightarrow> VirtualAddress" where
  "page_start self = page_base self"

definition page_end :: "Page \<Rightarrow> VirtualAddress rust" where
  "page_end self = do { a \<leftarrow> uadd (pgaddr self) PAGE_SIZE; virt_new 4096 a }"

section \<open>Operators of \<open>memory/type_ops.rs\<close>\<close>

definition uadd_signed :: "usize \<Rightarrow> int \<Rightarrow> usize option" where
  "uadd_signed a d =
     (if 0 \<le> int a + d \<and> int a + d < 2 ^ 64 then Some (nat (int a + d)) else None)"

definition phys_add :: "PhysicalAddress \<Rightarrow> usize \<Rightarrow> PhysicalAddress rust" where
  "phys_add self rhs = do { a \<leftarrow> uadd (paddr self) rhs; Some (PhysicalAddress a) }"

definition virt_add :: "VirtualAddress \<Rightarrow> usize \<Rightarrow> VirtualAddress rust" where
  "virt_add self rhs = do { a \<leftarrow> uadd (vaddr self) rhs; Some (VirtualAddress a) }"

definition virt_add_signed :: "VirtualAddress \<Rightarrow> int \<Rightarrow> VirtualAddress rust" where
  "virt_add_signed self rhs = do { a \<leftarrow> uadd_signed (vaddr self) rhs; Some (VirtualAddress a) }"

definition phys_sub :: "PhysicalAddress \<Rightarrow> usize \<Rightarrow> PhysicalAddress rust" where
  "phys_sub self rhs = do { a \<leftarrow> usub (paddr self) rhs; Some (PhysicalAddress a) }"

definition virt_sub :: "VirtualAddress \<Rightarrow> usize \<Rightarrow> VirtualAddress rust" where
  "virt_sub self rhs = do { a \<leftarrow> usub (vaddr self) rhs; Some (VirtualAddress a) }"

definition virt_diff :: "VirtualAddress \<Rightarrow> VirtualAddress \<Rightarrow> usize rust" where
  "virt_diff self rhs = usub (vaddr self) (vaddr rhs)"

definition phys_diff :: "PhysicalAddress \<Rightarrow> PhysicalAddress \<Rightarrow> usize rust" where
  "phys_diff self rhs = usub (paddr self) (paddr rhs)"

definition page_add :: "Page \<Rightarrow> usize \<Rightarrow> Page rust" where
  "page_add self rhs = do {
     d \<leftarrow> umul rhs PAGE_SIZE;
     b \<leftarrow> virt_add (page_base self) d;
     Some (Page b) }"

definition frame_add :: "Frame \<Rightarrow> usize \<Rightarrow> Frame rust" where
  "frame_add self rhs = do {
     d \<leftarrow> umul rhs PAGE_SIZE;
     b \<leftarrow> phys_add (frame_base self) d;
     Some (Frame b) }"

text \<open>The product with the page size is an \<open>isize\<close> product, which panics outside
  \<open>[-2^63, 2^63)\<close>.\<close>

definition imul_page :: "int \<Rightarrow> int rust" where
  "imul_page d = (let m = d * int PAGE_SIZE in if - (2 ^ 63) \<le> m \<and> m < 2 ^ 63 then Some m else None)"

definition page_add_signed :: "Page \<Rightarrow> int \<Rightarrow> Page rust" where
  "page_add_signed self rhs = do {
     d \<leftarrow> imul_page rhs;
     b \<leftarrow> virt_add_signed (page_base self) d;
     Some (Page b) }"

definition phys_add_signed :: "PhysicalAddress \<Rightarrow> int \<Rightarrow> PhysicalAddress rust" where
  "phys_add_signed self rhs = do { a \<leftarrow> uadd_signed (paddr self) rhs; Some (PhysicalAddress a) }"

text \<open>Negation of an \<open>isize\<close> panics at the least value.\<close>

definition ineg :: "int \<Rightarrow> int rust" where
  "ineg d = (if d = - (2 ^ 63) then None else Some (- d))"

definition virt_sub_signed :: "VirtualAddress \<Rightarrow> int \<Rightarrow> VirtualAddress rust" where
  "virt_sub_signed self rhs = do { n \<leftarrow> ineg rhs; virt_add_signed self n }"

definition phys_sub_signed :: "PhysicalAddress \<Rightarrow> int \<Rightarrow> PhysicalAddress rust" where
  "phys_sub_signed self rhs = do { n \<leftarrow> ineg rhs; phys_add_signed self n }"

definition frame_add_signed :: "Frame \<Rightarrow> int \<Rightarrow> Frame rust" where
  "frame_add_signed self rhs = do {
     d \<leftarrow> imul_page rhs;
     b \<leftarrow> phys_add_signed (frame_base self) d;
     Some (Frame b) }"

definition frame_sub_signed :: "Frame \<Rightarrow> int \<Rightarrow> Frame rust" where
  "frame_sub_signed self rhs = do {
     d \<leftarrow> imul_page rhs;
     b \<leftarrow> phys_sub_signed (frame_base self) d;
     Some (Frame b) }"

definition page_sub_signed :: "Page \<Rightarrow> int \<Rightarrow> Page rust" where
  "page_sub_signed self rhs = do {
     d \<leftarrow> imul_page rhs;
     b \<leftarrow> virt_sub_signed (page_base self) d;
     Some (Page b) }"

definition frame_sub :: "Frame \<Rightarrow> usize \<Rightarrow> Frame rust" where
  "frame_sub self rhs = do {
     d \<leftarrow> umul rhs PAGE_SIZE;
     b \<leftarrow> phys_sub (frame_base self) d;
     Some (Frame b) }"

definition page_sub :: "Page \<Rightarrow> usize \<Rightarrow> Page rust" where
  "page_sub self rhs = do {
     d \<leftarrow> umul rhs PAGE_SIZE;
     b \<leftarrow> virt_sub (page_base self) d;
     Some (Page b) }"

definition page_diff :: "Page \<Rightarrow> Page \<Rightarrow> usize rust" where
  "page_diff self rhs = do { d \<leftarrow> usub (pgaddr self) (pgaddr rhs); Some (d div PAGE_SIZE) }"

definition frame_diff :: "Frame \<Rightarrow> Frame \<Rightarrow> usize rust" where
  "frame_diff self rhs = do { d \<leftarrow> usub (faddr self) (faddr rhs); Some (d div PAGE_SIZE) }"

definition frame_steps_between :: "Frame \<Rightarrow> Frame \<Rightarrow> usize option" where
  "frame_steps_between start end =
     map_option (\<lambda>diff. diff div PAGE_SIZE) (usub (faddr end) (faddr start))"

definition frame_forward_checked :: "Frame \<Rightarrow> usize \<Rightarrow> Frame option" where
  "frame_forward_checked start count = do {
     off \<leftarrow> umul count PAGE_SIZE;
     b \<leftarrow> uadd (faddr start) off;
     p \<leftarrow> phys_new 1 b;
     Some (Frame p) }"

definition frame_backward_checked :: "Frame \<Rightarrow> usize \<Rightarrow> Frame option" where
  "frame_backward_checked start count = do {
     off \<leftarrow> umul count PAGE_SIZE;
     b \<leftarrow> usub (faddr start) off;
     p \<leftarrow> phys_new 1 b;
     Some (Frame p) }"

definition page_steps_between :: "Page \<Rightarrow> Page \<Rightarrow> usize option" where
  "page_steps_between start end =
     map_option (\<lambda>diff. diff div PAGE_SIZE) (usub (pgaddr end) (pgaddr start))"

definition page_forward_checked :: "Page \<Rightarrow> usize \<Rightarrow> Page option" where
  "page_forward_checked start count = do {
     off \<leftarrow> umul count PAGE_SIZE;
     b \<leftarrow> uadd (pgaddr start) off;
     p \<leftarrow> virt_new 1 b;
     Some (Page p) }"

definition page_backward_checked :: "Page \<Rightarrow> usize \<Rightarrow> Page option" where
  "page_backward_checked start count = do {
     off \<leftarrow> umul count PAGE_SIZE;
     b \<leftarrow> usub (pgaddr start) off;
     p \<leftarrow> virt_new 1 b;
     Some (Page p) }"

section \<open>Ranges of frames\<close>

text \<open>Frame number \<open>n\<close>; every frame the program builds with \<open>PhysicalAddress::new\<close> has
  this form.\<close>

abbreviation frame_at :: "nat \<Rightarrow> Frame" where
  "frame_at n \<equiv> Frame (PhysicalAddress (n * 4096))"

abbreviation page_at :: "nat \<Rightarrow> Page" where
  "page_at n \<equiv> Page (VirtualAddress (n * 4096))"

text \<open>The values a \<open>Range<Frame>\<close> yields: \<open>next\<close> steps by one page while \<open>start < end\<close>.\<close>

function frame_range :: "Frame \<Rightarrow> Frame \<Rightarrow> Frame list" where
  "frame_range a b =
     (if a < b then a # frame_range (Frame (PhysicalAddress (faddr a + 4096))) b else [])"
  by pat_completeness auto
termination
  by (relation "measure (\<lambda>(a, b). faddr b - faddr a)") (auto simp: less_Frame_def)

declare frame_range.simps [simp del]

lemma frame_range_frame_at: "frame_range (frame_at m) (frame_at n) = map frame_at [m..<n]"
proof (induction "n - m" arbitrary: m)
  case 0
  then show ?case by (subst frame_range.simps) (auto simp: less_Frame_def)
next
  case (Suc k)
  then have "frame_range (frame_at (Suc m)) (frame_at n) = map frame_at [Suc m..<n]"
    by (metis Suc_diff_Suc diff_Suc_Suc diff_diff_left nat.inject plus_1_eq_Suc zero_less_Suc zero_less_diff)
  moreover have "m < n" using Suc.hyps(2) by simp
  ultimately show ?case
    by (subst frame_range.simps)
      (simp add: less_Frame_def upt_conv_Cons add.commute del: upt.simps)
qed

section \<open>Alignment\<close>

lemma and_usize_not_pow2:
  assumes "k \<le> 64" and "a < USIZE_BOUND"
  shows "a AND usize_not (2 ^ k - 1) = a - a mod 2 ^ k"
proof -
  have "a AND usize_not (2 ^ k - 1) = push_bit k (drop_bit k a)"
  proof (rule bit_eqI)
    fix n
    show "bit (a AND usize_not (2 ^ k - 1)) n = bit (push_bit k (drop_bit k a)) n"
      unfolding nat_mask_shift [OF assms(1)]
      using nat_bound_bit [OF assms(2), of n]
      by (auto simp: bit_and_iff bit_push_bit_iff bit_drop_bit_eq bit_mask_iff)
  qed
  then show ?thesis
    by (simp add: push_bit_eq_mult drop_bit_eq_div minus_mod_eq_div_mult)
qed

lemma phys_align_down_pow2:
  assumes "k \<le> 64" and "a < USIZE_BOUND"
  shows "phys_align_down (2 ^ k) (PhysicalAddress a) = Some (PhysicalAddress (a - a mod 2 ^ k))"
  using and_usize_not_pow2 [OF assms] by (simp add: phys_align_down_def rust_simps)

lemma virt_align_down_pow2:
  assumes "k \<le> 64" and "a < USIZE_BOUND"
  shows "virt_align_down (2 ^ k) (VirtualAddress a) = Some (VirtualAddress (a - a mod 2 ^ k))"
  using and_usize_not_pow2 [OF assms] by (simp add: virt_align_down_def rust_simps)

lemmas and_usize_not_page = and_usize_not_pow2 [of 12, simplified]
lemmas phys_align_down_page = phys_align_down_pow2 [of 12, simplified]
lemmas virt_align_down_page = virt_align_down_pow2 [of 12, simplified]
lemmas phys_align_down_one = phys_align_down_pow2 [of 0, simplified]

lemma mod_page_iff: "a - a mod 4096 = a \<longleftrightarrow> a mod 4096 = (0::nat)"
  by (metis diff_zero mod_less_eq_dividend le_add_diff_inverse2 add_cancel_right_right)

lemma phys_new_page:
  "a < USIZE_BOUND \<Longrightarrow> phys_new PAGE_SIZE a = (if a mod 4096 = 0 then Some (PhysicalAddress a) else None)"
  by (simp add: phys_new_def PAGE_SIZE_def phys_align_down_page mod_page_iff)

lemma phys_new_one: "a < USIZE_BOUND \<Longrightarrow> phys_new 1 a = Some (PhysicalAddress a)"
  using phys_align_down_one by (simp add: phys_new_def)

lemma virt_new_page:
  "a < USIZE_BOUND \<Longrightarrow> virt_new PAGE_SIZE a = (if a mod 4096 = 0 then Some (VirtualAddress a) else None)"
  by (simp add: virt_new_def PAGE_SIZE_def virt_align_down_page mod_page_iff)

lemma frame_zero_eq [simp]: "frame_zero = Some (frame_at 0)"
  by (simp add: frame_zero_def phys_new_page frame_new_def)

section \<open>Arithmetic on frames and pages\<close>

lemma frame_add_at [simp]:
  "frame_add (frame_at k) n = (if (k + n) * 4096 < USIZE_BOUND then Some (frame_at (k + n)) else None)"
  by (auto simp: frame_add_def phys_add_def PAGE_SIZE_def rust_simps algebra_simps)

lemma frame_add_eq_Some:
  "frame_add f n = Some g \<longleftrightarrow> faddr g = faddr f + n * 4096 \<and> faddr f + n * 4096 < USIZE_BOUND"
  by (cases f; cases g; cases "frame_base f"; cases "frame_base g")
    (auto simp: frame_add_def phys_add_def PAGE_SIZE_def rust_simps split: Option.bind_splits)

lemma page_add_eq_Some:
  "page_add p n = Some q \<longleftrightarrow> pgaddr q = pgaddr p + n * 4096 \<and> pgaddr p + n * 4096 < USIZE_BOUND"
  by (cases p; cases q; cases "page_base p"; cases "page_base q")
    (auto simp: page_add_def virt_add_def PAGE_SIZE_def rust_simps split: Option.bind_splits)

lemma frame_diff_at [simp]:
  "frame_diff (frame_at m) (frame_at n) = (if n \<le> m then Some (m - n) else None)"
  by (auto simp: frame_diff_def PAGE_SIZE_def rust_simps simp flip: diff_mult_distrib)

lemma frame_at_less_iff [simp]: "frame_at m < frame_at n \<longleftrightarrow> m < n"
  by (simp add: less_Frame_def)

lemma frame_at_le_iff [simp]: "frame_at m \<le> frame_at n \<longleftrightarrow> m \<le> n"
  by (simp add: less_eq_Frame_def)

lemma page_at_less_iff [simp]: "page_at m < page_at n \<longleftrightarrow> m < n"
  by (simp add: less_Page_def)

lemma page_at_le_iff [simp]: "page_at m \<le> page_at n \<longleftrightarrow> m \<le> n"
  by (simp add: less_eq_Page_def)

lemma frame_checked_sub_at [simp]:
  assumes "k * 4096 < USIZE_BOUND"
  shows "frame_checked_sub (frame_at k) n =
    (if USIZE_BOUND \<le> n * 4096 then None else if n \<le> k then Some (Some (frame_at (k - n))) else Some None)"
proof -
  have "(k - n) * 4096 < USIZE_BOUND"
    by (rule le_less_trans [OF _ assms]) simp
  then show ?thesis
    using assms phys_new_page [of "(k - n) * 4096"]
    by (auto simp: frame_checked_sub_def PAGE_SIZE_def rust_simps simp flip: diff_mult_distrib)
qed

section \<open>Properties\<close>

text \<open>For every power-of-two alignment \<open>align_down\<close> never panics and returns the
  greatest multiple of the alignment that is not above the address.\<close>

theorem align_down_greatest:
  assumes "k < 64" and "a < USIZE_BOUND"
  shows "\<exists>d. phys_align_down (2 ^ k) (PhysicalAddress a) = Some (PhysicalAddress d) \<and>
    2 ^ k dvd d \<and> d \<le> a \<and> (\<forall>e. 2 ^ k dvd e \<longrightarrow> e \<le> a \<longrightarrow> e \<le> d)"
proof -
  have "e \<le> a - a mod 2 ^ k" if "2 ^ k dvd e" "e \<le> a" for e
  proof -
    from that(1) obtain q where q: "e = q * 2 ^ k" by (auto elim: dvdE)
    with that(2) have "q \<le> a div 2 ^ k" by (simp add: less_eq_div_iff_mult_less_eq)
    with q show ?thesis by (simp add: minus_mod_eq_div_mult)
  qed
  then show ?thesis
    using assms phys_align_down_pow2 [of k a] by (auto simp: minus_mod_eq_div_mult)
qed

theorem align_down_greatest_witness:
  "(12::nat) < 64 \<and> (0x1567::nat) < USIZE_BOUND \<and>
   (\<exists>d. phys_align_down (2 ^ 12) (PhysicalAddress 0x1567) = Some (PhysicalAddress d) \<and>
     2 ^ 12 dvd d \<and> d \<le> 0x1567 \<and> (\<forall>e. 2 ^ 12 dvd e \<longrightarrow> e \<le> 0x1567 \<longrightarrow> e \<le> d))"
proof -
  have h: "(12::nat) < 64" "(0x1567::nat) < USIZE_BOUND" by simp_all
  show ?thesis using h align_down_greatest [OF h] by blast
qed

text \<open>\<open>align_up\<close> returns the least multiple of the alignment that is not below the
  address, and panics exactly when adding the whole alignment overflows.\<close>

theorem align_up_least:
  assumes "k < 64" and "a < USIZE_BOUND"
  shows "if a + 2 ^ k < USIZE_BOUND
    then \<exists>d. virt_align_up (2 ^ k) (VirtualAddress a) = Some (VirtualAddress d) \<and>
      2 ^ k dvd d \<and> a \<le> d \<and> (\<forall>e. 2 ^ k dvd e \<longrightarrow> a \<le> e \<longrightarrow> d \<le> e)
    else virt_align_up (2 ^ k) (VirtualAddress a) = None"
proof (cases "a + 2 ^ k < USIZE_BOUND")
  case True
  define s where "s = a + 2 ^ k - 1"
  define d where "d = s - s mod 2 ^ k"
  have "virt_align_up (2 ^ k) (VirtualAddress a) = Some (VirtualAddress d)"
    using True assms virt_align_down_pow2 [of k s]
    by (simp add: virt_align_up_def rust_simps s_def d_def Suc_le_eq)
  moreover have "2 ^ k dvd d" by (simp add: d_def minus_mod_eq_div_mult)
  moreover have "a \<le> d"
  proof -
    have "s mod 2 ^ k < 2 ^ k" by simp
    moreover have "s mod 2 ^ k \<le> s" by simp
    ultimately show ?thesis unfolding d_def s_def by linarith
  qed
  moreover have "d \<le> e" if e: "2 ^ k dvd e" "a \<le> e" for e
  proof (rule ccontr)
    assume "\<not> d \<le> e"
    moreover have "2 ^ k dvd d - e" using \<open>2 ^ k dvd d\<close> e(1) by simp
    ultimately have "2 ^ k \<le> d - e" by (intro dvd_imp_le) auto
    moreover have "d \<le> s" by (simp add: d_def)
    moreover have "(0::nat) < 2 ^ k" by simp
    ultimately show False using e(2) unfolding s_def by linarith
  qed
  ultimately show ?thesis using True by auto
next
  case False
  then show ?thesis by (simp add: virt_align_up_def rust_simps)
qed

theorem align_up_least_witness:
  "(12::nat) < 64 \<and> (0x1567::nat) < USIZE_BOUND \<and>
   (\<exists>d. virt_align_up (2 ^ 12) (VirtualAddress 0x1567) = Some (VirtualAddress d) \<and>
      2 ^ 12 dvd d \<and> 0x1567 \<le> d \<and> (\<forall>e. 2 ^ 12 dvd e \<longrightarrow> 0x1567 \<le> e \<longrightarrow> d \<le> e))"
proof -
  have h: "(12::nat) < 64" "(0x1567::nat) < USIZE_BOUND" by simp_all
  have b: "(0x1567::nat) + 2 ^ 12 < USIZE_BOUND" by simp
  show ?thesis using h b align_up_least [OF h] by presburger
qed

text \<open>Frame arithmetic is exact where it does not panic: moving \<open>n\<close> frames up, the
  distance back is \<open>n\<close>, moving down and stepping back return the frame, and the range
  between the two frames yields exactly \<open>n\<close> frames.\<close>

theorem frame_add_round_trip:
  assumes "frame_add f n = Some g"
  shows "frame_diff g f = Some n \<and> frame_sub g n = Some f \<and> frame_steps_between f g = Some n \<and>
    frame_forward_checked f n = Some g \<and> frame_backward_checked g n = Some f"
proof -
  from assms have g: "faddr g = faddr f + n * 4096" and b: "faddr f + n * 4096 < USIZE_BOUND"
    by (auto simp: frame_add_eq_Some)
  have f: "f = Frame (PhysicalAddress (faddr f))" by simp
  have g': "g = Frame (PhysicalAddress (faddr f + n * 4096))"
    using g by (metis Frame.exhaust_sel PhysicalAddress.exhaust_sel)
  from b have "faddr f < USIZE_BOUND" "n * 4096 < USIZE_BOUND" by simp_all
  then show ?thesis
    using b f phys_new_one
    by (simp add: g' frame_diff_def frame_sub_def phys_sub_def frame_steps_between_def
        frame_forward_checked_def frame_backward_checked_def PAGE_SIZE_def rust_simps)
qed

theorem frame_add_round_trip_witness:
  "frame_add (frame_at 3) 5 = Some (frame_at 8) \<and>
   frame_diff (frame_at 8) (frame_at 3) = Some 5 \<and> frame_sub (frame_at 8) 5 = Some (frame_at 3) \<and>
   frame_steps_between (frame_at 3) (frame_at 8) = Some 5 \<and>
   frame_forward_checked (frame_at 3) 5 = Some (frame_at 8) \<and>
   frame_backward_checked (frame_at 8) 5 = Some (frame_at 3)"
proof -
  have h: "frame_add (frame_at 3) 5 = Some (frame_at 8)" by (simp add: frame_add_eq_Some)
  show ?thesis using h frame_add_round_trip [OF h] by blast
qed

text \<open>The alignment at run time is the one at compile time.\<close>

lemma virt_align_up_runtime_eq: "virt_align_up_runtime a n = virt_align_up n a"
  by (simp add: virt_align_up_runtime_def virt_align_up_def virt_align_down_runtime_def virt_align_down_def)

lemma phys_align_up_runtime_eq: "phys_align_up_runtime a n = phys_align_up n a"
  by (simp add: phys_align_up_runtime_def phys_align_up_def phys_align_down_runtime_def phys_align_down_def)

text \<open>Moving by a signed number of frames and back.\<close>

lemma frame_signed_round_trip:
  assumes "frame_add_signed f d = Some g" and "faddr f < USIZE_BOUND" and "d * 4096 \<noteq> - (2 ^ 63)"
  shows "frame_sub_signed g d = Some f"
  using assms
  by (cases f; cases "frame_base f")
    (auto simp: frame_add_signed_def frame_sub_signed_def phys_add_signed_def phys_sub_signed_def ineg_def
      uadd_signed_def imul_page_def PAGE_SIZE_def Let_def split: if_splits)

lemma page_forward_backward:
  assumes "page_forward_checked p n = Some q" and "pgaddr p < USIZE_BOUND"
  shows "page_backward_checked q n = Some p" and "page_steps_between p q = Some n"
proof -
  have one: "virt_new 1 a = Some (VirtualAddress a)" if "a < USIZE_BOUND" for a
    using virt_align_down_pow2 [of 0 a] that by (simp add: virt_new_def)
  from assms one show "page_backward_checked q n = Some p" "page_steps_between p q = Some n"
    by (cases p; cases "page_base p";
        auto simp: page_forward_checked_def page_backward_checked_def page_steps_between_def PAGE_SIZE_def
          split: Option.bind_splits)+
qed

end
