(* ===== verification/Backing_Allocator.thy ===== *)
theory Backing_Allocator
  imports Addresses
begin

text \<open>
  The physical allocator interface, \<open>kernel_api/src/memory/allocator.rs\<close>: the location
  types, the provided methods of the trait \<open>BackingAllocator\<close> as functions of the
  required method \<open>allocate_contiguous\<close>, and the contract of an implementation as
  locales. \<open>frame_source\<close> is what every allocator promises while its requests succeed;
  \<open>frame_pool\<close> adds that requests fail only when no run of frames is left and that
  returned frames become available again. The lemmas its clients need are proved once in
  the locales.
\<close>

section \<open>The trait\<close>

type_synonym alloc_result = "(AllocError, Frame) result"
type_synonym 's allocate_fn = "usize \<Rightarrow> 's \<Rightarrow> (alloc_result \<times> 's) rust"

datatype ZeroAllocError = ZeroAllocFailed | Uninit Frame

datatype SpecificLocation = Aligned nat | At Frame | Below Frame nat

datatype Location = Any | Specific SpecificLocation

text \<open>\<open>Config\<close> and \<open>AllocationMeta\<close>: half-open ranges of frames are pairs.\<close>

record Config =
  allocation_range :: "Frame \<times> Frame"
  regions :: "(Frame \<times> Frame) list"

record AllocationMeta =
  region :: "Frame \<times> Frame"

definition AllocationMeta_new :: "Frame \<times> Frame \<Rightarrow> AllocationMeta" where
  "AllocationMeta_new r = \<lparr>region = r\<rparr>"

definition trait_allocate ::
  "'s allocate_fn \<Rightarrow> usize \<Rightarrow> 's \<Rightarrow> ((AllocError, Frame \<times> Frame) result \<times> 's) rust" where
  "trait_allocate alloc frame_count s = do {
     (r, s') \<leftarrow> alloc frame_count s;
     case r of
       Inl e \<Rightarrow> Some (Inl e, s')
     | Inr b \<Rightarrow> do { e \<leftarrow> frame_add b frame_count; Some (Inr (b, e), s') } }"

definition trait_allocate_one :: "'s allocate_fn \<Rightarrow> 's \<Rightarrow> (alloc_result \<times> 's) rust" where
  "trait_allocate_one alloc s = do {
     (r, s') \<leftarrow> trait_allocate alloc 1 s;
     case r of
       Inl e \<Rightarrow> Some (Inl e, s')
     | Inr (b, e) \<Rightarrow>
         (case frame_range b e of [] \<Rightarrow> None | f # _ \<Rightarrow> Some (Inr f, s')) }"

definition trait_try_allocate_zeroed ::
  "'s allocate_fn \<Rightarrow> usize \<Rightarrow> 's \<Rightarrow> ((ZeroAllocError, Frame) result \<times> 's) rust" where
  "trait_try_allocate_zeroed alloc frame_count s = do {
     (r, s') \<leftarrow> alloc frame_count s;
     Some (case r of Inl _ \<Rightarrow> Inl ZeroAllocFailed | Inr f \<Rightarrow> Inl (Uninit f), s') }"

text \<open>\<open>write_bytes\<close> through the physical page map: memory is a function of the virtual
  address.\<close>

definition do_zero :: "Frame \<Rightarrow> usize \<Rightarrow> (usize \<Rightarrow> u8) \<Rightarrow> (usize \<Rightarrow> u8) rust" where
  "do_zero frame frame_count mem = do {
     page \<leftarrow> frame_to_page frame;
     len \<leftarrow> umul frame_count PAGE_SIZE;
     Some (\<lambda>a. if pgaddr page \<le> a \<and> a < pgaddr page + len then 0 else mem a) }"

definition trait_allocate_zeroed ::
  "'s allocate_fn \<Rightarrow> usize \<Rightarrow> 's \<times> (usize \<Rightarrow> u8) \<Rightarrow> (alloc_result \<times> 's \<times> (usize \<Rightarrow> u8)) rust" where
  "trait_allocate_zeroed alloc frame_count sm = do {
     (r, s') \<leftarrow> trait_try_allocate_zeroed alloc frame_count (fst sm);
     case r of
       Inr frame \<Rightarrow> Some (Inr frame, s', snd sm)
     | Inl ZeroAllocFailed \<Rightarrow> Some (Inl AllocError, s', snd sm)
     | Inl (Uninit frame) \<Rightarrow> do {
         mem' \<leftarrow> do_zero frame frame_count (snd sm);
         Some (Inr frame, s', mem') } }"

section \<open>The contract\<close>

text \<open>A sequence of requests, each of which succeeds.\<close>

fun alloc_all :: "'s allocate_fn \<Rightarrow> usize list \<Rightarrow> 's \<Rightarrow> (Frame list \<times> 's) option" where
  "alloc_all alloc [] s = Some ([], s)"
| "alloc_all alloc (n # ns) s =
     (case alloc n s of
        Some (Inr f, s') \<Rightarrow> map_option (\<lambda>(fs, t). (f # fs, t)) (alloc_all alloc ns s')
      | _ \<Rightarrow> None)"

text \<open>The frame numbers of an allocation of \<open>n\<close> frames at \<open>f\<close>.\<close>

definition frames_of :: "Frame \<Rightarrow> usize \<Rightarrow> nat set" where
  "frames_of f n = {faddr f div 4096 ..< faddr f div 4096 + n}"

lemma frames_of_at [simp]: "frames_of (frame_at m) n = {m..<m + n}"
  by (simp add: frames_of_def)

text \<open>Lists of regions by frame numbers.\<close>

definition frame_ranges :: "(nat \<times> nat) list \<Rightarrow> (Frame \<times> Frame) list" where
  "frame_ranges rs = map (\<lambda>(l, h). (frame_at l, frame_at h)) rs"

definition range_union :: "(nat \<times> nat) list \<Rightarrow> nat set" where
  "range_union rs = (\<Union>(l, h) \<in> set rs. {l..<h})"

lemma range_union_simps [simp]:
  "range_union [] = {}" "range_union ((l, h) # rs) = {l..<h} \<union> range_union rs"
  by (simp_all add: range_union_def)

lemma range_union_append [simp]: "range_union (rs @ qs) = range_union rs \<union> range_union qs"
  by (auto simp: range_union_def)

locale frame_source =
  fixes inv :: "'s \<Rightarrow> bool"
    and free :: "'s \<Rightarrow> nat set"
    and alloc :: "'s allocate_fn"
  assumes alloc_ok:
    "inv s \<Longrightarrow> 0 < n \<Longrightarrow> alloc n s = Some (Inr f, s') \<Longrightarrow>
      inv s' \<and> faddr f mod 4096 = 0 \<and> faddr f + n * 4096 < USIZE_BOUND \<and>
      frames_of f n \<subseteq> free s \<and> free s' \<subseteq> free s - frames_of f n"
begin

lemma alloc_all_inv:
  assumes "inv s" and "\<forall>n \<in> set ns. 0 < n" and "alloc_all alloc ns s = Some (fs, s')"
  shows "inv s' \<and> free s' \<subseteq> free s \<and> length fs = length ns"
  using assms
proof (induction ns arbitrary: s fs)
  case Nil
  then show ?case by simp
next
  case (Cons n ns)
  then obtain f t gs where a: "alloc n s = Some (Inr f, t)"
    and r: "alloc_all alloc ns t = Some (gs, s')" and fs: "fs = f # gs"
    by (auto split: option.splits sum.splits)
  from Cons.prems have "0 < n" by simp
  note ok = alloc_ok [OF Cons.prems(1) this a]
  then have "inv t" by simp
  from Cons.IH [OF this _ r] Cons.prems(2) have "inv s' \<and> free s' \<subseteq> free t \<and> length gs = length ns"
    by simp
  with ok fs show ?case by auto
qed

lemma alloc_all_subset:
  assumes "inv s" and "\<forall>n \<in> set ns. 0 < n" and "alloc_all alloc ns s = Some (fs, s')"
    and "i < length ns"
  shows "frames_of (fs ! i) (ns ! i) \<subseteq> free s - free s'"
  using assms
proof (induction ns arbitrary: s fs i)
  case Nil
  then show ?case by simp
next
  case (Cons n ns)
  then obtain f t gs where a: "alloc n s = Some (Inr f, t)"
    and r: "alloc_all alloc ns t = Some (gs, s')" and fs: "fs = f # gs"
    by (auto split: option.splits sum.splits)
  from Cons.prems have "0 < n" by simp
  note ok = alloc_ok [OF Cons.prems(1) this a]
  then have t: "inv t" by simp
  have sub: "free s' \<subseteq> free t" using alloc_all_inv [OF t _ r] Cons.prems(2) by simp
  show ?case
  proof (cases i)
    case 0
    with ok fs sub show ?thesis by auto
  next
    case (Suc j)
    with Cons.IH [OF t _ r, of j] Cons.prems fs ok show ?thesis by auto
  qed
qed

text \<open>No frame is handed out twice.\<close>

lemma alloc_all_disjoint:
  assumes "inv s" and "\<forall>n \<in> set ns. 0 < n" and "alloc_all alloc ns s = Some (fs, s')"
    and "i < j" and "j < length ns"
  shows "frames_of (fs ! i) (ns ! i) \<inter> frames_of (fs ! j) (ns ! j) = {}"
  using assms
proof (induction ns arbitrary: s fs i j)
  case Nil
  then show ?case by simp
next
  case (Cons n ns)
  then obtain f t gs where a: "alloc n s = Some (Inr f, t)"
    and r: "alloc_all alloc ns t = Some (gs, s')" and fs: "fs = f # gs"
    by (auto split: option.splits sum.splits)
  from Cons.prems have "0 < n" by simp
  note ok = alloc_ok [OF Cons.prems(1) this a]
  then have t: "inv t" by simp
  from Cons.prems obtain j' where j: "j = Suc j'" "j' < length ns" by (cases j) auto
  show ?case
  proof (cases i)
    case 0
    have "frames_of (gs ! j') (ns ! j') \<subseteq> free t - free s'"
      using alloc_all_subset [OF t _ r j(2)] Cons.prems(2) by simp
    with ok 0 j fs show ?thesis by auto
  next
    case (Suc i')
    with Cons.IH [OF t _ r, of i' j'] Cons.prems fs j show ?thesis by simp
  qed
qed

text \<open>The provided methods keep the contract.\<close>

lemma trait_allocate_one_ok:
  assumes "inv s" and "trait_allocate_one alloc s = Some (Inr f, s')"
  shows "alloc 1 s = Some (Inr f, s')"
proof -
  from assms(2) obtain g e where a: "alloc 1 s = Some (Inr g, s')" and e: "frame_add g 1 = Some e"
    and fr: "(case frame_range g e of [] \<Rightarrow> None | f # _ \<Rightarrow> Some (Inr f, s')) = Some (Inr f, s')"
    by (auto simp: trait_allocate_one_def trait_allocate_def split: Option.bind_splits sum.splits list.splits)
  from e have "faddr e = faddr g + 4096" by (simp add: frame_add_eq_Some)
  then have "g < e" by (simp add: less_Frame_def)
  with fr have "f = g" by (simp add: frame_range.simps [of g e])
  with a show ?thesis by simp
qed

lemma trait_allocate_one_total:
  assumes "inv s" and "alloc 1 s = Some (r, s')"
  shows "trait_allocate_one alloc s = Some (r, s')"
proof (cases r)
  case (Inl e)
  with assms(2) show ?thesis by (simp add: trait_allocate_one_def trait_allocate_def)
next
  case (Inr f)
  with assms alloc_ok [of s 1 f s'] have b: "faddr f + 1 * 4096 < USIZE_BOUND" by simp
  define g where "g = Frame (PhysicalAddress (faddr f + 4096))"
  have "frame_add f 1 = Some g" using b by (simp add: frame_add_eq_Some g_def)
  moreover have "f < g" by (simp add: g_def less_Frame_def)
  ultimately show ?thesis
    using assms(2) Inr
    by (simp add: trait_allocate_one_def trait_allocate_def frame_range.simps [of f g])
qed

end

text \<open>\<open>dealloc\<close> is \<open>deallocate_contiguous\<close>; \<open>managed\<close> is the set of frames the allocator
  answers for, which no operation changes.\<close>

locale frame_pool = frame_source inv free alloc
  for inv :: "'s \<Rightarrow> bool" and free :: "'s \<Rightarrow> nat set" and alloc :: "'s allocate_fn" +
  fixes managed :: "'s \<Rightarrow> nat set"
    and dealloc :: "Frame \<Rightarrow> usize \<Rightarrow> 's \<Rightarrow> 's rust"
  assumes alloc_total: "inv s \<Longrightarrow> 0 < n \<Longrightarrow> \<exists>r s'. alloc n s = Some (r, s')"
    and alloc_exact:
      "inv s \<Longrightarrow> 0 < n \<Longrightarrow> alloc n s = Some (Inr f, s') \<Longrightarrow>
        free s' = free s - frames_of f n \<and> managed s' = managed s"
    and alloc_err:
      "inv s \<Longrightarrow> 0 < n \<Longrightarrow> alloc n s = Some (Inl e, s') \<Longrightarrow>
        s' = s \<and> \<not> (\<exists>m. {m..<m + n} \<subseteq> free s)"
    and free_managed: "inv s \<Longrightarrow> free s \<subseteq> managed s"
    and dealloc_ok:
      "inv s \<Longrightarrow> faddr f mod 4096 = 0 \<Longrightarrow> frames_of f n \<subseteq> managed s \<Longrightarrow> 0 < n \<Longrightarrow>
        \<exists>s'. dealloc f n s = Some s' \<and> inv s' \<and> free s' = free s \<union> frames_of f n \<and>
          managed s' = managed s"
begin

text \<open>An allocation succeeds exactly when a free run of the requested length exists.\<close>

lemma alloc_succeeds_iff:
  assumes "inv s" and "0 < n"
  shows "(\<exists>f s'. alloc n s = Some (Inr f, s')) \<longleftrightarrow> (\<exists>m. {m..<m + n} \<subseteq> free s)"
proof
  assume "\<exists>f s'. alloc n s = Some (Inr f, s')"
  with assms alloc_ok show "\<exists>m. {m..<m + n} \<subseteq> free s" unfolding frames_of_def by blast
next
  assume r: "\<exists>m. {m..<m + n} \<subseteq> free s"
  from alloc_total [OF assms] obtain r s' where a: "alloc n s = Some (r, s')" by blast
  show "\<exists>f s'. alloc n s = Some (Inr f, s')"
  proof (cases r)
    case (Inl e)
    with a alloc_err [OF assms] r show ?thesis by blast
  next
    case (Inr f)
    with a show ?thesis by blast
  qed
qed

text \<open>Returning an allocation restores the pool.\<close>

lemma alloc_dealloc:
  assumes "inv s" and "0 < n" and "alloc n s = Some (Inr f, s')"
  shows "\<exists>t. dealloc f n s' = Some t \<and> inv t \<and> free t = free s \<and> managed t = managed s"
proof -
  from alloc_ok [OF assms] alloc_exact [OF assms] have
    ok: "inv s'" "faddr f mod 4096 = 0" "frames_of f n \<subseteq> free s"
      "free s' = free s - frames_of f n" "managed s' = managed s" by auto
  with free_managed [OF assms(1)] have "frames_of f n \<subseteq> managed s'" by auto
  from dealloc_ok [OF ok(1,2) this assms(2)] ok show ?thesis by auto
qed

end

end
