(* ===== verification/Page_Entry.thy ===== *)
theory Page_Entry
  imports Backing_Allocator
begin

unbundle bit_operations_syntax

text \<open>
  Entries of the amd64 page tables (\<open>kernel/src/hal/arch/amd64/paging.rs\<close>) and the four indices of a
  page (\<open>kernel/src/hal/arch/amd64/paging2/table.rs\<close>). An entry is its 64-bit word. A frame survives
  the round trip through an entry when its address fits the address field, and the indices
  determine the page up to the bits above bit 47.
\<close>

section \<open>Entries\<close>

definition PRESENT :: u64 where
  "PRESENT = push_bit 0 1"

definition WRITABLE :: u64 where
  "WRITABLE = push_bit 1 1"

definition ADDRESS :: u64 where
  "ADDRESS = 0x0ffffffffffff000"

definition entry_empty :: u64 where
  "entry_empty = 0"

definition is_present :: "u64 \<Rightarrow> bool" where
  "is_present e \<longleftrightarrow> e AND PRESENT = PRESENT"

definition is_used :: "u64 \<Rightarrow> bool" where
  "is_used e = is_present e"

definition pointed_frame :: "u64 \<Rightarrow> Frame option rust" where
  "pointed_frame e =
    (if \<not> is_present e then Some None
     else do { a \<leftarrow> phys_new PAGE_SIZE (unat (e AND ADDRESS)); Some (Some (frame_new a)) })"

definition point_to_frame :: "u64 \<Rightarrow> Frame \<Rightarrow> (unit, u64) result" where
  "point_to_frame e frame =
    (if is_present e then Inl ()
     else let empty_entry = e AND NOT ADDRESS;
              masked_addr = of_nat (paddr (frame_start frame)) AND ADDRESS
       in Inr (empty_entry OR masked_addr OR PRESENT OR WRITABLE))"

section \<open>Indices\<close>

text \<open>The masks are octal in the source: three sevens followed by 13, 10, 7 and 4 zeros.\<close>

definition PML4_MASK :: usize where "PML4_MASK = 0x1ff * 8 ^ 13"
definition PML4_SHIFT :: nat where "PML4_SHIFT = 12 + 9 * 3"
definition PDPT_MASK :: usize where "PDPT_MASK = 0x1ff * 8 ^ 10"
definition PDPT_SHIFT :: nat where "PDPT_SHIFT = 12 + 9 * 2"
definition PD_MASK :: usize where "PD_MASK = 0x1ff * 8 ^ 7"
definition PD_SHIFT :: nat where "PD_SHIFT = 12 + 9 * 1"
definition PT_MASK :: usize where "PT_MASK = 0x1ff * 8 ^ 4"
definition PT_SHIFT :: nat where "PT_SHIFT = 12 + 9 * 0"

definition pml4_index :: "Page \<Rightarrow> usize" where
  "pml4_index page = drop_bit PML4_SHIFT (vaddr (page_start page) AND PML4_MASK)"

definition pdpt_index :: "Page \<Rightarrow> usize" where
  "pdpt_index page = drop_bit PDPT_SHIFT (vaddr (page_start page) AND PDPT_MASK)"

definition pd_index :: "Page \<Rightarrow> usize" where
  "pd_index page = drop_bit PD_SHIFT (vaddr (page_start page) AND PD_MASK)"

definition pt_index :: "Page \<Rightarrow> usize" where
  "pt_index page = drop_bit PT_SHIFT (vaddr (page_start page) AND PT_MASK)"

section \<open>Lemmas\<close>

lemma masked_index: "drop_bit k (a AND (0x1ff * 2 ^ k)) = a div 2 ^ k mod 512" for a :: nat
proof -
  have m: "0x1ff * 2 ^ k = push_bit k (mask 9 :: nat)" by (simp add: push_bit_eq_mult mask_eq_exp_minus_1)
  have "drop_bit k (a AND push_bit k (mask 9)) = take_bit 9 (drop_bit k a)"
    by (rule bit_eqI) (auto simp: bit_simps)
  then show ?thesis unfolding m by (simp add: take_bit_eq_mod drop_bit_eq_div)
qed

lemma index_div:
  "pml4_index page = pgaddr page div 2 ^ 39 mod 512" "pdpt_index page = pgaddr page div 2 ^ 30 mod 512"
  "pd_index page = pgaddr page div 2 ^ 21 mod 512" "pt_index page = pgaddr page div 2 ^ 12 mod 512"
  using masked_index [of 39 "pgaddr page"] masked_index [of 30 "pgaddr page"]
    masked_index [of 21 "pgaddr page"] masked_index [of 12 "pgaddr page"]
  by (simp_all add: pml4_index_def pdpt_index_def pd_index_def pt_index_def page_start_def
      PML4_MASK_def PML4_SHIFT_def PDPT_MASK_def PDPT_SHIFT_def PD_MASK_def PD_SHIFT_def PT_MASK_def PT_SHIFT_def)

lemma index_bound [simp]:
  "pml4_index page < 512" "pdpt_index page < 512" "pd_index page < 512" "pt_index page < 512"
  by (simp_all add: index_div)

text \<open>The address of a page below bit 48 from its indices.\<close>

lemma page_of_indices:
  assumes "pgaddr page mod 4096 = 0"
  shows "pgaddr page mod 2 ^ 48 = ((pml4_index page * 512 + pdpt_index page) * 512 + pd_index page) * 512 * 4096
    + pt_index page * 4096"
proof -
  have split: "a mod (512 * m) = a div m mod 512 * m + a mod m" for a m :: nat
    by (metis add.commute mod_mult2_eq mult.commute)
  have "pgaddr page mod 2 ^ 48 = pgaddr page mod (512 * 2 ^ 39)" by simp
  also have "\<dots> = pml4_index page * 2 ^ 39 + pgaddr page mod (512 * 2 ^ 30)"
    by (simp only: split [of _ "2 ^ 39"] index_div) simp
  also have "\<dots> = pml4_index page * 2 ^ 39 + (pdpt_index page * 2 ^ 30 + pgaddr page mod (512 * 2 ^ 21))"
    by (simp only: split [of _ "2 ^ 30"] index_div) simp
  also have "\<dots> = pml4_index page * 2 ^ 39 + (pdpt_index page * 2 ^ 30 + (pd_index page * 2 ^ 21 +
      pgaddr page mod (512 * 2 ^ 12)))"
    by (simp only: split [of _ "2 ^ 21"] index_div) simp
  also have "pgaddr page mod (512 * 2 ^ 12) = pt_index page * 4096"
    by (simp only: split [of _ "2 ^ 12"] index_div) (simp add: assms)
  finally show ?thesis by simp
qed

lemma indices_inject:
  assumes "pgaddr p mod 4096 = 0" and "pgaddr q mod 4096 = 0" and "pgaddr p div 2 ^ 48 = pgaddr q div 2 ^ 48"
    and "pml4_index p = pml4_index q" and "pdpt_index p = pdpt_index q"
    and "pd_index p = pd_index q" and "pt_index p = pt_index q"
  shows "p = q"
proof -
  have "pgaddr p mod 2 ^ 48 = pgaddr q mod 2 ^ 48"
    unfolding page_of_indices [OF assms(1)] page_of_indices [OF assms(2)] assms(4-7) by (rule refl)
  with assms(3) have "pgaddr p = pgaddr q" by (metis mod_mult_div_eq)
  then show ?thesis by (simp add: Page.expand VirtualAddress.expand)
qed

lemma bit_ADDRESS [simp]: "bit ADDRESS n \<longleftrightarrow> 12 \<le> n \<and> n < 60"
proof -
  have a: "ADDRESS = push_bit 12 (mask 48)" by (simp add: ADDRESS_def mask_eq_exp_minus_1 push_bit_eq_mult)
  show ?thesis unfolding a bit_push_bit_iff bit_mask_iff by auto
qed

lemma bit_PRESENT [simp]: "bit PRESENT n \<longleftrightarrow> n = 0"
  unfolding PRESENT_def bit_push_bit_iff bit_1_iff by auto

lemma bit_WRITABLE [simp]: "bit WRITABLE n \<longleftrightarrow> n = 1"
  unfolding WRITABLE_def bit_push_bit_iff bit_1_iff by auto

lemma is_present_bit: "is_present e \<longleftrightarrow> bit e 0"
proof
  assume "is_present e"
  then have "bit (e AND PRESENT) 0" by (simp add: is_present_def)
  then show "bit e 0" by (simp add: bit_and_iff)
next
  assume "bit e 0"
  then have "e AND PRESENT = PRESENT" by (intro bit_eqI) (auto simp: bit_and_iff)
  then show "is_present e" by (simp add: is_present_def)
qed

lemma not_present_0 [simp]: "\<not> is_present 0"
  by (simp add: is_present_bit)

lemma entry_address:
  assumes "a mod 4096 = 0" and "a < 2 ^ 60"
  shows "unat ((of_nat a AND ADDRESS) :: u64) = a"
proof -
  have "take_bit 12 a = 0" using assms(1) by (simp add: take_bit_eq_mod)
  then have "\<not> bit (take_bit 12 a) n" for n by simp
  then have "bit a n \<Longrightarrow> 12 \<le> n" for n by (auto simp: bit_take_bit_iff not_less)
  then have "bit a n \<Longrightarrow> 12 \<le> n \<and> n < 60" for n
    using nat_bound_bit [OF assms(2)] by blast
  then have "(of_nat a AND ADDRESS :: u64) = of_nat a"
    by (intro bit_eqI) (auto simp: bit_and_iff bit_simps)
  moreover have "unat (of_nat a :: u64) = a" using assms(2) by (simp add: unat_of_nat)
  ultimately show ?thesis by simp
qed

text \<open>What an entry points to.\<close>

definition entry_target :: "u64 \<Rightarrow> Frame option" where
  "entry_target e = (if is_present e then Some (Frame (PhysicalAddress (unat (e AND ADDRESS)))) else None)"

lemma address_aligned: "unat (e AND ADDRESS) mod 4096 = 0"
proof -
  have z: "take_bit 12 (e AND ADDRESS) = 0" by (rule bit_eqI) (auto simp: bit_simps)
  have "take_bit 12 (unat (e AND ADDRESS)) = unat (take_bit 12 (e AND ADDRESS))"
    by (simp only: unsigned_take_bit_eq)
  also have "\<dots> = 0" by (simp only: z unsigned_0)
  finally show ?thesis by (simp add: take_bit_eq_mod)
qed

lemma pointed_frame_target: "pointed_frame e = Some (entry_target e)"
proof -
  have "unat (e AND ADDRESS) < 2 ^ LENGTH(64)" by (rule unsigned_less)
  then have "unat (e AND ADDRESS) < USIZE_BOUND" by simp
  then show ?thesis using phys_new_page [of "unat (e AND ADDRESS)"] address_aligned [of e]
    by (simp add: pointed_frame_def entry_target_def frame_new_def)
qed

definition frame_fits :: "Frame \<Rightarrow> bool" where
  "frame_fits f \<longleftrightarrow> faddr f mod 4096 = 0 \<and> faddr f < 2 ^ 60"

lemma point_to_frame_empty:
  assumes "entry_target e = None" and "frame_fits f"
  shows "\<exists>e'. point_to_frame e f = Inr e' \<and> entry_target e' = Some f"
proof -
  from assms(1) have np: "\<not> is_present e" by (auto simp: entry_target_def split: if_splits)
  define e' where "e' = (e AND NOT ADDRESS) OR (of_nat (faddr f) AND ADDRESS) OR PRESENT OR WRITABLE"
  have "point_to_frame e f = Inr e'" using np by (simp add: point_to_frame_def e'_def frame_start_def)
  moreover have "is_present e'" by (simp add: is_present_bit e'_def bit_or_iff)
  moreover have "e' AND ADDRESS = of_nat (faddr f) AND ADDRESS"
    by (rule bit_eqI) (auto simp: e'_def bit_and_iff bit_or_iff bit_not_iff)
  moreover have "unat (of_nat (faddr f) AND ADDRESS :: u64) = faddr f"
    using assms(2) entry_address by (simp add: frame_fits_def)
  ultimately show ?thesis by (simp add: entry_target_def Frame.expand PhysicalAddress.expand)
qed

lemma point_to_frame_used: "entry_target e = Some g \<Longrightarrow> point_to_frame e f = Inl ()"
  by (auto simp: entry_target_def point_to_frame_def split: if_splits)

lemma entry_target_0 [simp]: "entry_target 0 = None" "entry_target entry_empty = None"
  by (simp_all add: entry_target_def entry_empty_def)

end
