(* ===== verification/Page_Table.thy ===== *)
theory Page_Table
  imports Page_Entry
begin

text \<open>
  The page tables of \<open>kernel/src/hal/arch/amd64/paging2\<close>: the tables of one address space
  (\<open>Amd64TTable\<close>, lower half) and of the kernel (\<open>Amd64KTable\<close>, upper half).

  Physical memory that holds tables is a function from frames and entry numbers to entries;
  every access goes through the direct map as in the code and so panics when the frame is out of
  its reach. The allocator is a parameter, as \<open>dyn BackingAllocator\<close> is in the code. The \<open>invlpg\<close>
  instruction has no effect in the model.
\<close>

type_synonym tables = "Frame \<Rightarrow> nat \<Rightarrow> u64"

datatype MapPageError = MapAllocError | AlreadyMapped

definition set_entry :: "Frame \<Rightarrow> nat \<Rightarrow> u64 \<Rightarrow> tables \<Rightarrow> tables" where
  "set_entry t idx e m = m(t := (m t)(idx := e))"

text \<open>Reading an entry: an index out of range panics.\<close>

definition get_entry :: "tables \<Rightarrow> Frame \<Rightarrow> nat \<Rightarrow> u64 rust" where
  "get_entry m t idx = (if idx < 512 then Some (m t idx) else None)"

section \<open>One table\<close>

definition table_empty :: "nat \<Rightarrow> u64" where
  "table_empty = (\<lambda>idx. 0)"

definition empty_with :: "'s allocate_fn \<Rightarrow> tables \<times> 's \<Rightarrow> (alloc_result \<times> tables \<times> 's) rust" where
  "empty_with alloc ms = do {
     (r, s') \<leftarrow> trait_allocate_one alloc (snd ms);
     case r of
       Inl e \<Rightarrow> Some (Inl e, fst ms, s')
     | Inr table_frame \<Rightarrow> do {
         page \<leftarrow> frame_to_page table_frame;
         rust_assert (pgaddr page \<noteq> 0 \<and> pgaddr page mod 4096 = 0);
         Some (Inr table_frame, (fst ms)(table_frame := table_empty), s') } }"

definition table_is_empty :: "(nat \<Rightarrow> u64) \<Rightarrow> bool" where
  "table_is_empty entries \<longleftrightarrow> list_all (\<lambda>idx. \<not> is_used (entries idx)) [0..<512]"

text \<open>\<open>child_table\<close> and \<open>child_table_mut\<close> differ only in the borrow.\<close>

definition child_table :: "tables \<Rightarrow> Frame \<Rightarrow> nat \<Rightarrow> Frame option rust" where
  "child_table m t idx = do {
     entry \<leftarrow> get_entry m t idx;
     table_frame \<leftarrow> pointed_frame entry;
     case table_frame of
       None \<Rightarrow> Some None
     | Some f \<Rightarrow> do { page \<leftarrow> frame_to_page f; Some (Some f) } }"

definition child_table_or_new ::
  "'s allocate_fn \<Rightarrow> Frame \<Rightarrow> nat \<Rightarrow> tables \<times> 's \<Rightarrow> (alloc_result \<times> tables \<times> 's) rust" where
  "child_table_or_new alloc t idx ms = do {
     c \<leftarrow> child_table (fst ms) t idx;
     (r, ms') \<leftarrow>
       (if c = None then do {
          (r, m', s') \<leftarrow> empty_with alloc ms;
          case r of
            Inl e \<Rightarrow> Some (Inl e, m', s')
          | Inr table_frame \<Rightarrow> do {
              e \<leftarrow> expect_ok (point_to_frame (m' t idx) table_frame);
              Some (Inr (), set_entry t idx e m', s') } }
        else Some (Inr (), ms));
     case r of
       Inl e \<Rightarrow> Some (Inl e, ms')
     | Inr u \<Rightarrow> do { c \<leftarrow> child_table (fst ms') t idx; f \<leftarrow> c; Some (Inr f, ms') } }"

section \<open>The tables of an address space\<close>

definition HALF :: usize where
  "HALF = 0xffff800000000000"

definition leaf_target :: "tables \<Rightarrow> Frame \<Rightarrow> Page \<Rightarrow> Frame option rust" where
  "leaf_target m pt page = do { e \<leftarrow> get_entry m pt (pt_index page); pointed_frame e }"

text \<open>The operator \<open>?\<close> on an \<open>Option\<close> and on a \<open>Result\<close> whose state is threaded.\<close>

definition try_some :: "'a option rust \<Rightarrow> ('a \<Rightarrow> 'b option rust) \<Rightarrow> 'b option rust" where
  "try_some x k = do { r \<leftarrow> x; case r of None \<Rightarrow> Some None | Some a \<Rightarrow> k a }"

definition try_ok ::
  "(alloc_result \<times> 'm) rust \<Rightarrow> (Frame \<Rightarrow> 'm \<Rightarrow> ((MapPageError, unit) result \<times> 'm) rust) \<Rightarrow>
    ((MapPageError, unit) result \<times> 'm) rust" where
  "try_ok x k = do { (r, m) \<leftarrow> x; case r of Inl e \<Rightarrow> Some (Inl MapAllocError, m) | Inr f \<Rightarrow> k f m }"

definition map_leaf :: "Frame \<Rightarrow> Page \<Rightarrow> Frame \<Rightarrow> tables \<times> 's \<Rightarrow> ((MapPageError, unit) result \<times> tables \<times> 's) rust" where
  "map_leaf pt page frame ms = do {
     e \<leftarrow> get_entry (fst ms) pt (pt_index page);
     case point_to_frame e frame of
       Inl u \<Rightarrow> Some (Inl AlreadyMapped, ms)
     | Inr e' \<Rightarrow> Some (Inr (), set_entry pt (pt_index page) e' (fst ms), snd ms) }"

definition unmap_leaf :: "tables \<Rightarrow> Frame \<Rightarrow> Page \<Rightarrow> ((unit, unit) result \<times> tables) rust" where
  "unmap_leaf m pt page = do {
     entry \<leftarrow> get_entry m pt (pt_index page);
     Some (case (is_used entry, is_present entry) of
       (True, False) \<Rightarrow> (Inr (), m)
     | (True, True) \<Rightarrow> (Inr (), set_entry pt (pt_index page) entry_empty m)
     | (False, _) \<Rightarrow> (Inl (), m)) }"

text \<open>The operator \<open>?\<close> after \<open>ok_or(())\<close>.\<close>

definition try_child ::
  "Frame option rust \<Rightarrow> tables \<Rightarrow> (Frame \<Rightarrow> ((unit, unit) result \<times> tables) rust) \<Rightarrow>
    ((unit, unit) result \<times> tables) rust" where
  "try_child x m k = do { r \<leftarrow> x; case r of None \<Rightarrow> Some (Inl (), m) | Some f \<Rightarrow> k f }"

definition ttable_translate_page :: "Frame \<Rightarrow> Page \<Rightarrow> tables \<Rightarrow> Frame option rust" where
  "ttable_translate_page pml4 page m = do {
     rust_assert (pgaddr page < HALF);
     try_some (child_table m pml4 (pml4_index page)) (\<lambda>pdpt.
       try_some (child_table m pdpt (pdpt_index page)) (\<lambda>pd.
         try_some (child_table m pd (pd_index page)) (\<lambda>pt. leaf_target m pt page))) }"

definition ttable_map_page ::
  "'s allocate_fn \<Rightarrow> Frame \<Rightarrow> Page \<Rightarrow> Frame \<Rightarrow> tables \<times> 's \<Rightarrow> ((MapPageError, unit) result \<times> tables \<times> 's) rust" where
  "ttable_map_page alloc pml4 page frame ms = do {
     rust_assert (pgaddr page < HALF);
     try_ok (child_table_or_new alloc pml4 (pml4_index page) ms) (\<lambda>pdpt ms.
       try_ok (child_table_or_new alloc pdpt (pdpt_index page) ms) (\<lambda>pd ms.
         try_ok (child_table_or_new alloc pd (pd_index page) ms) (\<lambda>pt ms. map_leaf pt page frame ms))) }"

definition ttable_unmap_page :: "Frame \<Rightarrow> Page \<Rightarrow> tables \<Rightarrow> ((unit, unit) result \<times> tables) rust" where
  "ttable_unmap_page pml4 page m = do {
     rust_assert (pgaddr page < HALF);
     try_child (child_table m pml4 (pml4_index page)) m (\<lambda>pdpt.
       try_child (child_table m pdpt (pdpt_index page)) m (\<lambda>pd.
         try_child (child_table m pd (pd_index page)) m (\<lambda>pt. unmap_leaf m pt page))) }"

text \<open>A new address space shares the second-level tables of the kernel at \<open>base\<close>.\<close>

definition share_entry :: "Frame \<Rightarrow> Frame \<Rightarrow> nat \<Rightarrow> tables \<Rightarrow> tables rust" where
  "share_entry base pml4 i m = do {
     ktable_frame \<leftarrow> frame_add base i;
     e \<leftarrow> get_entry m pml4 (256 + i);
     e' \<leftarrow> expect_ok (point_to_frame e ktable_frame);
     Some (set_entry pml4 (256 + i) e' m) }"

definition ttable_new :: "'s allocate_fn \<Rightarrow> Frame \<Rightarrow> tables \<times> 's \<Rightarrow> (alloc_result \<times> tables \<times> 's) rust" where
  "ttable_new alloc base ms = do {
     (r, m, s) \<leftarrow> empty_with alloc ms;
     case r of
       Inl e \<Rightarrow> Some (Inl e, m, s)
     | Inr pml4 \<Rightarrow> do {
         page \<leftarrow> frame_to_page pml4;
         rust_assert (pgaddr page \<noteq> 0 \<and> pgaddr page mod 4096 = 0);
         m' \<leftarrow> for_each (share_entry base pml4) [0..<256] m;
         Some (Inr pml4, m', s) } }"

section \<open>The tables of the kernel\<close>

text \<open>The 256 second-level tables lie in consecutive frames: element \<open>k\<close> of the array is \<open>k\<close> frames
  after its start, and an index out of range panics, as does the subtraction below it.\<close>

definition kernel_pdpt :: "Frame \<Rightarrow> Page \<Rightarrow> Frame rust" where
  "kernel_pdpt base page = do {
     k \<leftarrow> usub (pml4_index page) 256;
     array \<leftarrow> frame_to_page base;
     rust_assert (k < 256);
     Some (Frame (PhysicalAddress (faddr base + k * 4096))) }"

definition ktable_translate_page :: "Frame \<Rightarrow> Page \<Rightarrow> tables \<Rightarrow> Frame option rust" where
  "ktable_translate_page base page m = do {
     rust_assert (pgaddr page < HALF);
     pdpt \<leftarrow> kernel_pdpt base page;
     try_some (child_table m pdpt (pdpt_index page)) (\<lambda>pd.
       try_some (child_table m pd (pd_index page)) (\<lambda>pt. leaf_target m pt page)) }"

definition ktable_map_page ::
  "'s allocate_fn \<Rightarrow> Frame \<Rightarrow> Page \<Rightarrow> Frame \<Rightarrow> tables \<times> 's \<Rightarrow> ((MapPageError, unit) result \<times> tables \<times> 's) rust" where
  "ktable_map_page alloc base page frame ms = do {
     rust_assert (HALF \<le> pgaddr page);
     pdpt \<leftarrow> kernel_pdpt base page;
     try_ok (child_table_or_new alloc pdpt (pdpt_index page) ms) (\<lambda>pd ms.
       try_ok (child_table_or_new alloc pd (pd_index page) ms) (\<lambda>pt ms. map_leaf pt page frame ms)) }"

definition ktable_unmap_page :: "Frame \<Rightarrow> Page \<Rightarrow> tables \<Rightarrow> ((unit, unit) result \<times> tables) rust" where
  "ktable_unmap_page base page m = do {
     rust_assert (HALF \<le> pgaddr page);
     pdpt \<leftarrow> kernel_pdpt base page;
     try_child (child_table m pdpt (pdpt_index page)) m (\<lambda>pd.
       try_child (child_table m pd (pd_index page)) m (\<lambda>pt. unmap_leaf m pt page)) }"

text \<open>\<open>translate_address\<close> of the trait, over the \<open>translate_page\<close> of an implementation.\<close>

definition translate_address ::
  "(Page \<Rightarrow> Frame option rust) \<Rightarrow> VirtualAddress \<Rightarrow> PhysicalAddress option rust" where
  "translate_address translate addr = do {
     aligned \<leftarrow> virt_align_down PAGE_SIZE addr;
     diff \<leftarrow> virt_diff addr aligned;
     try_some (translate (page_new aligned)) (\<lambda>physical. do {
       a \<leftarrow> phys_add (frame_start physical) diff; Some (Some a) }) }"

end
