(* ===== verification/Page_Forest.thy ===== *)
theory Page_Forest
  imports Page_Table
begin

text \<open>
  What page tables mean: the tables below a family of roots form a forest, in which every table is
  reached by one path only, lies within the direct map and is not free memory. On such memory the
  operations of \<open>Page_Table\<close> are those of a finite map from paths to frames. The client lemmas are
  proved once, in a locale for the allocator; the tables of an address space have one root and
  three levels above the leaves, those of the kernel 256 roots and two levels.
\<close>

section \<open>Paths\<close>

fun walk :: "tables \<Rightarrow> Frame \<Rightarrow> nat list \<Rightarrow> Frame option" where
  "walk m t [] = Some t"
| "walk m t (i # p) = (case entry_target (m t i) of None \<Rightarrow> None | Some f \<Rightarrow> walk m f p)"

definition reach :: "(nat \<Rightarrow> Frame option) \<Rightarrow> tables \<Rightarrow> nat \<Rightarrow> nat list \<Rightarrow> Frame option" where
  "reach R m k p = (case R k of None \<Rightarrow> None | Some r \<Rightarrow> walk m r p)"

definition path_in :: "nat \<Rightarrow> nat list \<Rightarrow> bool" where
  "path_in d p \<longleftrightarrow> length p \<le> d \<and> list_all (\<lambda>i. i < 512) p"

definition low_frame :: "Frame \<Rightarrow> bool" where
  "low_frame f \<longleftrightarrow> faddr f mod 4096 = 0 \<and> faddr f < 2 ^ 47"

definition forest :: "(nat \<Rightarrow> Frame option) \<Rightarrow> nat \<Rightarrow> tables \<Rightarrow> nat set \<Rightarrow> bool" where
  "forest R d m fr \<longleftrightarrow>
    (\<forall>k p f. path_in d p \<longrightarrow> reach R m k p = Some f \<longrightarrow> low_frame f \<and> faddr f div 4096 \<notin> fr) \<and>
    (\<forall>k p k' p' f. path_in d p \<longrightarrow> path_in d p' \<longrightarrow> reach R m k p = Some f \<longrightarrow> reach R m k' p' = Some f \<longrightarrow>
      k = k' \<and> p = p')"

text \<open>The mappings are the paths that are one longer than the paths to tables.\<close>

definition full_path :: "nat \<Rightarrow> nat list \<Rightarrow> bool" where
  "full_path d p \<longleftrightarrow> length p = Suc d \<and> list_all (\<lambda>i. i < 512) p"

definition same_mappings :: "(nat \<Rightarrow> Frame option) \<Rightarrow> nat \<Rightarrow> tables \<Rightarrow> tables \<Rightarrow> bool" where
  "same_mappings R d m m' \<longleftrightarrow> (\<forall>k p. full_path d p \<longrightarrow> reach R m' k p = reach R m k p)"

lemma walk_append: "walk m t (p @ q) = (case walk m t p of None \<Rightarrow> None | Some f \<Rightarrow> walk m f q)"
  by (induction p arbitrary: t) (auto split: option.splits)

lemma reach_Nil [simp]: "reach R m k [] = R k"
  by (simp add: reach_def split: option.splits)

lemma reach_append:
  "reach R m k (p @ q) = (case reach R m k p of None \<Rightarrow> None | Some f \<Rightarrow> walk m f q)"
  by (auto simp: reach_def walk_append split: option.splits)

lemma reach_snoc:
  "reach R m k (p @ [i]) = (case reach R m k p of None \<Rightarrow> None | Some f \<Rightarrow> entry_target (m f i))"
  by (auto simp: reach_append split: option.splits)

lemma path_in_append [simp]: "path_in d (p @ [i]) \<longleftrightarrow> length p < d \<and> path_in d p \<and> i < 512"
  by (auto simp: path_in_def)

lemma path_in_Nil [simp]: "path_in d []"
  by (simp add: path_in_def)

lemma full_path_snoc: "full_path d (p @ [i]) \<longleftrightarrow> length p = d \<and> path_in d p \<and> i < 512"
  by (auto simp: full_path_def path_in_def)

lemma forestD:
  assumes "forest R d m fr" and "path_in d p" and "reach R m k p = Some f"
  shows "low_frame f" and "faddr f div 4096 \<notin> fr"
  using assms unfolding forest_def by blast+

lemma forest_inject:
  assumes "forest R d m fr" and "path_in d p" and "path_in d p'"
    and "reach R m k p = Some f" and "reach R m k' p' = Some f"
  shows "k = k' \<and> p = p'"
  using assms unfolding forest_def by blast

lemma forest_mono: "forest R d m fr \<Longrightarrow> fr' \<subseteq> fr \<Longrightarrow> forest R d m fr'"
  unfolding forest_def by blast

lemma low_frame_fits: "low_frame f \<Longrightarrow> frame_fits f"
  by (simp add: low_frame_def frame_fits_def)

lemma low_frame_page:
  assumes "low_frame f"
  obtains page where "frame_to_page f = Some page" and "pgaddr page \<noteq> 0" and "pgaddr page mod 4096 = 0"
proof -
  have "(faddr f + PAGE_MAP_OFFSET) mod 4096 = 0"
    using assms by (simp add: low_frame_def PAGE_MAP_OFFSET_def mod_add_left_eq [symmetric])
  with assms that show ?thesis
    by (simp add: low_frame_def frame_to_page_def to_virtual_def uadd_def PAGE_MAP_OFFSET_def)
qed

lemma child_table_reach:
  assumes "forest R d m fr" and "reach R m k q = Some t" and "path_in d (q @ [i])"
  shows "child_table m t i = Some (reach R m k (q @ [i]))"
proof (cases "entry_target (m t i)")
  case None
  with assms show ?thesis by (simp add: child_table_def get_entry_def pointed_frame_target reach_snoc)
next
  case (Some f)
  with assms(2) have r: "reach R m k (q @ [i]) = Some f" by (simp add: reach_snoc)
  from forestD(1) [OF assms(1,3) r] obtain page where "frame_to_page f = Some page"
    by (rule low_frame_page)
  with Some r assms(3) show ?thesis by (simp add: child_table_def get_entry_def pointed_frame_target)
qed

section \<open>Changing an entry\<close>

lemma table_empty_target: "entry_target (table_empty j) = None"
  by (simp add: table_empty_def)

text \<open>A new table \<open>g\<close> with the unused entries \<open>new\<close> below entry \<open>i\<close> of the table at the path \<open>q\<close>.\<close>

lemma grow_other:
  assumes "forest R d m fr" and "reach R m k q = Some t" and "path_in d (q @ [i])"
    and "faddr g div 4096 \<in> fr" and "m' = set_entry t i e (m(g := new))"
    and "length p \<le> Suc d" and "list_all (\<lambda>i. i < 512) p"
    and "\<not> (k' = k \<and> (\<exists>r. p = q @ i # r))"
  shows "reach R m' k' p = reach R m k' p"
  using assms(6-8)
proof (induction p rule: rev_induct)
  case Nil
  show ?case by simp
next
  case (snoc j p)
  have "\<not> (k' = k \<and> (\<exists>r. p = q @ i # r))" using snoc.prems(3) by (metis append_Cons append_assoc)
  with snoc have IH: "reach R m' k' p = reach R m k' p" by auto
  show ?case
  proof (cases "reach R m k' p")
    case (Some f)
    have p: "path_in d p" using snoc.prems by (simp add: path_in_def)
    from forestD(2) [OF assms(1) p Some] assms(4) have "f \<noteq> g" by auto
    moreover have "\<not> (f = t \<and> j = i)"
      using forest_inject [OF assms(1) p _ Some, of q k] assms(2,3) snoc.prems(3) by auto
    ultimately have "m' f j = m f j" by (auto simp: assms(5) set_entry_def)
    with IH Some show ?thesis by (simp add: reach_snoc)
  qed (simp add: reach_snoc IH)
qed

lemma grow_paths:
  assumes "forest R d m fr" and "reach R m k q = Some t" and "path_in d (q @ [i])"
    and "entry_target (m t i) = None" and "faddr g div 4096 \<in> fr" and "entry_target e = Some g"
    and "m' = set_entry t i e (m(g := new))" and "\<And>j. entry_target (new j) = None"
  shows "reach R m' k (q @ i # r) = (if r = [] then Some g else None)"
    and "reach R m k (q @ i # r) = None"
proof -
  have "path_in d q" using assms(3) by simp
  from forestD(2) [OF assms(1) this assms(2)] assms(5) have gt: "g \<noteq> t" by auto
  have "reach R m' k q = reach R m k q"
    by (rule grow_other [OF assms(1-3,5,7)]) (use assms(3) in \<open>auto simp: path_in_def\<close>)
  with assms(2,6) gt show "reach R m' k (q @ i # r) = (if r = [] then Some g else None)"
    by (cases r) (auto simp: reach_append assms(7,8) set_entry_def)
  show "reach R m k (q @ i # r) = None" using assms(2,4) by (simp add: reach_append)
qed

lemma grow_forest:
  assumes "forest R d m fr" and "reach R m k q = Some t" and "path_in d (q @ [i])"
    and "entry_target (m t i) = None" and "faddr g div 4096 \<in> fr" and "low_frame g"
    and "entry_target e = Some g" and m': "m' = set_entry t i e (m(g := new))"
    and "\<And>j. entry_target (new j) = None"
  shows "forest R d m' (fr - {faddr g div 4096})" and "same_mappings R d m m'"
proof -
  note other = grow_other [OF assms(1-3,5) m']
  note below = grow_paths [OF assms(1-5,7) m' assms(9)]
  have grown: "reach R m' k' p = Some f \<longleftrightarrow>
      (if k' = k \<and> p = q @ [i] then f = g else reach R m k' p = Some f)" if "path_in d p" for k' p f
  proof (cases "k' = k \<and> (\<exists>r. p = q @ i # r)")
    case True
    then show ?thesis using below by auto
  next
    case False
    with other [of p k'] that show ?thesis by (auto simp: path_in_def)
  qed
  have g: "reach R m k' p \<noteq> Some g" if "path_in d p" for k' p
    using forestD(2) [OF assms(1) that] assms(5) by auto
  show "forest R d m' (fr - {faddr g div 4096})"
    unfolding forest_def
  proof (intro conjI allI impI)
    fix k' p f assume p: "path_in d p" and r: "reach R m' k' p = Some f"
    then show "low_frame f" using grown [OF p] assms(6) forestD(1) [OF assms(1) p] by (metis (full_types))
    show "faddr f div 4096 \<notin> fr - {faddr g div 4096}"
      using r grown [OF p] forestD(2) [OF assms(1) p] by (metis (full_types) Diff_iff insertI1)
  next
    fix k' p k'' p' f assume p: "path_in d p" "path_in d p'"
      and r: "reach R m' k' p = Some f" "reach R m' k'' p' = Some f"
    from r(1) r(2) have "k' = k'' \<and> p = p'"
      unfolding grown [OF p(1)] grown [OF p(2)]
      using g [OF p(1), of k'] g [OF p(2), of k''] forest_inject [OF assms(1) p, of k' f k'']
      by (auto split: if_splits)
    then show "k' = k''" "p = p'" by simp_all
  qed
  show "same_mappings R d m m'"
    unfolding same_mappings_def
  proof (intro allI impI)
    fix k' p assume p: "full_path d p"
    show "reach R m' k' p = reach R m k' p"
    proof (cases "k' = k \<and> (\<exists>r. p = q @ i # r)")
      case True
      then obtain r where r: "p = q @ i # r" "k' = k" by blast
      with p assms(3) have "r \<noteq> []" by (auto simp: full_path_def)
      with below r show ?thesis by simp
    next
      case False
      with other [of p k'] p show ?thesis by (auto simp: full_path_def)
    qed
  qed
qed

text \<open>A new value \<open>e\<close> in entry \<open>i\<close> of the last-level table at the path \<open>q\<close>.\<close>

lemma leaf_change_tables:
  assumes "forest R d m fr" and "reach R m k q = Some t" and "full_path d (q @ [i])" and "path_in d p"
  shows "reach R (set_entry t i e m) k' p = reach R m k' p"
  using assms(4)
proof (induction p rule: rev_induct)
  case (snoc j p)
  from assms(3) have q: "length q = d" "path_in d q" by (auto simp: full_path_snoc)
  from snoc have p: "path_in d p" "length p < d"
    and IH: "reach R (set_entry t i e m) k' p = reach R m k' p" by auto
  show ?case
  proof (cases "reach R m k' p")
    case (Some f)
    have "f \<noteq> t" using forest_inject [OF assms(1) p(1) q(2) Some, of k] assms(2) p(2) q(1) by auto
    then have "set_entry t i e m f = m f" by (simp add: set_entry_def)
    with IH Some show ?thesis by (simp add: reach_snoc)
  qed (simp add: reach_snoc IH)
qed simp

lemma leaf_change:
  assumes "forest R d m fr" and "reach R m k q = Some t" and "full_path d (q @ [i])" and m': "m' = set_entry t i e m"
  shows "forest R d m' fr"
    and "full_path d p \<Longrightarrow> reach R m' k' p = (if k' = k \<and> p = q @ [i] then entry_target e else reach R m k' p)"
proof -
  from assms(3) have q: "length q = d" "path_in d q" by (auto simp: full_path_snoc)
  note same = leaf_change_tables [OF assms(1-3), of _ e, folded m']
  with assms(1) show "forest R d m' fr" unfolding forest_def by metis
  assume "full_path d p"
  then obtain p0 j where p: "p = p0 @ [j]" "path_in d p0" "length p0 = d"
    by (cases p rule: rev_cases) (auto simp: full_path_def path_in_def)
  show "reach R m' k' p = (if k' = k \<and> p = q @ [i] then entry_target e else reach R m k' p)"
  proof (cases "reach R m k' p0")
    case None
    with same [OF p(2)] assms(2) p(1) show ?thesis by (auto simp: reach_snoc)
  next
    case (Some f)
    have "f = t \<longleftrightarrow> k' = k \<and> p0 = q"
      using forest_inject [OF assms(1) p(2) q(2) Some, of k] assms(2) Some by auto
    with same [OF p(2)] Some p(1) show ?thesis by (auto simp: reach_snoc m' set_entry_def)
  qed
qed

section \<open>The operations along a path\<close>

text \<open>The nested calls of the code, as recursions over the indices that are left.\<close>

fun translate_along :: "tables \<Rightarrow> Frame \<Rightarrow> nat list \<Rightarrow> Page \<Rightarrow> Frame option rust" where
  "translate_along m t [] page = leaf_target m t page"
| "translate_along m t (i # is) page = try_some (child_table m t i) (\<lambda>f. translate_along m f is page)"

fun map_along ::
  "'s allocate_fn \<Rightarrow> Frame \<Rightarrow> nat list \<Rightarrow> Page \<Rightarrow> Frame \<Rightarrow> tables \<times> 's \<Rightarrow>
    ((MapPageError, unit) result \<times> tables \<times> 's) rust" where
  "map_along alloc t [] page frame = map_leaf t page frame"
| "map_along alloc t (i # is) page frame =
     (\<lambda>ms. try_ok (child_table_or_new alloc t i ms) (\<lambda>f. map_along alloc f is page frame))"

fun unmap_along :: "tables \<Rightarrow> Frame \<Rightarrow> nat list \<Rightarrow> Page \<Rightarrow> ((unit, unit) result \<times> tables) rust" where
  "unmap_along m t [] page = unmap_leaf m t page"
| "unmap_along m t (i # is) page = try_child (child_table m t i) m (\<lambda>f. unmap_along m f is page)"

lemma ttable_along:
  "ttable_translate_page pml4 page m = do { rust_assert (pgaddr page < HALF);
     translate_along m pml4 [pml4_index page, pdpt_index page, pd_index page] page }"
  "ttable_map_page alloc pml4 page frame ms = do { rust_assert (pgaddr page < HALF);
     map_along alloc pml4 [pml4_index page, pdpt_index page, pd_index page] page frame ms }"
  "ttable_unmap_page pml4 page m = do { rust_assert (pgaddr page < HALF);
     unmap_along m pml4 [pml4_index page, pdpt_index page, pd_index page] page }"
  by (simp_all add: ttable_translate_page_def ttable_map_page_def ttable_unmap_page_def)

lemma ktable_along:
  "ktable_map_page alloc base page frame ms = do { rust_assert (HALF \<le> pgaddr page);
     pdpt \<leftarrow> kernel_pdpt base page; map_along alloc pdpt [pdpt_index page, pd_index page] page frame ms }"
  "ktable_unmap_page base page m = do { rust_assert (HALF \<le> pgaddr page);
     pdpt \<leftarrow> kernel_pdpt base page; unmap_along m pdpt [pdpt_index page, pd_index page] page }"
  by (simp_all add: ktable_map_page_def ktable_unmap_page_def)

lemma translate_along_reach:
  assumes "forest R d m fr" and "reach R m k q = Some t" and "length q + length is = d"
    and "list_all (\<lambda>i. i < 512) (q @ is)"
  shows "translate_along m t is page = Some (reach R m k (q @ is @ [pt_index page]))"
  using assms(2-4)
proof (induction "is" arbitrary: q t)
  case Nil
  then show ?case by (simp add: leaf_target_def get_entry_def pointed_frame_target reach_snoc)
next
  case (Cons i "is")
  have p: "path_in d (q @ [i])" using Cons.prems by (auto simp: path_in_def)
  show ?case
  proof (cases "reach R m k (q @ [i])")
    case None
    then show ?thesis
      using child_table_reach [OF assms(1) Cons.prems(1) p] reach_append [of R m k "q @ [i]"]
      by (simp add: try_some_def)
  next
    case (Some f)
    have "translate_along m f is page = Some (reach R m k ((q @ [i]) @ is @ [pt_index page]))"
      by (rule Cons.IH [OF Some]) (use Cons.prems in auto)
    with child_table_reach [OF assms(1) Cons.prems(1) p] Some show ?thesis by (simp add: try_some_def)
  qed
qed

lemma unmap_along_reach:
  assumes "forest R d m fr" and "reach R m k q = Some t" and "length q + length is = d"
    and "list_all (\<lambda>i. i < 512) (q @ is)"
  shows "\<exists>m'. unmap_along m t is page =
      Some (if reach R m k (q @ is @ [pt_index page]) = None then Inl () else Inr (), m') \<and>
    forest R d m' fr \<and>
    (\<forall>k' p. full_path d p \<longrightarrow> reach R m' k' p =
      (if k' = k \<and> p = q @ is @ [pt_index page] then None else reach R m k' p))"
  using assms(2-4)
proof (induction "is" arbitrary: q t)
  case Nil
  have full: "full_path d (q @ [pt_index page])" using Nil.prems by (simp add: full_path_def)
  show ?case
  proof (cases "is_present (m t (pt_index page))")
    case True
    let ?m = "set_entry t (pt_index page) entry_empty m"
    from True Nil.prems(1) have "reach R m k (q @ [pt_index page]) \<noteq> None"
      by (simp add: reach_snoc entry_target_def)
    moreover have "unmap_along m t [] page = Some (Inr (), ?m)"
      using True by (simp add: unmap_leaf_def get_entry_def is_used_def)
    ultimately show ?thesis using leaf_change [OF assms(1) Nil.prems(1) full refl, where e = entry_empty] by auto
  next
    case False
    then have "reach R m k (q @ [pt_index page]) = None" using Nil.prems(1) by (simp add: reach_snoc entry_target_def)
    moreover have "unmap_along m t [] page = Some (Inl (), m)"
      using False by (simp add: unmap_leaf_def get_entry_def is_used_def)
    ultimately show ?thesis using assms(1) by auto
  qed
next
  case (Cons i "is")
  have p: "path_in d (q @ [i])" using Cons.prems by (auto simp: path_in_def)
  show ?case
  proof (cases "reach R m k (q @ [i])")
    case None
    then have "reach R m k (q @ (i # is) @ [pt_index page]) = None" using reach_append [of R m k "q @ [i]"] by simp
    moreover have "unmap_along m t (i # is) page = Some (Inl (), m)"
      using child_table_reach [OF assms(1) Cons.prems(1) p] None by (simp add: try_child_def)
    ultimately show ?thesis using assms(1) by auto
  next
    case (Some f)
    have "unmap_along m t (i # is) page = unmap_along m f is page"
      using child_table_reach [OF assms(1) Cons.prems(1) p] Some by (simp add: try_child_def)
    with Cons.IH [OF Some] Cons.prems(2,3) show ?thesis by simp
  qed
qed

section \<open>Mapping with an allocator\<close>

text \<open>What a call of \<open>map_page\<close> for the path \<open>full\<close> does, for each of its results.\<close>

definition map_outcome ::
  "(nat \<Rightarrow> Frame option) \<Rightarrow> nat \<Rightarrow> nat \<Rightarrow> nat list \<Rightarrow> Frame \<Rightarrow> tables \<Rightarrow> nat set \<Rightarrow>
    (MapPageError, unit) result \<Rightarrow> tables \<Rightarrow> bool" where
  "map_outcome R d k full frame m fr r m' \<longleftrightarrow> (case r of
     Inr u \<Rightarrow> reach R m k full = None \<and>
       (\<forall>k' p. full_path d p \<longrightarrow> reach R m' k' p = (if k' = k \<and> p = full then Some frame else reach R m k' p))
   | Inl AlreadyMapped \<Rightarrow> reach R m k full \<noteq> None \<and> same_mappings R d m m'
   | Inl MapAllocError \<Rightarrow> reach R m k full = None \<and> fr = {} \<and> same_mappings R d m m')"

lemma map_outcome_same:
  assumes "same_mappings R d m0 m" and "full_path d full" and "map_outcome R d k full frame m fr r m'"
  shows "map_outcome R d k full frame m0 fr r m'"
  using assms by (auto simp: map_outcome_def same_mappings_def split: sum.splits MapPageError.splits)

lemma card_Diff1_le_Suc: "card A \<le> Suc (card (A - {x}))"
  by (cases "finite A \<and> x \<in> A") (auto simp: card_Diff_singleton_if)

text \<open>A pool whose frames lie within the direct map.\<close>

locale table_pool = frame_pool inv free alloc managed dealloc
  for inv :: "'s \<Rightarrow> bool" and free :: "'s \<Rightarrow> nat set" and alloc :: "'s allocate_fn"
    and managed :: "'s \<Rightarrow> nat set" and dealloc :: "Frame \<Rightarrow> usize \<Rightarrow> 's \<Rightarrow> 's rust" +
  assumes free_low: "inv s \<Longrightarrow> n \<in> free s \<Longrightarrow> n < 2 ^ 35"
begin

lemma empty_with_cases:
  assumes "inv s"
  obtains (no_frame) "empty_with alloc (m, s) = Some (Inl AllocError, m, s)" and "free s = {}"
  | (new) g s' where "empty_with alloc (m, s) = Some (Inr g, m(g := table_empty), s')"
      and "inv s'" and "low_frame g" and "faddr g div 4096 \<in> free s" and "free s' = free s - {faddr g div 4096}"
      and "managed s' = managed s"
proof -
  obtain r s' where a: "alloc 1 s = Some (r, s')" using alloc_total [OF assms, of 1] by auto
  note one = trait_allocate_one_total [OF assms a]
  show thesis
  proof (cases r)
    case (Inl e)
    with alloc_err [OF assms, of 1 e s'] a have "s' = s" "free s = {}" by auto
    with one Inl no_frame show thesis by (cases e) (simp add: empty_with_def)
  next
    case (Inr g)
    with alloc_ok [OF assms, of 1 g s'] alloc_exact [OF assms, of 1 g s'] a
    have g: "inv s'" "faddr g mod 4096 = 0" "faddr g div 4096 \<in> free s" "free s' = free s - {faddr g div 4096}"
      "managed s' = managed s" by (auto simp: frames_of_def)
    then have "faddr g div 4096 < 2 ^ 35" using free_low [OF assms] by blast
    then have "faddr g < 2 ^ 35 * 4096" by (simp add: div_less_iff_less_mult)
    with g(2) have low: "low_frame g" by (simp add: low_frame_def)
    then obtain page where "frame_to_page g = Some page" "pgaddr page \<noteq> 0" "pgaddr page mod 4096 = 0"
      by (rule low_frame_page)
    with one Inr have "empty_with alloc (m, s) = Some (Inr g, m(g := table_empty), s')"
      by (simp add: empty_with_def rust_assert_def)
    with new g low show thesis by blast
  qed
qed

text \<open>\<open>X\<close> stands for frames that are in use for something else than tables, and stay so.\<close>

lemma child_table_or_new_cases:
  assumes "inv s" and "forest R d m (free s \<union> X)" and "reach R m k q = Some t" and "path_in d (q @ [i])"
    and "X \<inter> free s = {}"
  obtains (no_memory) "child_table_or_new alloc t i (m, s) = Some (Inl AllocError, m, s)"
      and "free s = {}" and "reach R m k (q @ [i]) = None"
  | (child) f m' s' where "child_table_or_new alloc t i (m, s) = Some (Inr f, m', s')"
      and "inv s'" and "forest R d m' (free s' \<union> X)" and "reach R m' k (q @ [i]) = Some f"
      and "same_mappings R d m m'"
      and "free s' \<subseteq> free s" and "managed s' = managed s" and "card (free s) \<le> Suc (card (free s'))"
proof -
  note ct = child_table_reach [OF assms(2-4)]
  show thesis
  proof (cases "reach R m k (q @ [i])")
    case (Some f)
    with ct have "child_table_or_new alloc t i (m, s) = Some (Inr f, m, s)" by (simp add: child_table_or_new_def)
    with assms Some child show thesis by (auto simp: same_mappings_def)
  next
    case None
    with assms(3) have et: "entry_target (m t i) = None" by (simp add: reach_snoc)
    from assms(1) show thesis
    proof (cases rule: empty_with_cases [where m = m])
      case no_frame
      with ct None no_memory show thesis by (simp add: child_table_or_new_def)
    next
      case (new g s')
      have q: "path_in d q" using assms(4) by simp
      from new(4) have gX: "faddr g div 4096 \<in> free s \<union> X" by simp
      from forestD(2) [OF assms(2) q assms(3)] new(4) have gt: "g \<noteq> t" by auto
      obtain e where e: "point_to_frame (m t i) g = Inr e" "entry_target e = Some g"
        using point_to_frame_empty [OF et low_frame_fits [OF new(3)]] by blast
      define m' where "m' = set_entry t i e (m(g := table_empty))"
      note grown = grow_forest [OF assms(2,3,4) et gX new(3) e(2) m'_def table_empty_target]
      have r: "reach R m' k (q @ [i]) = Some g"
        using grow_paths(1) [OF assms(2,3,4) et gX e(2) m'_def table_empty_target, of "[]"] by simp
      have "reach R m' k q = Some t"
        using grow_other [OF assms(2,3,4) gX m'_def, of q k] assms(3,4) by (auto simp: path_in_def)
      from child_table_reach [OF grown(1) this assms(4)] r
      have "child_table_or_new alloc t i (m, s) = Some (Inr g, m', s')"
        using ct None new(1) gt e(1) by (simp add: child_table_or_new_def m'_def)
      moreover have "free s \<union> X - {faddr g div 4096} = free s' \<union> X" using new(4,5) assms(5) by auto
      moreover have "card (free s) \<le> Suc (card (free s'))" unfolding new(5) by (rule card_Diff1_le_Suc)
      ultimately show thesis using child [OF _ new(2) _ r] new(5,6) grown by auto
    qed
  qed
qed

lemma map_along_outcome:
  assumes "inv s" and "forest R d m (free s \<union> X)" and "reach R m k q = Some t" and "length q + length is = d"
    and "list_all (\<lambda>i. i < 512) (q @ is)" and "X \<inter> free s = {}" and "frame_fits frame"
  shows "\<exists>r m' s'. map_along alloc t is page frame (m, s) = Some (r, m', s') \<and> inv s' \<and>
    forest R d m' (free s' \<union> X) \<and> map_outcome R d k (q @ is @ [pt_index page]) frame m (free s') r m' \<and>
    free s' \<subseteq> free s \<and> managed s' = managed s \<and> card (free s) \<le> card (free s') + length is"
  using assms(1-6)
proof (induction "is" arbitrary: q t m s)
  case Nil
  have full: "full_path d (q @ [pt_index page])" using Nil.prems by (simp add: full_path_def)
  show ?case
  proof (cases "entry_target (m t (pt_index page))")
    case None
    then obtain e where e: "point_to_frame (m t (pt_index page)) frame = Inr e" "entry_target e = Some frame"
      using point_to_frame_empty assms(7) by blast
    let ?m = "set_entry t (pt_index page) e m"
    have "map_along alloc t [] page frame (m, s) = Some (Inr (), ?m, s)"
      using e(1) by (simp add: map_leaf_def get_entry_def)
    moreover have "reach R m k (q @ [pt_index page]) = None" using None Nil.prems(3) by (simp add: reach_snoc)
    ultimately show ?thesis
      using leaf_change [OF Nil.prems(2,3) full refl, where e = e] e(2) Nil.prems(1)
      by (auto simp: map_outcome_def)
  next
    case (Some f)
    then have "map_along alloc t [] page frame (m, s) = Some (Inl AlreadyMapped, m, s)"
      using point_to_frame_used by (simp add: map_leaf_def get_entry_def)
    with Some Nil.prems show ?thesis by (auto simp: map_outcome_def reach_snoc same_mappings_def)
  qed
next
  case (Cons i "is")
  have p: "path_in d (q @ [i])" using Cons.prems by (auto simp: path_in_def)
  have full: "full_path d (q @ (i # is) @ [pt_index page])" using Cons.prems by (simp add: full_path_def)
  from Cons.prems(1-3) p Cons.prems(6) show ?case
  proof (cases rule: child_table_or_new_cases)
    case no_memory
    then have "reach R m k (q @ (i # is) @ [pt_index page]) = None"
      using reach_append [of R m k "q @ [i]" "is @ [pt_index page]"] by simp
    with no_memory Cons.prems show ?thesis by (auto simp: map_outcome_def same_mappings_def try_ok_def)
  next
    case (child f m1 s1)
    have "\<exists>r m' s'. map_along alloc f is page frame (m1, s1) = Some (r, m', s') \<and> inv s' \<and>
        forest R d m' (free s' \<union> X) \<and> map_outcome R d k ((q @ [i]) @ is @ [pt_index page]) frame m1 (free s') r m' \<and>
        free s' \<subseteq> free s1 \<and> managed s' = managed s1 \<and> card (free s1) \<le> card (free s') + length is"
      by (rule Cons.IH [OF child(2-4)]) (use Cons.prems child(6) in auto)
    then obtain r m' s' where "map_along alloc f is page frame (m1, s1) = Some (r, m', s')" "inv s'"
      "forest R d m' (free s' \<union> X)" "map_outcome R d k (q @ (i # is) @ [pt_index page]) frame m1 (free s') r m'"
      "free s' \<subseteq> free s1" "managed s' = managed s1" "card (free s1) \<le> card (free s') + length is"
      by auto
    with child(1,6-8) map_outcome_same [OF child(5) full] show ?thesis by (auto simp: try_ok_def)
  qed
qed

end

end
