(* ===== verification/Bitmap_Allocator.thy ===== *)
theory Bitmap_Allocator
  imports Backing_Allocator
begin

unbundle bit_operations_syntax

text \<open>
  The general physical allocator, \<open>bitmap_allocator/src/lib.rs\<close>. Its state is the first
  frame it manages and a boxed slice of \<open>usize\<close> words in which a set bit is a free frame.
  The source counts \<open>size_of::<usize>()\<close>, that is eight, frames to a word and not the
  sixty-four bits a word has; the invariant \<open>bm_inv\<close> records that the upper bits stay
  clear. The mutex around the state is not part of this theory: each operation is the
  body that runs with the lock held.
\<close>

section \<open>The program\<close>

datatype FrameState = Allocated | Free

datatype OutOfRangeError = OutOfRangeError

record BitmapAllocator =
  first_frame :: Frame
  bitmap :: "u64 list"

definition SIZE_OF_USIZE :: usize where
  "SIZE_OF_USIZE = 8"

definition last_frame :: "BitmapAllocator \<Rightarrow> Frame rust" where
  "last_frame self = do {
     n \<leftarrow> umul (length (bitmap self)) SIZE_OF_USIZE;
     frame_add (first_frame self) n }"

definition frame_to_indices :: "BitmapAllocator \<Rightarrow> Frame \<Rightarrow> (usize \<times> usize) rust" where
  "frame_to_indices self frame = do {
     rust_assert (first_frame self \<le> frame);
     number_in_bitmap \<leftarrow> frame_diff frame (first_frame self);
     Some (number_in_bitmap div SIZE_OF_USIZE, number_in_bitmap mod SIZE_OF_USIZE) }"

definition in_range :: "BitmapAllocator \<Rightarrow> Frame \<Rightarrow> bool rust" where
  "in_range self frame =
     (if frame < first_frame self then Some False
      else do { l \<leftarrow> last_frame self; Some (\<not> l \<le> frame) })"

definition set_frame ::
  "Frame \<Rightarrow> FrameState \<Rightarrow> BitmapAllocator \<Rightarrow>
    ((OutOfRangeError, unit) result \<times> BitmapAllocator) rust" where
  "set_frame frame state self = do {
     ok \<leftarrow> in_range self frame;
     if \<not> ok then Some (Inl OutOfRangeError, self)
     else do {
       (bitmap_index, bit_index) \<leftarrow> frame_to_indices self frame;
       rust_assert (bitmap_index < length (bitmap self));
       let word = bitmap self ! bitmap_index;
           word' = (case state of
               Allocated \<Rightarrow> word AND NOT (push_bit bit_index 1)
             | Free \<Rightarrow> word OR push_bit bit_index 1)
       in Some (Inr (), self\<lparr>bitmap := (bitmap self)[bitmap_index := word']\<rparr>) } }"

definition get_frame ::
  "BitmapAllocator \<Rightarrow> Frame \<Rightarrow> (OutOfRangeError, FrameState) result rust" where
  "get_frame self frame = do {
     ok \<leftarrow> in_range self frame;
     if \<not> ok then Some (Inl OutOfRangeError)
     else do {
       (bitmap_index, bit_index) \<leftarrow> frame_to_indices self frame;
       rust_assert (bitmap_index < length (bitmap self));
       if (bitmap self ! bitmap_index) AND push_bit bit_index 1 = 0
       then Some (Inr Allocated) else Some (Inr Free) } }"

definition BitmapAllocator_new :: "Frame \<Rightarrow> usize \<Rightarrow> BitmapAllocator" where
  "BitmapAllocator_new first frame_count =
     \<lparr>first_frame = first, bitmap = replicate (frame_count div SIZE_OF_USIZE) 0\<rparr>"

definition trailing_zeros :: "u64 \<Rightarrow> nat" where
  "trailing_zeros w = length (takeWhile (\<lambda>i. \<not> bit w i) [0..<64])"

text \<open>The loop of \<open>allocate_one\<close>: \<open>i\<close> is the index of the head of the remaining words;
  the result carries the remaining words as the loop leaves them.\<close>

fun allocate_one_loop :: "Frame \<Rightarrow> nat \<Rightarrow> u64 list \<Rightarrow> (alloc_result \<times> u64 list) rust" where
  "allocate_one_loop first i [] = Some (Inl AllocError, [])"
| "allocate_one_loop first i (entry # rest) =
     (let first_set_bit = trailing_zeros entry in
      if first_set_bit \<noteq> SIZE_OF_USIZE * 8 then do {
        bits_to_start \<leftarrow> umul i SIZE_OF_USIZE;
        a \<leftarrow> frame_add first bits_to_start;
        start \<leftarrow> frame_add a first_set_bit;
        Some (Inr start, (entry AND NOT (push_bit first_set_bit 1)) # rest) }
      else do {
        (r, rest') \<leftarrow> allocate_one_loop first (Suc i) rest;
        Some (r, entry # rest') })"

definition allocate_one :: "BitmapAllocator \<Rightarrow> (alloc_result \<times> BitmapAllocator) rust" where
  "allocate_one self = do {
     (r, ws) \<leftarrow> allocate_one_loop (first_frame self) 0 (bitmap self);
     Some (r, self\<lparr>bitmap := ws\<rparr>) }"

text \<open>The slides the inner loop of \<open>allocate_multiple_fast\<close> tries on one entry.\<close>

definition fast_slide :: "u64 \<Rightarrow> usize \<Rightarrow> u64 \<Rightarrow> nat option" where
  "fast_slide msk frame_count entry =
     find (\<lambda>slide. drop_bit slide entry AND msk = msk)
       [trailing_zeros entry..<SIZE_OF_USIZE - frame_count]"

fun allocate_fast_loop ::
  "Frame \<Rightarrow> usize \<Rightarrow> u64 \<Rightarrow> nat \<Rightarrow> u64 list \<Rightarrow> (alloc_result \<times> u64 list) rust" where
  "allocate_fast_loop first frame_count msk i [] = Some (Inl AllocError, [])"
| "allocate_fast_loop first frame_count msk i (entry # rest) =
     (case fast_slide msk frame_count entry of
        Some slide \<Rightarrow> do {
          bits_to_start \<leftarrow> umul i SIZE_OF_USIZE;
          a \<leftarrow> frame_add first bits_to_start;
          start \<leftarrow> frame_add a slide;
          Some (Inr start, (entry AND NOT (push_bit slide msk)) # rest) }
      | None \<Rightarrow> do {
          (r, rest') \<leftarrow> allocate_fast_loop first frame_count msk (Suc i) rest;
          Some (r, entry # rest') })"

definition allocate_multiple_fast ::
  "usize \<Rightarrow> BitmapAllocator \<Rightarrow> (alloc_result \<times> BitmapAllocator) rust" where
  "allocate_multiple_fast frame_count self = do {
     rust_assert (1 < frame_count);
     if SIZE_OF_USIZE < frame_count then Some (Inl AllocError, self)
     else do {
       let msk = push_bit (frame_count - 1) 2 - 1;
       (r, ws) \<leftarrow> allocate_fast_loop (first_frame self) frame_count msk 0 (bitmap self);
       Some (r, self\<lparr>bitmap := ws\<rparr>) } }"

text \<open>The nested scan of \<open>allocate_multiple_slow\<close> over word and bit indices in order;
  leaving it by \<open>break 'outer\<close> is the \<open>Some\<close> result.\<close>

definition scan_order :: "nat \<Rightarrow> (usize \<times> usize) list" where
  "scan_order len =
     concat (map (\<lambda>word_idx. map (\<lambda>bit_idx. (word_idx, bit_idx)) [0..<SIZE_OF_USIZE]) [0..<len])"

fun slow_scan ::
  "u64 list \<Rightarrow> usize \<Rightarrow> nat \<Rightarrow> (usize \<times> usize) option \<Rightarrow> (usize \<times> usize) list \<Rightarrow>
    (usize \<times> usize) option" where
  "slow_scan ws frame_count found start [] = None"
| "slow_scan ws frame_count found start ((word_idx, bit_idx) # rest) =
     (if drop_bit bit_idx (ws ! word_idx) AND 1 = 1
      then (let start' = (if found = 0 then Some (word_idx, bit_idx) else start)
            in if Suc found = frame_count then start'
               else slow_scan ws frame_count (Suc found) start' rest)
      else slow_scan ws frame_count 0 None rest)"

definition allocate_multiple_slow ::
  "usize \<Rightarrow> BitmapAllocator \<Rightarrow> (alloc_result \<times> BitmapAllocator) rust" where
  "allocate_multiple_slow frame_count self = do {
     rust_assert (1 < frame_count);
     case slow_scan (bitmap self) frame_count 0 None (scan_order (length (bitmap self))) of
       None \<Rightarrow> Some (Inl AllocError, self)
     | Some (wi, bi) \<Rightarrow> do {
         bits \<leftarrow> umul wi SIZE_OF_USIZE;
         a \<leftarrow> frame_add (first_frame self) bits;
         start \<leftarrow> frame_add a bi;
         end \<leftarrow> frame_add start frame_count;
         self' \<leftarrow> for_each (\<lambda>frame s. do {
             (r, s') \<leftarrow> set_frame frame Allocated s;
             expect_ok r;
             Some s' }) (frame_range start end) self;
         Some (Inr start, self') } }"

text \<open>\<open>impl BackingAllocator for Wrapped\<close>.\<close>

definition bm_allocate_contiguous :: "BitmapAllocator allocate_fn" where
  "bm_allocate_contiguous frame_count self =
     (if frame_count = 0 then do { z \<leftarrow> frame_zero; Some (Inr z, self) }
      else if frame_count = 1 then allocate_one self
      else do {
        (r, s) \<leftarrow> allocate_multiple_fast frame_count self;
        case r of
          Inr f \<Rightarrow> Some (Inr f, s)
        | Inl _ \<Rightarrow> allocate_multiple_slow frame_count s })"

definition bm_deallocate_contiguous :: "Frame \<Rightarrow> usize \<Rightarrow> BitmapAllocator \<Rightarrow> BitmapAllocator rust" where
  "bm_deallocate_contiguous base_frame frame_count self =
     for_each (\<lambda>i s. do {
         frame \<leftarrow> frame_add base_frame i;
         (r, s') \<leftarrow> set_frame frame Free s;
         expect_ok r;
         Some s' }) [0..<frame_count] self"

definition bm_push :: "AllocationMeta \<Rightarrow> BitmapAllocator \<Rightarrow> BitmapAllocator rust" where
  "bm_push allocation self =
     for_each (\<lambda>frame s. do { (r, s') \<leftarrow> set_frame frame Allocated s; Some s' })
       (frame_range (fst (region allocation)) (snd (region allocation))) self"

text \<open>The closure given to \<open>all\<close>, which stops at the first frame that is not free.\<close>

fun all_free :: "BitmapAllocator \<Rightarrow> Frame list \<Rightarrow> bool rust" where
  "all_free self [] = Some True"
| "all_free self (f # fs) = do {
     r \<leftarrow> get_frame self f;
     case r of
       Inr Free \<Rightarrow> all_free self fs
     | _ \<Rightarrow> Some False }"

definition bm_allocate_at ::
  "usize \<Rightarrow> SpecificLocation \<Rightarrow> BitmapAllocator \<Rightarrow> (alloc_result \<times> BitmapAllocator) rust" where
  "bm_allocate_at frame_count location self =
     (if frame_count = 0 then do { z \<leftarrow> frame_zero; Some (Inr z, self) }
      else case location of
        Aligned _ \<Rightarrow> None
      | Below _ _ \<Rightarrow> None
      | At addr \<Rightarrow> do {
          end \<leftarrow> frame_add addr frame_count;
          free \<leftarrow> all_free self (frame_range addr end);
          if \<not> free then Some (Inl AllocError, self)
          else do {
            self' \<leftarrow> for_each (\<lambda>frame s. do {
                (r, s') \<leftarrow> set_frame frame Allocated s;
                expect_ok r;
                Some s' }) (frame_range addr end) self;
            Some (Inr addr, self') } })"

text \<open>\<open>impl SizedBackingAllocator for Wrapped\<close>.\<close>

definition mark_all :: "Frame \<times> Frame \<Rightarrow> BitmapAllocator \<Rightarrow> BitmapAllocator rust" where
  "mark_all free_region s = for_each (\<lambda>frame t. do {
       (r, t') \<leftarrow> set_frame frame Free t;
       expect_ok r;
       Some t' }) (frame_range (fst free_region) (snd free_region)) s"

definition bm_new :: "Config \<Rightarrow> BitmapAllocator rust" where
  "bm_new config = do {
     n \<leftarrow> frame_diff (snd (allocation_range config)) (fst (allocation_range config));
     for_each mark_all (regions config)
       (BitmapAllocator_new (fst (allocation_range config)) n) }"

section \<open>The abstract view: a set of free frame numbers\<close>

definition slot :: "u64 list \<Rightarrow> nat \<Rightarrow> bool" where
  "slot ws i \<longleftrightarrow> bit (ws ! (i div 8)) (i mod 8)"

definition low_words :: "u64 list \<Rightarrow> bool" where
  "low_words ws \<longleftrightarrow> list_all (\<lambda>w. take_bit 8 w = w) ws"

definition bm_base :: "BitmapAllocator \<Rightarrow> nat" where
  "bm_base a = faddr (first_frame a) div 4096"

definition bm_inv :: "BitmapAllocator \<Rightarrow> bool" where
  "bm_inv a \<longleftrightarrow> faddr (first_frame a) mod 4096 = 0 \<and>
     faddr (first_frame a) + length (bitmap a) * 8 * 4096 < USIZE_BOUND \<and> low_words (bitmap a)"

definition bm_free :: "BitmapAllocator \<Rightarrow> nat set" where
  "bm_free a = (\<lambda>i. bm_base a + i) ` {i. i < length (bitmap a) * 8 \<and> slot (bitmap a) i}"

definition bm_managed :: "BitmapAllocator \<Rightarrow> nat set" where
  "bm_managed a = {bm_base a ..< bm_base a + length (bitmap a) * 8}"

lemma mem_bm_free:
  "n \<in> bm_free a \<longleftrightarrow> n \<in> bm_managed a \<and> slot (bitmap a) (n - bm_base a)"
  by (auto simp: bm_free_def bm_managed_def image_iff intro: exI [of _ "n - bm_base a"])

lemma bm_free_managed: "bm_free a \<subseteq> bm_managed a"
  by (auto simp: mem_bm_free)

lemma first_frame_at: "bm_inv a \<Longrightarrow> first_frame a = frame_at (bm_base a)"
  by (cases "first_frame a"; cases "frame_base (first_frame a)")
    (auto simp: bm_inv_def bm_base_def)

lemma bm_inv_bound: "bm_inv a \<Longrightarrow> (bm_base a + length (bitmap a) * 8) * 4096 < USIZE_BOUND"
  by (auto simp: bm_inv_def bm_base_def algebra_simps)

lemma low_words_bit: "low_words ws \<Longrightarrow> w \<in> set ws \<Longrightarrow> bit w b \<Longrightarrow> b < 8"
  by (metis (mono_tags, lifting) bit_take_bit_iff list_all_iff low_words_def)

lemma low_wordsI: "(\<And>w b. w \<in> set ws \<Longrightarrow> bit w b \<Longrightarrow> b < 8) \<Longrightarrow> low_words ws"
  by (auto simp: low_words_def list_all_iff bit_take_bit_iff intro!: bit_eqI)

lemma low_words_Cons: "low_words (w # ws) \<longleftrightarrow> take_bit 8 w = w \<and> low_words ws"
  by (simp add: low_words_def)

lemma low_bit: "take_bit 8 w = w \<Longrightarrow> bit (w::u64) b \<Longrightarrow> b < 8"
  by (metis bit_take_bit_iff)

section \<open>Single frames\<close>

definition bm_write :: "FrameState \<Rightarrow> nat \<Rightarrow> u64 list \<Rightarrow> u64 list" where
  "bm_write st i ws = ws[i div 8 :=
     (case st of Allocated \<Rightarrow> ws ! (i div 8) AND NOT (push_bit (i mod 8) 1)
      | Free \<Rightarrow> ws ! (i div 8) OR push_bit (i mod 8) 1)]"

lemma length_bm_write [simp]: "length (bm_write st i ws) = length ws"
  by (simp add: bm_write_def)

lemma bit_pow2: "bit ((2::u64) ^ n) b \<longleftrightarrow> n = b \<and> b < 64"
  by (auto simp: bit_exp_iff possible_bit_def)

lemma slot_bm_write:
  assumes "i < length ws * 8"
  shows "slot (bm_write st i ws) j \<longleftrightarrow> (if j = i then st = Free else slot ws j)"
proof (cases "j div 8 = i div 8")
  case True
  have l: "i div 8 < length ws" using assms by (simp add: less_mult_imp_div_less)
  have e: "j mod 8 = i mod 8 \<longleftrightarrow> j = i" using True by (metis div_mult_mod_eq)
  have m: "i mod 8 < 64" "j mod 8 < 64" by (simp_all add: less_le_trans [of _ 8])
  show ?thesis
    using True l e m
    by (cases st) (auto simp: slot_def bm_write_def bit_and_iff bit_or_iff bit_not_iff bit_pow2)
next
  case False
  then have "j \<noteq> i" by auto
  with False show ?thesis by (simp add: slot_def bm_write_def)
qed

lemma low_words_bm_write:
  assumes "low_words ws" and "i < length ws * 8"
  shows "low_words (bm_write st i ws)"
proof (rule low_wordsI)
  fix w b
  assume w: "w \<in> set (bm_write st i ws)" and b: "bit w b"
  have l: "i div 8 < length ws" using assms(2) by (simp add: less_mult_imp_div_less)
  let ?v = "ws ! (i div 8)"
  from w have "w \<in> set ws \<or> w = ?v AND NOT (push_bit (i mod 8) 1) \<or> w = ?v OR push_bit (i mod 8) 1"
    unfolding bm_write_def by (auto split: FrameState.splits dest!: set_update_subset_insert [THEN subsetD])
  moreover have "bit ?v b \<Longrightarrow> b < 8" by (rule low_words_bit [OF assms(1) nth_mem [OF l]])
  ultimately show "b < 8"
    using b low_words_bit [OF assms(1), of w b] by (auto simp: bit_and_iff bit_or_iff bit_pow2)
qed

lemma in_range_at:
  assumes "bm_inv a"
  shows "in_range a (frame_at n) = Some (n \<in> bm_managed a)"
  using bm_inv_bound [OF assms]
  by (auto simp: in_range_def last_frame_def first_frame_at [OF assms] SIZE_OF_USIZE_def
      bm_managed_def rust_simps less_eq_Frame_def)

lemma frame_to_indices_at:
  assumes "bm_inv a" and "n \<in> bm_managed a"
  shows "frame_to_indices a (frame_at n) = Some ((n - bm_base a) div 8, (n - bm_base a) mod 8)"
  using assms(2)
  by (auto simp: frame_to_indices_def first_frame_at [OF assms(1)] SIZE_OF_USIZE_def
      bm_managed_def rust_simps)

lemma managed_index:
  "n \<in> bm_managed a \<Longrightarrow> n - bm_base a < length (bitmap a) * 8 \<and> (n - bm_base a) div 8 < length (bitmap a)"
  by (auto simp: bm_managed_def less_mult_imp_div_less)

lemma set_frame_at:
  assumes "bm_inv a" and "n \<in> bm_managed a"
  shows "set_frame (frame_at n) st a = Some (Inr (), a\<lparr>bitmap := bm_write st (n - bm_base a) (bitmap a)\<rparr>)"
  using assms managed_index [OF assms(2)]
  by (auto simp: set_frame_def in_range_at frame_to_indices_at bm_write_def rust_simps Let_def
      split: FrameState.splits)

lemma set_frame_out:
  assumes "bm_inv a" and "n \<notin> bm_managed a"
  shows "set_frame (frame_at n) st a = Some (Inl OutOfRangeError, a)"
  using assms by (simp add: set_frame_def in_range_at)

lemma bit_one_test: "(w AND 2 ^ b = 0) \<longleftrightarrow> \<not> bit (w::u64) b"
proof
  assume "w AND 2 ^ b = 0"
  then have "\<not> bit (w AND 2 ^ b) b" by simp
  then show "\<not> bit w b" by (auto simp: bit_and_iff bit_pow2 dest: bit_imp_le_length)
next
  assume "\<not> bit w b"
  then show "w AND 2 ^ b = 0" by (auto simp: bit_and_iff bit_pow2 intro!: bit_eqI)
qed

lemma get_frame_at:
  assumes "bm_inv a"
  shows "get_frame a (frame_at n) =
    Some (if n \<notin> bm_managed a then Inl OutOfRangeError
          else if n \<in> bm_free a then Inr Free else Inr Allocated)"
proof (cases "n \<in> bm_managed a")
  case True
  with assms managed_index [OF True] show ?thesis
    by (auto simp: get_frame_def in_range_at frame_to_indices_at rust_simps bit_one_test
        mem_bm_free slot_def)
next
  case False
  with assms show ?thesis by (simp add: get_frame_def in_range_at)
qed

text \<open>Two states of the same allocator: same frames managed, one set of bits changed.\<close>

definition same_region :: "BitmapAllocator \<Rightarrow> BitmapAllocator \<Rightarrow> bool" where
  "same_region a b \<longleftrightarrow> first_frame a = first_frame b \<and> length (bitmap a) = length (bitmap b)"

lemma same_region_managed: "same_region a b \<Longrightarrow> bm_managed b = bm_managed a"
  by (simp add: same_region_def bm_managed_def bm_base_def)

lemma same_region_trans: "same_region a b \<Longrightarrow> same_region b c \<Longrightarrow> same_region a c"
  by (simp add: same_region_def)

lemma same_region_refl [simp]: "same_region a a"
  by (simp add: same_region_def)

fun bm_mark :: "FrameState \<Rightarrow> nat set \<Rightarrow> nat set \<Rightarrow> nat set" where
  "bm_mark Allocated N F = F - N"
| "bm_mark Free N F = F \<union> N"

lemma set_frame_abs:
  assumes "bm_inv a" and "n \<in> bm_managed a"
  shows "\<exists>b. set_frame (frame_at n) st a = Some (Inr (), b) \<and> bm_inv b \<and> same_region a b \<and>
    bm_free b = bm_mark st {n} (bm_free a)"
proof -
  define b where "b = a\<lparr>bitmap := bm_write st (n - bm_base a) (bitmap a)\<rparr>"
  have i: "n - bm_base a < length (bitmap a) * 8" using managed_index [OF assms(2)] by simp
  have ge: "bm_base a \<le> n" using assms(2) by (simp add: bm_managed_def)
  have sr: "same_region a b" by (simp add: b_def same_region_def)
  have base: "bm_base b = bm_base a" by (simp add: b_def bm_base_def)
  have bits: "bitmap b = bm_write st (n - bm_base a) (bitmap a)" by (simp add: b_def)
  have "bm_inv b"
    using assms(1) low_words_bm_write [OF _ i] by (simp add: bm_inv_def b_def)
  moreover have "m \<in> bm_free b \<longleftrightarrow> m \<in> bm_mark st {n} (bm_free a)" for m
  proof -
    have "m - bm_base a = n - bm_base a \<longleftrightarrow> m = n" if "m \<in> bm_managed a"
      using that ge by (auto simp: bm_managed_def)
    then show ?thesis
      using assms(2) slot_bm_write [OF i, of st "m - bm_base a"]
      by (cases st) (auto simp: mem_bm_free same_region_managed [OF sr] base bits)
  qed
  ultimately show ?thesis
    using set_frame_at [OF assms, of st] sr by (auto simp: b_def)
qed

lemma for_each_frames:
  assumes "bm_inv a" and "set ns \<subseteq> bm_managed a"
    and step: "\<And>n b. bm_inv b \<Longrightarrow> same_region a b \<Longrightarrow> n \<in> set ns \<Longrightarrow>
      f n b = map_option snd (set_frame (frame_at n) st b)"
  shows "\<exists>b. for_each f ns a = Some b \<and> bm_inv b \<and> same_region a b \<and>
    bm_free b = bm_mark st (set ns) (bm_free a)"
  using assms
proof (induction ns arbitrary: a)
  case Nil
  then show ?case by (cases st) auto
next
  case (Cons n ns)
  then obtain b where b: "set_frame (frame_at n) st a = Some (Inr (), b)" "bm_inv b"
      "same_region a b" "bm_free b = bm_mark st {n} (bm_free a)"
    using set_frame_abs [OF Cons.prems(1), of n st] by auto
  then have "f n a = Some b" using Cons.prems(1,3) by simp
  moreover have "\<exists>c. for_each f ns b = Some c \<and> bm_inv c \<and> same_region b c \<and>
      bm_free c = bm_mark st (set ns) (bm_free b)"
    using Cons.prems b same_region_trans [OF b(3)]
    by (intro Cons.IH) (auto simp: same_region_managed [OF b(3)])
  ultimately show ?case
    using b(3,4) same_region_trans [OF b(3)] by (cases st) auto
qed

lemma for_each_map: "for_each f (map g xs) s = for_each (\<lambda>x. f (g x)) xs s"
  by (induction xs arbitrary: s) (auto split: Option.bind_splits)

lemma mark_range:
  assumes "bm_inv a" and "{m..<n} \<subseteq> bm_managed a"
  shows "\<exists>b. for_each (\<lambda>frame s. do { (r, s') \<leftarrow> set_frame frame st s; expect_ok r; Some s' })
      (frame_range (frame_at m) (frame_at n)) a = Some b \<and> bm_inv b \<and> same_region a b \<and>
    bm_free b = bm_mark st {m..<n} (bm_free a)"
proof -
  have "\<exists>b. for_each (\<lambda>i s. do { (r, s') \<leftarrow> set_frame (frame_at i) st s; expect_ok r; Some s' })
      [m..<n] a = Some b \<and> bm_inv b \<and> same_region a b \<and>
    bm_free b = bm_mark st (set [m..<n]) (bm_free a)"
  proof (rule for_each_frames [OF assms(1)])
    show "set [m..<n] \<subseteq> bm_managed a" using assms(2) by simp
    fix i b
    assume b: "bm_inv b" "same_region a b" and "i \<in> set [m..<n]"
    with assms(2) have "i \<in> bm_managed b" using same_region_managed [OF b(2)] by auto
    with b(1) show "(do { (r, s') \<leftarrow> set_frame (frame_at i) st b; expect_ok r; Some s' }) =
        map_option snd (set_frame (frame_at i) st b)"
      by (simp add: set_frame_at)
  qed
  then show ?thesis by (simp add: frame_range_frame_at for_each_map)
qed

section \<open>Scanning a word\<close>

lemma takeWhile_upt_length:
  assumes "i = length (takeWhile (\<lambda>i. \<not> P i) [0..<n])"
  shows "(i < n \<longrightarrow> P i) \<and> (\<forall>j < i. \<not> P j) \<and> i \<le> n"
proof -
  have "length (takeWhile (\<lambda>i. \<not> P i) [0..<n]) \<le> n"
    by (metis length_takeWhile_le length_upt minus_nat.diff_0)
  moreover have "P i" if "i < n"
    using nth_length_takeWhile [of "\<lambda>i. \<not> P i" "[0..<n]"] that assms by simp
  moreover have "\<not> P j" if "j < i" for j
  proof -
    have "j < length (takeWhile (\<lambda>i. \<not> P i) [0..<n])" using that assms by simp
    then have "takeWhile (\<lambda>i. \<not> P i) [0..<n] ! j \<in> set (takeWhile (\<lambda>i. \<not> P i) [0..<n])"
      by (rule nth_mem)
    then have "\<not> P (takeWhile (\<lambda>i. \<not> P i) [0..<n] ! j)" by (auto dest: set_takeWhileD)
    moreover have "takeWhile (\<lambda>i. \<not> P i) [0..<n] ! j = j"
      using \<open>j < length _\<close> less_le_trans [OF that] \<open>length _ \<le> n\<close> assms by (simp add: takeWhile_nth)
    ultimately show ?thesis by simp
  qed
  ultimately show ?thesis using assms by simp
qed

lemma trailing_zeros_le: "trailing_zeros w \<le> 64"
  and trailing_zeros_bit: "trailing_zeros w < 64 \<Longrightarrow> bit w (trailing_zeros w)"
  and trailing_zeros_below: "j < trailing_zeros w \<Longrightarrow> \<not> bit w j"
  using takeWhile_upt_length [OF trailing_zeros_def] by blast+

lemma trailing_zeros_64: "trailing_zeros w = 64 \<longleftrightarrow> w = 0"
proof
  assume "trailing_zeros w = 64"
  then have "\<not> bit w j" for j
    using trailing_zeros_below [of j w] by (cases "j < 64") (auto dest: bit_imp_le_length)
  then show "w = 0" by (auto intro: bit_eqI)
next
  assume "w = 0"
  then have "\<not> trailing_zeros w < 64" using trailing_zeros_bit [of w] by auto
  then show "trailing_zeros w = 64" using trailing_zeros_le [of w] by simp
qed

lemma low_trailing_zeros: "take_bit 8 w = w \<Longrightarrow> w \<noteq> 0 \<Longrightarrow> trailing_zeros w < 8"
  by (metis low_bit trailing_zeros_64 trailing_zeros_bit trailing_zeros_le le_neq_implies_less)

lemma slot_Cons: "slot (w # ws) j \<longleftrightarrow> (if j < 8 then bit w j else slot ws (j - 8))"
proof (cases "j < 8")
  case False
  then have "j div 8 = Suc ((j - 8) div 8)" "j mod 8 = (j - 8) mod 8"
    by (simp_all add: le_div_geq le_mod_geq)
  with False show ?thesis by (simp add: slot_def)
qed (simp add: slot_def)

lemma bm_write_Allocated_Cons:
  "bm_write Allocated j (w # ws) =
    (if j < 8 then (w AND NOT (push_bit j 1)) # ws else w # bm_write Allocated (j - 8) ws)"
proof (cases "j < 8")
  case False
  then have "j div 8 = Suc ((j - 8) div 8)" "j mod 8 = (j - 8) mod 8"
    by (simp_all add: le_div_geq le_mod_geq)
  with False show ?thesis by (simp add: bm_write_def)
qed (simp add: bm_write_def)

lemma frame_add_twice:
  assumes "(k + m + n) * 4096 < USIZE_BOUND"
  shows "frame_add (frame_at k) m \<bind> (\<lambda>a. frame_add a n \<bind> g) = g (frame_at (k + m + n))"
proof -
  from assms have "frame_add (frame_at k) m = Some (frame_at (k + m))"
    "frame_add (frame_at (k + m)) n = Some (frame_at (k + m + n))"
    by (simp_all add: frame_add_eq_Some algebra_simps)
  then show ?thesis by (simp del: frame_add_at)
qed

section \<open>The three searches\<close>

text \<open>\<open>allocate_one\<close> takes the lowest free frame.\<close>

lemma allocate_one_loop_spec:
  assumes "low_words ws" and "(k + (i + length ws) * 8) * 4096 < USIZE_BOUND"
  shows "(\<forall>j < length ws * 8. \<not> slot ws j) \<and> allocate_one_loop (frame_at k) i ws = Some (Inl AllocError, ws) \<or>
    (\<exists>j < length ws * 8. slot ws j \<and> (\<forall>j' < j. \<not> slot ws j') \<and>
      allocate_one_loop (frame_at k) i ws = Some (Inr (frame_at (k + i * 8 + j)), bm_write Allocated j ws))"
  using assms
proof (induction ws arbitrary: i)
  case Nil
  then show ?case by simp
next
  case (Cons w ws)
  have low: "take_bit 8 w = w" and lows: "low_words ws" using Cons.prems(1) by (auto simp: low_words_Cons)
  show ?case
  proof (cases "w = 0")
    case True
    then have tz: "trailing_zeros w = 64" by (simp add: trailing_zeros_64)
    have IH: "(\<forall>j < length ws * 8. \<not> slot ws j) \<and>
          allocate_one_loop (frame_at k) (Suc i) ws = Some (Inl AllocError, ws) \<or>
        (\<exists>j < length ws * 8. slot ws j \<and> (\<forall>j' < j. \<not> slot ws j') \<and>
          allocate_one_loop (frame_at k) (Suc i) ws =
            Some (Inr (frame_at (k + Suc i * 8 + j)), bm_write Allocated j ws))"
      using Cons.IH [OF lows, of "Suc i"] Cons.prems(2) by simp
    then show ?thesis
    proof (elim disjE conjE exE)
      fix j
      assume j: "j < length ws * 8" "slot ws j" "\<forall>j' < j. \<not> slot ws j'"
        "allocate_one_loop (frame_at k) (Suc i) ws =
          Some (Inr (frame_at (k + Suc i * 8 + j)), bm_write Allocated j ws)"
      have "\<not> slot (w # ws) j'" if "j' < j + 8" for j'
        using that j(3) True by (simp add: slot_Cons)
      moreover have "k + Suc i * 8 + j = k + i * 8 + (j + 8)" by simp
      ultimately show ?thesis
        using j tz by (intro disjI2 exI [of _ "j + 8"])
          (simp add: slot_Cons bm_write_Allocated_Cons SIZE_OF_USIZE_def)
    qed (use tz True in \<open>auto simp: slot_Cons SIZE_OF_USIZE_def\<close>)
  next
    case False
    define z where "z = trailing_zeros w"
    have z: "z < 8" "bit w z" "\<And>j. j < z \<Longrightarrow> \<not> bit w j"
      using low_trailing_zeros [OF low False] trailing_zeros_bit [of w] trailing_zeros_below [of _ w]
      by (auto simp: z_def)
    have "(k + i * 8 + z) * 4096 < USIZE_BOUND"
      by (rule le_less_trans [OF _ Cons.prems(2)]) (use z(1) in simp)
    from frame_add_twice [OF this] have "allocate_one_loop (frame_at k) i (w # ws) =
        Some (Inr (frame_at (k + i * 8 + z)), bm_write Allocated z (w # ws))"
      using z(1) Cons.prems(2)
      by (simp add: z_def [symmetric] SIZE_OF_USIZE_def rust_simps bm_write_Allocated_Cons Let_def
          del: frame_add_at)
    then show ?thesis
      using z by (intro disjI2 exI [of _ z]) (auto simp: slot_Cons)
  qed
qed

lemma allocate_one_abs:
  assumes "bm_inv a"
  shows "bm_free a = {} \<and> allocate_one a = Some (Inl AllocError, a) \<or>
    (\<exists>n b. n \<in> bm_free a \<and> allocate_one a = Some (Inr (frame_at n), b) \<and> bm_inv b \<and> same_region a b \<and>
      bm_free b = bm_free a - {n})"
proof -
  from assms have low: "low_words (bitmap a)" by (simp add: bm_inv_def)
  have b: "(bm_base a + (0 + length (bitmap a)) * 8) * 4096 < USIZE_BOUND"
    using bm_inv_bound [OF assms] by simp
  from allocate_one_loop_spec [OF low b] show ?thesis
  proof (elim disjE exE conjE)
    assume "\<forall>j < length (bitmap a) * 8. \<not> slot (bitmap a) j"
      "allocate_one_loop (frame_at (bm_base a)) 0 (bitmap a) = Some (Inl AllocError, bitmap a)"
    then show ?thesis
      by (auto simp: allocate_one_def first_frame_at [OF assms] bm_free_def)
  next
    fix j
    assume j: "j < length (bitmap a) * 8" "slot (bitmap a) j"
      "allocate_one_loop (frame_at (bm_base a)) 0 (bitmap a) =
        Some (Inr (frame_at (bm_base a + 0 * 8 + j)), bm_write Allocated j (bitmap a))"
    define n where "n = bm_base a + j"
    have n: "n \<in> bm_managed a" "n - bm_base a = j" using j(1) by (auto simp: n_def bm_managed_def)
    with j(2) have "n \<in> bm_free a" by (simp add: mem_bm_free)
    moreover have "allocate_one a = Some (Inr (frame_at n), a\<lparr>bitmap := bm_write Allocated j (bitmap a)\<rparr>)"
      using j(3) by (simp add: allocate_one_def first_frame_at [OF assms] n_def)
    moreover have "set_frame (frame_at n) Allocated a =
        Some (Inr (), a\<lparr>bitmap := bm_write Allocated j (bitmap a)\<rparr>)"
      using set_frame_at [OF assms n(1)] n(2) by simp
    ultimately show ?thesis using set_frame_abs [OF assms n(1), of Allocated] by auto
  qed
qed

text \<open>\<open>allocate_multiple_fast\<close>: a run inside one word.\<close>

lemma fast_mask: "0 < n \<Longrightarrow> push_bit (n - 1) 2 - 1 = (mask n :: u64)"
  by (cases n) (simp_all add: push_bit_eq_mult mask_eq_exp_minus_1)

lemma fast_slide_SomeD:
  assumes "fast_slide (mask n) n w = Some z" and "n \<le> 8"
  shows "z + n \<le> 8 \<and> (\<forall>b < n. bit w (z + b))"
proof -
  from assms(1) have z: "z < 8 - n" and m: "drop_bit z w AND mask n = mask n"
    by (auto simp: fast_slide_def SIZE_OF_USIZE_def find_Some_iff)
  have "bit w (z + b)" if "b < n" for b
  proof -
    have "bit (mask n :: u64) b" using that assms(2) by (simp add: bit_mask_iff possible_bit_def)
    then have "bit (drop_bit z w AND mask n) b" using m by simp
    then show ?thesis by (simp add: bit_and_iff bit_drop_bit_eq)
  qed
  with z show ?thesis by simp
qed

lemma bit_clear_run:
  assumes "z + n \<le> 8" and "b < 8"
  shows "bit (w AND NOT (push_bit z (mask n :: u64))) b \<longleftrightarrow> bit w b \<and> \<not> (z \<le> b \<and> b < z + n)"
  using assms by (auto simp: bit_and_iff bit_not_iff bit_push_bit_iff bit_mask_iff possible_bit_def)

definition clears :: "u64 list \<Rightarrow> nat \<Rightarrow> nat \<Rightarrow> u64 list \<Rightarrow> bool" where
  "clears ws j n ws' \<longleftrightarrow> j + n \<le> length ws * 8 \<and> (\<forall>b < n. slot ws (j + b)) \<and> length ws' = length ws \<and>
     low_words ws' \<and> (\<forall>m < length ws * 8. slot ws' m \<longleftrightarrow> slot ws m \<and> \<not> (j \<le> m \<and> m < j + n))"

lemma clears_Cons_here:
  assumes "low_words (w # ws)" and "z + n \<le> 8" and "\<forall>b < n. bit w (z + b)"
  shows "clears (w # ws) z n ((w AND NOT (push_bit z (mask n))) # ws)"
proof -
  have "take_bit 8 w = w" using assms(1) by (simp add: low_words_Cons)
  then have "take_bit 8 (w AND NOT (push_bit z (mask n))) = w AND NOT (push_bit z (mask n))"
    by (auto simp: bit_take_bit_iff bit_and_iff intro!: bit_eqI dest: low_bit)
  then show ?thesis
    using assms by (auto simp: clears_def low_words_Cons slot_Cons bit_clear_run)
qed

lemma clears_Cons_later:
  assumes "low_words (w # ws)" and "clears ws j n ws'"
  shows "clears (w # ws) (j + 8) n (w # ws')"
  using assms by (auto simp: clears_def low_words_Cons slot_Cons)

lemma allocate_fast_loop_spec:
  assumes "low_words ws" and "(k + (i + length ws) * 8) * 4096 < USIZE_BOUND" and "n \<le> 8"
  shows "allocate_fast_loop (frame_at k) n (mask n) i ws = Some (Inl AllocError, ws) \<or>
    (\<exists>j ws'. clears ws j n ws' \<and>
      allocate_fast_loop (frame_at k) n (mask n) i ws = Some (Inr (frame_at (k + i * 8 + j)), ws'))"
  using assms(1,2)
proof (induction ws arbitrary: i)
  case Nil
  then show ?case by simp
next
  case (Cons w ws)
  have lows: "low_words ws" using Cons.prems(1) by (simp add: low_words_Cons)
  show ?case
  proof (cases "fast_slide (mask n) n w")
    case None
    from Cons.IH [OF lows, of "Suc i"] Cons.prems(2)
    have "allocate_fast_loop (frame_at k) n (mask n) (Suc i) ws = Some (Inl AllocError, ws) \<or>
      (\<exists>j ws'. clears ws j n ws' \<and>
        allocate_fast_loop (frame_at k) n (mask n) (Suc i) ws =
          Some (Inr (frame_at (k + Suc i * 8 + j)), ws'))" by simp
    then show ?thesis
    proof (elim disjE exE conjE)
      fix j ws'
      assume j: "clears ws j n ws'"
        "allocate_fast_loop (frame_at k) n (mask n) (Suc i) ws =
          Some (Inr (frame_at (k + Suc i * 8 + j)), ws')"
      have "k + Suc i * 8 + j = k + i * 8 + (j + 8)" by simp
      with j(2) None clears_Cons_later [OF Cons.prems(1) j(1)] show ?thesis
        by (intro disjI2 exI [of _ "j + 8"] exI [of _ "w # ws'"]) simp
    qed (use None in simp)
  next
    case (Some z)
    from fast_slide_SomeD [OF Some assms(3)] have z: "z + n \<le> 8" "\<forall>b < n. bit w (z + b)" by auto
    have b: "(k + i * 8 + z) * 4096 < USIZE_BOUND"
      by (rule le_less_trans [OF _ Cons.prems(2)]) (use z(1) in simp)
    from frame_add_twice [OF this] have "allocate_fast_loop (frame_at k) n (mask n) i (w # ws) =
        Some (Inr (frame_at (k + i * 8 + z)), (w AND NOT (push_bit z (mask n))) # ws)"
      using Some b by (simp add: SIZE_OF_USIZE_def rust_simps del: frame_add_at)
    with clears_Cons_here [OF Cons.prems(1) z] show ?thesis by blast
  qed
qed

lemma clears_abs:
  assumes "bm_inv a" and "clears (bitmap a) j n ws" and "b = a\<lparr>bitmap := ws\<rparr>"
  shows "bm_inv b \<and> same_region a b \<and> {bm_base a + j..<bm_base a + j + n} \<subseteq> bm_free a \<and>
    bm_free b = bm_free a - {bm_base a + j..<bm_base a + j + n}"
proof -
  have sr: "same_region a b" and base: "bm_base b = bm_base a" "bitmap b = ws"
    using assms(2,3) by (simp_all add: clears_def same_region_def bm_base_def)
  have "bm_inv b" using assms by (simp add: bm_inv_def clears_def)
  moreover have "m \<in> bm_free a" if "m \<in> {bm_base a + j..<bm_base a + j + n}" for m
  proof -
    from that have "m - bm_base a = j + (m - bm_base a - j)" "m - bm_base a - j < n" by auto
    then have "slot (bitmap a) (m - bm_base a)" using assms(2) unfolding clears_def by metis
    with that assms(2) show ?thesis by (auto simp: mem_bm_free bm_managed_def clears_def)
  qed
  moreover have "m \<in> bm_free b \<longleftrightarrow> m \<in> bm_free a - {bm_base a + j..<bm_base a + j + n}" for m
    using assms(2) by (auto simp: mem_bm_free same_region_managed [OF sr] base bm_managed_def clears_def)
  ultimately show ?thesis using sr by blast
qed

lemma allocate_multiple_fast_abs:
  assumes "bm_inv a" and "1 < n"
  shows "allocate_multiple_fast n a = Some (Inl AllocError, a) \<or>
    (\<exists>m b. {m..<m + n} \<subseteq> bm_free a \<and> allocate_multiple_fast n a = Some (Inr (frame_at m), b) \<and>
      bm_inv b \<and> same_region a b \<and> bm_free b = bm_free a - {m..<m + n})"
proof (cases "8 < n")
  case True
  with assms(2) show ?thesis
    by (simp add: allocate_multiple_fast_def SIZE_OF_USIZE_def rust_simps)
next
  case False
  have low: "low_words (bitmap a)" using assms(1) by (simp add: bm_inv_def)
  have b: "(bm_base a + (0 + length (bitmap a)) * 8) * 4096 < USIZE_BOUND"
    using bm_inv_bound [OF assms(1)] by simp
  have eq: "allocate_multiple_fast n a = do {
      (r, ws) \<leftarrow> allocate_fast_loop (frame_at (bm_base a)) n (mask n) 0 (bitmap a);
      Some (r, a\<lparr>bitmap := ws\<rparr>) }"
    using False assms(2) fast_mask [of n]
    by (simp add: allocate_multiple_fast_def SIZE_OF_USIZE_def rust_simps first_frame_at [OF assms(1)] Let_def)
  have "n \<le> 8" using False by simp
  from allocate_fast_loop_spec [OF low b this] show ?thesis
  proof (elim disjE exE conjE)
    fix j ws
    assume c: "clears (bitmap a) j n ws"
      and l: "allocate_fast_loop (frame_at (bm_base a)) n (mask n) 0 (bitmap a) =
        Some (Inr (frame_at (bm_base a + 0 * 8 + j)), ws)"
    from l have "allocate_multiple_fast n a = Some (Inr (frame_at (bm_base a + j)), a\<lparr>bitmap := ws\<rparr>)"
      by (simp add: eq)
    with clears_abs [OF assms(1) c refl] show ?thesis by blast
  qed (simp add: eq)
qed

text \<open>\<open>allocate_multiple_slow\<close>: the first run anywhere in the bitmap.\<close>

lemma scan_order_upt: "scan_order len = map (\<lambda>p. (p div 8, p mod 8)) [0..<len * 8]"
proof (induction len)
  case 0
  then show ?case by (simp add: scan_order_def)
next
  case (Suc len)
  have "[0..<Suc len * 8] = [0..<len * 8] @ [len * 8..<len * 8 + 8]"
    using upt_add_eq_append [of 0 "len * 8" 8] by (simp add: add.commute)
  moreover have "map (\<lambda>p. (p div 8, p mod 8)) [len * 8..<len * 8 + 8] = map (Pair len) [0..<8]"
    by (intro nth_equalityI) simp_all
  moreover have "[0..<Suc len] = [0..<len] @ [len]" by simp
  ultimately show ?case
    using Suc by (simp add: scan_order_def SIZE_OF_USIZE_def del: upt_Suc)
qed

definition run_at :: "u64 list \<Rightarrow> nat \<Rightarrow> nat \<Rightarrow> bool" where
  "run_at ws n m \<longleftrightarrow> (\<forall>i. m \<le> i \<and> i < m + n \<longrightarrow> slot ws i)"

lemma slow_scan_spec:
  assumes "f < n" and "f \<le> p" and "p \<le> q" and "\<forall>i. p - f \<le> i \<and> i < p \<longrightarrow> slot ws i"
    and "0 < f \<longrightarrow> start = Some ((p - f) div 8, (p - f) mod 8)"
  shows "case slow_scan ws n f start (map (\<lambda>p. (p div 8, p mod 8)) [p..<q]) of
      None \<Rightarrow> \<forall>m. p - f \<le> m \<and> m + n \<le> q \<longrightarrow> \<not> run_at ws n m
    | Some s \<Rightarrow> \<exists>m. s = (m div 8, m mod 8) \<and> m + n \<le> q \<and> run_at ws n m"
  using assms
proof (induction "q - p" arbitrary: p f start)
  case 0
  then show ?case by (auto simp: run_at_def)
next
  case (Suc d)
  then have p: "p < q" by simp
  have upt: "[p..<q] = p # [Suc p..<q]" using p by (rule upt_conv_Cons)
  have t: "drop_bit (p mod 8) (ws ! (p div 8)) AND 1 = 1 \<longleftrightarrow> slot ws p"
    by (simp add: slot_def bit_iff_and_drop_bit_eq_1)
  show ?case
  proof (cases "slot ws p")
    case False
    have "case slow_scan ws n 0 None (map (\<lambda>p. (p div 8, p mod 8)) [Suc p..<q]) of
        None \<Rightarrow> \<forall>m. Suc p - 0 \<le> m \<and> m + n \<le> q \<longrightarrow> \<not> run_at ws n m
      | Some s \<Rightarrow> \<exists>m. s = (m div 8, m mod 8) \<and> m + n \<le> q \<and> run_at ws n m"
      using Suc p by (intro Suc.hyps(1)) auto
    moreover have "\<not> run_at ws n m" if "p - f \<le> m" "m \<le> p" for m
      using False Suc.prems(1) that by (auto simp: run_at_def intro!: exI [of _ p])
    moreover have "m \<le> p \<or> Suc p \<le> m" for m by auto
    ultimately show ?thesis
      using False by (simp add: upt t split: option.splits) (blast, auto)
  next
    case True
    define st where "st = (if f = 0 then Some (p div 8, p mod 8) else start)"
    have st: "st = Some ((p - f) div 8, (p - f) mod 8)" using Suc.prems(5) by (simp add: st_def)
    have run: "\<forall>i. p - f \<le> i \<and> i < Suc p \<longrightarrow> slot ws i" using True Suc.prems(4) by (auto simp: less_Suc_eq)
    show ?thesis
    proof (cases "Suc f = n")
      case last: True
      then have "run_at ws n (p - f)" "p - f + n \<le> q" using run Suc.prems p by (auto simp: run_at_def)
      then show ?thesis using True last by (auto simp: upt t st_def [symmetric] st Let_def)
    next
      case more: False
      have "case slow_scan ws n (Suc f) st (map (\<lambda>p. (p div 8, p mod 8)) [Suc p..<q]) of
          None \<Rightarrow> \<forall>m. Suc p - Suc f \<le> m \<and> m + n \<le> q \<longrightarrow> \<not> run_at ws n m
        | Some s \<Rightarrow> \<exists>m. s = (m div 8, m mod 8) \<and> m + n \<le> q \<and> run_at ws n m"
        using Suc p more st run by (intro Suc.hyps(1)) auto
      then show ?thesis
        using True more unfolding diff_Suc_Suc by (simp add: upt t st_def [symmetric] Let_def)
    qed
  qed
qed

lemma run_free:
  assumes "m + n \<le> length (bitmap a) * 8"
  shows "run_at (bitmap a) n m \<longleftrightarrow> {bm_base a + m..<bm_base a + m + n} \<subseteq> bm_free a"
proof
  assume "run_at (bitmap a) n m"
  with assms show "{bm_base a + m..<bm_base a + m + n} \<subseteq> bm_free a"
    by (auto simp: run_at_def mem_bm_free bm_managed_def less_diff_conv2 le_diff_conv2)
next
  assume r: "{bm_base a + m..<bm_base a + m + n} \<subseteq> bm_free a"
  show "run_at (bitmap a) n m"
    unfolding run_at_def
  proof (intro allI impI)
    fix i
    assume "m \<le> i \<and> i < m + n"
    with r have "bm_base a + i \<in> bm_free a" by (auto simp: subset_iff)
    then show "slot (bitmap a) i" by (simp add: mem_bm_free)
  qed
qed

lemma slow_scan_abs:
  assumes "0 < n"
  shows "case slow_scan (bitmap a) n 0 None (scan_order (length (bitmap a))) of
      None \<Rightarrow> \<not> (\<exists>m. {m..<m + n} \<subseteq> bm_free a)
    | Some s \<Rightarrow> \<exists>m. s = (m div 8, m mod 8) \<and> m + n \<le> length (bitmap a) * 8 \<and>
        {bm_base a + m..<bm_base a + m + n} \<subseteq> bm_free a"
proof (cases "slow_scan (bitmap a) n 0 None (scan_order (length (bitmap a)))")
  case None
  with slow_scan_spec [of 0 n 0 "length (bitmap a) * 8" "bitmap a" None] assms
  have no: "m + n \<le> length (bitmap a) * 8 \<Longrightarrow> \<not> run_at (bitmap a) n m" for m
    by (simp add: scan_order_upt)
  have "\<not> {m..<m + n} \<subseteq> bm_free a" for m
  proof
    assume r: "{m..<m + n} \<subseteq> bm_free a"
    then have "m \<in> bm_managed a" "m + n - 1 \<in> bm_managed a"
      using assms bm_free_managed [of a] by (auto simp: subset_iff)
    then have "bm_base a \<le> m" "m - bm_base a + n \<le> length (bitmap a) * 8" using assms by (auto simp: bm_managed_def)
    then show False using no [of "m - bm_base a"] r by (simp add: run_free)
  qed
  with None show ?thesis by simp
next
  case (Some s)
  with slow_scan_spec [of 0 n 0 "length (bitmap a) * 8" "bitmap a" None] assms
  show ?thesis by (auto simp: scan_order_upt run_free)
qed

lemma allocate_multiple_slow_abs:
  assumes "bm_inv a" and "1 < n"
  shows "\<not> (\<exists>m. {m..<m + n} \<subseteq> bm_free a) \<and> allocate_multiple_slow n a = Some (Inl AllocError, a) \<or>
    (\<exists>m b. {m..<m + n} \<subseteq> bm_free a \<and> allocate_multiple_slow n a = Some (Inr (frame_at m), b) \<and>
      bm_inv b \<and> same_region a b \<and> bm_free b = bm_free a - {m..<m + n})"
proof (cases "slow_scan (bitmap a) n 0 None (scan_order (length (bitmap a)))")
  case None
  with slow_scan_abs [of n a] assms(2) show ?thesis
    by (simp add: allocate_multiple_slow_def rust_simps)
next
  case (Some s)
  with slow_scan_abs [of n a] assms(2) obtain p where p: "s = (p div 8, p mod 8)"
      "p + n \<le> length (bitmap a) * 8" and run: "{bm_base a + p..<bm_base a + p + n} \<subseteq> bm_free a"
    by auto
  define m where "m = bm_base a + p"
  have bound: "(m + n) * 4096 < USIZE_BOUND"
    by (rule le_less_trans [OF _ bm_inv_bound [OF assms(1)]]) (use p(2) in \<open>simp add: m_def\<close>)
  have m: "bm_base a + p div 8 * 8 + p mod 8 = m" by (simp add: m_def)
  have "(bm_base a + p div 8 * 8 + p mod 8) * 4096 < USIZE_BOUND" using bound unfolding m by simp
  note twice = frame_add_twice [OF this, unfolded m]
  have u: "umul (p div 8) 8 = Some (p div 8 * 8)"
    using bound m by (simp add: rust_simps)
  have e: "frame_add (frame_at m) n = Some (frame_at (m + n))"
    using bound by (simp add: frame_add_eq_Some)
  have "{m..<m + n} \<subseteq> bm_managed a" using run bm_free_managed [of a] by (auto simp: m_def)
  from mark_range [OF assms(1) this, of Allocated] obtain b where b:
    "for_each (\<lambda>frame s. do { (r, s') \<leftarrow> set_frame frame Allocated s; expect_ok r; Some s' })
      (frame_range (frame_at m) (frame_at (m + n))) a = Some b"
    "bm_inv b" "same_region a b" "bm_free b = bm_free a - {m..<m + n}" by auto
  have "allocate_multiple_slow n a = Some (Inr (frame_at m), b)"
    using assms(2) Some p(1) u e b(1)
    by (simp add: allocate_multiple_slow_def first_frame_at [OF assms(1)] SIZE_OF_USIZE_def twice
        rust_simps del: frame_add_at)
  with b run show ?thesis unfolding m_def by blast
qed

section \<open>The allocator contract\<close>

lemma bm_allocate_abs:
  assumes "bm_inv a" and "0 < n"
  shows "\<not> (\<exists>m. {m..<m + n} \<subseteq> bm_free a) \<and> bm_allocate_contiguous n a = Some (Inl AllocError, a) \<or>
    (\<exists>m b. {m..<m + n} \<subseteq> bm_free a \<and> bm_allocate_contiguous n a = Some (Inr (frame_at m), b) \<and>
      bm_inv b \<and> same_region a b \<and> bm_free b = bm_free a - {m..<m + n})"
proof (cases "n = 1")
  case True
  then show ?thesis
    using allocate_one_abs [OF assms(1)] by (fastforce simp: bm_allocate_contiguous_def)
next
  case False
  with assms(2) have n: "1 < n" by simp
  from allocate_multiple_fast_abs [OF assms(1) n] show ?thesis
  proof (elim disjE exE conjE)
    assume f: "allocate_multiple_fast n a = Some (Inl AllocError, a)"
    have "bm_allocate_contiguous n a = allocate_multiple_slow n a"
      using f n by (simp add: bm_allocate_contiguous_def)
    with allocate_multiple_slow_abs [OF assms(1) n] show ?thesis by simp
  next
    fix m b
    assume f: "{m..<m + n} \<subseteq> bm_free a" "allocate_multiple_fast n a = Some (Inr (frame_at m), b)"
      "bm_inv b" "same_region a b" "bm_free b = bm_free a - {m..<m + n}"
    have "bm_allocate_contiguous n a = Some (Inr (frame_at m), b)"
      using f(2) n by (simp add: bm_allocate_contiguous_def)
    with f show ?thesis by blast
  qed
qed

lemma bm_run_bound:
  assumes "bm_inv a" and "{m..<m + n} \<subseteq> bm_managed a" and "0 < n"
  shows "(m + n) * 4096 < USIZE_BOUND"
proof -
  have "m + n - 1 \<in> bm_managed a" using assms(2,3) by (auto simp: subset_iff)
  then have "m + n \<le> bm_base a + length (bitmap a) * 8" using assms(3) by (auto simp: bm_managed_def)
  then show ?thesis using bm_inv_bound [OF assms(1)] by simp
qed

lemma bm_deallocate_abs:
  assumes "bm_inv a" and "{m..<m + n} \<subseteq> bm_managed a"
  shows "\<exists>b. bm_deallocate_contiguous (frame_at m) n a = Some b \<and> bm_inv b \<and> same_region a b \<and>
    bm_free b = bm_free a \<union> {m..<m + n}"
proof -
  have sh: "map (\<lambda>i. m + i) [0..<n] = [m..<m + n]" by (intro nth_equalityI) auto
  let ?f = "\<lambda>i s. do { frame \<leftarrow> frame_add (frame_at m) (i - m);
      (r, s') \<leftarrow> set_frame frame Free s; expect_ok r; Some s' }"
  have "\<exists>b. for_each ?f [m..<m + n] a = Some b \<and> bm_inv b \<and> same_region a b \<and>
      bm_free b = bm_mark Free (set [m..<m + n]) (bm_free a)"
  proof (rule for_each_frames [OF assms(1)])
    fix i b
    assume b: "bm_inv b" "same_region a b" and i: "i \<in> set [m..<m + n]"
    with assms(2) have "i \<in> bm_managed b" using same_region_managed [OF b(2)] by auto
    moreover have "frame_add (frame_at m) (i - m) = Some (frame_at i)"
      using i bm_run_bound [OF assms] by (simp add: frame_add_eq_Some algebra_simps)
    ultimately show "?f i b = map_option snd (set_frame (frame_at i) Free b)"
      using b(1) by (simp add: set_frame_at del: frame_add_at)
  qed (use assms(2) in simp)
  moreover have "for_each ?f [m..<m + n] a = bm_deallocate_contiguous (frame_at m) n a"
    unfolding bm_deallocate_contiguous_def sh [symmetric] for_each_map by simp
  ultimately show ?thesis by simp
qed

interpretation bm: frame_pool bm_inv bm_free bm_allocate_contiguous bm_managed bm_deallocate_contiguous
proof
  fix s s' :: BitmapAllocator and n :: usize and f
  assume inv: "bm_inv s" and n: "0 < n" and ok: "bm_allocate_contiguous n s = Some (Inr f, s')"
  from bm_allocate_abs [OF inv n] ok obtain m where m: "{m..<m + n} \<subseteq> bm_free s" "f = frame_at m"
    "bm_inv s'" "same_region s s'" "bm_free s' = bm_free s - {m..<m + n}" by auto
  have "(m + n) * 4096 < USIZE_BOUND"
    using bm_run_bound [OF inv _ n] m(1) bm_free_managed [of s] by blast
  then show "bm_inv s' \<and> faddr f mod 4096 = 0 \<and> faddr f + n * 4096 < USIZE_BOUND \<and>
      frames_of f n \<subseteq> bm_free s \<and> bm_free s' \<subseteq> bm_free s - frames_of f n"
    using m by (simp add: algebra_simps)
  show "bm_free s' = bm_free s - frames_of f n \<and> bm_managed s' = bm_managed s"
    using m by (simp add: same_region_managed [OF m(4)])
next
  fix s :: BitmapAllocator and n :: usize
  assume "bm_inv s" "0 < n"
  from bm_allocate_abs [OF this] show "\<exists>r s'. bm_allocate_contiguous n s = Some (r, s')" by blast
next
  fix s s' :: BitmapAllocator and n :: usize and e
  assume "bm_inv s" "0 < n" "bm_allocate_contiguous n s = Some (Inl e, s')"
  with bm_allocate_abs [of s n] show "s' = s \<and> \<not> (\<exists>m. {m..<m + n} \<subseteq> bm_free s)" by auto
next
  show "bm_free s \<subseteq> bm_managed s" for s by (rule bm_free_managed)
next
  fix s :: BitmapAllocator and f :: Frame and n :: usize
  assume inv: "bm_inv s" and f: "faddr f mod 4096 = 0" and r: "frames_of f n \<subseteq> bm_managed s"
  define m where "m = faddr f div 4096"
  have fm: "f = frame_at m"
    using f by (cases f; cases "frame_base f") (auto simp: m_def)
  with r have "{m..<m + n} \<subseteq> bm_managed s" by simp
  from bm_deallocate_abs [OF inv this] show "\<exists>s'. bm_deallocate_contiguous f n s = Some s' \<and> bm_inv s' \<and>
      bm_free s' = bm_free s \<union> frames_of f n \<and> bm_managed s' = bm_managed s"
    using fm by (auto dest: same_region_managed)
qed

lemma all_free_at:
  assumes "bm_inv a"
  shows "all_free a (map frame_at ns) = Some (set ns \<subseteq> bm_free a)"
proof (induction ns)
  case (Cons n ns)
  then show ?case
    using bm_free_managed [of a] by (auto simp: get_frame_at [OF assms])
qed simp

lemma bm_allocate_at_abs:
  assumes "bm_inv a" and "0 < n" and "(m + n) * 4096 < USIZE_BOUND"
  shows "if {m..<m + n} \<subseteq> bm_free a
    then \<exists>b. bm_allocate_at n (At (frame_at m)) a = Some (Inr (frame_at m), b) \<and> bm_inv b \<and>
      same_region a b \<and> bm_free b = bm_free a - {m..<m + n}
    else bm_allocate_at n (At (frame_at m)) a = Some (Inl AllocError, a)"
proof -
  have e: "frame_add (frame_at m) n = Some (frame_at (m + n))"
    using assms(3) by (simp add: frame_add_eq_Some algebra_simps)
  have f: "all_free a (frame_range (frame_at m) (frame_at (m + n))) = Some ({m..<m + n} \<subseteq> bm_free a)"
    using all_free_at [OF assms(1), of "[m..<m + n]"] by (simp only: frame_range_frame_at set_upt)
  show ?thesis
  proof (cases "{m..<m + n} \<subseteq> bm_free a")
    case True
    with bm_free_managed [of a] have "{m..<m + n} \<subseteq> bm_managed a" by blast
    from mark_range [OF assms(1) this, of Allocated] obtain b where b:
      "for_each (\<lambda>frame s. do { (r, s') \<leftarrow> set_frame frame Allocated s; expect_ok r; Some s' })
        (frame_range (frame_at m) (frame_at (m + n))) a = Some b"
      "bm_inv b" "same_region a b" "bm_free b = bm_free a - {m..<m + n}" by auto
    then show ?thesis
      using True assms(2) e f by (simp add: bm_allocate_at_def del: frame_add_at)
  next
    case False
    then show ?thesis
      using assms(2) e f by (auto simp: bm_allocate_at_def simp del: frame_add_at)
  qed
qed

lemma bm_push_abs:
  assumes "bm_inv a"
  shows "\<exists>b. bm_push (AllocationMeta_new (frame_at m, frame_at n)) a = Some b \<and> bm_inv b \<and> same_region a b \<and>
    bm_free b = bm_free a - {m..<n}"
proof -
  let ?f = "\<lambda>i s. do { (r, s') \<leftarrow> set_frame (frame_at i) Allocated s; Some s' }"
  have "\<exists>b. for_each ?f ns a = Some b \<and> bm_inv b \<and> same_region a b \<and> bm_free b = bm_free a - set ns" for ns
    using assms
  proof (induction ns arbitrary: a)
    case (Cons n ns)
    have "\<exists>b. ?f n a = Some b \<and> bm_inv b \<and> same_region a b \<and> bm_free b = bm_free a - {n}"
    proof (cases "n \<in> bm_managed a")
      case True
      with set_frame_abs [OF Cons.prems True, of Allocated] show ?thesis by auto
    next
      case False
      then have "n \<notin> bm_free a" using bm_free_managed [of a] by blast
      with set_frame_out [OF Cons.prems False, of Allocated] Cons.prems show ?thesis by auto
    qed
    then obtain b where b: "?f n a = Some b" "bm_inv b" "same_region a b" "bm_free b = bm_free a - {n}"
      by blast
    from Cons.IH [OF b(2)] obtain c where c: "for_each ?f ns b = Some c" "bm_inv c" "same_region b c"
      "bm_free c = bm_free b - set ns" by blast
    have "for_each ?f (n # ns) a = Some c" using b(1) c(1) by (simp only: for_each.simps bind.simps)
    with c b same_region_trans [OF b(3) c(3)] show ?case by auto
  qed simp
  from this [of "[m..<n]"] show ?thesis
    by (simp add: bm_push_def AllocationMeta_new_def frame_range_frame_at for_each_map)
qed

section \<open>Construction\<close>

lemma mark_all_abs:
  assumes "bm_inv a"
  shows "if {m..<n} \<subseteq> bm_managed a
    then \<exists>b. mark_all (frame_at m, frame_at n) a = Some b \<and> bm_inv b \<and> same_region a b \<and>
      bm_free b = bm_free a \<union> {m..<n}
    else mark_all (frame_at m, frame_at n) a = None"
proof (cases "{m..<n} \<subseteq> bm_managed a")
  case True
  with mark_range [OF assms True, of Free] show ?thesis by (simp add: mark_all_def)
next
  case False
  let ?f = "\<lambda>i t. do { (r, t') \<leftarrow> set_frame (frame_at i) Free t; expect_ok r; Some t' }"
  have "for_each ?f ns a = None" if "\<not> set ns \<subseteq> bm_managed a" for ns
    using assms that
  proof (induction ns arbitrary: a)
    case (Cons n ns)
    show ?case
    proof (cases "n \<in> bm_managed a")
      case True
      from set_frame_abs [OF Cons.prems(1) True, of Free] obtain b where
        b: "set_frame (frame_at n) Free a = Some (Inr (), b)" "bm_inv b" "same_region a b" by auto
      with Cons.prems(2) True have "for_each ?f ns b = None"
        by (intro Cons.IH) (auto simp: same_region_managed [OF b(3)])
      with b(1) show ?thesis by simp
    next
      case False
      then show ?thesis using set_frame_out [OF Cons.prems(1) False, of Free] by simp
    qed
  qed simp
  from this [of "[m..<n]"] False show ?thesis
    by (simp add: mark_all_def frame_range_frame_at for_each_map)
qed

lemma mark_regions_abs:
  assumes "bm_inv a"
  shows "if range_union rs \<subseteq> bm_managed a
    then \<exists>b. for_each mark_all (frame_ranges rs) a = Some b \<and> bm_inv b \<and> same_region a b \<and>
      bm_free b = bm_free a \<union> range_union rs
    else for_each mark_all (frame_ranges rs) a = None"
  using assms
proof (induction rs arbitrary: a)
  case Nil
  then show ?case by (simp add: frame_ranges_def)
next
  case (Cons r rs)
  obtain l h where r: "r = (l, h)" by (cases r)
  show ?case
  proof (cases "{l..<h} \<subseteq> bm_managed a")
    case True
    with mark_all_abs [OF Cons.prems, of l h] obtain b where b:
      "mark_all (frame_at l, frame_at h) a = Some b" "bm_inv b" "same_region a b"
      "bm_free b = bm_free a \<union> {l..<h}" by auto
    have step: "for_each mark_all (frame_ranges (r # rs)) a = for_each mark_all (frame_ranges rs) b"
      using b(1) by (simp add: frame_ranges_def r)
    show ?thesis
    proof (cases "range_union rs \<subseteq> bm_managed a")
      case True
      with Cons.IH [OF b(2)] same_region_managed [OF b(3)] obtain c where
        "for_each mark_all (frame_ranges rs) b = Some c" "bm_inv c" "same_region b c"
        "bm_free c = bm_free b \<union> range_union rs" by auto
      with \<open>{l..<h} \<subseteq> _\<close> True b(4) same_region_trans [OF b(3)] step show ?thesis
        by (auto simp: r)
    next
      case False
      with Cons.IH [OF b(2)] same_region_managed [OF b(3)] step show ?thesis by (auto simp: r)
    qed
  next
    case False
    with mark_all_abs [OF Cons.prems, of l h] show ?thesis by (simp add: frame_ranges_def r)
  qed
qed

lemma new_empty:
  assumes "a \<le> b" and "b * 4096 < USIZE_BOUND"
  shows "bm_inv (BitmapAllocator_new (frame_at a) (b - a))"
    and "bm_free (BitmapAllocator_new (frame_at a) (b - a)) = {}"
    and "bm_managed (BitmapAllocator_new (frame_at a) (b - a)) = {a..<a + (b - a) div 8 * 8}"
proof -
  let ?n = "BitmapAllocator_new (frame_at a) (b - a)"
  have base: "bm_base ?n = a" and len: "length (bitmap ?n) = (b - a) div 8"
    by (simp_all add: bm_base_def BitmapAllocator_new_def SIZE_OF_USIZE_def)
  have "(b - a) div 8 * 8 \<le> b - a" by simp
  with assms have "a + (b - a) div 8 * 8 \<le> b" by linarith
  with assms(2) show "bm_inv ?n"
    by (simp add: bm_inv_def low_words_def list_all_iff BitmapAllocator_new_def SIZE_OF_USIZE_def)
  show "bm_managed ?n = {a..<a + (b - a) div 8 * 8}" by (simp add: bm_managed_def base len)
  have "\<not> slot (bitmap ?n) i" if "i < (b - a) div 8 * 8" for i
    using that by (auto simp: slot_def BitmapAllocator_new_def SIZE_OF_USIZE_def less_mult_imp_div_less)
  then show "bm_free ?n = {}" by (auto simp: bm_free_def len)
qed

lemma bm_new_abs:
  assumes "a \<le> b" and "b * 4096 < USIZE_BOUND"
  shows "if range_union rs \<subseteq> {a..<a + (b - a) div 8 * 8}
    then \<exists>s. bm_new \<lparr>allocation_range = (frame_at a, frame_at b), regions = frame_ranges rs\<rparr> = Some s \<and>
      bm_inv s \<and> bm_free s = range_union rs \<and> bm_managed s = {a..<a + (b - a) div 8 * 8}
    else bm_new \<lparr>allocation_range = (frame_at a, frame_at b), regions = frame_ranges rs\<rparr> = None"
proof -
  have "bm_new \<lparr>allocation_range = (frame_at a, frame_at b), regions = frame_ranges rs\<rparr> =
      for_each mark_all (frame_ranges rs) (BitmapAllocator_new (frame_at a) (b - a))"
    using assms(1) by (simp add: bm_new_def frame_diff_at)
  moreover from mark_regions_abs [OF new_empty(1) [OF assms], of rs]
  have "if range_union rs \<subseteq> {a..<a + (b - a) div 8 * 8}
    then \<exists>s. for_each mark_all (frame_ranges rs) (BitmapAllocator_new (frame_at a) (b - a)) = Some s \<and>
      bm_inv s \<and> same_region (BitmapAllocator_new (frame_at a) (b - a)) s \<and> bm_free s = range_union rs
    else for_each mark_all (frame_ranges rs) (BitmapAllocator_new (frame_at a) (b - a)) = None"
    unfolding new_empty(2,3) [OF assms] Un_empty_left .
  ultimately show ?thesis
    using same_region_managed [of "BitmapAllocator_new (frame_at a) (b - a)", unfolded new_empty(3) [OF assms]]
    by (auto simp del: subset_iff split: if_splits)
qed

section \<open>Properties\<close>

text \<open>A small allocator for the concrete instances: frames 16 to 31, of which 20 to 25 are free.\<close>

definition bm_small :: BitmapAllocator where
  "bm_small = \<lparr>first_frame = frame_at 16, bitmap = [0xF0, 0x03]\<rparr>"

lemma bm_small_inv: "bm_inv bm_small"
  by (simp add: bm_small_def bm_inv_def low_words_def take_bit_eq_mask mask_eq_exp_minus_1)

text \<open>C1. A run of \<open>n\<close> frames is handed out exactly when one is free: on every well-formed
  state \<open>allocate_contiguous\<close> returns, it succeeds if and only if the bitmap has a free run
  of length \<open>n\<close>, on success it takes exactly the frames it returns out of the free set, and
  on failure it leaves the state as it was.\<close>

theorem bitmap_allocate_correct:
  assumes "bm_inv s" and "0 < n"
  shows "\<exists>r s'. bm_allocate_contiguous n s = Some (r, s') \<and> bm_inv s' \<and> bm_managed s' = bm_managed s \<and>
    (case r of
       Inr f \<Rightarrow> frames_of f n \<subseteq> bm_free s \<and> bm_free s' = bm_free s - frames_of f n
     | Inl _ \<Rightarrow> s' = s \<and> \<not> (\<exists>m. {m..<m + n} \<subseteq> bm_free s))"
proof -
  from bm.alloc_total [OF assms] obtain r s' where a: "bm_allocate_contiguous n s = Some (r, s')" by blast
  show ?thesis
  proof (cases r)
    case (Inl e)
    with a bm.alloc_err [OF assms, of e s'] assms(1) show ?thesis by auto
  next
    case (Inr f)
    with a bm.alloc_ok [OF assms, of f s'] bm.alloc_exact [OF assms, of f s'] show ?thesis by auto
  qed
qed

theorem bitmap_allocate_correct_witness:
  "\<exists>r s'. bm_allocate_contiguous 3 bm_small = Some (r, s') \<and> bm_inv s' \<and>
    bm_managed s' = bm_managed bm_small \<and>
    (case r of
       Inr f \<Rightarrow> frames_of f 3 \<subseteq> bm_free bm_small \<and> bm_free s' = bm_free bm_small - frames_of f 3
     | Inl _ \<Rightarrow> s' = bm_small \<and> \<not> (\<exists>m. {m..<m + 3} \<subseteq> bm_free bm_small))"
  by (rule bitmap_allocate_correct [OF bm_small_inv]) simp

text \<open>C9. No frame is handed out twice: the frames returned by two requests of any sequence of
  successful requests are disjoint.\<close>

theorem bitmap_no_double_allocation:
  assumes "bm_inv s" and "\<forall>n \<in> set ns. 0 < n"
    and "alloc_all bm_allocate_contiguous ns s = Some (fs, s')" and "i < j" and "j < length ns"
  shows "frames_of (fs ! i) (ns ! i) \<inter> frames_of (fs ! j) (ns ! j) = {}"
  using assms by (rule bm.alloc_all_disjoint)

theorem bitmap_no_double_allocation_witness:
  "alloc_all bm_allocate_contiguous [3, 2] bm_small =
     Some ([frame_at 20, frame_at 24], \<lparr>first_frame = frame_at 16, bitmap = [0x80, 0]\<rparr>) \<and>
   frames_of (frame_at 20) 3 \<inter> frames_of (frame_at 24) 2 = {}"
proof -
  have a: "alloc_all bm_allocate_contiguous [3, 2] bm_small =
     Some ([frame_at 20, frame_at 24], \<lparr>first_frame = frame_at 16, bitmap = [0x80, 0]\<rparr>)"
    by code_simp
  have "frames_of ([frame_at 20, frame_at 24] ! 0) ([3, 2] ! 0) \<inter>
      frames_of ([frame_at 20, frame_at 24] ! 1) ([3, 2] ! 1) = {}"
    by (rule bitmap_no_double_allocation [OF bm_small_inv _ a]) simp_all
  with a show ?thesis by simp
qed

text \<open>Returning an allocation undoes it: after a successful request, giving the same frames
  back does not panic and restores the free set.\<close>

theorem bitmap_deallocate_restores:
  assumes "bm_inv s" and "0 < n" and "bm_allocate_contiguous n s = Some (Inr f, s')"
  shows "\<exists>t. bm_deallocate_contiguous f n s' = Some t \<and> bm_inv t \<and> bm_free t = bm_free s \<and>
    bm_managed t = bm_managed s"
  using assms by (rule bm.alloc_dealloc)

theorem bitmap_deallocate_restores_witness:
  "bm_allocate_contiguous 5 bm_small =
     Some (Inr (frame_at 20), \<lparr>first_frame = frame_at 16, bitmap = [0, 0x02]\<rparr>) \<and>
   (\<exists>t. bm_deallocate_contiguous (frame_at 20) 5 \<lparr>first_frame = frame_at 16, bitmap = [0, 0x02]\<rparr> = Some t \<and>
     bm_inv t \<and> bm_free t = bm_free bm_small \<and> bm_managed t = bm_managed bm_small)"
proof -
  have a: "bm_allocate_contiguous 5 bm_small =
     Some (Inr (frame_at 20), \<lparr>first_frame = frame_at 16, bitmap = [0, 0x02]\<rparr>)"
    by code_simp
  show ?thesis
    by (intro conjI a bitmap_deallocate_restores [OF bm_small_inv _ a]) simp
qed

text \<open>\<open>allocate_at\<close> with \<open>At\<close> takes exactly the requested run when every frame of it is free
  and fails without changing the state otherwise.\<close>

theorem bitmap_allocate_at_correct:
  assumes "bm_inv s" and "0 < n" and "(m + n) * 4096 < USIZE_BOUND"
  shows "if {m..<m + n} \<subseteq> bm_free s
    then \<exists>t. bm_allocate_at n (At (frame_at m)) s = Some (Inr (frame_at m), t) \<and> bm_inv t \<and>
      bm_free t = bm_free s - {m..<m + n} \<and> bm_managed t = bm_managed s
    else bm_allocate_at n (At (frame_at m)) s = Some (Inl AllocError, s)"
  using bm_allocate_at_abs [OF assms] by (metis same_region_managed)

theorem bitmap_allocate_at_correct_witness:
  "if {24..<24 + 2} \<subseteq> bm_free bm_small
    then \<exists>t. bm_allocate_at 2 (At (frame_at 24)) bm_small = Some (Inr (frame_at 24), t) \<and> bm_inv t \<and>
      bm_free t = bm_free bm_small - {24..<24 + 2} \<and> bm_managed t = bm_managed bm_small
    else bm_allocate_at 2 (At (frame_at 24)) bm_small = Some (Inl AllocError, bm_small)"
  by (rule bitmap_allocate_at_correct [OF bm_small_inv]) simp_all

text \<open>Construction from a configuration: for a frame range \<open>a..<b\<close> the allocator manages the
  first \<open>(b - a) div 8 * 8\<close> frames only. When every free region lies inside them, the free set
  of the new allocator is the union of the regions; when some region reaches beyond, into the
  at most seven frames the division drops or out of the range, construction panics.\<close>

theorem bitmap_new_correct:
  assumes "a \<le> b" and "b * 4096 < USIZE_BOUND"
  shows "if range_union rs \<subseteq> {a..<a + (b - a) div 8 * 8}
    then \<exists>s. bm_new \<lparr>allocation_range = (frame_at a, frame_at b), regions = frame_ranges rs\<rparr> = Some s \<and>
      bm_inv s \<and> bm_free s = range_union rs \<and> bm_managed s = {a..<a + (b - a) div 8 * 8}
    else bm_new \<lparr>allocation_range = (frame_at a, frame_at b), regions = frame_ranges rs\<rparr> = None"
  using assms by (rule bm_new_abs)

theorem bitmap_new_correct_witness:
  "(\<exists>s. bm_new \<lparr>allocation_range = (frame_at 0, frame_at 12), regions = frame_ranges [(1, 4), (6, 8)]\<rparr> = Some s \<and>
      bm_inv s \<and> bm_free s = {1..<4} \<union> {6..<8} \<and> bm_managed s = {0..<8}) \<and>
   bm_new \<lparr>allocation_range = (frame_at 0, frame_at 12), regions = frame_ranges [(1, 4), (6, 12)]\<rparr> = None"
proof -
  have b: "12 * 4096 < USIZE_BOUND" by simp
  have "{1..<4} \<union> {6..<8} \<subseteq> {0..<8 :: nat}" by auto
  moreover have "10 \<in> {1..<4} \<union> {6..<12 :: nat} - {0..<8}" by simp
  then have "\<not> {1..<4} \<union> {6..<12} \<subseteq> {0..<8 :: nat}" by blast
  ultimately show ?thesis
    using bitmap_new_correct [of 0 12 "[(1, 4), (6, 8)]", OF _ b]
      bitmap_new_correct [of 0 12 "[(1, 4), (6, 12)]", OF _ b] by simp
qed

text \<open>\<open>push\<close> withdraws a region handed over from the bootstrap allocator: the frames of the
  region stop being free, frames the allocator does not manage are ignored, nothing panics.\<close>

theorem bitmap_push_correct:
  assumes "bm_inv s"
  shows "\<exists>t. bm_push (AllocationMeta_new (frame_at m, frame_at n)) s = Some t \<and> bm_inv t \<and>
    bm_free t = bm_free s - {m..<n} \<and> bm_managed t = bm_managed s"
  using bm_push_abs [OF assms, of m n] by (auto dest: same_region_managed)

theorem bitmap_push_correct_witness:
  "\<exists>t. bm_push (AllocationMeta_new (frame_at 22, frame_at 40)) bm_small = Some t \<and> bm_inv t \<and>
    bm_free t = bm_free bm_small - {22..<40} \<and> bm_managed t = bm_managed bm_small"
  by (rule bitmap_push_correct [OF bm_small_inv])

end
