(* ===== verification/Kernel_Paging.thy ===== *)
theory Kernel_Paging
  imports Page_Forest Bitmap_Allocator
begin

text \<open>
  The page tables with the allocator the kernel gives them: the contract of \<open>Page_Forest\<close> holds of
  the bitmap allocator when its frames lie within the direct map, and the operations on the tables
  of an address space are those of a finite map from pages to frames.
\<close>

definition low_pool :: "BitmapAllocator \<Rightarrow> bool" where
  "low_pool s \<longleftrightarrow> bm_inv s \<and> bm_managed s \<subseteq> {..<2 ^ 35}"

interpretation pool: table_pool low_pool bm_free bm_allocate_contiguous bm_managed bm_deallocate_contiguous
proof
  fix s s' :: BitmapAllocator and n :: usize and f
  assume inv: "low_pool s" and n: "0 < n" and ok: "bm_allocate_contiguous n s = Some (Inr f, s')"
  from inv have "bm_inv s" by (simp add: low_pool_def)
  note bm.alloc_ok [OF this n ok] bm.alloc_exact [OF this n ok]
  with inv show "low_pool s' \<and> faddr f mod 4096 = 0 \<and> faddr f + n * 4096 < USIZE_BOUND \<and>
      frames_of f n \<subseteq> bm_free s \<and> bm_free s' \<subseteq> bm_free s - frames_of f n"
    and "bm_free s' = bm_free s - frames_of f n \<and> bm_managed s' = bm_managed s"
    by (auto simp: low_pool_def)
next
  fix s :: BitmapAllocator and n :: usize
  assume "low_pool s" and "0 < n"
  then show "\<exists>r s'. bm_allocate_contiguous n s = Some (r, s')" using bm.alloc_total by (simp add: low_pool_def)
next
  fix s s' :: BitmapAllocator and n :: usize and e
  assume "low_pool s" and "0 < n" and "bm_allocate_contiguous n s = Some (Inl e, s')"
  then show "s' = s \<and> \<not> (\<exists>m. {m..<m + n} \<subseteq> bm_free s)" using bm.alloc_err by (simp add: low_pool_def)
next
  fix s :: BitmapAllocator
  assume "low_pool s"
  then show "bm_free s \<subseteq> bm_managed s" using bm.free_managed by (simp add: low_pool_def)
next
  fix s :: BitmapAllocator and f and n :: usize
  assume "low_pool s" and "faddr f mod 4096 = 0" and "frames_of f n \<subseteq> bm_managed s" and "0 < n"
  then show "\<exists>s'. bm_deallocate_contiguous f n s = Some s' \<and> low_pool s' \<and> bm_free s' = bm_free s \<union> frames_of f n \<and>
      bm_managed s' = bm_managed s"
    using bm.dealloc_ok [of s f n] by (auto simp: low_pool_def)
next
  fix s :: BitmapAllocator and n
  assume "low_pool s" and "n \<in> bm_free s"
  then show "n < 2 ^ 35" using bm.free_managed [of s] by (auto simp: low_pool_def)
qed

section \<open>Address spaces\<close>

definition ttable_roots :: "Frame \<Rightarrow> nat \<Rightarrow> Frame option" where
  "ttable_roots pml4 k = (if k = 0 then Some pml4 else None)"

definition ttable_ok :: "Frame \<Rightarrow> tables \<Rightarrow> BitmapAllocator \<Rightarrow> bool" where
  "ttable_ok pml4 m s \<longleftrightarrow> low_pool s \<and> forest (ttable_roots pml4) 3 m (bm_free s)"

definition page_path :: "Page \<Rightarrow> nat list" where
  "page_path page = [pml4_index page, pdpt_index page, pd_index page, pt_index page]"

definition user_page :: "Page \<Rightarrow> bool" where
  "user_page page \<longleftrightarrow> pgaddr page mod 4096 = 0 \<and> pgaddr page < 2 ^ 47"

lemma full_page_path [simp]: "full_path 3 (page_path page)"
  by (simp add: full_path_def page_path_def)

lemma user_page_inject:
  assumes "user_page p" and "user_page q"
  shows "page_path p = page_path q \<longleftrightarrow> p = q"
proof
  assume "page_path p = page_path q"
  with assms show "p = q" by (intro indices_inject) (auto simp: user_page_def page_path_def)
qed simp

lemma user_page_HALF: "user_page page \<Longrightarrow> pgaddr page < HALF"
  by (simp add: user_page_def HALF_def)

lemma ttable_translate_reach:
  assumes "forest (ttable_roots pml4) 3 m fr" and "user_page page"
  shows "ttable_translate_page pml4 page m = Some (reach (ttable_roots pml4) m 0 (page_path page))"
  using translate_along_reach [OF assms(1), of 0 "[]" pml4 "[pml4_index page, pdpt_index page, pd_index page]" page]
    user_page_HALF [OF assms(2)]
  by (simp add: ttable_along ttable_roots_def page_path_def rust_assert_def)

lemma ttable_map_outcome:
  assumes "ttable_ok pml4 m s" and "user_page page" and "frame_fits frame"
  shows "\<exists>r m' s'. ttable_map_page bm_allocate_contiguous pml4 page frame (m, s) = Some (r, m', s') \<and>
    ttable_ok pml4 m' s' \<and>
    map_outcome (ttable_roots pml4) 3 0 (page_path page) frame m (bm_free s') r m'"
  using pool.map_along_outcome [of s "ttable_roots pml4" 3 m "{}" 0 "[]" pml4
      "[pml4_index page, pdpt_index page, pd_index page]" frame page] assms user_page_HALF [OF assms(2)]
  by (auto simp: ttable_along ttable_ok_def ttable_roots_def page_path_def rust_assert_def)

text \<open>A table space with no mapping.\<close>

lemma ttable_ok_empty:
  assumes "low_pool s" and "low_frame pml4" and "faddr pml4 div 4096 \<notin> bm_free s"
  shows "ttable_ok pml4 (\<lambda>t. table_empty) s"
proof -
  have "reach (ttable_roots pml4) (\<lambda>t. table_empty) k p = (if k = 0 \<and> p = [] then Some pml4 else None)" for k p
    by (cases p) (simp_all add: reach_def ttable_roots_def table_empty_def)
  with assms show ?thesis by (simp add: ttable_ok_def forest_def)
qed

section \<open>Kernel tables\<close>

definition ktable_roots :: "Frame \<Rightarrow> nat \<Rightarrow> Frame option" where
  "ktable_roots base k =
    (if 256 \<le> k \<and> k < 512 then Some (Frame (PhysicalAddress (faddr base + (k - 256) * 4096))) else None)"

definition ktable_ok :: "Frame \<Rightarrow> tables \<Rightarrow> BitmapAllocator \<Rightarrow> bool" where
  "ktable_ok base m s \<longleftrightarrow> low_pool s \<and> forest (ktable_roots base) 2 m (bm_free s)"

definition kernel_page :: "Page \<Rightarrow> bool" where
  "kernel_page page \<longleftrightarrow> pgaddr page mod 4096 = 0 \<and> HALF \<le> pgaddr page \<and> pgaddr page < USIZE_BOUND"

lemma kernel_pml4_index:
  assumes "HALF \<le> pgaddr page" and "pgaddr page < USIZE_BOUND"
  shows "256 \<le> pml4_index page"
proof -
  have "(2 ^ 17 - 1) * 256 \<le> pgaddr page div 2 ^ 39" "pgaddr page div 2 ^ 39 < 2 ^ 25"
    using assms by (auto simp: HALF_def less_mult_imp_div_less)
  moreover have "256 \<le> x mod 512" if "(2 ^ 17 - 1) * 256 \<le> x" "x < 2 ^ 25" for x :: nat
  proof -
    have "x div 512 = 65535" using that by simp
    then show ?thesis using that(1) mult_div_mod_eq [of 512 x] by simp
  qed
  ultimately show ?thesis by (simp add: index_div)
qed

lemma kernel_pdpt_root:
  assumes "forest (ktable_roots base) 2 m fr" and "kernel_page page"
  shows "kernel_pdpt base page = ktable_roots base (pml4_index page)"
proof -
  have "reach (ktable_roots base) m 256 [] = Some base"
    by (simp add: ktable_roots_def Frame.expand PhysicalAddress.expand)
  with assms(1) have "low_frame base" by (auto dest!: forestD(1) [where p = "[]"])
  then obtain p where "frame_to_page base = Some p" by (rule low_frame_page)
  moreover have "256 \<le> pml4_index page" using assms(2) kernel_pml4_index by (simp add: kernel_page_def)
  moreover from this index_bound(1) [of page] have "pml4_index page - 256 < 256" by linarith
  ultimately show ?thesis by (simp add: kernel_pdpt_def ktable_roots_def usub_def rust_assert_def)
qed

text \<open>Where a page of the kernel half leads.\<close>

definition kernel_path :: "Page \<Rightarrow> nat list" where
  "kernel_path page = [pdpt_index page, pd_index page, pt_index page]"

definition kernel_translation :: "Frame \<Rightarrow> tables \<Rightarrow> Page \<Rightarrow> Frame option" where
  "kernel_translation base m page = reach (ktable_roots base) m (pml4_index page) (kernel_path page)"

lemma full_kernel_path [simp]: "full_path 2 (kernel_path page)"
  by (simp add: full_path_def kernel_path_def)

lemma kernel_page_high: "kernel_page p \<Longrightarrow> pgaddr p div 2 ^ 48 = 65535"
  by (rule div_nat_eqI) (simp_all add: kernel_page_def HALF_def)

lemma kernel_page_inject:
  assumes "kernel_page p" and "kernel_page q"
  shows "pml4_index p = pml4_index q \<and> kernel_path p = kernel_path q \<longleftrightarrow> p = q"
proof
  assume "pml4_index p = pml4_index q \<and> kernel_path p = kernel_path q"
  with assms kernel_page_high [of p] kernel_page_high [of q] show "p = q"
    by (intro indices_inject) (simp_all add: kernel_page_def kernel_path_def)
qed simp

lemma kernel_root:
  assumes "kernel_page page"
  obtains pdpt where "ktable_roots base (pml4_index page) = Some pdpt"
  using assms kernel_pml4_index [of page] by (simp add: ktable_roots_def kernel_page_def)

text \<open>\<open>X\<close> are frames in use for something else.\<close>

lemma ktable_map_outcome:
  assumes "low_pool s" and "forest (ktable_roots base) 2 m (bm_free s \<union> X)" and "X \<inter> bm_free s = {}"
    and "kernel_page page" and "frame_fits frame"
  shows "\<exists>r m' s'. ktable_map_page bm_allocate_contiguous base page frame (m, s) = Some (r, m', s') \<and>
    low_pool s' \<and> forest (ktable_roots base) 2 m' (bm_free s' \<union> X) \<and>
    map_outcome (ktable_roots base) 2 (pml4_index page) (kernel_path page) frame m (bm_free s') r m' \<and>
    bm_free s' \<subseteq> bm_free s \<and> bm_managed s' = bm_managed s \<and> card (bm_free s) \<le> card (bm_free s') + 2"
proof -
  obtain pdpt where pdpt: "ktable_roots base (pml4_index page) = Some pdpt" using assms(4) by (rule kernel_root)
  have "\<exists>r m' s'. map_along bm_allocate_contiguous pdpt [pdpt_index page, pd_index page] page frame (m, s) =
      Some (r, m', s') \<and> low_pool s' \<and> forest (ktable_roots base) 2 m' (bm_free s' \<union> X) \<and>
      map_outcome (ktable_roots base) 2 (pml4_index page)
        ([] @ [pdpt_index page, pd_index page] @ [pt_index page]) frame m (bm_free s') r m' \<and>
      bm_free s' \<subseteq> bm_free s \<and> bm_managed s' = bm_managed s \<and>
      card (bm_free s) \<le> card (bm_free s') + length [pdpt_index page, pd_index page]"
    by (rule pool.map_along_outcome) (use assms pdpt in simp_all)
  with kernel_pdpt_root [OF assms(2,4)] pdpt assms(4) show ?thesis
    by (simp add: ktable_along kernel_page_def rust_assert_def kernel_path_def)
qed

lemma ktable_unmap_outcome:
  assumes "forest (ktable_roots base) 2 m fr" and "kernel_page page"
  shows "\<exists>m'. ktable_unmap_page base page m =
      Some (if kernel_translation base m page = None then Inl () else Inr (), m') \<and>
    forest (ktable_roots base) 2 m' fr \<and>
    (\<forall>other. kernel_page other \<longrightarrow> kernel_translation base m' other =
      (if other = page then None else kernel_translation base m other))"
proof -
  obtain pdpt where pdpt: "ktable_roots base (pml4_index page) = Some pdpt" using assms(2) by (rule kernel_root)
  obtain m' where run: "unmap_along m pdpt [pdpt_index page, pd_index page] page =
      Some (if kernel_translation base m page = None then Inl () else Inr (), m')"
    and f: "forest (ktable_roots base) 2 m' fr"
    and new: "\<And>k p. full_path 2 p \<Longrightarrow> reach (ktable_roots base) m' k p =
      (if k = pml4_index page \<and> p = kernel_path page then None else reach (ktable_roots base) m k p)"
    using unmap_along_reach [OF assms(1), of "pml4_index page" "[]" pdpt "[pdpt_index page, pd_index page]" page] pdpt
    by (auto simp: kernel_translation_def kernel_path_def)
  have "kernel_translation base m' other = (if other = page then None else kernel_translation base m other)"
    if "kernel_page other" for other
    using kernel_page_inject [OF that assms(2)] new [of "kernel_path other" "pml4_index other"]
    by (auto simp: kernel_translation_def)
  with run f kernel_pdpt_root [OF assms] pdpt assms(2) show ?thesis
    by (simp add: ktable_along kernel_page_def rust_assert_def)
qed

section \<open>Properties\<close>


lemma bm_small_managed: "bm_managed bm_small = {16..<32}"
  by (simp add: bm_managed_def bm_base_def bm_small_def)

lemma bm_small_low: "low_pool bm_small"
  using bm_small_inv by (auto simp: low_pool_def bm_small_managed)

lemma small_ttable_ok: "ttable_ok (frame_at 3) (\<lambda>t. table_empty) bm_small"
proof (rule ttable_ok_empty [OF bm_small_low])
  show "faddr (frame_at 3) div 4096 \<notin> bm_free bm_small"
    using bm.free_managed [OF bm_small_inv] by (auto simp: bm_small_managed)
qed (simp add: low_frame_def)


text \<open>C10. Unmapping a page of an address space returns without a panic, succeeds exactly when the page
  was mapped, and leaves it unmapped and every other page as it was.\<close>

theorem ttable_unmap_page_correct:
  assumes "ttable_ok pml4 m s" and "user_page page"
  shows "\<exists>r m'. ttable_unmap_page pml4 page m = Some (r, m') \<and> ttable_ok pml4 m' s \<and>
    (r = Inr () \<longleftrightarrow> ttable_translate_page pml4 page m \<noteq> Some None) \<and>
    ttable_translate_page pml4 page m' = Some None \<and>
    (\<forall>other. user_page other \<and> other \<noteq> page \<longrightarrow>
       ttable_translate_page pml4 other m' = ttable_translate_page pml4 other m)"
proof -
  have f: "forest (ttable_roots pml4) 3 m (bm_free s)" using assms(1) by (simp add: ttable_ok_def)
  obtain m' where run: "ttable_unmap_page pml4 page m =
      Some (if reach (ttable_roots pml4) m 0 (page_path page) = None then Inl () else Inr (), m')"
    and f': "forest (ttable_roots pml4) 3 m' (bm_free s)"
    and new: "\<And>p. full_path 3 p \<Longrightarrow> reach (ttable_roots pml4) m' 0 p =
      (if p = page_path page then None else reach (ttable_roots pml4) m 0 p)"
    using unmap_along_reach [OF f, of 0 "[]" pml4 "[pml4_index page, pdpt_index page, pd_index page]" page]
      user_page_HALF [OF assms(2)]
    by (auto simp: ttable_along ttable_roots_def page_path_def rust_assert_def)
  note tr = ttable_translate_reach [OF f] ttable_translate_reach [OF f']
  have "ttable_translate_page pml4 other m' = ttable_translate_page pml4 other m"
    if "user_page other \<and> other \<noteq> page" for other
    using that new [of "page_path other"] user_page_inject [OF _ assms(2), of other] by (simp add: tr)
  with run f' assms new [of "page_path page"] show ?thesis
    by (intro exI [of _ "if reach (ttable_roots pml4) m 0 (page_path page) = None then Inl () else Inr ()"]
        exI [of _ m']) (auto simp: tr ttable_ok_def)
qed

theorem ttable_unmap_page_correct_witness:
  "\<exists>m'. ttable_unmap_page (frame_at 3) (page_at 5) (\<lambda>t. table_empty) = Some (Inl (), m') \<and>
    ttable_translate_page (frame_at 3) (page_at 5) m' = Some None"
proof -
  have "map_option fst (ttable_unmap_page (frame_at 3) (page_at 5) (\<lambda>t. table_empty)) = Some (Inl ())"
    by code_simp
  with ttable_unmap_page_correct [OF small_ttable_ok, of "page_at 5"] show ?thesis
    by (auto simp: user_page_def)
qed

text \<open>Mapping a page of the kernel half returns without a panic; on success the walk of the tables
  from the shared second-level tables leads from the page's indices to the frame, and whatever the
  result, no other path is affected.\<close>

theorem ktable_map_page_correct:
  assumes "ktable_ok base m s" and "kernel_page page" and "frame_fits frame"
  shows "\<exists>r m' s'. ktable_map_page bm_allocate_contiguous base page frame (m, s) = Some (r, m', s') \<and>
    ktable_ok base m' s' \<and>
    map_outcome (ktable_roots base) 2 (pml4_index page) [pdpt_index page, pd_index page, pt_index page]
      frame m (bm_free s') r m'"
  using ktable_map_outcome [of s base m "{}" page frame] assms
  by (auto simp: ktable_ok_def kernel_path_def)

lemma small_ktable_ok: "ktable_ok (frame_at 256) (\<lambda>t. table_empty) bm_small"
proof -
  have r: "reach (ktable_roots (frame_at 256)) (\<lambda>t. table_empty) k p =
      (if p = [] \<and> 256 \<le> k \<and> k < 512 then Some (frame_at k) else None)" for k p
    by (cases p) (auto simp: reach_def ktable_roots_def table_empty_def)
  have "k \<notin> bm_free bm_small" if "256 \<le> k" for k
    using bm.free_managed [OF bm_small_inv] that by (auto simp: bm_small_managed)
  with bm_small_low show ?thesis
    unfolding ktable_ok_def forest_def r by (auto simp: low_frame_def split: if_splits)
qed

theorem ktable_map_page_correct_witness:
  "\<exists>r m' s'. ktable_map_page bm_allocate_contiguous (frame_at 256) (Page (VirtualAddress HALF)) (frame_at 9)
      (\<lambda>t. table_empty, bm_small) = Some (r, m', s') \<and> ktable_ok (frame_at 256) m' s'"
  using ktable_map_page_correct [OF small_ktable_ok, of "Page (VirtualAddress HALF)" "frame_at 9"]
  by (auto simp: kernel_page_def HALF_def frame_fits_def)

text \<open>\<open>translate_page\<close> of the kernel tables panics on every canonical address: on the upper half,
  which is all that \<open>map_page\<close> accepts, because its assertion is the one of the lower half, and on the
  lower half because the index computation underflows.\<close>

theorem ktable_translate_page_panics:
  assumes "pgaddr page < 2 ^ 47 \<or> HALF \<le> pgaddr page"
  shows "ktable_translate_page base page m = None"
proof (cases "HALF \<le> pgaddr page")
  case False
  with assms have "pgaddr page div 2 ^ 39 < 256" by (simp add: less_mult_imp_div_less)
  then have "pml4_index page < 256" by (simp add: index_div)
  with False show ?thesis by (simp add: ktable_translate_page_def kernel_pdpt_def usub_def rust_assert_def)
qed (simp add: ktable_translate_page_def rust_assert_def)

theorem ktable_translate_page_panics_witness:
  "ktable_translate_page (frame_at 256) (Page (VirtualAddress HALF)) (\<lambda>t. table_empty) = None"
  by (rule ktable_translate_page_panics) simp

end
