(* ===== verification/Boot_Paging.thy ===== *)
theory Boot_Paging
  imports Kernel_Paging
begin

text \<open>
  The page tables the bootloader builds for the kernel, \<open>bootloader/src/paging.rs\<close>. They are written
  and read with other code than the kernel's: unused entries are writable instead of zero, the
  address field is eight bits narrower and tables are used at their physical address. The tables
  are shown to mean the same to the kernel, and its second-level tables to lie where it expects them.

  The allocator is the firmware's and a parameter, as the closures are in the code. Memory that
  holds tables is a function from frames, as in \<open>Page_Table\<close>, so a table has a meaning only in a
  frame of its own, which the firmware promises.
\<close>

section \<open>Pages and entries\<close>

text \<open>The masks are octal in the source: three sevens followed by 13, 10, 7 and 4 zeros.\<close>

definition L4_MASK :: usize where "L4_MASK = 0x1ff * 8 ^ 13"
definition L4_SHIFT :: nat where "L4_SHIFT = 12 + 9 * 3"
definition L3_MASK :: usize where "L3_MASK = 0x1ff * 8 ^ 10"
definition L3_SHIFT :: nat where "L3_SHIFT = 12 + 9 * 2"
definition L2_MASK :: usize where "L2_MASK = 0x1ff * 8 ^ 7"
definition L2_SHIFT :: nat where "L2_SHIFT = 12 + 9 * 1"
definition L1_MASK :: usize where "L1_MASK = 0x1ff * 8 ^ 4"
definition L1_SHIFT :: nat where "L1_SHIFT = 12"

definition l4_index :: "Page \<Rightarrow> usize" where
  "l4_index page = drop_bit L4_SHIFT (pgaddr page AND L4_MASK)"

definition l3_index :: "Page \<Rightarrow> usize" where
  "l3_index page = drop_bit L3_SHIFT (pgaddr page AND L3_MASK)"

definition l2_index :: "Page \<Rightarrow> usize" where
  "l2_index page = drop_bit L2_SHIFT (pgaddr page AND L2_MASK)"

definition l1_index :: "Page \<Rightarrow> usize" where
  "l1_index page = drop_bit L1_SHIFT (pgaddr page AND L1_MASK)"

definition FLAG_PRESENT :: u64 where "FLAG_PRESENT = push_bit 0 1"
definition FLAG_WRITABLE :: u64 where "FLAG_WRITABLE = push_bit 1 1"
definition FLAG_USER_ACCESSIBLE :: u64 where "FLAG_USER_ACCESSIBLE = push_bit 2 1"
definition FLAG_PERMISSIVE :: u64 where "FLAG_PERMISSIVE = FLAG_WRITABLE OR FLAG_USER_ACCESSIBLE"

text \<open>All the flags the type declares: bits 0 to 9 and bit 63.\<close>

definition TableEntryFlags_all :: u64 where
  "TableEntryFlags_all = mask 10 OR push_bit 63 1"

definition FRAME_MASK :: u64 where
  "FRAME_MASK = 0x000ffffffffff000"

definition boot_entry_new :: u64 where
  "boot_entry_new = FLAG_WRITABLE"

definition boot_entry_flags :: "u64 \<Rightarrow> u64" where
  "boot_entry_flags e = e AND TableEntryFlags_all"

definition boot_pointed_frame :: "u64 \<Rightarrow> Frame option" where
  "boot_pointed_frame e =
    (if boot_entry_flags e AND FLAG_PRESENT = FLAG_PRESENT
     then Some (Frame (PhysicalAddress (unat (e AND FRAME_MASK)))) else None)"

definition set_pointed_frame_unchecked :: "u64 \<Rightarrow> Frame \<Rightarrow> u64 \<Rightarrow> u64" where
  "set_pointed_frame_unchecked e frame flags =
    (e AND NOT FRAME_MASK) OR (of_nat (faddr frame) AND FRAME_MASK) OR (flags OR FLAG_PRESENT)"

definition set_pointed_frame :: "u64 \<Rightarrow> Frame \<Rightarrow> u64 \<Rightarrow> (Frame, u64) result" where
  "set_pointed_frame e frame flags =
    (case boot_pointed_frame e of
       None \<Rightarrow> Inr (set_pointed_frame_unchecked e frame flags)
     | Some f \<Rightarrow> Inl f)"

section \<open>Tables\<close>

datatype 'e MapError = BootAlreadyMapped | AllocationError 'e

text \<open>The closures: a number of pages to an address, or an error of the firmware.\<close>

type_synonym ('e, 's) page_fn = "usize \<Rightarrow> 's \<Rightarrow> ('e, usize) result \<times> 's"

definition boot_table_new :: "nat \<Rightarrow> u64" where
  "boot_table_new = (\<lambda>i. boot_entry_new)"

text \<open>\<open>get_child_table\<close> and \<open>get_child_table_mut\<close> differ only in the borrow.\<close>

definition get_child_table :: "tables \<Rightarrow> Frame \<Rightarrow> usize \<Rightarrow> Frame option rust" where
  "get_child_table m t i = do { e \<leftarrow> get_entry m t i; Some (boot_pointed_frame e) }"

definition try_get_or_create_child_table ::
  "('e, 's) page_fn \<Rightarrow> Frame \<Rightarrow> usize \<Rightarrow> tables \<times> 's \<Rightarrow> (('e, Frame) result \<times> tables \<times> 's) rust" where
  "try_get_or_create_child_table alloc t i ms = do {
     c \<leftarrow> get_child_table (fst ms) t i;
     case c of
       Some f \<Rightarrow> Some (Inr f, ms)
     | None \<Rightarrow>
         (case alloc 1 (snd ms) of
            (Inl e, s) \<Rightarrow> Some (Inl e, fst ms, s)
          | (Inr table_ptr, s) \<Rightarrow> do {
              rust_assert (table_ptr mod 8 = 0 \<and> table_ptr \<noteq> 0);
              let table = Frame (PhysicalAddress table_ptr);
              let m = (fst ms)(table := boot_table_new);
              e \<leftarrow> expect_ok (set_pointed_frame (m t i) table FLAG_PERMISSIVE);
              Some (Inr table, set_entry t i e m, s) }) }"

text \<open>The operator \<open>?\<close> with the conversion of the error.\<close>

definition try_table ::
  "(('e, Frame) result \<times> 'm) rust \<Rightarrow> (Frame \<Rightarrow> 'm \<Rightarrow> (('e MapError, unit) result \<times> 'm) rust) \<Rightarrow>
    (('e MapError, unit) result \<times> 'm) rust" where
  "try_table x k = do { (r, m) \<leftarrow> x; case r of Inl e \<Rightarrow> Some (Inl (AllocationError e), m) | Inr f \<Rightarrow> k f m }"

definition boot_map_leaf ::
  "Frame \<Rightarrow> Page \<Rightarrow> Frame \<Rightarrow> u64 \<Rightarrow> tables \<times> 's \<Rightarrow> (('e MapError, unit) result \<times> tables \<times> 's) rust" where
  "boot_map_leaf pt page frame flags ms = do {
     e \<leftarrow> get_entry (fst ms) pt (l1_index page);
     case set_pointed_frame e frame flags of
       Inl f \<Rightarrow> Some (Inl BootAlreadyMapped, ms)
     | Inr e' \<Rightarrow> Some (Inr (), set_entry pt (l1_index page) e' (fst ms), snd ms) }"

section \<open>The page table\<close>

definition new_kernel_table :: "Frame \<Rightarrow> usize \<Rightarrow> nat \<Rightarrow> tables \<Rightarrow> tables rust" where
  "new_kernel_table table l3_kernel_tables i m = do {
     let tab = Frame (PhysicalAddress (l3_kernel_tables + i * 4096));
     let m = m(tab := boot_table_new);
     e \<leftarrow> get_entry m table (i + 256);
     e' \<leftarrow> expect_ok (set_pointed_frame e tab FLAG_PERMISSIVE);
     Some (set_entry table (i + 256) e' m) }"

definition boot_table_try_new :: "('e, 's) page_fn \<Rightarrow> tables \<times> 's \<Rightarrow> (('e, Frame) result \<times> tables \<times> 's) rust" where
  "boot_table_try_new alloc ms =
    (case alloc 1 (snd ms) of
       (Inl e, s) \<Rightarrow> Some (Inl e, fst ms, s)
     | (Inr table_ptr, s) \<Rightarrow> do {
         rust_assert (table_ptr mod 8 = 0 \<and> table_ptr \<noteq> 0);
         let table = Frame (PhysicalAddress table_ptr);
         let m = (fst ms)(table := boot_table_new);
         case alloc 256 s of
           (Inl e, s) \<Rightarrow> Some (Inl e, m, s)
         | (Inr l3_kernel_tables, s) \<Rightarrow> do {
             m \<leftarrow> for_each (new_kernel_table table l3_kernel_tables) [0..<256] m;
             Some (Inr table, m, s) } })"

definition boot_translate_page :: "Frame \<Rightarrow> Page \<Rightarrow> tables \<Rightarrow> Frame option rust" where
  "boot_translate_page table virt m =
     try_some (get_child_table m table (l4_index virt)) (\<lambda>l3.
       try_some (get_child_table m l3 (l3_index virt)) (\<lambda>l2.
         try_some (get_child_table m l2 (l2_index virt)) (\<lambda>tab. do {
           e \<leftarrow> get_entry m tab (l1_index virt);
           Some (boot_pointed_frame e) })))"

definition try_map_page_with ::
  "('e, 's) page_fn \<Rightarrow> Frame \<Rightarrow> Page \<Rightarrow> Frame \<Rightarrow> u64 \<Rightarrow> tables \<times> 's \<Rightarrow>
    (('e MapError, unit) result \<times> tables \<times> 's) rust" where
  "try_map_page_with alloc table page frame flags ms =
     try_table (try_get_or_create_child_table alloc table (l4_index page) ms) (\<lambda>l3 ms.
       try_table (try_get_or_create_child_table alloc l3 (l3_index page) ms) (\<lambda>l2 ms.
         try_table (try_get_or_create_child_table alloc l2 (l2_index page) ms) (\<lambda>l1 ms.
           boot_map_leaf l1 page frame flags ms)))"

definition try_map_page ::
  "('e, 's) page_fn \<Rightarrow> Frame \<Rightarrow> Page \<Rightarrow> Frame \<Rightarrow> tables \<times> 's \<Rightarrow> (('e MapError, unit) result \<times> tables \<times> 's) rust" where
  "try_map_page alloc table page frame ms = try_map_page_with alloc table page frame 0 ms"

fun map_range_loop ::
  "('e, 's) page_fn \<Rightarrow> Frame \<Rightarrow> Page \<Rightarrow> Frame \<Rightarrow> u64 \<Rightarrow> nat \<Rightarrow> nat \<Rightarrow> tables \<times> 's \<Rightarrow>
    (('e MapError, unit) result \<times> tables \<times> 's) rust" where
  "map_range_loop alloc table start_page start_frame flags i 0 ms = Some (Inr (), ms)"
| "map_range_loop alloc table start_page start_frame flags i (Suc n) ms = do {
     offset \<leftarrow> umul i 4096;
     page \<leftarrow> uadd (pgaddr start_page) offset;
     frame \<leftarrow> uadd (faddr start_frame) offset;
     (r, ms) \<leftarrow> try_map_page_with alloc table (Page (VirtualAddress page)) (Frame (PhysicalAddress frame)) flags ms;
     case r of
       Inl e \<Rightarrow> Some (Inl e, ms)
     | Inr u \<Rightarrow> map_range_loop alloc table start_page start_frame flags (i + 1) n ms }"

definition try_map_range_with ::
  "('e, 's) page_fn \<Rightarrow> Frame \<Rightarrow> Page \<Rightarrow> Frame \<Rightarrow> usize \<Rightarrow> u64 \<Rightarrow> tables \<times> 's \<Rightarrow>
    (('e MapError, unit) result \<times> tables \<times> 's) rust" where
  "try_map_range_with alloc table start_page start_frame page_count flags ms =
     map_range_loop alloc table start_page start_frame flags 0 page_count ms"

definition try_map_range ::
  "('e, 's) page_fn \<Rightarrow> Frame \<Rightarrow> Page \<Rightarrow> Frame \<Rightarrow> usize \<Rightarrow> tables \<times> 's \<Rightarrow>
    (('e MapError, unit) result \<times> tables \<times> 's) rust" where
  "try_map_range alloc table start_page start_frame page_count ms =
     try_map_range_with alloc table start_page start_frame page_count 0 ms"

section \<open>Entries as the kernel reads them\<close>

lemma boot_indices: "l4_index = pml4_index" "l3_index = pdpt_index" "l2_index = pd_index" "l1_index = pt_index"
  by (simp_all add: fun_eq_iff l4_index_def l3_index_def l2_index_def l1_index_def pml4_index_def pdpt_index_def
      pd_index_def pt_index_def page_start_def L4_MASK_def L4_SHIFT_def L3_MASK_def L3_SHIFT_def L2_MASK_def
      L2_SHIFT_def L1_MASK_def L1_SHIFT_def PML4_MASK_def PML4_SHIFT_def PDPT_MASK_def PDPT_SHIFT_def PD_MASK_def
      PD_SHIFT_def PT_MASK_def PT_SHIFT_def)

lemma bit_FRAME_MASK [simp]: "bit FRAME_MASK n \<longleftrightarrow> 12 \<le> n \<and> n < 52"
proof -
  have a: "FRAME_MASK = push_bit 12 (mask 40)" by (simp add: FRAME_MASK_def mask_eq_exp_minus_1 push_bit_eq_mult)
  show ?thesis unfolding a bit_push_bit_iff bit_mask_iff by auto
qed

lemma bit_boot_flags [simp]:
  "bit FLAG_PRESENT n \<longleftrightarrow> n = 0" "bit FLAG_WRITABLE n \<longleftrightarrow> n = 1" "bit FLAG_PERMISSIVE n \<longleftrightarrow> n = 1 \<or> n = 2"
  unfolding FLAG_PRESENT_def FLAG_WRITABLE_def FLAG_USER_ACCESSIBLE_def FLAG_PERMISSIVE_def bit_or_iff
    bit_push_bit_iff bit_1_iff by auto

text \<open>Entries that agree on the address field of the kernel: the bits above the narrower field of
  the bootloader are clear.\<close>

definition plain :: "u64 \<Rightarrow> bool" where
  "plain e \<longleftrightarrow> e AND 0x0ff0000000000000 = 0"

lemma plain_bit: "plain e \<longleftrightarrow> (\<forall>n. 52 \<le> n \<and> n < 60 \<longrightarrow> \<not> bit e n)"
proof -
  have a: "(0x0ff0000000000000 :: u64) = push_bit 52 (mask 8)" by (simp add: mask_eq_exp_minus_1 push_bit_eq_mult)
  have "bit (e AND 0x0ff0000000000000) n \<longleftrightarrow> bit e n \<and> 52 \<le> n \<and> n < 60" for n
    unfolding a bit_and_iff bit_push_bit_iff bit_mask_iff by auto
  moreover have "plain e \<longleftrightarrow> (\<forall>n. \<not> bit (e AND 0x0ff0000000000000) n)"
    unfolding plain_def by (metis bit_0_eq bit_eqI bot_apply bot_bool_def)
  ultimately show ?thesis by blast
qed

lemma plain_new [simp]: "plain boot_entry_new"
  by (auto simp: plain_bit boot_entry_new_def)

lemma boot_entry_new_target [simp]: "entry_target (boot_table_new i) = None"
  by (simp add: entry_target_def is_present_bit boot_table_new_def boot_entry_new_def)

lemma boot_pointed_frame_target:
  assumes "plain e"
  shows "boot_pointed_frame e = entry_target e"
proof -
  have "boot_entry_flags e AND FLAG_PRESENT = FLAG_PRESENT \<longleftrightarrow> bit e 0"
  proof
    assume "boot_entry_flags e AND FLAG_PRESENT = FLAG_PRESENT"
    then have "bit (boot_entry_flags e AND FLAG_PRESENT) 0" by simp
    then show "bit e 0" by (simp add: bit_and_iff boot_entry_flags_def)
  next
    assume "bit e 0"
    then have "bit (boot_entry_flags e) 0"
      unfolding boot_entry_flags_def TableEntryFlags_all_def bit_and_iff bit_or_iff bit_mask_iff by simp
    then show "boot_entry_flags e AND FLAG_PRESENT = FLAG_PRESENT" by (intro bit_eqI) (auto simp: bit_and_iff)
  qed
  moreover have "e AND FRAME_MASK = e AND ADDRESS"
    by (rule bit_eqI) (use assms in \<open>auto simp: bit_simps plain_bit not_less [symmetric]\<close>)
  ultimately show ?thesis by (simp add: boot_pointed_frame_def entry_target_def is_present_bit)
qed

text \<open>Frames the narrower field can hold, and flags outside of the field of the kernel.\<close>

definition boot_frame :: "Frame \<Rightarrow> bool" where
  "boot_frame f \<longleftrightarrow> faddr f mod 4096 = 0 \<and> faddr f < 2 ^ 52"

definition boot_flags :: "u64 \<Rightarrow> bool" where
  "boot_flags flags \<longleftrightarrow> flags AND ADDRESS = 0"

lemma boot_flags_bit: "boot_flags flags \<Longrightarrow> bit flags n \<Longrightarrow> n < 12 \<or> 60 \<le> n"
proof -
  assume "boot_flags flags" "bit flags n"
  then have "\<not> bit (flags AND ADDRESS) n" "bit flags n" by (simp_all add: boot_flags_def)
  then show ?thesis by (auto simp: bit_and_iff)
qed

lemma boot_flags_simps [simp]: "boot_flags 0" "boot_flags FLAG_PERMISSIVE"
  unfolding boot_flags_def by (rule bit_eqI, auto simp: bit_and_iff)+

lemma set_pointed_frame_unused:
  assumes "plain e" and "entry_target e = None" and "boot_frame f" and "boot_flags flags"
  obtains e' where "set_pointed_frame e f flags = Inr e'" and "plain e'" and "entry_target e' = Some f"
proof
  define e' where "e' = set_pointed_frame_unchecked e f flags"
  show "set_pointed_frame e f flags = Inr e'"
    using assms by (simp add: set_pointed_frame_def boot_pointed_frame_target e'_def)
  have a: "bit (faddr f) n \<Longrightarrow> n < 52" for n using assms(3) nat_bound_bit [of "faddr f" 52 n] by (simp add: boot_frame_def)
  show "plain e'"
    using assms(1) boot_flags_bit [OF assms(4)]
    by (fastforce simp: plain_bit e'_def set_pointed_frame_unchecked_def bit_simps)
  have "e' AND ADDRESS = of_nat (faddr f) AND ADDRESS"
    by (rule bit_eqI)
      (use assms(1) a boot_flags_bit [OF assms(4)] in
        \<open>fastforce simp: e'_def set_pointed_frame_unchecked_def bit_simps plain_bit\<close>)
  moreover have "unat (of_nat (faddr f) AND ADDRESS :: u64) = faddr f"
    using assms(3) entry_address by (simp add: boot_frame_def)
  moreover have "is_present e'" by (simp add: is_present_bit e'_def set_pointed_frame_unchecked_def bit_or_iff)
  ultimately show "entry_target e' = Some f" by (simp add: entry_target_def Frame.expand PhysicalAddress.expand)
qed

lemma set_pointed_frame_used:
  "plain e \<Longrightarrow> entry_target e = Some g \<Longrightarrow> set_pointed_frame e f flags = Inl g"
  by (simp add: set_pointed_frame_def boot_pointed_frame_target)

section \<open>The tables as a map\<close>

text \<open>What the firmware promises of the pages it hands out: they lie in frames of their own below
  the end of the lower half, which are not handed out again, and a request fails only when fewer
  pages are left than it asks for.\<close>

definition page_source :: "('s \<Rightarrow> nat set) \<Rightarrow> ('s \<Rightarrow> nat) \<Rightarrow> ('e, 's) page_fn \<Rightarrow> bool" where
  "page_source free room alloc \<longleftrightarrow> (\<forall>n s r s'. 0 < n \<longrightarrow> alloc n s = (r, s') \<longrightarrow> (case r of
     Inl e \<Rightarrow> room s < n \<and> free s' = free s
   | Inr a \<Rightarrow> a mod 4096 = 0 \<and> 0 < a \<and> a + n * 4096 \<le> 2 ^ 47 \<and> {a div 4096..<a div 4096 + n} \<subseteq> free s \<and>
       free s' = free s - {a div 4096..<a div 4096 + n} \<and> room s \<le> room s' + n))"

lemma page_sourceD:
  assumes "page_source free room alloc" and "0 < n"
  shows "alloc n s = (Inl e, s') \<Longrightarrow> room s < n \<and> free s' = free s"
    and "alloc n s = (Inr a, s') \<Longrightarrow> a mod 4096 = 0 \<and> 0 < a \<and> a + n * 4096 \<le> 2 ^ 47 \<and>
      {a div 4096..<a div 4096 + n} \<subseteq> free s \<and> free s' = free s - {a div 4096..<a div 4096 + n} \<and> room s \<le> room s' + n"
proof -
  note all = assms(1) [unfolded page_source_def, rule_format, OF assms(2)]
  show "alloc n s = (Inl e, s') \<Longrightarrow> room s < n \<and> free s' = free s" using all [of s "Inl e" s'] by simp
  show "alloc n s = (Inr a, s') \<Longrightarrow> a mod 4096 = 0 \<and> 0 < a \<and> a + n * 4096 \<le> 2 ^ 47 \<and>
      {a div 4096..<a div 4096 + n} \<subseteq> free s \<and> free s' = free s - {a div 4096..<a div 4096 + n} \<and> room s \<le> room s' + n"
    using all [of s "Inr a" s'] unfolding sum.case .
qed

abbreviation boot_reach :: "Frame \<Rightarrow> tables \<Rightarrow> nat list \<Rightarrow> Frame option" where
  "boot_reach table m \<equiv> reach (ttable_roots table) m 0"

definition boot_tables :: "Frame \<Rightarrow> tables \<Rightarrow> nat set \<Rightarrow> bool" where
  "boot_tables table m fr \<longleftrightarrow> forest (ttable_roots table) 3 m fr \<and>
    (\<forall>p t i. path_in 3 p \<longrightarrow> boot_reach table m p = Some t \<longrightarrow> plain (m t i))"

text \<open>The finite map that the tables stand for.\<close>

definition boot_map :: "Frame \<Rightarrow> tables \<Rightarrow> nat list \<rightharpoonup> Frame" where
  "boot_map table m p = (if full_path 3 p then boot_reach table m p else None)"

text \<open>Tables that are there stay where they are, and new ones lie in the frames \<open>fr\<close>.\<close>

definition keeps_tables :: "Frame \<Rightarrow> nat set \<Rightarrow> tables \<Rightarrow> tables \<Rightarrow> bool" where
  "keeps_tables table fr m m' \<longleftrightarrow>
    (\<forall>p u. path_in 3 p \<longrightarrow> boot_reach table m p = Some u \<longrightarrow> boot_reach table m' p = Some u) \<and>
    (\<forall>p u. path_in 3 p \<longrightarrow> boot_reach table m' p = Some u \<longrightarrow>
      boot_reach table m p = Some u \<or> faddr u div 4096 \<in> fr)"

lemma keeps_tables_refl [simp]: "keeps_tables table fr m m"
  by (simp add: keeps_tables_def)

lemma keeps_tables_trans:
  assumes "keeps_tables table fr m m1" and "keeps_tables table fr' m1 m'" and "fr' \<subseteq> fr"
  shows "keeps_tables table fr m m'"
  using assms unfolding keeps_tables_def by (meson subsetD)

lemma keeps_tables_mono: "keeps_tables table {} m m' \<Longrightarrow> keeps_tables table fr m m'"
  by (rule keeps_tables_trans [OF keeps_tables_refl _ empty_subsetI])

lemma boot_tablesD:
  assumes "boot_tables table m fr"
  shows "forest (ttable_roots table) 3 m fr"
    and "path_in 3 p \<Longrightarrow> boot_reach table m p = Some t \<Longrightarrow> plain (m t i)"
  using assms unfolding boot_tables_def by blast+

lemma same_mappings_boot_map: "same_mappings (ttable_roots table) 3 m m' \<Longrightarrow> boot_map table m' = boot_map table m"
  by (auto simp: same_mappings_def boot_map_def fun_eq_iff)

lemma boot_reach_other [simp]: "k \<noteq> 0 \<Longrightarrow> reach (ttable_roots table) m k p = None"
  by (simp add: reach_def ttable_roots_def)

lemma get_child_table_reach:
  assumes "boot_tables table m fr" and "boot_reach table m q = Some t" and "path_in 3 (q @ [i])"
  shows "get_child_table m t i = Some (boot_reach table m (q @ [i]))"
proof -
  have "plain (m t i)" using boot_tablesD(2) [OF assms(1) _ assms(2)] assms(3) by simp
  with assms(2,3) show ?thesis
    by (simp add: get_child_table_def get_entry_def boot_pointed_frame_target reach_snoc)
qed

text \<open>A new table in a free frame.\<close>

lemma grow_boot:
  assumes ok: "boot_tables table m fr" and t: "boot_reach table m q = Some t" and p: "path_in 3 (q @ [i])"
    and none: "boot_reach table m (q @ [i]) = None" and g: "faddr g div 4096 \<in> fr" "low_frame g"
  obtains e where "set_pointed_frame ((m(g := boot_table_new)) t i) g FLAG_PERMISSIVE = Inr e"
    and "boot_tables table (set_entry t i e (m(g := boot_table_new))) (fr - {faddr g div 4096})"
    and "boot_reach table (set_entry t i e (m(g := boot_table_new))) (q @ [i]) = Some g"
    and "boot_map table (set_entry t i e (m(g := boot_table_new))) = boot_map table m"
    and "keeps_tables table {faddr g div 4096} m (set_entry t i e (m(g := boot_table_new)))"
proof -
  note fo = boot_tablesD(1) [OF ok]
  have q: "path_in 3 q" using p by simp
  from forestD(2) [OF fo q t] g(1) have gt: "t \<noteq> g" by auto
  have et: "entry_target (m t i) = None" using none t by (simp add: reach_snoc)
  have gf: "boot_frame g" using g(2) by (simp add: low_frame_def boot_frame_def)
  from boot_tablesD(2) [OF ok q t] have pl: "plain (m t i)" .
  obtain e where e: "set_pointed_frame (m t i) g FLAG_PERMISSIVE = Inr e" "plain e" "entry_target e = Some g"
    by (rule set_pointed_frame_unused [OF pl et gf boot_flags_simps(2)])
  define m' where "m' = set_entry t i e (m(g := boot_table_new))"
  note grown = grow_forest [OF fo t p et g e(3) m'_def boot_entry_new_target]
  note paths = grow_paths(1) [OF fo t p et g(1) e(3) m'_def boot_entry_new_target]
  note other = grow_other [OF fo t p g(1) m'_def]
  have "plain (m' u j)" if u: "path_in 3 p'" "boot_reach table m' p' = Some u" for p' u j
  proof (cases "\<exists>r. p' = q @ i # r")
    case True
    with paths u(2) have "u = g" by (auto split: if_splits)
    with gt show ?thesis by (auto simp: m'_def set_entry_def boot_table_new_def)
  next
    case False
    with other [of p' 0] u have r: "boot_reach table m p' = Some u" by (auto simp: path_in_def)
    from forestD(2) [OF fo u(1) r] g(1) have "u \<noteq> g" by auto
    with boot_tablesD(2) [OF ok u(1) r] e(2) show ?thesis by (auto simp: m'_def set_entry_def)
  qed
  with grown(1) have "boot_tables table m' (fr - {faddr g div 4096})" by (auto simp: boot_tables_def)
  moreover have "keeps_tables table {faddr g div 4096} m m'"
    unfolding keeps_tables_def
  proof (intro conjI allI impI)
    fix p' u assume p': "path_in 3 p'" and u: "boot_reach table m p' = Some u"
    have "\<not> (\<exists>r. p' = q @ i # r)" using u grow_paths(2) [OF fo t p et g(1) e(3) m'_def boot_entry_new_target] by auto
    with other [of p' 0] p' u show "boot_reach table m' p' = Some u" by (auto simp: path_in_def)
  next
    fix p' u assume p': "path_in 3 p'" and u: "boot_reach table m' p' = Some u"
    show "boot_reach table m p' = Some u \<or> faddr u div 4096 \<in> {faddr g div 4096}"
    proof (cases "\<exists>r. p' = q @ i # r")
      case True
      with paths u show ?thesis by (auto split: if_splits)
    next
      case False
      with other [of p' 0] p' u show ?thesis by (auto simp: path_in_def)
    qed
  qed
  moreover have "set_pointed_frame ((m(g := boot_table_new)) t i) g FLAG_PERMISSIVE = Inr e" using e(1) gt by simp
  moreover have "boot_reach table m' (q @ [i]) = Some g" using paths [of "[]"] by simp
  ultimately show thesis using that [of e] same_mappings_boot_map [OF grown(2)] unfolding m'_def by blast
qed

lemma page_aligned_8: "a mod 4096 = 0 \<Longrightarrow> a mod 8 = 0" for a :: nat
  using dvd_trans [of 8 4096 a] by (simp add: mod_eq_0_iff_dvd)

lemma create_child_cases:
  assumes src: "page_source free room alloc" and ok: "boot_tables table m (free s \<union> X)" and "X \<inter> free s = {}"
    and t: "boot_reach table m q = Some t" and p: "path_in 3 (q @ [i])"
  obtains (failed) e s' where "try_get_or_create_child_table alloc t i (m, s) = Some (Inl e, m, s')"
      and "room s < 1" and "free s' = free s" and "boot_reach table m (q @ [i]) = None"
  | (child) f m' s' where "try_get_or_create_child_table alloc t i (m, s) = Some (Inr f, m', s')"
      and "boot_tables table m' (free s' \<union> X)" and "boot_reach table m' (q @ [i]) = Some f"
      and "boot_map table m' = boot_map table m" and "free s' \<subseteq> free s" and "keeps_tables table (free s) m m'"
      and "room s \<le> room s' + (if boot_reach table m (q @ [i]) = None then 1 else 0)"
proof (cases "boot_reach table m (q @ [i])")
  case (Some f)
  with get_child_table_reach [OF ok t p] have "try_get_or_create_child_table alloc t i (m, s) = Some (Inr f, m, s)"
    by (simp add: try_get_or_create_child_table_def)
  with child ok Some show thesis by auto
next
  case None
  note ct = get_child_table_reach [OF ok t p] None
  obtain r s' where a: "alloc 1 s = (r, s')" by (cases "alloc 1 s")
  show thesis
  proof (cases r)
    case (Inl e)
    with ct a have "try_get_or_create_child_table alloc t i (m, s) = Some (Inl e, m, s')"
      by (simp add: try_get_or_create_child_table_def)
    with failed None a Inl page_sourceD(1) [OF src zero_less_one, of s e s'] show thesis by blast
  next
    case (Inr ptr)
    let ?g = "Frame (PhysicalAddress ptr)"
    from page_sourceD(2) [OF src zero_less_one, of s ptr s'] a Inr
    have ptr: "ptr mod 4096 = 0" "0 < ptr" "ptr + 4096 \<le> 2 ^ 47" "ptr div 4096 \<in> free s"
      and s': "free s' = free s - {ptr div 4096}" "room s \<le> room s' + 1" by auto
    have g: "faddr ?g div 4096 \<in> free s \<union> X" "low_frame ?g" using ptr by (auto simp: low_frame_def)
    have ptr8: "ptr mod 8 = 0" by (rule page_aligned_8 [OF ptr(1)])
    have frx: "free s \<union> X - {faddr ?g div 4096} = free s' \<union> X" using assms(3) ptr(4) s'(1) by auto
    obtain e where e: "set_pointed_frame ((m(?g := boot_table_new)) t i) ?g FLAG_PERMISSIVE = Inr e"
      and grown: "boot_tables table (set_entry t i e (m(?g := boot_table_new))) (free s' \<union> X)"
        "boot_reach table (set_entry t i e (m(?g := boot_table_new))) (q @ [i]) = Some ?g"
        "boot_map table (set_entry t i e (m(?g := boot_table_new))) = boot_map table m"
        "keeps_tables table {faddr ?g div 4096} m (set_entry t i e (m(?g := boot_table_new)))"
      by (rule grow_boot [OF ok t p None g, unfolded frx])
    have "try_get_or_create_child_table alloc t i (m, s) =
        Some (Inr ?g, set_entry t i e (m(?g := boot_table_new)), s')"
      using ct a Inr ptr8 ptr(2) e by (simp add: try_get_or_create_child_table_def rust_assert_def Let_def)
    moreover have "keeps_tables table (free s) m (set_entry t i e (m(?g := boot_table_new)))"
      by (rule keeps_tables_trans [OF keeps_tables_refl grown(4)]) (use ptr(4) in simp)
    moreover have "room s \<le> room s' + (if boot_reach table m (q @ [i]) = None then 1 else 0)"
      using s'(2) None by simp
    ultimately show thesis using child grown(1-3) s'(1) by blast
  qed
qed

text \<open>A mapping in the table of the last level.\<close>

lemma boot_leaf:
  fixes s :: 's
  assumes ok: "boot_tables table m fr" and t: "boot_reach table m q = Some t" and full: "full_path 3 (q @ [l1_index page])"
    and frame: "boot_frame frame" "boot_flags flags"
  defines "x \<equiv> boot_map_leaf t page frame flags (m, s) :: (('e MapError, unit) result \<times> tables \<times> 's) rust"
  shows "x = Some (Inl BootAlreadyMapped, m, s) \<and> q @ [l1_index page] \<in> dom (boot_map table m)
    \<or> (\<exists>m'. x = Some (Inr (), m', s) \<and> boot_tables table m' fr \<and> keeps_tables table {} m m' \<and>
        q @ [l1_index page] \<notin> dom (boot_map table m) \<and> boot_map table m' = (boot_map table m)(q @ [l1_index page] \<mapsto> frame))"
proof -
  from full have q: "path_in 3 q" "length q = 3" "l1_index page < 512" by (auto simp: full_path_snoc)
  note fo = boot_tablesD(1) [OF ok]
  have pl: "plain (m t (l1_index page))" by (rule boot_tablesD(2) [OF ok q(1) t])
  show ?thesis
  proof (cases "entry_target (m t (l1_index page))")
    case (Some g)
    with set_pointed_frame_used [OF pl] full t q(3) show ?thesis
      by (auto simp: x_def boot_map_leaf_def get_entry_def boot_map_def reach_snoc)
  next
    case None
    obtain e where e: "set_pointed_frame (m t (l1_index page)) frame flags = Inr e" "plain e" "entry_target e = Some frame"
      by (rule set_pointed_frame_unused [OF pl None frame])
    let ?m = "set_entry t (l1_index page) e m"
    note change = leaf_change [OF fo t full refl, where e = e]
    have same: "boot_reach table ?m p = boot_reach table m p" if "path_in 3 p" for p
      using that leaf_change_tables [OF fo t full] by blast
    have "plain (?m u j)" if "path_in 3 p" "boot_reach table ?m p = Some u" for p u j
      using that same boot_tablesD(2) [OF ok that(1)] e(2) by (auto simp: set_entry_def)
    with change(1) have "boot_tables table ?m fr" by (auto simp: boot_tables_def)
    moreover have "boot_map table ?m = (boot_map table m)(q @ [l1_index page] \<mapsto> frame)"
      using change(2) e(3) full by (auto simp: boot_map_def fun_eq_iff)
    moreover have "keeps_tables table {} m ?m" by (simp add: keeps_tables_def same)
    moreover have "x = Some (Inr (), ?m, s)"
      using e(1) q(3) by (simp add: x_def boot_map_leaf_def get_entry_def)
    moreover have "boot_reach table m (q @ [l1_index page]) = None" using None t by (simp add: reach_snoc)
    then have "q @ [l1_index page] \<notin> dom (boot_map table m)" by (simp add: boot_map_def domIff)
    ultimately show ?thesis by blast
  qed
qed

section \<open>Mapping\<close>

text \<open>What an operation that maps a list of paths to frames, one after another, does to the map. It
  stops at the first page it cannot map and keeps the ones before it.\<close>

definition boot_outcome ::
  "(nat list \<rightharpoonup> Frame) \<Rightarrow> (nat list \<times> Frame) list \<Rightarrow> ('e MapError, unit) result \<Rightarrow> (nat list \<rightharpoonup> Frame) \<Rightarrow> bool" where
  "boot_outcome old prs r new \<longleftrightarrow> (case r of
     Inr u \<Rightarrow> distinct (map fst prs) \<and> fst ` set prs \<inter> dom old = {} \<and> new = old ++ map_of prs
   | Inl e \<Rightarrow> \<exists>k<length prs. distinct (map fst (take k prs)) \<and> fst ` set (take k prs) \<inter> dom old = {} \<and>
       new = old ++ map_of (take k prs) \<and> (e = BootAlreadyMapped \<longrightarrow> fst (prs ! k) \<in> dom new))"

text \<open>The tables on the way to the paths \<open>P\<close> that are still to be made. An operation makes no others,
  and only a shortage of pages for them makes it fail otherwise.\<close>

definition lacking :: "Frame \<Rightarrow> tables \<Rightarrow> nat list set \<Rightarrow> nat list set" where
  "lacking table m P = {q. \<exists>p \<in> P. \<exists>k. 0 < k \<and> k \<le> 3 \<and> q = take k p \<and> boot_reach table m q = None}"

definition served ::
  "('s \<Rightarrow> nat) \<Rightarrow> Frame \<Rightarrow> nat list set \<Rightarrow> tables \<times> 's \<Rightarrow> ('e MapError, unit) result \<Rightarrow> tables \<times> 's \<Rightarrow> bool" where
  "served room table P ms r ms' \<longleftrightarrow> (case r of
     Inl (AllocationError e) \<Rightarrow> room (snd ms) < card (lacking table (fst ms) P)
   | _ \<Rightarrow> room (snd ms) + card (lacking table (fst ms') P) \<le> room (snd ms') + card (lacking table (fst ms) P))"

definition full_paths :: "nat list set \<Rightarrow> bool" where
  "full_paths P \<longleftrightarrow> finite P \<and> (\<forall>p \<in> P. full_path 3 p)"

lemma finite_lacking:
  assumes "full_paths P"
  shows "finite (lacking table m P)"
proof (rule finite_subset)
  show "lacking table m P \<subseteq> (\<lambda>(k, p). take k p) ` ({..3} \<times> P)"
  proof
    fix q assume "q \<in> lacking table m P"
    then obtain p k where "p \<in> P" "k \<le> 3" "q = take k p" by (auto simp: lacking_def)
    then show "q \<in> (\<lambda>(k, p). take k p) ` ({..3} \<times> P)" by (intro image_eqI [of _ _ "(k, p)"]) simp_all
  qed
  show "finite ((\<lambda>(k, p). take k p) ` ({..3 :: nat} \<times> P))" using assms by (simp add: full_paths_def)
qed

lemma path_in_take: "full_path 3 p \<Longrightarrow> k \<le> 3 \<Longrightarrow> path_in 3 (take k p)"
  by (auto simp: full_path_def path_in_def list_all_iff dest: in_set_takeD)

lemma lacking_keeps:
  assumes "keeps_tables table fr m m'" and "full_paths P"
  shows "lacking table m' P \<subseteq> lacking table m P"
proof
  fix q assume "q \<in> lacking table m' P"
  then obtain p k where q: "p \<in> P" "0 < k" "k \<le> 3" "q = take k p" "boot_reach table m' q = None" by (auto simp: lacking_def)
  with assms(2) have "path_in 3 q" using path_in_take by (simp add: full_paths_def)
  with assms(1) q(5) have "boot_reach table m q = None" by (auto simp: keeps_tables_def)
  with q(1-4) show "q \<in> lacking table m P"
    unfolding lacking_def by (intro CollectI bexI [of _ p] exI [of _ k]) simp_all
qed

lemma served_step:
  assumes "served room table P (m1, s1) r (m', s')"
    and "room s + card (lacking table m1 P) \<le> room s1 + card (lacking table m P)"
  shows "served room table P (m, s) r (m', s')"
  using assms by (auto simp: served_def split: sum.splits MapError.splits)

lemma served_same: "served room table P (m, s) (Inl BootAlreadyMapped) (m, s)"
  by (simp add: served_def)

lemma served_leaf:
  assumes "keeps_tables table fr m m'" and "full_paths P"
  shows "served room table P (m, s) (Inr ()) (m', s)"
  using card_mono [OF finite_lacking [OF assms(2)] lacking_keeps [OF assms]] by (simp add: served_def)

lemma lacking_table:
  assumes "p \<in> P" and "p = (q @ [i]) @ r" and "length q < 3" and "boot_reach table m (q @ [i]) = None"
  shows "q @ [i] \<in> lacking table m P"
proof -
  have "q @ [i] = take (Suc (length q)) p" using assms(2) by simp
  with assms(1,3,4) show ?thesis
    unfolding lacking_def by (intro CollectI bexI [of _ p] exI [of _ "Suc (length q)"]) simp_all
qed

lemma served_failed:
  assumes "q \<in> lacking table m P" and "room s < 1" and "full_paths P"
  shows "served room table P (m, s) (Inl (AllocationError e)) ms'"
proof -
  have "card (lacking table m P) \<noteq> 0" using assms(1) finite_lacking [OF assms(3)] by auto
  with assms(2) show ?thesis by (simp add: served_def)
qed

lemma lacking_child:
  assumes "keeps_tables table fr m m1" and "full_paths P" and "boot_reach table m1 q = Some f"
    and "boot_reach table m q = None \<Longrightarrow> q \<in> lacking table m P"
    and "a \<le> b + (if boot_reach table m q = None then 1 else 0)"
  shows "a + card (lacking table m1 P) \<le> b + card (lacking table m P)"
proof (cases "boot_reach table m q")
  case None
  note fin = finite_lacking [OF assms(2)]
  have "q \<notin> lacking table m1 P" using assms(3) by (simp add: lacking_def)
  with lacking_keeps [OF assms(1,2)] assms(4) [OF None] have "lacking table m1 P \<subset> lacking table m P" by blast
  then have "card (lacking table m1 P) < card (lacking table m P)" by (rule psubset_card_mono [OF fin])
  with assms(5) None show ?thesis by simp
next
  case (Some g)
  with assms(5) card_mono [OF finite_lacking [OF assms(2)] lacking_keeps [OF assms(1,2)]] show ?thesis by simp
qed

lemma boot_outcome_one:
  "p \<in> dom old \<Longrightarrow> boot_outcome old [(p, f)] (Inl BootAlreadyMapped) old"
  "p \<notin> dom old \<Longrightarrow> boot_outcome old [(p, f)] (Inr ()) (old(p \<mapsto> f))"
  by (auto simp: boot_outcome_def)

fun boot_map_along ::
  "('e, 's) page_fn \<Rightarrow> Frame \<Rightarrow> nat list \<Rightarrow> Page \<Rightarrow> Frame \<Rightarrow> u64 \<Rightarrow> tables \<times> 's \<Rightarrow>
    (('e MapError, unit) result \<times> tables \<times> 's) rust" where
  "boot_map_along alloc t [] page frame flags = boot_map_leaf t page frame flags"
| "boot_map_along alloc t (i # is) page frame flags =
     (\<lambda>ms. try_table (try_get_or_create_child_table alloc t i ms) (\<lambda>f. boot_map_along alloc f is page frame flags))"

lemma try_map_page_along:
  "try_map_page_with alloc table page frame flags ms =
    boot_map_along alloc table [l4_index page, l3_index page, l2_index page] page frame flags ms"
  by (simp add: try_map_page_with_def)

lemma boot_map_along_outcome:
  fixes alloc :: "('e, 's) page_fn"
  assumes src: "page_source free room alloc" and ok: "boot_tables table m (free s \<union> X)" and X: "X \<inter> free s = {}"
    and t: "boot_reach table m q = Some t" and len: "length q + length is = 3"
    and bnd: "list_all (\<lambda>i. i < 512) (q @ is)" and frame: "boot_frame frame" "boot_flags flags"
    and P: "full_paths P" "q @ is @ [l1_index page] \<in> P"
  shows "\<exists>r m' s'. boot_map_along alloc t is page frame flags (m, s) = Some (r, m', s') \<and>
    boot_tables table m' (free s' \<union> X) \<and> keeps_tables table (free s) m m' \<and> free s' \<subseteq> free s \<and> served room table P (m, s) r (m', s') \<and>
    boot_outcome (boot_map table m) [(q @ is @ [l1_index page], frame)] r (boot_map table m')"
  using ok X t len bnd P(2)
proof (induction "is" arbitrary: q t m s)
  case Nil
  have full: "full_path 3 (q @ [l1_index page])" using Nil.prems by (simp add: full_path_def boot_indices)
  from boot_leaf [where 'e = 'e, OF Nil.prems(1,3) full frame, of s] Nil.prems(1) show ?case
    by (elim disjE exE conjE) (simp_all add: boot_outcome_one served_same served_leaf [OF _ P(1)] keeps_tables_mono)
next
  case (Cons i "is")
  have p: "path_in 3 (q @ [i])" using Cons.prems by (auto simp: path_in_def)
  have lack: "q @ [i] \<in> lacking table m P" if "boot_reach table m (q @ [i]) = None"
    by (rule lacking_table [OF Cons.prems(6), where r = "is @ [l1_index page]"]) (use Cons.prems(4) that in simp_all)
  show ?case
  proof (cases rule: create_child_cases [OF src Cons.prems(1-3) p])
    case (1 e s')
    then have "served room table P (m, s) (Inl (AllocationError e)) (m, s')"
      using served_failed [of "q @ [i]" table m P room s e "(m, s')"] lack P(1) by simp
    moreover have "boot_map_along alloc t (i # is) page frame flags (m, s) = Some (Inl (AllocationError e), m, s')"
      using 1(1) by (simp add: try_table_def)
    moreover have "boot_outcome (boot_map table m) [(q @ (i # is) @ [l1_index page], frame)] (Inl (AllocationError e)) (boot_map table m)"
      by (simp add: boot_outcome_def)
    ultimately show ?thesis using Cons.prems(1) 1(3) by auto
  next
    case (2 f m1 s1)
    have "\<exists>r m' s'. boot_map_along alloc f is page frame flags (m1, s1) = Some (r, m', s') \<and>
        boot_tables table m' (free s' \<union> X) \<and> keeps_tables table (free s1) m1 m' \<and> free s' \<subseteq> free s1 \<and> served room table P (m1, s1) r (m', s') \<and>
        boot_outcome (boot_map table m1) [((q @ [i]) @ is @ [l1_index page], frame)] r (boot_map table m')"
      by (rule Cons.IH [OF 2(2) _ 2(3)]) (use Cons.prems 2(5) in auto)
    then obtain r m' s' where r: "boot_map_along alloc f is page frame flags (m1, s1) = Some (r, m', s')"
      "boot_tables table m' (free s' \<union> X)" "keeps_tables table (free s1) m1 m'" "free s' \<subseteq> free s1" "served room table P (m1, s1) r (m', s')"
      "boot_outcome (boot_map table m) [(q @ (i # is) @ [l1_index page], frame)] r (boot_map table m')"
      unfolding 2(4) by auto
    moreover have "served room table P (m, s) r (m', s')"
      by (rule served_step [OF r(5) lacking_child [OF 2(6) P(1) 2(3) lack 2(7)]])
    ultimately show ?thesis using 2(1,5) keeps_tables_trans [OF 2(6) r(3) 2(5)] by (auto simp: try_table_def)
  qed
qed

lemma table_root [simp]: "boot_reach table m [] = Some table"
  by (simp add: ttable_roots_def)

text \<open>One page.\<close>

lemma try_map_page_outcome:
  assumes "page_source free room alloc" and "boot_tables table m (free s \<union> X)" and "X \<inter> free s = {}"
    and "boot_frame frame" and "boot_flags flags" and "full_paths P" and "page_path page \<in> P"
  shows "\<exists>r m' s'. try_map_page_with alloc table page frame flags (m, s) = Some (r, m', s') \<and>
    boot_tables table m' (free s' \<union> X) \<and> keeps_tables table (free s) m m' \<and> free s' \<subseteq> free s \<and> served room table P (m, s) r (m', s') \<and>
    boot_outcome (boot_map table m) [(page_path page, frame)] r (boot_map table m')"
  using boot_map_along_outcome [OF assms(1-3) table_root, of "[l4_index page, l3_index page, l2_index page]" frame flags P page] assms(4-7)
  by (simp add: try_map_page_along page_path_def boot_indices numeral_3_eq_3)

text \<open>A range of pages.\<close>

lemma boot_outcome_step:
  assumes "boot_outcome old [(p, f)] (Inr ()) mid" and "boot_outcome mid prs r new"
  shows "boot_outcome old ((p, f) # prs) r new"
proof -
  from assms(1) have p: "p \<notin> dom old" and mid: "mid = old(p \<mapsto> f)" by (auto simp: boot_outcome_def)
  have shift: "old(p \<mapsto> f) ++ map_of xs = old ++ map_of ((p, f) # xs)" if "p \<notin> fst ` set xs" for xs
  proof -
    from that have "p \<notin> dom (map_of xs)" by (simp add: dom_map_of_conv_image_fst)
    then show ?thesis by (simp add: map_add_upd_left)
  qed
  show ?thesis
  proof (cases r)
    case (Inr u)
    with assms(2) p shift [of prs] mid show ?thesis by (auto simp: boot_outcome_def)
  next
    case (Inl e)
    with assms(2) obtain k where k: "k < length prs" "distinct (map fst (take k prs))"
      "fst ` set (take k prs) \<inter> dom mid = {}" "new = mid ++ map_of (take k prs)"
      "e = BootAlreadyMapped \<longrightarrow> fst (prs ! k) \<in> dom new" by (auto simp: boot_outcome_def)
    from k(3) mid have "p \<notin> fst ` set (take k prs)" by auto
    with k p mid shift have "Suc k < length ((p, f) # prs) \<and> distinct (map fst (take (Suc k) ((p, f) # prs))) \<and>
        fst ` set (take (Suc k) ((p, f) # prs)) \<inter> dom old = {} \<and> new = old ++ map_of (take (Suc k) ((p, f) # prs)) \<and>
        (e = BootAlreadyMapped \<longrightarrow> fst (((p, f) # prs) ! Suc k) \<in> dom new)" by auto
    then show ?thesis unfolding boot_outcome_def Inl sum.case by - (rule exI [of _ "Suc k"], assumption)
  qed
qed

definition range_pairs :: "Page \<Rightarrow> Frame \<Rightarrow> nat \<Rightarrow> nat \<Rightarrow> (nat list \<times> Frame) list" where
  "range_pairs pg fr i n = map (\<lambda>j. (page_path (Page (VirtualAddress (pgaddr pg + j * 4096))),
     Frame (PhysicalAddress (faddr fr + j * 4096)))) [i..<i + n]"

lemma map_range_outcome:
  assumes src: "page_source free room alloc" and ok: "boot_tables table m (free s \<union> X)" and X: "X \<inter> free s = {}"
    and page: "pgaddr pg + (i + n) * 4096 \<le> USIZE_BOUND"
    and frame: "faddr fr mod 4096 = 0" "faddr fr + (i + n) * 4096 \<le> 2 ^ 52" and flags: "boot_flags flags"
    and P: "full_paths P" "fst ` set (range_pairs pg fr i n) \<subseteq> P"
  shows "\<exists>r m' s'. map_range_loop alloc table pg fr flags i n (m, s) = Some (r, m', s') \<and>
    boot_tables table m' (free s' \<union> X) \<and> keeps_tables table (free s) m m' \<and> free s' \<subseteq> free s \<and> served room table P (m, s) r (m', s') \<and>
    boot_outcome (boot_map table m) (range_pairs pg fr i n) r (boot_map table m')"
  using ok X page frame(2) P(2)
proof (induction n arbitrary: i m s)
  case 0
  then show ?case by (auto simp: range_pairs_def boot_outcome_def served_def)
next
  case (Suc n)
  let ?pg = "Page (VirtualAddress (pgaddr pg + i * 4096))" and ?fr = "Frame (PhysicalAddress (faddr fr + i * 4096))"
  have arith: "umul i 4096 = Some (i * 4096)" "uadd (pgaddr pg) (i * 4096) = Some (pgaddr pg + i * 4096)"
    "uadd (faddr fr) (i * 4096) = Some (faddr fr + i * 4096)"
    using Suc.prems(3,4) by (simp_all add: umul_def uadd_def)
  have "boot_frame ?fr" using frame(1) Suc.prems(4) by (simp add: boot_frame_def)
  moreover have prs: "range_pairs pg fr i (Suc n) = (page_path ?pg, ?fr) # range_pairs pg fr (Suc i) n"
    by (simp add: range_pairs_def upt_conv_Cons del: upt_Suc)
  then have "page_path ?pg \<in> P" using Suc.prems(5) by simp
  ultimately
  obtain r m1 s1 where r: "try_map_page_with alloc table ?pg ?fr flags (m, s) = Some (r, m1, s1)"
    "boot_tables table m1 (free s1 \<union> X)" "keeps_tables table (free s) m m1" "free s1 \<subseteq> free s" "served room table P (m, s) r (m1, s1)"
    "boot_outcome (boot_map table m) [(page_path ?pg, ?fr)] r (boot_map table m1)"
    using try_map_page_outcome [OF src Suc.prems(1,2) _ flags P(1), of ?fr ?pg] by blast
  show ?case
  proof (cases r)
    case (Inl e)
    have "boot_outcome (boot_map table m) (range_pairs pg fr i (Suc n)) (Inl e) (boot_map table m1)"
      using r(6) unfolding Inl prs by (auto simp: boot_outcome_def)
    then show ?thesis using r(1-5) Inl by (simp add: arith)
  next
    case (Inr u)
    have "\<exists>r m' s'. map_range_loop alloc table pg fr flags (Suc i) n (m1, s1) = Some (r, m', s') \<and>
        boot_tables table m' (free s' \<union> X) \<and> keeps_tables table (free s1) m1 m' \<and> free s' \<subseteq> free s1 \<and> served room table P (m1, s1) r (m', s') \<and>
        boot_outcome (boot_map table m1) (range_pairs pg fr (Suc i) n) r (boot_map table m')"
      by (rule Suc.IH) (use r(2,4) Suc.prems prs in auto)
    then obtain r' m' s' where r': "map_range_loop alloc table pg fr flags (Suc i) n (m1, s1) = Some (r', m', s')"
      "boot_tables table m' (free s' \<union> X)" "keeps_tables table (free s1) m1 m'" "free s' \<subseteq> free s1" "served room table P (m1, s1) r' (m', s')"
      "boot_outcome (boot_map table m1) (range_pairs pg fr (Suc i) n) r' (boot_map table m')" by blast
    have "boot_outcome (boot_map table m) (range_pairs pg fr i (Suc n)) r' (boot_map table m')"
      unfolding prs by (rule boot_outcome_step [OF _ r'(6)]) (use r(6) Inr in simp)
    moreover have "served room table P (m, s) r' (m', s')"
      by (rule served_step [OF r'(5)]) (use r(5) Inr in \<open>simp add: served_def\<close>)
    ultimately show ?thesis using r(1,4) r'(1-4) keeps_tables_trans [OF r(3) r'(3) r(4)] Inr by (simp add: arith)
  qed
qed

section \<open>A new page table\<close>

text \<open>The second-level tables of the upper half lie one after another.\<close>

definition kernel_array :: "Frame \<Rightarrow> tables \<Rightarrow> usize \<Rightarrow> nat \<Rightarrow> bool" where
  "kernel_array table m base n \<longleftrightarrow>
    (\<forall>i<n. boot_reach table m [i + 256] = Some (Frame (PhysicalAddress (base + i * 4096))))"

lemma kernel_array_keeps:
  "kernel_array table m base n \<Longrightarrow> keeps_tables table fr m m' \<Longrightarrow> n \<le> 256 \<Longrightarrow> kernel_array table m' base n"
  by (auto simp: kernel_array_def keeps_tables_def path_in_def)

lemma fresh_root:
  assumes "m table = boot_table_new" and "low_frame table" and "faddr table div 4096 \<notin> fr"
  shows "boot_tables table m fr" and "boot_map table m = Map.empty"
    and "boot_reach table m [i] = None"
proof -
  have r: "boot_reach table m p = (if p = [] then Some table else None)" for p
    by (cases p) (simp_all add: reach_def ttable_roots_def assms(1))
  have "reach (ttable_roots table) m k p = Some f \<Longrightarrow> k = 0 \<and> p = [] \<and> f = table" for k p f
    using r [of p] by (cases "k = 0") (auto split: if_splits)
  then have "forest (ttable_roots table) 3 m fr" unfolding forest_def using assms(2,3) by blast
  then show "boot_tables table m fr" using assms(1) r by (auto simp: boot_tables_def boot_table_new_def split: if_splits)
  show "boot_map table m = Map.empty" using r by (auto simp: boot_map_def full_path_def)
  show "boot_reach table m [i] = None" using r by simp
qed

text \<open>The tables that are still to be made are free.\<close>

lemma new_kernel_tables:
  assumes "boot_tables table m (fr \<union> {base div 4096 + i..<base div 4096 + 256})"
    and "fr \<inter> {base div 4096..<base div 4096 + 256} = {}"
    and "boot_map table m = Map.empty" and "kernel_array table m base i" and "i \<le> 256"
    and "\<And>j. i \<le> j \<Longrightarrow> j < 256 \<Longrightarrow> boot_reach table m [j + 256] = None"
    and "base mod 4096 = 0" and "base + 256 * 4096 \<le> 2 ^ 47"
  shows "\<exists>m'. for_each (new_kernel_table table base) [i..<256] m = Some m' \<and>
    boot_tables table m' fr \<and> boot_map table m' = Map.empty \<and> kernel_array table m' base 256"
  using assms
proof (induction "256 - i" arbitrary: i m)
  case 0
  then show ?case by simp
next
  case (Suc n)
  then have i: "i < 256" by simp
  let ?g = "Frame (PhysicalAddress (base + i * 4096))"
  have div: "(base + i * 4096) div 4096 = base div 4096 + i" by simp
  have g: "faddr ?g div 4096 \<in> fr \<union> {base div 4096 + i..<base div 4096 + 256}" "low_frame ?g"
    using i Suc.prems(7,8) by (auto simp: low_frame_def div)
  have p: "path_in 3 ([] @ [i + 256])" using i by (simp add: path_in_def)
  have none: "boot_reach table m ([] @ [i + 256]) = None" using Suc.prems(6) i by simp
  have frx: "fr \<union> {base div 4096 + i..<base div 4096 + 256} - {faddr ?g div 4096} =
      fr \<union> {base div 4096 + Suc i..<base div 4096 + 256}"
    using Suc.prems(2) i by (auto simp: div)
  obtain e where e: "set_pointed_frame ((m(?g := boot_table_new)) table (i + 256)) ?g FLAG_PERMISSIVE = Inr e"
    and grown: "boot_tables table (set_entry table (i + 256) e (m(?g := boot_table_new)))
        (fr \<union> {base div 4096 + Suc i..<base div 4096 + 256})"
      "boot_reach table (set_entry table (i + 256) e (m(?g := boot_table_new))) ([] @ [i + 256]) = Some ?g"
      "boot_map table (set_entry table (i + 256) e (m(?g := boot_table_new))) = boot_map table m"
      "keeps_tables table {faddr ?g div 4096} m (set_entry table (i + 256) e (m(?g := boot_table_new)))"
    by (rule grow_boot [OF Suc.prems(1) table_root p none g, unfolded frx])
  define m1 where "m1 = set_entry table (i + 256) e (m(?g := boot_table_new))"
  have step: "new_kernel_table table base i m = Some m1"
    using e i by (simp add: new_kernel_table_def get_entry_def m1_def Let_def)
  have arr: "kernel_array table m1 base (Suc i)"
    using kernel_array_keeps [OF Suc.prems(4) grown(4)] grown(2) i by (auto simp: kernel_array_def m1_def less_Suc_eq)
  have gt: "?g \<noteq> table"
    using forestD(2) [OF boot_tablesD(1) [OF Suc.prems(1)] path_in_Nil table_root] g(1) by auto
  have rest: "boot_reach table m1 [j + 256] = None" if "Suc i \<le> j" "j < 256" for j
    using Suc.prems(6) [of j] that gt by (auto simp: reach_def ttable_roots_def m1_def set_entry_def split: option.splits)
  have "\<exists>m'. for_each (new_kernel_table table base) [Suc i..<256] m1 = Some m' \<and>
      boot_tables table m' fr \<and> boot_map table m' = Map.empty \<and> kernel_array table m' base 256"
    by (rule Suc.hyps(1)) (use Suc.hyps(2) Suc.prems(2,3,7,8) grown(1,3) arr rest i in \<open>auto simp: m1_def\<close>)
  moreover have "[i..<256] = i # [Suc i..<256]" using i by (rule upt_conv_Cons)
  ultimately show ?case using step by simp
qed

lemma boot_table_try_new_outcome:
  assumes src: "page_source free room alloc"
  shows "\<exists>r m' s'. boot_table_try_new alloc (m, s) = Some (r, m', s') \<and> free s' \<subseteq> free s \<and> (case r of
     Inl e \<Rightarrow> room s < 257
   | Inr table \<Rightarrow> boot_tables table m' (free s') \<and> boot_map table m' = Map.empty \<and> room s \<le> room s' + 257 \<and>
       (\<exists>base. base mod 4096 = 0 \<and> base + 256 * 4096 \<le> 2 ^ 47 \<and> kernel_array table m' base 256))"
proof -
  obtain r s1 where a1: "alloc 1 s = (r, s1)" by (cases "alloc 1 s")
  show ?thesis
  proof (cases r)
    case (Inl e)
    with a1 page_sourceD(1) [OF src zero_less_one, of s e s1] show ?thesis by (simp add: boot_table_try_new_def)
  next
    case (Inr ptr)
    let ?t = "Frame (PhysicalAddress ptr)"
    from page_sourceD(2) [OF src zero_less_one, of s ptr s1] a1 Inr
    have ptr: "ptr mod 4096 = 0" "0 < ptr" "ptr + 4096 \<le> 2 ^ 47" "ptr div 4096 \<in> free s"
      and s1: "free s1 = free s - {ptr div 4096}" "room s \<le> room s1 + 1" by auto
    have as: "ptr mod 8 = 0 \<and> ptr \<noteq> 0" using page_aligned_8 [OF ptr(1)] ptr(2) by simp
    obtain r2 s2 where a2: "alloc 256 s1 = (r2, s2)" by (cases "alloc 256 s1")
    show ?thesis
    proof (cases r2)
      case (Inl e)
      with a1 Inr a2 as s1 page_sourceD(1) [OF src, of 256 s1 e s2] show ?thesis
        by (simp add: boot_table_try_new_def rust_assert_def Let_def)
    next
      case (Inr base)
      from page_sourceD(2) [OF src, of 256 s1 base s2] a2 Inr
      have base: "base mod 4096 = 0" "base + 256 * 4096 \<le> 2 ^ 47"
          "{base div 4096..<base div 4096 + 256} \<subseteq> free s1"
        and s2: "free s2 = free s1 - {base div 4096..<base div 4096 + 256}" "room s1 \<le> room s2 + 256" by auto
      have low: "low_frame ?t" using ptr by (simp add: low_frame_def)
      have "ptr div 4096 \<notin> free s1" using s1(1) by simp
      then have "ptr div 4096 \<notin> {base div 4096..<base div 4096 + 256}" "ptr div 4096 \<notin> free s2"
        using base(3) s2(1) by (meson subsetD, simp)
      then have nf: "faddr ?t div 4096 \<notin> free s2 \<union> {base div 4096 + 0..<base div 4096 + 256}" by simp
      note fresh = fresh_root [of "m(?t := boot_table_new)" ?t, OF _ low nf]
      have "\<exists>m'. for_each (new_kernel_table ?t base) [0..<256] (m(?t := boot_table_new)) = Some m' \<and>
          boot_tables ?t m' (free s2) \<and> boot_map ?t m' = Map.empty \<and> kernel_array ?t m' base 256"
        by (rule new_kernel_tables) (use fresh s2(1) base in \<open>auto simp: kernel_array_def\<close>)
      then obtain m' where m': "for_each (new_kernel_table ?t base) [0..<256] (m(?t := boot_table_new)) = Some m'"
        "boot_tables ?t m' (free s2)" "boot_map ?t m' = Map.empty" "kernel_array ?t m' base 256" by blast
      have "boot_table_try_new alloc (m, s) = Some (Inr ?t, m', s2)"
        using a1 \<open>r = Inr ptr\<close> a2 Inr as m'(1) by (simp add: boot_table_try_new_def rust_assert_def Let_def)
      moreover have "free s2 \<subseteq> free s" "room s \<le> room s2 + 257" using s1 s2 by auto
      moreover have "\<exists>base. base mod 4096 = 0 \<and> base + 256 * 4096 \<le> 2 ^ 47 \<and> kernel_array ?t m' base 256"
        by (intro exI [of _ base] conjI base m')
      ultimately show ?thesis using m'(2,3) by simp
    qed
  qed
qed

section \<open>Reading the tables\<close>

lemma try_child_reach:
  assumes "boot_tables table m fr" and "boot_reach table m q = Some t" and "path_in 3 (q @ [i])"
    and "\<And>f. boot_reach table m (q @ [i]) = Some f \<Longrightarrow> k f = Some (boot_reach table m ((q @ [i]) @ r))"
  shows "try_some (get_child_table m t i) k = Some (boot_reach table m (q @ i # r))"
proof (cases "boot_reach table m (q @ [i])")
  case None
  with get_child_table_reach [OF assms(1-3)] reach_append [of "ttable_roots table" m 0 "q @ [i]" r]
  show ?thesis by (simp add: try_some_def)
next
  case (Some f)
  with get_child_table_reach [OF assms(1-3)] assms(4) show ?thesis by (simp add: try_some_def)
qed

lemma boot_translate_map:
  assumes "boot_tables table m fr"
  shows "boot_translate_page table page m = Some (boot_map table m (page_path page))"
proof -
  have leaf: "get_entry m t (l1_index page) \<bind> (\<lambda>e. Some (boot_pointed_frame e)) = Some (boot_reach table m (q @ [l1_index page]))"
    if "boot_reach table m q = Some t" "path_in 3 q" for q t
    using that boot_tablesD(2) [OF assms that(2,1)]
    by (simp add: get_entry_def boot_pointed_frame_target reach_snoc boot_indices)
  have b: "path_in 3 ([] @ [l4_index page])" "path_in 3 (([] @ [l4_index page]) @ [l3_index page])"
    "path_in 3 ((([] @ [l4_index page]) @ [l3_index page]) @ [l2_index page])"
    by (simp_all add: path_in_def boot_indices)
  have "boot_translate_page table page m =
      Some (boot_reach table m ([] @ l4_index page # [l3_index page, l2_index page, l1_index page]))"
    unfolding boot_translate_page_def
    by (rule try_child_reach [OF assms table_root b(1)], rule try_child_reach [OF assms _ b(2)], assumption,
        rule try_child_reach [OF assms _ b(3)], assumption, rule leaf [OF _ b(3)], assumption)
  then show ?thesis by (simp add: boot_map_def page_path_def full_path_def boot_indices)
qed

text \<open>The tables as the kernel sees them: of its own half it has the second-level tables only.\<close>

lemma kernel_reach:
  assumes "kernel_array table m base 256"
  shows "reach (ktable_roots (Frame (PhysicalAddress base))) m k p =
    (if 256 \<le> k \<and> k < 512 then boot_reach table m (k # p) else None)"
proof (cases "256 \<le> k \<and> k < 512")
  case True
  then have "boot_reach table m [k] = Some (Frame (PhysicalAddress (base + (k - 256) * 4096)))"
    using assms by (auto simp: kernel_array_def dest!: spec [of _ "k - 256"])
  with True show ?thesis using reach_append [of "ttable_roots table" m 0 "[k]" p]
    by (simp add: reach_def ktable_roots_def)
next
  case False
  then show ?thesis by (auto simp: reach_def ktable_roots_def)
qed

lemma kernel_forest:
  assumes "boot_tables table m fr" and "kernel_array table m base 256"
  shows "forest (ktable_roots (Frame (PhysicalAddress base))) 2 m fr"
proof -
  have cons: "path_in 3 (k # p)" if "path_in 2 p" "k < 512" for k p using that by (simp add: path_in_def)
  note fo = boot_tablesD(1) [OF assms(1)]
  show ?thesis
    unfolding forest_def kernel_reach [OF assms(2)]
  proof (intro conjI allI impI)
    fix k p f assume "path_in 2 p" "(if 256 \<le> k \<and> k < 512 then boot_reach table m (k # p) else None) = Some f"
    with cons forestD [OF fo, of "k # p" 0 f] show "low_frame f" "faddr f div 4096 \<notin> fr" by (auto split: if_splits)
  next
    fix k p k' p' f assume "path_in 2 p" "path_in 2 p'"
      "(if 256 \<le> k \<and> k < 512 then boot_reach table m (k # p) else None) = Some f"
      "(if 256 \<le> k' \<and> k' < 512 then boot_reach table m (k' # p') else None) = Some f"
    with cons forest_inject [OF fo, of "k # p" "k' # p'" 0 f 0] show "k = k'" "p = p'" by (auto split: if_splits)
  qed
qed

section \<open>Tables built by the bootloader\<close>

text \<open>Every state of the tables the bootloader can have reached, failed requests included.\<close>

inductive boot_built :: "('e, 's) page_fn \<Rightarrow> Frame \<Rightarrow> tables \<times> 's \<Rightarrow> bool" for alloc where
  built_new: "boot_table_try_new alloc ms = Some (Inr table, ms') \<Longrightarrow> boot_built alloc table ms'"
| built_map: "boot_built alloc table ms \<Longrightarrow> boot_frame frame \<Longrightarrow> boot_flags flags \<Longrightarrow>
    try_map_page_with alloc table page frame flags ms = Some (r, ms') \<Longrightarrow> boot_built alloc table ms'"

definition built_ok :: "('s \<Rightarrow> nat set) \<Rightarrow> Frame \<Rightarrow> tables \<times> 's \<Rightarrow> bool" where
  "built_ok free table ms \<longleftrightarrow> boot_tables table (fst ms) (free (snd ms)) \<and>
    (\<exists>base. kernel_array table (fst ms) base 256)"

lemma boot_built_ok:
  assumes "page_source free room alloc" and "boot_built alloc table ms"
  shows "built_ok free table ms"
  using assms(2)
proof (induction rule: boot_built.induct)
  case (built_new ms table ms')
  obtain m s where "ms = (m, s)" by (cases ms)
  with built_new boot_table_try_new_outcome [OF assms(1), of m s] show ?case
    by (auto simp: built_ok_def)
next
  case (built_map table ms frame flags page r ms')
  obtain m s m' s' where ms: "ms = (m, s)" "ms' = (m', s')" by (cases ms, cases ms')
  from built_map.IH ms have ok: "boot_tables table m (free s \<union> {})" by (simp add: built_ok_def)
  from try_map_page_outcome [OF assms(1) ok _ built_map.hyps(2,3), of "{page_path page}" page] built_map.hyps(4) ms
  have "boot_tables table m' (free s')" "keeps_tables table (free s) m m'" by (auto simp: full_paths_def)
  with built_map.IH ms kernel_array_keeps [of table m _ 256 _ m'] show ?case by (auto simp: built_ok_def)
qed

lemma built_range:
  assumes "boot_built alloc table ms" and "faddr fr mod 4096 = 0" and "faddr fr + (i + n) * 4096 \<le> 2 ^ 52"
    and "boot_flags flags" and "map_range_loop alloc table pg fr flags i n ms = Some (r, ms')"
  shows "boot_built alloc table ms'"
  using assms(1,3,5)
proof (induction n arbitrary: i ms)
  case (Suc n)
  from Suc.prems(3) obtain off a b y where off: "umul i 4096 = Some off" "uadd (faddr fr) off = Some b"
    and y: "try_map_page_with alloc table (Page (VirtualAddress a)) (Frame (PhysicalAddress b)) flags ms = Some y"
      "(case y of (r, ms) \<Rightarrow> (case r of Inl e \<Rightarrow> Some (Inl e, ms)
        | Inr u \<Rightarrow> map_range_loop alloc table pg fr flags (i + 1) n ms)) = Some (r, ms')"
    unfolding map_range_loop.simps bind_eq_Some_conv by blast
  obtain r1 ms1 where "y = (r1, ms1)" by (cases y)
  with y have run: "try_map_page_with alloc table (Page (VirtualAddress a)) (Frame (PhysicalAddress b)) flags ms = Some (r1, ms1)"
    and rest: "(case r1 of Inl e \<Rightarrow> Some (Inl e, ms1)
      | Inr u \<Rightarrow> map_range_loop alloc table pg fr flags (i + 1) n ms1) = Some (r, ms')" by simp_all
  from off have "b = faddr fr + i * 4096" by (auto simp: umul_def uadd_def split: if_splits)
  with run have one: "try_map_page_with alloc table (Page (VirtualAddress a))
      (Frame (PhysicalAddress (faddr fr + i * 4096))) flags ms = Some (r1, ms1)" by simp
  have "boot_frame (Frame (PhysicalAddress (faddr fr + i * 4096)))" using assms(2) Suc.prems(2) by (simp add: boot_frame_def)
  from built_map [OF Suc.prems(1) this assms(4) one] have b: "boot_built alloc table ms1" .
  show ?case
  proof (cases r1)
    case (Inr u)
    with rest Suc.IH [OF b, of "Suc i"] Suc.prems(2) show ?thesis by simp
  qed (use rest b in simp)
qed simp

section \<open>Properties\<close>

text \<open>C25. Mapping a range of pages returns without a panic when the addresses fit. It maps the pages
  one after another and stops at the first that is mapped already; if it succeeds exactly the pages
  of the range have changed, each now leading to its frame, and none of them was mapped before. It fails
  for lack of memory only when fewer pages are left than tables are still to be made. What is read
  back is what was written, whatever the flags.\<close>

theorem boot_map_range_correct:
  assumes "page_source free room alloc" and "boot_tables table m (free s)"
    and "pgaddr pg + n * 4096 \<le> USIZE_BOUND" and "faddr fr mod 4096 = 0" and "faddr fr + n * 4096 \<le> 2 ^ 52"
    and "boot_flags flags"
  shows "\<exists>r m' s'. try_map_range_with alloc table pg fr n flags (m, s) = Some (r, m', s') \<and>
    boot_tables table m' (free s') \<and>
    boot_outcome (boot_map table m) (range_pairs pg fr 0 n) r (boot_map table m') \<and>
    (\<forall>page. boot_translate_page table page m' = Some (boot_map table m' (page_path page))) \<and>
    (card (lacking table m (fst ` set (range_pairs pg fr 0 n))) \<le> room s \<longrightarrow> (\<forall>e. r \<noteq> Inl (AllocationError e)))"
proof -
  let ?P = "fst ` set (range_pairs pg fr 0 n)"
  have P: "full_paths ?P" by (auto simp: full_paths_def range_pairs_def)
  from map_range_outcome [OF assms(1), of table m s "{}" pg 0 n fr flags ?P] assms(2-6) P
  obtain r m' s' where "map_range_loop alloc table pg fr flags 0 n (m, s) = Some (r, m', s')"
    "boot_tables table m' (free s')" "served room table ?P (m, s) r (m', s')"
    "boot_outcome (boot_map table m) (range_pairs pg fr 0 n) r (boot_map table m')" by auto
  moreover from this(3) have "card (lacking table m ?P) \<le> room s \<longrightarrow> (\<forall>e. r \<noteq> Inl (AllocationError e))"
    by (auto simp: served_def)
  ultimately show ?thesis using boot_translate_map by (auto simp: try_map_range_with_def)
qed

text \<open>A firmware that hands out the pages below a limit in order.\<close>

definition bump :: "nat \<Rightarrow> usize \<Rightarrow> nat \<Rightarrow> (unit, usize) result \<times> nat" where
  "bump limit n s = (if s + n < limit then (Inr ((s + 1) * 4096), s + n) else (Inl (), s))"

definition bump_free :: "nat \<Rightarrow> nat \<Rightarrow> nat set" where
  "bump_free limit s = {s + 1..<limit}"

definition bump_room :: "nat \<Rightarrow> nat \<Rightarrow> nat" where
  "bump_room limit s = limit - 1 - s"

lemma page_source_bump: "limit \<le> 2 ^ 35 \<Longrightarrow> page_source (bump_free limit) (bump_room limit) (bump limit)"
  unfolding page_source_def bump_def bump_free_def bump_room_def
  by (auto split: if_splits)

theorem boot_map_range_correct_witness:
  "\<exists>r m' s'. try_map_range_with (bump 4096) (Frame (PhysicalAddress 4096)) (Page (VirtualAddress 0xffffffff80000000))
      (Frame (PhysicalAddress 0x200000)) 2 FLAG_WRITABLE (\<lambda>t. boot_table_new, 1) = Some (r, m', s') \<and>
    boot_tables (Frame (PhysicalAddress 4096)) m' (bump_free 4096 s') \<and>
    boot_outcome (boot_map (Frame (PhysicalAddress 4096)) (\<lambda>t. boot_table_new))
      (range_pairs (Page (VirtualAddress 0xffffffff80000000)) (Frame (PhysicalAddress 0x200000)) 0 2) r
      (boot_map (Frame (PhysicalAddress 4096)) m') \<and>
    (\<forall>page. boot_translate_page (Frame (PhysicalAddress 4096)) page m' =
      Some (boot_map (Frame (PhysicalAddress 4096)) m' (page_path page))) \<and>
    (card (lacking (Frame (PhysicalAddress 4096)) (\<lambda>t. boot_table_new) (fst ` set (range_pairs
        (Page (VirtualAddress 0xffffffff80000000)) (Frame (PhysicalAddress 0x200000)) 0 2))) \<le> bump_room 4096 1 \<longrightarrow>
      (\<forall>e. r \<noteq> Inl (AllocationError e)))"
  by (rule boot_map_range_correct [OF page_source_bump])
    (simp_all add: fresh_root(1) low_frame_def bump_free_def boot_flags_def FLAG_WRITABLE_def ADDRESS_def)

text \<open>C21. The tables the bootloader has built, after any calls of its operations, failed ones
  included, are tables of the kernel: its second-level tables lie in consecutive frames as the kernel
  expects, the kernel half read through them gives what the bootloader maps, and so does the lower half read
  as an address space. They satisfy what the kernel's operations need with any allocator that has none of the
  frames the firmware has handed out.\<close>

theorem boot_tables_for_kernel:
  assumes "page_source free room alloc" and "boot_built alloc table (m, s)"
  shows "\<exists>base. (\<forall>i<256. boot_reach table m [i + 256] = Some (Frame (PhysicalAddress (faddr base + i * 4096)))) \<and>
    (\<forall>page. kernel_page page \<longrightarrow> boot_translate_page table page m = Some (kernel_translation base m page)) \<and>
    (\<forall>page. user_page page \<longrightarrow> boot_translate_page table page m = ttable_translate_page table page m) \<and>
    (\<forall>pool. low_pool pool \<and> bm_free pool \<subseteq> free s \<longrightarrow> ktable_ok base m pool \<and> ttable_ok table m pool)"
proof -
  from boot_built_ok [OF assms] obtain base where ok: "boot_tables table m (free s)"
    and arr: "kernel_array table m base 256" by (auto simp: built_ok_def)
  let ?b = "Frame (PhysicalAddress base)"
  have "boot_translate_page table page m = Some (kernel_translation ?b m page)" if "kernel_page page" for page
    using that kernel_pml4_index [of page] kernel_reach [OF arr, of "pml4_index page" "kernel_path page"]
    by (simp add: boot_translate_map [OF ok] kernel_page_def kernel_translation_def boot_map_def)
      (simp add: page_path_def kernel_path_def)
  moreover have "boot_translate_page table page m = ttable_translate_page table page m" if "user_page page" for page
    using ttable_translate_reach [OF boot_tablesD(1) [OF ok] that] by (simp add: boot_translate_map [OF ok] boot_map_def)
  moreover have "ktable_ok ?b m pool \<and> ttable_ok table m pool" if "low_pool pool" "bm_free pool \<subseteq> free s" for pool
    using that forest_mono [OF kernel_forest [OF ok arr]] forest_mono [OF boot_tablesD(1) [OF ok]]
    by (simp add: ktable_ok_def ttable_ok_def)
  ultimately show ?thesis using arr by (intro exI [of _ ?b]) (simp add: kernel_array_def)
qed

theorem boot_tables_for_kernel_witness:
  "\<exists>table m s base. boot_built (bump 4096) table (m, s) \<and>
    (\<forall>page. kernel_page page \<longrightarrow> boot_translate_page table page m = Some (kernel_translation base m page)) \<and>
    (low_pool bm_small \<and> bm_free bm_small \<subseteq> bump_free 4096 s \<longrightarrow> ktable_ok base m bm_small)"
proof -
  have src: "page_source (bump_free 4096) (bump_room 4096) (bump 4096)" by (rule page_source_bump) simp
  note new = boot_table_try_new_outcome [OF src, of "\<lambda>t. boot_table_new" 1]
  then obtain r m s where run: "boot_table_try_new (bump 4096) (\<lambda>t. boot_table_new, 1) = Some (r, m, s)" by blast
  with new have "case r of Inl e \<Rightarrow> bump_room 4096 1 < 257 | Inr table \<Rightarrow> True" by (cases r) simp_all
  then obtain table where "r = Inr table" by (cases r) (simp_all add: bump_room_def)
  with run have b: "boot_built (bump 4096) table (m, s)" using built_new by blast
  with boot_tables_for_kernel [OF src b] show ?thesis by blast
qed

end
