(* ===== verification/Watermark_Allocator.thy ===== *)
theory Watermark_Allocator
  imports Backing_Allocator
begin

text \<open>
  The bootstrap physical allocator, \<open>kernel/src/memory/watermark_allocator.rs\<close>. It hands out
  frames downwards from the end of a region: first of the last region, then of the others
  in order. Its state is the remaining regions, the first frame of the current region, the
  watermark and the end of the last region. The mutex is not part of this theory.
\<close>

section \<open>The program\<close>

record Inner =
  free_regions :: "(Frame \<times> Frame) list"
  last_in_current_region :: Frame
  prev_frame :: Frame
  top :: Frame

definition Inner_new :: "(Frame \<times> Frame) list \<Rightarrow> Inner rust" where
  "Inner_new mem =
     (if mem = [] then None
      else Some \<lparr>free_regions = butlast mem, last_in_current_region = fst (last mem),
        prev_frame = snd (last mem), top = snd (last mem)\<rparr>)"

text \<open>The loop of \<open>allocate_contiguous\<close>: the result with the bound and the regions it leaves.\<close>

fun watermark_loop ::
  "usize \<Rightarrow> Frame \<Rightarrow> Frame \<Rightarrow> (Frame \<times> Frame) list \<Rightarrow> (alloc_result \<times> Frame \<times> (Frame \<times> Frame) list) rust" where
  "watermark_loop page_count test_frame bound rs =
     (if bound \<le> test_frame then Some (Inr test_frame, bound, rs)
      else case rs of
        [] \<Rightarrow> Some (Inl AllocError, bound, [])
      | new_region # rest \<Rightarrow> do {
          t \<leftarrow> frame_checked_sub (snd new_region) page_count;
          case t of
            None \<Rightarrow> Some (Inl AllocError, fst new_region, rest)
          | Some test' \<Rightarrow> watermark_loop page_count test' (fst new_region) rest })"

declare watermark_loop.simps [simp del]

definition inner_allocate_contiguous :: "usize \<Rightarrow> nat \<Rightarrow> Inner \<Rightarrow> (alloc_result \<times> Inner) rust" where
  "inner_allocate_contiguous page_count alignment_log2 self =
     (if alignment_log2 \<noteq> 0 then None
      else do {
        t \<leftarrow> frame_checked_sub (prev_frame self) page_count;
        case t of
          None \<Rightarrow> Some (Inl AllocError, self)
        | Some test_frame \<Rightarrow> do {
            (r, bound, rs) \<leftarrow> watermark_loop page_count test_frame (last_in_current_region self) (free_regions self);
            let self' = self\<lparr>last_in_current_region := bound, free_regions := rs\<rparr>;
            case r of
              Inl e \<Rightarrow> Some (Inl e, self')
            | Inr f \<Rightarrow> Some (Inr f, self'\<lparr>prev_frame := f\<rparr>) } })"

definition wm_allocate_contiguous :: "Inner allocate_fn" where
  "wm_allocate_contiguous frame_count self =
     (if frame_count = 0 then do { z \<leftarrow> phys_new PAGE_SIZE 0; Some (Inr (frame_new z), self) }
      else inner_allocate_contiguous frame_count 0 self)"

definition wm_deallocate_contiguous :: "Frame \<Rightarrow> usize \<Rightarrow> Inner \<Rightarrow> Inner rust" where
  "wm_deallocate_contiguous base_frame frame_count self = Some self"

definition wm_allocate_at :: "usize \<Rightarrow> SpecificLocation \<Rightarrow> Inner \<Rightarrow> (alloc_result \<times> Inner) rust" where
  "wm_allocate_at frame_count location self = None"

text \<open>\<open>drain_into\<close> calls \<open>push\<close> of the allocator that takes over.\<close>

definition wm_drain_into :: "(AllocationMeta \<Rightarrow> 't \<Rightarrow> 't rust) \<Rightarrow> Inner \<Rightarrow> 't \<Rightarrow> 't rust" where
  "wm_drain_into push self into = push (AllocationMeta_new (prev_frame self, top self)) into"

section \<open>Frames the allocator may still hand out\<close>

definition region_num :: "Frame \<times> Frame \<Rightarrow> nat \<times> nat" where
  "region_num r = (faddr (fst r) div 4096, faddr (snd r) div 4096)"

lemma region_num_at [simp]: "region_num (frame_at l, frame_at h) = (l, h)"
  by (simp add: region_num_def)

lemma region_num_ranges [simp]: "map region_num (frame_ranges rs) = rs"
  by (induction rs) (auto simp: frame_ranges_def)

definition wm_free :: "Inner \<Rightarrow> nat set" where
  "wm_free s =
     range_union (region_num (last_in_current_region s, prev_frame s) # map region_num (free_regions s))"

fun separated :: "(nat \<times> nat) list \<Rightarrow> bool" where
  "separated [] = True"
| "separated ((l, h) # rs) = ({l..<h} \<inter> range_union rs = {} \<and> separated rs)"

definition wm_state :: "nat \<Rightarrow> nat \<Rightarrow> nat \<Rightarrow> (nat \<times> nat) list \<Rightarrow> Inner" where
  "wm_state l p t rs = \<lparr>free_regions = frame_ranges rs, last_in_current_region = frame_at l,
     prev_frame = frame_at p, top = frame_at t\<rparr>"

definition in_bounds :: "(nat \<times> nat) list \<Rightarrow> bool" where
  "in_bounds rs \<longleftrightarrow> (\<forall>(l, h) \<in> set rs. h * 4096 < USIZE_BOUND)"

definition wm_inv :: "Inner \<Rightarrow> bool" where
  "wm_inv s \<longleftrightarrow> (\<exists>l p t rs. s = wm_state l p t rs \<and> in_bounds ((l, p) # rs) \<and> separated ((l, p) # rs))"

lemma wm_free_state [simp]: "wm_free (wm_state l p t rs) = {l..<p} \<union> range_union rs"
  by (simp add: wm_free_def wm_state_def)

lemma frame_ranges_simps [simp]:
  "frame_ranges [] = []" "frame_ranges ((l, h) # rs) = (frame_at l, frame_at h) # frame_ranges rs"
  by (simp_all add: frame_ranges_def)

lemma in_bounds_simps [simp]:
  "in_bounds []" "in_bounds ((l, h) # rs) \<longleftrightarrow> h * 4096 < USIZE_BOUND \<and> in_bounds rs"
  by (auto simp: in_bounds_def)

text \<open>A successful loop stops in the current region or in the first later one that is large
  enough; an unsuccessful one never panics for a request below the address space.\<close>

lemma watermark_loop_spec:
  assumes "in_bounds rs" and "n * 4096 < USIZE_BOUND"
  shows "\<exists>r b qs. watermark_loop n (frame_at t) (frame_at l) (frame_ranges rs) = Some (r, b, qs) \<and>
    (\<forall>f. r = Inr f \<longrightarrow>
       l \<le> t \<and> f = frame_at t \<and> b = frame_at l \<and> qs = frame_ranges rs \<or>
       (\<exists>pre l' h' post. rs = pre @ (l', h') # post \<and> l' + n \<le> h' \<and> f = frame_at (h' - n) \<and>
          b = frame_at l' \<and> qs = frame_ranges post))"
  using assms(1)
proof (induction rs arbitrary: t l)
  case Nil
  then show ?case by (subst watermark_loop.simps) auto
next
  case (Cons r rs)
  obtain l' h' where r: "r = (l', h')" by (cases r)
  show ?case
  proof (cases "l \<le> t")
    case True
    then show ?thesis by (subst watermark_loop.simps) auto
  next
    case False
    show ?thesis
    proof (cases "n \<le> h'")
      case True
      have step: "watermark_loop n (frame_at t) (frame_at l) (frame_ranges (r # rs)) =
          watermark_loop n (frame_at (h' - n)) (frame_at l') (frame_ranges rs)"
        using False True Cons.prems assms(2) by (subst watermark_loop.simps) (simp add: r)
      from Cons.IH [of "h' - n" l'] Cons.prems obtain q b qs where
        q: "watermark_loop n (frame_at (h' - n)) (frame_at l') (frame_ranges rs) = Some (q, b, qs)"
        and ok: "\<And>f. q = Inr f \<Longrightarrow>
          l' \<le> h' - n \<and> f = frame_at (h' - n) \<and> b = frame_at l' \<and> qs = frame_ranges rs \<or>
          (\<exists>pre l1 h1 post. rs = pre @ (l1, h1) # post \<and> l1 + n \<le> h1 \<and> f = frame_at (h1 - n) \<and>
             b = frame_at l1 \<and> qs = frame_ranges post)"
        by (auto simp: r)
      have "\<exists>pre l1 h1 post. r # rs = pre @ (l1, h1) # post \<and> l1 + n \<le> h1 \<and> f = frame_at (h1 - n) \<and>
             b = frame_at l1 \<and> qs = frame_ranges post" if "q = Inr f" for f
        using ok [OF that]
      proof (elim disjE conjE exE)
        assume "l' \<le> h' - n" "f = frame_at (h' - n)" "b = frame_at l'" "qs = frame_ranges rs"
        with True r show ?thesis by (intro exI [of _ "[]"]) auto
      next
        fix pre l1 h1 post
        assume "rs = pre @ (l1, h1) # post" "l1 + n \<le> h1" "f = frame_at (h1 - n)" "b = frame_at l1"
          "qs = frame_ranges post"
        then show ?thesis by (intro exI [of _ "r # pre"]) auto
      qed
      with q step show ?thesis by auto
    next
      case none: False
      then have "watermark_loop n (frame_at t) (frame_at l) (frame_ranges (r # rs)) =
          Some (Inl AllocError, frame_at l', frame_ranges rs)"
        using False Cons.prems assms(2) by (subst watermark_loop.simps) (simp add: r)
      then show ?thesis by auto
    qed
  qed
qed

lemma wm_alloc_state:
  assumes "in_bounds ((l, p) # rs)" and "0 < n" and "wm_allocate_contiguous n (wm_state l p t rs) = Some (Inr f, s')"
  shows "\<exists>pre l' h' post. (l, p) # rs = pre @ (l', h') # post \<and> l' + n \<le> h' \<and> f = frame_at (h' - n) \<and>
    s' = wm_state l' (h' - n) t post"
proof -
  have n: "n * 4096 < USIZE_BOUND" and le: "n \<le> p"
    using assms by (auto simp: wm_allocate_contiguous_def inner_allocate_contiguous_def wm_state_def
        split: if_splits)
  from watermark_loop_spec [OF _ n, of rs "p - n" l] assms(1) obtain r b qs where
    loop: "watermark_loop n (frame_at (p - n)) (frame_at l) (frame_ranges rs) = Some (r, b, qs)"
    and ok: "\<And>f. r = Inr f \<Longrightarrow>
       l \<le> p - n \<and> f = frame_at (p - n) \<and> b = frame_at l \<and> qs = frame_ranges rs \<or>
       (\<exists>pre l' h' post. rs = pre @ (l', h') # post \<and> l' + n \<le> h' \<and> f = frame_at (h' - n) \<and>
          b = frame_at l' \<and> qs = frame_ranges post)"
    by auto
  have r: "r = Inr f" and s': "s' = \<lparr>free_regions = qs, last_in_current_region = b, prev_frame = f, top = frame_at t\<rparr>"
    using assms n le loop
    by (auto simp: wm_allocate_contiguous_def inner_allocate_contiguous_def wm_state_def Let_def
        split: sum.splits)
  from ok [OF r] show ?thesis
  proof (elim disjE conjE exE)
    assume "l \<le> p - n" "f = frame_at (p - n)" "b = frame_at l" "qs = frame_ranges rs"
    with le s' show ?thesis by (intro exI [of _ "[]"]) (auto simp: wm_state_def)
  next
    fix pre l' h' post
    assume "rs = pre @ (l', h') # post" "l' + n \<le> h'" "f = frame_at (h' - n)" "b = frame_at l'"
      "qs = frame_ranges post"
    with s' show ?thesis by (intro exI [of _ "(l, p) # pre"]) (auto simp: wm_state_def)
  qed
qed

lemma separated_suffix: "separated (pre @ rs) \<Longrightarrow> separated rs"
  by (induction pre rule: separated.induct) auto

lemma in_bounds_append [simp]: "in_bounds (pre @ rs) \<longleftrightarrow> in_bounds pre \<and> in_bounds rs"
  by (auto simp: in_bounds_def)

interpretation wm: frame_source wm_inv wm_free wm_allocate_contiguous
proof
  fix s s' :: Inner and n :: usize and f
  assume "wm_inv s" and n: "0 < n" and ok: "wm_allocate_contiguous n s = Some (Inr f, s')"
  then obtain l p t rs where s: "s = wm_state l p t rs" and b: "in_bounds ((l, p) # rs)"
    and sep: "separated ((l, p) # rs)" by (auto simp: wm_inv_def simp del: in_bounds_simps separated.simps)
  from wm_alloc_state [OF b n] ok s obtain pre l' h' post where
    rs: "(l, p) # rs = pre @ (l', h') # post" and h: "l' + n \<le> h'" "f = frame_at (h' - n)"
    and s': "s' = wm_state l' (h' - n) t post" by blast
  from sep rs have sep': "separated ((l', h') # post)" by (metis separated_suffix)
  from b rs have b': "h' * 4096 < USIZE_BOUND" "in_bounds post" by (metis in_bounds_append in_bounds_simps(2))+
  have "wm_inv s'"
    unfolding wm_inv_def
  proof (intro exI conjI)
    show "s' = wm_state l' (h' - n) t post" by (rule s')
    have "(h' - n) * 4096 \<le> h' * 4096" by simp
    with b' show "in_bounds ((l', h' - n) # post)" unfolding in_bounds_simps by linarith
    show "separated ((l', h' - n) # post)" using sep' by (auto simp: disjoint_iff)
  qed
  moreover have "faddr f + n * 4096 = h' * 4096" using h by (simp add: algebra_simps)
  moreover have "{l'..<h'} \<union> range_union post \<subseteq> wm_free s"
  proof -
    have "range_union ((l, p) # rs) = range_union (pre @ (l', h') # post)" by (simp only: rs)
    then show ?thesis by (auto simp: s)
  qed
  moreover have "frames_of f n = {h' - n..<h'}" using h by simp
  ultimately show "wm_inv s' \<and> faddr f mod 4096 = 0 \<and> faddr f + n * 4096 < USIZE_BOUND \<and>
      frames_of f n \<subseteq> wm_free s \<and> wm_free s' \<subseteq> wm_free s - frames_of f n"
    using h b'(1) sep' by (auto simp: s' disjoint_iff)
qed

lemma wm_new_state:
  "Inner_new (frame_ranges (rs @ [(l, h)])) = Some (wm_state l h h rs)"
  by (simp add: Inner_new_def wm_state_def frame_ranges_def)

lemma wm_new_inv:
  assumes "in_bounds (rs @ [(l, h)])" and "separated ((l, h) # rs)"
  shows "wm_inv (wm_state l h h rs)"
  using assms by (auto simp: wm_inv_def)

section \<open>Properties\<close>

text \<open>From construction on, while its requests succeed, the bootstrap allocator hands out only
  frames of the regions it was given and never a frame twice.\<close>

theorem watermark_no_double_allocation:
  assumes "in_bounds (rs @ [(l, h)])" and "separated ((l, h) # rs)" and "\<forall>n \<in> set ns. 0 < n"
    and "Inner_new (frame_ranges (rs @ [(l, h)])) = Some s"
    and "alloc_all wm_allocate_contiguous ns s = Some (fs, s')" and "j < length ns"
  shows "frames_of (fs ! j) (ns ! j) \<subseteq> range_union (rs @ [(l, h)]) \<and>
    (\<forall>i < j. frames_of (fs ! i) (ns ! i) \<inter> frames_of (fs ! j) (ns ! j) = {})"
proof -
  from assms(4) have s: "s = wm_state l h h rs" by (simp only: wm_new_state option.inject)
  with assms(1,2) have inv: "wm_inv s" by (simp only: wm_new_inv)
  have "frames_of (fs ! j) (ns ! j) \<subseteq> wm_free s - wm_free s'"
    by (rule wm.alloc_all_subset [OF inv assms(3,5,6)])
  moreover have "wm_free s = range_union (rs @ [(l, h)])" by (auto simp: s)
  ultimately show ?thesis
    using wm.alloc_all_disjoint [OF inv assms(3,5) _ assms(6)] by blast
qed

theorem watermark_no_double_allocation_witness:
  "alloc_all wm_allocate_contiguous [1, 1] (wm_state 6 7 7 [(0, 2)]) =
      Some ([frame_at 6, frame_at 1], wm_state 0 1 7 []) \<and>
    frames_of (frame_at 1) 1 \<subseteq> range_union [(0, 2), (6, 7)] \<and>
    frames_of (frame_at 6) 1 \<inter> frames_of (frame_at 1) 1 = {}"
proof -
  have run: "alloc_all wm_allocate_contiguous [1, 1] (wm_state 6 7 7 [(0, 2)]) =
      Some ([frame_at 6, frame_at 1], wm_state 0 1 7 [])"
    by code_simp
  have "frames_of ([frame_at 6, frame_at 1] ! 1) ([1, 1] ! 1) \<subseteq> range_union ([(0, 2)] @ [(6, 7)]) \<and>
    (\<forall>i < 1. frames_of ([frame_at 6, frame_at 1] ! i) ([1, 1] ! i) \<inter>
      frames_of ([frame_at 6, frame_at 1] ! 1) ([1, 1] ! 1) = {})"
    by (rule watermark_no_double_allocation [OF _ _ _ wm_new_state run]) simp_all
  with run show ?thesis by simp
qed

text \<open>After a request that fails, the same request may succeed with frames that belong to no
  region: the failing call moves to the bound of the next region but keeps the watermark of the
  old one. With free regions 0 to 1 and 4 to 6, a request for three frames fails, and repeating
  it returns frames 3 to 5, of which 3 is not free memory.\<close>

theorem watermark_failure_unsound:
  "\<exists>s s' s''. Inner_new (frame_ranges [(0, 1), (4, 6)]) = Some s \<and>
    wm_allocate_contiguous 3 s = Some (Inl AllocError, s') \<and>
    wm_allocate_contiguous 3 s' = Some (Inr (frame_at 3), s'') \<and>
    3 \<in> frames_of (frame_at 3) 3 - range_union [(0, 1), (4, 6)]"
proof (intro exI conjI)
  show "Inner_new (frame_ranges [(0, 1), (4, 6)]) = Some (wm_state 4 6 6 [(0, 1)])"
    by code_simp
  show "wm_allocate_contiguous 3 (wm_state 4 6 6 [(0, 1)]) = Some (Inl AllocError, wm_state 0 6 6 [])"
    by code_simp
  show "wm_allocate_contiguous 3 (wm_state 0 6 6 []) = Some (Inr (frame_at 3), wm_state 0 3 6 [])"
    by code_simp
qed (simp add: frames_of_def)

end
