(* ===== verification/Kernel_Init.thy ===== *)
theory Kernel_Init
  imports Bitmap_Allocator Watermark_Allocator
begin

text \<open>
  The set-up of physical memory in \<open>kernel/src/main.rs\<close>: the usable entries of the memory map
  become regions of frames, the watermark allocator serves the kernel heap while the bitmap
  allocator is built over the same regions, and the frames it handed out are then withdrawn
  from the bitmap. The sizes of the requests the heap makes meanwhile are a parameter.
\<close>

section \<open>The program\<close>

datatype MemoryType =
    MT_Reserved | MT_Free | MT_BootloaderCode | MT_BootloaderData | MT_KernelCode | MT_KernelData
  | MT_KernelStack | MT_KernelPageTable | MT_ModuleCode | MT_ModuleData | MT_AcpiPreserve
  | MT_AcpiReclaim | MT_RuntimeCode | MT_RuntimeData

record MemoryMapEntry =
  coverage :: "PhysicalAddress \<times> PhysicalAddress"
  mem_ty :: MemoryType

definition entry_start :: "MemoryMapEntry \<Rightarrow> PhysicalAddress" where
  "entry_start self = fst (coverage self)"

definition entry_end :: "MemoryMapEntry \<Rightarrow> PhysicalAddress" where
  "entry_end self = snd (coverage self)"

definition usable_memory :: "MemoryMapEntry list \<Rightarrow> MemoryMapEntry list" where
  "usable_memory mem = filter (\<lambda>entry. mem_ty entry = MT_Free \<or> mem_ty entry = MT_BootloaderCode) mem"

definition split_allocators :: "MemoryMapEntry list \<Rightarrow> bool rust" where
  "split_allocators usable = do {
     bytes_over_4gb \<leftarrow> for_each (\<lambda>entry acc. do {
         len \<leftarrow> phys_diff (entry_end entry) (entry_start entry);
         uadd acc len }) (filter (\<lambda>entry. 2 ^ 32 \<le> paddr (entry_start entry)) usable) 0;
     Some (1024 * 1024 * 1024 \<le> bytes_over_4gb) }"

text \<open>\<open>max_by\<close> on the end addresses; \<open>None\<close> is the panic on an empty map.\<close>

fun max_usable_memory :: "MemoryMapEntry list \<Rightarrow> PhysicalAddress rust" where
  "max_usable_memory [] = None"
| "max_usable_memory (e # es) =
     (case max_usable_memory es of
        None \<Rightarrow> Some (entry_end e)
      | Some m \<Rightarrow> Some (if paddr m < paddr (entry_end e) then entry_end e else m))"

fun spaces :: "MemoryMapEntry list \<Rightarrow> (Frame \<times> Frame) list rust" where
  "spaces [] = Some []"
| "spaces (entry # es) = do {
     s \<leftarrow> phys_align_up PAGE_SIZE (entry_start entry);
     e \<leftarrow> phys_align_down PAGE_SIZE (entry_end entry);
     rs \<leftarrow> spaces es;
     Some ((frame_new s, frame_new e) # rs) }"

text \<open>The requests are those the heap passes on while \<open>with_highmem_as\<close> has the watermark
  allocator installed; a request that fails aborts the kernel.\<close>

definition init_highmem ::
  "usize list \<Rightarrow> MemoryMapEntry list \<Rightarrow> (Frame list \<times> Inner \<times> BitmapAllocator) rust" where
  "init_highmem requests mem = do {
     let usable = usable_memory mem;
     split \<leftarrow> split_allocators usable;
     if split then None
     else do {
       max_usable \<leftarrow> max_usable_memory usable;
       rs \<leftarrow> spaces usable;
       watermark_allocator \<leftarrow> Inner_new rs;
       (taken, watermark_allocator') \<leftarrow> alloc_all wm_allocate_contiguous requests watermark_allocator;
       z \<leftarrow> phys_new PAGE_SIZE 0;
       m \<leftarrow> phys_align_down PAGE_SIZE max_usable;
       allocator \<leftarrow> bm_new \<lparr>allocation_range = (frame_new z, frame_new m), regions = rs\<rparr>;
       allocator' \<leftarrow> wm_drain_into bm_push watermark_allocator' allocator;
       Some (taken, watermark_allocator', allocator') } }"

section \<open>The regions\<close>

definition valid_entry :: "MemoryMapEntry \<Rightarrow> bool" where
  "valid_entry e \<longleftrightarrow> paddr (entry_start e) < USIZE_BOUND \<and> paddr (entry_end e) < USIZE_BOUND"

lemma align_down_frame:
  assumes "paddr a < USIZE_BOUND" and "phys_align_down PAGE_SIZE a = Some b"
  shows "\<exists>k. frame_new b = frame_at k \<and> k * 4096 \<le> paddr a"
proof -
  obtain x where a: "a = PhysicalAddress x" by (cases a)
  with assms have b: "b = PhysicalAddress (x - x mod 4096)" by (simp add: PAGE_SIZE_def phys_align_down_page)
  have "x - x mod 4096 = x div 4096 * 4096" by (simp add: minus_mod_eq_div_mult)
  with a b show ?thesis by (intro exI [of _ "x div 4096"]) (simp add: frame_new_def)
qed

lemma align_up_frame:
  assumes "paddr a < USIZE_BOUND" and "phys_align_up PAGE_SIZE a = Some b"
  shows "\<exists>k. frame_new b = frame_at k"
proof -
  define s where "s = paddr a + PAGE_SIZE - 1"
  have "s < USIZE_BOUND" "phys_align_down PAGE_SIZE (PhysicalAddress s) = Some b"
    using assms(2) by (auto simp: phys_align_up_def rust_simps s_def split: Option.bind_splits if_splits)
  then show ?thesis using align_down_frame [of "PhysicalAddress s" b] by auto
qed

lemma spaces_ranges:
  assumes "list_all valid_entry es" and "spaces es = Some rs"
  shows "\<exists>ns. rs = frame_ranges ns \<and> in_bounds ns \<and> length ns = length es"
  using assms
proof (induction es arbitrary: rs)
  case Nil
  then show ?case by (intro exI [of _ "[]"]) simp
next
  case (Cons e es)
  from Cons.prems obtain s t qs where *: "phys_align_up PAGE_SIZE (entry_start e) = Some s"
    "phys_align_down PAGE_SIZE (entry_end e) = Some t" "spaces es = Some qs"
    "rs = (frame_new s, frame_new t) # qs"
    by (auto split: Option.bind_splits)
  from Cons.prems have v: "paddr (entry_start e) < USIZE_BOUND" "paddr (entry_end e) < USIZE_BOUND"
    by (simp_all add: valid_entry_def)
  from align_up_frame [OF v(1) *(1)] align_down_frame [OF v(2) *(2)] obtain k h where
    "frame_new s = frame_at k" "frame_new t = frame_at h" "h * 4096 \<le> paddr (entry_end e)" by blast
  moreover from Cons *(3) obtain ns where "qs = frame_ranges ns" "in_bounds ns" "length ns = length es" by auto
  ultimately show ?case using *(4) v(2) by (intro exI [of _ "(k, h) # ns"]) simp
qed

section \<open>What the watermark allocator has handed out\<close>

definition allocated :: "Frame list \<Rightarrow> usize list \<Rightarrow> nat set" where
  "allocated fs ns = (\<Union>(f, n) \<in> set (zip fs ns). frames_of f n)"

lemma allocated_simps [simp]:
  "allocated [] ns = {}" "allocated (f # fs) (n # ns) = frames_of f n \<union> allocated fs ns"
  by (auto simp: allocated_def)

text \<open>As long as it stays in the last region, the frames handed out are those between the
  watermark and the top.\<close>

lemma wm_regions_shrink:
  assumes "in_bounds ((l, p) # rs)" and "\<forall>n \<in> set ns. 0 < n"
    and "alloc_all wm_allocate_contiguous ns (wm_state l p t rs) = Some (fs, s')"
  shows "length (free_regions s') \<le> length rs \<and>
    (length (free_regions s') = length rs \<longrightarrow>
      (\<exists>q \<le> p. s' = wm_state l q t rs \<and> allocated fs ns = {q..<p}))"
  using assms
proof (induction ns arbitrary: l p rs fs)
  case Nil
  then show ?case by (auto simp: wm_state_def frame_ranges_def)
next
  case (Cons n ns)
  then obtain f s1 gs where a: "wm_allocate_contiguous n (wm_state l p t rs) = Some (Inr f, s1)"
    and r: "alloc_all wm_allocate_contiguous ns s1 = Some (gs, s')" and fs: "fs = f # gs"
    by (auto split: option.splits sum.splits)
  have n: "0 < n" "\<forall>n \<in> set ns. 0 < n" using Cons.prems(2) by simp_all
  from wm_alloc_state [OF Cons.prems(1) n(1) a] obtain pre l' h' post where
    rs: "(l, p) # rs = pre @ (l', h') # post" and h: "l' + n \<le> h'" "f = frame_at (h' - n)"
    and s1: "s1 = wm_state l' (h' - n) t post" by blast
  have len: "length rs = length pre + length post" using arg_cong [OF rs, of length] by simp
  have b: "in_bounds ((l', h' - n) # post)"
  proof -
    have "in_bounds ((l', h') # post)" using Cons.prems(1) unfolding rs by simp
    moreover have "(h' - n) * 4096 \<le> h' * 4096" by simp
    ultimately show ?thesis unfolding in_bounds_simps by linarith
  qed
  from Cons.IH [OF b n(2)] r s1 have IH: "length (free_regions s') \<le> length post"
    "length (free_regions s') = length post \<Longrightarrow>
      \<exists>q \<le> h' - n. s' = wm_state l' q t post \<and> allocated gs ns = {q..<h' - n}" by auto
  moreover have "\<exists>q \<le> p. s' = wm_state l q t rs \<and> allocated fs (n # ns) = {q..<p}"
    if "length (free_regions s') = length rs"
  proof -
    from that IH(1) len have "pre = []" "length (free_regions s') = length post" by auto
    with IH(2) rs obtain q where "q \<le> p - n" "s' = wm_state l q t rs" "allocated gs ns = {q..<p - n}" by auto
    moreover have "frames_of f n = {p - n..<p}" using h rs \<open>pre = []\<close> by simp
    ultimately show ?thesis using fs by (intro exI [of _ q]) auto
  qed
  ultimately show ?case using len by auto
qed

lemma max_usable_valid:
  "list_all valid_entry es \<Longrightarrow> max_usable_memory es = Some m \<Longrightarrow> paddr m < USIZE_BOUND"
  by (induction es arbitrary: m) (auto simp: valid_entry_def split: option.splits if_splits)

lemma init_highmemE:
  assumes "init_highmem ns mem = Some (fs, w, b)"
  obtains max_usable rs w0 z m b0 where "max_usable_memory (usable_memory mem) = Some max_usable"
    "spaces (usable_memory mem) = Some rs" "Inner_new rs = Some w0"
    "alloc_all wm_allocate_contiguous ns w0 = Some (fs, w)" "phys_new PAGE_SIZE 0 = Some z"
    "phys_align_down PAGE_SIZE max_usable = Some m"
    "bm_new \<lparr>allocation_range = (frame_new z, frame_new m), regions = rs\<rparr> = Some b0"
    "wm_drain_into bm_push w b0 = Some b"
  using assms by (auto simp: init_highmem_def Let_def split: Option.bind_splits if_splits)

section \<open>Properties\<close>


text \<open>A memory map with usable frames 1, 3, 6 and 7.\<close>

definition small_map :: "MemoryMapEntry list" where
  "small_map =
    [\<lparr>coverage = (PhysicalAddress 0x1000, PhysicalAddress 0x2000), mem_ty = MT_Free\<rparr>,
     \<lparr>coverage = (PhysicalAddress 0x2000, PhysicalAddress 0x3000), mem_ty = MT_AcpiReclaim\<rparr>,
     \<lparr>coverage = (PhysicalAddress 0x3000, PhysicalAddress 0x4000), mem_ty = MT_BootloaderCode\<rparr>,
     \<lparr>coverage = (PhysicalAddress 0x6000, PhysicalAddress 0x8000), mem_ty = MT_Free\<rparr>]"


text \<open>The handover loses frames when the bootstrap requests reach a third region: \<open>drain_into\<close>
  reports only the frames from the watermark to the end of the last region, and the regions
  are visited last, first, second. On the small map, frame 1 is handed out during start-up and
  the bitmap allocator then hands it out again.\<close>

theorem highmem_handover_loses_frames:
  "\<exists>w b b'. init_highmem [2, 1, 1] small_map = Some ([frame_at 6, frame_at 1, frame_at 3], w, b) \<and>
    1 \<in> allocated [frame_at 6, frame_at 1, frame_at 3] [2, 1, 1] \<and>
    bm_allocate_contiguous 1 b = Some (Inr (frame_at 1), b')"
proof (intro exI conjI)
  show "init_highmem [2, 1, 1] small_map =
    Some ([frame_at 6, frame_at 1, frame_at 3], wm_state 3 3 8 [],
      \<lparr>first_frame = frame_at 0, bitmap = [0x02]\<rparr>)"
    by code_simp
  show "bm_allocate_contiguous 1 \<lparr>first_frame = frame_at 0, bitmap = [0x02]\<rparr> =
    Some (Inr (frame_at 1), \<lparr>first_frame = frame_at 0, bitmap = [0]\<rparr>)"
    by code_simp
qed (simp add: frames_of_def)

end
