(* ===== verification/Boot_Handoff.thy ===== *)
theory Boot_Handoff
  imports Boot_Paging Kernel_Init
begin

text \<open>
  What the bootloader hands over to the kernel, from \<open>main\<close> of \<open>bootloader/src/main.rs\<close>: physical
  memory mapped at a fixed offset, the memory that is still needed after the switch mapped to itself,
  the stack, and the memory map that \<open>Kernel_Init\<close> starts from.

  The memory map of the firmware and its allocator are parameters, and so is the sorting of the memory map,
  which the firmware library does. Addresses are checked as in a debug build.
\<close>

section \<open>Descriptors of the firmware\<close>

datatype UefiType = CONVENTIONAL | BOOT_SERVICES_CODE | BOOT_SERVICES_DATA | PERSISTENT_MEMORY | LOADER_CODE | LOADER_DATA
  | ACPI_NON_VOLATILE | ACPI_RECLAIM | RUNTIME_SERVICES_CODE | RUNTIME_SERVICES_DATA | Custom nat | OtherType nat

definition KERNEL_CODE :: UefiType where "KERNEL_CODE = Custom 0x80000000"
definition MODULE_CODE :: UefiType where "MODULE_CODE = Custom 0x80000001"
definition PAGE_TABLE :: UefiType where "PAGE_TABLE = Custom 0x80000002"
definition KERNEL_STACK :: UefiType where "KERNEL_STACK = Custom 0x80000004"

record MemoryDescriptor =
  desc_ty :: UefiType
  phys_start :: usize
  page_count :: usize

section \<open>Mapping physical memory\<close>

definition PAGE_MAP_OFFSET_LEN :: usize where
  "PAGE_MAP_OFFSET_LEN = 2 ^ 46"

definition direct_mapped :: "MemoryDescriptor \<Rightarrow> bool" where
  "direct_mapped mem \<longleftrightarrow> desc_ty mem \<in> {BOOT_SERVICES_CODE, BOOT_SERVICES_DATA, PERSISTENT_MEMORY, LOADER_CODE,
     LOADER_DATA, KERNEL_CODE, PAGE_TABLE, MODULE_CODE, ACPI_NON_VOLATILE, ACPI_RECLAIM, KERNEL_STACK,
     RUNTIME_SERVICES_CODE, RUNTIME_SERVICES_DATA, CONVENTIONAL}"

text \<open>One page, at the address \<open>virt\<close> gives for its frame; an error is unwrapped.\<close>

definition map_one ::
  "('e, 's) page_fn \<Rightarrow> Frame \<Rightarrow> (usize \<Rightarrow> usize rust) \<Rightarrow> usize \<Rightarrow> nat \<Rightarrow> tables \<times> 's \<Rightarrow> (tables \<times> 's) rust" where
  "map_one alloc table virt start page_num ms = do {
     offset \<leftarrow> umul page_num 4096;
     addr \<leftarrow> uadd start offset;
     virt_addr \<leftarrow> virt addr;
     (r, ms) \<leftarrow> try_map_page alloc table (Page (VirtualAddress virt_addr)) (Frame (PhysicalAddress addr)) ms;
     expect_ok r;
     Some ms }"

definition direct_address :: "usize \<Rightarrow> usize rust" where
  "direct_address addr = do {
     virt_addr \<leftarrow> uadd addr PAGE_MAP_OFFSET;
     rust_assert (addr < PAGE_MAP_OFFSET_LEN);
     Some virt_addr }"

definition direct_map :: "('e, 's) page_fn \<Rightarrow> Frame \<Rightarrow> MemoryDescriptor list \<Rightarrow> tables \<times> 's \<Rightarrow> (tables \<times> 's) rust" where
  "direct_map alloc table memory_map =
     for_each (\<lambda>mem. for_each (map_one alloc table direct_address (phys_start mem)) [0..<page_count mem])
       (filter direct_mapped memory_map)"

definition still_used :: "usize \<Rightarrow> MemoryDescriptor \<Rightarrow> bool rust" where
  "still_used stack_ptr mem =
    (if desc_ty mem = LOADER_DATA \<or> desc_ty mem = LOADER_CODE then Some True
     else do {
       len \<leftarrow> umul (page_count mem) 4096;
       stop \<leftarrow> uadd (phys_start mem) len;
       Some (phys_start mem \<le> stack_ptr \<and> stack_ptr < stop) })"

definition identity_map ::
  "('e, 's) page_fn \<Rightarrow> Frame \<Rightarrow> usize \<Rightarrow> MemoryDescriptor list \<Rightarrow> tables \<times> 's \<Rightarrow> (tables \<times> 's) rust" where
  "identity_map alloc table stack_ptr memory_map =
     for_each (\<lambda>mem ms. do {
         used \<leftarrow> still_used stack_ptr mem;
         if used then for_each (map_one alloc table Some (phys_start mem)) [0..<page_count mem] ms else Some ms })
       memory_map"

section \<open>The memory map for the kernel\<close>

definition handoff_type :: "UefiType \<Rightarrow> MemoryType" where
  "handoff_type ty =
    (if ty \<in> {CONVENTIONAL, BOOT_SERVICES_CODE, BOOT_SERVICES_DATA, PERSISTENT_MEMORY} then MT_Free
     else if ty = LOADER_CODE then MT_BootloaderCode
     else if ty = LOADER_DATA then MT_BootloaderData
     else if ty = KERNEL_CODE then MT_KernelCode
     else if ty = PAGE_TABLE then MT_KernelPageTable
     else if ty = MODULE_CODE then MT_ModuleCode
     else if ty = ACPI_NON_VOLATILE then MT_AcpiPreserve
     else if ty = ACPI_RECLAIM then MT_AcpiReclaim
     else if ty = KERNEL_STACK then MT_KernelStack
     else if ty = RUNTIME_SERVICES_CODE then MT_RuntimeCode
     else if ty = RUNTIME_SERVICES_DATA then MT_RuntimeData
     else MT_Reserved)"

definition descriptor_to_entry :: "MemoryDescriptor \<Rightarrow> MemoryMapEntry rust" where
  "descriptor_to_entry descriptor = do {
     len \<leftarrow> umul (page_count descriptor) 4096;
     stop \<leftarrow> uadd (phys_start descriptor) len;
     Some \<lparr>coverage = (PhysicalAddress (phys_start descriptor), PhysicalAddress stop),
       mem_ty = handoff_type (desc_ty descriptor)\<rparr> }"

fun entries_of :: "MemoryDescriptor list \<Rightarrow> MemoryMapEntry list rust" where
  "entries_of [] = Some []"
| "entries_of (d # ds) = do { e \<leftarrow> descriptor_to_entry d; es \<leftarrow> entries_of ds; Some (e # es) }"

text \<open>The call of \<open>reduce\<close>, with the entries it pushes and the last one it returns.\<close>

fun merge_entries :: "MemoryMapEntry \<Rightarrow> MemoryMapEntry list \<Rightarrow> MemoryMapEntry list" where
  "merge_entries old_item [] = [old_item]"
| "merge_entries old_item (new_item # rest) =
    (if mem_ty old_item = mem_ty new_item \<and> snd (coverage old_item) = fst (coverage new_item)
     then merge_entries \<lparr>coverage = (fst (coverage old_item), snd (coverage new_item)), mem_ty = mem_ty old_item\<rparr> rest
     else old_item # merge_entries new_item rest)"

definition kernel_mem_map ::
  "(MemoryDescriptor list \<Rightarrow> MemoryDescriptor list) \<Rightarrow> usize \<Rightarrow> MemoryDescriptor list \<Rightarrow> MemoryMapEntry list rust" where
  "kernel_mem_map order capacity memory_map = do {
     rust_assert (length (order memory_map) < capacity);
     mem_map_data \<leftarrow> entries_of (order memory_map);
     Some (case mem_map_data of [] \<Rightarrow> [] | item # rest \<Rightarrow> merge_entries item rest) }"

section \<open>The stack\<close>

record BootStack =
  bottom_virt :: Page
  top_virt :: Page
  top_phys :: Frame

definition STACK_PAGE_COUNT :: usize where
  "STACK_PAGE_COUNT = 32"

text \<open>\<open>start\<close> is the start of the used part of the address space; the panics on a failed allocation
  and on a failed mapping are \<open>None\<close>.\<close>

definition boot_stack ::
  "('e, 's) page_fn \<Rightarrow> Frame \<Rightarrow> VirtualAddress \<Rightarrow> tables \<times> 's \<Rightarrow> (VirtualAddress \<times> BootStack \<times> tables \<times> 's) rust" where
  "boot_stack alloc table start ms = do {
     size \<leftarrow> umul (STACK_PAGE_COUNT + 1) 4096;
     below \<leftarrow> virt_sub start size;
     start \<leftarrow> virt_align_down 4096 below;
     case alloc STACK_PAGE_COUNT (snd ms) of
       (Inl e, s) \<Rightarrow> None
     | (Inr allocation, s) \<Rightarrow> do {
         first \<leftarrow> uadd (vaddr start) 4096;
         (r, ms) \<leftarrow> try_map_range alloc table (Page (VirtualAddress first)) (Frame (PhysicalAddress allocation))
           STACK_PAGE_COUNT (fst ms, s);
         expect_ok r;
         top \<leftarrow> page_add (page_new start) STACK_PAGE_COUNT;
         top \<leftarrow> page_add top 1;
         phys \<leftarrow> phys_new PAGE_SIZE allocation;
         top_frame \<leftarrow> frame_add (frame_new phys) STACK_PAGE_COUNT;
         Some (start, \<lparr>bottom_virt = page_new start, top_virt = top, top_phys = top_frame\<rparr>, ms) } }"

section \<open>Mapping a list of frames\<close>

lemma for_each_nested:
  "for_each (\<lambda>x. for_each (f x) (g x)) xs = for_each (\<lambda>(x, y). f x y) (concat (map (\<lambda>x. map (Pair x) (g x)) xs))"
proof (induction xs)
  case (Cons x xs)
  then show ?case by (intro ext) (simp add: for_each_append for_each_map)
qed (rule ext, simp)

definition frame_addr :: "MemoryDescriptor \<times> nat \<Rightarrow> usize" where
  "frame_addr x = phys_start (fst x) + snd x * 4096"

definition descriptor_pages :: "MemoryDescriptor list \<Rightarrow> (MemoryDescriptor \<times> nat) list" where
  "descriptor_pages ds = concat (map (\<lambda>d. map (Pair d) [0..<page_count d]) ds)"

lemma set_descriptor_pages: "x \<in> set (descriptor_pages ds) \<longleftrightarrow> fst x \<in> set ds \<and> snd x < page_count (fst x)"
  by (cases x) (auto simp: descriptor_pages_def image_iff)

abbreviation virt_page :: "usize \<Rightarrow> Page" where
  "virt_page a \<equiv> Page (VirtualAddress a)"

abbreviation phys_frame :: "usize \<Rightarrow> Frame" where
  "phys_frame a \<equiv> Frame (PhysicalAddress a)"

lemma map_one_outcome:
  assumes src: "page_source free room alloc" and ok: "boot_tables table m (free s)"
    and addr: "frame_addr x mod 4096 = 0" "frame_addr x < 2 ^ 52" and virt: "virt (frame_addr x) = Some v"
    and P: "full_paths P" "page_path (virt_page v) \<in> P"
  shows "(\<exists>m' s'. map_one alloc table virt (phys_start (fst x)) (snd x) (m, s) = Some (m', s') \<and>
      boot_tables table m' (free s') \<and> keeps_tables table (free s) m m' \<and> free s' \<subseteq> free s \<and>
      room s + card (lacking table m' P) \<le> room s' + card (lacking table m P) \<and>
      page_path (virt_page v) \<notin> dom (boot_map table m) \<and>
      boot_map table m' = (boot_map table m)(page_path (virt_page v) \<mapsto> phys_frame (frame_addr x))) \<or>
    map_one alloc table virt (phys_start (fst x)) (snd x) (m, s) = None \<and>
      (page_path (virt_page v) \<in> dom (boot_map table m) \<or> room s < card (lacking table m P))"
proof -
  have arith: "umul (snd x) 4096 = Some (snd x * 4096)" "uadd (phys_start (fst x)) (snd x * 4096) = Some (frame_addr x)"
    using addr(2) by (simp_all add: umul_def uadd_def frame_addr_def)
  have fr: "boot_frame (phys_frame (frame_addr x))" using addr by (simp add: boot_frame_def)
  from ok have "boot_tables table m (free s \<union> {})" by simp
  from try_map_page_outcome [OF src this _ fr boot_flags_simps(1) P]
  obtain r m' s' where r: "try_map_page_with alloc table (virt_page v) (phys_frame (frame_addr x)) 0 (m, s) = Some (r, m', s')"
    "boot_tables table m' (free s')" "keeps_tables table (free s) m m'" "free s' \<subseteq> free s" "served room table P (m, s) r (m', s')"
    "boot_outcome (boot_map table m) [(page_path (virt_page v), phys_frame (frame_addr x))] r (boot_map table m')" by auto
  have run: "map_one alloc table virt (phys_start (fst x)) (snd x) (m, s) = (case r of Inl e \<Rightarrow> None | Inr u \<Rightarrow> Some (m', s'))"
    by (simp add: map_one_def arith virt try_map_page_def r(1) split: sum.splits)
  show ?thesis
  proof (cases r)
    case (Inr u)
    with run r(2-6) show ?thesis by (simp add: served_def boot_outcome_def)
  next
    case (Inl e)
    with run r(5,6) show ?thesis by (cases e) (auto simp: served_def boot_outcome_def)
  qed
qed

definition page_pairs :: "(usize \<Rightarrow> usize) \<Rightarrow> (MemoryDescriptor \<times> nat) list \<Rightarrow> (nat list \<times> Frame) list" where
  "page_pairs v xs = map (\<lambda>x. (page_path (virt_page (v (frame_addr x))), phys_frame (frame_addr x))) xs"

lemma page_pairs_Cons:
  "page_pairs v (x # xs) = (page_path (virt_page (v (frame_addr x))), phys_frame (frame_addr x)) # page_pairs v xs"
  by (simp add: page_pairs_def)

abbreviation map_item ::
  "('e, 's) page_fn \<Rightarrow> Frame \<Rightarrow> (usize \<Rightarrow> usize rust) \<Rightarrow> MemoryDescriptor \<times> nat \<Rightarrow> tables \<times> 's \<Rightarrow> (tables \<times> 's) rust" where
  "map_item alloc table virt \<equiv> (\<lambda>(d, n). map_one alloc table virt (phys_start d) n)"

text \<open>All of the frames are mapped, or two of the pages are the same, or one is mapped before, or there
  is not enough memory.\<close>

lemma map_all_outcome:
  assumes src: "page_source free room alloc" and ok: "boot_tables table m (free s)"
    and xs: "\<And>x. x \<in> set xs \<Longrightarrow> frame_addr x mod 4096 = 0 \<and> frame_addr x < 2 ^ 52 \<and> virt (frame_addr x) = Some (v (frame_addr x))"
    and P: "full_paths P" "fst ` set (page_pairs v xs) \<subseteq> P"
  shows "(\<exists>m' s'. for_each (map_item alloc table virt) xs (m, s) = Some (m', s') \<and>
      boot_tables table m' (free s') \<and> keeps_tables table (free s) m m' \<and> free s' \<subseteq> free s \<and>
      room s + card (lacking table m' P) \<le> room s' + card (lacking table m P) \<and>
      boot_outcome (boot_map table m) (page_pairs v xs) (Inr () :: ('e MapError, unit) result) (boot_map table m')) \<or>
    for_each (map_item alloc table virt) xs (m, s) = None \<and>
      (\<not> distinct (map fst (page_pairs v xs)) \<or> fst ` set (page_pairs v xs) \<inter> dom (boot_map table m) \<noteq> {} \<or> room s < card (lacking table m P))"
  (is "?ok m s xs \<or> ?bad m s xs")
  using ok xs P(2)
proof (induction xs arbitrary: m s)
  case Nil
  then show ?case by (simp add: boot_outcome_def page_pairs_def)
next
  case (Cons x xs)
  let ?p = "page_path (virt_page (v (frame_addr x)))" and ?f = "phys_frame (frame_addr x)"
  from Cons.prems(2) [of x] have x: "frame_addr x mod 4096 = 0" "frame_addr x < 2 ^ 52" "virt (frame_addr x) = Some (v (frame_addr x))"
    by simp_all
  have xP: "?p \<in> P" using Cons.prems(3) by (simp add: page_pairs_Cons)
  from map_one_outcome [OF src Cons.prems(1) x(1,2), of virt "v (frame_addr x)" P, OF x(3) P(1) xP] show ?case
  proof (elim disjE exE conjE)
    fix m1 s1
    assume run: "map_one alloc table virt (phys_start (fst x)) (snd x) (m, s) = Some (m1, s1)"
      and ok1: "boot_tables table m1 (free s1)" and k1: "keeps_tables table (free s) m m1" and f1: "free s1 \<subseteq> free s"
      and r1: "room s + card (lacking table m1 P) \<le> room s1 + card (lacking table m P)" and p: "?p \<notin> dom (boot_map table m)"
      and m1: "boot_map table m1 = (boot_map table m)(?p \<mapsto> ?f)"
    have head: "for_each (map_item alloc table virt) (x # xs) (m, s) = for_each (map_item alloc table virt) xs (m1, s1)"
      using run by (simp add: case_prod_beta)
    have IH: "?ok m1 s1 xs \<or> ?bad m1 s1 xs" by (rule Cons.IH [OF ok1]) (use Cons.prems(2,3) in \<open>simp_all add: page_pairs_Cons\<close>)
    then show ?case
    proof
      assume "?ok m1 s1 xs"
      then obtain m' s' where t: "for_each (map_item alloc table virt) xs (m1, s1) = Some (m', s')"
        "boot_tables table m' (free s')" "keeps_tables table (free s1) m1 m'" "free s' \<subseteq> free s1" "room s1 + card (lacking table m' P) \<le> room s' + card (lacking table m1 P)"
        "boot_outcome (boot_map table m1) (page_pairs v xs) (Inr () :: ('e MapError, unit) result) (boot_map table m')" by blast
      have "boot_outcome (boot_map table m) (page_pairs v (x # xs)) (Inr () :: ('e MapError, unit) result) (boot_map table m')"
        unfolding page_pairs_Cons by (rule boot_outcome_step [OF _ t(6)]) (simp add: m1 boot_outcome_one(2) [OF p])
      with head t keeps_tables_trans [OF k1 t(3) f1] f1 r1 have "?ok m s (x # xs)" by simp
      then show ?case ..
    next
      assume b: "?bad m1 s1 xs"
      have "\<not> distinct (map fst (page_pairs v (x # xs))) \<or>
          fst ` set (page_pairs v (x # xs)) \<inter> dom (boot_map table m) \<noteq> {} \<or> room s < card (lacking table m P)"
      proof (cases "fst ` set (page_pairs v xs) \<inter> dom (boot_map table m1) = {}")
        case True
        with b r1 show ?thesis by (auto simp: page_pairs_Cons)
      next
        case False
        then obtain q where q: "q \<in> fst ` set (page_pairs v xs)" "q \<in> dom (boot_map table m1)" by (meson disjoint_iff)
        then have "q = ?p \<or> q \<in> dom (boot_map table m)" by (simp add: m1)
        then show ?thesis
        proof
          assume "q = ?p"
          with q(1) show ?thesis by (simp add: page_pairs_Cons)
        next
          assume "q \<in> dom (boot_map table m)"
          with q(1) have "q \<in> fst ` set (page_pairs v (x # xs)) \<inter> dom (boot_map table m)" by (simp add: page_pairs_Cons)
          then show ?thesis by (metis empty_iff)
        qed
      qed
      with head b show ?case by simp
    qed
  next
    assume "map_one alloc table virt (phys_start (fst x)) (snd x) (m, s) = None" "?p \<in> dom (boot_map table m)"
    then show ?case by (simp add: case_prod_beta page_pairs_Cons)
  next
    assume "map_one alloc table virt (phys_start (fst x)) (snd x) (m, s) = None" "room s < card (lacking table m P)"
    then show ?case by (simp add: case_prod_beta)
  qed
qed

lemma direct_map_pages:
  "direct_map alloc table ds = for_each (map_item alloc table direct_address) (descriptor_pages (filter direct_mapped ds))"
  by (simp add: direct_map_def for_each_nested descriptor_pages_def)

section \<open>The stack of the kernel\<close>

text \<open>The stack gets fresh frames; the page below it stays as it was.\<close>

lemma boot_stack_maps:
  assumes src: "page_source free room alloc" and ok: "boot_tables table m (free s)"
    and run: "boot_stack alloc table start (m, s) = Some (start', st, m', s')"
  shows "boot_tables table m' (free s') \<and> bottom_virt st = page_new start' \<and>
    pgaddr (top_virt st) = vaddr start' + 33 * 4096 \<and>
    (\<exists>a. top_phys st = phys_frame (a + 32 * 4096) \<and> {a div 4096..<a div 4096 + 32} \<subseteq> free s \<and>
      boot_map table m' = boot_map table m ++ map_of (range_pairs (virt_page (vaddr start' + 4096)) (phys_frame a) 0 32))"
proof -
  obtain r0 s1 where al: "alloc STACK_PAGE_COUNT s = (r0, s1)" by (cases "alloc STACK_PAGE_COUNT s")
  then obtain a where alloc: "alloc STACK_PAGE_COUNT s = (Inr a, s1)"
    using run by (cases r0) (auto simp: boot_stack_def bind_eq_Some_conv)
  with run obtain first top p where first: "uadd (vaddr start') 4096 = Some first"
    and map: "try_map_range alloc table (virt_page first) (phys_frame a) STACK_PAGE_COUNT (m, s1) = Some (Inr (), m', s')"
    and top: "page_add (page_new start') STACK_PAGE_COUNT = Some top" "page_add top 1 = Some (top_virt st)"
    and phys: "phys_new PAGE_SIZE a = Some p" "frame_add (frame_new p) STACK_PAGE_COUNT = Some (top_phys st)"
    and st: "bottom_virt st = page_new start'"
    by (auto simp: boot_stack_def bind_eq_Some_conv)
  note a = page_sourceD(2) [OF src _ alloc, simplified STACK_PAGE_COUNT_def, simplified]
  have f: "first = vaddr start' + 4096" "vaddr start' + 4096 < USIZE_BOUND" using first by (auto simp: uadd_def split: if_splits)
  have t: "pgaddr (top_virt st) = vaddr start' + 33 * 4096" "vaddr start' + 33 * 4096 < USIZE_BOUND"
    using top by (auto simp: page_add_eq_Some page_new_def STACK_PAGE_COUNT_def)
  have p: "top_phys st = phys_frame (a + 32 * 4096)"
    using phys a by (auto simp: phys_new_page frame_add_eq_Some frame_new_def STACK_PAGE_COUNT_def Frame.expand
        PhysicalAddress.expand)
  let ?prs = "range_pairs (virt_page first) (phys_frame a) 0 32"
  have P: "full_paths (fst ` set ?prs)" by (auto simp: full_paths_def range_pairs_def)
  have ok1: "boot_tables table m (free s1 \<union> {})" using ok a forest_mono by (auto simp: boot_tables_def)
  from map_range_outcome [OF src ok1 _ _ _ _ boot_flags_simps(1) P subset_refl] map a f t
  have "boot_tables table m' (free s')" "boot_map table m' = boot_map table m ++ map_of ?prs"
    by (auto simp: try_map_range_def try_map_range_with_def STACK_PAGE_COUNT_def boot_outcome_def)
  with st t p a f show ?thesis by auto
qed

section \<open>Physical memory at its offset\<close>

definition region_ok :: "MemoryDescriptor \<Rightarrow> bool" where
  "region_ok d \<longleftrightarrow> phys_start d mod 4096 = 0 \<and> phys_start d + page_count d * 4096 \<le> 2 ^ 46"

abbreviation direct_pages :: "MemoryDescriptor list \<Rightarrow> (MemoryDescriptor \<times> nat) list" where
  "direct_pages ds \<equiv> descriptor_pages (filter direct_mapped ds)"

abbreviation direct_page :: "usize \<Rightarrow> Page" where
  "direct_page a \<equiv> virt_page (a + PAGE_MAP_OFFSET)"

abbreviation direct_pairs :: "MemoryDescriptor list \<Rightarrow> (nat list \<times> Frame) list" where
  "direct_pairs ds \<equiv> page_pairs (\<lambda>a. a + PAGE_MAP_OFFSET) (direct_pages ds)"

lemma direct_frame_addr:
  assumes "list_all region_ok (filter direct_mapped ds)" and "x \<in> set (direct_pages ds)"
  shows "frame_addr x mod 4096 = 0" and "frame_addr x < 2 ^ 46"
proof -
  from assms have "region_ok (fst x)" "snd x < page_count (fst x)" by (auto simp: set_descriptor_pages list_all_iff)
  then show "frame_addr x mod 4096 = 0" "frame_addr x < 2 ^ 46" by (auto simp: region_ok_def frame_addr_def)
qed

lemma direct_address_ok: "a < 2 ^ 46 \<Longrightarrow> direct_address a = Some (a + PAGE_MAP_OFFSET)"
  by (simp add: direct_address_def uadd_def PAGE_MAP_OFFSET_def PAGE_MAP_OFFSET_LEN_def rust_assert_def)

lemma direct_page_kernel: "a mod 4096 = 0 \<Longrightarrow> a < 2 ^ 46 \<Longrightarrow> kernel_page (direct_page a)"
  by (simp add: kernel_page_def HALF_def PAGE_MAP_OFFSET_def mod_add_left_eq [symmetric])

lemma page_path_split: "page_path p = page_path q \<longleftrightarrow> pml4_index p = pml4_index q \<and> kernel_path p = kernel_path q"
  by (simp add: page_path_def kernel_path_def)

lemma direct_page_inject:
  assumes "a mod 4096 = 0" and "a < 2 ^ 46" and "b mod 4096 = 0" and "b < 2 ^ 46"
  shows "page_path (direct_page a) = page_path (direct_page b) \<longleftrightarrow> a = b"
  unfolding page_path_split kernel_page_inject [OF direct_page_kernel [OF assms(1,2)] direct_page_kernel [OF assms(3,4)]]
  by simp

lemma direct_pairs_paths: "full_paths (fst ` set (page_pairs v xs))"
  by (auto simp: full_paths_def page_pairs_def)

text \<open>A run that returns has mapped every page.\<close>

lemma direct_map_run:
  assumes "page_source free room alloc" and "boot_tables table m (free s)"
    and "list_all region_ok (filter direct_mapped ds)"
  shows "(\<exists>m' s'. direct_map alloc table ds (m, s) = Some (m', s') \<and> boot_tables table m' (free s') \<and>
      keeps_tables table (free s) m m' \<and> distinct (map fst (direct_pairs ds)) \<and>
      boot_map table m' = boot_map table m ++ map_of (direct_pairs ds)) \<or>
    direct_map alloc table ds (m, s) = None \<and>
      (\<not> distinct (map fst (direct_pairs ds)) \<or> fst ` set (direct_pairs ds) \<inter> dom (boot_map table m) \<noteq> {} \<or>
       room s < card (lacking table m (fst ` set (direct_pairs ds))))"
proof -
  have "frame_addr x mod 4096 = 0 \<and> frame_addr x < 2 ^ 52 \<and>
      direct_address (frame_addr x) = Some (frame_addr x + PAGE_MAP_OFFSET)" if "x \<in> set (direct_pages ds)" for x
    using direct_frame_addr [OF assms(3) that] direct_address_ok [of "frame_addr x"] by auto
  from map_all_outcome [OF assms(1,2), of "direct_pages ds" direct_address "\<lambda>a. a + PAGE_MAP_OFFSET",
      OF this direct_pairs_paths subset_refl]
  show ?thesis unfolding direct_map_pages by (auto simp: boot_outcome_def)
qed

lemma distinct_direct_pairs:
  assumes "list_all region_ok (filter direct_mapped ds)" and "distinct (map frame_addr (direct_pages ds))"
  shows "distinct (map fst (direct_pairs ds))"
proof -
  have "inj_on (\<lambda>x. page_path (direct_page (frame_addr x))) (set (direct_pages ds))"
    using assms direct_frame_addr [OF assms(1)] by (auto simp: inj_on_def direct_page_inject distinct_map)
  moreover have "distinct (direct_pages ds)" using assms(2) by (simp add: distinct_map)
  ultimately show ?thesis by (simp add: page_pairs_def distinct_map comp_def)
qed

text \<open>The page the kernel uses for a frame is the one of the bootloader.\<close>

lemma frame_to_direct_page: "a < 2 ^ 46 \<Longrightarrow> frame_to_page (phys_frame a) = Some (direct_page a)"
  by (simp add: frame_to_page_def to_virtual_def uadd_def PAGE_MAP_OFFSET_def)

section \<open>The memory map\<close>

definition descriptor_fits :: "MemoryDescriptor \<Rightarrow> bool" where
  "descriptor_fits d \<longleftrightarrow> phys_start d + page_count d * 4096 < USIZE_BOUND"

definition entry_of :: "MemoryDescriptor \<Rightarrow> MemoryMapEntry" where
  "entry_of d = \<lparr>coverage = (PhysicalAddress (phys_start d), PhysicalAddress (phys_start d + page_count d * 4096)),
     mem_ty = handoff_type (desc_ty d)\<rparr>"

lemma entries_of_map: "list_all descriptor_fits ds \<Longrightarrow> entries_of ds = Some (map entry_of ds)"
  by (induction ds) (auto simp: descriptor_to_entry_def umul_def uadd_def descriptor_fits_def entry_of_def)

text \<open>The addresses of type \<open>ty\<close> in an entry.\<close>

definition entry_covers :: "MemoryType \<Rightarrow> nat \<Rightarrow> MemoryMapEntry \<Rightarrow> bool" where
  "entry_covers ty a e \<longleftrightarrow> mem_ty e = ty \<and> paddr (entry_start e) \<le> a \<and> a < paddr (entry_end e)"

definition entry_ordered :: "MemoryMapEntry \<Rightarrow> bool" where
  "entry_ordered e \<longleftrightarrow> paddr (entry_start e) \<le> paddr (entry_end e)"

definition mergeable :: "MemoryMapEntry \<Rightarrow> MemoryMapEntry \<Rightarrow> bool" where
  "mergeable x y \<longleftrightarrow> mem_ty x = mem_ty y \<and> entry_end x = entry_start y"

lemma merge_covers:
  assumes "list_all entry_ordered (old # rest)"
  shows "(\<exists>e \<in> set (merge_entries old rest). entry_covers ty a e) \<longleftrightarrow> (\<exists>e \<in> set (old # rest). entry_covers ty a e)"
  using assms
proof (induction old rest rule: merge_entries.induct)
  case (2 old new rest)
  show ?case
  proof (cases "mem_ty old = mem_ty new \<and> snd (coverage old) = fst (coverage new)")
    case True
    let ?e = "\<lparr>coverage = (fst (coverage old), snd (coverage new)), mem_ty = mem_ty old\<rparr>"
    have o: "entry_ordered ?e" using 2(3) True by (auto simp: entry_ordered_def entry_start_def entry_end_def)
    have c: "entry_covers ty a ?e \<longleftrightarrow> entry_covers ty a old \<or> entry_covers ty a new"
      using 2(3) True by (auto simp: entry_covers_def entry_ordered_def entry_start_def entry_end_def)
    have "(\<exists>e \<in> set (merge_entries ?e rest). entry_covers ty a e) \<longleftrightarrow> (\<exists>e \<in> set (?e # rest). entry_covers ty a e)"
      by (rule 2(1) [OF True]) (use o 2(3) in simp)
    with True c show ?thesis by simp
  next
    case False
    have "(\<exists>e \<in> set (merge_entries new rest). entry_covers ty a e) \<longleftrightarrow> (\<exists>e \<in> set (new # rest). entry_covers ty a e)"
      by (rule 2(2) [OF False]) (use 2(3) in simp)
    moreover have "merge_entries old (new # rest) = old # merge_entries new rest"
      by (simp only: merge_entries.simps False if_False)
    ultimately show ?thesis by simp
  qed
qed simp

lemma merge_head: "\<exists>e es. merge_entries old rest = e # es \<and> mem_ty e = mem_ty old \<and> entry_start e = entry_start old"
proof (induction old rest rule: merge_entries.induct)
  case (2 old new rest)
  then show ?case
    by (cases "mem_ty old = mem_ty new \<and> snd (coverage old) = fst (coverage new)") (auto simp: entry_start_def)
qed simp

lemma merge_maximal: "successively (\<lambda>x y. \<not> mergeable x y) (merge_entries old rest)"
proof (induction old rest rule: merge_entries.induct)
  case (2 old new rest)
  show ?case
  proof (cases "mem_ty old = mem_ty new \<and> snd (coverage old) = fst (coverage new)")
    case True
    with 2(1) show ?thesis by simp
  next
    case False
    obtain e es where e: "merge_entries new rest = e # es" "mem_ty e = mem_ty new" "entry_start e = entry_start new"
      using merge_head by blast
    from False e(2,3) have "\<not> mergeable old e" by (simp add: mergeable_def entry_start_def entry_end_def)
    moreover have "merge_entries old (new # rest) = old # merge_entries new rest"
      by (simp only: merge_entries.simps False if_False)
    ultimately show ?thesis using 2(2) [OF False] e(1) by simp
  qed
qed simp

lemma merge_length: "length (merge_entries old rest) \<le> Suc (length rest)"
  by (induction old rest rule: merge_entries.induct) auto

lemma entry_of_covers:
  "entry_covers ty a (entry_of d) \<longleftrightarrow>
    handoff_type (desc_ty d) = ty \<and> phys_start d \<le> a \<and> a < phys_start d + page_count d * 4096"
  by (simp add: entry_covers_def entry_of_def entry_start_def entry_end_def)

lemma kernel_mem_map_exact:
  assumes "set (order ds) = set ds" and "length (order ds) < capacity" and "list_all descriptor_fits ds"
  shows "\<exists>es. kernel_mem_map order capacity ds = Some es \<and> successively (\<lambda>x y. \<not> mergeable x y) es \<and>
    length es \<le> length (order ds) \<and>
    (\<forall>ty a. (\<exists>e \<in> set es. entry_covers ty a e) \<longleftrightarrow> (\<exists>d \<in> set ds. entry_covers ty a (entry_of d)))"
proof -
  have fits: "list_all descriptor_fits (order ds)" using assms(1,3) by (simp add: list_all_iff)
  have run: "kernel_mem_map order capacity ds =
      Some (case map entry_of (order ds) of [] \<Rightarrow> [] | item # rest \<Rightarrow> merge_entries item rest)"
    using assms(2) entries_of_map [OF fits] by (simp add: kernel_mem_map_def rust_assert_def)
  show ?thesis
  proof (cases "order ds")
    case Nil
    with run assms(1) show ?thesis by simp
  next
    case (Cons d rest)
    have "list_all entry_ordered (map entry_of (order ds))"
      by (simp add: list_all_iff entry_ordered_def entry_of_def entry_start_def entry_end_def)
    with Cons merge_covers [of "entry_of d" "map entry_of rest"] have
      "(\<exists>e \<in> set (merge_entries (entry_of d) (map entry_of rest)). entry_covers ty a e) \<longleftrightarrow>
        (\<exists>e \<in> set (order ds). entry_covers ty a (entry_of e))" for ty a by simp
    moreover have "length (merge_entries (entry_of d) (map entry_of rest)) \<le> length (order ds)"
      using merge_length [of "entry_of d" "map entry_of rest"] Cons by simp
    moreover have "kernel_mem_map order capacity ds = Some (merge_entries (entry_of d) (map entry_of rest))"
      using run Cons by simp
    ultimately show ?thesis using merge_maximal unfolding assms(1) by auto
  qed
qed

section \<open>Properties\<close>

text \<open>C24. The memory map handed to the kernel says of every address exactly what the memory map of the
  firmware says: an address lies in an entry of some type if and only if it lies in a descriptor that
  the bootloader translates to this type. No two neighbouring entries could have been merged, and there
  are not more entries than descriptors. The call does not panic as long as the vector is large enough.\<close>

theorem boot_memory_map_exact:
  assumes "set (order ds) = set ds" and "length (order ds) < capacity" and "list_all descriptor_fits ds"
  shows "\<exists>es. kernel_mem_map order capacity ds = Some es \<and> successively (\<lambda>x y. \<not> mergeable x y) es \<and>
    length es \<le> length (order ds) \<and>
    (\<forall>ty a. (\<exists>e \<in> set es. entry_covers ty a e) \<longleftrightarrow>
      (\<exists>d \<in> set ds. handoff_type (desc_ty d) = ty \<and> phys_start d \<le> a \<and> a < phys_start d + page_count d * 4096))"
  using kernel_mem_map_exact [of order ds capacity, OF assms] unfolding entry_of_covers .

theorem boot_memory_map_exact_witness:
  "\<exists>es. kernel_mem_map rev 5 [\<lparr>desc_ty = LOADER_CODE, phys_start = 0x3000, page_count = 4\<rparr>,
      \<lparr>desc_ty = CONVENTIONAL, phys_start = 0x1000, page_count = 2\<rparr>] = Some es \<and>
    (\<exists>e \<in> set es. entry_covers MT_Free 0x2fff e) \<and> \<not> (\<exists>e \<in> set es. entry_covers MT_Free 0x3000 e)"
proof -
  let ?ds = "[\<lparr>desc_ty = LOADER_CODE, phys_start = 0x3000, page_count = 4\<rparr>,
      \<lparr>desc_ty = CONVENTIONAL, phys_start = 0x1000, page_count = 2\<rparr>]"
  have "list_all descriptor_fits ?ds" by (simp add: descriptor_fits_def)
  then obtain es where es: "kernel_mem_map rev 5 ?ds = Some es" and cov: "\<forall>ty a. (\<exists>e \<in> set es. entry_covers ty a e) \<longleftrightarrow>
      (\<exists>d \<in> set ?ds. handoff_type (desc_ty d) = ty \<and> phys_start d \<le> a \<and> a < phys_start d + page_count d * 4096)"
    using boot_memory_map_exact [of rev ?ds 5, OF set_rev] by auto
  have "\<exists>e \<in> set es. entry_covers MT_Free 0x2fff e" "\<not> (\<exists>e \<in> set es. entry_covers MT_Free 0x3000 e)"
    unfolding cov [rule_format] by (simp_all add: handoff_type_def)
  with es show ?thesis by blast
qed

text \<open>C23. The bootloader maps physical memory where the kernel looks for it. When the regions it
  maps are page aligned, do not overlap and lie below the limit, when nothing is mapped there yet and
  there is memory for the tables, the loop returns, and the page the kernel computes for a frame leads to
  this frame if it is in one of the regions and nowhere otherwise.\<close>

theorem direct_map_correct:
  assumes "page_source free room alloc" and "boot_tables table m (free s)"
    and "list_all region_ok (filter direct_mapped ds)" and "distinct (map frame_addr (direct_pages ds))"
    and "\<forall>a. a mod 4096 = 0 \<longrightarrow> a < 2 ^ 46 \<longrightarrow> boot_map table m (page_path (direct_page a)) = None"
    and "card (lacking table m (fst ` set (direct_pairs ds))) \<le> room s"
  shows "\<exists>m' s'. direct_map alloc table ds (m, s) = Some (m', s') \<and> boot_tables table m' (free s') \<and>
    (\<forall>a. a mod 4096 = 0 \<longrightarrow> a < 2 ^ 46 \<longrightarrow> (\<exists>page. frame_to_page (phys_frame a) = Some page \<and>
      boot_translate_page table page m' =
        Some (if a \<in> frame_addr ` set (direct_pages ds) then Some (phys_frame a) else None)))"
proof -
  note addr = direct_frame_addr [OF assms(3)]
  have "fst ` set (direct_pairs ds) \<inter> dom (boot_map table m) = {}"
    using assms(5) addr by (auto simp: page_pairs_def)
  then obtain m' s' where run: "direct_map alloc table ds (m, s) = Some (m', s')" "boot_tables table m' (free s')"
    "boot_map table m' = boot_map table m ++ map_of (direct_pairs ds)"
    using direct_map_run [OF assms(1-3)] distinct_direct_pairs [OF assms(3,4)] assms(6) by fastforce
  have "boot_map table m' (page_path (direct_page a)) =
      (if a \<in> frame_addr ` set (direct_pages ds) then Some (phys_frame a) else None)"
    if a: "a mod 4096 = 0" "a < 2 ^ 46" for a
  proof (cases "a \<in> frame_addr ` set (direct_pages ds)")
    case True
    then have "(page_path (direct_page a), phys_frame a) \<in> set (direct_pairs ds)" by (auto simp: page_pairs_def)
    with distinct_direct_pairs [OF assms(3,4)] True show ?thesis by (simp add: run(3) map_add_Some_iff)
  next
    case False
    have "page_path (direct_page a) \<notin> fst ` set (direct_pairs ds)"
    proof
      assume "page_path (direct_page a) \<in> fst ` set (direct_pairs ds)"
      then obtain x where x: "x \<in> set (direct_pages ds)" "page_path (direct_page a) = page_path (direct_page (frame_addr x))"
        by (auto simp: page_pairs_def)
      from x(2) direct_page_inject [OF a addr [OF x(1)]] have "a = frame_addr x" by simp
      with x(1) False show "False" by simp
    qed
    then have "map_of (direct_pairs ds) (page_path (direct_page a)) = None" by (simp add: map_of_eq_None_iff)
    with assms(5) a False show ?thesis by (simp add: run(3) map_add_def)
  qed
  with run(1,2) frame_to_direct_page boot_translate_map [OF run(2)] show ?thesis by auto
qed

text \<open>Four pages of free memory, and a firmware that has just those.\<close>

definition small_descriptors :: "MemoryDescriptor list" where
  "small_descriptors = [\<lparr>desc_ty = CONVENTIONAL, phys_start = 0x2000, page_count = 4\<rparr>]"

abbreviation small_table :: Frame where
  "small_table \<equiv> phys_frame 0x1000"

lemma small_pages: "map frame_addr (direct_pages small_descriptors) = [0x2000, 0x3000, 0x4000, 0x5000]"
proof -
  have "[0..<4 :: nat] = [0, 1, 2, 3]" by code_simp
  then show ?thesis by (simp add: small_descriptors_def direct_mapped_def descriptor_pages_def frame_addr_def)
qed

lemma small_paths: "fst ` set (direct_pairs small_descriptors) = {[256, 0, 0, 2], [256, 0, 0, 3], [256, 0, 0, 4], [256, 0, 0, 5]}"
proof -
  have "map fst (direct_pairs small_descriptors) = map (\<lambda>a. page_path (direct_page a)) (map frame_addr (direct_pages small_descriptors))"
    by (simp add: page_pairs_def comp_def)
  also have "\<dots> = [[256, 0, 0, 2], [256, 0, 0, 3], [256, 0, 0, 4], [256, 0, 0, 5]]"
    by (simp add: small_pages page_path_def index_div PAGE_MAP_OFFSET_def)
  finally have "set (map fst (direct_pairs small_descriptors)) = set [[256, 0, 0, 2], [256, 0, 0, 3], [256, 0, 0, 4], [256, 0, 0, 5]]"
    by simp
  then show ?thesis by simp
qed

lemma small_lacking: "card (lacking small_table m (fst ` set (direct_pairs small_descriptors))) \<le> bump_room 6 1"
proof -
  have "lacking small_table m (fst ` set (direct_pairs small_descriptors)) \<subseteq> {[256], [256, 0], [256, 0, 0]}"
  proof
    fix q assume "q \<in> lacking small_table m (fst ` set (direct_pairs small_descriptors))"
    then obtain p and k :: nat where pk: "p \<in> {[256, 0, 0, 2], [256, 0, 0, 3], [256, 0, 0, 4], [256, 0, 0, 5]}" "0 < k" "k \<le> 3"
      "q = take k p" unfolding small_paths lacking_def by blast
    from pk(2,3) have "k = 1 \<or> k = 2 \<or> k = 3" by linarith
    with pk(1,4) show "q \<in> {[256], [256, 0], [256, 0, 0]}" by auto
  qed
  then have "card (lacking small_table m (fst ` set (direct_pairs small_descriptors))) \<le> card {[256 :: nat], [256, 0], [256, 0, 0]}"
    by (rule card_mono [rotated]) simp
  then show ?thesis by (simp add: bump_room_def)
qed

lemma small_source: "page_source (bump_free 6) (bump_room 6) (bump 6)"
  by (rule page_source_bump) simp

lemma small_tables: "boot_tables small_table (\<lambda>t. boot_table_new) (bump_free 6 1)"
  "boot_map small_table (\<lambda>t. boot_table_new) = Map.empty"
  using fresh_root [of "\<lambda>t. boot_table_new" small_table "bump_free 6 1"] by (simp_all add: low_frame_def bump_free_def)

lemma small_regions: "list_all region_ok (filter direct_mapped small_descriptors)"
  by (simp add: small_descriptors_def direct_mapped_def region_ok_def)

theorem direct_map_correct_witness:
  "\<exists>m' s'. direct_map (bump 6) small_table small_descriptors (\<lambda>t. boot_table_new, 1) = Some (m', s') \<and>
    boot_tables small_table m' (bump_free 6 s') \<and>
    (\<forall>a. a mod 4096 = 0 \<longrightarrow> a < 2 ^ 46 \<longrightarrow> (\<exists>page. frame_to_page (phys_frame a) = Some page \<and>
      boot_translate_page small_table page m' =
        Some (if a \<in> frame_addr ` set (direct_pages small_descriptors) then Some (phys_frame a) else None)))"
  by (rule direct_map_correct [OF small_source small_tables(1) small_regions])
    (simp_all add: small_pages small_tables(2) small_lacking del: One_nat_def)



end
