(* ===== verification/Ranged_Map.thy ===== *)
theory Ranged_Map
  imports Prelude
begin

text \<open>
  \<open>RangedBTreeMap\<close> of \<open>ranged_btree/src/lib.rs\<close>: a map whose keys are half-open ranges. The B-tree is
  the list of its entries in key order; a search compares the wanted key with the stored keys from
  the left until one is not smaller, as the search in a node of the standard library does.

  On lists of non-empty ranges in order, the map is a finite map on points: the contract
  \<open>range_map\<close>, which the allocator of virtual memory relies on.
\<close>

section \<open>Keys\<close>

datatype order = Less | Equal | Greater

datatype 'a KeyType = Range 'a 'a | Point 'a

definition value_cmp :: "'a::linorder \<Rightarrow> 'a \<Rightarrow> order" where
  "value_cmp a b = (if a < b then Less else if a = b then Equal else Greater)"

fun reverse_order :: "order \<Rightarrow> order" where
  "reverse_order Less = Greater"
| "reverse_order Equal = Equal"
| "reverse_order Greater = Less"

definition point_range_cmp :: "'a::linorder \<Rightarrow> 'a \<Rightarrow> 'a \<Rightarrow> order" where
  "point_range_cmp a s e = (if s > a then Less else if e \<le> a then Greater else Equal)"

fun key_cmp :: "'a::linorder KeyType \<Rightarrow> 'a KeyType \<Rightarrow> order" where
  "key_cmp (Point a) (Point b) = value_cmp a b"
| "key_cmp (Point a) (Range s e) = point_range_cmp a s e"
| "key_cmp (Range s e) (Point a) = reverse_order (point_range_cmp a s e)"
| "key_cmp (Range s e) (Range s' e') = (if s \<ge> e' then Greater else if e \<le> s' then Less else Equal)"

section \<open>The map\<close>

type_synonym ('a, 'v) rmap = "('a KeyType \<times> 'v) list"

fun btree_get :: "'a::linorder KeyType \<Rightarrow> ('a, 'v) rmap \<Rightarrow> 'v option" where
  "btree_get k [] = None"
| "btree_get k ((k', v) # m) = (case key_cmp k k' of
     Greater \<Rightarrow> btree_get k m
   | Equal \<Rightarrow> Some v
   | Less \<Rightarrow> None)"

text \<open>\<open>try_insert\<close>: \<open>None\<close> when the key is occupied.\<close>

fun btree_try_insert :: "'a::linorder KeyType \<Rightarrow> 'v \<Rightarrow> ('a, 'v) rmap \<Rightarrow> ('a, 'v) rmap option" where
  "btree_try_insert k v [] = Some [(k, v)]"
| "btree_try_insert k v ((k', v') # m) = (case key_cmp k k' of
     Greater \<Rightarrow> map_option (\<lambda>m'. (k', v') # m') (btree_try_insert k v m)
   | Equal \<Rightarrow> None
   | Less \<Rightarrow> Some ((k, v) # (k', v') # m))"

fun btree_remove :: "'a::linorder KeyType \<Rightarrow> ('a, 'v) rmap \<Rightarrow> 'v option \<times> ('a, 'v) rmap" where
  "btree_remove k [] = (None, [])"
| "btree_remove k ((k', v) # m) = (case key_cmp k k' of
     Greater \<Rightarrow> (let (r, m') = btree_remove k m in (r, (k', v) # m'))
   | Equal \<Rightarrow> (Some v, m)
   | Less \<Rightarrow> (None, (k', v) # m))"

definition rm_new :: "('a, 'v) rmap" where
  "rm_new = []"

definition rm_insert :: "'a::linorder \<times> 'a \<Rightarrow> 'v \<Rightarrow> ('a, 'v) rmap \<Rightarrow> (unit, ('a, 'v) rmap) result" where
  "rm_insert rng v m = (case btree_try_insert (Range (fst rng) (snd rng)) v m of
     None \<Rightarrow> Inl ()
   | Some m' \<Rightarrow> Inr m')"

definition get_entry_at_point :: "'a::linorder \<Rightarrow> ('a, 'v) rmap \<Rightarrow> 'v option" where
  "get_entry_at_point point m = btree_get (Point point) m"

text \<open>The ends of a stored key; a stored point is unreachable code.\<close>

fun key_range :: "'a KeyType \<Rightarrow> ('a \<times> 'a) rust" where
  "key_range (Range s e) = Some (s, e)"
| "key_range (Point a) = None"

fun used_regions :: "('a, 'v) rmap \<Rightarrow> ('a \<times> 'a) list rust" where
  "used_regions [] = Some []"
| "used_regions ((k, v) # m) = do { r \<leftarrow> key_range k; rs \<leftarrow> used_regions m; Some (r # rs) }"

definition first_key :: "('a, 'v) rmap \<Rightarrow> 'a option rust" where
  "first_key m = (case m of [] \<Rightarrow> Some None | (k, v) # _ \<Rightarrow> do { r \<leftarrow> key_range k; Some (Some (fst r)) })"

definition last_key :: "('a, 'v) rmap \<Rightarrow> 'a option rust" where
  "last_key m = (if m = [] then Some None else do { r \<leftarrow> key_range (fst (last m)); Some (Some (snd r)) })"

definition rm_remove :: "'a::linorder \<Rightarrow> ('a, 'v) rmap \<Rightarrow> 'v option \<times> ('a, 'v) rmap" where
  "rm_remove point m = btree_remove (Point point) m"

section \<open>The contract\<close>

text \<open>The value at a point, and the entries as ranges.\<close>

definition entries :: "('a, 'v) rmap \<Rightarrow> ('a \<times> 'a \<times> 'v) set" where
  "entries m = {(s, e, v). (Range s e, v) \<in> set m}"

fun before :: "'a::linorder KeyType \<times> 'v \<Rightarrow> 'a KeyType \<times> 'v \<Rightarrow> bool" where
  "before (Range s e, v) (Range s' e', v') = (e \<le> s')"
| "before _ _ = False"

fun proper :: "'a::linorder KeyType \<times> 'v \<Rightarrow> bool" where
  "proper (Range s e, v) = (s < e)"
| "proper _ = False"

definition rm_ok :: "('a::linorder, 'v) rmap \<Rightarrow> bool" where
  "rm_ok m \<longleftrightarrow> list_all proper m \<and> sorted_wrt before m"

text \<open>Two ranges are apart.\<close>

definition apart :: "'a::linorder \<Rightarrow> 'a \<Rightarrow> 'a \<Rightarrow> 'a \<Rightarrow> bool" where
  "apart s e s' e' \<longleftrightarrow> e \<le> s' \<or> e' \<le> s"

text \<open>A range is clear of a set of entries.\<close>

definition clear_of :: "('a::linorder \<times> 'a \<times> 'v) set \<Rightarrow> 'a \<Rightarrow> 'a \<Rightarrow> bool" where
  "clear_of E s e \<longleftrightarrow> (\<forall>(s', e', v') \<in> E. apart s e s' e')"

text \<open>What a client relies on. The entries are a set of ranges with values; the operations insert and
  remove one of them.\<close>

locale range_map =
  fixes ok :: "'m \<Rightarrow> bool"
    and ents :: "'m \<Rightarrow> ('a::linorder \<times> 'a \<times> 'v) set"
    and ins :: "'a \<times> 'a \<Rightarrow> 'v \<Rightarrow> 'm \<Rightarrow> (unit, 'm) result"
    and rem :: "'a \<Rightarrow> 'm \<Rightarrow> 'v option \<times> 'm"
    and fst_key :: "'m \<Rightarrow> 'a option rust"
    and lst_key :: "'m \<Rightarrow> 'a option rust"
  assumes ents_proper: "ok m \<Longrightarrow> (s, e, v) \<in> ents m \<Longrightarrow> s < e"
    and ents_apart: "ok m \<Longrightarrow> (s, e, v) \<in> ents m \<Longrightarrow> (s', e', v') \<in> ents m \<Longrightarrow>
      (s, e, v) = (s', e', v') \<or> apart s e s' e'"
    and ins_free: "ok m \<Longrightarrow> s < e \<Longrightarrow> clear_of (ents m) s e \<Longrightarrow>
      \<exists>m'. ins (s, e) v m = Inr m' \<and> ok m' \<and> ents m' = insert (s, e, v) (ents m)"
    and ins_used: "ok m \<Longrightarrow> s < e \<Longrightarrow> \<not> clear_of (ents m) s e \<Longrightarrow>
      ins (s, e) v m = Inl ()"
    and rem_used: "ok m \<Longrightarrow> (s, e, v) \<in> ents m \<Longrightarrow> s \<le> p \<Longrightarrow> p < e \<Longrightarrow>
      \<exists>m'. rem p m = (Some v, m') \<and> ok m' \<and> ents m' = ents m - {(s, e, v)}"
    and rem_free: "ok m \<Longrightarrow> (\<And>s e v. (s, e, v) \<in> ents m \<Longrightarrow> \<not> (s \<le> p \<and> p < e)) \<Longrightarrow> rem p m = (None, m)"
    and fst_least: "ok m \<Longrightarrow> ents m \<noteq> {} \<Longrightarrow>
      \<exists>s0 e0 v0. fst_key m = Some (Some s0) \<and> (s0, e0, v0) \<in> ents m \<and> (\<forall>(s, e, v) \<in> ents m. s0 \<le> s)"
    and lst_greatest: "ok m \<Longrightarrow> ents m \<noteq> {} \<Longrightarrow>
      \<exists>s0 e0 v0. lst_key m = Some (Some e0) \<and> (s0, e0, v0) \<in> ents m \<and> (\<forall>(s, e, v) \<in> ents m. e \<le> e0)"
    and empty_keys: "ok m \<Longrightarrow> ents m = {} \<Longrightarrow> fst_key m = Some None \<and> lst_key m = Some None"
begin

text \<open>An insertion succeeds exactly when the range is clear.\<close>

lemma ins_succeeds_iff:
  assumes "ok m" and "s < e"
  shows "(\<exists>m'. ins (s, e) v m = Inr m') \<longleftrightarrow> clear_of (ents m) s e"
  using ins_free [OF assms] ins_used [OF assms] by fastforce

text \<open>Removing what was inserted restores the entries.\<close>

lemma ins_rem:
  assumes "ok m" and "s < e" and "clear_of (ents m) s e" and "ins (s, e) v m = Inr m'"
  shows "\<exists>m''. rem s m' = (Some v, m'') \<and> ok m'' \<and> ents m'' = ents m"
proof -
  from ins_free [OF assms(1-3), of v] assms(4) have m': "ok m'" "ents m' = insert (s, e, v) (ents m)" by auto
  moreover have "(s, e, v) \<notin> ents m" using assms(2,3) by (auto simp: clear_of_def apart_def)
  ultimately show ?thesis using rem_used [of m' s e v s] assms(2) by auto
qed

text \<open>What the ends of the used part leave clear.\<close>

lemma first_none:
  assumes "ok m" and "fst_key m = Some None"
  shows "ents m = {}"
  using fst_least [OF assms(1)] assms(2) by fastforce

lemma first_some:
  assumes "ok m" and "fst_key m = Some (Some f)"
  shows "\<exists>e v. (f, e, v) \<in> ents m" and "(s, e, v) \<in> ents m \<Longrightarrow> f \<le> s" and "e' \<le> f \<Longrightarrow> clear_of (ents m) s' e'"
proof -
  have "ents m \<noteq> {}" using empty_keys [OF assms(1)] assms(2) by auto
  note f = fst_least [OF assms(1) this]
  from f assms(2) show "\<exists>e v. (f, e, v) \<in> ents m" by auto
  from f assms(2) show "(s, e, v) \<in> ents m \<Longrightarrow> f \<le> s" by auto
  from f assms(2) show "clear_of (ents m) s' e'" if "e' \<le> f"
    using that by (auto simp: clear_of_def apart_def intro: order_trans)
qed

lemma last_some:
  assumes "ok m" and "fst_key m \<noteq> Some None"
  obtains l s v where "lst_key m = Some (Some l)" and "(s, l, v) \<in> ents m"
    and "\<And>s' e' v'. (s', e', v') \<in> ents m \<Longrightarrow> e' \<le> l" and "\<And>s' e'. l \<le> s' \<Longrightarrow> clear_of (ents m) s' e'"
proof -
  have "ents m \<noteq> {}" using empty_keys [OF assms(1)] assms(2) by auto
  from lst_greatest [OF assms(1) this] obtain s l v where "lst_key m = Some (Some l)" "(s, l, v) \<in> ents m"
    and le: "\<forall>(s, e, v) \<in> ents m. e \<le> l" by blast
  moreover have "clear_of (ents m) s' e'" if "l \<le> s'" for s' e'
    using le that by (auto simp: clear_of_def apart_def intro: order_trans)
  ultimately show thesis using that [of l s v] le by blast
qed

end

section \<open>The map keeps the contract\<close>

lemma entries_simps [simp]:
  "entries [] = {}" "entries ((Range s e, v) # m) = insert (s, e, v) (entries m)"
  by (auto simp: entries_def)

lemma rm_okE:
  assumes "rm_ok (x # m)"
  obtains s e v where "x = (Range s e, v)" and "s < e" and "rm_ok m"
    and "\<And>s' e' v'. (s', e', v') \<in> entries m \<Longrightarrow> e \<le> s'"
proof -
  obtain k v where x: "x = (k, v)" by (cases x)
  with assms obtain s e where k: "k = Range s e" by (cases k) (auto simp: rm_ok_def)
  have "e \<le> s'" if "(s', e', v') \<in> entries m" for s' e' v'
    using assms that by (auto simp: rm_ok_def entries_def x k)
  with assms that x k show ?thesis by (auto simp: rm_ok_def)
qed

lemma rm_okI:
  assumes "s < e" and "rm_ok m" and "\<And>s' e' v'. (s', e', v') \<in> entries m \<Longrightarrow> e \<le> s'"
  shows "rm_ok ((Range s e, v) # m)"
proof -
  have "before (Range s e, v) y" if y: "y \<in> set m" for y
  proof -
    obtain k w where k: "y = (k, w)" by (cases y)
    from y assms(2) have "proper y" by (auto simp: rm_ok_def list_all_iff)
    with k obtain s' e' where "k = Range s' e'" by (cases k) auto
    with y k assms(3) [of s' e' w] show ?thesis by (simp add: entries_def)
  qed
  with assms(1,2) show ?thesis by (simp add: rm_ok_def)
qed

lemma rm_ok_Nil [simp]: "rm_ok []"
  by (simp add: rm_ok_def)

lemma entries_proper: "rm_ok m \<Longrightarrow> (s, e, v) \<in> entries m \<Longrightarrow> s < e"
  by (auto simp: rm_ok_def entries_def list_all_iff)

lemma entries_apart:
  assumes "rm_ok m" and "(s, e, v) \<in> entries m" and "(s', e', v') \<in> entries m"
  shows "(s, e, v) = (s', e', v') \<or> apart s e s' e'"
  using assms
proof (induction m)
  case (Cons x m)
  from Cons.prems(1) show ?case by (rule rm_okE) (use Cons in \<open>auto simp: apart_def\<close>)
qed simp

lemma insert_free:
  assumes "rm_ok m" and "s < e" and "clear_of (entries m) s e"
  shows "\<exists>m'. btree_try_insert (Range s e) v m = Some m' \<and> rm_ok m' \<and> entries m' = insert (s, e, v) (entries m)"
  using assms(1,3)
proof (induction m)
  case Nil
  then show ?case using assms(2) by (auto intro: rm_okI)
next
  case (Cons x m)
  from Cons.prems(1) obtain s0 e0 v0 where x: "x = (Range s0 e0, v0)" and p: "s0 < e0" and m: "rm_ok m"
    and le: "\<And>s' e' v'. (s', e', v') \<in> entries m \<Longrightarrow> e0 \<le> s'" by (rule rm_okE) blast
  from Cons.prems(2) x have ap: "apart s e s0 e0" and cl: "clear_of (entries m) s e" by (auto simp: clear_of_def)
  show ?case
  proof (cases "e0 \<le> s")
    case True
    from Cons.IH [OF m cl] obtain m' where
      m': "btree_try_insert (Range s e) v m = Some m'" "rm_ok m'" "entries m' = insert (s, e, v) (entries m)" by auto
    then have "rm_ok ((Range s0 e0, v0) # m')" using True p le by (intro rm_okI) auto
    with m' True x show ?thesis by auto
  next
    case False
    with ap have e: "e \<le> s0" by (simp add: apart_def)
    have "rm_ok ((Range s e, v) # x # m)"
    proof (rule rm_okI)
      fix s' e' v' assume "(s', e', v') \<in> entries (x # m)"
      with e p le x show "e \<le> s'" by auto force
    qed (use Cons.prems(1) assms(2) in auto)
    with False e x show ?thesis by auto
  qed
qed

lemma insert_used:
  assumes "rm_ok m" and "s < e" and "(s', e', v') \<in> entries m" and "\<not> apart s e s' e'"
  shows "btree_try_insert (Range s e) v m = None"
  using assms(1,3)
proof (induction m)
  case (Cons x m)
  from Cons.prems(1) obtain s0 e0 v0 where x: "x = (Range s0 e0, v0)" and p: "s0 < e0" and m: "rm_ok m"
    and le: "\<And>s' e' v'. (s', e', v') \<in> entries m \<Longrightarrow> e0 \<le> s'" by (rule rm_okE) blast
  show ?case
  proof (cases "(s', e', v') \<in> entries m")
    case True
    from le [OF this] assms(4) p have "\<not> e \<le> s0" by (auto simp: apart_def)
    with Cons.IH [OF m True] x show ?thesis by simp
  next
    case False
    with Cons.prems(2) x assms(4) show ?thesis by (auto simp: apart_def)
  qed
qed simp

lemma remove_used:
  assumes "rm_ok m" and "(s, e, v) \<in> entries m" and "s \<le> p" and "p < e"
  shows "\<exists>m'. btree_remove (Point p) m = (Some v, m') \<and> rm_ok m' \<and> entries m' = entries m - {(s, e, v)}"
  using assms(1,2)
proof (induction m)
  case (Cons x m)
  from Cons.prems(1) obtain s0 e0 v0 where x: "x = (Range s0 e0, v0)" and q: "s0 < e0" and m: "rm_ok m"
    and le: "\<And>s' e' v'. (s', e', v') \<in> entries m \<Longrightarrow> e0 \<le> s'" by (rule rm_okE) blast
  show ?case
  proof (cases "(s, e, v) \<in> entries m")
    case True
    from le [OF this] assms(3) have e0: "e0 \<le> p" by simp
    from Cons.IH [OF m True] obtain m' where
      m': "btree_remove (Point p) m = (Some v, m')" "rm_ok m'" "entries m' = entries m - {(s, e, v)}" by blast
    have "rm_ok ((Range s0 e0, v0) # m')" using q m'(2) by (rule rm_okI) (use m'(3) le in blast)
    moreover have "(s, e, v) \<noteq> (s0, e0, v0)" using e0 assms(4) by auto
    then have "entries ((Range s0 e0, v0) # m') = entries (x # m) - {(s, e, v)}"
      using \<open>(s, e, v) \<noteq> (s0, e0, v0)\<close> by (simp only: m'(3) x entries_simps) blast
    moreover have "btree_remove (Point p) (x # m) = (Some v, (Range s0 e0, v0) # m')"
      using m'(1) e0 q x by (simp add: point_range_cmp_def)
    ultimately show ?thesis by blast
  next
    case False
    with Cons.prems(2) x have x': "x = (Range s e, v)" by auto
    then have "btree_remove (Point p) (x # m) = (Some v, m)" 
      using leD [OF assms(3)] assms(4) by (simp add: point_range_cmp_def linorder_not_le [symmetric])
    moreover have "entries m = entries (x # m) - {(s, e, v)}" using False x' by auto
    ultimately show ?thesis using m by blast
  qed
qed simp

lemma remove_free:
  assumes "rm_ok m" and "\<And>s e v. (s, e, v) \<in> entries m \<Longrightarrow> \<not> (s \<le> p \<and> p < e)"
  shows "btree_remove (Point p) m = (None, m)"
  using assms
proof (induction m)
  case (Cons x m)
  from Cons.prems(1) obtain s0 e0 v0 where x: "x = (Range s0 e0, v0)" and m: "rm_ok m" by (rule rm_okE) blast
  have "btree_remove (Point p) m = (None, m)" 
    by (rule Cons.IH [OF m]) (rule Cons.prems(2) [of _ _ v for v], auto simp: x)
  moreover have "\<not> (s0 \<le> p \<and> p < e0)" using Cons.prems(2) [of s0 e0 v0] x by simp
  ultimately show ?case using x by (auto simp: point_range_cmp_def not_less)
qed simp

lemma get_entry:
  assumes "rm_ok m"
  shows "get_entry_at_point p m = Some v \<longleftrightarrow> (\<exists>s e. (s, e, v) \<in> entries m \<and> s \<le> p \<and> p < e)"
  using assms unfolding get_entry_at_point_def
proof (induction m)
  case (Cons x m)
  from Cons.prems obtain s0 e0 v0 where x: "x = (Range s0 e0, v0)" and q: "s0 < e0" and m: "rm_ok m"
    and le: "\<And>s' e' v'. (s', e', v') \<in> entries m \<Longrightarrow> e0 \<le> s'" by (rule rm_okE) blast
  have "\<not> s \<le> p" if "(s, e, v) \<in> entries m" "p < e0" for s e
    using le [OF that(1)] that(2) by auto
  with Cons.IH [OF m] x q show ?case by (auto simp: point_range_cmp_def not_less not_le) (meson not_le)+
qed simp

lemma first_key_least:
  assumes "rm_ok m" and "entries m \<noteq> {}"
  shows "\<exists>s0 e0 v0. first_key m = Some (Some s0) \<and> (s0, e0, v0) \<in> entries m \<and> (\<forall>(s, e, v) \<in> entries m. s0 \<le> s)"
proof (cases m)
  case (Cons x m')
  from assms(1) [unfolded Cons] show ?thesis
    by (rule rm_okE) (force simp: Cons first_key_def)
qed (use assms in simp)

lemma last_key_greatest:
  assumes "rm_ok m" and "entries m \<noteq> {}"
  shows "\<exists>s0 e0 v0. last_key m = Some (Some e0) \<and> (s0, e0, v0) \<in> entries m \<and> (\<forall>(s, e, v) \<in> entries m. e \<le> e0)"
  using assms
proof (induction m)
  case (Cons x m)
  from Cons.prems(1) obtain s1 e1 v1 where x: "x = (Range s1 e1, v1)" and q: "s1 < e1" and m: "rm_ok m"
    and le: "\<And>s' e' v'. (s', e', v') \<in> entries m \<Longrightarrow> e1 \<le> s'" by (rule rm_okE) blast
  show ?case
  proof (cases "m = []")
    case True
    then show ?thesis by (simp add: last_key_def x)
  next
    case False
    then have "entries m \<noteq> {}" using m by (cases m) (auto elim: rm_okE)
    from Cons.IH [OF m this] obtain s0 e0 v0 where
      l: "last_key m = Some (Some e0)" "(s0, e0, v0) \<in> entries m" "\<forall>(s, e, v) \<in> entries m. e \<le> e0" by auto
    moreover have "e1 \<le> e0" using le [OF l(2)] entries_proper [OF m l(2)] by simp
    ultimately show ?thesis using False x by (intro exI [of _ s0] exI [of _ e0] exI [of _ v0]) (auto simp: last_key_def)
  qed
qed simp

lemma entries_empty: "rm_ok m \<Longrightarrow> entries m = {} \<Longrightarrow> m = []"
  by (cases m) (auto elim: rm_okE)

interpretation rm: range_map rm_ok entries rm_insert rm_remove first_key last_key
proof
  fix m :: "('a, 'v) rmap" and s e :: 'a and v
  assume m: "rm_ok m"
  show "\<exists>m'. rm_insert (s, e) v m = Inr m' \<and> rm_ok m' \<and> entries m' = insert (s, e, v) (entries m)"
    if "s < e" "clear_of (entries m) s e"
    using insert_free [OF m that, of v] by (auto simp: rm_insert_def)
  show "rm_insert (s, e) v m = Inl ()" if "s < e" "\<not> clear_of (entries m) s e"
    using insert_used [OF m that(1), of _ _ _ v] that(2) by (auto simp: rm_insert_def clear_of_def)
  show "rm_remove p m = (None, m)" if "\<And>s e v. (s, e, v) \<in> entries m \<Longrightarrow> \<not> (s \<le> p \<and> p < e)" for p
    using remove_free [OF m, of p] that by (auto simp: rm_remove_def)
  show "(s, e, v) = (s', e', v') \<or> apart s e s' e'" if "(s, e, v) \<in> entries m" "(s', e', v') \<in> entries m" for s' e' v'
    by (rule entries_apart [OF m that])
  show "first_key m = Some None \<and> last_key m = Some None" if "entries m = {}"
    using entries_empty [OF m that] by (simp add: first_key_def last_key_def)
qed (use first_key_least last_key_greatest in \<open>simp_all add: rm_remove_def remove_used entries_proper\<close>)

end
