(* ===== verification/Virtual_Allocator.thy ===== *)
theory Virtual_Allocator
  imports Ranged_Map Backing_Allocator
begin

text \<open>
  Allocators of virtual memory: \<open>RangedBtreeAllocator\<close> of \<open>ranged_btree_allocator/src/lib.rs\<close>, the
  bootstrap allocator of \<open>kernel/src/memory/virtual.rs\<close>, and the owned pages of
  \<open>kernel_api/src/memory/virtual.rs\<close>. The contract \<open>page_pool\<close> is what a mapping relies on; it is
  shown of the first allocator, as a client of the contract of the range map.
\<close>

declare distrib_right_numeral [simp del]

type_synonym page_result = "(AllocError, Page) result"
type_synonym 'v page_allocate_fn = "usize \<Rightarrow> 'v \<Rightarrow> (page_result \<times> 'v) rust"

section \<open>The allocator on a range map\<close>

record Meta =
  meta_len :: usize

record RangedBtreeAllocator =
  vma_range :: "Page \<times> Page"
  vma_map :: "(Page, Meta) rmap"

definition vma_new :: "Page \<times> Page \<Rightarrow> RangedBtreeAllocator" where
  "vma_new r = \<lparr>vma_range = r, vma_map = rm_new\<rparr>"

text \<open>The body of the loop of \<open>add_allocations\<close>: the length recorded is that of the intersection with
  the range of the allocator, the key is the allocation itself; a failed insertion is ignored.\<close>

definition vma_add_allocation :: "Page \<times> Page \<Rightarrow> RangedBtreeAllocator \<Rightarrow> RangedBtreeAllocator rust" where
  "vma_add_allocation allocation self = (
     let s = max (fst allocation) (fst (vma_range self));
         e = min (snd allocation) (snd (vma_range self))
     in if s < e then do {
          n \<leftarrow> page_diff e s;
          Some (case rm_insert allocation \<lparr>meta_len = n\<rparr> (vma_map self) of
            Inl u \<Rightarrow> self
          | Inr m \<Rightarrow> self\<lparr>vma_map := m\<rparr>) }
        else Some self)"

definition vma_add_allocations :: "(Page \<times> Page) list \<Rightarrow> RangedBtreeAllocator \<Rightarrow> RangedBtreeAllocator rust" where
  "vma_add_allocations allocations self = for_each vma_add_allocation allocations self"

text \<open>The insertion both branches of \<open>allocate_contiguous\<close> end in.\<close>

definition vma_take :: "Page \<Rightarrow> usize \<Rightarrow> RangedBtreeAllocator \<Rightarrow> (page_result \<times> RangedBtreeAllocator) rust" where
  "vma_take at len self = do {
     e \<leftarrow> page_add at len;
     m \<leftarrow> expect_ok (rm_insert (at, e) \<lparr>meta_len = len\<rparr> (vma_map self));
     Some (Inr at, self\<lparr>vma_map := m\<rparr>) }"

definition vma_allocate_contiguous :: "RangedBtreeAllocator page_allocate_fn" where
  "vma_allocate_contiguous len self = do {
     first \<leftarrow> first_key (vma_map self);
     case first of
       None \<Rightarrow> vma_take (fst (vma_range self)) len self
     | Some f \<Rightarrow> do {
         gap \<leftarrow> page_diff f (fst (vma_range self));
         if len \<le> gap then vma_take (fst (vma_range self)) len self
         else do {
           last \<leftarrow> last_key (vma_map self);
           last_used \<leftarrow> last;
           rest \<leftarrow> page_diff (snd (vma_range self)) last_used;
           if len \<le> rest then vma_take last_used len self else None } } }"

definition vma_allocate_contiguous_at ::
  "Page \<Rightarrow> usize \<Rightarrow> RangedBtreeAllocator \<Rightarrow> (page_result \<times> RangedBtreeAllocator) rust" where
  "vma_allocate_contiguous_at at len self = do {
     e \<leftarrow> page_add at len;
     Some (case rm_insert (at, e) \<lparr>meta_len = len\<rparr> (vma_map self) of
       Inr m \<Rightarrow> (Inr at, self\<lparr>vma_map := m\<rparr>)
     | Inl u \<Rightarrow> (Inl AllocError, self)) }"

definition vma_deallocate_contiguous :: "Page \<Rightarrow> usize \<Rightarrow> RangedBtreeAllocator \<Rightarrow> RangedBtreeAllocator rust" where
  "vma_deallocate_contiguous b len self = (
     case rm_remove b (vma_map self) of
       (Some meta, m) \<Rightarrow> do { rust_assert (meta_len meta = len); Some (self\<lparr>vma_map := m\<rparr>) }
     | (None, m) \<Rightarrow> None)"

section \<open>The contract\<close>

definition pages_of :: "Page \<Rightarrow> usize \<Rightarrow> nat set" where
  "pages_of p n = {pgaddr p div 4096 ..< pgaddr p div 4096 + n}"

text \<open>The live allocations are pairs of a page number and a length; \<open>space\<close> is the part of the address
  space the allocator answers for. A request for more than the whole space is not covered.\<close>

locale page_pool =
  fixes vinv :: "'v \<Rightarrow> bool"
    and space :: "'v \<Rightarrow> nat set"
    and allocs :: "'v \<Rightarrow> (nat \<times> nat) set"
    and valloc :: "'v page_allocate_fn"
    and vdealloc :: "Page \<Rightarrow> usize \<Rightarrow> 'v \<Rightarrow> 'v rust"
  assumes valloc_ok:
    "vinv v \<Longrightarrow> 0 < n \<Longrightarrow> n \<le> card (space v) \<Longrightarrow> valloc n v = Some (Inr p, v') \<Longrightarrow>
      vinv v' \<and> space v' = space v \<and> pgaddr p mod 4096 = 0 \<and> pages_of p n \<subseteq> space v \<and>
      allocs v' = insert (pgaddr p div 4096, n) (allocs v) \<and>
      (\<forall>(b, k) \<in> allocs v. {b..<b + k} \<inter> pages_of p n = {})"
    and valloc_err: "vinv v \<Longrightarrow> 0 < n \<Longrightarrow> valloc n v = Some (Inl e, v') \<Longrightarrow> v' = v"
    and vdealloc_ok:
      "vinv v \<Longrightarrow> (b, n) \<in> allocs v \<Longrightarrow>
        \<exists>v'. vdealloc (page_at b) n v = Some v' \<and> vinv v' \<and> space v' = space v \<and>
          allocs v' = allocs v - {(b, n)}"
    and allocs_space: "vinv v \<Longrightarrow> (b, n) \<in> allocs v \<Longrightarrow> 0 < n \<and> {b..<b + n} \<subseteq> space v"
    and allocs_disjoint:
      "vinv v \<Longrightarrow> (b, n) \<in> allocs v \<Longrightarrow> (c, k) \<in> allocs v \<Longrightarrow> (b, n) = (c, k) \<or> {b..<b + n} \<inter> {c..<c + k} = {}"
    and space_bound: "vinv v \<Longrightarrow> i \<in> space v \<Longrightarrow> Suc i * 4096 < USIZE_BOUND"
begin

text \<open>The pages in use.\<close>

lemma taken_space: "vinv v \<Longrightarrow> (\<Union>(b, n) \<in> allocs v. {b..<b + n}) \<subseteq> space v"
  using allocs_space by fastforce

text \<open>Returning an allocation restores the allocations.\<close>

lemma valloc_vdealloc:
  assumes "vinv v" and "0 < n" and "n \<le> card (space v)" and "valloc n v = Some (Inr p, v')"
  shows "\<exists>v''. vdealloc p n v' = Some v'' \<and> vinv v'' \<and> space v'' = space v \<and> allocs v'' = allocs v"
proof -
  note ok = valloc_ok [OF assms]
  then have p: "p = page_at (pgaddr p div 4096)" by (cases p; cases "page_base p") auto
  have "(pgaddr p div 4096, n) \<notin> allocs v"
    using ok assms(2) by (fastforce simp: pages_of_def)
  with vdealloc_ok [of v' "pgaddr p div 4096" n] ok p show ?thesis by auto
qed

end

section \<open>The allocator keeps the contract\<close>

definition vma_space :: "RangedBtreeAllocator \<Rightarrow> nat set" where
  "vma_space v = {pgaddr (fst (vma_range v)) div 4096 ..< pgaddr (snd (vma_range v)) div 4096}"

definition vma_entry :: "nat \<Rightarrow> nat \<Rightarrow> Page \<times> Page \<times> Meta \<Rightarrow> bool" where
  "vma_entry a b x \<longleftrightarrow> (\<exists>i n. x = (page_at i, page_at (i + n), \<lparr>meta_len = n\<rparr>) \<and> a \<le> i \<and> i + n \<le> b)"

definition vma_inv :: "RangedBtreeAllocator \<Rightarrow> bool" where
  "vma_inv v \<longleftrightarrow> (\<exists>a b. vma_range v = (page_at a, page_at b) \<and> b * 4096 < USIZE_BOUND \<and>
     rm_ok (vma_map v) \<and> Ball (entries (vma_map v)) (vma_entry a b))"

definition vma_allocs :: "RangedBtreeAllocator \<Rightarrow> (nat \<times> nat) set" where
  "vma_allocs v = {(i, n). (page_at i, page_at (i + n), \<lparr>meta_len = n\<rparr>) \<in> entries (vma_map v)}"

lemma vma_invE:
  assumes "vma_inv v"
  obtains a b where "vma_range v = (page_at a, page_at b)" and "b * 4096 < USIZE_BOUND" and "rm_ok (vma_map v)"
    and "\<And>x. x \<in> entries (vma_map v) \<Longrightarrow> vma_entry a b x"
  using assms by (auto simp: vma_inv_def)

lemma apart_pages [simp]:
  "apart (page_at i) (page_at j) (page_at k) (page_at l) \<longleftrightarrow> j \<le> k \<or> l \<le> i"
  by (simp add: apart_def)

lemma vma_clear_iff:
  assumes "vma_inv v"
  shows "clear_of (entries (vma_map v)) (page_at i) (page_at j) \<longleftrightarrow> (\<forall>(c, k) \<in> vma_allocs v. j \<le> c \<or> c + k \<le> i)"
proof -
  from assms obtain a b where en: "\<And>x. x \<in> entries (vma_map v) \<Longrightarrow> vma_entry a b x" by (rule vma_invE) blast
  show ?thesis
  proof
    assume "clear_of (entries (vma_map v)) (page_at i) (page_at j)"
    then show "\<forall>(c, k) \<in> vma_allocs v. j \<le> c \<or> c + k \<le> i"
      by (auto simp: clear_of_def vma_allocs_def dest!: bspec)
  next
    assume c: "\<forall>(c, k) \<in> vma_allocs v. j \<le> c \<or> c + k \<le> i"
    have "apart (page_at i) (page_at j) s t" if x: "(s, t, w) \<in> entries (vma_map v)" for s t w
    proof -
      from en [OF x] obtain c k where "s = page_at c" "t = page_at (c + k)" "(c, k) \<in> vma_allocs v"
        using x by (auto simp: vma_entry_def vma_allocs_def)
      with c show ?thesis by auto
    qed
    then show "clear_of (entries (vma_map v)) (page_at i) (page_at j)" by (auto simp: clear_of_def)
  qed
qed

lemma page_add_at: "(i + n) * 4096 < USIZE_BOUND \<Longrightarrow> page_add (page_at i) n = Some (page_at (i + n))"
  by (simp add: page_add_eq_Some distrib_right)

text \<open>Entering a clear range, and taking it.\<close>

lemma vma_insert_clear:
  assumes v: "vma_inv v" and n: "0 < n" and r: "vma_range v = (page_at a, page_at b)"
    and i: "a \<le> i" "i + n \<le> b" and clear: "clear_of (entries (vma_map v)) (page_at i) (page_at (i + n))"
  obtains m' where "rm_insert (page_at i, page_at (i + n)) \<lparr>meta_len = n\<rparr> (vma_map v) = Inr m'"
    and "vma_inv (v\<lparr>vma_map := m'\<rparr>)" and "vma_allocs (v\<lparr>vma_map := m'\<rparr>) = insert (i, n) (vma_allocs v)"
proof -
  from v r have b: "b * 4096 < USIZE_BOUND" and m: "rm_ok (vma_map v)"
    and en: "\<And>x. x \<in> entries (vma_map v) \<Longrightarrow> vma_entry a b x" by (auto simp: vma_inv_def)
  from rm.ins_free [OF m _ clear, of "\<lparr>meta_len = n\<rparr>"] n obtain m' where
    ins: "rm_insert (page_at i, page_at (i + n)) \<lparr>meta_len = n\<rparr> (vma_map v) = Inr m'" and m': "rm_ok m'"
    and ents: "entries m' = insert (page_at i, page_at (i + n), \<lparr>meta_len = n\<rparr>) (entries (vma_map v))" by auto
  have "vma_inv (v\<lparr>vma_map := m'\<rparr>)"
    using b r m' en i by (auto simp: vma_inv_def ents) (auto simp: vma_entry_def)
  moreover have "vma_allocs (v\<lparr>vma_map := m'\<rparr>) = insert (i, n) (vma_allocs v)"
    by (auto simp: vma_allocs_def ents)
  ultimately show thesis using ins that by blast
qed

lemma vma_take_clear:
  assumes v: "vma_inv v" and n: "0 < n" and r: "vma_range v = (page_at a, page_at b)"
    and i: "a \<le> i" "i + n \<le> b" and clear: "clear_of (entries (vma_map v)) (page_at i) (page_at (i + n))"
  shows "\<exists>v'. vma_take (page_at i) n v = Some (Inr (page_at i), v') \<and> vma_inv v' \<and> vma_range v' = vma_range v \<and>
    vma_allocs v' = insert (i, n) (vma_allocs v)"
proof -
  from v r have b: "b * 4096 < USIZE_BOUND" by (auto simp: vma_inv_def)
  from i(2) b have e: "page_add (page_at i) n = Some (page_at (i + n))" by (intro page_add_at) simp
  from assms show ?thesis by (rule vma_insert_clear) (simp add: vma_take_def e)
qed

lemma page_diff_at [simp]: "page_diff (page_at m) (page_at n) = (if n \<le> m then Some (m - n) else None)"
  by (auto simp: page_diff_def PAGE_SIZE_def rust_simps simp flip: diff_mult_distrib)

text \<open>Where the allocator looks: below all allocations and above all of them.\<close>

definition vma_edge :: "RangedBtreeAllocator \<Rightarrow> nat \<Rightarrow> usize \<Rightarrow> bool" where
  "vma_edge v i n \<longleftrightarrow> {i..<i + n} \<subseteq> vma_space v \<and>
     ((\<forall>(c, k) \<in> vma_allocs v. i + n \<le> c) \<or> (\<forall>(c, k) \<in> vma_allocs v. c + k \<le> i))"

lemma vma_allocs_entry:
  "(c, k) \<in> vma_allocs v \<Longrightarrow> (page_at c, page_at (c + k), \<lparr>meta_len = k\<rparr>) \<in> entries (vma_map v)"
  by (simp add: vma_allocs_def)

lemma vma_edge_disjoint: "vma_edge v i n \<Longrightarrow> (c, k) \<in> vma_allocs v \<Longrightarrow> {c..<c + k} \<inter> {i..<i + n} = {}"
  by (fastforce simp: vma_edge_def)

text \<open>An edge is taken where it is found.\<close>

lemma vma_take_edge:
  assumes v: "vma_inv v" and n: "0 < n" and e: "vma_edge v i n"
  shows "\<exists>v'. vma_take (page_at i) n v = Some (Inr (page_at i), v') \<and> vma_inv v' \<and> vma_range v' = vma_range v \<and>
    vma_allocs v' = insert (i, n) (vma_allocs v)"
proof -
  from v obtain a b where r: "vma_range v = (page_at a, page_at b)" by (rule vma_invE)
  have i: "a \<le> i" "i + n \<le> b" using e r n by (auto simp: vma_edge_def vma_space_def)
  have "clear_of (entries (vma_map v)) (page_at i) (page_at (i + n))"
    using e by (auto simp: vma_clear_iff [OF v] vma_edge_def)
  with vma_take_clear [OF v n r i] show ?thesis .
qed

lemma vma_allocate_cases_any:
  assumes v: "vma_inv v" and n: "0 < n" "vma_allocs v = {} \<longrightarrow> n \<le> card (vma_space v)"
  obtains (taken) i where "vma_allocate_contiguous n v = vma_take (page_at i) n v" and "vma_edge v i n"
  | (full) "vma_allocate_contiguous n v = None" and "\<And>i. \<not> vma_edge v i n"
proof -
  from v obtain a b where r: "vma_range v = (page_at a, page_at b)" and m: "rm_ok (vma_map v)"
    and en: "\<And>x. x \<in> entries (vma_map v) \<Longrightarrow> vma_entry a b x" by (rule vma_invE) blast
  have n': "a + n \<le> b" if "vma_allocs v = {}" using n that r by (simp add: vma_space_def)
  have sp: "{i..<i + n} \<subseteq> vma_space v \<longleftrightarrow> a \<le> i \<and> i + n \<le> b" for i
    using n(1) r by (auto simp: vma_space_def)
  show thesis
  proof (cases "first_key (vma_map v) = Some None")
    case True
    then have "vma_allocs v = {}" using rm.first_none [OF m] by (simp add: vma_allocs_def)
    then have "vma_edge v a n" using n' sp [of a] by (simp add: vma_edge_def)
    with taken [of a] True r show thesis by (simp add: vma_allocate_contiguous_def)
  next
    case False
    have "entries (vma_map v) \<noteq> {}" using rm.empty_keys [OF m] False by auto
    from rm.fst_least [OF m this] obtain f where f: "first_key (vma_map v) = Some (Some f)" by auto
    from rm.first_some(1) [OF m f] obtain e0 x0 where x0: "(f, e0, x0) \<in> entries (vma_map v)" by auto
    with en [OF x0] obtain c k where fc: "f = page_at c" "a \<le> c" "c \<le> b" and ck: "(c, k) \<in> vma_allocs v"
      by (auto simp: vma_entry_def vma_allocs_def)
    have least: "c \<le> c'" if "(c', k') \<in> vma_allocs v" for c' k'
      using rm.first_some(2) [OF m f vma_allocs_entry [OF that]] fc(1) by simp
    from m False obtain l s1 x1 where l: "last_key (vma_map v) = Some (Some l)" and x1: "(s1, l, x1) \<in> entries (vma_map v)"
      and le: "\<And>s' e' v'. (s', e', v') \<in> entries (vma_map v) \<Longrightarrow> e' \<le> l" by (rule rm.last_some) blast
    with en [OF x1] obtain d j where ld: "l = page_at (d + j)" "d + j \<le> b" "a \<le> d" and dj: "(d, j) \<in> vma_allocs v"
      by (auto simp: vma_entry_def vma_allocs_def)
    have greatest: "c' + k' \<le> d + j" if "(c', k') \<in> vma_allocs v" for c' k'
      using le [OF vma_allocs_entry [OF that]] ld(1) by simp
    have run: "vma_allocate_contiguous n v = (if n \<le> c - a then vma_take (page_at a) n v
        else if n \<le> b - (d + j) then vma_take (page_at (d + j)) n v else None)"
      using f fc(1,2) l ld r by (simp add: vma_allocate_contiguous_def)
    consider "n \<le> c - a" | "\<not> n \<le> c - a" "n \<le> b - (d + j)" | "\<not> n \<le> c - a" "\<not> n \<le> b - (d + j)" by blast
    then show thesis
    proof cases
      case 1
      then have "a + n \<le> c" using n(1) by linarith
      then have "vma_edge v a n" using fc(3) sp [of a] least by (auto simp: vma_edge_def intro: le_trans)
      with taken run 1 show thesis by simp
    next
      case 2
      then have "vma_edge v (d + j) n" using ld sp [of "d + j"] greatest n(1) by (auto simp: vma_edge_def)
      with taken run 2 show thesis by simp
    next
      case 3
      have "\<not> vma_edge v i n" for i
      proof
        assume e: "vma_edge v i n"
        then have "a \<le> i" "i + n \<le> b" using sp by (auto simp: vma_edge_def)
        moreover from e ck dj have "i + n \<le> c \<or> d + j \<le> i" by (auto simp: vma_edge_def)
        ultimately show False using 3 by linarith
      qed
      with full run 3 show thesis by simp
    qed
  qed
qed

lemma vma_allocate_cases:
  assumes "vma_inv v" and "0 < n" and "n \<le> card (vma_space v)"
  obtains (taken) i where "vma_allocate_contiguous n v = vma_take (page_at i) n v" and "vma_edge v i n"
  | (full) "vma_allocate_contiguous n v = None" and "\<And>i. \<not> vma_edge v i n"
proof -
  have "vma_allocs v = {} \<longrightarrow> n \<le> card (vma_space v)" using assms(3) by simp
  with assms(1,2) show thesis by (rule vma_allocate_cases_any) (fact that)+
qed

lemma vma_allocate_edge:
  assumes "vma_inv v" and "0 < n" and "vma_allocate_contiguous n v = vma_take (page_at i) n v" and "vma_edge v i n"
  shows "\<exists>v'. vma_allocate_contiguous n v = Some (Inr (page_at i), v') \<and> {i..<i + n} \<subseteq> vma_space v \<and>
    (\<forall>(c, k) \<in> vma_allocs v. {c..<c + k} \<inter> {i..<i + n} = {}) \<and>
    vma_inv v' \<and> vma_space v' = vma_space v \<and> vma_allocs v' = insert (i, n) (vma_allocs v)"
proof -
  from vma_take_edge [OF assms(1,2,4)] obtain v' where
    v': "vma_take (page_at i) n v = Some (Inr (page_at i), v')" "vma_inv v'"
      "vma_range v' = vma_range v" "vma_allocs v' = insert (i, n) (vma_allocs v)" by blast
  moreover have "\<forall>(b, k) \<in> vma_allocs v. {b..<b + k} \<inter> {i..<i + n} = {}"
    using vma_edge_disjoint [OF assms(4)] by blast
  moreover have "{i..<i + n} \<subseteq> vma_space v" using assms(4) by (simp add: vma_edge_def)
  moreover have "vma_space v' = vma_space v" using v'(3) by (simp add: vma_space_def)
  ultimately show ?thesis using assms(3) by (intro exI [of _ v']) simp
qed

text \<open>The first request is not compared with the end of the address space.\<close>

lemma vma_allocate_first:
  assumes v: "vma_inv v" and n: "0 < n" and none: "vma_allocs v = {}" and r: "vma_range v = (page_at a, page_at b)"
  shows "if (a + n) * 4096 < USIZE_BOUND
    then \<exists>v'. vma_allocate_contiguous n v = Some (Inr (page_at a), v') \<and> vma_range v' = vma_range v \<and> vma_allocs v' = {(a, n)}
    else vma_allocate_contiguous n v = None"
proof -
  from v obtain a' b' where m: "rm_ok (vma_map v)" and en: "\<And>x. x \<in> entries (vma_map v) \<Longrightarrow> vma_entry a' b' x"
    by (rule vma_invE) blast
  have empty: "entries (vma_map v) = {}"
    using none en by (fastforce simp: vma_entry_def vma_allocs_def)
  with rm.empty_keys [OF m] r have run: "vma_allocate_contiguous n v = vma_take (page_at a) n v"
    by (simp add: vma_allocate_contiguous_def)
  show ?thesis
  proof (cases "(a + n) * 4096 < USIZE_BOUND")
    case True
    from rm.ins_free [OF m, of "page_at a" "page_at (a + n)" "\<lparr>meta_len = n\<rparr>"] n empty obtain m' where
      "rm_insert (page_at a, page_at (a + n)) \<lparr>meta_len = n\<rparr> (vma_map v) = Inr m'"
      "entries m' = {(page_at a, page_at (a + n), \<lparr>meta_len = n\<rparr>)}" by (auto simp: clear_of_def)
    with True run show ?thesis
      by (auto simp: vma_take_def page_add_at [OF True] vma_allocs_def)
  next
    case False
    then have "page_add (page_at a) n = None"
      by (cases "page_add (page_at a) n") (auto simp: page_add_eq_Some distrib_right)
    with False run show ?thesis by (simp add: vma_take_def)
  qed
qed

lemma vma_deallocate:
  assumes v: "vma_inv v" and i: "(i, n) \<in> vma_allocs v"
  shows "\<exists>v'. vma_deallocate_contiguous (page_at i) n v = Some v' \<and> vma_inv v' \<and> vma_range v' = vma_range v \<and>
    vma_allocs v' = vma_allocs v - {(i, n)}"
proof -
  from v obtain a b where r: "vma_range v = (page_at a, page_at b)" and b: "b * 4096 < USIZE_BOUND"
    and m: "rm_ok (vma_map v)" and en: "\<And>x. x \<in> entries (vma_map v) \<Longrightarrow> vma_entry a b x" by (rule vma_invE) blast
  from i have x: "(page_at i, page_at (i + n), \<lparr>meta_len = n\<rparr>) \<in> entries (vma_map v)" by (simp add: vma_allocs_def)
  from rm.ents_proper [OF m x] have "0 < n" by simp
  with rm.rem_used [OF m x, of "page_at i"] obtain m' where
    rem: "rm_remove (page_at i) (vma_map v) = (Some \<lparr>meta_len = n\<rparr>, m')" and m': "rm_ok m'"
    and ents: "entries m' = entries (vma_map v) - {(page_at i, page_at (i + n), \<lparr>meta_len = n\<rparr>)}" by auto
  have "vma_inv (v\<lparr>vma_map := m'\<rparr>)" using b r m' en by (auto simp: vma_inv_def ents)
  moreover have "vma_allocs (v\<lparr>vma_map := m'\<rparr>) = vma_allocs v - {(i, n)}" by (auto simp: vma_allocs_def ents)
  ultimately show ?thesis using rem by (simp add: vma_deallocate_contiguous_def rust_assert_def)
qed

lemma vma_allocs_space:
  assumes "vma_inv v" and "(i, n) \<in> vma_allocs v"
  shows "0 < n \<and> {i..<i + n} \<subseteq> vma_space v"
proof -
  from assms(1) obtain a b where r: "vma_range v = (page_at a, page_at b)" 
    and m: "rm_ok (vma_map v)" and en: "\<And>x. x \<in> entries (vma_map v) \<Longrightarrow> vma_entry a b x" by (rule vma_invE) blast
  from assms(2) have x: "(page_at i, page_at (i + n), \<lparr>meta_len = n\<rparr>) \<in> entries (vma_map v)" by (simp add: vma_allocs_def)
  from rm.ents_proper [OF m x] en [OF x] r show ?thesis by (auto simp: vma_entry_def vma_space_def)
qed

lemma vma_allocs_disjoint:
  assumes "vma_inv v" and "(i, n) \<in> vma_allocs v" and "(j, k) \<in> vma_allocs v"
  shows "(i, n) = (j, k) \<or> {i..<i + n} \<inter> {j..<j + k} = {}"
proof -
  from assms(1) have m: "rm_ok (vma_map v)" by (auto simp: vma_inv_def)
  from assms(2,3) have "(page_at i, page_at (i + n), \<lparr>meta_len = n\<rparr>) \<in> entries (vma_map v)"
    "(page_at j, page_at (j + k), \<lparr>meta_len = k\<rparr>) \<in> entries (vma_map v)" by (simp_all add: vma_allocs_def)
  from rm.ents_apart [OF m this] show ?thesis by auto
qed

interpretation vma: page_pool vma_inv vma_space vma_allocs vma_allocate_contiguous vma_deallocate_contiguous
proof
  fix v v' :: RangedBtreeAllocator and n :: usize and p
  assume v: "vma_inv v" and n: "0 < n"
  show "vma_inv v' \<and> vma_space v' = vma_space v \<and> pgaddr p mod 4096 = 0 \<and> pages_of p n \<subseteq> vma_space v \<and>
      vma_allocs v' = insert (pgaddr p div 4096, n) (vma_allocs v) \<and>
      (\<forall>(b, k) \<in> vma_allocs v. {b..<b + k} \<inter> pages_of p n = {})"
    if c: "n \<le> card (vma_space v)" and run: "vma_allocate_contiguous n v = Some (Inr p, v')"
    using v n c
  proof (cases rule: vma_allocate_cases)
    case (taken i)
    from vma_take_edge [OF v n taken(2)] taken(1) run have p: "p = page_at i" "vma_inv v'"
      "vma_range v' = vma_range v" "vma_allocs v' = insert (i, n) (vma_allocs v)" by auto
    moreover have "\<forall>(b, k) \<in> vma_allocs v. {b..<b + k} \<inter> {i..<i + n} = {}"
      using vma_edge_disjoint [OF taken(2)] by blast
    ultimately show ?thesis using taken(2) by (simp add: vma_edge_def vma_space_def pages_of_def)
  qed (use run in simp)
next
  fix v v' :: RangedBtreeAllocator and n :: usize and e
  assume "vma_allocate_contiguous n v = Some (Inl e, v')"
  then show "v' = v"
    by (auto simp: vma_allocate_contiguous_def vma_take_def split: Option.bind_splits option.splits if_splits)
next
  fix v :: RangedBtreeAllocator and i
  assume "vma_inv v" and "i \<in> vma_space v"
  then show "Suc i * 4096 < USIZE_BOUND" by (auto simp: vma_inv_def vma_space_def)
next
  fix v :: RangedBtreeAllocator and i n
  assume v: "vma_inv v" and i: "(i, n) \<in> vma_allocs v"
  from vma_deallocate [OF this] show "\<exists>v'. vma_deallocate_contiguous (page_at i) n v = Some v' \<and> vma_inv v' \<and>
      vma_space v' = vma_space v \<and> vma_allocs v' = vma_allocs v - {(i, n)}"
    by (auto simp: vma_space_def)
  from vma_allocs_space [OF v i] show "0 < n \<and> {i..<i + n} \<subseteq> vma_space v" .
qed (rule vma_allocs_disjoint)

section \<open>Reservations\<close>

text \<open>The kernel's allocator of virtual memory: everything above the direct map except the last page,
  with the bootstrap region and the memory in use at the handoff reserved.\<close>

definition kernel_btree_alloc :: "usize \<Rightarrow> usize \<Rightarrow> VirtualAddress \<times> VirtualAddress \<Rightarrow> RangedBtreeAllocator rust" where
  "kernel_btree_alloc bootstrap_start bootstrap_end used = do {
     map_end \<leftarrow> uadd 0xffff800000000000 (2 ^ 46);
     s \<leftarrow> virt_new 4096 map_end;
     e \<leftarrow> virt_new 4096 0xfffffffffffff000;
     bs \<leftarrow> virt_new 4096 bootstrap_start;
     be \<leftarrow> virt_new 4096 bootstrap_end;
     vma_add_allocations [(page_new bs, page_new be), (page_new (fst used), page_new (snd used))]
       (vma_new (page_new s, page_new e)) }"

lemma vma_new_inv:
  assumes "b * 4096 < USIZE_BOUND"
  shows "vma_inv (vma_new (page_at a, page_at b))" and "vma_allocs (vma_new (page_at a, page_at b)) = {}"
  using assms by (auto simp: vma_inv_def vma_new_def rm_new_def vma_allocs_def)

text \<open>Reserving a range inside the allocator's range.\<close>

lemma vma_add_allocation_inside:
  assumes v: "vma_inv v" and r: "vma_range v = (page_at a, page_at b)" and i: "a \<le> i" "0 < n" "i + n \<le> b"
  shows "\<exists>v'. vma_add_allocation (page_at i, page_at (i + n)) v = Some v' \<and> vma_inv v' \<and> vma_range v' = vma_range v \<and>
    vma_allocs v' = (if clear_of (entries (vma_map v)) (page_at i) (page_at (i + n))
      then insert (i, n) (vma_allocs v) else vma_allocs v)"
proof -
  have m: "rm_ok (vma_map v)" using v by (auto simp: vma_inv_def)
  have mm: "max (page_at i) (page_at a) = page_at i" "min (page_at (i + n)) (page_at b) = page_at (i + n)"
    using i by (simp_all add: max_def min_def)
  show ?thesis
  proof (cases "clear_of (entries (vma_map v)) (page_at i) (page_at (i + n))")
    case True
    from v i(2) r i(1,3) True show ?thesis
      by (rule vma_insert_clear) (use mm r i(2) True in \<open>simp add: vma_add_allocation_def\<close>)
  next
    case False
    from rm.ins_used [OF m _ False, of "\<lparr>meta_len = n\<rparr>"] i(2) mm r v False show ?thesis
      by (simp add: vma_add_allocation_def)
  qed
qed

text \<open>A reservation that starts below the range of the allocator is entered as it is, and every later
  request for a page panics, since the distance of the first entry from the start underflows.\<close>

lemma vma_reservation_below:
  assumes "vma_inv v" and "vma_range v = (page_at a, page_at b)" and "vma_allocs v = {}"
    and "i < a" and "a < j" and "j \<le> b"
  shows "\<exists>v'. vma_add_allocation (page_at i, page_at j) v = Some v' \<and> vma_allocate_contiguous n v' = None"
proof -
  from assms(1,2) have m: "rm_ok (vma_map v)" and en: "\<And>x. x \<in> entries (vma_map v) \<Longrightarrow> vma_entry a b x"
    by (auto simp: vma_inv_def)
  have e: "entries (vma_map v) = {}" using en assms(3) by (fastforce simp: vma_entry_def vma_allocs_def)
  have "clear_of (entries (vma_map v)) (page_at i) (page_at j)" by (simp add: e clear_of_def)
  moreover have "page_at i < page_at j" using assms(4,5) by simp
  ultimately obtain m' where ins: "rm_insert (page_at i, page_at j) \<lparr>meta_len = j - a\<rparr> (vma_map v) = Inr m'"
    and m': "rm_ok m'" "entries m' = {(page_at i, page_at j, \<lparr>meta_len = j - a\<rparr>)}"
    using rm.ins_free [OF m, of "page_at i" "page_at j" "\<lparr>meta_len = j - a\<rparr>"] e by auto
  from rm.fst_least [OF m'(1)] m'(2) have "first_key m' = Some (Some (page_at i))" by auto
  moreover have "max (page_at i) (page_at a) = page_at a" "min (page_at j) (page_at b) = page_at j"
    using assms(4-6) by (simp_all add: max_def min_def)
  ultimately show ?thesis using assms(2,4,5) ins by (simp add: vma_add_allocation_def vma_allocate_contiguous_def)
qed

section \<open>The bootstrap allocator\<close>

text \<open>A pointer that moves up through the bootstrap region. The additions to the pointer wrap around;
  the product with the page size does not. \<open>END\<close> is the linker symbol of the end of the region.
  An exchange that finds another value than the one just loaded needs a second caller.\<close>

definition bootstrap_allocate_contiguous :: "usize \<Rightarrow> usize page_allocate_fn" where
  "bootstrap_allocate_contiguous END len start = do {
     start' \<leftarrow> (if len = 0 then Some start else do { d \<leftarrow> umul len 4096; Some ((start + d) mod USIZE_BOUND) });
     if start > END then Some (Inl AllocError, start')
     else do { a \<leftarrow> virt_new 4096 start; Some (Inr (page_new a), start') } }"

definition bootstrap_allocate_contiguous_at ::
  "usize \<Rightarrow> Page \<Rightarrow> usize \<Rightarrow> usize \<Rightarrow> (page_result \<times> usize) rust" where
  "bootstrap_allocate_contiguous_at END at len start =
     (if start \<noteq> pgaddr at then Some (Inl AllocError, start)
      else if start > END then Some (Inl AllocError, start)
      else do { d \<leftarrow> umul len 4096; Some (Inr at, (start + d) mod USIZE_BOUND) })"

definition bootstrap_deallocate_contiguous :: "Page \<Rightarrow> usize \<Rightarrow> usize \<Rightarrow> usize rust" where
  "bootstrap_deallocate_contiguous b len start = Some start"

text \<open>A run of requests. While the pointer does not pass the end of the address space, the requests get
  consecutive runs of pages from the start on, until the pointer passes the end of the region.\<close>

fun bootstrap_requests :: "usize \<Rightarrow> usize list \<Rightarrow> usize \<Rightarrow> (page_result list \<times> usize) rust" where
  "bootstrap_requests END [] start = Some ([], start)"
| "bootstrap_requests END (n # ns) start = do {
     (r, start') \<leftarrow> bootstrap_allocate_contiguous END n start;
     (rs, start'') \<leftarrow> bootstrap_requests END ns start';
     Some (r # rs, start'') }"

lemma virt_new_at: "i * 4096 < USIZE_BOUND \<Longrightarrow> virt_new 4096 (i * 4096) = Some (VirtualAddress (i * 4096))"
  using virt_new_page [of "i * 4096"] by (simp add: PAGE_SIZE_def)

section \<open>Owned pages\<close>

text \<open>\<open>OwnedPages\<close> with the allocator it came from; \<open>NonZeroUsize\<close> lengths are positive.\<close>

record OwnedPages =
  op_base :: Page
  op_len :: usize

definition owned_pages_new_with :: "'v page_allocate_fn \<Rightarrow> usize \<Rightarrow> 'v \<Rightarrow> ((AllocError, OwnedPages) result \<times> 'v) rust" where
  "owned_pages_new_with valloc len v = do {
     (r, v') \<leftarrow> valloc len v;
     case r of
       Inl e \<Rightarrow> Some (Inl e, v')
     | Inr b \<Rightarrow> Some (Inr \<lparr>op_base = b, op_len = len\<rparr>, v') }"

definition owned_pages_into_raw_parts :: "OwnedPages \<Rightarrow> Page \<times> usize" where
  "owned_pages_into_raw_parts self = (op_base self, op_len self)"

definition owned_pages_from_raw_parts :: "Page \<Rightarrow> usize \<Rightarrow> OwnedPages" where
  "owned_pages_from_raw_parts b len = \<lparr>op_base = b, op_len = len\<rparr>"

definition owned_pages_drop :: "(Page \<Rightarrow> usize \<Rightarrow> 'v \<Rightarrow> 'v rust) \<Rightarrow> OwnedPages \<Rightarrow> 'v \<Rightarrow> 'v rust" where
  "owned_pages_drop vdealloc self v = vdealloc (op_base self) (op_len self) v"

section \<open>Properties\<close>


text \<open>A small allocator: the pages 16 to 31, of which 20 to 23 are reserved.\<close>

definition vma_small :: RangedBtreeAllocator where
  "vma_small = \<lparr>vma_range = (page_at 16, page_at 32), vma_map = [(Range (page_at 20) (page_at 24), \<lparr>meta_len = 4\<rparr>)]\<rparr>"

lemma vma_small_facts:
  "vma_inv vma_small" "vma_space vma_small = {16..<32}" "vma_allocs vma_small = {(20, 4)}"
proof -
  have "rm_ok [(Range (page_at 20) (page_at 24), \<lparr>meta_len = 4\<rparr>)]" by (rule rm_okI) (auto simp: less_Page_def)
  then show "vma_inv vma_small"
    by (auto simp: vma_inv_def vma_small_def vma_entry_def intro!: exI [of _ 16] exI [of _ 32] exI [of _ 20])
  show "vma_space vma_small = {16..<32}" by (simp add: vma_space_def vma_small_def)
  show "vma_allocs vma_small = {(20, 4)}" by (auto simp: vma_allocs_def vma_small_def)
qed


text \<open>C20. Returning a live allocation with its length never panics, removes that allocation and no other,
  and undoes the request that made it. Returning it with another length, or returning pages that no
  allocation holds, panics.\<close>

theorem vma_deallocate_correct:
  assumes "vma_inv v"
  shows "((i, n) \<in> vma_allocs v \<longrightarrow>
      (\<exists>v'. vma_deallocate_contiguous (page_at i) n v = Some v' \<and> vma_inv v' \<and> vma_space v' = vma_space v \<and>
        vma_allocs v' = vma_allocs v - {(i, n)}) \<and>
      (\<forall>k. k \<noteq> n \<longrightarrow> vma_deallocate_contiguous (page_at i) k v = None)) \<and>
    (0 < n \<and> n \<le> card (vma_space v) \<and> vma_allocate_contiguous n v = Some (Inr p, v1) \<longrightarrow>
      (\<exists>v2. vma_deallocate_contiguous p n v1 = Some v2 \<and> vma_allocs v2 = vma_allocs v)) \<and>
    ((\<forall>(c, j) \<in> vma_allocs v. \<not> (c \<le> i \<and> i < c + j)) \<longrightarrow> vma_deallocate_contiguous (page_at i) n v = None)"
proof (intro conjI impI)
  assume i: "(i, n) \<in> vma_allocs v"
  from vma_deallocate [OF assms i]
  show "\<exists>v'. vma_deallocate_contiguous (page_at i) n v = Some v' \<and> vma_inv v' \<and> vma_space v' = vma_space v \<and>
      vma_allocs v' = vma_allocs v - {(i, n)}"
    by (auto simp: vma_space_def)
  from vma_deallocate [OF assms i] show "\<forall>k. k \<noteq> n \<longrightarrow> vma_deallocate_contiguous (page_at i) k v = None"
    by (auto simp: vma_deallocate_contiguous_def split: prod.splits option.splits Option.bind_splits)
next
  assume "0 < n \<and> n \<le> card (vma_space v) \<and> vma_allocate_contiguous n v = Some (Inr p, v1)"
  with vma.valloc_vdealloc [OF assms, of n p v1]
  show "\<exists>v2. vma_deallocate_contiguous p n v1 = Some v2 \<and> vma_allocs v2 = vma_allocs v" by blast
next
  assume u: "\<forall>(c, j) \<in> vma_allocs v. \<not> (c \<le> i \<and> i < c + j)"
  from assms obtain a b where m: "rm_ok (vma_map v)"
    and en: "\<And>x. x \<in> entries (vma_map v) \<Longrightarrow> vma_entry a b x" by (rule vma_invE) blast
  have "\<not> (s \<le> page_at i \<and> page_at i < e)" if x: "(s, e, w) \<in> entries (vma_map v)" for s e w
    using en [OF x] x u by (force simp: vma_entry_def vma_allocs_def)
  from rm.rem_free [OF m this] show "vma_deallocate_contiguous (page_at i) n v = None"
    by (simp add: vma_deallocate_contiguous_def)
qed

theorem vma_deallocate_correct_witness:
  "(\<exists>v'. vma_deallocate_contiguous (page_at 20) 4 vma_small = Some v' \<and> vma_allocs v' = {}) \<and>
    vma_deallocate_contiguous (page_at 20) 3 vma_small = None"
  using vma_deallocate_correct [OF vma_small_facts(1), of 20 4 "page_at 0" vma_small] by (auto simp: vma_small_facts)

text \<open>The kernel's allocator of virtual memory is well formed and has the two reserved regions as its
  allocations, when these are page aligned, inside the upper part of the address space, not empty and
  apart; so no later request returns a page of the bootstrap region or of the loaded kernel.\<close>

theorem kernel_btree_alloc_correct:
  assumes "0xffff800000000000 + 2 ^ 46 \<le> i * 4096" and "(i + n) * 4096 \<le> 0xfffffffffffff000" and "0 < n"
    and "0xffff800000000000 + 2 ^ 46 \<le> j * 4096" and "(j + k) * 4096 \<le> 0xfffffffffffff000" and "0 < k"
    and "i + n \<le> j \<or> j + k \<le> i"
  shows "\<exists>v. kernel_btree_alloc (i * 4096) ((i + n) * 4096) (VirtualAddress (j * 4096), VirtualAddress ((j + k) * 4096)) =
      Some v \<and> vma_inv v \<and> vma_allocs v = {(i, n), (j, k)} \<and>
      vma_space v = {0xffff800000000000 div 4096 + 2 ^ 34 ..< 0xfffffffffffff}"
proof -
  define a where "a = (0xffff800000000000 div 4096 + 2 ^ 34 :: nat)"
  define b where "b = (0xfffffffffffff :: nat)"
  let ?v = "vma_new (page_at a, page_at b)"
  have ab: "a \<le> i" "i + n \<le> b" "a \<le> j" "j + k \<le> b" using assms by (auto simp: a_def b_def)
  have v: "vma_inv ?v" "vma_allocs ?v = {}" "vma_range ?v = (page_at a, page_at b)"
    using vma_new_inv [of b a] by (auto simp: b_def vma_new_def)
  from vma_add_allocation_inside [OF v(1,3) ab(1) assms(3) ab(2)]
  obtain v1 where v1: "vma_add_allocation (page_at i, page_at (i + n)) ?v = Some v1" "vma_inv v1"
      "vma_range v1 = (page_at a, page_at b)" "vma_allocs v1 = {(i, n)}"
    using v(2,3) by (auto simp: vma_new_def rm_new_def clear_of_def)
  have "clear_of (entries (vma_map v1)) (page_at j) (page_at (j + k))"
    using v1(4) assms(7) by (auto simp: vma_clear_iff [OF v1(2)])
  with vma_add_allocation_inside [OF v1(2,3) ab(3) assms(6) ab(4)] v1(3,4)
  obtain v2 where v2: "vma_add_allocation (page_at j, page_at (j + k)) v1 = Some v2" "vma_inv v2"
      "vma_range v2 = (page_at a, page_at b)" "vma_allocs v2 = {(j, k), (i, n)}" by auto
  have u: "uadd 18446603336221196288 70368744177664 = Some (a * 4096)" by (simp add: a_def)
  have "virt_new 4096 0xfffffffffffff000 = Some (VirtualAddress (b * 4096))"
    using virt_new_at [of b] by (simp add: b_def)
  moreover have "virt_new 4096 (a * 4096) = Some (VirtualAddress (a * 4096))"
    "virt_new 4096 (i * 4096) = Some (VirtualAddress (i * 4096))"
    "virt_new 4096 ((i + n) * 4096) = Some (VirtualAddress ((i + n) * 4096))"
    by (rule virt_new_at; use ab in \<open>simp add: a_def b_def\<close>)+
  ultimately have "kernel_btree_alloc (i * 4096) ((i + n) * 4096) (VirtualAddress (j * 4096), VirtualAddress ((j + k) * 4096)) = Some v2"
    using v1(1) v2(1) by (simp add: kernel_btree_alloc_def vma_add_allocations_def page_new_def u)
  with v2 show ?thesis by (auto simp: vma_space_def a_def b_def)
qed

theorem kernel_btree_alloc_correct_witness:
  "\<exists>v. kernel_btree_alloc (0xfffffffff0000 * 4096) (0xfffffffff0010 * 4096)
      (VirtualAddress (0xffffffffe0000 * 4096), VirtualAddress (0xffffffffe0020 * 4096)) = Some v \<and>
    vma_allocs v = {(0xfffffffff0000, 16), (0xffffffffe0000, 32)}"
  using kernel_btree_alloc_correct [of "0xfffffffff0000" 16 "0xffffffffe0000" 32] by auto

text \<open>The bootstrap allocator gives consecutive runs of pages to a sequence of requests, as long as the
  pointer stays inside the address space; a request is refused exactly when the pointer has passed the
  end of the region, whatever its own length, and a refused request still moves the pointer.\<close>

theorem bootstrap_vma_consecutive:
  assumes "(i + sum_list ns) * 4096 < USIZE_BOUND"
  shows "bootstrap_requests END ns (i * 4096) =
    Some (map (\<lambda>k. if (i + sum_list (take k ns)) * 4096 \<le> END
        then Inr (page_at (i + sum_list (take k ns))) else Inl AllocError) [0..<length ns],
      (i + sum_list ns) * 4096)"
  using assms
proof (induction ns arbitrary: i)
  case (Cons n ns)
  have b: "(i + n) * 4096 < USIZE_BOUND" "(i + n + sum_list ns) * 4096 < USIZE_BOUND" using Cons.prems by simp_all
  have eq: "i * 4096 + n * 4096 = (i + n) * 4096" by (simp add: distrib_right)
  have m: "(i * 4096 + n * 4096) mod USIZE_BOUND = (i + n) * 4096" using b(1) by (simp only: eq mod_less)
  have "bootstrap_allocate_contiguous END n (i * 4096) =
      Some (if i * 4096 \<le> END then Inr (page_at i) else Inl AllocError, (i + n) * 4096)"
    using b m by (simp add: bootstrap_allocate_contiguous_def umul_def virt_new_at page_new_def)
  with Cons.IH [OF b(2)] show ?case
    by (simp add: upt_rec [of 0] map_Suc_upt [symmetric] o_def add.assoc del: upt_Suc)
qed simp

theorem bootstrap_vma_consecutive_witness:
  "bootstrap_requests (18 * 4096) [2, 0, 1, 1] (16 * 4096) =
    Some ([Inr (page_at 16), Inr (page_at 18), Inr (page_at 18), Inl AllocError], 20 * 4096)"
  using bootstrap_vma_consecutive [of 16 "[2, 0, 1, 1]" "18 * 4096"] by (simp add: upt_rec)

text \<open>A hole between allocations is not reused: after three requests have filled the range and the middle
  one was returned, a request that fits the hole panics.\<close>

theorem vma_hole_panics:
  "\<exists>v. vma_inv v \<and> vma_space v = {16..<32} \<and> vma_allocs v = {(16, 8), (28, 4)} \<and>
    {24..<28} \<inter> (\<Union>(i, n) \<in> vma_allocs v. {i..<i + n}) = {} \<and> vma_allocate_contiguous 4 v = None"
proof -
  let ?m = "[(Range (page_at 16) (page_at 24), \<lparr>meta_len = 8\<rparr>), (Range (page_at 28) (page_at 32), \<lparr>meta_len = 4\<rparr>)]"
  let ?v = "\<lparr>vma_range = (page_at 16, page_at 32), vma_map = ?m\<rparr>"
  have "rm_ok ?m" by (intro rm_okI) (auto simp: less_Page_def less_eq_Page_def)
  then have inv: "vma_inv ?v"
    by (auto simp: vma_inv_def vma_entry_def intro!: exI [of _ 16] exI [of _ 32] intro: exI [of _ 28])
  have sp: "vma_space ?v = {16..<32}" by (simp add: vma_space_def)
  have al: "vma_allocs ?v = {(16, 8), (28, 4)}" by (auto simp: vma_allocs_def)
  have "(0 :: nat) < 4" "4 \<le> card (vma_space ?v)" unfolding sp by simp_all
  with inv have "vma_allocate_contiguous 4 ?v = None"
  proof (cases rule: vma_allocate_cases)
    case (taken i)
    then show ?thesis unfolding vma_edge_def sp al by auto
  qed
  with inv sp al show ?thesis by (intro exI [of _ ?v]) auto
qed

text \<open>An empty range is stored but never found again: returning a request for no pages panics.\<close>

lemma vma_zero_length_panics:
  "\<exists>v. vma_allocate_contiguous 0 (vma_new (page_at 16, page_at 32)) = Some (Inr (page_at 16), v) \<and>
    vma_deallocate_contiguous (page_at 16) 0 v = None"
  by (simp add: vma_allocate_contiguous_def vma_new_def rm_new_def first_key_def vma_take_def page_add_at [of 16 0, simplified]
      rm_insert_def vma_deallocate_contiguous_def rm_remove_def point_range_cmp_def)

end
