(* ===== verification/Memory_Mapping.thy ===== *)
theory Memory_Mapping
  imports Kernel_Paging Virtual_Allocator
begin

text \<open>
  Owned frames and mappings, \<open>kernel_api/src/memory/physical.rs\<close> and
  \<open>kernel_api/src/memory/mapping.rs\<close>. A mapping takes frames from a physical allocator and pages from a
  virtual one and enters them into the kernel tables; dropping it undoes all three. The theorems are
  about the composition of the bitmap allocator, the kernel tables and any allocator of virtual memory
  that keeps the contract \<open>page_pool\<close>.
\<close>

declare distrib_right_numeral [simp del]

section \<open>Physical memory\<close>

text \<open>A reference to an allocator is the record of its methods over the state of physical memory.\<close>

record 's frame_allocator =
  fa_allocate_contiguous :: "'s allocate_fn"
  fa_deallocate_contiguous :: "Frame \<Rightarrow> usize \<Rightarrow> 's \<Rightarrow> 's rust"
  fa_allocate_at :: "usize \<Rightarrow> SpecificLocation \<Rightarrow> 's \<Rightarrow> (alloc_result \<times> 's) rust"

record 'v page_allocator =
  pa_allocate_contiguous :: "'v page_allocate_fn"
  pa_allocate_contiguous_at :: "Page \<Rightarrow> usize \<Rightarrow> 'v \<Rightarrow> (page_result \<times> 'v) rust"
  pa_deallocate_contiguous :: "Page \<Rightarrow> usize \<Rightarrow> 'v \<Rightarrow> 'v rust"

record OwnedFrames =
  of_base :: Frame
  of_len :: usize

definition owned_frames_new_with ::
  "usize \<Rightarrow> 's frame_allocator \<Rightarrow> 's \<Rightarrow> ((AllocError, OwnedFrames) result \<times> 's) rust" where
  "owned_frames_new_with count allocator s = do {
     (r, s') \<leftarrow> fa_allocate_contiguous allocator count s;
     case r of
       Inl e \<Rightarrow> Some (Inl e, s')
     | Inr b \<Rightarrow> Some (Inr \<lparr>of_base = b, of_len = count\<rparr>, s') }"

definition owned_frames_xnew ::
  "usize \<Rightarrow> 's frame_allocator \<Rightarrow> Location \<Rightarrow> 's \<Rightarrow> ((AllocError, OwnedFrames) result \<times> 's) rust" where
  "owned_frames_xnew count allocator location s = (case location of
     Any \<Rightarrow> owned_frames_new_with count allocator s
   | Specific loc \<Rightarrow> do {
       (r, s') \<leftarrow> fa_allocate_at allocator count loc s;
       case r of
         Inl e \<Rightarrow> Some (Inl e, s')
       | Inr b \<Rightarrow> Some (Inr \<lparr>of_base = b, of_len = count\<rparr>, s') })"

definition owned_frames_into_raw_parts :: "OwnedFrames \<Rightarrow> Frame \<times> usize" where
  "owned_frames_into_raw_parts self = (of_base self, of_len self)"

definition owned_frames_from_raw_parts :: "Frame \<Rightarrow> usize \<Rightarrow> OwnedFrames" where
  "owned_frames_from_raw_parts b len = \<lparr>of_base = b, of_len = len\<rparr>"

definition owned_frames_drop :: "'s frame_allocator \<Rightarrow> OwnedFrames \<Rightarrow> 's \<Rightarrow> 's rust" where
  "owned_frames_drop allocator self s = fa_deallocate_contiguous allocator (of_base self) (of_len self) s"

section \<open>Configurations\<close>

datatype 'a MapLocation = Map_Any | Map_Aligned nat | Map_At 'a | Map_Below 'a nat

fun location_from :: "Frame MapLocation \<Rightarrow> Location" where
  "location_from Map_Any = Any"
| "location_from (Map_Aligned a) = Specific (Aligned a)"
| "location_from (Map_At f) = Specific (At f)"
| "location_from (Map_Below l a) = Specific (Below l a)"

datatype Laziness = Lazy | Prefault

datatype Protection = RWX

record MappingConfig =
  cfg_physical_location :: "Frame MapLocation"
  cfg_virtual_location :: "Page MapLocation"
  cfg_laziness :: Laziness
  cfg_length :: usize
  cfg_protection :: Protection

definition mapping_config_new :: "usize \<Rightarrow> MappingConfig" where
  "mapping_config_new len = \<lparr>
     cfg_physical_location = Map_Any,
     cfg_virtual_location = Map_Any,
     cfg_laziness = Lazy,
     cfg_length = len,
     cfg_protection = RWX\<rparr>"

definition config_protection :: "Protection \<Rightarrow> MappingConfig \<Rightarrow> MappingConfig" where
  "config_protection protection self = self\<lparr>cfg_protection := protection\<rparr>"

definition config_physical_location :: "Frame MapLocation \<Rightarrow> MappingConfig \<Rightarrow> MappingConfig" where
  "config_physical_location location self = self\<lparr>cfg_physical_location := location\<rparr>"

definition config_virtual_location :: "Page MapLocation \<Rightarrow> MappingConfig \<Rightarrow> MappingConfig" where
  "config_virtual_location location self = self\<lparr>cfg_virtual_location := location\<rparr>"

section \<open>Kinds of mapping\<close>

text \<open>The implementations of \<open>Mappable\<close>; the length of a stack includes its guard page.\<close>

datatype Mappable = RawMmap | RawStack

fun physical_length_to_virtual_length :: "Mappable \<Rightarrow> usize \<Rightarrow> usize rust" where
  "physical_length_to_virtual_length RawMmap physical_length = Some physical_length"
| "physical_length_to_virtual_length RawStack physical_length = uadd physical_length 1"

fun physical_start_offset_from_virtual :: "Mappable \<Rightarrow> int" where
  "physical_start_offset_from_virtual RawMmap = 0"
| "physical_start_offset_from_virtual RawStack = 1"

section \<open>Mappings\<close>

text \<open>The state the operations change: the kernel tables, physical memory and virtual memory.\<close>

record ('s, 'v) memory =
  mem_tables :: tables
  mem_frames :: 's
  mem_pages :: 'v

record RawMapping =
  map_physical :: OwnedFrames
  map_virtual_valid_start :: Page

definition map_physical_len :: "RawMapping \<Rightarrow> usize" where
  "map_physical_len self = of_len (map_physical self)"

definition map_physical_start :: "RawMapping \<Rightarrow> Frame" where
  "map_physical_start self = of_base (map_physical self)"

definition map_physical_end :: "RawMapping \<Rightarrow> Frame rust" where
  "map_physical_end self = frame_add (map_physical_start self) (map_physical_len self)"

definition map_virtual_len :: "Mappable \<Rightarrow> RawMapping \<Rightarrow> usize rust" where
  "map_virtual_len R self = physical_length_to_virtual_length R (map_physical_len self)"

definition map_virtual_start :: "Mappable \<Rightarrow> RawMapping \<Rightarrow> Page rust" where
  "map_virtual_start R self = page_sub_signed (map_virtual_valid_start self) (physical_start_offset_from_virtual R)"

definition map_virtual_end :: "Mappable \<Rightarrow> RawMapping \<Rightarrow> Page rust" where
  "map_virtual_end R self = do { s \<leftarrow> map_virtual_start R self; n \<leftarrow> map_virtual_len R self; page_add s n }"

text \<open>The loops over the pages of a mapping. \<open>kt\<close> is the first of the kernel's second-level tables and
  \<open>highmem\<close> allocates new tables.\<close>

definition map_pages ::
  "'s frame_allocator \<Rightarrow> Frame \<Rightarrow> Frame \<Rightarrow> Page \<Rightarrow> usize \<Rightarrow> tables \<times> 's \<Rightarrow> (tables \<times> 's) rust" where
  "map_pages highmem kt physical_base offset_base n = for_each (\<lambda>i ms. do {
       frame \<leftarrow> frame_add physical_base i;
       page \<leftarrow> page_add offset_base i;
       (r, ms') \<leftarrow> ktable_map_page (fa_allocate_contiguous highmem) kt page frame ms;
       u \<leftarrow> expect_ok r;
       Some ms' }) [0..<n]"

definition unmap_pages :: "Frame \<Rightarrow> Page \<Rightarrow> usize \<Rightarrow> tables \<Rightarrow> tables rust" where
  "unmap_pages kt valid_start n = for_each (\<lambda>i m. do {
       page \<leftarrow> page_add valid_start i;
       (r, m') \<leftarrow> ktable_unmap_page kt page m;
       u \<leftarrow> expect_ok r;
       Some m' }) [0..<n]"

text \<open>When the virtual allocation fails, the frames are dropped on the way out.\<close>

definition mapping_new ::
  "'s frame_allocator \<Rightarrow> Frame \<Rightarrow> 's frame_allocator \<Rightarrow> 'v page_allocator \<Rightarrow> Mappable \<Rightarrow> MappingConfig \<Rightarrow>
    ('s, 'v) memory \<Rightarrow> ((AllocError, RawMapping) result \<times> ('s, 'v) memory) rust" where
  "mapping_new highmem kt physical_allocator virtual_allocator R config mem = do {
     virtual_len \<leftarrow> physical_length_to_virtual_length R (cfg_length config);
     let physical_len = cfg_length config;
     (r, s) \<leftarrow> owned_frames_xnew physical_len physical_allocator (location_from (cfg_physical_location config)) (mem_frames mem);
     case r of
       Inl e \<Rightarrow> Some (Inl e, mem\<lparr>mem_frames := s\<rparr>)
     | Inr physical_mem \<Rightarrow> do {
         (r, v) \<leftarrow> owned_pages_new_with (pa_allocate_contiguous virtual_allocator) virtual_len (mem_pages mem);
         case r of
           Inl e \<Rightarrow> do {
             s' \<leftarrow> owned_frames_drop physical_allocator physical_mem s;
             Some (Inl e, mem\<lparr>mem_frames := s', mem_pages := v\<rparr>) }
         | Inr virtual_mem \<Rightarrow> do {
             let (virtual_base, vlen) = owned_pages_into_raw_parts virtual_mem;
             offset_base \<leftarrow> page_add_signed virtual_base (physical_start_offset_from_virtual R);
             (m, s') \<leftarrow> map_pages highmem kt (of_base physical_mem) offset_base physical_len (mem_tables mem, s);
             Some (Inr \<lparr>map_physical = physical_mem, map_virtual_valid_start = offset_base\<rparr>,
               \<lparr>mem_tables = m, mem_frames = s', mem_pages = v\<rparr>) } } }"

definition mapping_into_raw_parts :: "Mappable \<Rightarrow> RawMapping \<Rightarrow> (OwnedFrames \<times> OwnedPages) rust" where
  "mapping_into_raw_parts R self = do {
     s \<leftarrow> map_virtual_start R self;
     n \<leftarrow> map_virtual_len R self;
     Some (map_physical self, owned_pages_from_raw_parts s n) }"

definition mapping_from_raw_parts :: "Mappable \<Rightarrow> OwnedFrames \<Rightarrow> OwnedPages \<Rightarrow> RawMapping rust" where
  "mapping_from_raw_parts R frames pages = do {
     let (virtual_base, actual_vlen) = owned_pages_into_raw_parts pages;
     correct_vlen \<leftarrow> physical_length_to_virtual_length R (of_len frames);
     rust_assert (actual_vlen = correct_vlen);
     s \<leftarrow> page_add_signed virtual_base (physical_start_offset_from_virtual R);
     Some \<lparr>map_physical = frames, map_virtual_valid_start = s\<rparr> }"

text \<open>Dropping: the pages are unmapped, the page range is returned, then the frames, which are a field.\<close>

definition mapping_drop ::
  "Frame \<Rightarrow> 's frame_allocator \<Rightarrow> 'v page_allocator \<Rightarrow> Mappable \<Rightarrow> RawMapping \<Rightarrow> ('s, 'v) memory \<Rightarrow>
    ('s, 'v) memory rust" where
  "mapping_drop kt physical_allocator virtual_allocator R self mem = do {
     m \<leftarrow> unmap_pages kt (map_virtual_valid_start self) (map_physical_len self) (mem_tables mem);
     s \<leftarrow> map_virtual_start R self;
     n \<leftarrow> map_virtual_len R self;
     v \<leftarrow> owned_pages_drop (pa_deallocate_contiguous virtual_allocator) (owned_pages_from_raw_parts s n) (mem_pages mem);
     f \<leftarrow> owned_frames_drop physical_allocator (map_physical self) (mem_frames mem);
     Some \<lparr>mem_tables = m, mem_frames = f, mem_pages = v\<rparr> }"

section \<open>The loops\<close>

abbreviation bm_methods :: "BitmapAllocator frame_allocator" where
  "bm_methods \<equiv> \<lparr>fa_allocate_contiguous = bm_allocate_contiguous, fa_deallocate_contiguous = bm_deallocate_contiguous,
    fa_allocate_at = bm_allocate_at\<rparr>"

lemma page_numbered: "pgaddr p mod 4096 = 0 \<Longrightarrow> p = page_at (pgaddr p div 4096)"
  by (cases p; cases "page_base p") auto

lemma frame_numbered: "faddr f mod 4096 = 0 \<Longrightarrow> f = frame_at (faddr f div 4096)"
  by (cases f; cases "frame_base f") auto

definition kernel_number :: "nat \<Rightarrow> bool" where
  "kernel_number i \<longleftrightarrow> HALF \<le> i * 4096 \<and> i * 4096 < USIZE_BOUND"

lemma kernel_number_page [simp]: "kernel_page (page_at i) \<longleftrightarrow> kernel_number i"
  by (auto simp: kernel_page_def kernel_number_def)

lemma page_add_numbered: "kernel_number (v + i) \<Longrightarrow> page_add (page_at v) i = Some (page_at (v + i))"
  by (rule page_add_at) (simp add: kernel_number_def)

lemma bm_free_finite: "low_pool s \<Longrightarrow> finite (bm_free s)"
  by (rule finite_subset [of _ "{..<2 ^ 35}"]) (auto simp: low_pool_def dest: subsetD [OF bm.free_managed])

lemma bm_managed_fits:
  assumes "low_pool s" and "i \<in> bm_managed s"
  shows "frame_fits (frame_at i)" and "i * 4096 < USIZE_BOUND"
proof -
  from assms have "i < 2 ^ 35" by (auto simp: low_pool_def)
  then show "frame_fits (frame_at i)" "i * 4096 < USIZE_BOUND" by (simp_all add: frame_fits_def)
qed

text \<open>The translation after \<open>n\<close> pages from number \<open>v\<close> on were mapped to the frames from \<open>f\<close> on.\<close>

definition mapped_on :: "(Page \<Rightarrow> Frame option) \<Rightarrow> nat \<Rightarrow> nat \<Rightarrow> nat \<Rightarrow> Page \<Rightarrow> Frame option" where
  "mapped_on tr v f n p = (if v * 4096 \<le> pgaddr p \<and> pgaddr p < (v + n) * 4096
     then Some (frame_at (f + (pgaddr p div 4096 - v))) else tr p)"

lemma mapped_on_at: "mapped_on tr v f n (page_at i) = (if v \<le> i \<and> i < v + n then Some (frame_at (f + (i - v))) else tr (page_at i))"
  by (simp add: mapped_on_def)

lemma map_step:
  assumes "low_pool s" and "forest (ktable_roots kt) 2 m (bm_free s \<union> X)" and "X \<inter> bm_free s = {}"
    and "kernel_number v" and "frame_fits (frame_at f)" and "kernel_translation kt m (page_at v) = None"
  obtains (no_memory) m' s' where "ktable_map_page bm_allocate_contiguous kt (page_at v) (frame_at f) (m, s) = Some (Inl MapAllocError, m', s')"
      and "card (bm_free s) \<le> 2"
  | (mapped) m' s' where "ktable_map_page bm_allocate_contiguous kt (page_at v) (frame_at f) (m, s) = Some (Inr (), m', s')"
      and "low_pool s'" and "forest (ktable_roots kt) 2 m' (bm_free s' \<union> X)" and "bm_free s' \<subseteq> bm_free s"
      and "bm_managed s' = bm_managed s" and "card (bm_free s) \<le> card (bm_free s') + 2"
      and "\<And>i. kernel_number i \<Longrightarrow> kernel_translation kt m' (page_at i) =
        (if i = v then Some (frame_at f) else kernel_translation kt m (page_at i))"
proof -
  have v: "kernel_page (page_at v)" using assms(4) by simp
  from ktable_map_outcome [OF assms(1-3) v assms(5)] obtain r m' s' where
    run: "ktable_map_page bm_allocate_contiguous kt (page_at v) (frame_at f) (m, s) = Some (r, m', s')"
    and ok: "low_pool s'" "forest (ktable_roots kt) 2 m' (bm_free s' \<union> X)" "bm_free s' \<subseteq> bm_free s"
      "bm_managed s' = bm_managed s" "card (bm_free s) \<le> card (bm_free s') + 2"
    and out: "map_outcome (ktable_roots kt) 2 (pml4_index (page_at v)) (kernel_path (page_at v)) (frame_at f) m (bm_free s') r m'"
    by blast
  show thesis
  proof (cases r)
    case (Inl e)
    with out assms(6) have "e = MapAllocError \<and> bm_free s' = {}"
      by (auto simp: map_outcome_def kernel_translation_def split: MapPageError.splits)
    with no_memory run Inl ok(5) show thesis by simp
  next
    case (Inr u)
    have "kernel_translation kt m' (page_at i) = (if i = v then Some (frame_at f) else kernel_translation kt m (page_at i))"
      if "kernel_number i" for i
      using out Inr kernel_page_inject [of "page_at i" "page_at v"] v that
      by (auto simp: map_outcome_def kernel_translation_def)
    with mapped run Inr ok show thesis by simp
  qed
qed

lemma for_each_snoc: "for_each g (xs @ [x]) s = do { s' \<leftarrow> for_each g xs s; g x s' }"
  by (induction xs arbitrary: s) (auto split: Option.bind_splits)

lemma map_pages_Suc:
  "map_pages hm kt fb pb (Suc n) ms = do {
     ms \<leftarrow> map_pages hm kt fb pb n ms;
     frame \<leftarrow> frame_add fb n;
     page \<leftarrow> page_add pb n;
     (r, ms') \<leftarrow> ktable_map_page (fa_allocate_contiguous hm) kt page frame ms;
     u \<leftarrow> expect_ok r;
     Some ms' }"
  by (simp add: map_pages_def for_each_snoc)

lemma unmap_pages_Suc:
  "unmap_pages kt pb (Suc n) m = do {
     m \<leftarrow> unmap_pages kt pb n m;
     page \<leftarrow> page_add pb n;
     (r, m') \<leftarrow> ktable_unmap_page kt page m;
     u \<leftarrow> expect_ok r;
     Some m' }"
  by (simp add: unmap_pages_def for_each_snoc)

text \<open>Mapping a run of pages: a panic means that the tables used up the memory.\<close>

lemma map_pages_outcome:
  assumes "low_pool s" and "forest (ktable_roots kt) 2 m (bm_free s \<union> X)" and "X \<inter> bm_free s = {}"
    and "\<And>i. i < n \<Longrightarrow> kernel_number (v + i) \<and> f + i \<in> bm_managed s \<and> kernel_translation kt m (page_at (v + i)) = None"
  shows "case map_pages bm_methods kt (frame_at f) (page_at v) n (m, s) of
      None \<Rightarrow> card (bm_free s) \<le> 2 * n
    | Some (m', s') \<Rightarrow> low_pool s' \<and> forest (ktable_roots kt) 2 m' (bm_free s' \<union> X) \<and> bm_free s' \<subseteq> bm_free s \<and>
        bm_managed s' = bm_managed s \<and> card (bm_free s) \<le> card (bm_free s') + 2 * n \<and>
        (\<forall>i. kernel_number i \<longrightarrow> kernel_translation kt m' (page_at i) = mapped_on (kernel_translation kt m) v f n (page_at i))"
  using assms(4)
proof (induction n)
  case 0
  with assms(1,2) show ?case by (auto simp: map_pages_def mapped_on_at)
next
  case (Suc n)
  note IH = Suc.IH [OF Suc.prems]
  show ?case
  proof (cases "map_pages bm_methods kt (frame_at f) (page_at v) n (m, s)")
    case None
    with IH show ?thesis by (simp add: map_pages_Suc)
  next
    case (Some ms)
    obtain m1 s1 where ms: "ms = (m1, s1)" by (cases ms)
    from IH Some ms have s1: "low_pool s1" "forest (ktable_roots kt) 2 m1 (bm_free s1 \<union> X)" "bm_free s1 \<subseteq> bm_free s"
      "bm_managed s1 = bm_managed s" "card (bm_free s) \<le> card (bm_free s1) + 2 * n"
      and tr: "\<And>i. kernel_number i \<Longrightarrow> kernel_translation kt m1 (page_at i) = mapped_on (kernel_translation kt m) v f n (page_at i)"
      by auto
    from Suc.prems [of n] have n: "kernel_number (v + n)" "f + n \<in> bm_managed s1" 
      "kernel_translation kt m1 (page_at (v + n)) = None" using s1(4) tr by (auto simp: mapped_on_at)
    have X: "X \<inter> bm_free s1 = {}" using assms(3) s1(3) by blast
    note fits = bm_managed_fits [OF s1(1) n(2)]
    from s1(1,2) X n(1) fits(1) n(3) show ?thesis
    proof (cases rule: map_step)
      case (no_memory m' s')
      with Some ms s1(5) page_add_numbered [OF n(1)] fits(2) show ?thesis by (simp add: map_pages_Suc)
    next
      case (mapped m' s')
      have "kernel_translation kt m' (page_at i) = mapped_on (kernel_translation kt m) v f (Suc n) (page_at i)"
        if "kernel_number i" for i
        using mapped(7) [OF that] tr [OF that] by (auto simp: mapped_on_at)
      with mapped Some ms s1 page_add_numbered [OF n(1)] fits(2) show ?thesis by (auto simp: map_pages_Suc)
    qed
  qed
qed

text \<open>Unmapping a run of mapped pages always succeeds.\<close>

definition unmapped_on :: "(Page \<Rightarrow> Frame option) \<Rightarrow> nat \<Rightarrow> nat \<Rightarrow> Page \<Rightarrow> Frame option" where
  "unmapped_on tr v n p = (if v * 4096 \<le> pgaddr p \<and> pgaddr p < (v + n) * 4096 then None else tr p)"

lemma unmapped_on_at: "unmapped_on tr v n (page_at i) = (if v \<le> i \<and> i < v + n then None else tr (page_at i))"
  by (simp add: unmapped_on_def)

lemma unmap_pages_outcome:
  assumes "forest (ktable_roots kt) 2 m fr"
    and "\<And>i. i < n \<Longrightarrow> kernel_number (v + i) \<and> kernel_translation kt m (page_at (v + i)) \<noteq> None"
  shows "\<exists>m'. unmap_pages kt (page_at v) n m = Some m' \<and> forest (ktable_roots kt) 2 m' fr \<and>
    (\<forall>i. kernel_number i \<longrightarrow> kernel_translation kt m' (page_at i) = unmapped_on (kernel_translation kt m) v n (page_at i))"
  using assms(2)
proof (induction n)
  case 0
  with assms(1) show ?case by (auto simp: unmap_pages_def unmapped_on_at)
next
  case (Suc n)
  from Suc.IH [OF Suc.prems] obtain m1 where m1: "unmap_pages kt (page_at v) n m = Some m1"
    "forest (ktable_roots kt) 2 m1 fr"
    and tr: "\<And>i. kernel_number i \<Longrightarrow> kernel_translation kt m1 (page_at i) = unmapped_on (kernel_translation kt m) v n (page_at i)"
    by auto
  from Suc.prems [of n] have n: "kernel_number (v + n)" "kernel_translation kt m1 (page_at (v + n)) \<noteq> None"
    using tr by (auto simp: unmapped_on_at)
  from n(1) have "kernel_page (page_at (v + n))" by simp
  from ktable_unmap_outcome [OF m1(2) this] n(2) obtain m' where
    run: "ktable_unmap_page kt (page_at (v + n)) m1 = Some (Inr (), m')" and f: "forest (ktable_roots kt) 2 m' fr"
    and new: "\<And>other. kernel_page other \<Longrightarrow> kernel_translation kt m' other =
      (if other = page_at (v + n) then None else kernel_translation kt m1 other)" by auto
  have "kernel_translation kt m' (page_at i) = unmapped_on (kernel_translation kt m) v (Suc n) (page_at i)"
    if "kernel_number i" for i
    using new [of "page_at i"] tr [OF that] that by (auto simp: unmapped_on_at)
  with m1(1) run f page_add_numbered [OF n(1)] show ?case by (simp add: unmap_pages_Suc)
qed

section \<open>The state and its live mappings\<close>

text \<open>A live mapping is given by its kind, the number of the first page of its range, the number of its
  first frame and the number of frames.\<close>

type_synonym live = "Mappable \<times> nat \<times> nat \<times> nat"

fun guard :: "Mappable \<Rightarrow> nat" where
  "guard RawMmap = 0"
| "guard RawStack = 1"

fun mapping_at :: "live \<Rightarrow> RawMapping" where
  "mapping_at (R, v, f, n) =
    \<lparr>map_physical = \<lparr>of_base = frame_at f, of_len = n\<rparr>, map_virtual_valid_start = page_at (v + guard R)\<rparr>"

fun live_frames :: "live \<Rightarrow> nat set" where
  "live_frames (R, v, f, n) = {f..<f + n}"

fun live_entry :: "live \<Rightarrow> nat \<times> nat" where
  "live_entry (R, v, f, n) = (v, n + guard R)"

fun live_translated :: "(nat \<Rightarrow> Frame option) \<Rightarrow> live \<Rightarrow> bool" where
  "live_translated tr (R, v, f, n) \<longleftrightarrow> 0 < n \<and> (\<forall>i < n. tr (v + guard R + i) = Some (frame_at (f + i))) \<and>
     (\<forall>i < guard R. tr (v + i) = None)"

definition in_use :: "(nat \<times> nat) set \<Rightarrow> nat set" where
  "in_use A = (\<Union>(b, n) \<in> A. {b..<b + n})"

abbreviation frames_used :: "live set \<Rightarrow> nat set" where
  "frames_used L \<equiv> \<Union> (live_frames ` L)"

text \<open>The invariant, over the abstraction functions of an allocator of virtual memory: no free frame and
  no frame of a mapping holds a table, a page outside every allocation is not mapped, every live
  mapping has its range allocated and translated, and two live mappings share neither.\<close>

definition memory_ok ::
  "('v \<Rightarrow> bool) \<Rightarrow> ('v \<Rightarrow> nat set) \<Rightarrow> ('v \<Rightarrow> (nat \<times> nat) set) \<Rightarrow> Frame \<Rightarrow> live set \<Rightarrow>
    (BitmapAllocator, 'v) memory \<Rightarrow> bool" where
  "memory_ok vinv space allocs kt L mem \<longleftrightarrow>
     low_pool (mem_frames mem) \<and> vinv (mem_pages mem) \<and> (\<forall>i \<in> space (mem_pages mem). HALF \<le> i * 4096) \<and>
     forest (ktable_roots kt) 2 (mem_tables mem) (bm_free (mem_frames mem) \<union> frames_used L) \<and>
     frames_used L \<inter> bm_free (mem_frames mem) = {} \<and> frames_used L \<subseteq> bm_managed (mem_frames mem) \<and>
     (\<forall>i \<in> space (mem_pages mem) - in_use (allocs (mem_pages mem)).
        kernel_translation kt (mem_tables mem) (page_at i) = None) \<and>
     live_entry ` L \<subseteq> allocs (mem_pages mem) \<and>
     (\<forall>x \<in> L. live_translated (\<lambda>i. kernel_translation kt (mem_tables mem) (page_at i)) x) \<and>
     (\<forall>x \<in> L. \<forall>y \<in> L. x \<noteq> y \<longrightarrow> live_frames x \<inter> live_frames y = {} \<and> live_entry x \<noteq> live_entry y)"

lemma memory_okD:
  assumes "memory_ok vinv space allocs kt L mem"
  shows "low_pool (mem_frames mem)" and "vinv (mem_pages mem)"
    and "\<And>i. i \<in> space (mem_pages mem) \<Longrightarrow> HALF \<le> i * 4096"
    and "forest (ktable_roots kt) 2 (mem_tables mem) (bm_free (mem_frames mem) \<union> frames_used L)"
    and "frames_used L \<inter> bm_free (mem_frames mem) = {}" and "frames_used L \<subseteq> bm_managed (mem_frames mem)"
    and "\<And>i. i \<in> space (mem_pages mem) \<Longrightarrow> i \<notin> in_use (allocs (mem_pages mem)) \<Longrightarrow>
      kernel_translation kt (mem_tables mem) (page_at i) = None"
    and "\<And>x. x \<in> L \<Longrightarrow> live_entry x \<in> allocs (mem_pages mem)"
    and "\<And>x. x \<in> L \<Longrightarrow> live_translated (\<lambda>i. kernel_translation kt (mem_tables mem) (page_at i)) x"
    and "\<And>x y. x \<in> L \<Longrightarrow> y \<in> L \<Longrightarrow> x \<noteq> y \<Longrightarrow> live_frames x \<inter> live_frames y = {} \<and> live_entry x \<noteq> live_entry y"
proof -
  note ok = assms [unfolded memory_ok_def]
  show "low_pool (mem_frames mem)" "vinv (mem_pages mem)"
    "forest (ktable_roots kt) 2 (mem_tables mem) (bm_free (mem_frames mem) \<union> frames_used L)"
    "frames_used L \<inter> bm_free (mem_frames mem) = {}" "frames_used L \<subseteq> bm_managed (mem_frames mem)"
    using ok by simp_all
  show "HALF \<le> i * 4096" if "i \<in> space (mem_pages mem)" for i using ok that by simp
  show "kernel_translation kt (mem_tables mem) (page_at i) = None"
    if "i \<in> space (mem_pages mem)" "i \<notin> in_use (allocs (mem_pages mem))" for i using ok that by simp
  show "live_entry x \<in> allocs (mem_pages mem)" if "x \<in> L" for x
    using ok that by (simp add: image_subset_iff)
  show "live_translated (\<lambda>i. kernel_translation kt (mem_tables mem) (page_at i)) x" if "x \<in> L" for x
    using ok that by simp
  show "live_frames x \<inter> live_frames y = {} \<and> live_entry x \<noteq> live_entry y" if "x \<in> L" "y \<in> L" "x \<noteq> y" for x y
    using ok that by simp
qed

text \<open>Locations the bitmap allocator serves; alignment and upper bounds are not implemented there.\<close>

definition servable :: "Frame MapLocation \<Rightarrow> usize \<Rightarrow> bool" where
  "servable loc n \<longleftrightarrow> loc = Map_Any \<or> (\<exists>m. loc = Map_At (frame_at m) \<and> (m + n) * 4096 < USIZE_BOUND)"

lemma xnew_outcome:
  assumes "low_pool s" and "0 < n" and "servable loc n"
  obtains (none) "owned_frames_xnew n bm_methods (location_from loc) s = Some (Inl AllocError, s)"
  | (frames) f s' where "owned_frames_xnew n bm_methods (location_from loc) s = Some (Inr \<lparr>of_base = frame_at f, of_len = n\<rparr>, s')"
      and "low_pool s'" and "{f..<f + n} \<subseteq> bm_free s" and "bm_free s' = bm_free s - {f..<f + n}" and "bm_managed s' = bm_managed s"
proof -
  have inv: "bm_inv s" using assms(1) by (simp add: low_pool_def)
  from assms(3) consider "loc = Map_Any" | m where "loc = Map_At (frame_at m)" "(m + n) * 4096 < USIZE_BOUND"
    by (auto simp: servable_def)
  then show thesis
  proof cases
    case 1
    obtain r s' where a: "bm_allocate_contiguous n s = Some (r, s')" using pool.alloc_total [OF assms(1,2)] by blast
    show thesis
    proof (cases r)
      case (Inl e)
      with pool.alloc_err [OF assms(1,2)] a have "s' = s" by blast
      with 1 a Inl none show thesis by (cases e) (simp add: owned_frames_xnew_def owned_frames_new_with_def)
    next
      case (Inr g)
      note ok = pool.alloc_ok [OF assms(1,2) a [unfolded Inr]] pool.alloc_exact [OF assms(1,2) a [unfolded Inr]]
      define f where "f = faddr g div 4096"
      have g: "g = frame_at f" using ok frame_numbered by (simp add: f_def)
      from ok 1 a Inr frames [of f s'] show thesis
        by (simp add: owned_frames_xnew_def owned_frames_new_with_def g)
    qed
  next
    case 2
    show thesis
    proof (cases "{m..<m + n} \<subseteq> bm_free s")
      case True
      with bm_allocate_at_abs [OF inv assms(2) 2(2)] obtain t where
        "bm_allocate_at n (At (frame_at m)) s = Some (Inr (frame_at m), t)" "bm_inv t"
        "bm_free t = bm_free s - {m..<m + n}" "bm_managed t = bm_managed s" by (metis same_region_managed)
      with 2 True assms(1) frames [of m t] show thesis by (simp add: owned_frames_xnew_def low_pool_def)
    next
      case False
      with bm_allocate_at_abs [OF inv assms(2) 2(2)] 2 none show thesis by (simp add: owned_frames_xnew_def)
    qed
  qed
qed

lemma frames_drop:
  assumes "low_pool s" and "{f..<f + n} \<subseteq> bm_managed s" and "0 < n"
  obtains s' where "owned_frames_drop bm_methods \<lparr>of_base = frame_at f, of_len = n\<rparr> s = Some s'" and "low_pool s'"
    and "bm_free s' = bm_free s \<union> {f..<f + n}" and "bm_managed s' = bm_managed s"
  using pool.dealloc_ok [of s "frame_at f" n] assms by (auto simp: owned_frames_drop_def)

lemma guard_simps:
  "n + guard R < USIZE_BOUND \<Longrightarrow> physical_length_to_virtual_length R n = Some (n + guard R)"
  "(v + guard R) * 4096 < USIZE_BOUND \<Longrightarrow>
    page_add_signed (page_at v) (physical_start_offset_from_virtual R) = Some (page_at (v + guard R))"
  "(v + guard R) * 4096 < USIZE_BOUND \<Longrightarrow>
    page_sub_signed (page_at (v + guard R)) (physical_start_offset_from_virtual R) = Some (page_at v)"
  by (cases R; auto simp: page_add_signed_def page_sub_signed_def imul_page_def virt_add_signed_def virt_sub_signed_def ineg_def uadd_signed_def
      PAGE_SIZE_def Let_def)+

lemma live_translated_cong:
  assumes "live_translated tr x" and "\<And>i. i \<in> {fst (live_entry x)..<fst (live_entry x) + snd (live_entry x)} \<Longrightarrow> tr' i = tr i"
  shows "live_translated tr' x"
  using assms by (cases x) auto

lemma in_use_simps [simp]:
  "in_use (insert (b, n) A) = {b..<b + n} \<union> in_use A" "in_use {} = {}"
  by (auto simp: in_use_def)

lemma entry_fresh:
  assumes "0 < k" and "{v..<v + k} \<inter> in_use A = {}"
  shows "(v, k) \<notin> A"
proof
  assume "(v, k) \<in> A"
  with assms(1) have "v \<in> {v..<v + k} \<inter> in_use A" by (force simp: in_use_def)
  with assms(2) show False by simp
qed

text \<open>The invariant after a mapping has been entered.\<close>

lemma memory_ok_insert:
  fixes mem mem' :: "(BitmapAllocator, 'v) memory"
  assumes ok: "memory_ok vinv space allocs kt L mem" and n: "0 < n"
    and pages: "vinv (mem_pages mem')" "space (mem_pages mem') = space (mem_pages mem)"
      "allocs (mem_pages mem') = insert (v, n + guard R) (allocs (mem_pages mem))"
      "{v..<v + (n + guard R)} \<subseteq> space (mem_pages mem)" "{v..<v + (n + guard R)} \<inter> in_use (allocs (mem_pages mem)) = {}"
    and kernel: "\<And>i. i \<in> space (mem_pages mem) \<Longrightarrow> kernel_number i"
    and old: "\<And>b k. (b, k) \<in> allocs (mem_pages mem) \<Longrightarrow> {b..<b + k} \<subseteq> space (mem_pages mem)"
    and frames: "low_pool (mem_frames mem')" "bm_free (mem_frames mem') \<subseteq> bm_free (mem_frames mem) - {f..<f + n}"
      "bm_managed (mem_frames mem') = bm_managed (mem_frames mem)" "{f..<f + n} \<subseteq> bm_free (mem_frames mem)"
    and forest: "forest (ktable_roots kt) 2 (mem_tables mem') (bm_free (mem_frames mem') \<union> frames_used (insert (R, v, f, n) L))"
    and tr: "\<And>i. kernel_number i \<Longrightarrow> kernel_translation kt (mem_tables mem') (page_at i) =
      mapped_on (kernel_translation kt (mem_tables mem)) (v + guard R) f n (page_at i)"
  shows "memory_ok vinv space allocs kt (insert (R, v, f, n) L) mem'" and "(R, v, f, n) \<notin> L"
proof -
  note D = memory_okD [OF ok]
  have new_entry: "(v, n + guard R) \<notin> allocs (mem_pages mem)" by (rule entry_fresh [OF _ pages(5)]) (use n in simp)
  have fr: "{f..<f + n} \<inter> live_frames x = {}" if "x \<in> L" for x using frames(4) D(5) that by blast
  have en: "live_entry x \<noteq> (v, n + guard R)" if "x \<in> L" for x using D(8) [OF that] new_entry by auto
  then show "(R, v, f, n) \<notin> L" by force
  have other: "kernel_translation kt (mem_tables mem') (page_at i) = kernel_translation kt (mem_tables mem) (page_at i)"
    if "i \<in> space (mem_pages mem)" "i \<notin> {v..<v + (n + guard R)}" for i
    using tr [OF kernel [OF that(1)]] that(2) by (auto simp: mapped_on_at)
  have "live_translated (\<lambda>i. kernel_translation kt (mem_tables mem') (page_at i)) x" if x: "x \<in> L" for x
  proof (rule live_translated_cong [OF D(9) [OF x]])
    fix i assume i: "i \<in> {fst (live_entry x)..<fst (live_entry x) + snd (live_entry x)}"
    have "i \<in> in_use (allocs (mem_pages mem))" using D(8) [OF x] i by (force simp: in_use_def)
    moreover have "i \<in> space (mem_pages mem)" using old [of "fst (live_entry x)" "snd (live_entry x)"] D(8) [OF x] i by auto
    ultimately show "kernel_translation kt (mem_tables mem') (page_at i) = kernel_translation kt (mem_tables mem) (page_at i)"
      using other pages(5) by blast
  qed
  moreover have "live_translated (\<lambda>i. kernel_translation kt (mem_tables mem') (page_at i)) (R, v, f, n)"
  proof -
    have "kernel_translation kt (mem_tables mem') (page_at (v + guard R + i)) = Some (frame_at (f + i))" if "i < n" for i
    proof -
      have "v + guard R + i \<in> space (mem_pages mem)" using pages(4) that by auto
      from tr [OF kernel [OF this]] that show ?thesis by (simp add: mapped_on_at)
    qed
    moreover have "kernel_translation kt (mem_tables mem') (page_at (v + i)) = None" if "i < guard R" for i
    proof -
      have i: "v + i \<in> {v..<v + (n + guard R)}" using that by auto
      then have sp: "v + i \<in> space (mem_pages mem)" using pages(4) by blast
      from i pages(5) have "v + i \<notin> in_use (allocs (mem_pages mem))" by blast
      with tr [OF kernel [OF sp]] D(7) [OF sp] that show ?thesis by (simp add: mapped_on_at)
    qed
    ultimately show ?thesis using n by simp
  qed
  moreover have "kernel_translation kt (mem_tables mem') (page_at i) = None"
    if "i \<in> space (mem_pages mem) - in_use (allocs (mem_pages mem'))" for i
    using that other [of i] D(7) [of i] by (simp add: pages(3))
  moreover have "frames_used (insert (R, v, f, n) L) \<inter> bm_free (mem_frames mem') = {}"
    using frames(2) D(5) by auto
  moreover have "frames_used (insert (R, v, f, n) L) \<subseteq> bm_managed (mem_frames mem')"
    using frames(3,4) D(6) pool.free_managed [OF D(1)] by auto
  moreover have "live_entry ` insert (R, v, f, n) L \<subseteq> allocs (mem_pages mem')" using D(8) by (auto simp: pages(3))
  moreover have "live_frames x \<inter> live_frames y = {} \<and> live_entry x \<noteq> live_entry y"
    if x: "x \<in> insert (R, v, f, n) L" and y: "y \<in> insert (R, v, f, n) L" and ne: "x \<noteq> y" for x y
  proof -
    from x y ne consider "x \<in> L" "y \<in> L" | "x = (R, v, f, n)" "y \<in> L" | "x \<in> L" "y = (R, v, f, n)" by blast
    then show ?thesis
    proof cases
      case 1
      from D(10) [OF this ne] show ?thesis .
    next
      case 2
      with fr [OF 2(2)] en [OF 2(2), symmetric] show ?thesis by simp
    next
      case 3
      with fr [OF 3(1)] en [OF 3(1)] show ?thesis by (simp add: Int_commute)
    qed
  qed
  ultimately show "memory_ok vinv space allocs kt (insert (R, v, f, n) L) mem'"
    unfolding memory_ok_def using pages(1,2) frames(1) forest D(3) by simp
qed

text \<open>The invariant after a mapping has been removed.\<close>

lemma memory_ok_remove:
  fixes mem mem' :: "(BitmapAllocator, 'v) memory"
  assumes ok: "memory_ok vinv space allocs kt L mem" and x: "(R, v, f, n) \<in> L"
    and pages: "vinv (mem_pages mem')" "space (mem_pages mem') = space (mem_pages mem)"
      "allocs (mem_pages mem') = allocs (mem_pages mem) - {(v, n + guard R)}"
    and kernel: "\<And>i. i \<in> space (mem_pages mem) \<Longrightarrow> kernel_number i"
    and old: "\<And>b k. (b, k) \<in> allocs (mem_pages mem) \<Longrightarrow> {b..<b + k} \<subseteq> space (mem_pages mem)"
    and apart: "\<And>b k. (b, k) \<in> allocs (mem_pages mem) \<Longrightarrow> (b, k) = (v, n + guard R) \<or> {b..<b + k} \<inter> {v..<v + (n + guard R)} = {}"
    and frames: "low_pool (mem_frames mem')" "bm_free (mem_frames mem') = bm_free (mem_frames mem) \<union> {f..<f + n}"
      "bm_managed (mem_frames mem') = bm_managed (mem_frames mem)"
    and forest: "forest (ktable_roots kt) 2 (mem_tables mem') (bm_free (mem_frames mem) \<union> frames_used L)"
    and tr: "\<And>i. kernel_number i \<Longrightarrow> kernel_translation kt (mem_tables mem') (page_at i) =
      unmapped_on (kernel_translation kt (mem_tables mem)) (v + guard R) n (page_at i)"
  shows "memory_ok vinv space allocs kt (L - {(R, v, f, n)}) mem'"
proof -
  note D = memory_okD [OF ok]
  let ?L = "L - {(R, v, f, n)}"
  have used: "bm_free (mem_frames mem') \<union> frames_used ?L = bm_free (mem_frames mem) \<union> frames_used L"
    using x frames(2) by auto
  have g: "kernel_translation kt (mem_tables mem) (page_at (v + i)) = None" if "i < guard R" for i
    using D(9) [OF x] that by simp
  have fr: "live_frames y \<inter> {f..<f + n} = {}" and en: "live_entry y \<noteq> (v, n + guard R)" if "y \<in> ?L" for y
    using D(10) [of y "(R, v, f, n)"] x that by auto
  have "live_translated (\<lambda>i. kernel_translation kt (mem_tables mem') (page_at i)) y" if y: "y \<in> ?L" for y
  proof (rule live_translated_cong [OF D(9)])
    show "y \<in> L" using y by simp
    fix i assume i: "i \<in> {fst (live_entry y)..<fst (live_entry y) + snd (live_entry y)}"
    have e: "(fst (live_entry y), snd (live_entry y)) \<in> allocs (mem_pages mem)" using D(8) [of y] y by simp
    with old i have sp: "i \<in> space (mem_pages mem)" by blast
    from apart [OF e] en [OF y] i have "i \<notin> {v..<v + (n + guard R)}" by (cases "live_entry y") auto
    with tr [OF kernel [OF sp]]
    show "kernel_translation kt (mem_tables mem') (page_at i) = kernel_translation kt (mem_tables mem) (page_at i)"
      by (auto simp: unmapped_on_at)
  qed
  moreover have "kernel_translation kt (mem_tables mem') (page_at i) = None"
    if i: "i \<in> space (mem_pages mem) - in_use (allocs (mem_pages mem'))" for i
  proof (cases "i \<in> {v..<v + (n + guard R)}")
    case True
    have "kernel_translation kt (mem_tables mem) (page_at i) = None" if "i < v + guard R"
    proof -
      have "i = v + (i - v)" "i - v < guard R" using True that by auto
      with g [of "i - v"] show ?thesis by simp
    qed
    then show ?thesis using tr [OF kernel, of i] i True by (auto simp: unmapped_on_at)
  next
    case False
    then have "i \<notin> in_use (allocs (mem_pages mem))" using i by (force simp: in_use_def pages(3))
    then show ?thesis using tr [OF kernel, of i] i D(7) [of i] by (simp add: unmapped_on_at)
  qed
  moreover have "frames_used ?L \<inter> bm_free (mem_frames mem') = {}" using fr frames(2) D(5) by blast
  moreover have "frames_used ?L \<subseteq> bm_managed (mem_frames mem')" using frames(3) D(6) by auto
  moreover have "live_entry ` ?L \<subseteq> allocs (mem_pages mem')" 
  proof (rule image_subsetI)
    fix y assume y: "y \<in> ?L"
    with D(8) [of y] en [OF y] show "live_entry y \<in> allocs (mem_pages mem')" by (simp add: pages(3))
  qed
  moreover have "live_frames y \<inter> live_frames z = {} \<and> live_entry y \<noteq> live_entry z"
    if "y \<in> ?L" "z \<in> ?L" "y \<noteq> z" for y z
    using that D(10) [of y z] by simp
  ultimately show "memory_ok vinv space allocs kt ?L mem'"
    unfolding memory_ok_def used using pages(1,2) frames(1) forest D(3) by simp
qed

section \<open>Making and dropping a mapping\<close>

context page_pool
begin

lemma space_kernel:
  assumes "memory_ok vinv space allocs kt L mem" and "i \<in> space (mem_pages mem)"
  shows "kernel_number i"
  using memory_okD(2,3) [OF assms(1)] space_bound [of "mem_pages mem" i] assms(2) by (simp add: kernel_number_def)

lemma space_card:
  assumes "vinv v"
  shows "finite (space v)" and "card (space v) < USIZE_BOUND"
proof -
  have b: "space v \<subseteq> {..<2 ^ 52}" using space_bound [OF assms] by fastforce
  then show "finite (space v)" by (rule finite_subset) simp
  from card_mono [OF _ b] show "card (space v) < USIZE_BOUND" by simp
qed

text \<open>Entering frames and pages that have just been allocated into the tables.\<close>

lemma map_allocated:
  fixes mem :: "(BitmapAllocator, 'v) memory"
  assumes ok: "memory_ok vinv space allocs kt L mem" and n: "0 < n"
    and s: "low_pool s" "{f..<f + n} \<subseteq> bm_free (mem_frames mem)" "bm_free s = bm_free (mem_frames mem) - {f..<f + n}"
      "bm_managed s = bm_managed (mem_frames mem)"
    and w: "vinv w" "space w = space (mem_pages mem)" "allocs w = insert (v, n + guard R) (allocs (mem_pages mem))"
      "{v..<v + (n + guard R)} \<subseteq> space (mem_pages mem)" "{v..<v + (n + guard R)} \<inter> in_use (allocs (mem_pages mem)) = {}"
  shows "case map_pages bm_methods kt (frame_at f) (page_at (v + guard R)) n (mem_tables mem, s) of
      None \<Rightarrow> card (bm_free (mem_frames mem)) \<le> 3 * n
    | Some (m', s') \<Rightarrow>
        memory_ok vinv space allocs kt (insert (R, v, f, n) L) \<lparr>mem_tables = m', mem_frames = s', mem_pages = w\<rparr> \<and>
        (R, v, f, n) \<notin> L \<and> bm_free s' \<subseteq> bm_free (mem_frames mem) - {f..<f + n} \<and>
        (\<forall>i. kernel_number i \<longrightarrow> kernel_translation kt m' (page_at i) =
          mapped_on (kernel_translation kt (mem_tables mem)) (v + guard R) f n (page_at i))"
proof -
  note D = memory_okD [OF ok]
  let ?X = "frames_used (insert (R, v, f, n) L)"
  have X: "bm_free s \<union> ?X = bm_free (mem_frames mem) \<union> frames_used L" using s(2,3) by auto
  have f: "forest (ktable_roots kt) 2 (mem_tables mem) (bm_free s \<union> ?X)" using D(4) by (simp only: X)
  have d: "?X \<inter> bm_free s = {}" using s(3) D(5) by auto
  have "kernel_number (v + guard R + i) \<and> f + i \<in> bm_managed s \<and>
      kernel_translation kt (mem_tables mem) (page_at (v + guard R + i)) = None" if "i < n" for i
  proof -
    have i: "v + guard R + i \<in> {v..<v + (n + guard R)}" using that by simp
    with w(4) have sp: "v + guard R + i \<in> space (mem_pages mem)" by blast
    from i w(5) have "v + guard R + i \<notin> in_use (allocs (mem_pages mem))" by blast
    moreover have "f + i \<in> {f..<f + n}" using that by simp
    then have "f + i \<in> bm_managed s" using s(2,4) pool.free_managed [OF D(1)] by blast
    ultimately show ?thesis using D(7) [OF sp] space_kernel [OF ok sp] by simp
  qed
  note out = map_pages_outcome [where n = n, OF s(1) f d this]
  have card: "card (bm_free (mem_frames mem)) \<le> card (bm_free s) + n"
    using card_Diff_subset [of "{f..<f + n}" "bm_free (mem_frames mem)"] s(2,3) by simp
  show ?thesis
  proof (cases "map_pages bm_methods kt (frame_at f) (page_at (v + guard R)) n (mem_tables mem, s)")
    case None
    with out card show ?thesis by simp
  next
    case (Some ms)
    obtain m' s' where ms: "ms = (m', s')" by (cases ms)
    let ?mem = "\<lparr>mem_tables = m', mem_frames = s', mem_pages = w\<rparr>"
    from out Some ms have o: "low_pool s'" "forest (ktable_roots kt) 2 m' (bm_free s' \<union> ?X)" "bm_free s' \<subseteq> bm_free s"
      "bm_managed s' = bm_managed s" "\<And>i. kernel_number i \<Longrightarrow> kernel_translation kt m' (page_at i) =
        mapped_on (kernel_translation kt (mem_tables mem)) (v + guard R) f n (page_at i)" by auto
    have old: "{b..<b + k} \<subseteq> space (mem_pages mem)" if "(b, k) \<in> allocs (mem_pages mem)" for b k
      using allocs_space [OF D(2) that] by simp
    have fr: "bm_free s' \<subseteq> bm_free (mem_frames mem) - {f..<f + n}" "bm_managed s' = bm_managed (mem_frames mem)"
      using o(3,4) s(3,4) by simp_all
    note ins = memory_ok_insert [where mem' = ?mem, unfolded memory.select_convs,
        OF ok n w space_kernel [OF ok] old o(1) fr s(2) o(2,5)]
    show ?thesis unfolding Some ms using ins fr(1) o(5) by simp
  qed
qed

lemma mapping_new_cases:
  fixes mem :: "(BitmapAllocator, 'v) memory"
  assumes ok: "memory_ok vinv space allocs kt L mem" and V: "pa_allocate_contiguous V = valloc"
    and n: "cfg_length config = n" "0 < n" "n + guard R \<le> card (space (mem_pages mem))"
    and loc: "servable (cfg_physical_location config) n"
  obtains (refused) mem' where "mapping_new bm_methods kt bm_methods V R config mem = Some (Inl AllocError, mem')"
      and "memory_ok vinv space allocs kt L mem'" and "mem_tables mem' = mem_tables mem" and "mem_pages mem' = mem_pages mem"
      and "bm_free (mem_frames mem') = bm_free (mem_frames mem)"
  | (made) v f mem' where "mapping_new bm_methods kt bm_methods V R config mem = Some (Inr (mapping_at (R, v, f, n)), mem')"
      and "memory_ok vinv space allocs kt (insert (R, v, f, n) L) mem'" and "(R, v, f, n) \<notin> L"
      and "allocs (mem_pages mem') = insert (v, n + guard R) (allocs (mem_pages mem))"
      and "{f..<f + n} \<subseteq> bm_free (mem_frames mem)"
      and "bm_free (mem_frames mem') \<subseteq> bm_free (mem_frames mem) - {f..<f + n}"
      and "\<And>i. kernel_number i \<Longrightarrow> kernel_translation kt (mem_tables mem') (page_at i) =
        mapped_on (kernel_translation kt (mem_tables mem)) (v + guard R) f n (page_at i)"
      and "\<And>i. v \<le> i \<Longrightarrow> i < v + (n + guard R) \<Longrightarrow> kernel_translation kt (mem_tables mem) (page_at i) = None"
      and "(v, n + guard R) \<notin> allocs (mem_pages mem)"
  | (panics) "mapping_new bm_methods kt bm_methods V R config mem = None"
      and "valloc (n + guard R) (mem_pages mem) = None \<or> card (bm_free (mem_frames mem)) \<le> 3 * n"
proof -
  note D = memory_okD [OF ok]
  have N: "physical_length_to_virtual_length R n = Some (n + guard R)"
    using n(3) space_card(2) [OF D(2)] by (intro guard_simps) simp
  note mapping_new_def [simp] owned_pages_new_with_def [simp] owned_pages_into_raw_parts_def [simp]
  from D(1) n(2) loc show thesis
  proof (cases rule: xnew_outcome)
    case none
    with ok refused [of mem] N n(1) show thesis by simp
  next
    case (frames f s)
    show thesis
    proof (cases "valloc (n + guard R) (mem_pages mem)")
      case None
      with frames N n(1) V panics show thesis by simp
    next
      case (Some rv)
      show thesis
      proof (cases "fst rv")
        case (Inl e)
        have v: "snd rv = mem_pages mem" using valloc_err [OF D(2), of "n + guard R" e "snd rv"] n(2) Some Inl by (cases rv) auto
        have "{f..<f + n} \<subseteq> bm_managed s" using frames pool.free_managed [OF D(1)] by auto
        from frames(2) this n(2) obtain s' where s': "owned_frames_drop bm_methods \<lparr>of_base = frame_at f, of_len = n\<rparr> s = Some s'" "low_pool s'"
          "bm_free s' = bm_free s \<union> {f..<f + n}" "bm_managed s' = bm_managed s" by (rule frames_drop)
        let ?mem = "mem\<lparr>mem_frames := s', mem_pages := mem_pages mem\<rparr>"
        have fr: "bm_free s' = bm_free (mem_frames mem)" using s'(3) frames(3,4) by auto
        have "memory_ok vinv space allocs kt L ?mem" using ok s'(2,4) fr frames(5) by (simp add: memory_ok_def)
        with refused [of ?mem] frames(1) N n(1) V Some Inl v s'(1) fr show thesis by (cases rv; cases e) simp
      next
        case (Inr p)
        then have va: "valloc (n + guard R) (mem_pages mem) = Some (Inr p, snd rv)" using Some by (cases rv) simp
        define v where "v = pgaddr p div 4096"
        from valloc_ok [OF D(2) _ n(3) va] n(2) have v: "vinv (snd rv)" "space (snd rv) = space (mem_pages mem)" "p = page_at v"
          "{v..<v + (n + guard R)} \<subseteq> space (mem_pages mem)" "allocs (snd rv) = insert (v, n + guard R) (allocs (mem_pages mem))"
          "{v..<v + (n + guard R)} \<inter> in_use (allocs (mem_pages mem)) = {}"
          by (auto simp: v_def pages_of_def in_use_def intro: page_numbered)
        have "(v + guard R) * 4096 < USIZE_BOUND"
          using v(4) n(2) space_bound [OF D(2), of "v + guard R"] by (simp add: subset_iff)
        note off = guard_simps(2) [OF this]
        note out = map_allocated [OF ok n(2) frames(2-5) v(1,2,5,4,6)]
        show thesis
        proof (cases "map_pages bm_methods kt (frame_at f) (page_at (v + guard R)) n (mem_tables mem, s)")
          case None
          with out panics frames(1) N n(1) V va v(3) off show thesis by simp
        next
          case (Some ms)
          have "kernel_translation kt (mem_tables mem) (page_at i) = None" if "v \<le> i" "i < v + (n + guard R)" for i
          proof -
            have "i \<in> {v..<v + (n + guard R)}" using that by simp
            with v(4,6) show ?thesis by (intro D(7)) blast+
          qed
          moreover have "(v, n + guard R) \<notin> allocs (mem_pages mem)"
            by (rule entry_fresh [OF _ v(6)]) (use n(2) in simp)
          ultimately show thesis using Some out made [of v f "\<lparr>mem_tables = fst ms, mem_frames = snd ms, mem_pages = snd rv\<rparr>"]
            frames(1,3) N n(1) V va v(3,5) off by (cases ms) simp
        qed
      qed
    qed
  qed
qed

lemma mapping_drop_outcome:
  fixes mem :: "(BitmapAllocator, 'v) memory"
  assumes ok: "memory_ok vinv space allocs kt L mem" and V: "pa_deallocate_contiguous V = vdealloc"
    and x: "(R, v, f, n) \<in> L"
  shows "\<exists>mem'. mapping_drop kt bm_methods V R (mapping_at (R, v, f, n)) mem = Some mem' \<and>
    memory_ok vinv space allocs kt (L - {(R, v, f, n)}) mem' \<and>
    bm_free (mem_frames mem') = bm_free (mem_frames mem) \<union> {f..<f + n} \<and>
    allocs (mem_pages mem') = allocs (mem_pages mem) - {(v, n + guard R)} \<and>
    (\<forall>i. kernel_number i \<longrightarrow> kernel_translation kt (mem_tables mem') (page_at i) =
      unmapped_on (kernel_translation kt (mem_tables mem)) (v + guard R) n (page_at i))"
proof -
  note D = memory_okD [OF ok]
  from D(9) [OF x] have n: "0 < n"
    and tr: "\<And>i. i < n \<Longrightarrow> kernel_translation kt (mem_tables mem) (page_at (v + guard R + i)) = Some (frame_at (f + i))" by auto
  from D(8) [OF x] have e: "(v, n + guard R) \<in> allocs (mem_pages mem)" by simp
  note sp = allocs_space [OF D(2) e]
  have k: "kernel_number (v + i)" if "i < n + guard R" for i
    using sp that by (intro space_kernel [OF ok]) (simp add: subset_iff)
  obtain m' where m': "unmap_pages kt (page_at (v + guard R)) n (mem_tables mem) = Some m'"
    "forest (ktable_roots kt) 2 m' (bm_free (mem_frames mem) \<union> frames_used L)"
    "\<And>i. kernel_number i \<Longrightarrow> kernel_translation kt m' (page_at i) =
      unmapped_on (kernel_translation kt (mem_tables mem)) (v + guard R) n (page_at i)"
    using unmap_pages_outcome [OF D(4), of n "v + guard R"] k [of "guard R + i" for i] tr by (auto simp: add.assoc)
  obtain w where w: "vdealloc (page_at v) (n + guard R) (mem_pages mem) = Some w" "vinv w" "space w = space (mem_pages mem)"
    "allocs w = allocs (mem_pages mem) - {(v, n + guard R)}" using vdealloc_ok [OF D(2) e] by blast
  have "{f..<f + n} \<subseteq> bm_managed (mem_frames mem)" using D(6) x by force
  from D(1) this n obtain s where s: "owned_frames_drop bm_methods \<lparr>of_base = frame_at f, of_len = n\<rparr> (mem_frames mem) = Some s"
    "low_pool s" "bm_free s = bm_free (mem_frames mem) \<union> {f..<f + n}" "bm_managed s = bm_managed (mem_frames mem)" by (rule frames_drop)
  let ?mem = "\<lparr>mem_tables = m', mem_frames = s, mem_pages = w\<rparr>"
  have old: "{b..<b + j} \<subseteq> space (mem_pages mem)" if "(b, j) \<in> allocs (mem_pages mem)" for b j
    using allocs_space [OF D(2) that] by simp
  note rem = memory_ok_remove [where mem' = ?mem, unfolded memory.select_convs,
      OF ok x w(2-4) space_kernel [OF ok] old allocs_disjoint [OF D(2) _ e] s(2-4) m'(2,3)]
  have v: "(v + guard R) * 4096 < USIZE_BOUND" using k [of "guard R"] n by (simp add: kernel_number_def)
  have "n + guard R < USIZE_BOUND"
    using card_mono [OF space_card(1) [OF D(2)] conjunct2 [OF sp]] space_card(2) [OF D(2)] by simp
  with guard_simps(1) guard_simps(3) [OF v] m'(1) w(1) s(1) V
  have "mapping_drop kt bm_methods V R (mapping_at (R, v, f, n)) mem = Some ?mem"
    by (simp add: mapping_drop_def map_virtual_start_def map_virtual_len_def map_physical_len_def
        owned_pages_drop_def owned_pages_from_raw_parts_def)
  with rem s(3) w(4) m'(3) show ?thesis by (intro exI [of _ ?mem]) simp
qed

end

section \<open>Runs of the kernel's mappings\<close>

abbreviation vma_methods :: "RangedBtreeAllocator page_allocator" where
  "vma_methods \<equiv> \<lparr>pa_allocate_contiguous = vma_allocate_contiguous, pa_allocate_contiguous_at = vma_allocate_contiguous_at,
    pa_deallocate_contiguous = vma_deallocate_contiguous\<rparr>"

abbreviation kernel_memory_ok :: "Frame \<Rightarrow> live set \<Rightarrow> (BitmapAllocator, RangedBtreeAllocator) memory \<Rightarrow> bool" where
  "kernel_memory_ok \<equiv> memory_ok vma_inv vma_space vma_allocs"

text \<open>A step makes a mapping, fails to make one, or drops one that is live. A request has at least one
  page, fits the address space, and asks for frames anywhere or at a given place.\<close>

definition sensible :: "Mappable \<Rightarrow> MappingConfig \<Rightarrow> RangedBtreeAllocator \<Rightarrow> bool" where
  "sensible R config v \<longleftrightarrow> 0 < cfg_length config \<and> cfg_length config + guard R \<le> card (vma_space v) \<and>
     servable (cfg_physical_location config) (cfg_length config)"

type_synonym mapping_state = "(Mappable \<times> RawMapping) list \<times> (BitmapAllocator, RangedBtreeAllocator) memory"

inductive mapping_step :: "Frame \<Rightarrow> mapping_state \<Rightarrow> mapping_state \<Rightarrow> bool" for kt where
  make: "sensible R config (mem_pages mem) \<Longrightarrow> mapping_new bm_methods kt bm_methods vma_methods R config mem = Some (Inr m, mem') \<Longrightarrow>
    mapping_step kt (ms, mem) ((R, m) # ms, mem')"
| refuse: "sensible R config (mem_pages mem) \<Longrightarrow> mapping_new bm_methods kt bm_methods vma_methods R config mem = Some (Inl e, mem') \<Longrightarrow>
    mapping_step kt (ms, mem) (ms, mem')"
| drop: "mapping_drop kt bm_methods vma_methods R m mem = Some mem' \<Longrightarrow> mapping_step kt (ms @ (R, m) # ms', mem) (ms @ ms', mem')"

definition tracked :: "Frame \<Rightarrow> live list \<Rightarrow> mapping_state \<Rightarrow> bool" where
  "tracked kt xs st \<longleftrightarrow> distinct xs \<and> fst st = map (\<lambda>x. (fst x, mapping_at x)) xs \<and> kernel_memory_ok kt (set xs) (snd st)"

lemma mapping_at_inject: "mapping_at (R, v, f, n) = mapping_at (R, v', f', n') \<longleftrightarrow> v = v' \<and> f = f' \<and> n = n'"
  by auto

lemma kernel_new_cases:
  assumes ok: "kernel_memory_ok kt L mem" and s: "sensible R config (mem_pages mem)"
  obtains (refused) mem' where "mapping_new bm_methods kt bm_methods vma_methods R config mem = Some (Inl AllocError, mem')"
      and "kernel_memory_ok kt L mem'" and "mem_tables mem' = mem_tables mem" and "mem_pages mem' = mem_pages mem"
      and "bm_free (mem_frames mem') = bm_free (mem_frames mem)"
  | (made) v f mem' where "mapping_new bm_methods kt bm_methods vma_methods R config mem = Some (Inr (mapping_at (R, v, f, cfg_length config)), mem')"
      and "kernel_memory_ok kt (insert (R, v, f, cfg_length config) L) mem'" and "(R, v, f, cfg_length config) \<notin> L"
      and "vma_allocs (mem_pages mem') = insert (v, cfg_length config + guard R) (vma_allocs (mem_pages mem))"
      and "{f..<f + cfg_length config} \<subseteq> bm_free (mem_frames mem)"
      and "bm_free (mem_frames mem') \<subseteq> bm_free (mem_frames mem) - {f..<f + cfg_length config}"
      and "\<And>i. kernel_number i \<Longrightarrow> kernel_translation kt (mem_tables mem') (page_at i) =
        mapped_on (kernel_translation kt (mem_tables mem)) (v + guard R) f (cfg_length config) (page_at i)"
      and "\<And>i. v \<le> i \<Longrightarrow> i < v + (cfg_length config + guard R) \<Longrightarrow> kernel_translation kt (mem_tables mem) (page_at i) = None"
      and "(v, cfg_length config + guard R) \<notin> vma_allocs (mem_pages mem)"
  | (panics) "mapping_new bm_methods kt bm_methods vma_methods R config mem = None"
      and "vma_allocate_contiguous (cfg_length config + guard R) (mem_pages mem) = None \<or>
        card (bm_free (mem_frames mem)) \<le> 3 * cfg_length config"
proof -
  have V: "pa_allocate_contiguous vma_methods = vma_allocate_contiguous" by simp
  from s have s': "0 < cfg_length config" "cfg_length config + guard R \<le> card (vma_space (mem_pages mem))"
    "servable (cfg_physical_location config) (cfg_length config)" by (simp_all add: sensible_def)
  show thesis
    by (rule vma.mapping_new_cases [OF ok V refl s']) (blast intro: refused made panics)+
qed

lemma tracked_step:
  assumes "mapping_step kt st st'" and "tracked kt xs st"
  shows "\<exists>xs'. tracked kt xs' st'"
  using assms
proof (cases rule: mapping_step.cases)
  case (make R config mem m mem' ms)
  have ok: "kernel_memory_ok kt (set xs) mem" using assms(2) make(1) by (simp add: tracked_def)
  from ok make(3) show ?thesis
  proof (cases rule: kernel_new_cases)
    case (made v f mem1)
    with make assms(2) have "tracked kt ((R, v, f, cfg_length config) # xs) st'" by (auto simp: tracked_def)
    then show ?thesis ..
  qed (use make in simp_all)
next
  case (refuse R config mem e mem' ms)
  have ok: "kernel_memory_ok kt (set xs) mem" using assms(2) refuse(1) by (simp add: tracked_def)
  from ok refuse(3) show ?thesis
  proof (cases rule: kernel_new_cases)
    case (refused mem1)
    with refuse assms(2) have "tracked kt xs st'" by (auto simp: tracked_def)
    then show ?thesis ..
  qed (use refuse in simp_all)
next
  case (drop R m mem mem' ms ms')
  from assms(2) drop(1) obtain ys x zs where xs: "xs = ys @ x # zs" "ms = map (\<lambda>x. (fst x, mapping_at x)) ys"
    "(R, m) = (fst x, mapping_at x)" "ms' = map (\<lambda>x. (fst x, mapping_at x)) zs" and d: "distinct xs"
    and ok: "kernel_memory_ok kt (set xs) mem" by (auto simp: tracked_def map_eq_append_conv map_eq_Cons_conv append_eq_map_conv Cons_eq_map_conv)
  obtain v f n where x: "x = (R, v, f, n)" using xs(3) by (cases x) auto
  have V: "pa_deallocate_contiguous vma_methods = vma_deallocate_contiguous" by simp
  have "(R, v, f, n) \<in> set xs" using xs(1) x by simp
  from vma.mapping_drop_outcome [OF ok V this] xs(3) x drop(3) have "kernel_memory_ok kt (set xs - {x}) mem'" by auto
  moreover have "set xs - {x} = set (ys @ zs)" using d xs(1) by auto
  ultimately have "tracked kt (ys @ zs) st'" using d xs drop(2) by (simp add: tracked_def)
  then show ?thesis ..
qed

lemma tracked_run:
  assumes "(mapping_step kt)\<^sup>*\<^sup>* st st'" and "tracked kt xs st"
  shows "\<exists>xs'. tracked kt xs' st'"
  using assms
proof (induction arbitrary: xs)
  case (step st1 st2)
  then obtain ys where "tracked kt ys st1" by blast
  with step.hyps(2) show ?case by (rule tracked_step)
qed blast

text \<open>What the invariant says of live mappings in terms of the code.\<close>

lemma live_apart:
  assumes "kernel_memory_ok kt L mem" and "x \<in> L" and "y \<in> L" and "x \<noteq> y"
  shows "frames_of (map_physical_start (mapping_at x)) (map_physical_len (mapping_at x)) \<inter>
      frames_of (map_physical_start (mapping_at y)) (map_physical_len (mapping_at y)) = {}"
    and "pages_of (map_virtual_valid_start (mapping_at x)) (map_physical_len (mapping_at x)) \<inter>
      pages_of (map_virtual_valid_start (mapping_at y)) (map_physical_len (mapping_at y)) = {}"
proof -
  note D = memory_okD [OF assms(1)]
  obtain R v f n where x: "x = (R, v, f, n)" by (cases x)
  obtain R' v' f' n' where y: "y = (R', v', f', n')" by (cases y)
  from D(10) [OF assms(2-4)] x y have fr: "{f..<f + n} \<inter> {f'..<f' + n'} = {}"
    and en: "(v, n + guard R) \<noteq> (v', n' + guard R')" by simp_all
  from fr show "frames_of (map_physical_start (mapping_at x)) (map_physical_len (mapping_at x)) \<inter>
      frames_of (map_physical_start (mapping_at y)) (map_physical_len (mapping_at y)) = {}"
    by (simp add: x y map_physical_start_def map_physical_len_def)
  have "(v, n + guard R) \<in> vma_allocs (mem_pages mem)" "(v', n' + guard R') \<in> vma_allocs (mem_pages mem)"
    using D(8) [OF assms(2)] D(8) [OF assms(3)] x y by simp_all
  from vma_allocs_disjoint [OF D(2) this] en have "{v..<v + (n + guard R)} \<inter> {v'..<v' + (n' + guard R')} = {}" by blast
  then have "{v + guard R..<v + guard R + n} \<inter> {v' + guard R'..<v' + guard R' + n'} = {}" by (auto simp: disjoint_iff)
  then show "pages_of (map_virtual_valid_start (mapping_at x)) (map_physical_len (mapping_at x)) \<inter>
      pages_of (map_virtual_valid_start (mapping_at y)) (map_physical_len (mapping_at y)) = {}"
    by (simp add: x y pages_of_def map_physical_len_def)
qed

lemma live_works:
  assumes ok: "kernel_memory_ok kt L mem" and x: "(R, v, f, n) \<in> L" and m: "m = mapping_at (R, v, f, n)"
  shows "(\<forall>i < map_physical_len m. \<exists>page frame. page_add (map_virtual_valid_start m) i = Some page \<and>
        frame_add (map_physical_start m) i = Some frame \<and> kernel_translation kt (mem_tables mem) page = Some frame) \<and>
      (R = RawStack \<longrightarrow> (\<exists>page. page_sub (map_virtual_valid_start m) 1 = Some page \<and>
        kernel_translation kt (mem_tables mem) page = None)) \<and>
      mapping_drop kt bm_methods vma_methods R m mem \<noteq> None"
proof (intro conjI allI impI)
  note D = memory_okD [OF ok]
  from D(9) [OF x] have tr: "kernel_translation kt (mem_tables mem) (page_at (v + guard R + i)) = Some (frame_at (f + i))"
    if "i < n" for i using that by simp
  from D(8) [OF x] vma.allocs_space [OF D(2)] have sp: "{v..<v + (n + guard R)} \<subseteq> vma_space (mem_pages mem)" by simp
  fix i assume i: "i < map_physical_len m"
  then have i': "i < n" by (simp add: m map_physical_len_def)
  then have "kernel_number (v + guard R + i)" using sp by (intro vma.space_kernel [OF ok]) (simp add: subset_iff)
  moreover have "f + i \<in> bm_managed (mem_frames mem)" using D(6) x i' by force
  ultimately show "\<exists>page frame. page_add (map_virtual_valid_start m) i = Some page \<and>
      frame_add (map_physical_start m) i = Some frame \<and> kernel_translation kt (mem_tables mem) page = Some frame"
    using tr [OF i'] page_add_numbered bm_managed_fits(2) [OF D(1)] by (simp add: m map_physical_start_def)
next
  assume R: "R = RawStack"
  have "page_sub (page_at (v + 1)) 1 = Some (page_at v)"
    by (simp add: page_sub_def virt_sub_def PAGE_SIZE_def rust_simps distrib_right)
  then show "\<exists>page. page_sub (map_virtual_valid_start m) 1 = Some page \<and> kernel_translation kt (mem_tables mem) page = None"
    using memory_okD(9) [OF ok x] R by (simp add: m)
next
  have V: "pa_deallocate_contiguous vma_methods = vma_deallocate_contiguous" by simp
  from vma.mapping_drop_outcome [OF ok V x] show "mapping_drop kt bm_methods vma_methods R m mem \<noteq> None" unfolding m by auto
qed

text \<open>A small kernel: empty tables, a small pool of frames and sixteen pages of the upper half.\<close>

definition memory_small :: "(BitmapAllocator, RangedBtreeAllocator) memory" where
  "memory_small = \<lparr>mem_tables = (\<lambda>t. table_empty), mem_frames = bm_small,
    mem_pages = vma_new (page_at (0xffff800000000 + 2 ^ 34), page_at (0xffff800000010 + 2 ^ 34))\<rparr>"

lemma memory_small_ok: "kernel_memory_ok (frame_at 256) {} memory_small"
proof -
  have "kernel_translation (frame_at 256) (\<lambda>t. table_empty) p = None" for p
    by (simp add: kernel_translation_def reach_def kernel_path_def ktable_roots_def table_empty_def)
  then show ?thesis
    using small_ktable_ok vma_new_inv(1) [of "0xffff800000010 + 2 ^ 34" "0xffff800000000 + 2 ^ 34"]
    by (auto simp: memory_ok_def memory_small_def ktable_ok_def vma_space_def vma_new_def HALF_def)
qed

lemma memory_small_sensible: "sensible RawStack (mapping_config_new 1) (mem_pages memory_small)"
  by (simp add: sensible_def mapping_config_new_def servable_def memory_small_def vma_space_def vma_new_def)

lemma memory_small_made:
  obtains m mem' where "mapping_new bm_methods (frame_at 256) bm_methods vma_methods RawStack (mapping_config_new 1) memory_small = Some (Inr m, mem')"
proof -
  have "map_option (isl \<circ> fst) (mapping_new bm_methods (frame_at 256) bm_methods vma_methods RawStack (mapping_config_new 1) memory_small) = Some False"
    by code_simp
  then obtain r mem' where run: "mapping_new bm_methods (frame_at 256) bm_methods vma_methods RawStack (mapping_config_new 1) memory_small = Some (r, mem')"
    and r: "\<not> isl r" by auto
  from r obtain m where "r = Inr m" by (cases r) auto
  with run that show thesis by blast
qed

section \<open>Properties\<close>

text \<open>C2. In every state the kernel reaches by making and dropping mappings from a state without mappings,
  any two live mappings use different frames and different pages, every page of a mapping translates to
  the frame with the same index, the guard page of a stack is not mapped, and dropping any live mapping
  succeeds.\<close>

theorem mappings_isolated:
  assumes "kernel_memory_ok kt {} mem" and "(mapping_step kt)\<^sup>*\<^sup>* ([], mem) (ms, mem')"
  shows "(\<forall>i j. i < j \<and> j < length ms \<longrightarrow>
      frames_of (map_physical_start (snd (ms ! i))) (map_physical_len (snd (ms ! i))) \<inter>
        frames_of (map_physical_start (snd (ms ! j))) (map_physical_len (snd (ms ! j))) = {} \<and>
      pages_of (map_virtual_valid_start (snd (ms ! i))) (map_physical_len (snd (ms ! i))) \<inter>
        pages_of (map_virtual_valid_start (snd (ms ! j))) (map_physical_len (snd (ms ! j))) = {}) \<and>
    (\<forall>(R, m) \<in> set ms.
      (\<forall>i < map_physical_len m. \<exists>page frame. page_add (map_virtual_valid_start m) i = Some page \<and>
        frame_add (map_physical_start m) i = Some frame \<and> kernel_translation kt (mem_tables mem') page = Some frame) \<and>
      (R = RawStack \<longrightarrow> (\<exists>page. page_sub (map_virtual_valid_start m) 1 = Some page \<and>
        kernel_translation kt (mem_tables mem') page = None)) \<and>
      mapping_drop kt bm_methods vma_methods R m mem' \<noteq> None)"
proof -
  have "tracked kt [] ([], mem)" using assms(1) by (simp add: tracked_def)
  from tracked_run [OF assms(2) this] obtain xs where xs: "distinct xs" "ms = map (\<lambda>x. (fst x, mapping_at x)) xs"
    and ok: "kernel_memory_ok kt (set xs) mem'" by (auto simp: tracked_def)
  show ?thesis
  proof (intro conjI allI impI ballI)
    fix i j assume ij: "i < j \<and> j < length ms"
    then have "xs ! i \<in> set xs" "xs ! j \<in> set xs" "xs ! i \<noteq> xs ! j" using xs by (auto simp: nth_eq_iff_index_eq)
    note two = live_apart [OF ok this]
    from two(1) xs ij show "frames_of (map_physical_start (snd (ms ! i))) (map_physical_len (snd (ms ! i))) \<inter>
        frames_of (map_physical_start (snd (ms ! j))) (map_physical_len (snd (ms ! j))) = {}" by simp
    from two(2) xs ij show "pages_of (map_virtual_valid_start (snd (ms ! i))) (map_physical_len (snd (ms ! i))) \<inter>
        pages_of (map_virtual_valid_start (snd (ms ! j))) (map_physical_len (snd (ms ! j))) = {}" by simp
  next
    fix rm assume "rm \<in> set ms"
    then obtain R v f n where x: "(R, v, f, n) \<in> set xs" and rm: "rm = (R, mapping_at (R, v, f, n))" using xs(2) by auto
    from live_works [OF ok x refl] show "case rm of (R, m) \<Rightarrow>
      (\<forall>i < map_physical_len m. \<exists>page frame. page_add (map_virtual_valid_start m) i = Some page \<and>
        frame_add (map_physical_start m) i = Some frame \<and> kernel_translation kt (mem_tables mem') page = Some frame) \<and>
      (R = RawStack \<longrightarrow> (\<exists>page. page_sub (map_virtual_valid_start m) 1 = Some page \<and>
        kernel_translation kt (mem_tables mem') page = None)) \<and>
      mapping_drop kt bm_methods vma_methods R m mem' \<noteq> None" unfolding rm prod.case .
  qed
qed

theorem mappings_isolated_witness:
  "\<exists>m mem'. (mapping_step (frame_at 256))\<^sup>*\<^sup>* ([], memory_small) ([(RawStack, m)], mem') \<and>
    mapping_drop (frame_at 256) bm_methods vma_methods RawStack m mem' \<noteq> None"
proof -
  obtain m mem' where "mapping_new bm_methods (frame_at 256) bm_methods vma_methods RawStack (mapping_config_new 1) memory_small = Some (Inr m, mem')"
    by (rule memory_small_made)
  with memory_small_sensible have "mapping_step (frame_at 256) ([], memory_small) ([(RawStack, m)], mem')" by (rule make)
  then have run: "(mapping_step (frame_at 256))\<^sup>*\<^sup>* ([], memory_small) ([(RawStack, m)], mem')" by simp
  from mappings_isolated [OF memory_small_ok this] run show ?thesis by auto
qed



text \<open>C19. Dropping a mapping right after it was made succeeds, and returns its frames and its range of pages;
  every page of the kernel half translates again as before. Only frames used for new tables stay in use.\<close>

theorem mapping_new_drop_restores:
  assumes "kernel_memory_ok kt L mem" and "sensible R config (mem_pages mem)"
    and "mapping_new bm_methods kt bm_methods vma_methods R config mem = Some (Inr m, mem1)"
  shows "\<exists>mem2. mapping_drop kt bm_methods vma_methods R m mem1 = Some mem2 \<and> kernel_memory_ok kt L mem2 \<and>
    vma_allocs (mem_pages mem2) = vma_allocs (mem_pages mem) \<and>
    (\<forall>page. kernel_page page \<longrightarrow> kernel_translation kt (mem_tables mem2) page = kernel_translation kt (mem_tables mem) page) \<and>
    frames_of (map_physical_start m) (map_physical_len m) \<subseteq> bm_free (mem_frames mem2) \<and>
    bm_free (mem_frames mem2) \<subseteq> bm_free (mem_frames mem)"
  using assms(1,2)
proof (cases rule: kernel_new_cases)
  case (made v f mem')
  let ?n = "cfg_length config"
  from made(1) assms(3) have m: "m = mapping_at (R, v, f, ?n)" "mem1 = mem'" by auto
  have V: "pa_deallocate_contiguous vma_methods = vma_deallocate_contiguous" by simp
  from vma.mapping_drop_outcome [OF made(2) V insertI1] obtain mem2 where
    drop: "mapping_drop kt bm_methods vma_methods R (mapping_at (R, v, f, ?n)) mem' = Some mem2"
    and ok: "kernel_memory_ok kt (insert (R, v, f, ?n) L - {(R, v, f, ?n)}) mem2"
    and fr: "bm_free (mem_frames mem2) = bm_free (mem_frames mem') \<union> {f..<f + ?n}"
    and al: "vma_allocs (mem_pages mem2) = vma_allocs (mem_pages mem') - {(v, ?n + guard R)}"
    and tr: "\<And>i. kernel_number i \<Longrightarrow> kernel_translation kt (mem_tables mem2) (page_at i) =
      unmapped_on (kernel_translation kt (mem_tables mem')) (v + guard R) ?n (page_at i)" by blast
  have L: "insert (R, v, f, ?n) L - {(R, v, f, ?n)} = L" using made(3) by simp
  have "kernel_translation kt (mem_tables mem2) page = kernel_translation kt (mem_tables mem) page" if p: "kernel_page page" for page
  proof -
    define i where "i = pgaddr page div 4096"
    have page: "page = page_at i" using page_numbered p by (simp add: kernel_page_def i_def)
    with p have k: "kernel_number i" by simp
    from tr [OF k] made(7) [OF k] made(8) [of i] show ?thesis by (auto simp: page unmapped_on_at mapped_on_at)
  qed
  then show ?thesis using drop ok fr al made(4-6,9) m L by (auto simp: map_physical_start_def map_physical_len_def)
qed (use assms(3) in simp_all)

theorem mapping_new_drop_restores_witness:
  "\<exists>m mem1 mem2. mapping_new bm_methods (frame_at 256) bm_methods vma_methods RawStack (mapping_config_new 1) memory_small = Some (Inr m, mem1) \<and>
    mapping_drop (frame_at 256) bm_methods vma_methods RawStack m mem1 = Some mem2 \<and>
    vma_allocs (mem_pages mem2) = vma_allocs (mem_pages memory_small)"
proof -
  obtain m mem1 where new: "mapping_new bm_methods (frame_at 256) bm_methods vma_methods RawStack (mapping_config_new 1) memory_small = Some (Inr m, mem1)"
    by (rule memory_small_made)
  from mapping_new_drop_restores [OF memory_small_ok memory_small_sensible new] new show ?thesis by blast
qed

end
