(* ===== verification/Old_Mapping.thy ===== *)
theory Old_Mapping
  imports Memory_Mapping
begin

text \<open>
  \<open>OldMapping\<close> of \<open>kernel_api/src/memory/mapping.rs\<close>, the deprecated predecessor of the mappings, which the
  heap and the thread-local storage still use. Its constructor agrees with that of a mapping when it
  succeeds; it loses the frames when the virtual allocation fails, and dropping does nothing.
\<close>

record OldMapping =
  om_base :: Page
  om_len :: usize

type_synonym ('s, 'v) old_result = "((AllocError, OldMapping) result \<times> ('s, 'v) memory) rust"

definition old_new_with ::
  "'s frame_allocator \<Rightarrow> Frame \<Rightarrow> 's frame_allocator \<Rightarrow> 'v page_allocator \<Rightarrow> usize \<Rightarrow> ('s, 'v) memory \<Rightarrow> ('s, 'v) old_result" where
  "old_new_with highmem kt physical_allocator global len mem = do {
     (r, s) \<leftarrow> fa_allocate_contiguous physical_allocator len (mem_frames mem);
     case r of
       Inl e \<Rightarrow> Some (Inl e, mem\<lparr>mem_frames := s\<rparr>)
     | Inr physical_mem \<Rightarrow> do {
         (r, v) \<leftarrow> pa_allocate_contiguous global len (mem_pages mem);
         case r of
           Inl e \<Rightarrow> Some (Inl e, mem\<lparr>mem_frames := s, mem_pages := v\<rparr>)
         | Inr virtual_mem \<Rightarrow> do {
             (m, s') \<leftarrow> map_pages highmem kt physical_mem virtual_mem len (mem_tables mem, s);
             Some (Inr \<lparr>om_base = virtual_mem, om_len = len\<rparr>, \<lparr>mem_tables = m, mem_frames = s', mem_pages = v\<rparr>) } } }"

definition old_new :: "'s frame_allocator \<Rightarrow> Frame \<Rightarrow> 'v page_allocator \<Rightarrow> usize \<Rightarrow> ('s, 'v) memory \<Rightarrow> ('s, 'v) old_result" where
  "old_new highmem kt global len mem = old_new_with highmem kt highmem global len mem"

text \<open>The error of \<open>resize_inner\<close> carries the frames already allocated, if there are any.\<close>

definition resize_inner ::
  "'s frame_allocator \<Rightarrow> Frame \<Rightarrow> 'v page_allocator \<Rightarrow> usize \<Rightarrow> OldMapping \<Rightarrow> ('s, 'v) memory \<Rightarrow>
    ((Frame option, unit) result \<times> OldMapping \<times> ('s, 'v) memory) rust" where
  "resize_inner highmem kt global new_len self mem =
     (if new_len = om_len self then Some (Inr (), self, mem)
      else if new_len < om_len self then Some (Inr (), self\<lparr>om_len := new_len\<rparr>, mem)
      else do {
        extra_len \<leftarrow> usub new_len (om_len self);
        (r, s) \<leftarrow> fa_allocate_contiguous highmem extra_len (mem_frames mem);
        case r of
          Inl e \<Rightarrow> Some (Inl None, self, mem\<lparr>mem_frames := s\<rparr>)
        | Inr extra_physical_mem \<Rightarrow> do {
            at \<leftarrow> page_add (om_base self) (om_len self);
            (r, v) \<leftarrow> pa_allocate_contiguous_at global at extra_len (mem_pages mem);
            case r of
              Inl e \<Rightarrow> Some (Inl (Some extra_physical_mem), self, mem\<lparr>mem_frames := s, mem_pages := v\<rparr>)
            | Inr u \<Rightarrow> do {
                start_of_extra \<leftarrow> page_add (om_base self) (om_len self);
                (m, s') \<leftarrow> map_pages highmem kt extra_physical_mem start_of_extra extra_len (mem_tables mem, s);
                Some (Inr (), self\<lparr>om_len := new_len\<rparr>, \<lparr>mem_tables = m, mem_frames = s', mem_pages = v\<rparr>) } } })"

definition resize_in_place ::
  "'s frame_allocator \<Rightarrow> Frame \<Rightarrow> 'v page_allocator \<Rightarrow> usize \<Rightarrow> OldMapping \<Rightarrow> ('s, 'v) memory \<Rightarrow>
    ((AllocError, unit) result \<times> OldMapping \<times> ('s, 'v) memory) rust" where
  "resize_in_place highmem kt global new_len self mem = do {
     (r, self', mem') \<leftarrow> resize_inner highmem kt global new_len self mem;
     Some (case r of Inl e \<Rightarrow> Inl AllocError | Inr u \<Rightarrow> Inr u, self', mem') }"

text \<open>Moving the mapping needs its physical address, which is not implemented: the code panics after
  it has allocated the new range.\<close>

definition old_resize ::
  "'s frame_allocator \<Rightarrow> Frame \<Rightarrow> 'v page_allocator \<Rightarrow> usize \<Rightarrow> OldMapping \<Rightarrow> ('s, 'v) memory \<Rightarrow>
    ((AllocError, unit) result \<times> OldMapping \<times> ('s, 'v) memory) rust" where
  "old_resize highmem kt global new_len self mem = do {
     (r, self', mem') \<leftarrow> resize_inner highmem kt global new_len self mem;
     case r of
       Inr u \<Rightarrow> Some (Inr u, self', mem')
     | Inl None \<Rightarrow> Some (Inl AllocError, self', mem')
     | Inl (Some extra_physical_mem) \<Rightarrow> do {
         extra_len \<leftarrow> usub new_len (om_len self');
         (r, v) \<leftarrow> pa_allocate_contiguous global new_len (mem_pages mem');
         case r of
           Inl e \<Rightarrow> Some (Inl e, self', mem'\<lparr>mem_pages := v\<rparr>)
         | Inr new_virtual_mem \<Rightarrow> None } }"

definition old_into_raw_parts :: "OldMapping \<Rightarrow> Page \<times> usize" where
  "old_into_raw_parts self = (om_base self, om_len self)"

definition old_from_raw_parts :: "Page \<Rightarrow> usize \<Rightarrow> OldMapping" where
  "old_from_raw_parts b len = \<lparr>om_base = b, om_len = len\<rparr>"

definition old_end :: "OldMapping \<Rightarrow> Page rust" where
  "old_end self = page_add (om_base self) (om_len self)"

definition old_drop :: "OldMapping \<Rightarrow> ('s, 'v) memory \<Rightarrow> ('s, 'v) memory" where
  "old_drop self mem = mem"

section \<open>The invariant of the other mappings\<close>

lemma memory_ok_forget:
  assumes "memory_ok vinv space allocs kt (insert x L) mem"
  shows "memory_ok vinv space allocs kt L mem"
proof -
  note D = memory_okD [OF assms]
  have "forest (ktable_roots kt) 2 (mem_tables mem) (bm_free (mem_frames mem) \<union> frames_used L)"
    by (rule forest_mono [OF D(4)]) auto
  with D show ?thesis unfolding memory_ok_def by (auto simp: image_subset_iff)
qed

text \<open>The allocator of the kernel takes a given range exactly when it is clear.\<close>

lemma vma_allocate_at_outcome:
  assumes v: "vma_inv v" and n: "0 < n" and sp: "{i..<i + n} \<subseteq> vma_space v"
  shows "if \<forall>(c, k) \<in> vma_allocs v. i + n \<le> c \<or> c + k \<le> i
    then \<exists>v'. vma_allocate_contiguous_at (page_at i) n v = Some (Inr (page_at i), v') \<and> vma_inv v' \<and>
      vma_space v' = vma_space v \<and> vma_allocs v' = insert (i, n) (vma_allocs v)
    else vma_allocate_contiguous_at (page_at i) n v = Some (Inl AllocError, v)"
proof -
  from v obtain a b where r: "vma_range v = (page_at a, page_at b)" and b: "b * 4096 < USIZE_BOUND"
    and m: "rm_ok (vma_map v)" by (rule vma_invE)
  have i: "a \<le> i" "i + n \<le> b" using sp r n by (auto simp: vma_space_def)
  have e: "page_add (page_at i) n = Some (page_at (i + n))" using i(2) b by (intro page_add_at) simp
  show ?thesis
  proof (cases "clear_of (entries (vma_map v)) (page_at i) (page_at (i + n))")
    case True
    with v n r i obtain m' where "rm_insert (page_at i, page_at (i + n)) \<lparr>meta_len = n\<rparr> (vma_map v) = Inr m'"
      "vma_inv (v\<lparr>vma_map := m'\<rparr>)" "vma_allocs (v\<lparr>vma_map := m'\<rparr>) = insert (i, n) (vma_allocs v)"
      by (rule vma_insert_clear)
    with True e show ?thesis by (simp add: vma_allocate_contiguous_at_def vma_clear_iff [OF v] vma_space_def)
  next
    case False
    from rm.ins_used [OF m _ this] n have "rm_insert (page_at i, page_at (i + n)) \<lparr>meta_len = n\<rparr> (vma_map v) = Inl ()" by simp
    with False e show ?thesis by (simp add: vma_allocate_contiguous_at_def vma_clear_iff [OF v])
  qed
qed

lemma vma_allocate_never_err:
  assumes "vma_inv v" and "0 < n" and "n \<le> card (vma_space v)" and "vma_allocate_contiguous n v = Some (r, v')"
  obtains i where "r = Inr (page_at i)" and "i * 4096 < USIZE_BOUND"
  using assms(1-3)
proof (cases rule: vma_allocate_cases)
  case (taken i)
  from vma_take_edge [OF assms(1,2) taken(2)] taken(1) assms(4) have "r = Inr (page_at i)" by auto
  moreover have "i \<in> vma_space v" using taken(2) assms(2) by (auto simp: vma_edge_def subset_iff)
  from vma.space_bound [OF assms(1) this] have "i * 4096 < USIZE_BOUND" by simp
  ultimately show thesis by (rule that)
qed (use assms(4) in simp)

lemma clear_in_use:
  assumes "0 < m" and "\<And>c j. (c, j) \<in> A \<Longrightarrow> 0 < j"
  shows "(\<forall>(c, j) \<in> A. x + m \<le> c \<or> c + j \<le> x) \<longleftrightarrow> {x..<x + m} \<inter> in_use A = {}"
proof
  assume l: "\<forall>(c, j) \<in> A. x + m \<le> c \<or> c + j \<le> x"
  show "{x..<x + m} \<inter> in_use A = {}" using l by (force simp: in_use_def)
next
  assume r: "{x..<x + m} \<inter> in_use A = {}"
  have "x + m \<le> c \<or> c + j \<le> x" if "(c, j) \<in> A" for c j
  proof (rule ccontr)
    assume "\<not> (x + m \<le> c \<or> c + j \<le> x)"
    with assms(1) assms(2) [OF that] have x: "max x c \<in> {x..<x + m}" "max x c \<in> {c..<c + j}" by auto
    from that x(2) have "max x c \<in> in_use A" unfolding in_use_def by blast
    with x(1) r show False by blast
  qed
  then show "\<forall>(c, j) \<in> A. x + m \<le> c \<or> c + j \<le> x" by blast
qed

section \<open>Properties\<close>

text \<open>With the allocators of the kernel, the constructor of the old mappings returns, fails and panics
  exactly when that of a plain mapping does, and leaves the same memory behind.\<close>

theorem old_new_agrees:
  assumes "kernel_memory_ok kt L mem" and "sensible RawMmap (mapping_config_new n) (mem_pages mem)"
  shows "old_new bm_methods kt vma_methods n mem =
    map_option (\<lambda>(r, mem'). (map_sum id (\<lambda>m. \<lparr>om_base = map_virtual_valid_start m, om_len = n\<rparr>) r, mem'))
      (mapping_new bm_methods kt bm_methods vma_methods RawMmap (mapping_config_new n) mem)"
proof -
  have v: "vma_inv (mem_pages mem)" using memory_okD(2) [OF assms(1)] .
  have n: "0 < n" "n \<le> card (vma_space (mem_pages mem))" using assms(2) by (simp_all add: sensible_def mapping_config_new_def)
  note run = old_new_def old_new_with_def mapping_new_def mapping_config_new_def owned_frames_xnew_def
    owned_frames_new_with_def owned_pages_new_with_def owned_pages_into_raw_parts_def
  show ?thesis
  proof (cases "vma_allocate_contiguous n (mem_pages mem)")
    case None
    then show ?thesis by (auto simp: run split: Option.bind_splits sum.splits)
  next
    case (Some rv)
    obtain r w where rw: "rv = (r, w)" by (cases rv)
    from v n Some [unfolded rw] obtain i where i: "r = Inr (page_at i)" "i * 4096 < USIZE_BOUND" by (rule vma_allocate_never_err)
    have "page_add_signed (page_at i) 0 = Some (page_at i)" using guard_simps(2) [of i RawMmap] i(2) by simp
    with Some rw i(1) show ?thesis by (auto simp: run split: Option.bind_splits sum.splits)
  qed
qed

theorem old_new_agrees_witness:
  "old_new bm_methods (frame_at 256) vma_methods 1 memory_small =
    map_option (\<lambda>(r, mem'). (map_sum id (\<lambda>m. \<lparr>om_base = map_virtual_valid_start m, om_len = 1\<rparr>) r, mem'))
      (mapping_new bm_methods (frame_at 256) bm_methods vma_methods RawMmap (mapping_config_new 1) memory_small)"
  by (rule old_new_agrees [OF memory_small_ok])
    (simp add: sensible_def mapping_config_new_def servable_def memory_small_def vma_space_def vma_new_def)

text \<open>When the allocator of virtual memory refuses, a mapping returns the frames it had taken and an old
  mapping keeps them: each such failure loses a run of frames.\<close>

theorem old_new_leaks:
  assumes "low_pool (mem_frames mem)" and "0 < n" and "\<exists>m. {m..<m + n} \<subseteq> bm_free (mem_frames mem)"
    and "pa_allocate_contiguous V n (mem_pages mem) = Some (Inl AllocError, w)"
  shows "\<exists>f mem1 mem2. {f..<f + n} \<subseteq> bm_free (mem_frames mem) \<and>
    mapping_new bm_methods kt bm_methods V RawMmap (mapping_config_new n) mem = Some (Inl AllocError, mem1) \<and>
    old_new bm_methods kt V n mem = Some (Inl AllocError, mem2) \<and>
    bm_free (mem_frames mem1) = bm_free (mem_frames mem) \<and>
    bm_free (mem_frames mem2) = bm_free (mem_frames mem) - {f..<f + n}"
proof -
  have "servable Map_Any n" by (simp add: servable_def)
  with assms(1,2) show ?thesis
  proof (cases rule: xnew_outcome)
    case none
    with pool.alloc_succeeds_iff [OF assms(1,2)] assms(3) show ?thesis
      by (auto simp: owned_frames_xnew_def owned_frames_new_with_def)
  next
    case (frames f s)
    then have a: "bm_allocate_contiguous n (mem_frames mem) = Some (Inr (frame_at f), s)"
      by (auto simp: owned_frames_xnew_def owned_frames_new_with_def split: Option.bind_splits sum.splits)
    have "{f..<f + n} \<subseteq> bm_managed s" using frames pool.free_managed [OF assms(1)] by auto
    from frames(2) this assms(2) obtain s' where "owned_frames_drop bm_methods \<lparr>of_base = frame_at f, of_len = n\<rparr> s = Some s'"
      "bm_free s' = bm_free s \<union> {f..<f + n}" by (rule frames_drop)
    with a frames(3,4) assms(4) show ?thesis
      by (intro exI [of _ f]) (auto simp: old_new_def old_new_with_def mapping_new_def mapping_config_new_def
          owned_frames_xnew_def owned_frames_new_with_def owned_pages_new_with_def)
  qed
qed

definition bootstrap_methods :: "usize \<Rightarrow> usize page_allocator" where
  "bootstrap_methods END = \<lparr>pa_allocate_contiguous = bootstrap_allocate_contiguous END,
    pa_allocate_contiguous_at = bootstrap_allocate_contiguous_at END,
    pa_deallocate_contiguous = bootstrap_deallocate_contiguous\<rparr>"

theorem old_new_leaks_witness:
  "\<exists>f mem1 mem2.
    mapping_new bm_methods (frame_at 256) bm_methods (bootstrap_methods 0x10000) RawMmap (mapping_config_new 1)
      \<lparr>mem_tables = (\<lambda>t. table_empty), mem_frames = bm_small, mem_pages = 0x11000\<rparr> = Some (Inl AllocError, mem1) \<and>
    old_new bm_methods (frame_at 256) (bootstrap_methods 0x10000) 1
      \<lparr>mem_tables = (\<lambda>t. table_empty), mem_frames = bm_small, mem_pages = 0x11000\<rparr> = Some (Inl AllocError, mem2) \<and>
    bm_free (mem_frames mem2) = bm_free (mem_frames mem1) - {f}"
proof -
  let ?mem = "\<lparr>mem_tables = (\<lambda>t. table_empty), mem_frames = bm_small, mem_pages = 0x11000\<rparr> :: (BitmapAllocator, usize) memory"
  have "map_option (isl \<circ> fst) (bm_allocate_contiguous 1 bm_small) = Some False" by code_simp
  then obtain r t where a: "bm_allocate_contiguous 1 bm_small = Some (r, t)" and "\<not> isl r" by auto
  then obtain g where "r = Inr g" by (cases r) auto
  with a have "\<exists>m. {m..<m + 1} \<subseteq> bm_free (mem_frames ?mem)" using pool.alloc_succeeds_iff [OF bm_small_low, of 1] by auto
  moreover have "pa_allocate_contiguous (bootstrap_methods 0x10000) 1 (mem_pages ?mem) = Some (Inl AllocError, 0x12000)"
    by (simp add: bootstrap_methods_def bootstrap_allocate_contiguous_def umul_def)
  ultimately show ?thesis using old_new_leaks [of ?mem 1 "bootstrap_methods 0x10000" "0x12000" "frame_at 256"] bm_small_low by auto
qed

text \<open>Growing an old mapping in place takes a run of free frames and maps it right behind the pages it
  has, when the pages there are clear and memory suffices; the live mappings stay intact. When the pages
  are not clear the extra frames are lost, and the mapping is as it was.\<close>

theorem resize_grows:
  assumes ok: "kernel_memory_ok kt L mem" and n: "n < k" and sp: "{v + n..<v + k} \<subseteq> vma_space (mem_pages mem)"
  shows "case resize_inner bm_methods kt vma_methods k \<lparr>om_base = page_at v, om_len = n\<rparr> mem of
      None \<Rightarrow> card (bm_free (mem_frames mem)) \<le> 3 * (k - n)
    | Some (Inl None, self, mem') \<Rightarrow> self = \<lparr>om_base = page_at v, om_len = n\<rparr> \<and> mem' = mem \<and>
        \<not> (\<exists>f. {f..<f + (k - n)} \<subseteq> bm_free (mem_frames mem))
    | Some (Inl (Some frame), self, mem') \<Rightarrow> self = \<lparr>om_base = page_at v, om_len = n\<rparr> \<and>
        mem_tables mem' = mem_tables mem \<and> mem_pages mem' = mem_pages mem \<and>
        bm_free (mem_frames mem') = bm_free (mem_frames mem) - frames_of frame (k - n) \<and>
        in_use (vma_allocs (mem_pages mem)) \<inter> {v + n..<v + k} \<noteq> {}
    | Some (Inr u, self, mem') \<Rightarrow> self = \<lparr>om_base = page_at v, om_len = k\<rparr> \<and> kernel_memory_ok kt L mem' \<and>
        (\<exists>f. {f..<f + (k - n)} \<subseteq> bm_free (mem_frames mem) \<and>
          (\<forall>i. kernel_number i \<longrightarrow> kernel_translation kt (mem_tables mem') (page_at i) =
            mapped_on (kernel_translation kt (mem_tables mem)) (v + n) f (k - n) (page_at i)))"
proof -
  note D = memory_okD [OF ok]
  let ?self = "\<lparr>om_base = page_at v, om_len = n\<rparr>"
  have e: "0 < k - n" "v + n + (k - n) = v + k" using n by simp_all
  have "v + n \<in> vma_space (mem_pages mem)" using sp n by (simp add: subset_iff)
  then have "kernel_number (v + n)" by (rule vma.space_kernel [OF ok])
  note here = page_add_numbered [OF this]
  obtain r s where a: "bm_allocate_contiguous (k - n) (mem_frames mem) = Some (r, s)" using pool.alloc_total [OF D(1) e(1)] by blast
  show ?thesis
  proof (cases r)
    case (Inl e)
    with pool.alloc_err [OF D(1) e(1)] a have "s = mem_frames mem" "\<not> (\<exists>f. {f..<f + (k - n)} \<subseteq> bm_free (mem_frames mem))" by auto
    then show ?thesis using n a Inl by (simp add: resize_inner_def usub_def)
  next
    case (Inr g)
    note ok1 = pool.alloc_ok [OF D(1) e(1) a [unfolded Inr]] pool.alloc_exact [OF D(1) e(1) a [unfolded Inr]]
    define f where "f = faddr g div 4096"
    have g: "g = frame_at f" using ok1 frame_numbered by (simp add: f_def)
    have s: "low_pool s" "{f..<f + (k - n)} \<subseteq> bm_free (mem_frames mem)" "bm_free s = bm_free (mem_frames mem) - {f..<f + (k - n)}"
      "bm_managed s = bm_managed (mem_frames mem)" using ok1 by (auto simp: g)
    note at = vma_allocate_at_outcome [OF D(2) e(1), of "v + n"]
    have clear: "(\<forall>(c, j) \<in> vma_allocs (mem_pages mem). v + n + (k - n) \<le> c \<or> c + j \<le> v + n) \<longleftrightarrow>
        {v + n..<v + n + (k - n)} \<inter> in_use (vma_allocs (mem_pages mem)) = {}"
      using vma.allocs_space [OF D(2)] by (intro clear_in_use [OF e(1)]) blast
    show ?thesis
    proof (cases "{v + n..<v + n + (k - n)} \<inter> in_use (vma_allocs (mem_pages mem)) = {}")
      case False
      with at clear sp e(2) have "vma_allocate_contiguous_at (page_at (v + n)) (k - n) (mem_pages mem) = Some (Inl AllocError, mem_pages mem)"
        by simp
      with False n a Inr here e(2) s(3) show ?thesis by (simp add: resize_inner_def usub_def g Int_commute)
    next
      case True
      with at clear sp e(2) obtain w where w: "vma_allocate_contiguous_at (page_at (v + n)) (k - n) (mem_pages mem) = Some (Inr (page_at (v + n)), w)"
        "vma_inv w" "vma_space w = vma_space (mem_pages mem)" "vma_allocs w = insert (v + n, k - n) (vma_allocs (mem_pages mem))" by auto
      note out = vma.map_allocated [where R = RawMmap and v = "v + n", unfolded guard.simps add_0_right,
          OF ok e(1) s w(2-4) _ True]
      show ?thesis
      proof (cases "map_pages bm_methods kt (frame_at f) (page_at (v + n)) (k - n) (mem_tables mem, s)")
        case None
        with out sp e(2) n a Inr here w(1) show ?thesis by (simp add: resize_inner_def usub_def g)
      next
        case (Some ms)
        obtain m' s' where ms: "ms = (m', s')" by (cases ms)
        from out Some ms sp e(2) have o: "kernel_memory_ok kt (insert (RawMmap, v + n, f, k - n) L) \<lparr>mem_tables = m', mem_frames = s', mem_pages = w\<rparr>"
          "\<forall>i. kernel_number i \<longrightarrow> kernel_translation kt m' (page_at i) =
            mapped_on (kernel_translation kt (mem_tables mem)) (v + n) f (k - n) (page_at i)" by simp_all
        with memory_ok_forget [OF o(1)] Some ms n a Inr here w(1) s(2) show ?thesis
          by (auto simp: resize_inner_def usub_def g)
      qed
    qed
  qed
qed

theorem resize_grows_witness:
  "\<exists>mem'. resize_inner bm_methods (frame_at 256) vma_methods 1 \<lparr>om_base = page_at (0xffff800000000 + 2 ^ 34), om_len = 0\<rparr> memory_small =
      Some (Inr (), \<lparr>om_base = page_at (0xffff800000000 + 2 ^ 34), om_len = 1\<rparr>, mem') \<and>
    kernel_memory_ok (frame_at 256) {} mem'"
proof -
  let ?run = "resize_inner bm_methods (frame_at 256) vma_methods 1 \<lparr>om_base = page_at (0xffff800000000 + 2 ^ 34), om_len = 0\<rparr> memory_small"
  have "map_option (isl \<circ> fst) ?run = Some False" by code_simp
  then obtain r self mem' where run: "?run = Some (r, self, mem')" and "\<not> isl r" by auto
  then obtain u where r: "r = Inr u" by (cases r) auto
  have "{0xffff800000000 + 2 ^ 34 + 0..<0xffff800000000 + 2 ^ 34 + 1} \<subseteq> vma_space (mem_pages memory_small)"
    by (simp add: memory_small_def vma_space_def vma_new_def)
  from resize_grows [OF memory_small_ok _ this] have "self = \<lparr>om_base = page_at (0xffff800000000 + 2 ^ 34), om_len = 1\<rparr>"
    "kernel_memory_ok (frame_at 256) {} mem'" unfolding run r by simp_all
  with run r show ?thesis by simp
qed

end
