(* ===== verification/Kernel_Heap.thy ===== *)
theory Kernel_Heap
  imports Old_Mapping
begin

text \<open>
  The kernel heap, \<open>kernel_default_heap/src/lib.rs\<close> and the trait of \<open>kernel_api/src/memory/heap.rs\<close>: a
  pointer that moves up through one old mapping, which grows in place when the pointer would leave it.
  The theorems are about the heap on the bitmap allocator, the kernel tables and the bootstrap
  allocator, as it runs while the kernel brings up its memory.
\<close>

section \<open>The heap\<close>

record Layout =
  lay_size :: usize
  lay_align :: usize

record BadHeap =
  watermark :: VirtualAddress
  heap_mapping :: OldMapping

type_synonym ('s, 'v) heap_result = "((AllocError, usize) result \<times> BadHeap \<times> ('s, 'v) memory) rust"

definition heap_new ::
  "'s frame_allocator \<Rightarrow> Frame \<Rightarrow> 'v page_allocator \<Rightarrow> ('s, 'v) memory \<Rightarrow> (BadHeap \<times> ('s, 'v) memory) rust" where
  "heap_new highmem kt global mem = do {
     (r, mem') \<leftarrow> old_new highmem kt global 0 mem;
     mapping \<leftarrow> expect_ok r;
     e \<leftarrow> old_end mapping;
     w \<leftarrow> virt_align_down 1 (page_start e);
     Some (\<lparr>watermark = w, heap_mapping = mapping\<rparr>, mem') }"

text \<open>The difference to the end of the mapping must fit an \<open>isize\<close>.\<close>

definition heap_allocate ::
  "'s frame_allocator \<Rightarrow> Frame \<Rightarrow> 'v page_allocator \<Rightarrow> Layout \<Rightarrow> BadHeap \<Rightarrow> ('s, 'v) memory \<Rightarrow> ('s, 'v) heap_result" where
  "heap_allocate highmem kt global layout self mem = do {
     start \<leftarrow> virt_align_up_runtime (watermark self) (lay_align layout);
     end \<leftarrow> virt_add start (lay_size layout);
     max_page \<leftarrow> old_end (heap_mapping self);
     let max_addr = page_start max_page;
     (r, mapping, mem') \<leftarrow>
       (if vaddr end > vaddr max_addr then do {
          increment \<leftarrow> virt_diff end max_addr;
          if 2 ^ 63 \<le> increment then Some (Inl AllocError, heap_mapping self, mem)
          else do {
            new_len \<leftarrow> uadd (om_len (heap_mapping self)) ((increment + 4095) div 4096);
            resize_in_place highmem kt global new_len (heap_mapping self) mem } }
        else Some (Inr (), heap_mapping self, mem));
     case r of
       Inl e \<Rightarrow> Some (Inl e, self\<lparr>heap_mapping := mapping\<rparr>, mem')
     | Inr u \<Rightarrow> do {
         rust_assert (vaddr start \<noteq> 0);
         Some (Inr (vaddr start), \<lparr>watermark = end, heap_mapping = mapping\<rparr>, mem') } }"

text \<open>Freeing only checks the pointer, and that only when the lock is free.\<close>

definition heap_deallocate :: "bool \<Rightarrow> usize \<Rightarrow> BadHeap \<Rightarrow> unit rust" where
  "heap_deallocate lock_free ptr self =
     (if lock_free then rust_assert (ptr \<le> vaddr (watermark self)) else Some ())"

text \<open>The provided method of the trait, over the bytes of memory.\<close>

definition copy_nonoverlapping :: "usize \<Rightarrow> usize \<Rightarrow> usize \<Rightarrow> (usize \<Rightarrow> u8) \<Rightarrow> usize \<Rightarrow> u8" where
  "copy_nonoverlapping src dst n bytes a = (if dst \<le> a \<and> a < dst + n then bytes (src + (a - dst)) else bytes a)"

definition heap_reallocate ::
  "'s frame_allocator \<Rightarrow> Frame \<Rightarrow> 'v page_allocator \<Rightarrow> usize \<Rightarrow> Layout \<Rightarrow> usize \<Rightarrow> BadHeap \<Rightarrow> ('s, 'v) memory \<Rightarrow>
    (usize \<Rightarrow> u8) \<Rightarrow> ((AllocError, usize) result \<times> BadHeap \<times> ('s, 'v) memory \<times> (usize \<Rightarrow> u8)) rust" where
  "heap_reallocate highmem kt global ptr old_layout new_size self mem bytes = do {
     rust_assert (new_size \<le> 2 ^ 63 - lay_align old_layout);
     (r, self', mem') \<leftarrow> heap_allocate highmem kt global \<lparr>lay_size = new_size, lay_align = lay_align old_layout\<rparr> self mem;
     case r of
       Inl e \<Rightarrow> Some (Inl e, self', mem', bytes)
     | Inr new \<Rightarrow> Some (Inr new, self', mem', copy_nonoverlapping ptr new (min (lay_size old_layout) new_size) bytes) }"

section \<open>Growing\<close>

lemma grow_outcome:
  assumes s: "low_pool s" and f: "forest (ktable_roots kt) 2 m (bm_free s \<union> X)" and X: "X \<inter> bm_free s = {}" and e: "0 < e"
    and v: "HALF \<le> v * 4096" "(v + n + e) * 4096 < USIZE_BOUND"
    and un: "\<And>i. kernel_number i \<Longrightarrow> v + n \<le> i \<Longrightarrow> kernel_translation kt m (page_at i) = None"
  shows "case resize_inner bm_methods kt (bootstrap_methods END) (n + e) \<lparr>om_base = page_at v, om_len = n\<rparr>
        \<lparr>mem_tables = m, mem_frames = s, mem_pages = (v + n) * 4096\<rparr> of
      None \<Rightarrow> card (bm_free s) \<le> 3 * e
    | Some (Inl x, self, mem) \<Rightarrow> self = \<lparr>om_base = page_at v, om_len = n\<rparr> \<and> mem_tables mem = m \<and>
        mem_pages mem = (v + n) * 4096 \<and> low_pool (mem_frames mem) \<and> bm_free (mem_frames mem) \<subseteq> bm_free s
    | Some (Inr u, self, mem) \<Rightarrow> self = \<lparr>om_base = page_at v, om_len = n + e\<rparr> \<and> mem_pages mem = (v + n + e) * 4096 \<and>
        low_pool (mem_frames mem) \<and>
        (\<exists>g. {g..<g + e} \<subseteq> bm_free s \<and> bm_free (mem_frames mem) \<subseteq> bm_free s - {g..<g + e} \<and>
          forest (ktable_roots kt) 2 (mem_tables mem) (bm_free (mem_frames mem) \<union> (X \<union> {g..<g + e})) \<and>
          (\<forall>i. kernel_number i \<longrightarrow> kernel_translation kt (mem_tables mem) (page_at i) =
            mapped_on (kernel_translation kt m) (v + n) g e (page_at i)))"
proof -
  have k: "kernel_number (v + n + i)" if "i < e" for i
  proof -
    have "v * 4096 \<le> (v + n + i) * 4096" by simp
    with v(1) have "HALF \<le> (v + n + i) * 4096" by (rule order_trans)
    with v(2) that show ?thesis by (simp add: kernel_number_def)
  qed
  have here: "page_add (page_at v) n = Some (page_at (v + n))" using k [of 0] e by (intro page_add_numbered) simp
  note run = resize_inner_def usub_def here bootstrap_methods_def bootstrap_allocate_contiguous_at_def umul_def
  obtain r t where a: "bm_allocate_contiguous e s = Some (r, t)" using pool.alloc_total [OF s e] by blast
  show ?thesis
  proof (cases r)
    case (Inl x)
    with pool.alloc_err [OF s e] a have "t = s" by blast
    with s e a Inl show ?thesis by (simp add: run)
  next
    case (Inr h)
    note ok = pool.alloc_ok [OF s e a [unfolded Inr]] pool.alloc_exact [OF s e a [unfolded Inr]]
    define g where "g = faddr h div 4096"
    have h: "h = frame_at g" using ok frame_numbered by (simp add: g_def)
    have t: "low_pool t" "{g..<g + e} \<subseteq> bm_free s" "bm_free t = bm_free s - {g..<g + e}" "bm_managed t = bm_managed s"
      using ok by (auto simp: h)
    show ?thesis
    proof (cases "(v + n) * 4096 > END")
      case True
      with a e Inr t show ?thesis by (auto simp: run h)
    next
      case False
      have ptr: "((v + n) * 4096 + e * 4096) mod USIZE_BOUND = (v + n + e) * 4096"
        using v(2) by (simp add: distrib_right)
      have e': "e * 4096 < USIZE_BOUND" using v(2) by (simp add: distrib_right)
      have "bm_free t \<union> (X \<union> {g..<g + e}) = bm_free s \<union> X" using t(2,3) by auto
      with f have f': "forest (ktable_roots kt) 2 m (bm_free t \<union> (X \<union> {g..<g + e}))" by simp
      have X': "(X \<union> {g..<g + e}) \<inter> bm_free t = {}" using X t(3) by auto
      have pages: "kernel_number (v + n + i) \<and> g + i \<in> bm_managed t \<and> kernel_translation kt m (page_at (v + n + i)) = None" if "i < e" for i
      proof -
        have "g + i \<in> {g..<g + e}" using that by simp
        then have "g + i \<in> bm_managed t" using t(2,4) pool.free_managed [OF s] by blast
        with k [OF that] un [OF k [OF that]] show ?thesis by simp
      qed
      note out = map_pages_outcome [where n = e, OF t(1) f' X' pages]
      have card: "card (bm_free s) \<le> card (bm_free t) + e"
        using card_Diff_subset [of "{g..<g + e}" "bm_free s"] t(2,3) by simp
      show ?thesis
      proof (cases "map_pages bm_methods kt (frame_at g) (page_at (v + n)) e (m, t)")
        case None
        with out card a e Inr False e' show ?thesis by (simp add: run h)
      next
        case (Some mt)
        with out t(2,3) a Inr False e' ptr e show ?thesis by (cases mt) (auto simp: run h)
      qed
    qed
  qed
qed

section \<open>The state of the heap\<close>

text \<open>\<open>fs\<close> are the frames behind the pages of the heap: they are distinct, not free and hold no table. The
  pointer of the bootstrap allocator stands at the end of the mapping, and nothing is mapped above it.\<close>

definition heap_ok :: "Frame \<Rightarrow> nat \<Rightarrow> nat list \<Rightarrow> (BitmapAllocator, usize) memory \<Rightarrow> BadHeap \<Rightarrow> bool" where
  "heap_ok kt v fs mem self \<longleftrightarrow>
     heap_mapping self = \<lparr>om_base = page_at v, om_len = length fs\<rparr> \<and>
     mem_pages mem = (v + length fs) * 4096 \<and> HALF \<le> v * 4096 \<and> (v + length fs) * 4096 < USIZE_BOUND \<and>
     v * 4096 \<le> vaddr (watermark self) \<and> vaddr (watermark self) \<le> (v + length fs) * 4096 \<and>
     low_pool (mem_frames mem) \<and> distinct fs \<and> set fs \<inter> bm_free (mem_frames mem) = {} \<and>
     forest (ktable_roots kt) 2 (mem_tables mem) (bm_free (mem_frames mem) \<union> set fs) \<and>
     (\<forall>i < length fs. kernel_translation kt (mem_tables mem) (page_at (v + i)) = Some (frame_at (fs ! i))) \<and>
     (\<forall>i. kernel_number i \<longrightarrow> v + length fs \<le> i \<longrightarrow> kernel_translation kt (mem_tables mem) (page_at i) = None)"

lemma heap_okD:
  assumes "heap_ok kt v fs mem self"
  shows "heap_mapping self = \<lparr>om_base = page_at v, om_len = length fs\<rparr>"
    and "mem = \<lparr>mem_tables = mem_tables mem, mem_frames = mem_frames mem, mem_pages = (v + length fs) * 4096\<rparr>"
    and "HALF \<le> v * 4096" and "(v + length fs) * 4096 < USIZE_BOUND"
    and "v * 4096 \<le> vaddr (watermark self)" and "vaddr (watermark self) \<le> (v + length fs) * 4096"
    and "low_pool (mem_frames mem)" and "distinct fs" and "set fs \<inter> bm_free (mem_frames mem) = {}"
    and "forest (ktable_roots kt) 2 (mem_tables mem) (bm_free (mem_frames mem) \<union> set fs)"
    and "\<And>i. i < length fs \<Longrightarrow> kernel_translation kt (mem_tables mem) (page_at (v + i)) = Some (frame_at (fs ! i))"
    and "\<And>i. kernel_number i \<Longrightarrow> v + length fs \<le> i \<Longrightarrow> kernel_translation kt (mem_tables mem) (page_at i) = None"
  using assms unfolding heap_ok_def by simp_all

text \<open>Memory that differs in frames that went missing.\<close>

lemma heap_ok_lost:
  assumes "heap_ok kt v fs mem self" and "mem_tables mem' = mem_tables mem" and "mem_pages mem' = mem_pages mem"
    and "low_pool (mem_frames mem')" and "bm_free (mem_frames mem') \<subseteq> bm_free (mem_frames mem)"
  shows "heap_ok kt v fs mem' self"
proof -
  note D = heap_okD [OF assms(1)]
  have "forest (ktable_roots kt) 2 (mem_tables mem) (bm_free (mem_frames mem') \<union> set fs)"
    by (rule forest_mono [OF D(10)]) (use assms(5) in blast)
  moreover have "set fs \<inter> bm_free (mem_frames mem') = {}" using D(9) assms(5) by blast
  ultimately show ?thesis using assms(1-4) unfolding heap_ok_def by simp
qed

text \<open>The frames after growing by \<open>e\<close> pages.\<close>

lemma heap_ok_grown:
  assumes ok: "heap_ok kt v fs mem self" and e: "(v + length fs + e) * 4096 < USIZE_BOUND"
    and mem': "mem_pages mem' = (v + length fs + e) * 4096" "low_pool (mem_frames mem')"
      "{g..<g + e} \<subseteq> bm_free (mem_frames mem)" "bm_free (mem_frames mem') \<subseteq> bm_free (mem_frames mem) - {g..<g + e}"
      "forest (ktable_roots kt) 2 (mem_tables mem') (bm_free (mem_frames mem') \<union> (set fs \<union> {g..<g + e}))"
      "\<And>i. kernel_number i \<Longrightarrow> kernel_translation kt (mem_tables mem') (page_at i) =
        mapped_on (kernel_translation kt (mem_tables mem)) (v + length fs) g e (page_at i)"
    and w: "v * 4096 \<le> w" "w \<le> (v + length fs + e) * 4096"
  shows "heap_ok kt v (fs @ [g..<g + e]) mem'
    \<lparr>watermark = VirtualAddress w, heap_mapping = \<lparr>om_base = page_at v, om_len = length fs + e\<rparr>\<rparr>"
proof -
  note D = heap_okD [OF ok]
  have k: "kernel_number (v + i)" if "i < length fs + e" for i
  proof -
    have "v * 4096 \<le> (v + i) * 4096" by simp
    with D(3) have "HALF \<le> (v + i) * 4096" by (rule order_trans)
    with e that show ?thesis by (simp add: kernel_number_def)
  qed
  have "kernel_translation kt (mem_tables mem') (page_at (v + i)) = Some (frame_at ((fs @ [g..<g + e]) ! i))"
    if "i < length fs + e" for i
    using mem'(6) [OF k [OF that]] D(11) [of i] that by (auto simp: mapped_on_at nth_append)
  moreover have "kernel_translation kt (mem_tables mem') (page_at i) = None" if "kernel_number i" "v + (length fs + e) \<le> i" for i
    using mem'(6) [OF that(1)] D(12) [OF that(1)] that(2) by (simp add: mapped_on_at)
  moreover have "distinct (fs @ [g..<g + e])" using D(8,9) mem'(3) by auto
  moreover have "set (fs @ [g..<g + e]) \<inter> bm_free (mem_frames mem') = {}" using D(9) mem'(4) by auto
  ultimately show ?thesis using e D(3) mem'(1,2,5) w unfolding heap_ok_def by (simp add: add.assoc)
qed

text \<open>An allocation either fails, and then every earlier allocation is still backed by the same frames,
  or returns an aligned pointer above all earlier allocations such that the whole block lies in pages
  of the heap. It panics only when memory for frames and tables is short.\<close>

lemma heap_allocate_outcome:
  assumes ok: "heap_ok kt v fs mem self" and k: "k < 64" "lay_align layout = 2 ^ k"
    and fits: "vaddr (watermark self) + 2 ^ k + lay_size layout + 4096 < USIZE_BOUND"
  shows "case heap_allocate bm_methods kt (bootstrap_methods END) layout self mem of
      None \<Rightarrow> 4096 * card (bm_free (mem_frames mem)) \<le> 3 * (2 ^ k + lay_size layout + 4096)
    | Some (Inl e, self', mem') \<Rightarrow> self' = self \<and> heap_ok kt v fs mem' self
    | Some (Inr p, self', mem') \<Rightarrow> 2 ^ k dvd p \<and> vaddr (watermark self) \<le> p \<and> p < vaddr (watermark self) + 2 ^ k \<and>
        vaddr (watermark self') = p + lay_size layout \<and>
        (\<exists>gs. heap_ok kt v (fs @ gs) mem' self')"
proof -
  note D = heap_okD [OF ok]
  obtain w where w: "watermark self = VirtualAddress w" by (cases "watermark self")
  let ?n = "length fs"
  have "w < USIZE_BOUND" "w + 2 ^ k < USIZE_BOUND" using fits w by simp_all
  with align_up_least [OF k(1), of w] obtain p where p: "virt_align_up (2 ^ k) (VirtualAddress w) = Some (VirtualAddress p)"
    and dvd: "2 ^ k dvd p" and wp: "w \<le> p" and least: "\<And>e. 2 ^ k dvd e \<Longrightarrow> w \<le> e \<Longrightarrow> p \<le> e" by auto
  have pw: "p < w + 2 ^ k"
  proof (rule ccontr)
    assume "\<not> p < w + 2 ^ k"
    then have "p \<le> p - 2 ^ k" using dvd by (intro least) auto
    moreover have "0 < (2 :: nat) ^ k" "2 ^ k \<le> p" using \<open>\<not> p < w + 2 ^ k\<close> by simp_all
    ultimately show False by linarith
  qed
  define b where "b = p + lay_size layout"
  have b: "b < USIZE_BOUND" "b + 4096 < USIZE_BOUND" using fits pw w by (simp_all add: b_def)
  have wv: "v * 4096 \<le> w" "w \<le> (v + ?n) * 4096" using D(5,6) w by simp_all
  have pv: "v * 4096 \<le> p" "p \<noteq> 0" using wv(1) wp D(3) by (auto simp: HALF_def)
  have mx: "page_add (page_at v) ?n = Some (page_at (v + ?n))" using D(4) by (rule page_add_at)
  note run = heap_allocate_def virt_align_up_runtime_eq w p k(2) virt_add_def b_def [symmetric] old_end_def D(1)
    mx page_start_def virt_diff_def uadd_def usub_def rust_assert_def
  show ?thesis
  proof (cases "b \<le> (v + ?n) * 4096")
    case True
    have "heap_ok kt v (fs @ []) mem \<lparr>watermark = VirtualAddress b, heap_mapping = \<lparr>om_base = page_at v, om_len = ?n\<rparr>\<rparr>"
      using ok True pv(1) unfolding heap_ok_def by (simp add: b_def)
    with True dvd wp pw pv(2) b(1) show ?thesis by (auto simp: run intro: exI [of _ "[]"])
  next
    case False
    define inc where "inc = b - (v + ?n) * 4096"
    define e where "e = (inc + 4095) div 4096"
    have inc: "0 < inc" "inc \<le> 2 ^ k + lay_size layout" using False wv(2) pw by (simp_all add: inc_def b_def)
    have e: "0 < e" "inc \<le> e * 4096" "e * 4096 \<le> inc + 4095" using inc(1) by (simp_all add: e_def)
    have ve: "(v + ?n + e) * 4096 < USIZE_BOUND" "b \<le> (v + ?n + e) * 4096"
      using e b(2) False by (simp_all add: distrib_right inc_def)
    show ?thesis
    proof (cases "2 ^ 63 \<le> inc")
      case True
      then show ?thesis using False ok D(1) b(1) by (simp add: run inc_def [symmetric])
    next
      case small: False
      note out = grow_outcome [OF D(7,10,9) e(1) D(3) ve(1) D(12), of END]
      have len: "?n + e < USIZE_BOUND" using ve(1) by simp
      have grow: "heap_allocate bm_methods kt (bootstrap_methods END) layout self mem =
        (case resize_inner bm_methods kt (bootstrap_methods END) (?n + e) \<lparr>om_base = page_at v, om_len = ?n\<rparr> mem of
          None \<Rightarrow> None
        | Some (Inl x, mp, mem') \<Rightarrow> Some (Inl AllocError, self\<lparr>heap_mapping := mp\<rparr>, mem')
        | Some (Inr u, mp, mem') \<Rightarrow> Some (Inr p, \<lparr>watermark = VirtualAddress b, heap_mapping = mp\<rparr>, mem'))"
        using False small len pv(2) b(1)
        by (simp add: run inc_def [symmetric] e_def [symmetric] resize_in_place_def split: option.splits sum.splits prod.splits)
      note out = grow_outcome [OF D(7,10,9) e(1) D(3) ve(1) D(12), of END, folded D(2)]
      show ?thesis
      proof (cases "resize_inner bm_methods kt (bootstrap_methods END) (?n + e) \<lparr>om_base = page_at v, om_len = ?n\<rparr> mem")
        case None
        with out have "card (bm_free (mem_frames mem)) \<le> 3 * e" by simp
        then have "4096 * card (bm_free (mem_frames mem)) \<le> 3 * (e * 4096)" by simp
        also have "\<dots> \<le> 3 * (2 ^ k + lay_size layout + 4096)" using e(3) inc(2) by (intro mult_left_mono) simp_all
        finally have "4096 * card (bm_free (mem_frames mem)) \<le> 3 * (2 ^ k + lay_size layout + 4096)" .
        then show ?thesis by (simp add: grow None)
      next
        case (Some r)
        obtain r1 mp mem' where r: "r = (r1, mp, mem')" by (cases r)
        show ?thesis
        proof (cases r1)
          case (Inl x)
          have "mem_pages mem = (v + ?n) * 4096" using arg_cong [OF D(2), of mem_pages] by simp
          with out Some r Inl have "heap_ok kt v fs mem' self" "mp = heap_mapping self"
            using heap_ok_lost [OF ok, of mem'] by (simp_all add: D(1))
          then show ?thesis by (simp add: grow Some r Inl)
        next
          case (Inr u)
          with out Some r obtain g where g: "mp = \<lparr>om_base = page_at v, om_len = ?n + e\<rparr>"
            "mem_pages mem' = (v + ?n + e) * 4096" "low_pool (mem_frames mem')"
            "{g..<g + e} \<subseteq> bm_free (mem_frames mem)" "bm_free (mem_frames mem') \<subseteq> bm_free (mem_frames mem) - {g..<g + e}"
            "forest (ktable_roots kt) 2 (mem_tables mem') (bm_free (mem_frames mem') \<union> (set fs \<union> {g..<g + e}))"
            "\<And>i. kernel_number i \<Longrightarrow> kernel_translation kt (mem_tables mem') (page_at i) =
              mapped_on (kernel_translation kt (mem_tables mem)) (v + ?n) g e (page_at i)" by auto
          have "v * 4096 \<le> b" using pv(1) by (simp add: b_def)
          from heap_ok_grown [OF ok ve(1) g(2-7) this ve(2)] g(1) dvd wp pw
          show ?thesis by (auto simp: grow Some r Inr b_def w)
        qed
      qed
    qed
  qed
qed

text \<open>A heap starts empty, at the pointer of the bootstrap allocator.\<close>

lemma heap_new_ok:
  assumes kt: "ktable_ok kt (mem_tables mem) (mem_frames mem)" and v: "mem_pages mem = v * 4096" "HALF \<le> v * 4096" "v * 4096 < USIZE_BOUND"
    and un: "\<And>i. kernel_number i \<Longrightarrow> v \<le> i \<Longrightarrow> kernel_translation kt (mem_tables mem) (page_at i) = None"
    and END: "v * 4096 \<le> END"
  shows "\<exists>self. heap_new bm_methods kt (bootstrap_methods END) mem = Some (self, mem) \<and> heap_ok kt v [] mem self \<and>
    watermark self = VirtualAddress (v * 4096)"
proof -
  have "page_add (page_at v) 0 = Some (page_at v)" using page_add_at [of v 0] v(3) by simp
  moreover have "virt_new 4096 (v * 4096) = Some (VirtualAddress (v * 4096))" using v(3) by (rule virt_new_at)
  moreover have "virt_align_down (Suc 0) (VirtualAddress (v * 4096)) = Some (VirtualAddress (v * 4096))"
    using virt_align_down_pow2 [of 0 "v * 4096"] v(3) by simp
  ultimately show ?thesis using assms
    by (cases mem) (auto simp: heap_new_def old_new_def old_new_with_def bootstrap_methods_def bootstrap_allocate_contiguous_def
      bm_allocate_contiguous_def frame_zero_def map_pages_def old_end_def page_new_def page_start_def heap_ok_def ktable_ok_def)
qed

section \<open>Runs of allocations\<close>

text \<open>The blocks that a list of requests gets, failed requests left out.\<close>

primrec heap_run ::
  "'s frame_allocator \<Rightarrow> Frame \<Rightarrow> 'v page_allocator \<Rightarrow> Layout list \<Rightarrow> BadHeap \<Rightarrow> ('s, 'v) memory \<Rightarrow>
    ((usize \<times> Layout) list \<times> BadHeap \<times> ('s, 'v) memory) rust" where
  "heap_run highmem kt global [] self mem = Some ([], self, mem)"
| "heap_run highmem kt global (l # ls) self mem = do {
     (r, self', mem') \<leftarrow> heap_allocate highmem kt global l self mem;
     (blocks, self'', mem'') \<leftarrow> heap_run highmem kt global ls self' mem';
     Some (case r of Inl e \<Rightarrow> blocks | Inr p \<Rightarrow> (p, l) # blocks, self'', mem'') }"

lemma heap_run_outcome:
  assumes "heap_ok kt v fs mem self" and "\<forall>l \<in> set ls. \<exists>k < 64. lay_align l = 2 ^ k"
    and "vaddr (watermark self) + (\<Sum>l \<leftarrow> ls. lay_align l + lay_size l) + 4096 < USIZE_BOUND"
    and "heap_run bm_methods kt (bootstrap_methods END) ls self mem = Some (blocks, self', mem')"
  shows "\<exists>gs. heap_ok kt v (fs @ gs) mem' self' \<and> vaddr (watermark self) \<le> vaddr (watermark self') \<and>
    sorted_wrt (\<lambda>(p, l) (q, m). p + lay_size l \<le> q) blocks \<and>
    (\<forall>(p, l) \<in> set blocks. vaddr (watermark self) \<le> p \<and> p + lay_size l \<le> vaddr (watermark self') \<and> lay_align l dvd p)"
  using assms
proof (induction ls arbitrary: fs self mem blocks)
  case Nil
  then show ?case by (auto intro: exI [of _ "[]"])
next
  case (Cons l ls)
  let ?w = "vaddr (watermark self)"
  obtain k where k: "k < 64" "lay_align l = 2 ^ k" using Cons.prems(2) by auto
  have fits: "?w + 2 ^ k + lay_size l + 4096 < USIZE_BOUND" using Cons.prems(3) k(2) by simp
  from Cons.prems(4) obtain r s m bs where r: "heap_allocate bm_methods kt (bootstrap_methods END) l self mem = Some (r, s, m)"
    and run: "heap_run bm_methods kt (bootstrap_methods END) ls s m = Some (bs, self', mem')"
    and blocks: "blocks = (case r of Inl e \<Rightarrow> bs | Inr p \<Rightarrow> (p, l) # bs)"
    by (auto simp: bind_eq_Some_conv)
  note out = heap_allocate_outcome [OF Cons.prems(1) k fits, of END]
  show ?case
  proof (cases r)
    case (Inl e)
    with out r have "heap_ok kt v fs m self" "s = self" by simp_all
    with Cons.IH [of fs m self bs] Cons.prems(2,3) run blocks Inl show ?thesis by simp
  next
    case (Inr p)
    with out r obtain gs where p: "2 ^ k dvd p" "?w \<le> p" "p < ?w + 2 ^ k" "vaddr (watermark s) = p + lay_size l" "heap_ok kt v (fs @ gs) m s"
      by auto
    have "vaddr (watermark s) + (\<Sum>l \<leftarrow> ls. lay_align l + lay_size l) + 4096 < USIZE_BOUND"
      using Cons.prems(3) p(3,4) k(2) by simp
    from Cons.IH [OF p(5) _ this run] Cons.prems(2) obtain hs where hs: "heap_ok kt v ((fs @ gs) @ hs) mem' self'"
      "vaddr (watermark s) \<le> vaddr (watermark self')" "sorted_wrt (\<lambda>(p, l) (q, m). p + lay_size l \<le> q) bs"
      "\<forall>(p, l) \<in> set bs. vaddr (watermark s) \<le> p \<and> p + lay_size l \<le> vaddr (watermark self') \<and> lay_align l dvd p" by auto
    show ?thesis
    proof (intro exI [of _ "gs @ hs"] conjI)
      show "heap_ok kt v (fs @ gs @ hs) mem' self'" using hs(1) by simp
      show "?w \<le> vaddr (watermark self')" using hs(2) p(2,4) by simp
      show "sorted_wrt (\<lambda>(p, l) (q, m). p + lay_size l \<le> q) blocks" using hs(3,4) blocks Inr p(4) by auto
      show "\<forall>(p, l) \<in> set blocks. ?w \<le> p \<and> p + lay_size l \<le> vaddr (watermark self') \<and> lay_align l dvd p"
        using hs(2,4) blocks Inr p(1,2,4) k(2) by auto
    qed
  qed
qed

text \<open>A block that moves keeps its contents up to the smaller of the two sizes, and no byte outside the new
  block changes.\<close>

lemma heap_reallocate_copies:
  assumes "heap_reallocate highmem kt global ptr old_layout new_size self mem bytes = Some (Inr new, self', mem', bytes')"
  shows "\<And>i. i < lay_size old_layout \<Longrightarrow> i < new_size \<Longrightarrow> bytes' (new + i) = bytes (ptr + i)"
    and "\<And>a. a \<notin> {new..<new + new_size} \<Longrightarrow> bytes' a = bytes a"
proof -
  from assms obtain r s m where
    "heap_allocate highmem kt global \<lparr>lay_size = new_size, lay_align = lay_align old_layout\<rparr> self mem = Some (r, s, m)"
    by (auto simp: heap_reallocate_def bind_eq_Some_conv)
  with assms have "bytes' = copy_nonoverlapping ptr new (min (lay_size old_layout) new_size) bytes"
    by (cases r) (auto simp: heap_reallocate_def bind_eq_Some_conv)
  then show "\<And>i. i < lay_size old_layout \<Longrightarrow> i < new_size \<Longrightarrow> bytes' (new + i) = bytes (ptr + i)"
    and "\<And>a. a \<notin> {new..<new + new_size} \<Longrightarrow> bytes' a = bytes a"
    by (auto simp: copy_nonoverlapping_def)
qed

text \<open>Where the bytes of the heap are in physical memory.\<close>

abbreviation physical_byte :: "Frame \<Rightarrow> tables \<Rightarrow> usize \<Rightarrow> (Frame option \<times> usize)" where
  "physical_byte kt m a \<equiv> (kernel_translation kt m (page_at (a div 4096)), a mod 4096)"

lemma heap_byte:
  assumes ok: "heap_ok kt v fs mem self" and a: "v * 4096 \<le> a" "a < (v + length fs) * 4096"
  shows "kernel_translation kt (mem_tables mem) (page_at (a div 4096)) = Some (frame_at (fs ! (a div 4096 - v)))"
    and "v \<le> a div 4096" and "a div 4096 - v < length fs"
proof -
  show v: "v \<le> a div 4096" using a(1) by (simp add: less_eq_div_iff_mult_less_eq)
  have "a div 4096 < v + length fs" using a(2) by (simp add: less_mult_imp_div_less)
  with v show n: "a div 4096 - v < length fs" by simp
  from heap_okD(11) [OF ok n] v
  show "kernel_translation kt (mem_tables mem) (page_at (a div 4096)) = Some (frame_at (fs ! (a div 4096 - v)))" by simp
qed

lemma heap_bytes_inj:
  assumes ok: "heap_ok kt v fs mem self"
  shows "inj_on (physical_byte kt (mem_tables mem)) {v * 4096..<vaddr (watermark self)}"
proof (rule inj_onI)
  fix a b assume ab: "a \<in> {v * 4096..<vaddr (watermark self)}" "b \<in> {v * 4096..<vaddr (watermark self)}"
    and eq: "physical_byte kt (mem_tables mem) a = physical_byte kt (mem_tables mem) b"
  have a: "v * 4096 \<le> a" "a < (v + length fs) * 4096" and b: "v * 4096 \<le> b" "b < (v + length fs) * 4096"
    using ab heap_okD(6) [OF ok] by auto
  note A = heap_byte [OF ok a] and B = heap_byte [OF ok b]
  from eq A(1) B(1) have "fs ! (a div 4096 - v) = fs ! (b div 4096 - v)" "a mod 4096 = b mod 4096" by simp_all
  with heap_okD(8) [OF ok] A B have "a div 4096 - v = b div 4096 - v" by (simp add: nth_eq_iff_index_eq)
  with A(2) B(2) have "a div 4096 = b div 4096" by simp
  with \<open>a mod 4096 = b mod 4096\<close> show "a = b" by (metis div_mult_mod_eq)
qed

section \<open>Properties\<close>

text \<open>C7. The heap that \<open>heap_new\<close> makes serves any run of allocations that stays in the address space with
  separate blocks: the pointers are aligned, no two blocks share an address, every byte of every block
  is mapped, and no two bytes of the heap are the same byte of physical memory, whichever requests
  failed on the way.\<close>

theorem heap_blocks_separate:
  assumes mem: "ktable_ok kt (mem_tables mem) (mem_frames mem)" "mem_pages mem = v * 4096" "HALF \<le> v * 4096" "v * 4096 < USIZE_BOUND"
      "v * 4096 \<le> END"
    and unmapped: "\<forall>i. kernel_number i \<longrightarrow> v \<le> i \<longrightarrow> kernel_translation kt (mem_tables mem) (page_at i) = None"
    and new: "heap_new bm_methods kt (bootstrap_methods END) mem = Some (self, mem0)"
    and layouts: "\<forall>l \<in> set ls. \<exists>k < 64. lay_align l = 2 ^ k"
      "v * 4096 + (\<Sum>l \<leftarrow> ls. lay_align l + lay_size l) + 4096 < USIZE_BOUND"
    and run: "heap_run bm_methods kt (bootstrap_methods END) ls self mem0 = Some (blocks, self', mem')"
  shows "sorted_wrt (\<lambda>(p, l) (q, m). p + lay_size l \<le> q) blocks \<and>
    (\<forall>(p, l) \<in> set blocks. lay_align l dvd p \<and> {p..<p + lay_size l} \<subseteq> {v * 4096..<vaddr (watermark self')} \<and>
      (\<forall>a \<in> {p..<p + lay_size l}. kernel_translation kt (mem_tables mem') (page_at (a div 4096)) \<noteq> None)) \<and>
    inj_on (physical_byte kt (mem_tables mem')) {v * 4096..<vaddr (watermark self')}"
proof -
  from heap_new_ok [OF mem(1-4) _ mem(5)] unmapped new have ok: "heap_ok kt v [] mem self" "mem0 = mem"
    "watermark self = VirtualAddress (v * 4096)" by auto
  from heap_run_outcome [OF ok(1) layouts(1) _ run [unfolded ok(2)]] layouts(2) ok(3) obtain gs where
    gs: "heap_ok kt v gs mem' self'" "sorted_wrt (\<lambda>(p, l) (q, m). p + lay_size l \<le> q) blocks"
    "\<forall>(p, l) \<in> set blocks. v * 4096 \<le> p \<and> p + lay_size l \<le> vaddr (watermark self') \<and> lay_align l dvd p" by auto
  have "kernel_translation kt (mem_tables mem') (page_at (a div 4096)) \<noteq> None" if "v * 4096 \<le> a" "a < vaddr (watermark self')" for a
    using heap_byte(1) [OF gs(1) that(1)] that(2) heap_okD(6) [OF gs(1)] by simp
  with gs(2,3) heap_bytes_inj [OF gs(1)] show ?thesis by fastforce
qed

definition heap_memory :: "(BitmapAllocator, usize) memory" where
  "heap_memory = \<lparr>mem_tables = (\<lambda>t. table_empty), mem_frames = bm_small, mem_pages = (0xffff800000000 + 2 ^ 34) * 4096\<rparr>"

definition heap_requests :: "Layout list" where
  "heap_requests = [\<lparr>lay_size = 10, lay_align = 8\<rparr>, \<lparr>lay_size = 20, lay_align = 16\<rparr>]"

theorem heap_blocks_separate_witness:
  "\<exists>self blocks self' mem'. heap_new bm_methods (frame_at 256) (bootstrap_methods (2 ^ 64 - 1)) heap_memory = Some (self, heap_memory) \<and>
    heap_run bm_methods (frame_at 256) (bootstrap_methods (2 ^ 64 - 1)) heap_requests self heap_memory = Some (blocks, self', mem') \<and>
    blocks = [((0xffff800000000 + 2 ^ 34) * 4096, \<lparr>lay_size = 10, lay_align = 8\<rparr>),
      ((0xffff800000000 + 2 ^ 34) * 4096 + 16, \<lparr>lay_size = 20, lay_align = 16\<rparr>)] \<and>
    inj_on (physical_byte (frame_at 256) (mem_tables mem')) {(0xffff800000000 + 2 ^ 34) * 4096..<vaddr (watermark self')}"
proof -
  let ?v = "0xffff800000000 + 2 ^ 34 :: nat" and ?self = "\<lparr>watermark = VirtualAddress ((0xffff800000000 + 2 ^ 34) * 4096),
    heap_mapping = \<lparr>om_base = page_at (0xffff800000000 + 2 ^ 34), om_len = 0\<rparr>\<rparr>"
  let ?run = "heap_run bm_methods (frame_at 256) (bootstrap_methods (2 ^ 64 - 1)) heap_requests ?self heap_memory"
  have un: "kernel_translation (frame_at 256) (mem_tables heap_memory) p = None" for p
    by (simp add: heap_memory_def kernel_translation_def reach_def kernel_path_def ktable_roots_def table_empty_def)
  have kt: "ktable_ok (frame_at 256) (mem_tables heap_memory) (mem_frames heap_memory)" using small_ktable_ok by (simp add: heap_memory_def)
  have v: "mem_pages heap_memory = ?v * 4096" "HALF \<le> ?v * 4096" "?v * 4096 < USIZE_BOUND" "?v * 4096 \<le> 2 ^ 64 - 1"
    by (simp_all add: heap_memory_def HALF_def)
  obtain self where new: "heap_new bm_methods (frame_at 256) (bootstrap_methods (2 ^ 64 - 1)) heap_memory = Some (self, heap_memory)"
    "heap_ok (frame_at 256) ?v [] heap_memory self" "watermark self = VirtualAddress (?v * 4096)"
    using heap_new_ok [OF kt v(1-3) un v(4)] by blast
  have self: "self = ?self" using new(3) heap_okD(1) [OF new(2)] by (cases self) simp
  have "map_option fst ?run = Some [((0xffff800000000 + 2 ^ 34) * 4096, \<lparr>lay_size = 10, lay_align = 8\<rparr>),
      ((0xffff800000000 + 2 ^ 34) * 4096 + 16, \<lparr>lay_size = 20, lay_align = 16\<rparr>)]" by code_simp
  then obtain blocks self' mem' where run: "?run = Some (blocks, self', mem')" and
    "blocks = [((0xffff800000000 + 2 ^ 34) * 4096, \<lparr>lay_size = 10, lay_align = 8\<rparr>),
      ((0xffff800000000 + 2 ^ 34) * 4096 + 16, \<lparr>lay_size = 20, lay_align = 16\<rparr>)]" by auto
  moreover have "\<exists>k < 64. lay_align l = 2 ^ k" if "l \<in> set heap_requests" for l
    using that by (auto simp: heap_requests_def intro: exI [of _ 3] exI [of _ 4])
  then have "\<forall>l \<in> set heap_requests. \<exists>k < 64. lay_align l = 2 ^ k" by blast
  moreover have "?v * 4096 + (\<Sum>l \<leftarrow> heap_requests. lay_align l + lay_size l) + 4096 < USIZE_BOUND" by (simp add: heap_requests_def)
  ultimately show ?thesis using heap_blocks_separate [OF kt v _ new(1) _ _ run [folded self]] un new(1) self by auto
qed

end
