(* ===== verification/Rw_Lock.thy ===== *)
theory Rw_Lock
  imports Prelude
begin

unbundle bit_operations_syntax

text \<open>
  The reader-writer lock of \<open>kernel_api/src/sync/rwlock.rs\<close>. The lock is one 64-bit word: bit 63
  is set by a writer, bit 62 by an upgradable reader, and the rest counts the plain readers.

  Each method is a function of the word it sees (\<open>attempt\<close>); the parameter \<open>dbg\<close> is
  \<open>cfg!(debug_assertions)\<close>, which also decides whether an arithmetic overflow panics. The
  interleaving of any number of callers is the step relation \<open>rw_step\<close>: an agent is a guard, or
  a call that will yield one, and every atomic access of the word is a step of its own. A weak
  compare-and-exchange may fail at any time. A load reads the current word: the relation is
  sequentially consistent. The rules by which a guard is used (\<open>requires\<close>) are the safety
  conditions of the unsafe methods of the \<open>lock_api\<close> traits, which its guards keep.

  The methods do not disable interrupts. A caller that has been interrupted takes no step until the
  handler on top of it has returned: \<open>rw_steps_without W\<close> are the runs in which the callers of \<open>W\<close>
  are interrupted in this way.
\<close>

section \<open>The lock word and the methods\<close>

definition WRITE_BIT_MASK :: u64 where
  "WRITE_BIT_MASK = push_bit (8 * 8 - 1) 1"

definition UPGRADEABLE_BIT_MASK :: u64 where
  "UPGRADEABLE_BIT_MASK = push_bit (8 * 8 - 2) 1"

definition READ_COUNT_MASK :: u64 where
  "READ_COUNT_MASK = NOT (WRITE_BIT_MASK OR UPGRADEABLE_BIT_MASK)"

definition RwCount_INIT :: u64 where
  "RwCount_INIT = 0"

text \<open>The fields \<open>write\<close> and \<open>read\<close> of the debug print.\<close>

definition RwCount_fmt :: "u64 \<Rightarrow> bool \<times> u64" where
  "RwCount_fmt val =
    (let write = val AND WRITE_BIT_MASK \<noteq> 0;
         read = val AND READ_COUNT_MASK;
         upgradeable_reader = val AND UPGRADEABLE_BIT_MASK \<noteq> 0
     in (write, read + (if upgradeable_reader then 1 else 0)))"

text \<open>What a method does with the word it sees: panic, return false, or try to exchange the word
  for a new one.\<close>

datatype attempt = Panics | Refuses | Exchanges u64

definition try_lock_shared :: "u64 \<Rightarrow> attempt" where
  "try_lock_shared old_value =
    (let old_normal_count = old_value AND READ_COUNT_MASK in
     if old_normal_count = READ_COUNT_MASK then Panics
     else if old_value AND WRITE_BIT_MASK \<noteq> 0 then Refuses
     else Exchanges ((old_normal_count + 1) OR (old_value AND UPGRADEABLE_BIT_MASK)))"

definition unlock_shared :: "bool \<Rightarrow> u64 \<Rightarrow> attempt" where
  "unlock_shared dbg old_value =
    (let old_normal_count = old_value AND NOT UPGRADEABLE_BIT_MASK in
     if dbg \<and> old_value AND WRITE_BIT_MASK \<noteq> 0 then Panics
     else if dbg \<and> old_normal_count = 0 then Panics
     else Exchanges ((old_normal_count - 1) OR (old_value AND UPGRADEABLE_BIT_MASK)))"

definition try_lock_exclusive :: "u64 \<Rightarrow> attempt" where
  "try_lock_exclusive seen = (if seen = 0 then Exchanges WRITE_BIT_MASK else Refuses)"

definition unlock_exclusive :: "bool \<Rightarrow> u64 \<Rightarrow> attempt" where
  "unlock_exclusive dbg seen =
    (if dbg then if seen = WRITE_BIT_MASK then Exchanges 0 else Panics else Exchanges 0)"

definition downgrade :: "bool \<Rightarrow> u64 \<Rightarrow> attempt" where
  "downgrade dbg seen =
    (if dbg then if seen = WRITE_BIT_MASK then Exchanges 1 else Panics else Exchanges 1)"

definition try_lock_upgradable :: "u64 \<Rightarrow> attempt" where
  "try_lock_upgradable old_value =
    (if old_value AND WRITE_BIT_MASK \<noteq> 0 then Refuses
     else if old_value AND UPGRADEABLE_BIT_MASK \<noteq> 0 then Refuses
     else Exchanges (old_value OR UPGRADEABLE_BIT_MASK))"

definition unlock_upgradable :: "bool \<Rightarrow> u64 \<Rightarrow> attempt" where
  "unlock_upgradable dbg old_value =
    (if dbg \<and> old_value AND WRITE_BIT_MASK \<noteq> 0 then Panics
     else Exchanges (old_value AND NOT UPGRADEABLE_BIT_MASK))"

definition try_upgrade :: "u64 \<Rightarrow> attempt" where
  "try_upgrade seen =
    (if seen = UPGRADEABLE_BIT_MASK then Exchanges WRITE_BIT_MASK else Refuses)"

definition downgrade_upgradable :: "bool \<Rightarrow> u64 \<Rightarrow> attempt" where
  "downgrade_upgradable dbg old_value =
    (if dbg \<and> old_value AND WRITE_BIT_MASK \<noteq> 0 then Panics
     else let old_normal_count = old_value AND READ_COUNT_MASK in
       if old_normal_count = READ_COUNT_MASK then Panics
       else Exchanges (old_normal_count + 1))"

definition downgrade_to_upgradable :: "bool \<Rightarrow> u64 \<Rightarrow> attempt" where
  "downgrade_to_upgradable dbg seen =
    (if dbg
     then if seen = WRITE_BIT_MASK then Exchanges UPGRADEABLE_BIT_MASK else Panics
     else Exchanges UPGRADEABLE_BIT_MASK)"

section \<open>Interleaved callers\<close>

datatype hold = Unheld | Shared | Upgradable | Exclusive

datatype rw_op =
    TryLockShared | UnlockShared | TryLockExclusive | UnlockExclusive | Downgrade
  | TryLockUpgradable | UnlockUpgradable | TryUpgrade | DowngradeUpgradable | DowngradeToUpgradable

fun requires :: "rw_op \<Rightarrow> hold" where
  "requires TryLockShared = Unheld"
| "requires TryLockExclusive = Unheld"
| "requires TryLockUpgradable = Unheld"
| "requires UnlockShared = Shared"
| "requires UnlockUpgradable = Upgradable"
| "requires TryUpgrade = Upgradable"
| "requires DowngradeUpgradable = Upgradable"
| "requires UnlockExclusive = Exclusive"
| "requires Downgrade = Exclusive"
| "requires DowngradeToUpgradable = Exclusive"

fun grants :: "rw_op \<Rightarrow> hold" where
  "grants TryLockShared = Shared"
| "grants TryLockExclusive = Exclusive"
| "grants TryLockUpgradable = Upgradable"
| "grants UnlockShared = Unheld"
| "grants UnlockUpgradable = Unheld"
| "grants TryUpgrade = Exclusive"
| "grants DowngradeUpgradable = Shared"
| "grants UnlockExclusive = Unheld"
| "grants Downgrade = Shared"
| "grants DowngradeToUpgradable = Upgradable"

fun attempt_of :: "bool \<Rightarrow> rw_op \<Rightarrow> u64 \<Rightarrow> attempt" where
  "attempt_of dbg TryLockShared v = try_lock_shared v"
| "attempt_of dbg TryLockExclusive v = try_lock_exclusive v"
| "attempt_of dbg TryLockUpgradable v = try_lock_upgradable v"
| "attempt_of dbg UnlockShared v = unlock_shared dbg v"
| "attempt_of dbg UnlockUpgradable v = unlock_upgradable dbg v"
| "attempt_of dbg TryUpgrade v = try_upgrade v"
| "attempt_of dbg DowngradeUpgradable v = downgrade_upgradable dbg v"
| "attempt_of dbg UnlockExclusive v = unlock_exclusive dbg v"
| "attempt_of dbg Downgrade v = downgrade dbg v"
| "attempt_of dbg DowngradeToUpgradable v = downgrade_to_upgradable dbg v"

text \<open>The methods that load the word and then retry a compare-and-exchange, and the methods that
  are a single weak compare-and-exchange.\<close>

definition cas_loop :: "rw_op \<Rightarrow> bool" where
  "cas_loop op \<longleftrightarrow> op \<in> {TryLockShared, UnlockShared, TryLockUpgradable, UnlockUpgradable, DowngradeUpgradable}"

definition weak_cas :: "rw_op \<Rightarrow> bool" where
  "weak_cas op \<longleftrightarrow> op \<in> {TryLockExclusive, TryUpgrade}"

text \<open>A call is marked when it is made by one of the methods \<open>lock_shared\<close>, \<open>lock_exclusive\<close>,
  \<open>lock_upgradable\<close> and \<open>upgrade\<close>, which repeat a refused attempt.\<close>

datatype pc =
    Holding hold
  | Calling (spins: bool) rw_op
  | Exchanging (spins: bool) rw_op u64
  | Panicked hold

fun held :: "pc \<Rightarrow> hold" where
  "held (Holding h) = h"
| "held (Calling b op) = requires op"
| "held (Exchanging b op old) = requires op"
| "held (Panicked h) = h"

definition after_refusal :: "bool \<Rightarrow> rw_op \<Rightarrow> pc" where
  "after_refusal b op = (if b then Calling b op else Holding (requires op))"

record rw_state =
  rw_word :: u64
  agents :: "pc list"

definition rw_init :: "nat \<Rightarrow> rw_state" where
  "rw_init n = \<lparr>rw_word = RwCount_INIT, agents = replicate n (Holding Unheld)\<rparr>"

definition to_pc :: "nat \<Rightarrow> pc \<Rightarrow> rw_state \<Rightarrow> rw_state" where
  "to_pc i p s = s\<lparr>agents := (agents s)[i := p]\<rparr>"

inductive rw_step :: "bool \<Rightarrow> rw_state \<Rightarrow> rw_state \<Rightarrow> bool" for dbg where
  call: "rw_step dbg s (to_pc i (Calling b op) s)"
    if "i < length (agents s)" "agents s ! i = Holding (requires op)"
      "b \<longrightarrow> op \<in> {TryLockShared, TryLockExclusive, TryLockUpgradable, TryUpgrade}"
| load: "rw_step dbg s (to_pc i (Exchanging b op (rw_word s)) s)"
    if "i < length (agents s)" "agents s ! i = Calling b op" "cas_loop op"
| exchange: "rw_step dbg s (to_pc i (Holding (grants op)) (s\<lparr>rw_word := new\<rparr>))"
    if "i < length (agents s)" "agents s ! i = Exchanging b op (rw_word s)"
      "attempt_of dbg op (rw_word s) = Exchanges new"
| retry: "rw_step dbg s (to_pc i (Exchanging b op (rw_word s)) s)"
    if "i < length (agents s)" "agents s ! i = Exchanging b op old"
      "attempt_of dbg op old = Exchanges new"
| refuse: "rw_step dbg s (to_pc i (after_refusal b op) s)"
    if "i < length (agents s)" "agents s ! i = Exchanging b op old" "attempt_of dbg op old = Refuses"
| panic: "rw_step dbg s (to_pc i (Panicked (requires op)) s)"
    if "i < length (agents s)" "agents s ! i = Exchanging b op old" "attempt_of dbg op old = Panics"
| swap: "rw_step dbg s (to_pc i (Holding (grants op)) (s\<lparr>rw_word := new\<rparr>))"
    if "i < length (agents s)" "agents s ! i = Calling b op" "\<not> cas_loop op"
      "attempt_of dbg op (rw_word s) = Exchanges new"
| swap_fails: "rw_step dbg s (to_pc i (after_refusal b op) s)"
    if "i < length (agents s)" "agents s ! i = Calling b op" "\<not> cas_loop op"
      "attempt_of dbg op (rw_word s) = Refuses \<or> weak_cas op"
| swap_panics: "rw_step dbg s (to_pc i (Panicked (requires op)) s)"
    if "i < length (agents s)" "agents s ! i = Calling b op" "\<not> cas_loop op"
      "attempt_of dbg op (rw_word s) = Panics"

abbreviation rw_steps :: "bool \<Rightarrow> rw_state \<Rightarrow> rw_state \<Rightarrow> bool" where
  "rw_steps dbg \<equiv> (rw_step dbg)\<^sup>*\<^sup>*"

text \<open>Steps in which the callers of \<open>W\<close> do not take part: each of them has been interrupted on its
  core, and goes on when the handler that runs on top of it has returned.\<close>

definition rw_step_without :: "bool \<Rightarrow> nat set \<Rightarrow> rw_state \<Rightarrow> rw_state \<Rightarrow> bool" where
  "rw_step_without dbg W s s' \<longleftrightarrow> rw_step dbg s s' \<and> (\<forall>i\<in>W. agents s' ! i = agents s ! i)"

abbreviation rw_steps_without :: "bool \<Rightarrow> nat set \<Rightarrow> rw_state \<Rightarrow> rw_state \<Rightarrow> bool" where
  "rw_steps_without dbg W \<equiv> (rw_step_without dbg W)\<^sup>*\<^sup>*"

text \<open>Guards that may not exist at the same time.\<close>

definition excludes :: "hold \<Rightarrow> hold \<Rightarrow> bool" where
  "excludes a b \<longleftrightarrow> a \<noteq> Unheld \<and> b \<noteq> Unheld \<and>
    (a = Exclusive \<or> b = Exclusive \<or> a = Upgradable \<and> b = Upgradable)"

definition holders :: "hold \<Rightarrow> pc list \<Rightarrow> nat" where
  "holders h ps = length (filter (\<lambda>p. held p = h) ps)"

section \<open>The encoding of the word\<close>

definition encode :: "bool \<Rightarrow> bool \<Rightarrow> nat \<Rightarrow> u64" where
  "encode w u r = (if w then WRITE_BIT_MASK else 0) OR (if u then UPGRADEABLE_BIT_MASK else 0) OR of_nat r"

text \<open>The largest number of readers the word can count.\<close>

definition MAX_READERS :: nat where
  "MAX_READERS = 2 ^ 62 - 1"

lemma bit_write [simp]: "bit WRITE_BIT_MASK n \<longleftrightarrow> n = 63"
  unfolding WRITE_BIT_MASK_def bit_push_bit_iff bit_1_iff by auto

lemma bit_upgradeable [simp]: "bit UPGRADEABLE_BIT_MASK n \<longleftrightarrow> n = 62"
  unfolding UPGRADEABLE_BIT_MASK_def bit_push_bit_iff bit_1_iff by auto

lemma bit_read_count [simp]: "bit READ_COUNT_MASK n \<longleftrightarrow> n < 62"
  unfolding READ_COUNT_MASK_def bit_not_iff bit_or_iff by auto

lemma bit_count: "r \<le> MAX_READERS \<Longrightarrow> bit (of_nat r :: u64) n \<Longrightarrow> n < 62"
  by (rule nat_bound_bit [of r]) (auto simp: MAX_READERS_def bit_simps)

lemma bit_encode [simp]:
  "bit (encode w u r) n \<longleftrightarrow> w \<and> n = 63 \<or> u \<and> n = 62 \<or> bit (of_nat r :: u64) n"
  by (auto simp: encode_def bit_or_iff)

lemma encode_write [simp]:
  "r \<le> MAX_READERS \<Longrightarrow> encode w u r AND WRITE_BIT_MASK = (if w then WRITE_BIT_MASK else 0)"
  by (rule bit_eqI) (auto simp: bit_and_iff dest: bit_count)

lemma encode_upgradable [simp]:
  "r \<le> MAX_READERS \<Longrightarrow> encode w u r AND UPGRADEABLE_BIT_MASK = (if u then UPGRADEABLE_BIT_MASK else 0)"
  by (rule bit_eqI) (auto simp: bit_and_iff dest: bit_count)

lemma encode_count [simp]: "r \<le> MAX_READERS \<Longrightarrow> encode w u r AND READ_COUNT_MASK = of_nat r"
  by (rule bit_eqI) (auto simp: bit_and_iff dest: bit_count)

lemma encode_not_upgradable [simp]:
  "r \<le> MAX_READERS \<Longrightarrow> encode w u r AND NOT UPGRADEABLE_BIT_MASK = encode w False r"
  by (rule bit_eqI) (auto simp: bit_and_iff bit_not_iff dest: bit_count)

lemma encode_set_upgradable [simp]: "encode w u r OR UPGRADEABLE_BIT_MASK = encode w True r"
  by (rule bit_eqI) (auto simp: bit_or_iff)

lemma masks_nonzero [simp]: "WRITE_BIT_MASK \<noteq> 0" "UPGRADEABLE_BIT_MASK \<noteq> 0"
  by (auto simp: WRITE_BIT_MASK_def UPGRADEABLE_BIT_MASK_def)

lemma encode_simps:
  "encode False False r = of_nat r" "encode False True 0 = UPGRADEABLE_BIT_MASK"
  "encode True False 0 = WRITE_BIT_MASK" "of_nat r OR UPGRADEABLE_BIT_MASK = encode False True r"
  by (simp_all add: encode_def or.commute)

lemma count_inject:
  assumes "r \<le> MAX_READERS" and "r' \<le> MAX_READERS"
  shows "(of_nat r :: u64) = of_nat r' \<longleftrightarrow> r = r'"
  using assms by (auto simp: word_of_nat_eq_iff take_bit_nat_eq_self MAX_READERS_def)

lemma read_count_mask: "READ_COUNT_MASK = of_nat MAX_READERS"
  by (simp add: READ_COUNT_MASK_def WRITE_BIT_MASK_def UPGRADEABLE_BIT_MASK_def MAX_READERS_def)

lemma encode_inject:
  assumes "r \<le> MAX_READERS" and "r' \<le> MAX_READERS"
  shows "encode w u r = encode w' u' r' \<longleftrightarrow> w = w' \<and> u = u' \<and> r = r'"
proof
  assume eq: "encode w u r = encode w' u' r'"
  have "w = w'" using encode_write [OF assms(1), of w u] encode_write [OF assms(2), of w' u'] eq
    by (auto split: if_splits)
  moreover have "u = u'"
    using encode_upgradable [OF assms(1), of w u] encode_upgradable [OF assms(2), of w' u'] eq
    by (auto split: if_splits)
  moreover have "r = r'"
    using encode_count [OF assms(1), of w u] encode_count [OF assms(2), of w' u'] eq
    by (simp add: count_inject assms)
  ultimately show "w = w' \<and> u = u' \<and> r = r'" by simp
qed simp

section \<open>The methods on encoded words\<close>

named_theorems rw_attempt \<open>what each method does with an encoded word\<close>

lemma count_full: "r \<le> MAX_READERS \<Longrightarrow> of_nat r = READ_COUNT_MASK \<longleftrightarrow> r = MAX_READERS"
  by (simp add: read_count_mask count_inject)

lemma encode_count_def: "of_nat r OR (if u then UPGRADEABLE_BIT_MASK else 0) = encode False u r"
  by (simp add: encode_def or.commute)

lemma encode_pred: "0 < r \<Longrightarrow> encode False False r - 1 = of_nat (r - 1)"
  by (simp add: encode_simps of_nat_diff)

lemma encode_eq_0: "r \<le> MAX_READERS \<Longrightarrow> encode w u r = 0 \<longleftrightarrow> \<not> w \<and> \<not> u \<and> r = 0"
  using encode_inject [of r 0 w u False False] by (simp add: encode_simps)

lemma encode_eq_upgradable:
  "r \<le> MAX_READERS \<Longrightarrow> encode w u r = UPGRADEABLE_BIT_MASK \<longleftrightarrow> \<not> w \<and> u \<and> r = 0"
  using encode_inject [of r 0 w u False True] by (simp add: encode_simps)

lemma try_lock_shared_encode [rw_attempt]:
  "r \<le> MAX_READERS \<Longrightarrow> try_lock_shared (encode w u r) =
    (if r = MAX_READERS then Panics else if w then Refuses else Exchanges (encode False u (Suc r)))"
  using encode_count_def [of "Suc r" u] by (simp add: try_lock_shared_def count_full add.commute)

lemma unlock_shared_encode [rw_attempt]:
  "r \<le> MAX_READERS \<Longrightarrow> 0 < r \<Longrightarrow>
    unlock_shared dbg (encode False u r) = Exchanges (encode False u (r - 1))"
  using encode_count_def [of "r - 1" u] by (simp add: unlock_shared_def encode_eq_0 encode_pred)

lemma try_lock_exclusive_encode [rw_attempt]:
  "r \<le> MAX_READERS \<Longrightarrow> try_lock_exclusive (encode w u r) =
    (if \<not> w \<and> \<not> u \<and> r = 0 then Exchanges (encode True False 0) else Refuses)"
  by (simp add: try_lock_exclusive_def encode_eq_0 encode_simps)

lemma writer_encode [rw_attempt]:
  "unlock_exclusive dbg (encode True False 0) = Exchanges (encode False False 0)"
  "downgrade dbg (encode True False 0) = Exchanges (encode False False 1)"
  "downgrade_to_upgradable dbg (encode True False 0) = Exchanges (encode False True 0)"
  by (simp_all add: unlock_exclusive_def downgrade_def downgrade_to_upgradable_def encode_simps)

lemma try_lock_upgradable_encode [rw_attempt]:
  "r \<le> MAX_READERS \<Longrightarrow> try_lock_upgradable (encode w u r) =
    (if w \<or> u then Refuses else Exchanges (encode False True r))"
  by (simp add: try_lock_upgradable_def)

lemma upgradable_encode [rw_attempt]:
  "r \<le> MAX_READERS \<Longrightarrow> unlock_upgradable dbg (encode False u r) = Exchanges (encode False False r)"
  "r \<le> MAX_READERS \<Longrightarrow> try_upgrade (encode w u r) =
    (if \<not> w \<and> u \<and> r = 0 then Exchanges (encode True False 0) else Refuses)"
  "r \<le> MAX_READERS \<Longrightarrow> downgrade_upgradable dbg (encode False u r) =
    (if r = MAX_READERS then Panics else Exchanges (encode False False (Suc r)))"
  by (simp_all add: unlock_upgradable_def try_upgrade_def downgrade_upgradable_def encode_eq_upgradable
      count_full encode_simps add.commute)

section \<open>Holders and the invariant\<close>

lemma holders_update:
  assumes "i < length ps"
  shows "holders h (ps[i := p]) + (if held (ps ! i) = h then 1 else 0) =
    holders h ps + (if held p = h then 1 else 0)"
  using assms
proof (induction ps arbitrary: i)
  case (Cons q ps)
  then show ?case by (cases i) (auto simp: holders_def split: if_splits)
qed simp

lemma holders_pos: "i < length ps \<Longrightarrow> held (ps ! i) = h \<Longrightarrow> 0 < holders h ps"
  by (auto simp: holders_def filter_empty_conv)

lemma holders_update_eq:
  assumes "i < length ps"
  shows "holders h (ps[i := p]) =
    holders h ps - (if held (ps ! i) = h then 1 else 0) + (if held p = h then 1 else 0)"
  using holders_update [OF assms, of h p] holders_pos [OF assms, of h] by (auto split: if_splits)

lemma holders_le: "holders h ps \<le> length ps"
  by (simp add: holders_def)

text \<open>What the holders may be at one time, and the word that stands for them.\<close>

definition compatible :: "pc list \<Rightarrow> bool" where
  "compatible ps \<longleftrightarrow> holders Exclusive ps + holders Upgradable ps \<le> 1 \<and>
    (holders Exclusive ps = 1 \<longrightarrow> holders Shared ps = 0)"

definition word_for :: "pc list \<Rightarrow> u64" where
  "word_for ps = encode (0 < holders Exclusive ps) (0 < holders Upgradable ps) (holders Shared ps)"

text \<open>A word loaded by a caller that keeps its guard throughout is still of the right kind when the
  caller uses it.\<close>

definition seen_ok :: "nat \<Rightarrow> rw_op \<Rightarrow> u64 \<Rightarrow> bool" where
  "seen_ok n op old \<longleftrightarrow> cas_loop op \<and> (\<exists>w u r. old = encode w u r \<and> r \<le> n \<and>
    (requires op = Shared \<longrightarrow> \<not> w \<and> 0 < r) \<and> (requires op = Upgradable \<longrightarrow> \<not> w))"

fun pc_ok :: "nat \<Rightarrow> pc \<Rightarrow> bool" where
  "pc_ok n (Exchanging b op old) = seen_ok n op old"
| "pc_ok n (Panicked h) = False"
| "pc_ok n p = True"

definition rw_inv :: "rw_state \<Rightarrow> bool" where
  "rw_inv s \<longleftrightarrow> rw_word s = word_for (agents s) \<and> compatible (agents s) \<and>
    list_all (pc_ok (length (agents s))) (agents s)"

lemma exchange_word:
  assumes "compatible ps" and "i < length ps" and "length ps < MAX_READERS"
    and "held (ps ! i) = requires op" and "held p = grants op"
    and "attempt_of dbg op (word_for ps) = Exchanges new"
  shows "new = word_for (ps[i := p]) \<and> compatible (ps[i := p])"
  using assms(1,3,6) holders_le [of Shared ps] holders_pos [OF assms(2,4)]
  unfolding word_for_def compatible_def holders_update_eq [OF assms(2)] assms(4,5)
  by (cases op) (auto simp: rw_attempt split: if_splits)

lemma seen_ok_word:
  assumes "compatible ps" and "i < length ps" and "held (ps ! i) = requires op" and "cas_loop op"
  shows "seen_ok (length ps) op (word_for ps)"
  using assms(1,4) holders_pos [OF assms(2,3)] holders_le [of Shared ps]
  unfolding seen_ok_def word_for_def compatible_def by force

text \<open>A caller with a suitable word never panics.\<close>

lemma no_panic:
  assumes "seen_ok n op old" and "n < MAX_READERS"
  shows "attempt_of dbg op old \<noteq> Panics"
  using assms by (cases op) (auto simp: seen_ok_def cas_loop_def rw_attempt split: if_splits)

lemma no_panic_writer:
  assumes "compatible ps" and "i < length ps" and "length ps < MAX_READERS"
    and "held (ps ! i) = requires op" and "\<not> cas_loop op"
  shows "attempt_of dbg op (word_for ps) \<noteq> Panics"
  using assms(1,3,5) holders_pos [OF assms(2,4)] holders_le [of Shared ps]
  by (cases op) (auto simp: cas_loop_def word_for_def compatible_def rw_attempt split: if_splits)

lemma holders_same:
  assumes "i < length ps" and "held p = held (ps ! i)"
  shows "holders h (ps[i := p]) = holders h ps"
  using holders_update [OF assms(1), of h p] assms(2) by auto

lemma rw_inv_same:
  assumes "rw_inv s" and "i < length (agents s)" and "held p = held (agents s ! i)"
    and "pc_ok (length (agents s)) p"
  shows "rw_inv (to_pc i p s)"
  using assms holders_same [OF assms(2,3)]
  by (auto simp: rw_inv_def to_pc_def word_for_def compatible_def list_all_iff
      dest!: set_update_subset_insert [THEN subsetD])

lemma rw_inv_exchange:
  assumes "rw_inv s" and "i < length (agents s)" and "length (agents s) < MAX_READERS"
    and "held (agents s ! i) = requires op" and "attempt_of dbg op (rw_word s) = Exchanges new"
  shows "rw_inv (to_pc i (Holding (grants op)) (s\<lparr>rw_word := new\<rparr>))"
proof -
  have "new = word_for ((agents s)[i := Holding (grants op)]) \<and> compatible ((agents s)[i := Holding (grants op)])"
    by (rule exchange_word [OF _ assms(2,3,4)]) (use assms(1,5) in \<open>auto simp: rw_inv_def\<close>)
  with assms(1) show ?thesis
    by (auto simp: rw_inv_def to_pc_def list_all_iff dest!: set_update_subset_insert [THEN subsetD])
qed

lemma held_after_refusal [simp]: "held (after_refusal b op) = requires op"
  by (simp add: after_refusal_def)

lemma pc_ok_after_refusal [simp]: "pc_ok n (after_refusal b op)"
  by (simp add: after_refusal_def)

lemma rw_inv_pc: "rw_inv s \<Longrightarrow> i < length (agents s) \<Longrightarrow> pc_ok (length (agents s)) (agents s ! i)"
  by (simp add: rw_inv_def list_all_length)

lemma length_to_pc [simp]: "length (agents (to_pc i p s)) = length (agents s)"
  by (simp add: to_pc_def)

lemma rw_step_inv:
  assumes "rw_step dbg s s'" and "rw_inv s" and "length (agents s) < MAX_READERS"
  shows "rw_inv s' \<and> length (agents s') = length (agents s)"
  using assms
proof (induction rule: rw_step.induct)
  case (load i s b op)
  then have "seen_ok (length (agents s)) op (rw_word s)"
    using seen_ok_word [of "agents s" i op] by (simp add: rw_inv_def)
  with load show ?case by (auto intro!: rw_inv_same)
next
  case (exchange i s b op new)
  then show ?case by (auto intro!: rw_inv_exchange)
next
  case (retry i s b op old new)
  then have "cas_loop op" by (auto dest!: rw_inv_pc simp: seen_ok_def)
  with retry have "seen_ok (length (agents s)) op (rw_word s)"
    using seen_ok_word [of "agents s" i op] by (simp add: rw_inv_def)
  with retry show ?case by (auto intro!: rw_inv_same)
next
  case (panic i s b op old)
  then show ?case using no_panic [of "length (agents s)" op old dbg] rw_inv_pc [of s i] by auto
next
  case (swap i s b op new)
  then show ?case by (auto intro!: rw_inv_exchange)
next
  case (swap_panics i s b op)
  then show ?case using no_panic_writer [of "agents s" i op dbg] by (auto simp: rw_inv_def)
qed (auto intro!: rw_inv_same)

lemma rw_inv_init: "rw_inv (rw_init n)"
  by (auto simp: rw_inv_def rw_init_def word_for_def compatible_def holders_def RwCount_INIT_def
      encode_simps list_all_iff)

lemma rw_reach_inv:
  assumes "rw_steps dbg (rw_init n) s" and "n < MAX_READERS"
  shows "rw_inv s \<and> length (agents s) = n"
  using assms(1)
proof (induction rule: rtranclp_induct)
  case base
  then show ?case using rw_inv_init by (simp add: rw_init_def)
next
  case (step s s')
  with assms(2) rw_step_inv show ?case by auto
qed

lemma two_holders:
  assumes "i < length ps" and "j < length ps" and "i \<noteq> j" and "held (ps ! i) = h" and "held (ps ! j) = h"
  shows "2 \<le> holders h ps"
proof -
  have "card {i, j} \<le> card {k. k < length ps \<and> held (ps ! k) = h}"
    using assms by (intro card_mono) auto
  with assms(3) show ?thesis by (simp add: holders_def length_filter_conv_card)
qed

section \<open>The two builds\<close>

lemma attempt_build:
  assumes "seen_ok n op old" and "n < MAX_READERS"
  shows "attempt_of dbg op old = attempt_of dbg' op old"
  using assms by (cases op) (auto simp: seen_ok_def cas_loop_def rw_attempt)

lemma attempt_build_writer:
  assumes "compatible ps" and "i < length ps" and "length ps < MAX_READERS"
    and "held (ps ! i) = requires op" and "\<not> cas_loop op"
  shows "attempt_of dbg op (word_for ps) = attempt_of dbg' op (word_for ps)"
  using assms(1,3,5) holders_pos [OF assms(2,4)] holders_le [of Shared ps]
  by (cases op) (auto simp: cas_loop_def word_for_def compatible_def rw_attempt)

lemma rw_step_build:
  assumes "rw_step dbg s s'" and "rw_inv s" and "length (agents s) < MAX_READERS"
  shows "rw_step dbg' s s'"
proof -
  have loop: "attempt_of dbg op old = attempt_of dbg' op old"
    if "i < length (agents s)" "agents s ! i = Exchanging b op old" for i b op old
    using that rw_inv_pc [OF assms(2), of i] attempt_build [OF _ assms(3)] by simp
  have writer: "attempt_of dbg op (rw_word s) = attempt_of dbg' op (rw_word s)"
    if "i < length (agents s)" "agents s ! i = Calling b op" "\<not> cas_loop op" for i b op
    using that attempt_build_writer [of "agents s" i op] assms(2,3) by (simp add: rw_inv_def)
  from assms(1) loop writer show ?thesis
    by (cases rule: rw_step.cases) (auto intro: rw_step.intros)
qed

lemma rw_reach_build:
  assumes "rw_steps dbg (rw_init n) s" and "n < MAX_READERS"
  shows "rw_steps dbg' (rw_init n) s"
  using assms(1)
proof (induction rule: rtranclp_induct)
  case (step s s')
  from rw_reach_inv [OF step.hyps(1) assms(2)] assms(2) have "rw_step dbg' s s'"
    by (intro rw_step_build [OF step.hyps(2)]) auto
  with step.IH show ?case by (rule rtranclp.rtrancl_into_rtrancl)
qed simp

section \<open>Progress\<close>

text \<open>How far an agent is from being idle.\<close>

fun pending :: "pc \<Rightarrow> nat" where
  "pending (Holding h) = (if h = Unheld then 0 else 1)"
| "pending p = 2"

text \<open>Every caller outside \<open>W\<close> has no guard and is in no call.\<close>

definition idle :: "nat set \<Rightarrow> rw_state \<Rightarrow> bool" where
  "idle W s \<longleftrightarrow> (\<forall>i < length (agents s). i \<notin> W \<longrightarrow> agents s ! i = Holding Unheld)"

definition suspends_no_holder :: "nat set \<Rightarrow> rw_state \<Rightarrow> bool" where
  "suspends_no_holder W s \<longleftrightarrow> (\<forall>i < length (agents s). i \<in> W \<longrightarrow> held (agents s ! i) = Unheld)"

lemma enabled_op:
  assumes "compatible ps" and "i < length ps" and "length ps < MAX_READERS"
    and "held (ps ! i) = requires op"
    and "requires op \<noteq> Shared \<Longrightarrow> holders Shared ps = 0"
    and "requires op = Unheld \<Longrightarrow> holders Upgradable ps = 0 \<and> holders Exclusive ps = 0"
  shows "\<exists>new. attempt_of dbg op (word_for ps) = Exchanges new"
  using assms(1,3,5,6) holders_pos [OF assms(2,4)] holders_le [of Shared ps]
  by (cases op) (auto simp: word_for_def compatible_def rw_attempt)

lemma to_pc_twice [simp]:
  "to_pc i q (to_pc i p s) = to_pc i q s"
  "to_pc i q ((to_pc i p s)\<lparr>rw_word := v\<rparr>) = to_pc i q (s\<lparr>rw_word := v\<rparr>)"
  by (simp_all add: to_pc_def)

lemma to_pc_sel [simp]:
  "rw_word (to_pc i p s) = rw_word s" "agents (to_pc i p s) = (agents s)[i := p]"
  by (simp_all add: to_pc_def)

lemma step_without:
  assumes "rw_step dbg s (to_pc i p (s\<lparr>rw_word := v\<rparr>))" and "i \<notin> W"
  shows "rw_step_without dbg W s (to_pc i p (s\<lparr>rw_word := v\<rparr>))"
  using assms by (auto simp: rw_step_without_def) (metis nth_list_update_neq)

lemmas step_without_same = step_without [where v = "rw_word s" and s = s for s, simplified]

lemma steps_without_steps: "rw_steps_without dbg W s s' \<Longrightarrow> rw_steps dbg s s'"
  by (erule rtranclp_mono [THEN predicate2D, rotated]) (auto simp: rw_step_without_def)

lemma steps_without_kept: "rw_steps_without dbg W s s' \<Longrightarrow> i \<in> W \<Longrightarrow> agents s' ! i = agents s ! i"
  by (induction rule: rtranclp_induct) (auto simp: rw_step_without_def)

lemma finish_call:
  assumes "i \<notin> W" and "i < length (agents s)" and "agents s ! i = Calling b op"
    and "attempt_of dbg op (rw_word s) = Exchanges new"
  shows "rw_steps_without dbg W s (to_pc i (Holding (grants op)) (s\<lparr>rw_word := new\<rparr>))"
proof (cases "cas_loop op")
  case True
  let ?t = "to_pc i (Exchanging b op (rw_word s)) s"
  have "rw_step dbg s ?t" using assms True by (auto intro: rw_step.load)
  from step_without_same [OF this assms(1)] have "rw_step_without dbg W s ?t" .
  moreover have "rw_step dbg ?t (to_pc i (Holding (grants op)) (?t\<lparr>rw_word := new\<rparr>))"
    using assms by (intro rw_step.exchange) auto
  from step_without [OF this assms(1)]
  have "rw_step_without dbg W ?t (to_pc i (Holding (grants op)) (s\<lparr>rw_word := new\<rparr>))" by simp
  ultimately show ?thesis by auto
next
  case False
  with assms have "rw_step dbg s (to_pc i (Holding (grants op)) (s\<lparr>rw_word := new\<rparr>))" by (auto intro: rw_step.swap)
  from step_without [OF this assms(1)] show ?thesis by (rule r_into_rtranclp)
qed

lemma finish_loop:
  assumes "rw_inv s" and "length (agents s) < MAX_READERS" and "i \<notin> W"
    and "i < length (agents s)" and "agents s ! i = Exchanging b op old"
    and "attempt_of dbg op (rw_word s) = Exchanges new"
  shows "\<exists>p v. rw_steps_without dbg W s (to_pc i p (s\<lparr>rw_word := v\<rparr>)) \<and> pending p < 2"
proof (cases "attempt_of dbg op old")
  case Panics
  with no_panic [of "length (agents s)" op old dbg] rw_inv_pc [OF assms(1,4)] assms(2,5) show ?thesis
    by simp
next
  case Refuses
  then have "rw_step dbg s (to_pc i (after_refusal b op) s)"
    using assms by (intro rw_step.refuse) auto
  from step_without_same [OF this assms(3)] have step: "rw_step_without dbg W s (to_pc i (after_refusal b op) s)" .
  show ?thesis
  proof (cases b)
    case True
    then have "rw_steps_without dbg W (to_pc i (after_refusal b op) s)
        (to_pc i (Holding (grants op)) (s\<lparr>rw_word := new\<rparr>))"
      using finish_call [of i W "to_pc i (after_refusal b op) s" b op dbg new] assms(3,4,6)
      by (simp add: after_refusal_def)
    with step have "rw_steps_without dbg W s (to_pc i (Holding (grants op)) (s\<lparr>rw_word := new\<rparr>))"
      by (rule converse_rtranclp_into_rtranclp)
    then show ?thesis by (intro exI conjI) auto
  next
    case False
    from step have "rw_steps_without dbg W s (to_pc i (after_refusal b op) (s\<lparr>rw_word := rw_word s\<rparr>))" by auto
    moreover have "pending (after_refusal b op) < 2" using False by (simp add: after_refusal_def)
    ultimately show ?thesis by blast
  qed
next
  case (Exchanges v)
  let ?t = "to_pc i (Exchanging b op (rw_word s)) s"
  have "rw_step dbg s ?t" using assms Exchanges by (auto intro: rw_step.retry)
  from step_without_same [OF this assms(3)] have "rw_step_without dbg W s ?t" .
  moreover have "rw_step dbg ?t (to_pc i (Holding (grants op)) (?t\<lparr>rw_word := new\<rparr>))"
    using assms by (intro rw_step.exchange) auto
  from step_without [OF this assms(3)]
  have "rw_step_without dbg W ?t (to_pc i (Holding (grants op)) (s\<lparr>rw_word := new\<rparr>))" by simp
  ultimately have "rw_steps_without dbg W s (to_pc i (Holding (grants op)) (s\<lparr>rw_word := new\<rparr>))" by auto
  then show ?thesis by (intro exI conjI) auto
qed

lemma holders_witness:
  assumes "0 < holders h ps"
  obtains i where "i < length ps" and "held (ps ! i) = h"
  using assms by (auto simp: holders_def filter_empty_conv in_set_conv_nth)

definition can_advance :: "bool \<Rightarrow> rw_state \<Rightarrow> nat \<Rightarrow> bool" where
  "can_advance dbg s i \<longleftrightarrow> (\<exists>h. agents s ! i = Holding h \<and> h \<noteq> Unheld) \<or>
    (\<exists>b op new. (agents s ! i = Calling b op \<or> (\<exists>old. agents s ! i = Exchanging b op old)) \<and>
      attempt_of dbg op (rw_word s) = Exchanges new)"

text \<open>Readers can always leave; without readers the upgradable reader or the writer can go on; with
  none of them every call that waits for the lock can have it.\<close>

lemma some_can_advance:
  assumes "rw_inv s" and "length (agents s) < MAX_READERS" and "\<not> idle W s" and "suspends_no_holder W s"
  obtains i where "i < length (agents s)" and "i \<notin> W" and "can_advance dbg s i"
proof -
  have advance: "can_advance dbg s i"
    if i: "i < length (agents s)" and ni: "agents s ! i \<noteq> Holding Unheld"
      and sh: "held (agents s ! i) \<noteq> Shared \<Longrightarrow> holders Shared (agents s) = 0"
      and un: "held (agents s ! i) = Unheld \<Longrightarrow>
        holders Upgradable (agents s) = 0 \<and> holders Exclusive (agents s) = 0" for i
  proof -
    have "\<exists>new. attempt_of dbg op (rw_word s) = Exchanges new" if "held (agents s ! i) = requires op" for op
      using enabled_op [of "agents s" i op dbg] that sh un i assms(1,2) by (simp add: rw_inv_def)
    with ni rw_inv_pc [OF assms(1) i] show ?thesis
      by (cases "agents s ! i") (auto simp: can_advance_def)
  qed
  have out: "i \<notin> W" if "i < length (agents s)" "held (agents s ! i) \<noteq> Unheld" for i
    using assms(4) that by (auto simp: suspends_no_holder_def)
  consider "0 < holders Shared (agents s)"
    | "holders Shared (agents s) = 0" "0 < holders Upgradable (agents s)"
    | "holders Shared (agents s) = 0" "0 < holders Exclusive (agents s)"
    | "holders Shared (agents s) = 0" "holders Upgradable (agents s) = 0" "holders Exclusive (agents s) = 0"
    by auto
  then show ?thesis
  proof cases
    case 1
    then obtain i where "i < length (agents s)" "held (agents s ! i) = Shared" by (rule holders_witness)
    then show ?thesis using advance [of i] out [of i] that [of i] by force
  next
    case 2
    then obtain i where "i < length (agents s)" "held (agents s ! i) = Upgradable" by (auto elim: holders_witness)
    then show ?thesis using advance [of i] out [of i] that [of i] 2 by force
  next
    case 3
    then obtain i where "i < length (agents s)" "held (agents s ! i) = Exclusive" by (auto elim: holders_witness)
    then show ?thesis using advance [of i] out [of i] that [of i] 3 by force
  next
    case 4
    from assms(3) obtain i where "i < length (agents s)" "i \<notin> W" "agents s ! i \<noteq> Holding Unheld"
      by (auto simp: idle_def)
    then show ?thesis using advance [of i] that [of i] 4 by force
  qed
qed

fun unlock_op :: "hold \<Rightarrow> rw_op" where
  "unlock_op Upgradable = UnlockUpgradable"
| "unlock_op Exclusive = UnlockExclusive"
| "unlock_op h = UnlockShared"

lemma unlock_enabled:
  assumes "compatible ps" and "i < length ps" and "length ps < MAX_READERS"
    and "held (ps ! i) = h" and "h \<noteq> Unheld"
  shows "\<exists>new. attempt_of dbg (unlock_op h) (word_for ps) = Exchanges new"
  using assms(1,3,5) holders_pos [OF assms(2,4)] holders_le [of Shared ps]
  by (cases h) (auto simp: word_for_def compatible_def rw_attempt)

lemma advance_reduces:
  assumes "rw_inv s" and "length (agents s) < MAX_READERS" and "i \<notin> W"
    and "i < length (agents s)" and "can_advance dbg s i"
  shows "\<exists>p v. rw_steps_without dbg W s (to_pc i p (s\<lparr>rw_word := v\<rparr>)) \<and> pending p < pending (agents s ! i)"
  using assms(5) unfolding can_advance_def
proof (elim disjE exE conjE)
  fix h assume h: "agents s ! i = Holding h" "h \<noteq> Unheld"
  then have req: "requires (unlock_op h) = h" "grants (unlock_op h) = Unheld" by (cases h; simp)+
  from h obtain new where "attempt_of dbg (unlock_op h) (rw_word s) = Exchanges new"
    using unlock_enabled [of "agents s" i h dbg] assms(1,2,4) by (auto simp: rw_inv_def)
  then have "rw_steps_without dbg W (to_pc i (Calling False (unlock_op h)) s) (to_pc i (Holding Unheld) (s\<lparr>rw_word := new\<rparr>))"
    using finish_call [of i W "to_pc i (Calling False (unlock_op h)) s" False "unlock_op h" dbg new] assms(3,4) req
    by simp
  moreover have "rw_step dbg s (to_pc i (Calling False (unlock_op h)) s)"
    using assms(4) h req by (intro rw_step.call) auto
  from step_without_same [OF this assms(3)] have "rw_step_without dbg W s (to_pc i (Calling False (unlock_op h)) s)" .
  ultimately have "rw_steps_without dbg W s (to_pc i (Holding Unheld) (s\<lparr>rw_word := new\<rparr>))"
    by (meson converse_rtranclp_into_rtranclp)
  then show ?thesis using h by (intro exI conjI) auto
next
  fix b op new assume "attempt_of dbg op (rw_word s) = Exchanges new" "agents s ! i = Calling b op"
  then show ?thesis using finish_call [OF assms(3,4)] by (intro exI conjI) auto
next
  fix b op new old assume "attempt_of dbg op (rw_word s) = Exchanges new" "agents s ! i = Exchanging b op old"
  then show ?thesis using finish_loop [OF assms(1-4)] by auto
qed

lemma rw_steps_inv:
  assumes "rw_steps dbg s s'" and "rw_inv s" and "length (agents s) < MAX_READERS"
  shows "rw_inv s' \<and> length (agents s') = length (agents s)"
  using assms(1)
proof (induction rule: rtranclp_induct)
  case (step t u)
  with assms(3) rw_step_inv show ?case by auto
qed (use assms in simp)

lemma can_become_idle:
  assumes "rw_inv s" and "length (agents s) < MAX_READERS" and "suspends_no_holder W s"
  shows "\<exists>s'. rw_steps_without dbg W s s' \<and> idle W s'"
  using assms
proof (induction "sum_list (map pending (agents s))" arbitrary: s rule: less_induct)
  case less
  show ?case
  proof (cases "idle W s")
    case False
    then obtain i where i: "i < length (agents s)" "i \<notin> W" "can_advance dbg s i"
      using some_can_advance [OF less.prems(1,2) _ less.prems(3)] by blast
    then obtain p v where pv: "rw_steps_without dbg W s (to_pc i p (s\<lparr>rw_word := v\<rparr>))"
        "pending p < pending (agents s ! i)"
      using advance_reduces [OF less.prems(1,2)] by blast
    let ?t = "to_pc i p (s\<lparr>rw_word := v\<rparr>)"
    have "sum_list (map pending (agents ?t)) < sum_list (map pending (agents s))"
      using pv(2) i(1) elem_le_sum_list [of i "map pending (agents s)"]
      by (simp add: map_update sum_list_update)
    moreover have "rw_inv ?t" "length (agents ?t) < MAX_READERS"
      using rw_steps_inv [OF steps_without_steps [OF pv(1)] less.prems(1,2)] less.prems(2) by auto
    moreover have "suspends_no_holder W ?t"
      using less.prems(3) steps_without_kept [OF pv(1)] by (simp add: suspends_no_holder_def)
    ultimately obtain s' where "rw_steps_without dbg W ?t s'" "idle W s'" using less.hyps by blast
    with pv(1) show ?thesis by (meson rtranclp_trans)
  qed blast
qed

lemma rw_inv_idle:
  assumes "rw_inv s" and "idle W s" and "suspends_no_holder W s"
  shows "rw_word s = RwCount_INIT"
proof -
  have "held (agents s ! i) = Unheld" if "i < length (agents s)" for i
    using assms(2,3) that by (cases "i \<in> W") (auto simp: idle_def suspends_no_holder_def)
  then have "holders h (agents s) = 0" if "h \<noteq> Unheld" for h
    using that by (auto simp: holders_def filter_empty_conv in_set_conv_nth)
  with assms(1) show ?thesis by (simp add: rw_inv_def word_for_def encode_simps RwCount_INIT_def)
qed

section \<open>Waiting for an interrupted holder\<close>

lemma no_excluded_pair:
  assumes "compatible ps" and "i < length ps" and "j < length ps" and "i \<noteq> j"
  shows "\<not> excludes (held (ps ! i)) (held (ps ! j))"
  using assms(1) holders_pos [OF assms(2) refl] holders_pos [OF assms(3) refl] two_holders [OF assms(2-4)]
  unfolding excludes_def compatible_def
  by (cases "held (ps ! i)"; cases "held (ps ! j)") force+

text \<open>A call that repeats a refused attempt, and has not returned.\<close>

definition waits :: "rw_op \<Rightarrow> pc \<Rightarrow> bool" where
  "waits op p \<longleftrightarrow> p = Calling True op \<or> (\<exists>old. p = Exchanging True op old)"

lemma wait_step:
  assumes "rw_step dbg s s'" and "rw_inv s" and "length (agents s) < MAX_READERS" and "j < length (agents s)"
    and "waits op (agents s ! j)"
  shows "waits op (agents s' ! j) \<or> held (agents s' ! j) = grants op"
proof -
  from rw_step_inv [OF assms(1-3)] rw_inv_pc [of s' j] assms(4) have "pc_ok (length (agents s)) (agents s' ! j)" by simp
  with assms(1,4,5) show ?thesis
    by (cases rule: rw_step.cases) (auto simp: waits_def nth_list_update after_refusal_def split: if_splits)
qed

lemma waits_for_ever:
  assumes "rw_steps_without dbg {i} s s'" and "rw_inv s" and "length (agents s) < MAX_READERS"
    and "i < length (agents s)" and "j < length (agents s)" and "i \<noteq> j"
    and "waits op (agents s ! j)" and "excludes (held (agents s ! i)) (grants op)"
  shows "waits op (agents s' ! j)"
  using assms(1)
proof (induction rule: rtranclp_induct)
  case base
  show ?case by (rule assms(7))
next
  case (step t u)
  have t: "rw_inv t" "length (agents t) = length (agents s)"
    using rw_steps_inv [OF steps_without_steps [OF step.hyps(1)] assms(2,3)] by auto
  from step.hyps(2) have tu: "rw_step dbg t u" by (simp add: rw_step_without_def)
  with rw_step_inv [OF tu t(1)] assms(3) t(2) have u: "compatible (agents u)" "length (agents u) = length (agents s)"
    by (auto simp: rw_inv_def)
  have "agents u ! i = agents s ! i"
    using steps_without_kept [of dbg "{i}" s u i] step.hyps by (simp add: rtranclp.rtrancl_into_rtrancl)
  with no_excluded_pair [OF u(1), of i j] assms(4-6,8) u(2) have "held (agents u ! j) \<noteq> grants op" by auto
  with wait_step [OF tu t(1) _ _ step.IH] assms(3,5) t(2) show ?case by auto
qed

lemma RwCount_fmt_encode:
  "r \<le> MAX_READERS \<Longrightarrow> RwCount_fmt (encode w u r) = (w, of_nat (r + (if u then 1 else 0)))"
  by (simp add: RwCount_fmt_def)

text \<open>A run in which a reader has loaded the free word, and a writer then takes the lock.\<close>

definition contended :: rw_state where
  "contended = \<lparr>rw_word = WRITE_BIT_MASK, agents = [Holding Exclusive, Exchanging True TryLockShared 0]\<rparr>"

lemma contended_reachable: "rw_steps dbg (rw_init 2) contended"
proof -
  let ?a = "rw_init 2"
  let ?b = "to_pc 1 (Calling True TryLockShared) ?a"
  let ?c = "to_pc 1 (Exchanging True TryLockShared (rw_word ?b)) ?b"
  let ?d = "to_pc 0 (Calling False TryLockExclusive) ?c"
  let ?e = "to_pc 0 (Holding (grants TryLockExclusive)) (?d\<lparr>rw_word := WRITE_BIT_MASK\<rparr>)"
  note defs = rw_init_def RwCount_INIT_def numeral_2_eq_2 cas_loop_def try_lock_exclusive_def
  have "rw_step dbg ?a ?b" by (rule rw_step.call) (simp_all add: defs)
  moreover have "rw_step dbg ?b ?c" by (rule rw_step.load) (simp_all add: defs)
  moreover have "rw_step dbg ?c ?d" by (rule rw_step.call) (simp_all add: defs)
  moreover have "rw_step dbg ?d ?e" by (rule rw_step.swap [where b = False]) (simp_all add: defs)
  moreover have "?e = contended" by (simp add: defs contended_def to_pc_def)
  ultimately show ?thesis by (metis (no_types, lifting) rtranclp.simps)
qed

lemma contended_bound: "2 < MAX_READERS"
  by (simp add: MAX_READERS_def)

section \<open>Properties\<close>

text \<open>C4. However the callers interleave, a writer excludes every other guard, and there is never
  more than one upgradable reader.\<close>

theorem rwlock_exclusion:
  assumes "rw_steps dbg (rw_init n) s" and "n < MAX_READERS" and "i < n" and "j < n" and "i \<noteq> j"
  shows "(held (agents s ! i) = Exclusive \<longrightarrow> held (agents s ! j) = Unheld) \<and>
    \<not> (held (agents s ! i) = Upgradable \<and> held (agents s ! j) = Upgradable)"
proof -
  from rw_reach_inv [OF assms(1,2)] have c: "compatible (agents s)" and l: "length (agents s) = n"
    by (auto simp: rw_inv_def)
  have ij: "i < length (agents s)" "j < length (agents s)" using assms(3,4) l by auto
  have "0 < holders (held (agents s ! i)) (agents s)" "0 < holders (held (agents s ! j)) (agents s)"
    using ij holders_pos by blast+
  with c two_holders [OF ij assms(5)] show ?thesis
    by (cases "held (agents s ! j)") (fastforce simp: compatible_def)+
qed

theorem rwlock_exclusion_witness:
  "rw_steps True (rw_init 2) contended \<and> held (agents contended ! 0) = Exclusive \<and>
    held (agents contended ! 1) = Unheld"
  using rwlock_exclusion [OF contended_reachable [of True] contended_bound, of 0 1] contended_reachable [of True]
  by (simp add: contended_def)

text \<open>C11. Fewer callers than the counter can hold never make a method panic, and the debug print of
  the word then shows exactly whether there is a writer and how many readers there are.\<close>

theorem rwlock_word_exact:
  assumes "rw_steps dbg (rw_init n) s" and "n < MAX_READERS"
  shows "(\<forall>h. Panicked h \<notin> set (agents s)) \<and>
    RwCount_fmt (rw_word s) = (0 < holders Exclusive (agents s),
      of_nat (holders Shared (agents s) + holders Upgradable (agents s)))"
proof -
  from rw_reach_inv [OF assms] have inv: "rw_inv s" and l: "length (agents s) = n" by auto
  from l assms(2) have r: "holders Shared (agents s) \<le> MAX_READERS"
    using holders_le [of Shared "agents s"] by simp
  from inv have u: "holders Upgradable (agents s) = (if 0 < holders Upgradable (agents s) then 1 else 0)"
    by (auto simp: rw_inv_def compatible_def)
  from inv have "RwCount_fmt (rw_word s) = (0 < holders Exclusive (agents s),
      of_nat (holders Shared (agents s) + (if 0 < holders Upgradable (agents s) then 1 else 0)))"
    using RwCount_fmt_encode [OF r] by (simp add: rw_inv_def word_for_def)
  moreover from inv have "\<forall>h. Panicked h \<notin> set (agents s)"
    by (auto simp: rw_inv_def list_all_iff)
  ultimately show ?thesis by (simp only: u [symmetric] simp_thms)
qed

theorem rwlock_word_exact_witness:
  "rw_steps True (rw_init 2) contended \<and> RwCount_fmt (rw_word contended) = (True, 0)"
  using rwlock_word_exact [OF contended_reachable [of True] contended_bound] contended_reachable [of True]
  by (simp add: contended_def holders_def)

text \<open>The debug build and the release build, which leaves out the checks of its unlock methods
  and stores unconditionally, reach the same states: the checks never fire.\<close>

theorem rwlock_builds_agree:
  assumes "n < MAX_READERS"
  shows "rw_steps True (rw_init n) s \<longleftrightarrow> rw_steps False (rw_init n) s"
  using rw_reach_build [OF _ assms] by blast

theorem rwlock_builds_agree_witness: "rw_steps False (rw_init 2) contended"
  using rwlock_builds_agree [OF contended_bound, of contended] contended_reachable [of True] by simp

text \<open>C12. A set \<open>W\<close> of callers may have been interrupted at any point, and not run again. As long as
  none of them holds a guard (one that has not finished giving its guard back still holds it), the
  other callers are not stuck: from every state
  that callers can reach there is a continuation without \<open>W\<close> in which every guard is given back, no
  other caller is in a call, and the word is that of a new lock. In particular (\<open>W = {}\<close>) callers that
  all keep running cannot deadlock.\<close>

theorem rwlock_no_deadlock:
  assumes "rw_steps dbg (rw_init n) s" and "n < MAX_READERS" and "suspends_no_holder W s"
  shows "\<exists>s'. rw_steps_without dbg W s s' \<and> idle W s' \<and> rw_word s' = RwCount_INIT"
proof -
  from rw_reach_inv [OF assms(1,2)] assms(2) have inv: "rw_inv s" "length (agents s) < MAX_READERS" by auto
  then obtain s' where s': "rw_steps_without dbg W s s'" "idle W s'" using can_become_idle assms(3) by blast
  with rw_steps_inv [OF steps_without_steps [OF s'(1)] inv] steps_without_kept [OF s'(1)] assms(3)
  have "rw_inv s'" "suspends_no_holder W s'" by (auto simp: suspends_no_holder_def)
  with s' show ?thesis using rw_inv_idle by blast
qed

theorem rwlock_no_deadlock_witness:
  "\<exists>s'. rw_steps_without True {1} contended s' \<and> idle {1} s' \<and> rw_word s' = RwCount_INIT"
  by (rule rwlock_no_deadlock [OF contended_reachable contended_bound])
    (simp add: suspends_no_holder_def contended_def numeral_2_eq_2 less_Suc_eq)

text \<open>C12. The methods leave interrupts enabled, so a handler can run on top of a caller that holds a
  guard, and that caller runs again only when the handler has returned. If the handler then calls
  \<open>lock_shared\<close>, \<open>lock_upgradable\<close>, \<open>lock_exclusive\<close> or \<open>upgrade\<close> for a guard that cannot exist beside
  the interrupted caller's, it never returns, whatever all the other callers do: the deadlock of which
  the source warns.\<close>

theorem rwlock_interrupt_deadlock:
  assumes "rw_steps dbg (rw_init n) s" and "n < MAX_READERS" and "i < n" and "j < n" and "i \<noteq> j"
    and "waits op (agents s ! j)" and "excludes (held (agents s ! i)) (grants op)"
    and "rw_steps_without dbg {i} s s'"
  shows "waits op (agents s' ! j) \<and> held (agents s' ! i) = held (agents s ! i)"
proof -
  from rw_reach_inv [OF assms(1,2)] have "rw_inv s" "length (agents s) = n" by auto
  with waits_for_ever [OF assms(8)] assms(2-7) steps_without_kept [OF assms(8), of i] show ?thesis by simp
qed

theorem rwlock_interrupt_deadlock_witness:
  "\<exists>s'. rw_steps_without True {0} contended s' \<and> agents s' ! 1 = Exchanging True TryLockShared WRITE_BIT_MASK \<and>
    waits TryLockShared (agents s' ! 1) \<and> held (agents s' ! 0) = Exclusive"
proof -
  let ?t = "to_pc 1 (Exchanging True TryLockShared (rw_word contended)) contended"
  have wait: "waits TryLockShared (agents contended ! 1)"
      "excludes (held (agents contended ! 0)) (grants TryLockShared)"
    by (simp_all add: contended_def waits_def excludes_def)
  have "rw_step True contended ?t"
  proof (rule rw_step.retry)
    show "agents contended ! 1 = Exchanging True TryLockShared 0" by (simp add: contended_def)
    show "attempt_of True TryLockShared 0 = Exchanges 1" using try_lock_shared_encode [of 0 False False]
      by (simp add: encode_simps MAX_READERS_def)
  qed (simp add: contended_def)
  then have run: "rw_steps_without True {0} contended ?t"
    by (intro r_into_rtranclp step_without_same) auto
  then show ?thesis
    using rwlock_interrupt_deadlock [OF contended_reachable [of True] contended_bound _ _ _ wait run]
    by (intro exI [of _ ?t]) (simp add: contended_def)
qed

end
