(* ===== verification/Spin_Lock.thy ===== *)
theory Spin_Lock
  imports Prelude
begin

unbundle bit_operations_syntax

text \<open>
  The spinlock behind \<open>Mutex\<close> and \<open>Spinlock\<close> (\<open>kernel_api/src/sync/mutex.rs\<close>), with the interrupt
  flag of each core as the amd64 layer reads and sets it (\<open>kernel/src/hal/arch/amd64/mod.rs\<close>).

  The state has any number of locks and of cores; each atomic access, and each read or write of
  the interrupt flag, is a step of its own, and steps of different cores interleave freely. A core
  may hold several locks at a time and release them in any order. In a scoped run
  (\<open>spin_step True\<close>) each core releases its locks in the reverse order of their acquisition, as
  nested guards do, and nothing else changes its interrupt flag between the first acquisition and
  the last release. In a run that is not scoped the flag may change at any time, so that an element
  of \<open>cores\<close> can also stand for an interrupt handler. The fields \<open>held_locks\<close> and \<open>outer_irq\<close> are
  not part of the program: they are the locks a core holds, the latest first, and the interrupt flag
  it had when it called \<open>lock\<close> or \<open>try_lock\<close> without holding a lock.
\<close>

section \<open>The lock and the interrupt flag\<close>

datatype State = Unlocked | Locked

fun const_into_u8 :: "State \<Rightarrow> u8" where
  "const_into_u8 Unlocked = 0"
| "const_into_u8 Locked = 1"

definition const_from_u8 :: "u8 \<Rightarrow> (unit, State) result" where
  "const_from_u8 v = (if v = 0 then Inr Unlocked else if v = 1 then Inr Locked else Inl ())"

record RawSpinlock =
  lock_state :: u8
  lock_irq_state :: u64

definition RawSpinlock_INIT :: RawSpinlock where
  "RawSpinlock_INIT = \<lparr>lock_state = const_into_u8 Unlocked, lock_irq_state = 0\<rparr>"

text \<open>The flags register of a core, of which only bit 9 (interrupts enabled) matters here: \<open>rest\<close>
  stands for the other bits.\<close>

definition flags_register :: "u64 \<Rightarrow> bool \<Rightarrow> u64" where
  "flags_register rest irq = (if irq then rest OR 0x200 else rest AND NOT 0x200)"

definition get_and_disable_interrupts :: "u64 \<Rightarrow> bool \<Rightarrow> u64 \<times> bool" where
  "get_and_disable_interrupts rest irq = (flags_register rest irq AND 0x0200, False)"

definition set_interrupts :: "u64 \<Rightarrow> bool \<Rightarrow> bool" where
  "set_interrupts old_state irq = (if old_state \<noteq> 0 then True else irq)"

section \<open>Cores\<close>

text \<open>Where a core is in the code: outside the methods of locks, in the loop of \<open>lock\<close>, at the
  exchange of \<open>try_lock\<close>, after its failure, before the store of the interrupt state, after the load
  of \<open>unlock\<close>, after its swap, or stopped by a panic. The number is the lock, the word is the local
  \<open>irq_state\<close>.\<close>

datatype spin_pc =
    Running | Spinning nat u64 | Trying nat u64 | TryFailed u64 | Storing nat u64
  | Releasing nat u64 | Restoring u64 | Stopped

record core =
  irq_enabled :: bool
  outer_irq :: bool
  held_locks :: "nat list"
  core_pc :: spin_pc

record spin_state =
  spinlocks :: "RawSpinlock list"
  cores :: "core list"

definition set_core :: "nat \<Rightarrow> core \<Rightarrow> spin_state \<Rightarrow> spin_state" where
  "set_core i c s = s\<lparr>cores := (cores s)[i := c]\<rparr>"

definition set_lock :: "nat \<Rightarrow> RawSpinlock \<Rightarrow> spin_state \<Rightarrow> spin_state" where
  "set_lock k l s = s\<lparr>spinlocks := (spinlocks s)[k := l]\<rparr>"

text \<open>The first statement of \<open>lock\<close> and \<open>try_lock\<close>.\<close>

definition enter :: "u64 \<Rightarrow> (u64 \<Rightarrow> spin_pc) \<Rightarrow> core \<Rightarrow> core" where
  "enter rest pc c = (let (irq_state, irq) = get_and_disable_interrupts rest (irq_enabled c)
     in c\<lparr>irq_enabled := irq, outer_irq := (if held_locks c = [] then irq_enabled c else outer_irq c),
          core_pc := pc irq_state\<rparr>)"

definition leave :: "u64 \<Rightarrow> core \<Rightarrow> core" where
  "leave v c = c\<lparr>irq_enabled := set_interrupts v (irq_enabled c), core_pc := Running\<rparr>"

definition compare_exchange :: "State \<Rightarrow> State \<Rightarrow> RawSpinlock \<Rightarrow> RawSpinlock option" where
  "compare_exchange current new l =
    (if lock_state l = const_into_u8 current then Some (l\<lparr>lock_state := const_into_u8 new\<rparr>) else None)"

text \<open>The swap of \<open>unlock\<close> and the match on the old state; \<open>None\<close> is a panic.\<close>

definition swap_unlocked :: "RawSpinlock \<Rightarrow> (RawSpinlock \<times> unit option)" where
  "swap_unlocked l = (l\<lparr>lock_state := const_into_u8 Unlocked\<rparr>,
    case const_from_u8 (lock_state l) of
      Inl e \<Rightarrow> None
    | Inr Unlocked \<Rightarrow> None
    | Inr Locked \<Rightarrow> Some ())"

inductive spin_step :: "bool \<Rightarrow> spin_state \<Rightarrow> spin_state \<Rightarrow> bool" for scoped where
  lock_enter: "spin_step scoped s (set_core i (enter rest (Spinning k) (cores s ! i)) s)"
    if "i < length (cores s)" "core_pc (cores s ! i) = Running" "k < length (spinlocks s)"
| try_enter: "spin_step scoped s (set_core i (enter rest (Trying k) (cores s ! i)) s)"
    if "i < length (cores s)" "core_pc (cores s ! i) = Running" "k < length (spinlocks s)"
| acquire: "spin_step scoped s (set_core i ((cores s ! i)\<lparr>core_pc := Storing k v\<rparr>) (set_lock k l s))"
    if "i < length (cores s)" "core_pc (cores s ! i) = Spinning k v \<or> core_pc (cores s ! i) = Trying k v"
      "compare_exchange Unlocked Locked (spinlocks s ! k) = Some l"
| spin: "spin_step scoped s s"
    if "i < length (cores s)" "core_pc (cores s ! i) = Spinning k v"
| try_fails: "spin_step scoped s (set_core i ((cores s ! i)\<lparr>core_pc := TryFailed v\<rparr>) s)"
    if "i < length (cores s)" "core_pc (cores s ! i) = Trying k v"
      "compare_exchange Unlocked Locked (spinlocks s ! k) = None"
| try_restore: "spin_step scoped s (set_core i (leave v (cores s ! i)) s)"
    if "i < length (cores s)" "core_pc (cores s ! i) = TryFailed v"
| store: "spin_step scoped s (set_core i ((cores s ! i)\<lparr>core_pc := Running, held_locks := k # held_locks (cores s ! i)\<rparr>)
      (set_lock k ((spinlocks s ! k)\<lparr>lock_irq_state := v\<rparr>) s))"
    if "i < length (cores s)" "core_pc (cores s ! i) = Storing k v"
| unlock_load: "spin_step scoped s
      (set_core i ((cores s ! i)\<lparr>core_pc := Releasing k (lock_irq_state (spinlocks s ! k))\<rparr>) s)"
    if "i < length (cores s)" "core_pc (cores s ! i) = Running" "k \<in> set (held_locks (cores s ! i))"
      "scoped \<longrightarrow> k = hd (held_locks (cores s ! i))"
| unlock_swap: "spin_step scoped s (set_core i
      ((cores s ! i)\<lparr>core_pc := (case r of Some u \<Rightarrow> Restoring v | None \<Rightarrow> Stopped),
        held_locks := remove1 k (held_locks (cores s ! i))\<rparr>) (set_lock k l s))"
    if "i < length (cores s)" "core_pc (cores s ! i) = Releasing k v" "swap_unlocked (spinlocks s ! k) = (l, r)"
| unlock_restore: "spin_step scoped s (set_core i (leave v (cores s ! i)) s)"
    if "i < length (cores s)" "core_pc (cores s ! i) = Restoring v"
| irq_change: "spin_step scoped s (set_core i ((cores s ! i)\<lparr>irq_enabled := b\<rparr>) s)"
    if "i < length (cores s)"
      "scoped \<longrightarrow> core_pc (cores s ! i) = Running \<and> held_locks (cores s ! i) = []"

abbreviation spin_steps :: "bool \<Rightarrow> spin_state \<Rightarrow> spin_state \<Rightarrow> bool" where
  "spin_steps scoped \<equiv> (spin_step scoped)\<^sup>*\<^sup>*"

text \<open>\<open>n\<close> new locks, and a core per element of \<open>irqs\<close>.\<close>

definition spin_init :: "nat \<Rightarrow> bool list \<Rightarrow> spin_state" where
  "spin_init n irqs = \<lparr>spinlocks = replicate n RawSpinlock_INIT,
    cores = map (\<lambda>b. \<lparr>irq_enabled = b, outer_irq = b, held_locks = [], core_pc = Running\<rparr>) irqs\<rparr>"

text \<open>\<open>lock\<close> of a free lock and \<open>unlock\<close>, run to the end on one core: \<open>None\<close> is a lock that spins
  for ever, or a panic.\<close>

definition lock_call :: "u64 \<Rightarrow> RawSpinlock \<Rightarrow> bool \<Rightarrow> (RawSpinlock \<times> bool) rust" where
  "lock_call rest l irq =
    (let (irq_state, irq') = get_and_disable_interrupts rest irq in
     do { l' \<leftarrow> compare_exchange Unlocked Locked l;
          Some (l'\<lparr>lock_irq_state := irq_state\<rparr>, irq') })"

definition unlock_call :: "RawSpinlock \<Rightarrow> bool \<Rightarrow> (RawSpinlock \<times> bool) rust" where
  "unlock_call l irq =
    (let old_irq_state = lock_irq_state l; (l', r) = swap_unlocked l in
     do { u \<leftarrow> r; Some (l', set_interrupts old_irq_state irq) })"

section \<open>Exclusion\<close>

text \<open>The locks a core has acquired and not released.\<close>

definition owned :: "core \<Rightarrow> nat list" where
  "owned c = (case core_pc c of Storing k v \<Rightarrow> k # held_locks c | p \<Rightarrow> held_locks c)"

fun pc_fine :: "nat \<Rightarrow> nat list \<Rightarrow> spin_pc \<Rightarrow> bool" where
  "pc_fine n ks (Spinning k v) = (k < n)"
| "pc_fine n ks (Trying k v) = (k < n)"
| "pc_fine n ks (Releasing k v) = (k \<in> set ks)"
| "pc_fine n ks Stopped = False"
| "pc_fine n ks p = True"

definition core_fine :: "nat \<Rightarrow> core \<Rightarrow> bool" where
  "core_fine n c \<longleftrightarrow> distinct (owned c) \<and> set (owned c) \<subseteq> {..<n} \<and> pc_fine n (held_locks c) (core_pc c)"

definition spin_inv :: "spin_state \<Rightarrow> bool" where
  "spin_inv s \<longleftrightarrow> (\<forall>i < length (cores s). core_fine (length (spinlocks s)) (cores s ! i)) \<and>
    (\<forall>i < length (cores s). \<forall>j < length (cores s). i \<noteq> j \<longrightarrow>
      set (owned (cores s ! i)) \<inter> set (owned (cores s ! j)) = {}) \<and>
    (\<forall>k < length (spinlocks s). lock_state (spinlocks s ! k) = const_into_u8
      (if \<exists>i < length (cores s). k \<in> set (owned (cores s ! i)) then Locked else Unlocked))"

lemma flags_bit: "flags_register rest irq AND 0x200 \<noteq> 0 \<longleftrightarrow> irq"
proof -
  have b: "(0x200 :: u64) = push_bit 9 1" by simp
  have "flags_register rest irq AND 0x200 = (if irq then 0x200 else 0)"
    unfolding flags_register_def b
    by (rule bit_eqI) (auto simp: bit_and_iff bit_or_iff bit_not_iff bit_push_bit_iff bit_1_iff simp del: push_bit_of_1)
  then show ?thesis by simp
qed

lemma set_core_sel [simp]:
  "spinlocks (set_core i c s) = spinlocks s" "cores (set_core i c s) = (cores s)[i := c]"
  "spinlocks (set_lock k l s) = (spinlocks s)[k := l]" "cores (set_lock k l s) = cores s"
  by (simp_all add: set_core_def set_lock_def)

lemma owned_irq [simp]: "owned (c\<lparr>irq_enabled := b\<rparr>) = owned c"
  by (cases "core_pc c") (simp_all add: owned_def)

lemma spin_inv_fine:
  "spin_inv s \<Longrightarrow> i < length (cores s) \<Longrightarrow> core_fine (length (spinlocks s)) (cores s ! i)"
  by (simp add: spin_inv_def)

lemma spin_inv_apart:
  "spin_inv s \<Longrightarrow> i < length (cores s) \<Longrightarrow> j < length (cores s) \<Longrightarrow>
    k \<in> set (owned (cores s ! i)) \<Longrightarrow> k \<in> set (owned (cores s ! j)) \<Longrightarrow> i = j"
  unfolding spin_inv_def by blast

lemma spin_inv_word:
  "spin_inv s \<Longrightarrow> k < length (spinlocks s) \<Longrightarrow> lock_state (spinlocks s ! k) = const_into_u8
    (if \<exists>i < length (cores s). k \<in> set (owned (cores s ! i)) then Locked else Unlocked)"
  by (simp add: spin_inv_def)

lemma spin_inv_others:
  assumes "spin_inv s" and "i < length (cores s)" and "k < length (spinlocks s)"
  shows "lock_state (spinlocks s ! k) = const_into_u8 (if k \<in> set (owned (cores s ! i)) \<or>
    (\<exists>j < length (cores s). j \<noteq> i \<and> k \<in> set (owned (cores s ! j))) then Locked else Unlocked)"
  unfolding spin_inv_word [OF assms(1,3)] using assms(2) by (intro arg_cong [where f = const_into_u8] if_cong) auto

text \<open>A step of core \<open>i\<close> that leaves the state words as the new owners require.\<close>

lemma spin_inv_update:
  assumes "spin_inv s" and "i < length (cores s)" and "length L = length (spinlocks s)"
    and "core_fine (length L) c"
    and "\<And>j k. j < length (cores s) \<Longrightarrow> j \<noteq> i \<Longrightarrow> k \<in> set (owned c) \<Longrightarrow> k \<notin> set (owned (cores s ! j))"
    and "\<And>k. k < length L \<Longrightarrow> lock_state (L ! k) = const_into_u8
      (if k \<in> set (owned c) \<or> (\<exists>j < length (cores s). j \<noteq> i \<and> k \<in> set (owned (cores s ! j))) then Locked else Unlocked)"
  shows "spin_inv (set_core i c (s\<lparr>spinlocks := L\<rparr>))"
proof -
  have ex: "(\<exists>j < length (cores s). k \<in> set (owned ((cores s)[i := c] ! j))) \<longleftrightarrow>
      k \<in> set (owned c) \<or> (\<exists>j < length (cores s). j \<noteq> i \<and> k \<in> set (owned (cores s ! j)))" for k
    using assms(2) by (auto simp: nth_list_update split: if_splits)
  have fine: "core_fine (length L) ((cores s)[i := c] ! j)" if "j < length (cores s)" for j
    using assms(1-4) that by (cases "j = i") (auto simp: spin_inv_fine)
  have "set (owned ((cores s)[i := c] ! j)) \<inter> set (owned ((cores s)[i := c] ! j')) = {}"
    if "j < length (cores s)" "j' < length (cores s)" "j \<noteq> j'" for j j'
    using assms(1,2,5) that spin_inv_apart [OF assms(1), of j j'] by (auto simp: nth_list_update)
  with fine show ?thesis unfolding spin_inv_def by (simp add: assms(6) ex set_core_def)
qed

lemma spin_inv_keep:
  assumes "spin_inv s" and "i < length (cores s)" and "core_fine (length (spinlocks s)) c"
    and "set (owned c) = set (owned (cores s ! i))"
  shows "spin_inv (set_core i c s)"
proof -
  have "spin_inv (set_core i c (s\<lparr>spinlocks := spinlocks s\<rparr>))"
  proof (rule spin_inv_update [OF assms(1,2) refl assms(3)])
    show "k \<notin> set (owned (cores s ! j))" if "j < length (cores s)" "j \<noteq> i" "k \<in> set (owned c)" for j k
      using that assms(4) spin_inv_apart [OF assms(1,2), of j k] by auto
  qed (simp add: spin_inv_others [OF assms(1,2)] assms(4))
  then show ?thesis by simp
qed

lemma core_fine_pc:
  assumes "core_fine n c" and "pc_fine n (held_locks c) p" and "\<And>k v. core_pc c \<noteq> Storing k v"
    and "\<And>k v. p \<noteq> Storing k v" and "held_locks c' = held_locks c" and "core_pc c' = p"
  shows "core_fine n c' \<and> set (owned c') = set (owned c)"
  using assms by (cases p; cases "core_pc c") (auto simp: core_fine_def owned_def)

lemma spin_inv_pc:
  assumes "spin_inv s" and "i < length (cores s)"
    and "pc_fine (length (spinlocks s)) (held_locks (cores s ! i)) (core_pc c)"
    and "held_locks c = held_locks (cores s ! i)"
    and "\<And>k v. core_pc (cores s ! i) \<noteq> Storing k v" and "\<And>k v. core_pc c \<noteq> Storing k v"
  shows "spin_inv (set_core i c s)"
  using core_fine_pc [OF spin_inv_fine [OF assms(1,2)] assms(3,5,6,4) refl] spin_inv_keep [OF assms(1,2)] by blast

lemma spin_inv_acquire:
  assumes "spin_inv s" and "i < length (cores s)"
    and "core_pc (cores s ! i) = Spinning k v \<or> core_pc (cores s ! i) = Trying k v"
    and "compare_exchange Unlocked Locked (spinlocks s ! k) = Some l"
  shows "spin_inv (set_core i ((cores s ! i)\<lparr>core_pc := Storing k v\<rparr>) (set_lock k l s))"
proof -
  let ?c = "(cores s ! i)\<lparr>core_pc := Storing k v\<rparr>"
  from assms(4) have l: "lock_state (spinlocks s ! k) = 0" "l = (spinlocks s ! k)\<lparr>lock_state := 1\<rparr>"
    by (auto simp: compare_exchange_def split: if_splits)
  from spin_inv_fine [OF assms(1,2)] assms(3) have k: "k < length (spinlocks s)" and
    o: "owned (cores s ! i) = held_locks (cores s ! i)" "owned ?c = k # held_locks (cores s ! i)"
    by (auto simp: core_fine_def owned_def)
  from spin_inv_word [OF assms(1) k] l(1) have free: "\<And>j. j < length (cores s) \<Longrightarrow> k \<notin> set (owned (cores s ! j))"
    by (auto split: if_splits)
  have "spin_inv (set_core i ?c (s\<lparr>spinlocks := (spinlocks s)[k := l]\<rparr>))"
  proof (rule spin_inv_update [OF assms(1,2)])
    show "core_fine (length ((spinlocks s)[k := l])) ?c"
      using spin_inv_fine [OF assms(1,2)] free [OF assms(2)] o k by (auto simp: core_fine_def)
    show "j' \<notin> set (owned (cores s ! j))" if "j < length (cores s)" "j \<noteq> i" "j' \<in> set (owned ?c)" for j j'
      using that o free [of j] spin_inv_apart [OF assms(1,2), of j j'] by auto
    show "lock_state ((spinlocks s)[k := l] ! k') = const_into_u8
        (if k' \<in> set (owned ?c) \<or> (\<exists>j < length (cores s). j \<noteq> i \<and> k' \<in> set (owned (cores s ! j))) then Locked else Unlocked)"
      if "k' < length ((spinlocks s)[k := l])" for k'
      using that spin_inv_word [OF assms(1), of k'] o l(2) assms(2) by (cases "k' = k") (auto split: if_splits)
  qed simp
  then show ?thesis by (simp add: set_lock_def)
qed

lemma spin_inv_store:
  assumes "spin_inv s" and "i < length (cores s)" and "core_pc (cores s ! i) = Storing k v"
  shows "spin_inv (set_core i ((cores s ! i)\<lparr>core_pc := Running, held_locks := k # held_locks (cores s ! i)\<rparr>)
    (set_lock k ((spinlocks s ! k)\<lparr>lock_irq_state := v\<rparr>) s))"
proof -
  let ?c = "(cores s ! i)\<lparr>core_pc := Running, held_locks := k # held_locks (cores s ! i)\<rparr>"
  let ?L = "(spinlocks s)[k := (spinlocks s ! k)\<lparr>lock_irq_state := v\<rparr>]"
  have o: "owned ?c = owned (cores s ! i)" using assms(3) by (simp add: owned_def)
  have st: "lock_state (?L ! k') = lock_state (spinlocks s ! k')" if "k' < length (spinlocks s)" for k'
    using that by (cases "k' = k") simp_all
  have "spin_inv (set_core i ?c (s\<lparr>spinlocks := ?L\<rparr>))"
  proof (rule spin_inv_update [OF assms(1,2)])
    show "core_fine (length ?L) ?c" using spin_inv_fine [OF assms(1,2)] o by (simp add: core_fine_def)
    show "j' \<notin> set (owned (cores s ! j))" if "j < length (cores s)" "j \<noteq> i" "j' \<in> set (owned ?c)" for j j'
      using that o spin_inv_apart [OF assms(1,2), of j j'] by auto
    show "lock_state (?L ! k') = const_into_u8
        (if k' \<in> set (owned ?c) \<or> (\<exists>j < length (cores s). j \<noteq> i \<and> k' \<in> set (owned (cores s ! j))) then Locked else Unlocked)"
      if "k' < length ?L" for k'
      using that st [of k'] spin_inv_others [OF assms(1,2), of k'] o by simp
  qed simp
  then show ?thesis by (simp add: set_lock_def)
qed

lemma swap_owned:
  assumes "spin_inv s" and "i < length (cores s)" and "k \<in> set (owned (cores s ! i))"
  shows "swap_unlocked (spinlocks s ! k) = ((spinlocks s ! k)\<lparr>lock_state := 0\<rparr>, Some ())"
proof -
  from spin_inv_fine [OF assms(1,2)] assms(3) have "k < length (spinlocks s)" by (auto simp: core_fine_def)
  from spin_inv_word [OF assms(1) this] assms(2,3) have "lock_state (spinlocks s ! k) = 1"
    by (auto split: if_splits)
  then show ?thesis by (simp add: swap_unlocked_def const_from_u8_def)
qed

lemma spin_inv_release:
  assumes "spin_inv s" and "i < length (cores s)" and "core_pc (cores s ! i) = Releasing k v"
  shows "spin_inv (set_core i ((cores s ! i)\<lparr>core_pc := Restoring v, held_locks := remove1 k (held_locks (cores s ! i))\<rparr>)
    (set_lock k ((spinlocks s ! k)\<lparr>lock_state := 0\<rparr>) s))"
proof -
  let ?c = "(cores s ! i)\<lparr>core_pc := Restoring v, held_locks := remove1 k (held_locks (cores s ! i))\<rparr>"
  let ?L = "(spinlocks s)[k := (spinlocks s ! k)\<lparr>lock_state := 0\<rparr>]"
  from spin_inv_fine [OF assms(1,2)] assms(3) have d: "distinct (held_locks (cores s ! i))"
    and o: "owned (cores s ! i) = held_locks (cores s ! i)" "owned ?c = remove1 k (held_locks (cores s ! i))"
    and k: "k \<in> set (held_locks (cores s ! i))" "k < length (spinlocks s)"
    by (auto simp: core_fine_def owned_def)
  have mine: "j = i" if "j < length (cores s)" "k \<in> set (owned (cores s ! j))" for j
    using that spin_inv_apart [OF assms(1) _ assms(2)] k(1) o(1) by auto
  have "spin_inv (set_core i ?c (s\<lparr>spinlocks := ?L\<rparr>))"
  proof (rule spin_inv_update [OF assms(1,2)])
    show "core_fine (length ?L) ?c" using spin_inv_fine [OF assms(1,2)] o d by (auto simp: core_fine_def)
    show "j' \<notin> set (owned (cores s ! j))" if "j < length (cores s)" "j \<noteq> i" "j' \<in> set (owned ?c)" for j j'
      using that o d spin_inv_apart [OF assms(1,2), of j j'] by auto
    show "lock_state (?L ! k') = const_into_u8
        (if k' \<in> set (owned ?c) \<or> (\<exists>j < length (cores s). j \<noteq> i \<and> k' \<in> set (owned (cores s ! j))) then Locked else Unlocked)"
      if "k' < length ?L" for k'
    proof (cases "k' = k")
      case False
      then have "k' \<in> set (owned ?c) \<longleftrightarrow> k' \<in> set (owned (cores s ! i))" using o d by simp
      with False spin_inv_others [OF assms(1,2), of k'] that show ?thesis by simp
    qed (use o d k mine in auto)
  qed simp
  then show ?thesis by (simp add: set_lock_def)
qed

lemma spin_step_inv:
  assumes "spin_step scoped s s'" and "spin_inv s"
  shows "spin_inv s'"
  using assms
proof (induction rule: spin_step.induct)
  case (unlock_swap i s k v l r)
  have "k \<in> set (owned (cores s ! i))"
    using spin_inv_fine [OF unlock_swap.prems unlock_swap.hyps(1)] unlock_swap.hyps(2)
    by (simp add: core_fine_def owned_def)
  from swap_owned [OF unlock_swap.prems unlock_swap.hyps(1) this] unlock_swap.hyps(3)
  have "l = (spinlocks s ! k)\<lparr>lock_state := 0\<rparr>" "r = Some ()" by auto
  with spin_inv_release [OF unlock_swap.prems unlock_swap.hyps(1,2)] show ?case by simp
next
  case (irq_change i s b)
  then show ?case using spin_inv_fine [of s i] by (intro spin_inv_keep) (simp_all add: core_fine_def)
next
  case (acquire i s k v l)
  then show ?case by (intro spin_inv_acquire)
next
  case (store i s k v)
  then show ?case by (intro spin_inv_store)
qed (auto intro!: spin_inv_pc simp: enter_def leave_def get_and_disable_interrupts_def)

lemma spin_init_inv: "spin_inv (spin_init n irqs)"
  by (auto simp: spin_inv_def spin_init_def RawSpinlock_INIT_def core_fine_def owned_def)

lemma spin_step_lengths:
  "spin_step scoped s s' \<Longrightarrow> length (cores s') = length (cores s) \<and> length (spinlocks s') = length (spinlocks s)"
  by (auto elim!: spin_step.cases)

lemma spin_reach_inv:
  "spin_steps scoped (spin_init n irqs) s \<Longrightarrow>
    spin_inv s \<and> length (cores s) = length irqs \<and> length (spinlocks s) = n"
proof (induction rule: rtranclp_induct)
  case base
  show ?case using spin_init_inv by (simp add: spin_init_def)
qed (auto dest: spin_step_lengths intro: spin_step_inv)

section \<open>The interrupt flag in scoped runs\<close>

text \<open>The saved words of the locks a core holds: the flag of the outermost call is in the lock taken
  first, and the others have saved that interrupts were disabled.\<close>

fun stack_ok :: "RawSpinlock list \<Rightarrow> bool \<Rightarrow> nat list \<Rightarrow> bool" where
  "stack_ok L irq [] = True"
| "stack_ok L irq (k # ks) = ((lock_irq_state (L ! k) \<noteq> 0 \<longleftrightarrow> ks = [] \<and> irq) \<and> stack_ok L irq ks)"

fun carries :: "bool \<Rightarrow> nat list \<Rightarrow> spin_pc \<Rightarrow> bool" where
  "carries irq ks (Spinning k v) = (v \<noteq> 0 \<longleftrightarrow> ks = [] \<and> irq)"
| "carries irq ks (Trying k v) = (v \<noteq> 0 \<longleftrightarrow> ks = [] \<and> irq)"
| "carries irq ks (TryFailed v) = (v \<noteq> 0 \<longleftrightarrow> ks = [] \<and> irq)"
| "carries irq ks (Storing k v) = (v \<noteq> 0 \<longleftrightarrow> ks = [] \<and> irq)"
| "carries irq ks (Restoring v) = (v \<noteq> 0 \<longleftrightarrow> ks = [] \<and> irq)"
| "carries irq ks (Releasing k v) = (\<exists>ks'. ks = k # ks' \<and> (v \<noteq> 0 \<longleftrightarrow> ks' = [] \<and> irq))"
| "carries irq ks p = True"

definition irq_fine :: "RawSpinlock list \<Rightarrow> core \<Rightarrow> bool" where
  "irq_fine L c \<longleftrightarrow> (irq_enabled c \<longrightarrow> core_pc c = Running \<and> held_locks c = []) \<and>
    stack_ok L (outer_irq c) (held_locks c) \<and> carries (outer_irq c) (held_locks c) (core_pc c)"

definition irq_inv :: "spin_state \<Rightarrow> bool" where
  "irq_inv s \<longleftrightarrow> (\<forall>i < length (cores s). irq_fine (spinlocks s) (cores s ! i))"

lemma stack_ok_cong:
  "(\<And>k. k \<in> set ks \<Longrightarrow> lock_irq_state (L' ! k) = lock_irq_state (L ! k)) \<Longrightarrow> stack_ok L' irq ks = stack_ok L irq ks"
  by (induction ks) auto

lemma irq_inv_update:
  assumes "irq_inv s" and "irq_fine L c"
    and "\<And>j k. j < length (cores s) \<Longrightarrow> j \<noteq> i \<Longrightarrow> k \<in> set (held_locks (cores s ! j)) \<Longrightarrow>
      lock_irq_state (L ! k) = lock_irq_state (spinlocks s ! k)"
  shows "irq_inv (set_core i c (s\<lparr>spinlocks := L\<rparr>))"
proof -
  have "irq_fine L (cores s ! j)" if "j < length (cores s)" "j \<noteq> i" for j
    using assms(1,3) that stack_ok_cong [of "held_locks (cores s ! j)" L "spinlocks s"]
    by (simp add: irq_inv_def irq_fine_def)
  then have "irq_fine L ((cores s)[i := c] ! j)" if "j < length (cores s)" for j
    using assms(2) that by (cases "j = i") simp_all
  then show ?thesis by (simp add: irq_inv_def set_core_def)
qed

lemmas irq_inv_keep = irq_inv_update [where L = "spinlocks s" and s = s for s, simplified]

lemma irq_inv_fine: "irq_inv s \<Longrightarrow> i < length (cores s) \<Longrightarrow> irq_fine (spinlocks s) (cores s ! i)"
  by (simp add: irq_inv_def)

lemma irq_fine_enter:
  assumes "irq_fine L c" and "core_pc c = Running"
    and "\<And>v irq ks. carries irq ks (pc v) = (v \<noteq> 0 \<longleftrightarrow> ks = [] \<and> irq)"
  shows "irq_fine L (enter rest pc c)"
  using assms flags_bit [of rest] by (auto simp: irq_fine_def enter_def get_and_disable_interrupts_def)

lemma irq_fine_leave:
  assumes "irq_fine L c" and "core_pc c = TryFailed v \<or> core_pc c = Restoring v"
  shows "irq_fine L (leave v c)"
  using assms by (auto simp: irq_fine_def leave_def set_interrupts_def)

lemma owned_held: "set (held_locks c) \<subseteq> set (owned c)"
  by (cases "core_pc c") (auto simp: owned_def)

lemma irq_inv_store:
  assumes "irq_inv s" and "spin_inv s" and "i < length (cores s)" and "core_pc (cores s ! i) = Storing k v"
  shows "irq_inv (set_core i ((cores s ! i)\<lparr>core_pc := Running, held_locks := k # held_locks (cores s ! i)\<rparr>)
    (set_lock k ((spinlocks s ! k)\<lparr>lock_irq_state := v\<rparr>) s))"
proof -
  let ?c = "(cores s ! i)\<lparr>core_pc := Running, held_locks := k # held_locks (cores s ! i)\<rparr>"
  let ?L = "(spinlocks s)[k := (spinlocks s ! k)\<lparr>lock_irq_state := v\<rparr>]"
  from spin_inv_fine [OF assms(2,3)] assms(4) have k: "k < length (spinlocks s)"
      "k \<notin> set (held_locks (cores s ! i))" "k \<in> set (owned (cores s ! i))"
    by (auto simp: core_fine_def owned_def)
  have "stack_ok ?L (outer_irq (cores s ! i)) (held_locks (cores s ! i))"
    using irq_inv_fine [OF assms(1,3)] k(2) stack_ok_cong [of "held_locks (cores s ! i)" ?L "spinlocks s"]
    by (simp add: irq_fine_def) (metis nth_list_update_neq)
  with irq_inv_fine [OF assms(1,3)] assms(4) k(1) have "irq_fine ?L ?c" by (simp add: irq_fine_def)
  moreover have "lock_irq_state (?L ! k') = lock_irq_state (spinlocks s ! k')"
    if "j < length (cores s)" "j \<noteq> i" "k' \<in> set (held_locks (cores s ! j))" for j k'
  proof -
    have "k' \<noteq> k" using that spin_inv_apart [OF assms(2,3), of j k'] k(3) owned_held by blast
    then show ?thesis by simp
  qed
  ultimately have "irq_inv (set_core i ?c (s\<lparr>spinlocks := ?L\<rparr>))" by (rule irq_inv_update [OF assms(1)])
  then show ?thesis by (simp add: set_lock_def)
qed

lemma irq_inv_lock_state:
  assumes "irq_inv s" and "irq_fine (spinlocks s) c" and "lock_irq_state l = lock_irq_state (spinlocks s ! k)"
  shows "irq_inv (set_core i c (set_lock k l s))"
proof -
  have same: "lock_irq_state ((spinlocks s)[k := l] ! k') = lock_irq_state (spinlocks s ! k')" for k'
    using assms(3) by (cases "k < length (spinlocks s)") (auto simp: nth_list_update list_update_beyond)
  have "irq_fine ((spinlocks s)[k := l]) c"
    using assms(2) stack_ok_cong [of "held_locks c" "(spinlocks s)[k := l]" "spinlocks s"] same
    by (simp add: irq_fine_def)
  from irq_inv_update [OF assms(1) this, of i] same show ?thesis by (simp add: set_lock_def)
qed

lemma irq_fine_pc:
  assumes "irq_fine L c" and "\<not> irq_enabled c" and "carries (outer_irq c) (held_locks c) p"
  shows "irq_fine L (c\<lparr>core_pc := p\<rparr>)"
  using assms by (simp add: irq_fine_def)

lemma irq_fine_release:
  assumes "irq_fine L c" and "core_pc c = Releasing k v"
  shows "irq_fine L (c\<lparr>core_pc := (case r of Some u \<Rightarrow> Restoring v | None \<Rightarrow> Stopped),
    held_locks := remove1 k (held_locks c)\<rparr>)"
  using assms by (cases r) (auto simp: irq_fine_def)

lemma irq_step_inv:
  assumes "spin_step True s s'" and "irq_inv s" and "spin_inv s"
  shows "irq_inv s'"
  using assms(1)
proof (cases rule: spin_step.cases)
  case (lock_enter i rest k)
  with irq_inv_fine [OF assms(2), of i] show ?thesis by (simp add: irq_inv_keep [OF assms(2)] irq_fine_enter)
next
  case (try_enter i rest k)
  with irq_inv_fine [OF assms(2), of i] show ?thesis by (simp add: irq_inv_keep [OF assms(2)] irq_fine_enter)
next
  case (acquire i k v l)
  have "irq_fine (spinlocks s) ((cores s ! i)\<lparr>core_pc := Storing k v\<rparr>)"
    using irq_inv_fine [OF assms(2) acquire(2)] acquire(3) by (auto simp: irq_fine_def)
  moreover have "lock_irq_state l = lock_irq_state (spinlocks s ! k)"
    using acquire(4) by (auto simp: compare_exchange_def split: if_splits)
  ultimately show ?thesis unfolding acquire(1) by (rule irq_inv_lock_state [OF assms(2)])
next
  case (try_fails i k v)
  have "irq_fine (spinlocks s) ((cores s ! i)\<lparr>core_pc := TryFailed v\<rparr>)"
    using irq_inv_fine [OF assms(2) try_fails(2)] try_fails(3) by (auto simp: irq_fine_def)
  then show ?thesis unfolding try_fails(1) by (rule irq_inv_keep [OF assms(2)])
next
  case (try_restore i v)
  with irq_inv_fine [OF assms(2), of i] show ?thesis by (simp add: irq_inv_keep [OF assms(2)] irq_fine_leave)
next
  case (store i k v)
  with assms(2,3) show ?thesis by (simp add: irq_inv_store)
next
  case (unlock_load i k)
  then obtain ks where "held_locks (cores s ! i) = k # ks" by (cases "held_locks (cores s ! i)") auto
  with irq_inv_fine [OF assms(2) unlock_load(2)]
  have "irq_fine (spinlocks s) ((cores s ! i)\<lparr>core_pc := Releasing k (lock_irq_state (spinlocks s ! k))\<rparr>)"
    by (auto simp: irq_fine_def)
  then show ?thesis unfolding unlock_load(1) by (rule irq_inv_keep [OF assms(2)])
next
  case (unlock_swap i k v l r)
  have "lock_irq_state l = lock_irq_state (spinlocks s ! k)"
    using unlock_swap(4) by (auto simp: swap_unlocked_def)
  with irq_fine_release [OF irq_inv_fine [OF assms(2) unlock_swap(2)] unlock_swap(3)]
  show ?thesis unfolding unlock_swap(1) by (rule irq_inv_lock_state [OF assms(2)])
next
  case (unlock_restore i v)
  with irq_inv_fine [OF assms(2), of i] show ?thesis by (simp add: irq_inv_keep [OF assms(2)] irq_fine_leave)
next
  case (irq_change i b)
  have "irq_fine (spinlocks s) ((cores s ! i)\<lparr>irq_enabled := b\<rparr>)"
    using irq_inv_fine [OF assms(2) irq_change(2)] irq_change(3) by (simp add: irq_fine_def)
  then show ?thesis unfolding irq_change(1) by (rule irq_inv_keep [OF assms(2)])
qed (use assms(2) in simp)

lemma irq_reach_inv: "spin_steps True (spin_init n irqs) s \<Longrightarrow> irq_inv s"
proof (induction rule: rtranclp_induct)
  case base
  show ?case by (simp add: irq_inv_def spin_init_def irq_fine_def)
next
  case (step s s')
  with spin_reach_inv irq_step_inv show ?case by blast
qed

section \<open>A run\<close>

text \<open>Core 0 takes the lock, having had interrupts enabled, and releases it up to the last statement
  of \<open>unlock\<close>, while core 1 has begun to wait.\<close>

definition two_cores :: "u8 \<Rightarrow> u64 \<Rightarrow> core \<Rightarrow> core \<Rightarrow> spin_state" where
  "two_cores st v c d = \<lparr>spinlocks = [\<lparr>lock_state = st, lock_irq_state = v\<rparr>], cores = [c, d]\<rparr>"

definition core_at :: "bool \<Rightarrow> bool \<Rightarrow> nat list \<Rightarrow> spin_pc \<Rightarrow> core" where
  "core_at irq outer ks p = \<lparr>irq_enabled = irq, outer_irq = outer, held_locks = ks, core_pc = p\<rparr>"

definition waiting :: core where
  "waiting = core_at False False [] (Spinning 0 0)"

definition taken :: spin_state where
  "taken = two_cores 1 0x200 (core_at False True [0] Running) waiting"

definition released :: spin_state where
  "released = two_cores 0 0x200 (core_at False True [] (Restoring 0x200)) waiting"

lemmas run_defs = two_cores_def core_at_def waiting_def set_core_def set_lock_def enter_def
  get_and_disable_interrupts_def flags_register_def compare_exchange_def swap_unlocked_def const_from_u8_def

lemma taken_reachable: "spin_steps scoped (spin_init 1 [True, False]) taken"
proof -
  let ?a = "two_cores 0 0 (core_at True True [] Running) (core_at False False [] Running)"
  let ?b = "two_cores 0 0 (core_at False True [] (Spinning 0 0x200)) (core_at False False [] Running)"
  let ?c = "two_cores 0 0 (core_at False True [] (Spinning 0 0x200)) waiting"
  let ?d = "two_cores 1 0 (core_at False True [] (Storing 0 0x200)) waiting"
  have "spin_init 1 [True, False] = ?a" by (simp add: spin_init_def RawSpinlock_INIT_def run_defs)
  moreover have "spin_step scoped ?a ?b"
    using spin_step.lock_enter [of 0 ?a 0 scoped 0] by (simp add: run_defs)
  moreover have "spin_step scoped ?b ?c"
    using spin_step.lock_enter [of 1 ?b 0 scoped 0] by (simp add: run_defs)
  moreover have "spin_step scoped ?c ?d"
    using spin_step.acquire [where i = 0 and k = 0 and v = "0x200" and s = ?c
        and l = "\<lparr>lock_state = 1, lock_irq_state = 0\<rparr>"]
    by (simp add: run_defs)
  moreover have "spin_step scoped ?d taken"
    using spin_step.store [of 0 ?d 0 "0x200"] by (simp add: run_defs taken_def)
  ultimately show ?thesis by (metis (no_types, lifting) rtranclp.simps)
qed

lemma released_reachable: "spin_steps scoped (spin_init 1 [True, False]) released"
proof -
  let ?e = "two_cores 1 0x200 (core_at False True [0] (Releasing 0 0x200)) waiting"
  have "spin_step scoped taken ?e"
    using spin_step.unlock_load [of 0 taken 0 scoped] by (simp add: run_defs taken_def)
  moreover have "spin_step scoped ?e released"
    using spin_step.unlock_swap [where i = 0 and k = 0 and v = "0x200" and s = ?e
        and l = "\<lparr>lock_state = 0, lock_irq_state = 0x200\<rparr>" and r = "Some ()"]
    by (simp add: run_defs released_def)
  ultimately show ?thesis using taken_reachable [of scoped] by (metis (no_types, lifting) rtranclp.simps)
qed

section \<open>Properties\<close>





text \<open>Two locks released in the order they were taken do not keep interrupts disabled: after
  locking \<open>a\<close> and then \<open>b\<close> with interrupts enabled, releasing \<open>a\<close> enables interrupts while \<open>b\<close> is
  still held. In the opposite order they stay disabled until the last release.\<close>

theorem spinlock_release_order:
  assumes "lock_state a = const_into_u8 Unlocked" and "lock_state b = const_into_u8 Unlocked"
  shows "\<exists>a1 b1 a2 b2. lock_call rest a True = Some (a1, False) \<and> lock_call rest b False = Some (b1, False) \<and>
    unlock_call a1 False = Some (a2, True) \<and> lock_state b1 = const_into_u8 Locked \<and>
    unlock_call b1 False = Some (b2, False)"
proof -
  have on: "flags_register rest True AND 0x200 \<noteq> 0" and off: "flags_register rest False AND 0x200 = 0"
    using flags_bit [of rest True] flags_bit [of rest False] by blast+
  with assms show ?thesis
    by (simp add: lock_call_def unlock_call_def get_and_disable_interrupts_def compare_exchange_def
        swap_unlocked_def const_from_u8_def set_interrupts_def)
qed

theorem spinlock_release_order_witness:
  "\<exists>a1 b1 a2 b2. lock_call 0 RawSpinlock_INIT True = Some (a1, False) \<and>
    lock_call 0 RawSpinlock_INIT False = Some (b1, False) \<and>
    unlock_call a1 False = Some (a2, True) \<and> lock_state b1 = const_into_u8 Locked \<and>
    unlock_call b1 False = Some (b2, False)"
  by (rule spinlock_release_order) (simp_all add: RawSpinlock_INIT_def)

end
