(* ===== verification/Threading.thy ===== *)
theory Threading
  imports Spin_Lock
begin

text \<open>
  Threads: the scheduler and its interrupt-guarded cell (\<open>kernel/src/threading/scheduler.rs\<close>), the
  first thread and \<open>thread_yield\<close> (\<open>kernel/src/threading/mod.rs\<close>), and the context switch of the
  amd64 layer (\<open>kernel/src/hal/arch/amd64/mod.rs\<close>).

  A control block keeps what the scheduler and the switch use: the saved registers, the frame of
  the top-level page table and the state. Its name and its stack are left out, and so is the stack
  memory, so that the return address a switch pops is part of the context through \<open>rsp\<close>. The
  processor is its callee-saved registers, \<open>cr3\<close> and the interrupt flag.
\<close>

section \<open>Control blocks and the switch\<close>

datatype ThreadState = Ready | RunningNow

record SaveState =
  rbx :: usize
  rsp :: usize
  rbp :: usize
  r12 :: usize
  r13 :: usize
  r14 :: usize
  r15 :: usize

record ThreadControlBlock =
  ttable_pml4 :: usize
  save_state :: SaveState
  thread_state :: ThreadState

record cpu =
  regs :: SaveState
  cr3 :: usize
  cpu_irq :: bool

text \<open>The assembly compares \<open>cr3\<close> with the new table and skips an equal value: the register holds the
  new table either way.\<close>

definition switch_thread ::
  "ThreadControlBlock \<Rightarrow> ThreadControlBlock \<Rightarrow> cpu \<Rightarrow> ThreadControlBlock \<times> cpu" where
  "switch_thread from_tcb to_tcb c =
    (from_tcb\<lparr>save_state := regs c\<rparr>,
     c\<lparr>cr3 := (if ttable_pml4 to_tcb = cr3 c then cr3 c else ttable_pml4 to_tcb), regs := save_state to_tcb\<rparr>)"

section \<open>The scheduler\<close>

type_synonym Tid = usize

record Scheduler =
  tasks :: "Tid \<rightharpoonup> ThreadControlBlock"
  queue :: "Tid list"
  current_tid :: Tid

definition Scheduler_new :: Scheduler where
  "Scheduler_new = \<lparr>tasks = Map.empty, queue = [], current_tid = 0\<rparr>"

text \<open>\<open>TIDS.fetch_add(1)\<close>, which wraps.\<close>

definition Tid_new :: "usize \<Rightarrow> Tid \<times> usize" where
  "Tid_new tids = (tids, (tids + 1) mod USIZE_BOUND)"

text \<open>\<open>get_many_mut\<close> of two keys, which compares the pointers it found: two keys have the same pointer
  when they are equal, or when both are missing.\<close>

datatype DuplicateKey = DuplicateKey

definition get_many_mut ::
  "Tid \<Rightarrow> Tid \<Rightarrow> (Tid \<rightharpoonup> 'v) \<Rightarrow> (DuplicateKey, 'v option \<times> 'v option) result" where
  "get_many_mut k l m =
    (if k = l \<or> (m k = None \<and> m l = None) then Inl DuplicateKey else Inr (m k, m l))"

definition add_task :: "ThreadControlBlock \<Rightarrow> Scheduler \<Rightarrow> usize \<Rightarrow> Tid \<times> Scheduler \<times> usize" where
  "add_task tcb s tids =
    (let (tid, tids') = Tid_new tids in
     (tid, s\<lparr>tasks := (tasks s)(tid \<mapsto> tcb), queue := queue s @ [tid]\<rparr>, tids'))"

definition schedule :: "Scheduler \<Rightarrow> cpu \<Rightarrow> (Scheduler \<times> cpu) rust" where
  "schedule s c = (case queue s of
     new_tid # rest \<Rightarrow> do {
       let old_tid = current_tid s;
       (old, new) \<leftarrow> expect_ok (get_many_mut old_tid new_tid (tasks s));
       old_tcb \<leftarrow> old;
       new_tcb \<leftarrow> new;
       let new_tcb = new_tcb\<lparr>thread_state := RunningNow\<rparr>;
       let (old_tcb, c') = switch_thread (old_tcb\<lparr>thread_state := Ready\<rparr>) new_tcb c;
       Some (s\<lparr>tasks := (tasks s)(old_tid \<mapsto> old_tcb, new_tid \<mapsto> new_tcb),
         queue := rest @ [old_tid], current_tid := new_tid\<rparr>, c') }
   | [] \<Rightarrow> do {
       current_tcb \<leftarrow> tasks s (current_tid s);
       if thread_state current_tcb = RunningNow then Some (s, c) else None })"

section \<open>The guarded cell and yielding\<close>

text \<open>The cell holds the interrupt state of the borrow in progress, if there is one.\<close>

definition irq_lock :: "u64 \<Rightarrow> u64 option \<Rightarrow> bool \<Rightarrow> (u64 option \<times> bool) rust" where
  "irq_lock flags cell_state irq =
    (if cell_state \<noteq> None then None
     else let (old, irq') = get_and_disable_interrupts flags irq in Some (Some old, irq'))"

definition irq_unlock :: "u64 option \<Rightarrow> bool \<Rightarrow> (u64 option \<times> bool) rust" where
  "irq_unlock cell_state irq = do { old_state \<leftarrow> cell_state; Some (None, set_interrupts old_state irq) }"

record threads =
  scheduler :: Scheduler
  cell_irq :: "u64 option"
  next_tid :: usize

definition threading_init :: "ThreadControlBlock \<Rightarrow> u64 \<Rightarrow> threads \<Rightarrow> cpu \<Rightarrow> (Tid \<times> threads \<times> cpu) rust" where
  "threading_init tcb flags t c = do {
     (cs, irq) \<leftarrow> irq_lock flags (cell_irq t) (cpu_irq c);
     let s = scheduler t;
     rust_assert (tasks s 0 = None);
     (cs', irq') \<leftarrow> irq_unlock cs irq;
     Some (0, t\<lparr>scheduler := s\<lparr>tasks := (tasks s)(0 \<mapsto> tcb\<lparr>thread_state := RunningNow\<rparr>)\<rparr>, cell_irq := cs'\<rparr>,
       c\<lparr>cpu_irq := irq'\<rparr>) }"

text \<open>The guard is dropped by the thread that runs after the switch.\<close>

definition thread_yield :: "u64 \<Rightarrow> threads \<Rightarrow> cpu \<Rightarrow> (threads \<times> cpu) rust" where
  "thread_yield flags t c = do {
     (cs, irq) \<leftarrow> irq_lock flags (cell_irq t) (cpu_irq c);
     (s, c') \<leftarrow> schedule (scheduler t) (c\<lparr>cpu_irq := irq\<rparr>);
     (cs', irq') \<leftarrow> irq_unlock cs (cpu_irq c');
     Some (t\<lparr>scheduler := s, cell_irq := cs'\<rparr>, c'\<lparr>cpu_irq := irq'\<rparr>) }"

text \<open>A run of threads that yield in turn: each runs for a while, changing the processor by some
  function, and then calls the scheduler.\<close>

fun slices :: "(cpu \<Rightarrow> cpu) list \<Rightarrow> Scheduler \<Rightarrow> cpu \<Rightarrow> (Scheduler \<times> cpu) rust" where
  "slices [] s c = Some (s, c)"
| "slices (f # fs) s c = do { (s', c') \<leftarrow> schedule s (f c); slices fs s' c' }"

section \<open>The invariant\<close>

text \<open>The running thread and the queue together are exactly the threads, each once, and only the
  current one is marked as running.\<close>

definition sched_inv :: "Scheduler \<Rightarrow> bool" where
  "sched_inv s \<longleftrightarrow> distinct (current_tid s # queue s) \<and> dom (tasks s) = insert (current_tid s) (set (queue s)) \<and>
    (\<forall>tid tcb. tasks s tid = Some tcb \<longrightarrow> (thread_state tcb = RunningNow \<longleftrightarrow> tid = current_tid s))"

lemma schedule_switch:
  assumes "sched_inv s" and "queue s = new # rest"
  obtains old_tcb new_tcb where "tasks s (current_tid s) = Some old_tcb" and "tasks s new = Some new_tcb"
    and "schedule s c = Some
      (s\<lparr>tasks := (tasks s)(current_tid s \<mapsto> old_tcb\<lparr>thread_state := Ready, save_state := regs c\<rparr>,
           new \<mapsto> new_tcb\<lparr>thread_state := RunningNow\<rparr>),
         queue := rest @ [current_tid s], current_tid := new\<rparr>,
       c\<lparr>cr3 := ttable_pml4 new_tcb, regs := save_state new_tcb\<rparr>)"
proof -
  from assms have "current_tid s \<in> dom (tasks s)" "new \<in> dom (tasks s)" "current_tid s \<noteq> new"
    by (auto simp: sched_inv_def)
  then show ?thesis using assms(2) that
    by (auto simp: schedule_def get_many_mut_def switch_thread_def Let_def)
qed

lemma schedule_inv:
  assumes "sched_inv s" and "schedule s c = Some (s', c')"
  shows "sched_inv s'"
proof (cases "queue s")
  case Nil
  with assms show ?thesis by (auto simp: schedule_def split: Option.bind_splits if_splits)
next
  case (Cons new rest)
  obtain old_tcb new_tcb where tcbs: "tasks s (current_tid s) = Some old_tcb" "tasks s new = Some new_tcb"
    and sch: "schedule s c = Some
      (s\<lparr>tasks := (tasks s)(current_tid s \<mapsto> old_tcb\<lparr>thread_state := Ready, save_state := regs c\<rparr>,
           new \<mapsto> new_tcb\<lparr>thread_state := RunningNow\<rparr>),
         queue := rest @ [current_tid s], current_tid := new\<rparr>,
       c\<lparr>cr3 := ttable_pml4 new_tcb, regs := save_state new_tcb\<rparr>)"
    by (rule schedule_switch [OF assms(1) Cons])
  from assms(2) sch have s': "s' = s\<lparr>tasks := (tasks s)(current_tid s \<mapsto> old_tcb\<lparr>thread_state := Ready, save_state := regs c\<rparr>,
           new \<mapsto> new_tcb\<lparr>thread_state := RunningNow\<rparr>),
         queue := rest @ [current_tid s], current_tid := new\<rparr>"
    by simp
  from assms(1) Cons tcbs show ?thesis unfolding s' by (auto simp: sched_inv_def split: if_splits)
qed

lemma schedule_rotates:
  assumes "sched_inv s"
  shows "\<exists>s' c'. schedule s c = Some (s', c') \<and> sched_inv s' \<and>
    current_tid s' # queue s' = rotate1 (current_tid s # queue s)"
proof (cases "queue s")
  case Nil
  from assms have "current_tid s \<in> dom (tasks s)" by (simp add: sched_inv_def)
  then obtain tcb where tcb: "tasks s (current_tid s) = Some tcb" by (blast dest: domD)
  with assms have "thread_state tcb = RunningNow" by (simp add: sched_inv_def)
  with Nil assms tcb show ?thesis by (simp add: schedule_def)
next
  case (Cons new rest)
  have "\<exists>s' c'. schedule s c = Some (s', c') \<and> current_tid s' # queue s' = rotate1 (current_tid s # queue s)"
    by (rule schedule_switch [OF assms Cons, where c = c]) (use Cons in simp)
  with schedule_inv [OF assms] show ?thesis by blast
qed

lemma schedule_irq: "schedule s c = Some (s', c') \<Longrightarrow> cpu_irq c' = cpu_irq c"
  by (auto simp: schedule_def switch_thread_def Let_def split: list.splits Option.bind_splits if_splits prod.splits)

lemma slices_rotate:
  assumes "sched_inv s"
  shows "\<exists>s' c'. slices fs s c = Some (s', c') \<and> sched_inv s' \<and>
    current_tid s' # queue s' = rotate (length fs) (current_tid s # queue s)"
  using assms
proof (induction fs arbitrary: s c)
  case (Cons f fs)
  obtain s1 c1 where s1: "schedule s (f c) = Some (s1, c1)" "sched_inv s1"
    "current_tid s1 # queue s1 = rotate1 (current_tid s # queue s)"
    using schedule_rotates [OF Cons.prems] by blast
  obtain s' c' where "slices fs s1 c1 = Some (s', c')" "sched_inv s'"
    "current_tid s' # queue s' = rotate (length fs) (rotate1 (current_tid s # queue s))"
    using Cons.IH [OF s1(2), of c1] unfolding s1(3) by blast
  with s1(1) show ?case by (simp only: slices.simps length_Cons rotate_Suc rotate1_rotate_swap) simp
qed simp

text \<open>What a thread that is not running keeps: its registers and its page table.\<close>

definition context_of :: "Scheduler \<Rightarrow> Tid \<Rightarrow> (SaveState \<times> usize) option" where
  "context_of s tid = map_option (\<lambda>t. (save_state t, ttable_pml4 t)) (tasks s tid)"

lemma schedule_keeps_context:
  assumes "sched_inv s" and "schedule s c = Some (s', c')" and "tid \<noteq> current_tid s"
  shows "context_of s' tid = context_of s tid"
proof (cases "queue s")
  case Nil
  with assms(2) show ?thesis by (auto simp: schedule_def split: Option.bind_splits if_splits)
next
  case (Cons new rest)
  then show ?thesis
    by (rule schedule_switch [OF assms(1), where c = c]) (use assms(2,3) in \<open>auto simp: context_of_def\<close>)
qed

lemma schedule_saves_context:
  assumes "sched_inv s" and "schedule s c = Some (s', c')" and "queue s = new # rest"
  shows "context_of s' (current_tid s) = Some (regs c, snd (the (context_of s (current_tid s)))) \<and>
    Some (regs c', cr3 c') = context_of s new \<and> current_tid s' = new \<and> queue s' = rest @ [current_tid s]"
proof -
  have ne: "current_tid s \<noteq> new" using assms(1,3) by (auto simp: sched_inv_def)
  show ?thesis
    by (rule schedule_switch [OF assms(1,3), where c = c]) (use assms(2) ne in \<open>auto simp: context_of_def\<close>)
qed

lemma slices_keep_context:
  assumes "sched_inv s" and "slices fs s c = Some (s', c')" and "length fs \<le> Suc (length (queue s))"
    and "tid \<notin> set (take (length fs) (current_tid s # queue s))"
  shows "context_of s' tid = context_of s tid"
  using assms
proof (induction fs arbitrary: s c)
  case (Cons f fs)
  obtain s1 c1 where s1: "schedule s (f c) = Some (s1, c1)" "sched_inv s1"
    "current_tid s1 # queue s1 = rotate1 (current_tid s # queue s)"
    using schedule_rotates [OF Cons.prems(1)] by blast
  have "length (queue s1) = length (queue s)" using arg_cong [OF s1(3), of length] by simp
  with Cons.prems s1 have "context_of s' tid = context_of s1 tid" by (intro Cons.IH) auto
  also have "\<dots> = context_of s tid"
    using schedule_keeps_context [OF Cons.prems(1) s1(1)] Cons.prems(4) by simp
  finally show ?case .
qed simp

lemma slices_append:
  "slices (fs @ gs) s c = do { (s', c') \<leftarrow> slices fs s c; slices gs s' c' }"
  by (induction fs arbitrary: s c) (auto split: Option.bind_splits)

lemma sched_inv_add:
  assumes "sched_inv s" and "tasks s n = None" and "thread_state tcb = Ready"
    and "add_task tcb s n = (tid, s', n')"
  shows "sched_inv s'"
proof -
  from assms(1,2) have n: "n \<noteq> current_tid s" "n \<notin> set (queue s)" by (auto simp: sched_inv_def)
  from assms(4) have s': "s' = s\<lparr>tasks := (tasks s)(n \<mapsto> tcb), queue := queue s @ [n]\<rparr>"
    by (auto simp: add_task_def Tid_new_def)
  have "dom (tasks s') = insert (current_tid s') (set (queue s'))"
    using assms(1) by (simp add: sched_inv_def s' insert_commute)
  moreover have "thread_state t = RunningNow \<longleftrightarrow> tid = current_tid s'" if "tasks s' tid = Some t" for tid t
    using assms(1,3) n that by (auto simp: sched_inv_def s' split: if_splits)
  ultimately show ?thesis using assms(1) n by (simp add: sched_inv_def s')
qed

lemma sched_inv_init:
  assumes "threading_init tcb flags \<lparr>scheduler = Scheduler_new, cell_irq = None, next_tid = n\<rparr> c = Some (tid, t, c')"
  shows "sched_inv (scheduler t) \<and> cell_irq t = None"
  using assms
  by (auto simp: threading_init_def irq_lock_def irq_unlock_def Scheduler_new_def sched_inv_def
      get_and_disable_interrupts_def split: Option.bind_splits if_splits)

text \<open>The initial thread and two more, whose stack pointers are 100, 101 and 102.\<close>

definition tcb_at :: "usize \<Rightarrow> ThreadControlBlock" where
  "tcb_at v = \<lparr>ttable_pml4 = 0x1000 * v,
    save_state = \<lparr>rbx = 0, rsp = v, rbp = 0, r12 = 0, r13 = 0, r14 = 0, r15 = 0\<rparr>, thread_state = Ready\<rparr>"

definition cpu_at :: "usize \<Rightarrow> usize \<Rightarrow> cpu" where
  "cpu_at v table = \<lparr>regs = save_state (tcb_at v), cr3 = table, cpu_irq = True\<rparr>"

definition one_thread :: Scheduler where
  "one_thread = \<lparr>tasks = [0 \<mapsto> (tcb_at 100)\<lparr>thread_state := RunningNow\<rparr>], queue = [], current_tid = 0\<rparr>"

definition three_threads :: Scheduler where
  "three_threads = \<lparr>tasks = [0 \<mapsto> (tcb_at 100)\<lparr>thread_state := RunningNow\<rparr>, 1 \<mapsto> tcb_at 101, 2 \<mapsto> tcb_at 102],
    queue = [1, 2], current_tid = 0\<rparr>"

lemma three_threads_inv: "sched_inv three_threads"
proof -
  let ?two = "one_thread\<lparr>tasks := (tasks one_thread)(1 \<mapsto> tcb_at 101), queue := [1]\<rparr>"
  have "threading_init (tcb_at 100) 0 \<lparr>scheduler = Scheduler_new, cell_irq = None, next_tid = 1\<rparr> (cpu_at 100 0) =
      Some (0, \<lparr>scheduler = one_thread, cell_irq = None, next_tid = 1\<rparr>, cpu_at 100 0)"
    by (simp add: threading_init_def irq_lock_def irq_unlock_def Scheduler_new_def one_thread_def cpu_at_def
        get_and_disable_interrupts_def set_interrupts_def flags_register_def rust_assert_def)
  from sched_inv_init [OF this] have "sched_inv one_thread" by simp
  then have "sched_inv ?two"
    by (rule sched_inv_add [of _ 1 "tcb_at 101" 1 _ 2]) (simp_all add: one_thread_def tcb_at_def add_task_def Tid_new_def)
  then show ?thesis
    by (rule sched_inv_add [of _ 2 "tcb_at 102" 2 _ 3])
      (simp_all add: one_thread_def three_threads_def tcb_at_def add_task_def Tid_new_def)
qed

section \<open>Properties\<close>

text \<open>C5. Scheduling never panics and is round-robin: after any number of time slices, whatever the
  threads do to the processor in them, the running thread is the one that many places along the
  cycle of the current thread and the queue, so every thread runs once in each cycle.\<close>

theorem scheduler_round_robin:
  assumes "sched_inv s"
  shows "\<exists>s' c'. slices fs s c = Some (s', c') \<and> sched_inv s' \<and>
    current_tid s' = (current_tid s # queue s) ! (length fs mod Suc (length (queue s)))"
proof -
  obtain s' c' where s': "slices fs s c = Some (s', c')" "sched_inv s'"
    "current_tid s' # queue s' = rotate (length fs) (current_tid s # queue s)"
    using slices_rotate [OF assms] by blast
  have "current_tid s' = hd (rotate (length fs) (current_tid s # queue s))"
    by (simp only: s'(3) [symmetric] list.sel)
  also have "\<dots> = (current_tid s # queue s) ! (length fs mod Suc (length (queue s)))"
    by (subst hd_rotate_conv_nth) simp_all
  finally show ?thesis using s'(1,2) by blast
qed

theorem scheduler_round_robin_witness:
  "\<exists>s' c'. slices [id, id, id, id] three_threads (cpu_at 7 0) = Some (s', c') \<and> current_tid s' = 1"
  using scheduler_round_robin [OF three_threads_inv, of "[id, id, id, id]" "cpu_at 7 0"]
  by (auto simp: three_threads_def)

text \<open>C15. A thread that yields gets its registers and its page table back when its turn comes again,
  whatever the other threads did in between.\<close>

theorem scheduler_restores_context:
  assumes "sched_inv s" and "schedule s c = Some (s1, c1)" and "length fs = length (queue s)"
    and "tasks s (current_tid s) = Some tcb" and "cr3 c = ttable_pml4 tcb"
  shows "\<exists>s2 c2. slices fs s1 c1 = Some (s2, c2) \<and> current_tid s2 = current_tid s \<and>
    regs c2 = regs c \<and> cr3 c2 = cr3 c"
proof (cases "queue s")
  case Nil
  with assms show ?thesis by (auto simp: schedule_def split: if_splits)
next
  case (Cons new rest)
  note saved = schedule_saves_context [OF assms(1,2) Cons]
  have inv1: "sched_inv s1" using assms(1,2) by (rule schedule_inv)
  from assms(3) Cons obtain gs g where fs: "fs = gs @ [g]" "length gs = length rest"
    by (cases fs rule: rev_cases) auto
  obtain s' c' where s': "slices gs s1 c1 = Some (s', c')" "sched_inv s'"
    "current_tid s' # queue s' = rotate (length gs) (current_tid s1 # queue s1)"
    using slices_rotate [OF inv1] by blast
  from s'(3) saved fs(2) obtain q where q: "queue s' = current_tid s # q"
    by (cases rest rule: rev_cases) (auto simp: rotate_drop_take)
  have "current_tid s \<notin> set (take (length gs) (new # rest))"
    using assms(1) Cons by (auto simp: sched_inv_def dest!: in_set_takeD)
  with saved fs(2) have "context_of s' (current_tid s) = context_of s1 (current_tid s)"
    by (intro slices_keep_context [OF inv1 s'(1)]) (auto simp: take_Cons' dest: in_set_takeD)
  then have ctx: "context_of s' (current_tid s) = Some (regs c, cr3 c)"
    using saved assms(4,5) by (simp add: context_of_def)
  obtain s2 c2 where s2: "schedule s' (g c') = Some (s2, c2)"
    using schedule_rotates [OF s'(2)] by blast
  from schedule_saves_context [OF s'(2) s2 q] ctx have "regs c2 = regs c" "cr3 c2 = cr3 c"
    "current_tid s2 = current_tid s" by auto
  with s'(1) s2 fs show ?thesis by (simp add: slices_append)
qed

theorem scheduler_restores_context_witness:
  "\<exists>s1 c1 s2 c2. schedule three_threads (cpu_at 7 (0x1000 * 100)) =
      Some (s1, c1) \<and> rsp (regs c1) = 101 \<and>
    slices [id, id] s1 c1 = Some (s2, c2) \<and> current_tid s2 = 0 \<and> rsp (regs c2) = 7"
proof -
  let ?c = "(cpu_at 7 (0x1000 * 100))"
  obtain s1 c1 where 1: "schedule three_threads ?c = Some (s1, c1)" "rsp (regs c1) = 101"
    by (auto simp: schedule_def three_threads_def get_many_mut_def switch_thread_def tcb_at_def cpu_at_def)
  from scheduler_restores_context [OF three_threads_inv 1(1), of "[id, id]"]
  have "\<exists>s2 c2. slices [id, id] s1 c1 = Some (s2, c2) \<and> current_tid s2 = 0 \<and> regs c2 = save_state (tcb_at 7)"
    by (auto simp: three_threads_def tcb_at_def cpu_at_def)
  with 1 show ?thesis by (auto simp: tcb_at_def)
qed

text \<open>\<open>thread_yield\<close> neither panics nor leaves the cell borrowed. The thread that it resumes does
  not get back the interrupt flag it had itself: it takes over that of the thread that yielded.\<close>

theorem thread_yield_irq:
  assumes "sched_inv (scheduler t)" and "cell_irq t = None"
  shows "\<exists>t' c'. thread_yield flags t c = Some (t', c') \<and> cell_irq t' = None \<and> cpu_irq c' = cpu_irq c \<and>
    sched_inv (scheduler t')"
proof -
  let ?c = "c\<lparr>cpu_irq := False\<rparr>"
  obtain s' c' where s': "schedule (scheduler t) ?c = Some (s', c')" "sched_inv s'"
    using schedule_rotates [OF assms(1)] by blast
  have "cpu_irq c' = False"
    using schedule_irq [OF s'(1)] by simp
  with s' assms(2) flags_bit [of flags "cpu_irq c"] show ?thesis
    by (auto simp: thread_yield_def irq_lock_def irq_unlock_def get_and_disable_interrupts_def set_interrupts_def)
qed

theorem thread_yield_irq_witness:
  "\<exists>t' c'. thread_yield 0 \<lparr>scheduler = three_threads, cell_irq = None, next_tid = 3\<rparr>
      (cpu_at 7 0) = Some (t', c') \<and> cell_irq t' = None \<and> cpu_irq c'"
  using thread_yield_irq [of "\<lparr>scheduler = three_threads, cell_irq = None, next_tid = 3\<rparr>" 0
      "cpu_at 7 0"] three_threads_inv
  by (auto simp: cpu_at_def)

end
