(* ===== verification/Once_Lock.thy ===== *)
theory Once_Lock
  imports Prelude
begin

text \<open>
  One-time initialisation: \<open>Once\<close>, \<open>OnceLock\<close> and \<open>LazyLock\<close> of \<open>kernel_api/src/sync/once.rs\<close>
  and \<open>LateInit\<close> of \<open>kernel/src/sync/late_init.rs\<close>.

  The cell is the state byte and the data, where \<open>None\<close> is memory that was not initialised;
  \<open>assume_init_ref\<close> of it is undefined behaviour, the value \<open>Undefined\<close> of the model. Callers run
  \<open>get_or_init\<close> and \<open>get\<close> interleaved at the granularity of accesses to the state and the data. The
  initialiser of a call is the value it will return; it may also panic, and then the guard of
  \<open>call_once\<close> poisons the state. \<open>LazyLock::force\<close> is \<open>get_or_init\<close> with the stored function.
\<close>

section \<open>The state byte\<close>

datatype OnceState = Uncalled | Running | Called | Poison

fun once_into_u8 :: "OnceState \<Rightarrow> u8" where
  "once_into_u8 Uncalled = 0"
| "once_into_u8 Running = 1"
| "once_into_u8 Called = 2"
| "once_into_u8 Poison = 3"

definition once_from_u8 :: "u8 \<Rightarrow> (unit, OnceState) result" where
  "once_from_u8 v = (if v = 0 then Inr Uncalled else if v = 1 then Inr Running
     else if v = 2 then Inr Called else if v = 3 then Inr Poison else Inl ())"

record 'a OnceLock =
  once_data :: "'a option"
  once_state :: u8

definition OnceLock_new :: "'a OnceLock" where
  "OnceLock_new = \<lparr>once_data = None, once_state = once_into_u8 Uncalled\<rparr>"

text \<open>What one turn of the loop of \<open>call_once\<close> does, given whether the weak exchange fails although
  the state is \<open>Uncalled\<close>.\<close>

datatype turn = Break | Spin | Return | Panic

definition call_once_turn :: "bool \<Rightarrow> 'a OnceLock \<Rightarrow> turn \<times> 'a OnceLock" where
  "call_once_turn spurious l =
    (let s = once_state l in
     if s = once_into_u8 Uncalled \<and> \<not> spurious then (Break, l\<lparr>once_state := once_into_u8 Running\<rparr>)
     else if s = once_into_u8 Poison then (Panic, l)
     else if s = once_into_u8 Running then (Spin, l)
     else if s = once_into_u8 Called then (Return, l)
     else if s = once_into_u8 Uncalled then (Spin, l)
     else (Panic, l))"

text \<open>\<open>is_complete\<close> panics on a byte that is no state.\<close>

definition is_complete :: "'a OnceLock \<Rightarrow> bool rust" where
  "is_complete l = (case once_from_u8 (once_state l) of
     Inl e \<Rightarrow> None
   | Inr Called \<Rightarrow> Some True
   | Inr s \<Rightarrow> Some False)"

datatype 'a reading = Value 'a | Undefined

definition assume_init_ref :: "'a OnceLock \<Rightarrow> 'a reading" where
  "assume_init_ref l = (case once_data l of Some a \<Rightarrow> Value a | None \<Rightarrow> Undefined)"

section \<open>Interleaved callers\<close>

text \<open>A caller is outside, in the loop of \<open>call_once\<close>, running the initialiser, after the write of
  the data, before its read of the data, or finished: with the value read, with no value
  (\<open>get\<close> of an incomplete cell), or by a panic.\<close>

datatype 'a once_pc =
    Fresh | Looping 'a | Initialising 'a | Written | Reading
  | Got "'a reading" | NoValue | Unwound

record 'a once_system =
  cell :: "'a OnceLock"
  callers :: "'a once_pc list"
  starts :: nat

definition move :: "nat \<Rightarrow> 'a once_pc \<Rightarrow> 'a OnceLock \<Rightarrow> 'a once_system \<Rightarrow> 'a once_system" where
  "move i p l s = s\<lparr>cell := l, callers := (callers s)[i := p]\<rparr>"

fun after_turn :: "'a \<Rightarrow> turn \<Rightarrow> 'a once_pc" where
  "after_turn v Break = Initialising v"
| "after_turn v Spin = Looping v"
| "after_turn v Return = Reading"
| "after_turn v Panic = Unwound"

inductive once_step :: "'a once_system \<Rightarrow> 'a once_system \<Rightarrow> bool" where
  get_or_init: "once_step s (move i (Looping v) (cell s) s)"
    if "i < length (callers s)" "callers s ! i = Fresh"
| turn: "once_step s (move i (after_turn v t) l (s\<lparr>starts := starts s + (if t = Break then 1 else 0)\<rparr>))"
    if "i < length (callers s)" "callers s ! i = Looping v" "call_once_turn spurious (cell s) = (t, l)"
| write_data: "once_step s (move i Written ((cell s)\<lparr>once_data := Some v\<rparr>) s)"
    if "i < length (callers s)" "callers s ! i = Initialising v"
| unwind: "once_step s (move i Unwound ((cell s)\<lparr>once_state := once_into_u8 Poison\<rparr>) s)"
    if "i < length (callers s)" "callers s ! i = Initialising v"
| complete: "once_step s (move i Reading ((cell s)\<lparr>once_state := once_into_u8 Called\<rparr>) s)"
    if "i < length (callers s)" "callers s ! i = Written"
| get: "once_step s (move i (case is_complete (cell s) of
      None \<Rightarrow> Unwound | Some b \<Rightarrow> if b then Reading else NoValue) (cell s) s)"
    if "i < length (callers s)" "callers s ! i = Fresh"
| read: "once_step s (move i (Got (assume_init_ref (cell s))) (cell s) s)"
    if "i < length (callers s)" "callers s ! i = Reading"
| again: "once_step s (move i Fresh (cell s) s)"
    if "i < length (callers s)" "callers s ! i = Got r \<or> callers s ! i = NoValue"

definition once_init :: "nat \<Rightarrow> 'a once_system" where
  "once_init n = \<lparr>cell = OnceLock_new, callers = replicate n Fresh, starts = 0\<rparr>"

section \<open>Calls that run to the end\<close>

text \<open>The same methods called by one thread alone. \<open>None\<close> is a panic, or a wait that would not end.\<close>

definition get_call :: "'a OnceLock \<Rightarrow> 'a reading option rust" where
  "get_call l = do { b \<leftarrow> is_complete l; Some (if b then Some (assume_init_ref l) else None) }"

definition get_or_init_call :: "'a \<Rightarrow> 'a OnceLock \<Rightarrow> ('a reading \<times> 'a OnceLock) rust" where
  "get_or_init_call v l = (case call_once_turn False l of
     (Break, l') \<Rightarrow>
       let l'' = l'\<lparr>once_data := Some v, once_state := once_into_u8 Called\<rparr> in Some (assume_init_ref l'', l'')
   | (Return, l') \<Rightarrow> Some (assume_init_ref l', l')
   | _ \<Rightarrow> None)"

definition lazy_force :: "(unit \<Rightarrow> 'a) \<Rightarrow> 'a OnceLock \<Rightarrow> ('a reading \<times> 'a OnceLock) rust" where
  "lazy_force f l = get_or_init_call (f ()) l"

definition init_ref :: "'a \<Rightarrow> 'a OnceLock \<Rightarrow> ('a reading \<times> 'a OnceLock) rust" where
  "init_ref val l = do {
     (r, l') \<leftarrow> get_or_init_call val l;
     g \<leftarrow> get_call l';
     a \<leftarrow> g;
     Some (a, l') }"

definition late_deref :: "'a OnceLock \<Rightarrow> 'a reading rust" where
  "late_deref l = do { g \<leftarrow> get_call l; g }"

section \<open>The invariant\<close>

fun initialises :: "'a once_pc \<Rightarrow> bool" where
  "initialises (Initialising v) = True"
| "initialises Written = True"
| "initialises p = False"

definition caller_ok :: "'a OnceLock \<Rightarrow> 'a once_pc \<Rightarrow> bool" where
  "caller_ok l p \<longleftrightarrow> (case p of
     Initialising v \<Rightarrow> once_state l = once_into_u8 Running \<and> once_data l = None
   | Written \<Rightarrow> once_state l = once_into_u8 Running \<and> once_data l \<noteq> None
   | Reading \<Rightarrow> once_state l = once_into_u8 Called
   | Got r \<Rightarrow> once_state l = once_into_u8 Called \<and> r = assume_init_ref l
   | _ \<Rightarrow> True)"

definition cell_ok :: "OnceState \<Rightarrow> nat \<Rightarrow> 'a OnceLock \<Rightarrow> bool" where
  "cell_ok st k l \<longleftrightarrow> once_state l = once_into_u8 st \<and>
    (st = Uncalled \<longrightarrow> once_data l = None \<and> k = 0) \<and> (st \<noteq> Uncalled \<longrightarrow> k = 1) \<and>
    (st = Called \<longrightarrow> once_data l \<noteq> None)"

definition once_inv :: "'a once_system \<Rightarrow> bool" where
  "once_inv s \<longleftrightarrow>
    (\<forall>i < length (callers s). caller_ok (cell s) (callers s ! i)) \<and>
    (\<forall>i < length (callers s). \<forall>j < length (callers s).
      initialises (callers s ! i) \<longrightarrow> initialises (callers s ! j) \<longrightarrow> i = j) \<and>
    (\<exists>st. cell_ok st (starts s) (cell s) \<and>
      (st \<noteq> Running \<longrightarrow> (\<forall>i < length (callers s). \<not> initialises (callers s ! i))))"

lemma once_into_u8_inject [simp]: "once_into_u8 a = once_into_u8 b \<longleftrightarrow> a = b"
  by (cases a; cases b) simp_all

lemma once_from_into [simp]: "once_from_u8 (once_into_u8 a) = Inr a"
  by (cases a) (simp_all add: once_from_u8_def)

declare once_into_u8.simps [simp del]

lemma move_sel [simp]:
  "cell (move i p l s) = l" "callers (move i p l s) = (callers s)[i := p]" "starts (move i p l s) = starts s"
  by (simp_all add: move_def)

lemma call_once_turn_state:
  assumes "call_once_turn spurious l = (t, l')" and "once_state l = once_into_u8 st"
  shows "t = Break \<and> st = Uncalled \<and> l' = l\<lparr>once_state := once_into_u8 Running\<rparr> \<or>
    t = Spin \<and> st \<in> {Uncalled, Running} \<and> l' = l \<or> t = Return \<and> st = Called \<and> l' = l \<or>
    t = Panic \<and> st = Poison \<and> l' = l"
  using assms by (cases st) (auto simp: call_once_turn_def Let_def split: if_splits)

text \<open>A step that leaves the cell alone.\<close>

lemma once_inv_keep:
  assumes "once_inv s" and "i < length (callers s)" and "caller_ok (cell s) p"
    and "initialises p \<Longrightarrow> initialises (callers s ! i)"
  shows "once_inv (move i p (cell s) s)"
proof -
  have sub: "initialises ((callers s)[i := p] ! j) \<Longrightarrow> initialises (callers s ! j)" for j
    using assms(2,4) by (cases "i = j") auto
  have ok: "caller_ok (cell s) ((callers s)[i := p] ! j)" if "j < length (callers s)" for j
    using assms(1,2,3) that by (cases "i = j") (auto simp: once_inv_def)
  have unique: "j = k" if "j < length (callers s)" "k < length (callers s)"
    "initialises ((callers s)[i := p] ! j)" "initialises ((callers s)[i := p] ! k)" for j k
    using assms(1) that(1,2) sub [OF that(3)] sub [OF that(4)] by (auto simp: once_inv_def)
  from assms(1) obtain st where st: "cell_ok st (starts s) (cell s)"
    and no: "st \<noteq> Running \<longrightarrow> (\<forall>i < length (callers s). \<not> initialises (callers s ! i))"
    by (auto simp: once_inv_def)
  from no sub have "st \<noteq> Running \<longrightarrow> (\<forall>j < length (callers s). \<not> initialises ((callers s)[i := p] ! j))"
    by blast
  with ok unique st show ?thesis unfolding once_inv_def by (intro conjI exI [of _ st]) auto
qed

text \<open>A step of the one caller that initialises, or that begins to: no other caller depends on the
  cell being unchanged.\<close>

lemma once_inv_change:
  assumes "once_inv s" and "i < length (callers s)" and "caller_ok l p"
    and "once_state (cell s) = once_into_u8 Uncalled \<and> starts s' = starts s + 1 \<or>
      initialises (callers s ! i) \<and> starts s' = starts s"
    and "callers s' = callers s" and "once_state l = once_into_u8 st" and "st \<noteq> Uncalled"
    and "st = Called \<Longrightarrow> once_data l \<noteq> None" and "initialises p \<longleftrightarrow> st = Running"
  shows "once_inv (move i p l s')"
proof -
  from assms(1) obtain st0 where st0: "cell_ok st0 (starts s) (cell s)"
    "st0 \<noteq> Running \<longrightarrow> (\<forall>i < length (callers s). \<not> initialises (callers s ! i))"
    by (auto simp: once_inv_def)
  have alone: "\<not> initialises (callers s ! j)" if "j < length (callers s)" "j \<noteq> i" for j
  proof (cases "initialises (callers s ! i)")
    case True
    with assms(1,2) that show ?thesis unfolding once_inv_def by blast
  next
    case False
    with assms(4) st0 that show ?thesis by (auto simp: cell_ok_def)
  qed
  have running: "once_state (cell s) \<noteq> once_into_u8 Called"
    using assms(2,4) st0 by (auto simp: cell_ok_def)
  have other: "caller_ok l (callers s ! j)" if "j < length (callers s)" "j \<noteq> i" for j
    using assms(1) alone [OF that] running that
    unfolding once_inv_def by (cases "callers s ! j") (auto simp: caller_ok_def)
  have "caller_ok l ((callers s)[i := p] ! j)" if "j < length (callers s)" for j
    using assms(2,3) other that by (cases "i = j") auto
  moreover have "cell_ok st (starts s') l" using assms(2,4,6-8) st0 by (auto simp: cell_ok_def)
  moreover have "initialises ((callers s)[i := p] ! j) \<longleftrightarrow> j = i \<and> st = Running"
    if "j < length (callers s)" for j
    using alone assms(2,9) that by (cases "i = j") auto
  ultimately show ?thesis using assms(5)
    unfolding once_inv_def by (intro conjI exI [of _ st]) auto
qed

lemma once_step_inv:
  assumes "once_step s s'" and "once_inv s"
  shows "once_inv s'"
  using assms
proof (induction rule: once_step.induct)
  case (turn i s v spurious t l)
  from turn.prems obtain st where st: "once_state (cell s) = once_into_u8 st" by (auto simp: once_inv_def cell_ok_def)
  from call_once_turn_state [OF turn.hyps(3) this] show ?case
  proof (elim disjE conjE)
    assume "t = Break" "st = Uncalled" "l = (cell s)\<lparr>once_state := once_into_u8 Running\<rparr>"
    moreover from this turn.prems st have "once_data (cell s) = None" by (auto simp: once_inv_def cell_ok_def)
    ultimately show ?thesis using turn st
      by (intro once_inv_change [where s = s and st = Running]) (auto simp: caller_ok_def)
  qed (use turn st in \<open>auto intro!: once_inv_keep simp: caller_ok_def\<close>)
next
  case (write_data i s v)
  from write_data have "caller_ok (cell s) (Initialising v)" by (auto simp: once_inv_def)
  with write_data show ?case
    by (intro once_inv_change [where s = s and st = Running]) (auto simp: caller_ok_def)
next
  case (unwind i s v)
  then show ?case
    by (intro once_inv_change [where s = s and st = Poison]) (auto simp: caller_ok_def)
next
  case (complete i s)
  from complete have "caller_ok (cell s) Written" by (auto simp: once_inv_def)
  with complete show ?case
    by (intro once_inv_change [where s = s and st = Called]) (auto simp: caller_ok_def)
next
  case (get i s)
  then obtain st where "once_state (cell s) = once_into_u8 st" by (auto simp: once_inv_def cell_ok_def)
  with get show ?case
    by (intro once_inv_keep) (auto simp: caller_ok_def is_complete_def split: OnceState.splits)
next
  case (read i s)
  from read have "caller_ok (cell s) Reading" by (auto simp: once_inv_def)
  with read show ?case by (intro once_inv_keep) (auto simp: caller_ok_def)
qed (auto intro!: once_inv_keep simp: caller_ok_def)

lemma once_reach_inv: "once_step\<^sup>*\<^sup>* (once_init n) s \<Longrightarrow> once_inv s"
proof (induction rule: rtranclp_induct)
  case base
  show ?case
    by (auto simp: once_inv_def once_init_def OnceLock_new_def caller_ok_def cell_ok_def intro!: exI [of _ Uncalled])
qed (rule once_step_inv)

lemma once_steps_length: "once_step\<^sup>*\<^sup>* s s' \<Longrightarrow> length (callers s') = length (callers s)"
proof (induction rule: rtranclp_induct)
  case (step t u)
  then show ?case by (auto elim!: once_step.cases)
qed simp

text \<open>A run: caller 0 initialises the cell with 7 while caller 1 waits with 8; both then read.\<close>

definition two_callers :: "nat option \<Rightarrow> OnceState \<Rightarrow> nat once_pc \<Rightarrow> nat once_pc \<Rightarrow> nat \<Rightarrow> nat once_system" where
  "two_callers d st p q k =
    \<lparr>cell = \<lparr>once_data = d, once_state = once_into_u8 st\<rparr>, callers = [p, q], starts = k\<rparr>"

lemma once_step_to: "once_step s t \<Longrightarrow> t = u \<Longrightarrow> once_step\<^sup>*\<^sup>* s u"
  by blast

lemma both_reachable:
  "once_step\<^sup>*\<^sup>* (once_init 2) (two_callers (Some 7) Called (Got (Value 7)) (Got (Value 7)) 1)"
proof -
  note defs = two_callers_def move_def call_once_turn_def assume_init_ref_def
  have "once_init 2 = two_callers None Uncalled Fresh Fresh 0"
    by (simp add: two_callers_def once_init_def OnceLock_new_def numeral_2_eq_2)
  also have "once_step\<^sup>*\<^sup>* \<dots> (two_callers None Uncalled (Looping 7) Fresh 0)"
    by (rule once_step_to, rule once_step.get_or_init [where i = 0 and v = 7]) (simp_all add: defs)
  also have "once_step\<^sup>*\<^sup>* \<dots> (two_callers None Uncalled (Looping 7) (Looping 8) 0)"
    by (rule once_step_to, rule once_step.get_or_init [where i = 1 and v = 8]) (simp_all add: defs)
  also have "once_step\<^sup>*\<^sup>* \<dots> (two_callers None Running (Initialising 7) (Looping 8) 1)"
    by (rule once_step_to, rule once_step.turn [where i = 0 and v = 7 and spurious = False and t = Break])
      (simp_all add: defs)
  also have "once_step\<^sup>*\<^sup>* \<dots> (two_callers (Some 7) Running Written (Looping 8) 1)"
    by (rule once_step_to, rule once_step.write_data [where i = 0 and v = 7]) (simp_all add: defs)
  also have "once_step\<^sup>*\<^sup>* \<dots> (two_callers (Some 7) Called Reading (Looping 8) 1)"
    by (rule once_step_to, rule once_step.complete [where i = 0]) (simp_all add: defs)
  also have "once_step\<^sup>*\<^sup>* \<dots> (two_callers (Some 7) Called Reading Reading 1)"
    by (rule once_step_to, rule once_step.turn [where i = 1 and v = 8 and spurious = False and t = Return])
      (simp_all add: defs)
  also have "once_step\<^sup>*\<^sup>* \<dots> (two_callers (Some 7) Called (Got (Value 7)) Reading 1)"
    by (rule once_step_to, rule once_step.read [where i = 0]) (simp_all add: defs)
  also have "once_step\<^sup>*\<^sup>* \<dots> (two_callers (Some 7) Called (Got (Value 7)) (Got (Value 7)) 1)"
    by (rule once_step_to, rule once_step.read [where i = 1]) (simp_all add: defs)
  finally show ?thesis .
qed

section \<open>Properties\<close>

text \<open>C16. However callers of \<open>get\<close> and \<open>get_or_init\<close> interleave, and whether or not an initialiser
  panics, at most one initialiser is ever started, no caller reads uninitialised data, and all
  callers that return a value return the same one.\<close>

theorem once_lock_single_value:
  assumes "once_step\<^sup>*\<^sup>* (once_init n) s" and "i < n" and "callers s ! i = Got r"
  shows "starts s \<le> 1 \<and> (\<exists>v. r = Value v \<and> once_data (cell s) = Some v)"
proof -
  from once_reach_inv [OF assms(1)] have inv: "once_inv s" .
  from once_steps_length [OF assms(1)] assms(2) have "i < length (callers s)" by (simp add: once_init_def)
  with inv assms(3) have ok: "caller_ok (cell s) (Got r)" unfolding once_inv_def by metis
  from inv obtain st where "cell_ok st (starts s) (cell s)" by (auto simp: once_inv_def)
  with ok show ?thesis by (cases st) (auto simp: caller_ok_def cell_ok_def assume_init_ref_def)
qed

theorem once_lock_single_value_witness:
  "\<exists>s. once_step\<^sup>*\<^sup>* (once_init 2) s \<and> callers s = [Got (Value (7::nat)), Got (Value 7)] \<and>
    starts s \<le> 1 \<and> once_data (cell s) = Some 7"
  using once_lock_single_value [OF both_reachable, of 0 "Value 7"] both_reachable
  by (intro exI [of _ "two_callers (Some 7) Called (Got (Value 7)) (Got (Value 7)) 1"])
    (simp add: two_callers_def)

text \<open>A \<open>LateInit\<close> panics when it is used before it is initialised; the first initialisation
  decides its value, and a later one is ignored without an error.\<close>

lemma late_init_first_wins:
  "late_deref (OnceLock_new :: 'a OnceLock) = None \<and>
    (\<exists>l. init_ref v (OnceLock_new :: 'a OnceLock) = Some (Value v, l) \<and> late_deref l = Some (Value v) \<and>
      init_ref w l = Some (Value v, l))"
  by (simp add: init_ref_def late_deref_def get_call_def get_or_init_call_def call_once_turn_def
      is_complete_def assume_init_ref_def OnceLock_new_def Let_def)

end
