(* ===== verification/Bootstrap_Lock.thy ===== *)
theory Bootstrap_Lock
  imports Once_Lock
begin

text \<open>
  \<open>BootstrapOnceLock\<close> of \<open>kernel_api/src/sync/once.rs\<close>: a cell that holds a provisional value while
  its final value is computed. Callers of \<open>bootstrap\<close> and \<open>get\<close> interleave as in \<open>Once_Lock\<close>; a
  call of \<open>bootstrap\<close> carries its provisional value and the value its function will return. The
  function may also panic: nothing then stores to the state.
\<close>

section \<open>The cell\<close>

datatype BootState = BUncalled | BSaving | BRunning | BInit | BPoison

fun boot_into_u8 :: "BootState \<Rightarrow> u8" where
  "boot_into_u8 BUncalled = 0"
| "boot_into_u8 BSaving = 1"
| "boot_into_u8 BRunning = 2"
| "boot_into_u8 BInit = 3"
| "boot_into_u8 BPoison = 4"

definition boot_from_u8 :: "u8 \<Rightarrow> (unit, BootState) result" where
  "boot_from_u8 v = (if v = 0 then Inr BUncalled else if v = 1 then Inr BSaving
     else if v = 2 then Inr BRunning else if v = 3 then Inr BInit else if v = 4 then Inr BPoison else Inl ())"

record 'a BootstrapOnceLock =
  boot_data :: "'a option"
  boot_state :: u8

definition BootstrapOnceLock_new :: "'a BootstrapOnceLock" where
  "BootstrapOnceLock_new = \<lparr>boot_data = None, boot_state = boot_into_u8 BUncalled\<rparr>"

definition boot_assume_init :: "'a BootstrapOnceLock \<Rightarrow> 'a reading" where
  "boot_assume_init l = (case boot_data l of Some a \<Rightarrow> Value a | None \<Rightarrow> Undefined)"

text \<open>One turn of the loop of \<open>bootstrap\<close>.\<close>

definition bootstrap_turn :: "bool \<Rightarrow> 'a BootstrapOnceLock \<Rightarrow> turn \<times> 'a BootstrapOnceLock" where
  "bootstrap_turn spurious l =
    (let s = boot_state l in
     if s = boot_into_u8 BUncalled \<and> \<not> spurious then (Break, l\<lparr>boot_state := boot_into_u8 BSaving\<rparr>)
     else if s = boot_into_u8 BPoison then (Panic, l)
     else if s = boot_into_u8 BRunning \<or> s = boot_into_u8 BSaving then (Spin, l)
     else if s = boot_into_u8 BInit then (Return, l)
     else if s = boot_into_u8 BUncalled then (Spin, l)
     else (Panic, l))"

text \<open>The checks of \<open>get\<close> before it reads the data.\<close>

definition boot_get_check :: "'a BootstrapOnceLock \<Rightarrow> bool rust" where
  "boot_get_check l = (case boot_from_u8 (boot_state l) of
     Inl e \<Rightarrow> None
   | Inr st \<Rightarrow> if st = BPoison then None
       else if st = BUncalled \<or> st = BSaving then Some False else Some True)"

section \<open>Interleaved callers\<close>

text \<open>Between the turns of the loop and the return, \<open>bootstrap\<close> writes the provisional value, stores
  \<open>Running\<close>, calls the function, stores \<open>Saving\<close>, writes the final value and stores \<open>Init\<close>: each
  constructor names what the caller does next.\<close>

datatype 'a boot_pc =
    AtStart | InLoop 'a 'a | WriteFirst 'a 'a | StoreRunning 'a | CallFunction 'a | StoreSaving 'a
  | WriteFinal 'a | StoreInit | ReadData | Finished "'a reading" | NoData | Died

record 'a boot_system =
  boot_cell :: "'a BootstrapOnceLock"
  boot_callers :: "'a boot_pc list"

definition boot_move :: "nat \<Rightarrow> 'a boot_pc \<Rightarrow> 'a BootstrapOnceLock \<Rightarrow> 'a boot_system \<Rightarrow> 'a boot_system" where
  "boot_move i p l s = s\<lparr>boot_cell := l, boot_callers := (boot_callers s)[i := p]\<rparr>"

fun boot_after_turn :: "'a \<Rightarrow> 'a \<Rightarrow> turn \<Rightarrow> 'a boot_pc" where
  "boot_after_turn b f Break = WriteFirst b f"
| "boot_after_turn b f Spin = InLoop b f"
| "boot_after_turn b f Return = ReadData"
| "boot_after_turn b f Panic = Died"

inductive boot_step :: "'a boot_system \<Rightarrow> 'a boot_system \<Rightarrow> bool" where
  bootstrap: "boot_step s (boot_move i (InLoop b f) (boot_cell s) s)"
    if "i < length (boot_callers s)" "boot_callers s ! i = AtStart"
| boot_turn: "boot_step s (boot_move i (boot_after_turn b f t) l s)"
    if "i < length (boot_callers s)" "boot_callers s ! i = InLoop b f" "bootstrap_turn spurious (boot_cell s) = (t, l)"
| write_first: "boot_step s (boot_move i (StoreRunning f) ((boot_cell s)\<lparr>boot_data := Some b\<rparr>) s)"
    if "i < length (boot_callers s)" "boot_callers s ! i = WriteFirst b f"
| store_running: "boot_step s (boot_move i (CallFunction f) ((boot_cell s)\<lparr>boot_state := boot_into_u8 BRunning\<rparr>) s)"
    if "i < length (boot_callers s)" "boot_callers s ! i = StoreRunning f"
| function_returns: "boot_step s (boot_move i (StoreSaving f) (boot_cell s) s)"
    if "i < length (boot_callers s)" "boot_callers s ! i = CallFunction f"
| function_panics: "boot_step s (boot_move i Died (boot_cell s) s)"
    if "i < length (boot_callers s)" "boot_callers s ! i = CallFunction f"
| store_saving: "boot_step s (boot_move i (WriteFinal f) ((boot_cell s)\<lparr>boot_state := boot_into_u8 BSaving\<rparr>) s)"
    if "i < length (boot_callers s)" "boot_callers s ! i = StoreSaving f"
| write_final: "boot_step s (boot_move i StoreInit ((boot_cell s)\<lparr>boot_data := Some f\<rparr>) s)"
    if "i < length (boot_callers s)" "boot_callers s ! i = WriteFinal f"
| store_init: "boot_step s (boot_move i ReadData ((boot_cell s)\<lparr>boot_state := boot_into_u8 BInit\<rparr>) s)"
    if "i < length (boot_callers s)" "boot_callers s ! i = StoreInit"
| boot_get: "boot_step s (boot_move i (case boot_get_check (boot_cell s) of
      None \<Rightarrow> Died | Some ok \<Rightarrow> if ok then ReadData else NoData) (boot_cell s) s)"
    if "i < length (boot_callers s)" "boot_callers s ! i = AtStart"
| read_data: "boot_step s (boot_move i (Finished (boot_assume_init (boot_cell s))) (boot_cell s) s)"
    if "i < length (boot_callers s)" "boot_callers s ! i = ReadData"
| start_again: "boot_step s (boot_move i AtStart (boot_cell s) s)"
    if "i < length (boot_callers s)" "boot_callers s ! i = Finished r \<or> boot_callers s ! i = NoData"

definition boot_init :: "nat \<Rightarrow> 'a boot_system" where
  "boot_init n = \<lparr>boot_cell = BootstrapOnceLock_new, boot_callers = replicate n AtStart\<rparr>"

section \<open>The invariant\<close>

fun fills :: "'a boot_pc \<Rightarrow> bool" where
  "fills (WriteFirst b f) = True"
| "fills (StoreRunning f) = True"
| "fills (CallFunction f) = True"
| "fills (StoreSaving f) = True"
| "fills (WriteFinal f) = True"
| "fills StoreInit = True"
| "fills p = False"

fun needs_data :: "'a boot_pc \<Rightarrow> bool" where
  "needs_data (WriteFirst b f) = False"
| "needs_data ReadData = True"
| "needs_data (Finished r) = (r \<noteq> Undefined)"
| "needs_data p = fills p"

text \<open>\<open>Finished Undefined\<close> is excluded separately, so that \<open>needs_data\<close> stays true of a caller as the
  data changes.\<close>

definition boot_inv :: "'a boot_system \<Rightarrow> bool" where
  "boot_inv s \<longleftrightarrow>
    (\<forall>p \<in> set (boot_callers s). p \<noteq> Finished Undefined \<and> (needs_data p \<longrightarrow> boot_data (boot_cell s) \<noteq> None)) \<and>
    (\<forall>i < length (boot_callers s). \<forall>j < length (boot_callers s).
      fills (boot_callers s ! i) \<longrightarrow> fills (boot_callers s ! j) \<longrightarrow> i = j) \<and>
    (\<exists>st. boot_state (boot_cell s) = boot_into_u8 st \<and> st \<noteq> BPoison \<and>
      (st = BRunning \<or> st = BInit \<longrightarrow> boot_data (boot_cell s) \<noteq> None) \<and>
      (st = BUncalled \<or> st = BInit \<longrightarrow> (\<forall>i < length (boot_callers s). \<not> fills (boot_callers s ! i))))"

lemma boot_into_u8_inject [simp]: "boot_into_u8 a = boot_into_u8 b \<longleftrightarrow> a = b"
  by (cases a; cases b) simp_all

lemma boot_from_into [simp]: "boot_from_u8 (boot_into_u8 a) = Inr a"
  by (cases a) (simp_all add: boot_from_u8_def)

declare boot_into_u8.simps [simp del]

lemma boot_move_sel [simp]:
  "boot_cell (boot_move i p l s) = l" "boot_callers (boot_move i p l s) = (boot_callers s)[i := p]"
  by (simp_all add: boot_move_def)

lemma bootstrap_turn_state:
  assumes "bootstrap_turn spurious l = (t, l')" and "boot_state l = boot_into_u8 st" and "st \<noteq> BPoison"
  shows "t = Break \<and> st = BUncalled \<and> l' = l\<lparr>boot_state := boot_into_u8 BSaving\<rparr> \<or>
    t = Spin \<and> st \<noteq> BInit \<and> l' = l \<or> t = Return \<and> st = BInit \<and> l' = l"
  using assms by (cases st) (auto simp: bootstrap_turn_def Let_def split: if_splits)

lemma boot_inv_state:
  assumes "boot_inv s"
  obtains st where "boot_state (boot_cell s) = boot_into_u8 st" and "st \<noteq> BPoison"
    and "st = BRunning \<or> st = BInit \<Longrightarrow> boot_data (boot_cell s) \<noteq> None"
    and "\<And>i. st = BUncalled \<or> st = BInit \<Longrightarrow> i < length (boot_callers s) \<Longrightarrow> \<not> fills (boot_callers s ! i)"
  using assms by (auto simp: boot_inv_def)

text \<open>A step of caller \<open>i\<close>: it may begin to fill the cell only when the state was \<open>Uncalled\<close>, may write
  only while it fills, and data is never lost.\<close>

lemma boot_inv_move:
  assumes "boot_inv s" and i: "i < length (boot_callers s)"
    and "p \<noteq> Finished Undefined" and "needs_data p \<longrightarrow> boot_data l \<noteq> None"
    and mono: "boot_data (boot_cell s) \<noteq> None \<longrightarrow> boot_data l \<noteq> None"
    and st: "boot_state l = boot_into_u8 st" "st \<noteq> BPoison" "st = BRunning \<or> st = BInit \<longrightarrow> boot_data l \<noteq> None"
    and own: "fills p \<longrightarrow> st \<noteq> BUncalled \<and> st \<noteq> BInit \<and>
      (fills (boot_callers s ! i) \<or> boot_state (boot_cell s) = boot_into_u8 BUncalled)"
    and same: "fills (boot_callers s ! i) \<or> fills p \<or> boot_state l = boot_state (boot_cell s)"
  shows "boot_inv (boot_move i p l s)"
proof -
  obtain st0 where st0: "boot_state (boot_cell s) = boot_into_u8 st0"
    "\<And>i. st0 = BUncalled \<or> st0 = BInit \<Longrightarrow> i < length (boot_callers s) \<Longrightarrow> \<not> fills (boot_callers s ! i)"
    using assms(1) by (rule boot_inv_state) blast
  have alone: "\<not> fills (boot_callers s ! j)"
    if "j < length (boot_callers s)" "j \<noteq> i" "fills p \<or> fills (boot_callers s ! i)" for j
  proof (cases "fills (boot_callers s ! i)")
    case True
    with assms(1) i that show ?thesis unfolding boot_inv_def by blast
  next
    case False
    with own st0(1) that(3) have "st0 = BUncalled" by simp
    with st0(2) that(1) show ?thesis by blast
  qed
  have quiet: "\<not> fills ((boot_callers s)[i := p] ! j)"
    if "j < length (boot_callers s)" "st = BUncalled \<or> st = BInit" for j
  proof (cases "j = i")
    case False
    have "fills p \<or> fills (boot_callers s ! i) \<or> st = st0" using same st(1) st0(1) by auto
    with alone [OF that(1) False] st0(2) [OF _ that(1)] that(2) False show ?thesis by auto
  qed (use own that i in auto)
  have unique: "j = k" if "j < length (boot_callers s)" "k < length (boot_callers s)"
    "fills ((boot_callers s)[i := p] ! j)" "fills ((boot_callers s)[i := p] ! k)" for j k
  proof (cases "j = i \<or> k = i")
    case True
    with that i alone show ?thesis by (metis nth_list_update_eq nth_list_update_neq)
  next
    case False
    with that assms(1) show ?thesis by (auto simp: boot_inv_def)
  qed
  have "q \<noteq> Finished Undefined \<and> (needs_data q \<longrightarrow> boot_data l \<noteq> None)"
    if "q \<in> set ((boot_callers s)[i := p])" for q
    using that assms(1,3,4) mono set_update_subset_insert [of "boot_callers s" i p]
    unfolding boot_inv_def by blast
  with unique quiet st show ?thesis
    unfolding boot_inv_def by (intro conjI exI [of _ st]) auto
qed

lemma boot_inv_caller:
  "boot_inv s \<Longrightarrow> i < length (boot_callers s) \<Longrightarrow> needs_data (boot_callers s ! i) \<Longrightarrow>
    boot_data (boot_cell s) \<noteq> None"
  by (auto simp: boot_inv_def)

lemma boot_step_inv:
  assumes "boot_step s s'" and "boot_inv s"
  shows "boot_inv s'"
proof -
  obtain st where st: "boot_state (boot_cell s) = boot_into_u8 st" "st \<noteq> BPoison"
    "st = BRunning \<or> st = BInit \<longrightarrow> boot_data (boot_cell s) \<noteq> None"
    "\<And>i. st = BUncalled \<or> st = BInit \<Longrightarrow> i < length (boot_callers s) \<Longrightarrow> \<not> fills (boot_callers s ! i)"
    using assms(2) by (rule boot_inv_state) blast
  note data = boot_inv_caller [OF assms(2)]
  note quiet = st(4)
  from assms(1) show ?thesis
  proof (cases rule: boot_step.cases)
    case (boot_turn i b f spurious t l)
    from bootstrap_turn_state [OF boot_turn(4) st(1,2)] show ?thesis
    proof (elim disjE conjE)
      assume "t = Break" "st = BUncalled" "l = (boot_cell s)\<lparr>boot_state := boot_into_u8 BSaving\<rparr>"
      with boot_turn assms(2) st show ?thesis by (auto intro!: boot_inv_move [where st = BSaving])
    qed (use boot_turn assms(2) st in \<open>auto intro!: boot_inv_move [where st = st]\<close>)
  next
    case (write_first i b f)
    with assms(2) st quiet [of i] show ?thesis by (auto intro!: boot_inv_move [where st = st])
  next
    case (store_running i f)
    with assms(2) st data [of i] show ?thesis by (auto intro!: boot_inv_move [where st = BRunning])
  next
    case (function_returns i f)
    with assms(2) st data [of i] quiet [of i] show ?thesis by (auto intro!: boot_inv_move [where st = st])
  next
    case (store_saving i f)
    with assms(2) st data [of i] show ?thesis by (auto intro!: boot_inv_move [where st = BSaving])
  next
    case (write_final i f)
    with assms(2) st quiet [of i] show ?thesis by (auto intro!: boot_inv_move [where st = st])
  next
    case (store_init i)
    with assms(2) st data [of i] show ?thesis by (auto intro!: boot_inv_move [where st = BInit])
  next
    case (boot_get i)
    with assms(2) st show ?thesis
      by (cases st) (auto intro!: boot_inv_move [where st = st] simp: boot_get_check_def)
  next
    case (read_data i)
    with assms(2) st data [of i] show ?thesis
      by (auto intro!: boot_inv_move [where st = st] simp: boot_assume_init_def)
  qed (use assms(2) st in \<open>auto intro!: boot_inv_move [where st = st]\<close>)
qed

lemma boot_reach_inv: "boot_step\<^sup>*\<^sup>* (boot_init n) s \<Longrightarrow> boot_inv s"
proof (induction rule: rtranclp_induct)
  case base
  show ?case
    by (auto simp: boot_inv_def boot_init_def BootstrapOnceLock_new_def intro!: exI [of _ BUncalled])
qed (rule boot_step_inv)

text \<open>Once the state is \<open>Init\<close>, the cell no longer changes.\<close>

lemma boot_init_stable:
  assumes "boot_step s s'" and "boot_inv s" and "boot_state (boot_cell s) = boot_into_u8 BInit"
  shows "boot_cell s' = boot_cell s"
proof -
  have "\<not> fills (boot_callers s ! i)" if "i < length (boot_callers s)" for i
    using assms(2) by (rule boot_inv_state) (use assms(3) that in auto)
  then have quiet: "boot_callers s ! i = p \<Longrightarrow> i < length (boot_callers s) \<Longrightarrow> \<not> fills p" for i p
    by blast
  from assms(1) show ?thesis
  proof (cases rule: boot_step.cases)
    case (boot_turn i b f spurious t l)
    with bootstrap_turn_state [OF boot_turn(4) assms(3)] show ?thesis by auto
  qed (auto dest: quiet)
qed

text \<open>A run: caller 0 bootstraps with 1 and then 2; caller 1 has passed the check of \<open>get\<close> when caller
  0 is about to overwrite the data.\<close>

definition two_booting :: "nat option \<Rightarrow> BootState \<Rightarrow> nat boot_pc \<Rightarrow> nat boot_pc \<Rightarrow> nat boot_system" where
  "two_booting d st p q =
    \<lparr>boot_cell = \<lparr>boot_data = d, boot_state = boot_into_u8 st\<rparr>, boot_callers = [p, q]\<rparr>"

lemma boot_step_to: "boot_step s t \<Longrightarrow> t = u \<Longrightarrow> boot_step\<^sup>*\<^sup>* s u"
  by blast

lemma racing_reachable:
  "boot_step\<^sup>*\<^sup>* (boot_init 2) (two_booting (Some 1) BSaving (WriteFinal 2) ReadData)"
proof -
  note defs = two_booting_def boot_move_def bootstrap_turn_def boot_get_check_def
  have "boot_init 2 = two_booting None BUncalled AtStart AtStart"
    by (simp add: two_booting_def boot_init_def BootstrapOnceLock_new_def numeral_2_eq_2)
  also have "boot_step\<^sup>*\<^sup>* \<dots> (two_booting None BUncalled (InLoop 1 2) AtStart)"
    by (rule boot_step_to, rule boot_step.bootstrap [where i = 0 and b = 1 and f = 2]) (simp_all add: defs)
  also have "boot_step\<^sup>*\<^sup>* \<dots> (two_booting None BSaving (WriteFirst 1 2) AtStart)"
    by (rule boot_step_to, rule boot_step.boot_turn [where i = 0 and b = 1 and f = 2 and spurious = False
          and t = Break]) (simp_all add: defs)
  also have "boot_step\<^sup>*\<^sup>* \<dots> (two_booting (Some 1) BSaving (StoreRunning 2) AtStart)"
    by (rule boot_step_to, rule boot_step.write_first [where i = 0 and b = 1 and f = 2]) (simp_all add: defs)
  also have "boot_step\<^sup>*\<^sup>* \<dots> (two_booting (Some 1) BRunning (CallFunction 2) AtStart)"
    by (rule boot_step_to, rule boot_step.store_running [where i = 0 and f = 2]) (simp_all add: defs)
  also have "boot_step\<^sup>*\<^sup>* \<dots> (two_booting (Some 1) BRunning (CallFunction 2) ReadData)"
    by (rule boot_step_to, rule boot_step.boot_get [where i = 1]) (simp_all add: defs)
  also have "boot_step\<^sup>*\<^sup>* \<dots> (two_booting (Some 1) BRunning (StoreSaving 2) ReadData)"
    by (rule boot_step_to, rule boot_step.function_returns [where i = 0 and f = 2]) (simp_all add: defs)
  also have "boot_step\<^sup>*\<^sup>* \<dots> (two_booting (Some 1) BSaving (WriteFinal 2) ReadData)"
    by (rule boot_step_to, rule boot_step.store_saving [where i = 0 and f = 2]) (simp_all add: defs)
  finally show ?thesis .
qed

section \<open>Properties\<close>

text \<open>C17. No caller of \<open>bootstrap\<close> or \<open>get\<close> ever reads uninitialised data, the state is never
  \<open>Poison\<close>, not even after the function panicked, and once the state is \<open>Init\<close> neither the state nor
  the data changes.\<close>

theorem bootstrap_lock_safe:
  assumes "boot_step\<^sup>*\<^sup>* (boot_init n) s" and "boot_step s s'"
  shows "Finished Undefined \<notin> set (boot_callers s') \<and> boot_state (boot_cell s') \<noteq> boot_into_u8 BPoison \<and>
    (boot_state (boot_cell s) = boot_into_u8 BInit \<longrightarrow> boot_cell s' = boot_cell s)"
proof -
  from boot_reach_inv [OF assms(1)] have inv: "boot_inv s" .
  with assms(2) have inv': "boot_inv s'" by (rule boot_step_inv)
  then have "boot_state (boot_cell s') \<noteq> boot_into_u8 BPoison" by (auto elim: boot_inv_state)
  with inv' boot_init_stable [OF assms(2) inv] show ?thesis by (auto simp: boot_inv_def)
qed

theorem bootstrap_lock_safe_witness:
  "\<exists>s s'. boot_step\<^sup>*\<^sup>* (boot_init 2) s \<and> boot_step s s' \<and>
    boot_callers s' = [WriteFinal (2::nat), Finished (Value 1)] \<and>
    Finished Undefined \<notin> set (boot_callers s') \<and> boot_state (boot_cell s') \<noteq> boot_into_u8 BPoison"
proof -
  let ?s = "two_booting (Some 1) BSaving (WriteFinal 2) ReadData"
  let ?s' = "boot_move 1 (Finished (boot_assume_init (boot_cell ?s))) (boot_cell ?s) ?s"
  have step: "boot_step ?s ?s'" by (rule boot_step.read_data) (simp_all add: two_booting_def)
  have "boot_callers ?s' = [WriteFinal 2, Finished (Value 1)]"
    by (simp add: two_booting_def boot_assume_init_def)
  with bootstrap_lock_safe [OF racing_reachable step] racing_reachable step show ?thesis by blast
qed

text \<open>The check of \<open>get\<close> does not protect the read that follows it: a caller may have passed the
  check while the provisional value was valid, and read while \<open>bootstrap\<close> is replacing that value
  under the state \<open>Saving\<close>.\<close>

theorem bootstrap_lock_race:
  "\<exists>s. boot_step\<^sup>*\<^sup>* (boot_init 2) s \<and> boot_state (boot_cell s) = boot_into_u8 BSaving \<and>
    boot_callers s = [WriteFinal (2::nat), ReadData] \<and>
    boot_step s (boot_move 0 StoreInit ((boot_cell s)\<lparr>boot_data := Some 2\<rparr>) s) \<and>
    boot_step s (boot_move 1 (Finished (Value 1)) (boot_cell s) s)"
proof -
  let ?s = "two_booting (Some 1) BSaving (WriteFinal 2) ReadData"
  have "boot_step ?s (boot_move 0 StoreInit ((boot_cell ?s)\<lparr>boot_data := Some 2\<rparr>) ?s)"
    by (rule boot_step.write_final) (simp_all add: two_booting_def)
  moreover have "boot_step ?s (boot_move 1 (Finished (boot_assume_init (boot_cell ?s))) (boot_cell ?s) ?s)"
    by (rule boot_step.read_data) (simp_all add: two_booting_def)
  then have "boot_step ?s (boot_move 1 (Finished (Value 1)) (boot_cell ?s) ?s)"
    by (simp add: boot_assume_init_def two_booting_def)
  moreover have "boot_state (boot_cell ?s) = boot_into_u8 BSaving" "boot_callers ?s = [WriteFinal 2, ReadData]"
    by (simp_all add: two_booting_def)
  ultimately show ?thesis using racing_reachable by blast
qed

end
