(* ===== verification/Bytes.thy ===== *)
theory Bytes
  imports Prelude
begin

text \<open>
  Buffers of bytes, as the file formats of the repository are read: fields of packed structures in
  little-endian order, and sub-slices with the bounds check of the language. A pointer cast to a
  structure is the record of its fields at their offsets.
\<close>

section \<open>Little-endian integers\<close>

primrec le :: "u8 list \<Rightarrow> nat" where
  "le [] = 0"
| "le (b # bs) = unat b + 256 * le bs"

primrec to_le :: "nat \<Rightarrow> nat \<Rightarrow> u8 list" where
  "to_le 0 k = []"
| "to_le (Suc n) k = word_of_nat k # to_le n (k div 256)"

definition field :: "nat \<Rightarrow> nat \<Rightarrow> u8 list \<Rightarrow> nat" where
  "field off n bs = le (take n (drop off bs))"

definition byte_field :: "nat \<Rightarrow> u8 list \<Rightarrow> u8" where
  "byte_field off bs = bs ! off"

text \<open>\<open>&bs[a..b]\<close>\<close>

definition slice :: "usize \<Rightarrow> usize \<Rightarrow> u8 list \<Rightarrow> u8 list rust" where
  "slice a b bs = (if a \<le> b \<and> b \<le> length bs then Some (take (b - a) (drop a bs)) else None)"

text \<open>\<open>bs[i]\<close>\<close>

definition byte_at :: "usize \<Rightarrow> u8 list \<Rightarrow> u8 rust" where
  "byte_at i bs = (if i < length bs then Some (bs ! i) else None)"

text \<open>Two's complement: the value of \<open>n\<close> bytes read as a signed integer.\<close>

definition le_signed :: "nat \<Rightarrow> nat \<Rightarrow> int" where
  "le_signed n k = (if k < 2 ^ (8 * n - 1) then int k else int k - 2 ^ (8 * n))"

section \<open>Lemmas\<close>

lemma length_to_le [simp]: "length (to_le n k) = n"
  by (induction n arbitrary: k) simp_all

lemma unat_byte: "unat (word_of_nat k :: u8) = k mod 256"
  by (simp add: unat_of_nat)

lemma byte_bound: "unat (b :: u8) < 256"
proof -
  have "unat b < 2 ^ LENGTH(8)" by (rule unsigned_less)
  then show ?thesis by simp
qed

lemma le_to_le [simp]: "le (to_le n k) = k mod 256 ^ n"
proof (induction n arbitrary: k)
  case (Suc n)
  have "k mod 256 + 256 * (k div 256 mod 256 ^ n) = k mod (256 * 256 ^ n)"
    by (simp add: mod_mult2_eq)
  with Suc show ?case by (simp add: unat_byte)
qed simp

lemma le_bound: "le bs < 256 ^ length bs"
proof (induction bs)
  case (Cons b bs)
  have "unat b < 256" by (rule byte_bound)
  with Cons show ?case by (simp add: algebra_simps)
qed simp

lemma to_le_le: "to_le (length bs) (le bs) = bs"
proof (induction bs)
  case (Cons b bs)
  have b: "unat b < 256" by (rule byte_bound)
  have "(unat b + 256 * le bs) div 256 = le bs" using b by simp
  moreover have "word_of_nat (unat b + 256 * le bs) = b"
  proof (rule word_unat_eq_iff [THEN iffD2])
    show "unat (word_of_nat (unat b + 256 * le bs) :: u8) = unat b" using b by (simp add: unat_byte del: of_nat_add of_nat_mult)
  qed
  ultimately show ?case using Cons by (simp del: of_nat_add of_nat_mult)
qed simp

lemma field_bound: "field off n bs < 256 ^ n"
proof -
  have "le (take n (drop off bs)) < 256 ^ length (take n (drop off bs))" by (rule le_bound)
  also have "\<dots> \<le> 256 ^ n" by (rule power_increasing) simp_all
  finally show ?thesis by (simp add: field_def)
qed

lemma field_append: "field (length xs + off) n (xs @ ys) = field off n ys"
  by (simp add: field_def)

lemma field_here: "length xs = off \<Longrightarrow> length ys = n \<Longrightarrow> field off n (xs @ ys @ zs) = le ys"
  by (simp add: field_def)

lemma slice_all_but: "length xs = a \<Longrightarrow> slice a (length (xs @ ys)) (xs @ ys) = Some ys"
  by (simp add: slice_def)

lemma byte_at_eq_Some [simp]: "byte_at i bs = Some b \<longleftrightarrow> i < length bs \<and> bs ! i = b"
  by (simp add: byte_at_def)

lemma slice_nth: "slice a b bs = Some cs \<Longrightarrow> i < b - a \<Longrightarrow> cs ! i = bs ! (a + i)"
  by (auto simp: slice_def split: if_splits)

lemma slice_length: "slice a b bs = Some cs \<Longrightarrow> length cs = b - a"
  by (auto simp: slice_def split: if_splits)

text \<open>A buffer made of chunks of one size.\<close>

lemma drop_chunks:
  "\<forall>x \<in> set xs. length x = n \<Longrightarrow> i < length xs \<Longrightarrow> drop (i * n) (concat xs) = xs ! i @ concat (drop (Suc i) xs)"
proof (induction xs arbitrary: i)
  case (Cons x xs)
  then show ?case by (cases i) simp_all
qed simp

lemma length_chunks: "\<forall>x \<in> set xs. length x = n \<Longrightarrow> length (concat xs) = length xs * n"
  by (induction xs) simp_all

end
