(* ===== verification/Targa.thy ===== *)
theory Targa
  imports Bytes
begin

text \<open>
  Targa images, \<open>targa/src/lib.rs\<close>, \<open>header.rs\<close>, \<open>pixel.rs\<close> and \<open>errors.rs\<close>: the packed header, parsing a
  buffer, reading a pixel and the iterator over all pixels. A read outside the pixel data, which the
  source does without a check, and an image type that is no constructor of the enumeration are \<open>None\<close>.
\<close>

unbundle bit_operations_syntax

section \<open>Types\<close>

datatype PixelOrderVertical = TopToBottom | BottomToTop

datatype PixelOrderHorizontal = LeftToRight | RightToLeft

datatype PixelFormat = Rgb555 | Rgba5551 | Rgb888 | Rgba8888

datatype ParsingError = NoHeader | NotEnoughData | Unsupported

datatype TargaType = NoData | UncompressedColorMapped | UncompressedTrueColor | UncompressedGreyscale |
  RleColorMapped | RleTrueColor | RleGreyscale

record Pixel =
  px_r :: u8
  px_g :: u8
  px_b :: u8
  px_a :: u8

record ColorMapSpec =
  first_entry_index :: nat
  cms_length :: nat
  entry_size :: u8

record TargaHeader =
  image_id_length :: u8
  color_map :: u8
  image_type :: u8
  color_map_spec :: ColorMapSpec
  x_origin :: nat
  y_origin :: nat
  hdr_width :: nat
  hdr_height :: nat
  color_depth :: u8
  image_descriptor :: u8

record Image =
  pixel_data :: "u8 list"
  img_width :: usize
  img_height :: usize
  img_format :: PixelFormat
  img_ordering :: "PixelOrderVertical \<times> PixelOrderHorizontal"

record PixelIterator =
  position :: "usize \<times> usize"
  it_image :: Image

section \<open>The header\<close>

abbreviation HEADER_SIZE :: nat where
  "HEADER_SIZE \<equiv> 18"

definition targa_header :: "u8 list \<Rightarrow> TargaHeader" where
  "targa_header bs = \<lparr>image_id_length = byte_field 0 bs, color_map = byte_field 1 bs, image_type = byte_field 2 bs,
     color_map_spec = \<lparr>first_entry_index = field 3 2 bs, cms_length = field 5 2 bs, entry_size = byte_field 7 bs\<rparr>,
     x_origin = field 8 2 bs, y_origin = field 10 2 bs, hdr_width = field 12 2 bs, hdr_height = field 14 2 bs,
     color_depth = byte_field 16 bs, image_descriptor = byte_field 17 bs\<rparr>"

definition hdr_color_format :: "TargaHeader \<Rightarrow> (ParsingError, PixelFormat) result" where
  "hdr_color_format self =
     (if color_depth self = 32 then Inr Rgba8888
      else if color_depth self = 24 then Inr Rgb888
      else Inl Unsupported)"

definition pixel_ordering :: "TargaHeader \<Rightarrow> PixelOrderVertical \<times> PixelOrderHorizontal" where
  "pixel_ordering self =
     (if image_descriptor self AND push_bit 5 1 = 0 then BottomToTop else TopToBottom,
      if image_descriptor self AND push_bit 4 1 = 0 then LeftToRight else RightToLeft)"

definition has_color_map :: "TargaHeader \<Rightarrow> bool" where
  "has_color_map self \<longleftrightarrow> color_map self \<noteq> 0"

definition image_format :: "TargaHeader \<Rightarrow> TargaType rust" where
  "image_format self =
     map_of [(0, NoData), (1, UncompressedColorMapped), (2, UncompressedTrueColor), (3, UncompressedGreyscale),
       (9, RleColorMapped), (10, RleTrueColor), (11, RleGreyscale)] (image_type self)"

section \<open>Images\<close>

fun bytes_per_pixel :: "PixelFormat \<Rightarrow> usize" where
  "bytes_per_pixel Rgb555 = 2"
| "bytes_per_pixel Rgba5551 = 2"
| "bytes_per_pixel Rgb888 = 3"
| "bytes_per_pixel Rgba8888 = 4"

definition targa_try_new :: "u8 list \<Rightarrow> (ParsingError, Image) result rust" where
  "targa_try_new data_raw =
     (if length data_raw < HEADER_SIZE then Some (Inl NoHeader)
      else let data = targa_header data_raw in
        if has_color_map data then Some (Inl Unsupported)
        else do {
          ty \<leftarrow> image_format data;
          if ty \<noteq> UncompressedTrueColor then Some (Inl Unsupported)
          else case hdr_color_format data of
            Inl e \<Rightarrow> Some (Inl e)
          | Inr format \<Rightarrow> do {
              row \<leftarrow> umul (bytes_per_pixel format) (hdr_width data);
              expected_data_size \<leftarrow> umul row (hdr_height data);
              total \<leftarrow> uadd expected_data_size HEADER_SIZE;
              if total > length data_raw then Some (Inl NotEnoughData)
              else do {
                px \<leftarrow> slice HEADER_SIZE (length data_raw) data_raw;
                Some (Inr \<lparr>pixel_data = px, img_width = hdr_width data, img_height = hdr_height data,
                  img_format = format, img_ordering = pixel_ordering data\<rparr>) } } })"

definition get_pixel :: "Image \<Rightarrow> usize \<Rightarrow> usize \<Rightarrow> Pixel option rust" where
  "get_pixel self x y =
     (if x \<ge> img_width self \<or> y \<ge> img_height self then Some None
      else do {
        y \<leftarrow> (case fst (img_ordering self) of
          TopToBottom \<Rightarrow> Some y | BottomToTop \<Rightarrow> do { d \<leftarrow> usub (img_height self) y; usub d 1 });
        x \<leftarrow> (case snd (img_ordering self) of
          LeftToRight \<Rightarrow> Some x | RightToLeft \<Rightarrow> do { d \<leftarrow> usub (img_width self) x; usub d 1 });
        row \<leftarrow> umul y (img_width self);
        pixel_offset \<leftarrow> uadd row x;
        byte_offset \<leftarrow> umul pixel_offset (bytes_per_pixel (img_format self));
        end \<leftarrow> uadd byte_offset (bytes_per_pixel (img_format self));
        raw_data \<leftarrow> slice byte_offset end (pixel_data self);
        case img_format self of
          Rgb555 \<Rightarrow> None
        | Rgba5551 \<Rightarrow> None
        | Rgb888 \<Rightarrow> do {
            r \<leftarrow> byte_at 2 raw_data; g \<leftarrow> byte_at 1 raw_data; b \<leftarrow> byte_at 0 raw_data;
            Some (Some \<lparr>px_r = r, px_g = g, px_b = b, px_a = 255\<rparr>) }
        | Rgba8888 \<Rightarrow> do {
            r \<leftarrow> byte_at 2 raw_data; g \<leftarrow> byte_at 1 raw_data; b \<leftarrow> byte_at 0 raw_data; a \<leftarrow> byte_at 3 raw_data;
            Some (Some \<lparr>px_r = r, px_g = g, px_b = b, px_a = a\<rparr>) } })"

definition pixels_into_iter :: "Image \<Rightarrow> PixelIterator" where
  "pixels_into_iter self = \<lparr>position = (0, 0), it_image = self\<rparr>"

definition pixel_next :: "PixelIterator \<Rightarrow> (((usize \<times> usize) \<times> Pixel) option \<times> PixelIterator) rust" where
  "pixel_next self =
     (if snd (position self) \<ge> img_height (it_image self) then Some (None, self)
      else do {
        p \<leftarrow> get_pixel (it_image self) (fst (position self)) (snd (position self));
        case p of
          None \<Rightarrow> Some (None, self)
        | Some px \<Rightarrow> do {
            x \<leftarrow> uadd (fst (position self)) 1;
            if x \<ge> img_width (it_image self) then do {
              y \<leftarrow> uadd (snd (position self)) 1;
              Some (Some (position self, px), self\<lparr>position := (0, y)\<rparr>) }
            else Some (Some (position self, px), self\<lparr>position := (x, snd (position self))\<rparr>) } })"

text \<open>A \<open>for\<close> loop over the iterator, which collects what it yields.\<close>

partial_function (option) pixel_collect :: "PixelIterator \<Rightarrow> ((usize \<times> usize) \<times> Pixel) list option" where
  [code]: "pixel_collect self = do {
     (r, self') \<leftarrow> pixel_next self;
     case r of
       None \<Rightarrow> Some []
     | Some p \<Rightarrow> do { ps \<leftarrow> pixel_collect self'; Some (p # ps) } }"

section \<open>Images from a buffer\<close>

text \<open>What parsing guarantees: a supported format, and a pixel area that is large enough.\<close>

definition image_ok :: "Image \<Rightarrow> bool" where
  "image_ok img \<longleftrightarrow> img_format img \<in> {Rgb888, Rgba8888} \<and> img_width img < 2 ^ 16 \<and> img_height img < 2 ^ 16 \<and>
     bytes_per_pixel (img_format img) * (img_width img * img_height img) \<le> length (pixel_data img)"

lemma targa_try_new_ok:
  assumes "targa_try_new bs = Some (Inr img)"
  shows "image_ok img"
proof -
  have "field 12 2 bs < 2 ^ 16" "field 14 2 bs < 2 ^ 16" using field_bound [of 12 2 bs] field_bound [of 14 2 bs] by simp_all
  with assms show ?thesis
    by (auto simp: targa_try_new_def Let_def hdr_color_format_def image_ok_def targa_header_def slice_def mult.assoc
        split: if_splits bind_splits sum.splits)
qed

text \<open>Where the bytes of a pixel are.\<close>

definition stored_row :: "Image \<Rightarrow> nat \<Rightarrow> nat" where
  "stored_row img y = (case fst (img_ordering img) of TopToBottom \<Rightarrow> y | BottomToTop \<Rightarrow> img_height img - y - 1)"

definition stored_column :: "Image \<Rightarrow> nat \<Rightarrow> nat" where
  "stored_column img x = (case snd (img_ordering img) of LeftToRight \<Rightarrow> x | RightToLeft \<Rightarrow> img_width img - x - 1)"

definition stored_at :: "Image \<Rightarrow> nat \<Rightarrow> nat \<Rightarrow> nat" where
  "stored_at img x y = (stored_row img y * img_width img + stored_column img x) * bytes_per_pixel (img_format img)"

definition pixel_of_bytes :: "PixelFormat \<Rightarrow> u8 list \<Rightarrow> Pixel" where
  "pixel_of_bytes fmt bs = \<lparr>px_r = bs ! 2, px_g = bs ! 1, px_b = bs ! 0, px_a = (if fmt = Rgba8888 then bs ! 3 else 255)\<rparr>"

lemma pixel_index_bound:
  fixes w h :: nat
  assumes "x < w" and "y < h"
  shows "y * w + x < w * h"
proof -
  have "y * w + x < (y + 1) * w" using assms(1) by simp
  also have "\<dots> \<le> h * w" using assms(2) by (intro mult_right_mono) simp_all
  finally show ?thesis by (simp add: mult.commute)
qed

lemma stored_at_bound:
  assumes "image_ok img" and "x < img_width img" and "y < img_height img"
  shows "stored_at img x y + bytes_per_pixel (img_format img) \<le> length (pixel_data img)"
    and "stored_row img y * img_width img + stored_column img x < 2 ^ 32"
proof -
  let ?i = "stored_row img y * img_width img + stored_column img x" and ?b = "bytes_per_pixel (img_format img)"
  have "stored_row img y < img_height img" "stored_column img x < img_width img"
    using assms(2,3) by (auto simp: stored_row_def stored_column_def split: PixelOrderVertical.split PixelOrderHorizontal.split)
  then have i: "?i < img_width img * img_height img" by (intro pixel_index_bound)
  then have "(?i + 1) * ?b \<le> (img_width img * img_height img) * ?b" by (intro mult_right_mono) simp_all
  also have "\<dots> \<le> length (pixel_data img)" using assms(1) by (simp add: image_ok_def mult.commute)
  finally show "stored_at img x y + ?b \<le> length (pixel_data img)" by (simp add: stored_at_def algebra_simps)
  have "img_width img * img_height img \<le> 2 ^ 16 * 2 ^ 16"
    using assms(1) by (intro mult_mono) (simp_all add: image_ok_def)
  with i show "?i < 2 ^ 32" by simp
qed

lemma get_pixel_ok:
  assumes ok: "image_ok img" and x: "x < img_width img" and y: "y < img_height img"
  shows "get_pixel img x y = Some (Some (pixel_of_bytes (img_format img) (drop (stored_at img x y) (pixel_data img))))"
proof -
  note b = stored_at_bound [OF ok x y]
  have row: "(case fst (img_ordering img) of TopToBottom \<Rightarrow> Some y | BottomToTop \<Rightarrow> do { d \<leftarrow> usub (img_height img) y; usub d 1 }) =
      Some (stored_row img y)"
    using y by (auto simp: stored_row_def usub_def split: PixelOrderVertical.split)
  have col: "(case snd (img_ordering img) of LeftToRight \<Rightarrow> Some x | RightToLeft \<Rightarrow> do { d \<leftarrow> usub (img_width img) x; usub d 1 }) =
      Some (stored_column img x)"
    using x by (auto simp: stored_column_def usub_def split: PixelOrderHorizontal.split)
  show ?thesis
    using ok x y b row col
    by (auto simp: get_pixel_def image_ok_def umul_def uadd_def slice_def stored_at_def byte_at_def pixel_of_bytes_def)
qed

section \<open>The iterator\<close>

definition pixel_item :: "Image \<Rightarrow> nat \<Rightarrow> (usize \<times> usize) \<times> Pixel" where
  "pixel_item img i = ((i mod img_width img, i div img_width img),
     pixel_of_bytes (img_format img) (drop (stored_at img (i mod img_width img) (i div img_width img)) (pixel_data img)))"

lemma pixel_next_ok:
  assumes ok: "image_ok img" and i: "i < img_width img * img_height img"
  shows "pixel_next \<lparr>position = (i mod img_width img, i div img_width img), it_image = img\<rparr> =
    Some (Some (pixel_item img i), \<lparr>position = (Suc i mod img_width img, Suc i div img_width img), it_image = img\<rparr>)"
proof -
  have w: "0 < img_width img" using i by (cases "img_width img") simp_all
  have x: "i mod img_width img < img_width img" using w by simp
  have y: "i div img_width img < img_height img" using i by (simp add: less_mult_imp_div_less mult.commute)
  have "img_width img < 2 ^ 16" "img_height img < 2 ^ 16" using ok by (simp_all add: image_ok_def)
  then have "i mod img_width img + 1 < USIZE_BOUND" "i div img_width img + 1 < USIZE_BOUND" using x y by simp_all
  then show ?thesis using x y get_pixel_ok [OF ok x y]
    by (auto simp: pixel_next_def uadd_def pixel_item_def mod_Suc div_Suc)
qed

lemma pixel_collect_from:
  assumes ok: "image_ok img" and w: "0 < img_width img" and i: "i \<le> img_width img * img_height img"
  shows "pixel_collect \<lparr>position = (i mod img_width img, i div img_width img), it_image = img\<rparr> =
    Some (map (pixel_item img) [i..<img_width img * img_height img])"
  using i
proof (induction rule: inc_induct)
  case base
  show ?case by (subst pixel_collect.simps) (use w in \<open>simp add: pixel_next_def\<close>)
next
  case (step i)
  then show ?case by (subst pixel_collect.simps) (simp add: pixel_next_ok [OF ok] upt_conv_Cons)
qed

lemma pixel_collect_image:
  assumes "image_ok img"
  shows "pixel_collect (pixels_into_iter img) = Some (map (pixel_item img) [0..<img_width img * img_height img])"
proof (cases "img_width img = 0")
  case True
  then show ?thesis by (subst pixel_collect.simps) (auto simp: pixels_into_iter_def pixel_next_def get_pixel_def)
next
  case False
  then show ?thesis using pixel_collect_from [OF assms, of 0] by (simp add: pixels_into_iter_def)
qed

section \<open>A writer\<close>

text \<open>The bytes of a file that shows \<open>px\<close>, with rows and columns stored in either direction.\<close>

definition pixel_bytes :: "PixelFormat \<Rightarrow> Pixel \<Rightarrow> u8 list" where
  "pixel_bytes fmt p = [px_b p, px_g p, px_r p] @ (if fmt = Rgba8888 then [px_a p] else [])"

definition shown_column :: "PixelOrderHorizontal \<Rightarrow> nat \<Rightarrow> nat \<Rightarrow> nat" where
  "shown_column ord w c = (if ord = LeftToRight then c else w - c - 1)"

definition shown_row :: "PixelOrderVertical \<Rightarrow> nat \<Rightarrow> nat \<Rightarrow> nat" where
  "shown_row ord h r = (if ord = TopToBottom then r else h - r - 1)"

definition targa_pixels ::
  "PixelOrderVertical \<times> PixelOrderHorizontal \<Rightarrow> PixelFormat \<Rightarrow> nat \<Rightarrow> nat \<Rightarrow> (nat \<Rightarrow> nat \<Rightarrow> Pixel) \<Rightarrow> u8 list" where
  "targa_pixels ord fmt w h px = concat (map (\<lambda>i. pixel_bytes fmt
     (px (shown_column (snd ord) w (i mod w)) (shown_row (fst ord) h (i div w)))) [0..<w * h])"

definition targa_file ::
  "u8 list \<Rightarrow> PixelOrderVertical \<times> PixelOrderHorizontal \<Rightarrow> PixelFormat \<Rightarrow> nat \<Rightarrow> nat \<Rightarrow> (nat \<Rightarrow> nat \<Rightarrow> Pixel) \<Rightarrow> u8 list" where
  "targa_file ident ord fmt w h px =
     [word_of_nat (length ident), 0, 2, 0, 0, 0, 0, 0, 0, 0, 0, 0] @ to_le 2 w @ to_le 2 h @
     [if fmt = Rgba8888 then 32 else 24,
      (if fst ord = TopToBottom then push_bit 5 1 else 0) OR (if snd ord = RightToLeft then push_bit 4 1 else 0)] @
     ident @ targa_pixels ord fmt w h px"

lemma length_pixel_bytes: "fmt \<in> {Rgb888, Rgba8888} \<Longrightarrow> length (pixel_bytes fmt p) = bytes_per_pixel fmt"
  by (auto simp: pixel_bytes_def)

lemma length_targa_pixels:
  "fmt \<in> {Rgb888, Rgba8888} \<Longrightarrow> length (targa_pixels ord fmt w h px) = w * h * bytes_per_pixel fmt"
  unfolding targa_pixels_def by (subst length_chunks [of _ "bytes_per_pixel fmt"]) (auto simp: length_pixel_bytes)

lemma drop_targa_pixels:
  assumes fmt: "fmt \<in> {Rgb888, Rgba8888}" and "x < w" and "y < h"
  shows "\<exists>rest. drop ((y * w + x) * bytes_per_pixel fmt) (targa_pixels ord fmt w h px) =
    pixel_bytes fmt (px (shown_column (snd ord) w x) (shown_row (fst ord) h y)) @ rest"
proof -
  have "y * w + x < w * h" using assms(2,3) by (rule pixel_index_bound)
  with assms show ?thesis
    unfolding targa_pixels_def by (subst drop_chunks) (auto simp: length_pixel_bytes)
qed

lemma targa_file_parsed:
  assumes fmt: "fmt \<in> {Rgb888, Rgba8888}" and w: "w < 2 ^ 16" and h: "h < 2 ^ 16"
  shows "targa_try_new (targa_file ident ord fmt w h px @ rest) = Some (Inr \<lparr>pixel_data = ident @ targa_pixels ord fmt w h px @ rest,
    img_width = w, img_height = h, img_format = fmt, img_ordering = ord\<rparr>)"
proof -
  define f where "f = targa_file ident ord fmt w h px @ rest"
  let ?px = "ident @ targa_pixels ord fmt w h px @ rest"
  have "bytes_per_pixel fmt * w \<le> 4 * 2 ^ 16" using fmt w by auto
  then have "bytes_per_pixel fmt * w * h \<le> 4 * 2 ^ 16 * 2 ^ 16" by (rule mult_le_mono) (use h in simp)
  then have size: "umul (bytes_per_pixel fmt) w = Some (bytes_per_pixel fmt * w)"
    "umul (bytes_per_pixel fmt * w) h = Some (bytes_per_pixel fmt * w * h)"
    "uadd (bytes_per_pixel fmt * w * h) HEADER_SIZE = Some (bytes_per_pixel fmt * w * h + HEADER_SIZE)"
    using \<open>bytes_per_pixel fmt * w \<le> 4 * 2 ^ 16\<close> by simp_all
  have hdr: "targa_header f = \<lparr>image_id_length = word_of_nat (length ident), color_map = 0, image_type = 2,
     color_map_spec = \<lparr>first_entry_index = 0, cms_length = 0, entry_size = 0\<rparr>, x_origin = 0, y_origin = 0,
     hdr_width = w, hdr_height = h, color_depth = (if fmt = Rgba8888 then 32 else 24),
     image_descriptor = (if fst ord = TopToBottom then push_bit 5 1 else 0) OR (if snd ord = RightToLeft then push_bit 4 1 else 0)\<rparr>"
    using w h by (simp add: targa_header_def f_def targa_file_def field_def byte_field_def nth_append)
  have kind: "\<not> has_color_map (targa_header f)" "image_format (targa_header f) = Some UncompressedTrueColor"
    "hdr_color_format (targa_header f) = Inr fmt" "hdr_width (targa_header f) = w" "hdr_height (targa_header f) = h"
    using fmt by (auto simp: hdr has_color_map_def image_format_def hdr_color_format_def)
  have ord: "pixel_ordering (targa_header f) = ord"
    by (cases ord; cases "fst ord"; cases "snd ord") (auto simp: hdr pixel_ordering_def)
  have len: "length f = HEADER_SIZE + length ?px" by (simp add: f_def targa_file_def)
  then have px: "slice HEADER_SIZE (length f) f = Some ?px" by (simp add: slice_def) (simp add: f_def targa_file_def)
  have enough: "\<not> bytes_per_pixel fmt * w * h + HEADER_SIZE > length f"
    using length_targa_pixels [OF fmt, of ord w h px] by (simp add: len ac_simps)
  show ?thesis
    unfolding f_def [symmetric] targa_try_new_def Let_def using enough by (simp add: kind size px ord)
qed

section \<open>Properties\<close>

text \<open>C29. Reading undoes writing: a file that shows the picture \<open>px\<close>, whichever way its rows and columns are
  stored and whatever follows the picture, is parsed, and every pixel read from it is the pixel of the
  picture, with alpha 255 in the format without alpha.\<close>

theorem targa_round_trip:
  assumes fmt: "fmt \<in> {Rgb888, Rgba8888}" and w: "w < 2 ^ 16" and h: "h < 2 ^ 16"
  shows "\<exists>img. targa_try_new (targa_file [] ord fmt w h px @ rest) = Some (Inr img) \<and>
    (\<forall>x y. get_pixel img x y = Some (if x < w \<and> y < h
      then Some (if fmt = Rgba8888 then px x y else (px x y)\<lparr>px_a := 255\<rparr>) else None))"
proof -
  let ?img = "\<lparr>pixel_data = targa_pixels ord fmt w h px @ rest, img_width = w, img_height = h, img_format = fmt, img_ordering = ord\<rparr>"
  have parsed: "targa_try_new (targa_file [] ord fmt w h px @ rest) = Some (Inr ?img)"
    using targa_file_parsed [OF fmt w h, of "[]"] by simp
  note ok = targa_try_new_ok [OF parsed]
  have "get_pixel ?img x y = Some (Some (if fmt = Rgba8888 then px x y else (px x y)\<lparr>px_a := 255\<rparr>))"
    if xy: "x < w" "y < h" for x y
  proof -
    let ?c = "stored_column ?img x" and ?r = "stored_row ?img y"
    have c: "?c < w" "shown_column (snd ord) w ?c = x" using xy
      by (cases "snd ord"; simp add: stored_column_def shown_column_def)+
    have r: "?r < h" "shown_row (fst ord) h ?r = y" using xy
      by (cases "fst ord"; simp add: stored_row_def shown_row_def)+
    obtain tail where "drop ((?r * w + ?c) * bytes_per_pixel fmt) (targa_pixels ord fmt w h px) = pixel_bytes fmt (px x y) @ tail"
      using drop_targa_pixels [OF fmt c(1) r(1), of ord px] c(2) r(2) by auto
    moreover have "(?r * w + ?c) * bytes_per_pixel fmt \<le> length (targa_pixels ord fmt w h px)"
      using pixel_index_bound [OF c(1) r(1)] by (simp add: length_targa_pixels [OF fmt])
    ultimately have "drop (stored_at ?img x y) (pixel_data ?img) = pixel_bytes fmt (px x y) @ tail @ rest"
      by (simp add: stored_at_def)
    then have "pixel_of_bytes fmt (drop (stored_at ?img x y) (pixel_data ?img)) = (if fmt = Rgba8888 then px x y else (px x y)\<lparr>px_a := 255\<rparr>)"
      using fmt by (auto simp: pixel_of_bytes_def pixel_bytes_def)
    with get_pixel_ok [OF ok, of x y] xy show ?thesis by simp
  qed
  moreover have "get_pixel ?img x y = Some None" if "\<not> (x < w \<and> y < h)" for x y
    using that by (auto simp: get_pixel_def)
  ultimately show ?thesis using parsed by (intro exI [of _ ?img]) auto
qed

theorem targa_round_trip_witness:
  "\<exists>img. targa_try_new (targa_file [] (BottomToTop, RightToLeft) Rgb888 2 1 (\<lambda>x y. \<lparr>px_r = word_of_nat x, px_g = 7, px_b = 8, px_a = 9\<rparr>) @ []) = Some (Inr img) \<and>
    get_pixel img 1 0 = Some (Some \<lparr>px_r = 1, px_g = 7, px_b = 8, px_a = 255\<rparr>)"
  using targa_round_trip [of Rgb888 2 1 "(BottomToTop, RightToLeft)" "\<lambda>x y. \<lparr>px_r = word_of_nat x, px_g = 7, px_b = 8, px_a = 9\<rparr>" "[]"] by auto

text \<open>C30. The loop over the pixels of any parsed image ends. It yields each position of the image exactly once,
  row by row, with the pixel that \<open>get_pixel\<close> reads there, and no access leaves the buffer.\<close>

theorem targa_iterator_terminates:
  assumes "targa_try_new bs = Some (Inr img)"
  shows "\<exists>ps. pixel_collect (pixels_into_iter img) = Some ps \<and>
    map fst ps = map (\<lambda>i. (i mod img_width img, i div img_width img)) [0..<img_width img * img_height img] \<and>
    list_all (\<lambda>((x, y), p). get_pixel img x y = Some (Some p)) ps"
proof -
  have ok: "image_ok img" using assms by (rule targa_try_new_ok)
  have "get_pixel img (i mod img_width img) (i div img_width img) = Some (Some (snd (pixel_item img i)))"
    if "i < img_width img * img_height img" for i
  proof -
    have "0 < img_width img" using that by (cases "img_width img") simp_all
    then have "i mod img_width img < img_width img" by simp
    moreover have "i div img_width img < img_height img" using that by (simp add: less_mult_imp_div_less mult.commute)
    ultimately show ?thesis using get_pixel_ok [OF ok] by (simp add: pixel_item_def)
  qed
  with pixel_collect_image [OF ok] show ?thesis by (simp add: pixel_item_def list_all_iff)
qed

theorem targa_iterator_terminates_witness:
  "\<exists>img ps. targa_try_new (targa_file [] (TopToBottom, LeftToRight) Rgba8888 2 1
      (\<lambda>x y. \<lparr>px_r = word_of_nat x, px_g = 0, px_b = 0, px_a = 9\<rparr>)) = Some (Inr img) \<and>
    pixel_collect (pixels_into_iter img) = Some ps \<and> map fst ps = [(0, 0), (1, 0)]"
proof -
  let ?px = "\<lambda>x y. \<lparr>px_r = word_of_nat x, px_g = 0, px_b = 0, px_a = 9\<rparr> :: Pixel"
  let ?img = "\<lparr>pixel_data = [] @ targa_pixels (TopToBottom, LeftToRight) Rgba8888 2 1 ?px @ [],
    img_width = 2, img_height = 1, img_format = Rgba8888, img_ordering = (TopToBottom, LeftToRight)\<rparr>"
  have new: "targa_try_new (targa_file [] (TopToBottom, LeftToRight) Rgba8888 2 1 ?px @ []) = Some (Inr ?img)"
    by (rule targa_file_parsed) simp_all
  from targa_iterator_terminates [OF this] new show ?thesis by (auto simp: upt_rec)
qed

text \<open>An identification field between the header and the pixels, which the format allows and the header
  announces, is read as pixels.\<close>

theorem targa_ident_read_as_pixels:
  "map_option (case_sum (\<lambda>e. None) (\<lambda>img. the (get_pixel img 0 0)))
     (targa_try_new (targa_file [1, 2, 3] (TopToBottom, LeftToRight) Rgb888 1 1
       (\<lambda>x y. \<lparr>px_r = 30, px_g = 20, px_b = 10, px_a = 255\<rparr>))) =
   Some (Some \<lparr>px_r = 3, px_g = 2, px_b = 1, px_a = 255\<rparr>)"
  by code_simp

end
