(* ===== verification/Psf_Font.thy ===== *)
theory Psf_Font
  imports Bytes
begin

text \<open>
  PC screen fonts, \<open>psf/src/lib.rs\<close>: both header formats, parsing a buffer, finding the bitmap of a character
  and testing its pixels. A parsed font is a reference into the buffer, so it carries the buffer; bytes
  read through it beyond the end of the buffer, which the source does without a check, are \<open>None\<close>.
\<close>

unbundle bit_operations_syntax

section \<open>Types\<close>

record Psf1 =
  psf1_magic :: "u8 list"
  psf1_mode :: u8
  psf1_char_size :: u8

record Psf2 =
  psf2_magic :: "u8 list"
  psf2_version :: nat
  psf2_header_size :: nat
  psf2_flags :: nat
  psf2_glyph_count :: nat
  psf2_char_size :: nat
  psf2_glyph_height :: nat
  psf2_glyph_width :: nat

datatype PsfParseError = IncorrectAlign | IncorrectMagic | IncorrectDataLength usize usize | NoPsfHeader

datatype LookupError = UnicodeChar | ExtendedGlyph

record PsfChar =
  ch_width :: usize
  ch_height :: usize
  ch_stride :: usize
  ch_data :: "u8 list"

text \<open>\<open>&dyn PsfFont\<close>: a header and the buffer it lies in.\<close>

datatype PsfFont = Font1 "u8 list" Psf1 | Font2 "u8 list" Psf2

section \<open>Characters\<close>

definition is_set :: "PsfChar \<Rightarrow> usize \<Rightarrow> usize \<Rightarrow> bool rust" where
  "is_set self x y =
     (if x > ch_width self \<or> y > ch_height self then Some False
      else do {
        row \<leftarrow> umul y (ch_stride self);
        i \<leftarrow> uadd (x div 8) row;
        d \<leftarrow> byte_at i (ch_data self);
        Some (d AND push_bit (7 - x mod 8) 1 \<noteq> 0) })"

section \<open>Fonts\<close>

fun char_width :: "PsfFont \<Rightarrow> usize" where
  "char_width (Font1 bs f) = 8"
| "char_width (Font2 bs f) = psf2_glyph_width f"

fun char_height :: "PsfFont \<Rightarrow> usize" where
  "char_height (Font1 bs f) = unat (psf1_char_size f)"
| "char_height (Font2 bs f) = psf2_glyph_height f"

fun char_count :: "PsfFont \<Rightarrow> usize" where
  "char_count (Font1 bs f) = (if psf1_mode f AND 1 = 1 then 512 else 256)"
| "char_count (Font2 bs f) = psf2_glyph_count f"

text \<open>The division panics on a height of zero.\<close>

fun char_stride :: "PsfFont \<Rightarrow> usize rust" where
  "char_stride (Font1 bs f) = Some 8"
| "char_stride (Font2 bs f) = (if psf2_glyph_height f = 0 then None else Some (psf2_char_size f div psf2_glyph_height f))"

fun header_size :: "PsfFont \<Rightarrow> usize" where
  "header_size (Font1 bs f) = 4"
| "header_size (Font2 bs f) = 32"

fun font_buffer :: "PsfFont \<Rightarrow> u8 list" where
  "font_buffer (Font1 bs f) = bs"
| "font_buffer (Font2 bs f) = bs"

definition locate_char :: "PsfFont \<Rightarrow> nat \<Rightarrow> (LookupError, PsfChar) result rust" where
  "locate_char self the_char =
     (if the_char > 512 then Some (Inl UnicodeChar)
      else if the_char > char_count self then Some (Inl ExtendedGlyph)
      else do {
        stride \<leftarrow> char_stride self;
        char_size \<leftarrow> umul (char_height self) stride;
        glyphs \<leftarrow> umul char_size the_char;
        char_byte_offset \<leftarrow> uadd (header_size self) glyphs;
        end \<leftarrow> uadd char_byte_offset char_size;
        char_data \<leftarrow> slice char_byte_offset end (font_buffer self);
        Some (Inr \<lparr>ch_width = char_width self, ch_height = char_height self, ch_stride = stride, ch_data = char_data\<rparr>) })"

definition psf1_header :: "u8 list \<Rightarrow> Psf1" where
  "psf1_header bs = \<lparr>psf1_magic = take 2 bs, psf1_mode = byte_field 2 bs, psf1_char_size = byte_field 3 bs\<rparr>"

definition psf2_header :: "u8 list \<Rightarrow> Psf2" where
  "psf2_header bs = \<lparr>psf2_magic = take 4 bs, psf2_version = field 4 4 bs, psf2_header_size = field 8 4 bs,
     psf2_flags = field 12 4 bs, psf2_glyph_count = field 16 4 bs, psf2_char_size = field 20 4 bs,
     psf2_glyph_height = field 24 4 bs, psf2_glyph_width = field 28 4 bs\<rparr>"

text \<open>The alignment of the first header is one, so its check always passes; \<open>addr\<close> is the address of the buffer.\<close>

definition psf1_try_new :: "u8 list \<Rightarrow> (PsfParseError, PsfFont) result rust" where
  "psf1_try_new raw =
     (if length raw < 4 then Some (Inl NoPsfHeader)
      else let font_data = psf1_header raw in
        if psf1_magic font_data \<noteq> [0x36, 0x04] then Some (Inl IncorrectMagic)
        else if psf1_mode font_data AND 4 = 4 \<or> psf1_mode font_data AND 2 = 2 then None
        else do {
          glyphs \<leftarrow> umul (char_count (Font1 raw font_data)) (unat (psf1_char_size font_data));
          expected_bytes \<leftarrow> uadd 4 glyphs;
          if expected_bytes \<noteq> length raw then Some (Inl (IncorrectDataLength expected_bytes (length raw)))
          else Some (Inr (Font1 raw font_data)) })"

definition psf2_try_new :: "usize \<Rightarrow> u8 list \<Rightarrow> (PsfParseError, PsfFont) result rust" where
  "psf2_try_new addr raw =
     (if length raw < 32 then Some (Inl NoPsfHeader)
      else if addr mod 4 \<noteq> 0 then Some (Inl IncorrectAlign)
      else let font_data = psf2_header raw in
        if psf2_magic font_data \<noteq> [0x72, 0xb5, 0x4a, 0x86] then Some (Inl IncorrectMagic)
        else if odd (psf2_flags font_data) then None
        else do {
          glyphs \<leftarrow> umul (char_count (Font2 raw font_data)) (psf2_char_size font_data);
          expected_bytes \<leftarrow> uadd 32 glyphs;
          if expected_bytes \<noteq> length raw then Some (Inl (IncorrectDataLength expected_bytes (length raw)))
          else Some (Inr (Font2 raw font_data)) })"

definition try_parse :: "usize \<Rightarrow> u8 list \<Rightarrow> (PsfParseError, PsfFont) result rust" where
  "try_parse addr bs = do {
     r \<leftarrow> psf1_try_new bs;
     case r of
       Inr font \<Rightarrow> Some (Inr font)
     | Inl IncorrectMagic \<Rightarrow> psf2_try_new addr bs
     | Inl e \<Rightarrow> Some (Inl e) }"

section \<open>A writer\<close>

text \<open>A font of \<open>count\<close> glyphs of \<open>w\<close> by \<open>h\<close> pixels, in the second format: \<open>pix c x y\<close> says whether the pixel is set.\<close>

definition row_byte :: "(nat \<Rightarrow> bool) \<Rightarrow> nat \<Rightarrow> u8" where
  "row_byte pix k = horner_sum of_bool 2 (map (\<lambda>i. pix (8 * k + 7 - i)) [0..<8])"

definition glyph_bytes :: "nat \<Rightarrow> nat \<Rightarrow> (nat \<Rightarrow> nat \<Rightarrow> bool) \<Rightarrow> u8 list" where
  "glyph_bytes stride h pix = concat (map (\<lambda>y. map (row_byte (\<lambda>x. pix x y)) [0..<stride]) [0..<h])"

definition psf2_file :: "nat \<Rightarrow> nat \<Rightarrow> nat \<Rightarrow> (nat \<Rightarrow> nat \<Rightarrow> nat \<Rightarrow> bool) \<Rightarrow> u8 list" where
  "psf2_file w h count pix = (let stride = (w + 7) div 8 in
     [0x72, 0xb5, 0x4a, 0x86] @ to_le 4 0 @ to_le 4 32 @ to_le 4 0 @ to_le 4 count @ to_le 4 (h * stride) @ to_le 4 h @ to_le 4 w @
     concat (map (\<lambda>c. glyph_bytes stride h (pix c)) [0..<count]))"

lemma bit_row_byte: "n < 8 \<Longrightarrow> bit (row_byte pix k) n \<longleftrightarrow> pix (8 * k + 7 - n)"
  by (simp add: row_byte_def bit_horner_sum_bit_iff)

lemma length_glyph_bytes [simp]: "length (glyph_bytes stride h pix) = h * stride"
  unfolding glyph_bytes_def by (subst length_chunks [of _ stride]) auto

lemma glyph_bytes_nth:
  assumes "k < stride" and "y < h"
  shows "glyph_bytes stride h pix ! (k + y * stride) = row_byte (\<lambda>x. pix x y) k"
proof -
  have "drop (y * stride) (glyph_bytes stride h pix) =
      map (row_byte (\<lambda>x. pix x y)) [0..<stride] @ concat (drop (Suc y) (map (\<lambda>y. map (row_byte (\<lambda>x. pix x y)) [0..<stride]) [0..<h]))"
    unfolding glyph_bytes_def using assms(2) by (subst drop_chunks) auto
  then have "drop (y * stride) (glyph_bytes stride h pix) ! k = row_byte (\<lambda>x. pix x y) k" using assms(1) by (simp add: nth_append)
  moreover have "y * stride \<le> h * stride" using assms(2) by simp
  ultimately show ?thesis by (simp add: add.commute)
qed

lemma is_set_glyph:
  assumes "x < w" and "y < h" and "h * ((w + 7) div 8) < USIZE_BOUND"
  shows "is_set \<lparr>ch_width = w, ch_height = h, ch_stride = (w + 7) div 8, ch_data = glyph_bytes ((w + 7) div 8) h pix\<rparr> x y = Some (pix x y)"
proof -
  let ?s = "(w + 7) div 8"
  have k: "x div 8 < ?s" using assms(1) by simp
  have "(y + 1) * ?s \<le> h * ?s" using assms(2) by (intro mult_right_mono) simp_all
  with k have i: "x div 8 + y * ?s < h * ?s" by simp
  have "8 * (x div 8) + 7 - (7 - x mod 8) = x" by (simp add: mult.commute)
  with bit_row_byte [of "7 - x mod 8" "\<lambda>x. pix x y" "x div 8"]
  have "bit (row_byte (\<lambda>x. pix x y) (x div 8)) (7 - x mod 8) \<longleftrightarrow> pix x y" by simp
  moreover have "d AND push_bit n 1 \<noteq> 0 \<longleftrightarrow> bit d n" for d :: u8 and n
    using and_exp_eq_0_iff_not_bit [of d n] by (simp add: push_bit_eq_mult)
  ultimately show ?thesis using i assms glyph_bytes_nth [OF k assms(2), of pix]
    by (simp add: is_set_def umul_def uadd_def byte_at_def)
qed

lemma psf2_file_parsed:
  assumes "w < 2 ^ 32" and "h < 2 ^ 32" and count: "count < 2 ^ 32" and size: "h * ((w + 7) div 8) < 2 ^ 32" and "addr mod 4 = 0"
  shows "try_parse addr (psf2_file w h count pix) = Some (Inr (Font2 (psf2_file w h count pix)
    \<lparr>psf2_magic = [0x72, 0xb5, 0x4a, 0x86], psf2_version = 0, psf2_header_size = 32, psf2_flags = 0, psf2_glyph_count = count,
      psf2_char_size = h * ((w + 7) div 8), psf2_glyph_height = h, psf2_glyph_width = w\<rparr>))"
proof -
  define s where "s = (w + 7) div 8"
  define f where "f = psf2_file w h count pix"
  have hdr: "psf2_header f = \<lparr>psf2_magic = [0x72, 0xb5, 0x4a, 0x86], psf2_version = 0, psf2_header_size = 32, psf2_flags = 0,
      psf2_glyph_count = count, psf2_char_size = h * s, psf2_glyph_height = h, psf2_glyph_width = w\<rparr>"
    using assms by (simp add: f_def psf2_file_def psf2_header_def field_def Let_def s_def [symmetric])
  have len: "length f = 32 + count * (h * s)"
    unfolding f_def psf2_file_def Let_def s_def [symmetric] by (simp add: length_chunks [where n = "h * s"])
  have "count * (h * s) \<le> (2 ^ 32 - 1) * (2 ^ 32 - 1)" using count size by (intro mult_le_mono) (simp_all add: s_def)
  then have ok: "umul count (h * s) = Some (count * (h * s))" "uadd 32 (count * (h * s)) = Some (32 + count * (h * s))" by simp_all
  have "psf1_try_new f = Some (Inl IncorrectMagic)"
    unfolding psf1_try_new_def using len by (simp add: psf1_header_def f_def psf2_file_def Let_def)
  moreover have "psf2_try_new addr f = Some (Inr (Font2 f (psf2_header f)))"
    unfolding psf2_try_new_def using len assms(5) by (simp add: hdr ok)
  ultimately show ?thesis unfolding f_def [symmetric] s_def [symmetric] by (simp add: try_parse_def hdr)
qed

section \<open>Properties\<close>

text \<open>C31. Fonts in the second format read back: the file that draws its glyphs by \<open>pix\<close> is parsed at any aligned
  address, every character of the font is found, and each of its pixels is the one that was written.\<close>

theorem psf2_round_trip:
  assumes dims: "w < 2 ^ 32" "h < 2 ^ 32" "count < 2 ^ 32" "h * ((w + 7) div 8) < 2 ^ 32" and addr: "addr mod 4 = 0"
  shows "\<exists>font. try_parse addr (psf2_file w h count pix) = Some (Inr font) \<and>
    (\<forall>c x y. c < count \<longrightarrow> c \<le> 512 \<longrightarrow> x < w \<longrightarrow> y < h \<longrightarrow>
      (\<exists>ch. locate_char font c = Some (Inr ch) \<and> is_set ch x y = Some (pix c x y)))"
proof -
  define s where "s = (w + 7) div 8"
  define f where "f = psf2_file w h count pix"
  let ?font = "Font2 f \<lparr>psf2_magic = [0x72, 0xb5, 0x4a, 0x86], psf2_version = 0, psf2_header_size = 32, psf2_flags = 0,
    psf2_glyph_count = count, psf2_char_size = h * s, psf2_glyph_height = h, psf2_glyph_width = w\<rparr>"
  have "locate_char ?font c = Some (Inr \<lparr>ch_width = w, ch_height = h, ch_stride = s, ch_data = glyph_bytes s h (pix c)\<rparr>)"
    if c: "c < count" "c \<le> 512" and h: "0 < h" for c
  proof -
    let ?gs = "map (\<lambda>c. glyph_bytes s h (pix c)) [0..<count]"
    obtain hd where f: "f = hd @ concat ?gs" "length hd = 32"
      by (rule that [of "take 32 f"]) (simp_all add: f_def psf2_file_def Let_def s_def [symmetric])
    have "drop (c * (h * s)) (concat ?gs) = ?gs ! c @ concat (drop (Suc c) ?gs)" using c(1) by (intro drop_chunks) auto
    then have "take (h * s) (drop (32 + h * s * c) f) = glyph_bytes s h (pix c)"
      using c(1) by (simp add: f mult.commute)
    moreover have "h * s * c \<le> 2 ^ 32 * 512" using dims(4) c(2) by (intro mult_le_mono) (simp_all add: s_def)
    moreover have "32 + h * s * c + h * s \<le> length f"
    proof -
      have "length f = 32 + count * (h * s)" by (simp add: f length_chunks [where n = "h * s"])
      moreover have "(c + 1) * (h * s) \<le> count * (h * s)" using c(1) by (intro mult_right_mono) simp_all
      ultimately show ?thesis by (simp add: algebra_simps)
    qed
    ultimately show ?thesis using c h dims(4)
      by (simp add: locate_char_def umul_def uadd_def slice_def s_def [symmetric])
  qed
  moreover have "is_set \<lparr>ch_width = w, ch_height = h, ch_stride = s, ch_data = glyph_bytes s h (pix c)\<rparr> x y = Some (pix c x y)"
    if "x < w" "y < h" for c x y
    unfolding s_def using that dims(4) by (intro is_set_glyph) simp_all
  ultimately show ?thesis
    using psf2_file_parsed [OF dims addr, of pix] unfolding f_def [symmetric] s_def [symmetric] by fastforce
qed

theorem psf2_round_trip_witness:
  "\<exists>font ch. try_parse 0x1000 (psf2_file 10 2 3 (\<lambda>c x y. x = c + y)) = Some (Inr font) \<and>
    locate_char font 2 = Some (Inr ch) \<and> is_set ch 3 1 = Some True"
proof -
  obtain font where "try_parse 0x1000 (psf2_file 10 2 3 (\<lambda>c x y. x = c + y)) = Some (Inr font)"
    "\<forall>c x y. c < 3 \<longrightarrow> c \<le> 512 \<longrightarrow> x < 10 \<longrightarrow> y < 2 \<longrightarrow>
      (\<exists>ch. locate_char font c = Some (Inr ch) \<and> is_set ch x y = Some (x = c + y))"
    using psf2_round_trip [of 10 2 3 "0x1000" "\<lambda>c x y. x = c + y"] by auto
  from this(1) this(2) [rule_format, of 2 3 1] show ?thesis by simp
qed

text \<open>Fonts in the first format are read with a stride of eight bytes, although each of their rows is one
  byte: of every font that parses, only the first eighth of the characters can be looked up, and every
  lookup beyond them reads past the end of the buffer.\<close>

theorem psf1_lookup_out_of_bounds:
  assumes "psf1_try_new bs = Some (Inr font)" and "0 < char_height font" and "c \<le> char_count font"
  shows "locate_char font c = None \<longleftrightarrow> char_count font div 8 \<le> c"
proof -
  from assms(1) obtain f where f: "font = Font1 bs f" and len: "length bs = 4 + char_count font * char_height font"
    by (auto simp: psf1_try_new_def Let_def split: if_splits bind_splits)
  let ?h = "char_height font"
  have count: "char_count font \<in> {256, 512}" by (simp add: f)
  then have c: "c \<le> 512" using assms(3) by auto
  have h: "?h < 256" using byte_bound [of "psf1_char_size f"] by (simp add: f)
  then have "?h * 8 * c \<le> 256 * 8 * 512" using c by (intro mult_le_mono) simp_all
  then have run: "umul ?h 8 = Some (?h * 8)" "umul (?h * 8) c = Some (?h * 8 * c)" "uadd 4 (?h * 8 * c) = Some (4 + ?h * 8 * c)"
    "uadd (4 + ?h * 8 * c) (?h * 8) = Some (4 + ?h * 8 * c + ?h * 8)" using h by (simp_all add: algebra_simps)
  have "char_stride font = Some 8" "header_size font = 4" "font_buffer font = bs" by (simp_all add: f)
  then have "locate_char font c = None \<longleftrightarrow> length bs < 4 + ?h * 8 * c + ?h * 8"
    using c assms(3) by (auto simp: locate_char_def run slice_def)
  also have "\<dots> \<longleftrightarrow> char_count font * ?h < 8 * (c + 1) * ?h" by (simp add: len algebra_simps)
  also have "\<dots> \<longleftrightarrow> char_count font < 8 * (c + 1)" using assms(2) by (simp only: mult_less_cancel2 simp_thms)
  also have "\<dots> \<longleftrightarrow> char_count font div 8 \<le> c" using count by auto
  finally show ?thesis .
qed

theorem psf1_lookup_out_of_bounds_witness:
  "\<exists>font. psf1_try_new ([0x36, 0x04, 0, 1] @ replicate 256 0) = Some (Inr font) \<and>
    (locate_char font 65 = None \<longleftrightarrow> char_count font div 8 \<le> 65) \<and> char_count font div 8 \<le> 65"
proof -
  let ?bs = "[0x36, 0x04, 0, 1] @ replicate 256 0"
  let ?font = "Font1 ?bs \<lparr>psf1_magic = [0x36, 0x04], psf1_mode = 0, psf1_char_size = 1\<rparr>"
  have "psf1_try_new ?bs = Some (Inr ?font)"
    by (simp add: psf1_try_new_def psf1_header_def byte_field_def umul_def uadd_def)
  with psf1_lookup_out_of_bounds [OF this, of 65] show ?thesis by auto
qed

text \<open>The check of the index admits the number of glyphs itself: that lookup reads behind the last glyph.\<close>

lemma psf2_last_index_out_of_bounds:
  assumes "psf2_try_new addr bs = Some (Inr font)" and "0 < char_height font" and "char_stride font = Some s" and "0 < s"
    and "char_count font \<le> 512" and "s * char_height font = psf2_char_size (psf2_header bs)"
  shows "locate_char font (char_count font) = None"
proof -
  from assms(1) obtain f where f: "font = Font2 bs f" "f = psf2_header bs" and len: "length bs = 32 + char_count font * psf2_char_size f"
    by (auto simp: psf2_try_new_def Let_def split: if_splits bind_splits)
  have "length bs = 32 + char_height font * s * char_count font" using len assms(6) f by (simp add: ac_simps)
  then show ?thesis using assms(2-5) by (auto simp: locate_char_def f umul_def uadd_def slice_def)
qed

end
