(* ===== verification/Bmp_Image.thy ===== *)
theory Bmp_Image
  imports Bytes
begin

text \<open>
  Bitmap images, \<open>kernel/src/bmp.rs\<close>, and the loop of \<open>kmain\<close> that draws the vendor's logo with them. The
  firmware's table gives the physical address of the file; \<open>mem\<close> is physical memory, as the regions that
  the handler maps show it. Integers of type \<open>i32\<close> are integers with checked arithmetic.
\<close>

unbundle bit_operations_syntax

section \<open>Integers\<close>

definition i32_ok :: "int \<Rightarrow> bool" where
  "i32_ok a \<longleftrightarrow> - (2 ^ 31) \<le> a \<and> a < 2 ^ 31"

definition i32 :: "int \<Rightarrow> int rust" where
  "i32 a = (if i32_ok a then Some a else None)"

text \<open>Division rounds towards zero; \<open>as usize\<close> extends the sign.\<close>

definition i32_div :: "int \<Rightarrow> int \<Rightarrow> int" where
  "i32_div a b = (if 0 \<le> a then a div b else - ((- a) div b))"

definition as_usize :: "int \<Rightarrow> usize" where
  "as_usize a = nat (a mod 2 ^ 64)"

section \<open>Images\<close>

record BmpHeader =
  bh_magic :: "u8 list"
  bh_size :: nat
  bh_pixel_offset :: nat
  bh_dib_header_size :: nat
  bh_width :: int
  bh_height :: int
  bh_color_plane_count :: nat
  bh_bpp :: nat
  bh_compression :: nat

definition bmp_header :: "u8 list \<Rightarrow> BmpHeader" where
  "bmp_header bs = \<lparr>bh_magic = take 2 bs, bh_size = field 2 4 bs, bh_pixel_offset = field 10 4 bs,
     bh_dib_header_size = field 14 4 bs, bh_width = le_signed 4 (field 18 4 bs), bh_height = le_signed 4 (field 22 4 bs),
     bh_color_plane_count = field 26 2 bs, bh_bpp = field 28 2 bs, bh_compression = field 30 4 bs\<rparr>"

record Bmp =
  bmp_width :: int
  bmp_height :: int
  bmp_bpp :: nat
  bmp_mapping :: "u8 list"

definition map_bytes :: "(usize \<Rightarrow> u8) \<Rightarrow> usize \<Rightarrow> usize \<Rightarrow> u8 list" where
  "map_bytes mem a n = map (\<lambda>i. mem (a + i)) [0..<n]"

definition from_bgrt :: "(usize \<Rightarrow> u8) \<Rightarrow> usize \<Rightarrow> Bmp option rust" where
  "from_bgrt mem addr = (let header = bmp_header (map_bytes mem addr 34) in
     if bh_dib_header_size header < 40 then Some None
     else if bh_bpp header \<noteq> 24 \<and> bh_bpp header \<noteq> 32 then Some None
     else if bh_color_plane_count header \<noteq> 1 then Some None
     else if bh_compression header \<noteq> 0 then Some None
     else do {
       pixels_size \<leftarrow> usub (bh_size header) (bh_pixel_offset header);
       bmp_pixels \<leftarrow> uadd addr (bh_pixel_offset header);
       Some (Some \<lparr>bmp_width = bh_width header, bmp_height = bh_height header, bmp_bpp = bh_bpp header,
         bmp_mapping = map_bytes mem bmp_pixels pixels_size\<rparr>) })"

record BmpIterator =
  bi_bmp :: Bmp
  bi_x :: usize
  bi_y :: usize

definition bmp_into_iter :: "Bmp \<Rightarrow> BmpIterator" where
  "bmp_into_iter self = \<lparr>bi_bmp = self, bi_x = 0, bi_y = 0\<rparr>"

definition rgb :: "u8 \<Rightarrow> u8 \<Rightarrow> u8 \<Rightarrow> 32 word" where
  "rgb r g b = push_bit 16 (ucast r) OR push_bit 8 (ucast g) OR ucast b"

definition bmp_next :: "BmpIterator \<Rightarrow> (32 word option \<times> BmpIterator) rust" where
  "bmp_next self = (let bmp = bi_bmp self in
     if bi_y self \<ge> as_usize (bmp_height bmp) then Some (None, self)
     else do {
       let bytes_per_pixel = bmp_bpp bmp div 8;
       row \<leftarrow> i32 (int bytes_per_pixel * bmp_width bmp);
       row3 \<leftarrow> i32 (row + 3);
       stride \<leftarrow> i32 (i32_div row3 4 * 4);
       up \<leftarrow> usub (as_usize (bmp_height bmp)) (bi_y self);
       coord_y \<leftarrow> usub up 1;
       dx \<leftarrow> umul (bi_x self) bytes_per_pixel;
       dy \<leftarrow> umul coord_y (as_usize stride);
       coord \<leftarrow> uadd dx dy;
       ret \<leftarrow> (if bytes_per_pixel = 3 then do {
           b \<leftarrow> byte_at coord (bmp_mapping bmp);
           g \<leftarrow> byte_at (coord + 1) (bmp_mapping bmp);
           r \<leftarrow> byte_at (coord + 2) (bmp_mapping bmp);
           Some (rgb r g b) }
         else if bytes_per_pixel = 4 then do {
           b \<leftarrow> byte_at (coord + 1) (bmp_mapping bmp);
           g \<leftarrow> byte_at (coord + 2) (bmp_mapping bmp);
           r \<leftarrow> byte_at (coord + 3) (bmp_mapping bmp);
           Some (rgb r g b) }
         else None);
       x \<leftarrow> uadd (bi_x self) 1;
       if x \<ge> as_usize (bmp_width bmp) then do {
         y \<leftarrow> uadd (bi_y self) 1;
         Some (Some ret, self\<lparr>bi_x := 0, bi_y := y\<rparr>) }
       else Some (Some ret, self\<lparr>bi_x := x\<rparr>) })"

text \<open>The loop of \<open>kmain\<close> over the pixels: \<open>x_init\<close> is the left edge of the logo, \<open>(x, y)\<close> the place of the next
  pixel, \<open>width\<close> the width of the image and \<open>stride\<close> that of the frame buffer \<open>fb\<close>.\<close>

partial_function (option) draw_logo ::
  "usize \<Rightarrow> usize \<Rightarrow> usize \<Rightarrow> BmpIterator \<Rightarrow> usize \<Rightarrow> usize \<Rightarrow> 32 word list \<Rightarrow> 32 word list option" where
  [code]: "draw_logo x_init width stride it x y fb = do {
     (r, it') \<leftarrow> bmp_next it;
     case r of
       None \<Rightarrow> Some fb
     | Some pixel \<Rightarrow> do {
         row \<leftarrow> umul y stride;
         i \<leftarrow> uadd x row;
         rust_assert (i < length fb);
         x' \<leftarrow> uadd x 1;
         dx \<leftarrow> usub x' x_init;
         if dx \<ge> width then do {
           y' \<leftarrow> uadd y 1;
           draw_logo x_init width stride it' x_init y' (fb[i := pixel]) }
         else draw_logo x_init width stride it' x' y (fb[i := pixel]) } }"

section \<open>Images of 24 bits per pixel\<close>

text \<open>The stored image of \<open>px\<close>: rows from the bottom up, blue first, each padded to a multiple of four bytes.\<close>

definition bmp_stride :: "nat \<Rightarrow> nat" where
  "bmp_stride w = (3 * w + 3) div 4 * 4"

definition bmp_row :: "nat \<Rightarrow> (nat \<Rightarrow> u8 \<times> u8 \<times> u8) \<Rightarrow> u8 list" where
  "bmp_row w px = concat (map (\<lambda>x. case px x of (r, g, b) \<Rightarrow> [b, g, r]) [0..<w]) @ replicate (bmp_stride w - 3 * w) 0"

definition bmp_rows :: "nat \<Rightarrow> nat \<Rightarrow> (nat \<Rightarrow> nat \<Rightarrow> u8 \<times> u8 \<times> u8) \<Rightarrow> u8 list" where
  "bmp_rows w h px = concat (map (\<lambda>k. bmp_row w (\<lambda>x. px x (h - k - 1))) [0..<h])"

definition bmp24 :: "nat \<Rightarrow> nat \<Rightarrow> (nat \<Rightarrow> nat \<Rightarrow> u8 \<times> u8 \<times> u8) \<Rightarrow> Bmp" where
  "bmp24 w h px = \<lparr>bmp_width = int w, bmp_height = int h, bmp_bpp = 24, bmp_mapping = bmp_rows w h px\<rparr>"

definition rgb_of :: "u8 \<times> u8 \<times> u8 \<Rightarrow> 32 word" where
  "rgb_of p = (case p of (r, g, b) \<Rightarrow> rgb r g b)"

lemma stride_ge: "3 * w \<le> bmp_stride w"
  by (simp add: bmp_stride_def)

lemma length_bmp_row: "length (bmp_row w px) = bmp_stride w"
proof -
  have "length (concat (map (\<lambda>x. case px x of (r, g, b) \<Rightarrow> [b, g, r]) [0..<w])) = w * 3"
    by (subst length_chunks [of _ 3]) (auto split: prod.split)
  with stride_ge [of w] show ?thesis by (simp add: bmp_row_def)
qed

lemma drop_bmp_row: "x < w \<Longrightarrow> \<exists>rest. drop (3 * x) (bmp_row w px) = (case px x of (r, g, b) \<Rightarrow> [b, g, r]) @ rest"
proof -
  let ?xs = "map (\<lambda>x. case px x of (r, g, b) \<Rightarrow> [b, g, r]) [0..<w]"
  assume x: "x < w"
  have "drop (x * 3) (concat ?xs) = ?xs ! x @ concat (drop (Suc x) ?xs)" using x by (intro drop_chunks) (auto split: prod.split)
  moreover have "x * 3 \<le> length (concat ?xs)" using x by (subst length_chunks [of _ 3]) (auto split: prod.split)
  ultimately show ?thesis using x by (simp add: bmp_row_def mult.commute)
qed

lemma drop_bmp_rows:
  assumes "x < w" and "y < h"
  shows "\<exists>rest. drop (x * 3 + (h - y - 1) * bmp_stride w) (bmp_rows w h px) = (case px x y of (r, g, b) \<Rightarrow> [b, g, r]) @ rest"
proof -
  let ?rows = "map (\<lambda>k. bmp_row w (\<lambda>x. px x (h - k - 1))) [0..<h]"
  have k: "h - y - 1 < length ?rows" "h - (h - y - 1) - 1 = y" using assms(2) by simp_all
  have "drop ((h - y - 1) * bmp_stride w) (bmp_rows w h px) = ?rows ! (h - y - 1) @ concat (drop (Suc (h - y - 1)) ?rows)"
    unfolding bmp_rows_def using k(1) by (intro drop_chunks) (auto simp: length_bmp_row)
  also have "?rows ! (h - y - 1) = bmp_row w (\<lambda>x. px x y)" using k by simp
  finally have "drop (3 * x) (drop ((h - y - 1) * bmp_stride w) (bmp_rows w h px)) =
      drop (3 * x) (bmp_row w (\<lambda>x. px x y)) @ concat (drop (Suc (h - y - 1)) ?rows)"
    using assms(1) stride_ge [of w] by (simp add: length_bmp_row)
  then show ?thesis using drop_bmp_row [OF assms(1), of "\<lambda>x. px x y"] by (auto simp: mult.commute)
qed

lemma byte_of_drop: "drop i bs = [b, g, r] @ rest \<Longrightarrow>
    byte_at i bs = Some b \<and> byte_at (i + 1) bs = Some g \<and> byte_at (i + 2) bs = Some r"
proof -
  assume d: "drop i bs = [b, g, r] @ rest"
  have "length (drop i bs) = 3 + length rest" using d by simp
  then have len: "i + 3 \<le> length bs" by simp
  have "drop i bs ! 0 = b" "drop i bs ! 1 = g" "drop i bs ! 2 = r" using d by simp_all
  with len show ?thesis by simp
qed

lemma as_usize_int [simp]: "n < USIZE_BOUND \<Longrightarrow> as_usize (int n) = n"
  by (simp add: as_usize_def)

lemma bmp24_next:
  assumes w: "3 * w + 3 < 2 ^ 31" and h: "h < 2 ^ 31" and x: "x < w" and y: "y < h"
  shows "bmp_next \<lparr>bi_bmp = bmp24 w h px, bi_x = x, bi_y = y\<rparr> =
    Some (Some (rgb_of (px x y)), \<lparr>bi_bmp = bmp24 w h px, bi_x = (if x + 1 = w then 0 else x + 1), bi_y = (if x + 1 = w then y + 1 else y)\<rparr>)"
proof -
  obtain r g b where px: "px x y = (r, g, b)" by (cases "px x y")
  from drop_bmp_rows [OF x y, of px] px obtain rest where
    "drop (x * 3 + (h - y - 1) * bmp_stride w) (bmp_rows w h px) = [b, g, r] @ rest" by auto
  then have bytes: "byte_at (x * 3 + (h - y - 1) * bmp_stride w) (bmp_rows w h px) = Some b"
    "byte_at (x * 3 + (h - y - 1) * bmp_stride w + 1) (bmp_rows w h px) = Some g"
    "byte_at (x * 3 + (h - y - 1) * bmp_stride w + 2) (bmp_rows w h px) = Some r" using byte_of_drop by blast+
  have s: "bmp_stride w < 2 ^ 31" using w by (simp add: bmp_stride_def)
  have "(h - y - 1) * bmp_stride w \<le> 2 ^ 31 * 2 ^ 31" using h s by (intro mult_le_mono) simp_all
  then have run: "usub h y = Some (h - y)" "usub (h - y) 1 = Some (h - y - 1)" "umul x 3 = Some (x * 3)"
    "umul (h - y - 1) (bmp_stride w) = Some ((h - y - 1) * bmp_stride w)"
    "uadd (x * 3) ((h - y - 1) * bmp_stride w) = Some (x * 3 + (h - y - 1) * bmp_stride w)"
    "uadd x 1 = Some (x + 1)" "uadd y 1 = Some (y + 1)" using w x y h by simp_all
  have "i32_div (3 * int w + 3) 4 * 4 = int (bmp_stride w)" by (simp add: i32_div_def bmp_stride_def zdiv_int)
  moreover have "i32 (3 * int w) = Some (3 * int w)" "i32 (3 * int w + 3) = Some (3 * int w + 3)"
    "i32 (int (bmp_stride w)) = Some (int (bmp_stride w))"
    using w s by (simp_all add: i32_def i32_ok_def)
  moreover have "as_usize (int (bmp_stride w)) = bmp_stride w" "as_usize (int h) = h" "as_usize (int w) = w"
    using s h w by simp_all
  ultimately show ?thesis using x y
    by (simp add: bmp_next_def bmp24_def Let_def run bytes px rgb_of_def del: One_nat_def byte_at_eq_Some diff_diff_left add_2_eq_Suc')
qed

section \<open>Drawing\<close>

definition paint :: "(nat \<Rightarrow> nat) \<Rightarrow> (nat \<Rightarrow> 'a) \<Rightarrow> nat list \<Rightarrow> 'a list \<Rightarrow> 'a list" where
  "paint pos col js fb = fold (\<lambda>j fb. fb[pos j := col j]) js fb"

lemma paint_simps [simp]:
  "paint pos col [] fb = fb"
  "paint pos col (j # js) fb = paint pos col js (fb[pos j := col j])"
  by (simp_all add: paint_def)

lemma length_paint [simp]: "length (paint pos col js fb) = length fb"
  by (induction js arbitrary: fb) simp_all

lemma paint_other: "k \<notin> pos ` set js \<Longrightarrow> paint pos col js fb ! k = fb ! k"
  by (induction js arbitrary: fb) simp_all

lemma paint_at:
  "distinct js \<Longrightarrow> inj_on pos (set js) \<Longrightarrow> j \<in> set js \<Longrightarrow> pos j < length fb \<Longrightarrow> paint pos col js fb ! pos j = col j"
proof (induction js arbitrary: fb)
  case (Cons i js)
  show ?case
  proof (cases "j = i")
    case True
    have "pos i \<notin> pos ` set js" using Cons.prems(1,2) by auto
    with True Cons.prems(4) show ?thesis by (simp add: paint_other)
  next
    case False
    with Cons show ?thesis by simp
  qed
qed simp

abbreviation logo_pos :: "nat \<Rightarrow> nat \<Rightarrow> nat \<Rightarrow> nat \<Rightarrow> nat \<Rightarrow> nat" where
  "logo_pos x0 y0 w stride i \<equiv> x0 + i mod w + (y0 + i div w) * stride"

lemma logo_pos_bound:
  assumes "x0 + w \<le> stride" and "i < w * h"
  shows "logo_pos x0 y0 w stride i < (y0 + h) * stride"
proof -
  have w: "0 < w" using assms(2) by (cases w) simp_all
  have "i div w < h" using assms(2) by (simp add: less_mult_imp_div_less mult.commute)
  then have "(y0 + i div w + 1) * stride \<le> (y0 + h) * stride" by (intro mult_right_mono) simp_all
  moreover have "x0 + i mod w < stride" using assms(1) mod_less_divisor [OF w, of i] by linarith
  ultimately show ?thesis by simp
qed

lemma grid_inject:
  fixes x y x' y' stride :: nat
  assumes "x < stride" and "x' < stride"
  shows "x + y * stride = x' + y' * stride \<longleftrightarrow> x = x' \<and> y = y'"
proof
  assume e: "x + y * stride = x' + y' * stride"
  have "(x + y * stride) mod stride = x" "(x' + y' * stride) mod stride = x'" using assms by simp_all
  with e have "x = x'" by simp
  with e assms show "x = x' \<and> y = y'" by simp
qed simp

lemma logo_pos_inj:
  assumes "0 < w" and "x0 + w \<le> stride"
  shows "inj_on (logo_pos x0 y0 w stride) A"
proof (rule inj_onI)
  fix i j assume e: "logo_pos x0 y0 w stride i = logo_pos x0 y0 w stride j"
  have "x0 + k mod w < stride" for k using assms(2) mod_less_divisor [OF assms(1), of k] by linarith
  from e grid_inject [OF this this] have "i mod w = j mod w" "i div w = j div w" by auto
  then show "i = j" by (metis div_mult_mod_eq)
qed

lemma draw_logo_from:
  assumes w: "0 < w" "3 * w + 3 < 2 ^ 31" and h: "h < 2 ^ 31" and fits: "x0 + w \<le> stride" "(y0 + h) * stride < USIZE_BOUND"
    and i: "i \<le> w * h" and fb: "(y0 + h) * stride \<le> length fb"
  shows "draw_logo x0 w stride \<lparr>bi_bmp = bmp24 w h px, bi_x = i mod w, bi_y = i div w\<rparr> (x0 + i mod w) (y0 + i div w) fb =
    Some (paint (logo_pos x0 y0 w stride) (\<lambda>j. rgb_of (px (j mod w) (j div w))) [i..<w * h] fb)"
  using i fb
proof (induction arbitrary: fb rule: inc_induct)
  case base
  show ?case using w h by (subst draw_logo.simps) (simp add: bmp_next_def bmp24_def)
next
  case (step i)
  let ?x = "i mod w" and ?y = "i div w"
  have x: "?x < w" using w(1) by simp
  have y: "?y < h" using step.hyps by (simp add: less_mult_imp_div_less mult.commute)
  have b: "logo_pos x0 y0 w stride i < (y0 + h) * stride" using logo_pos_bound [OF fits(1) step.hyps(2)] .
  have "0 < stride" using w(1) fits(1) by simp
  then have "y0 + ?y + 1 \<le> (y0 + h) * stride" using y by (cases stride) simp_all
  moreover have "x0 + ?x + 1 \<le> (y0 + h) * stride" using b by simp
  ultimately have run: "umul (y0 + ?y) stride = Some ((y0 + ?y) * stride)" "uadd (x0 + ?x) ((y0 + ?y) * stride) = Some (logo_pos x0 y0 w stride i)"
    "uadd (x0 + ?x) 1 = Some (x0 + ?x + 1)" "usub (x0 + ?x + 1) x0 = Some (?x + 1)" "uadd (y0 + ?y) 1 = Some (y0 + ?y + 1)"
    "rust_assert (logo_pos x0 y0 w stride i < length fb) = Some ()"
    using b fits(2) step.prems by simp_all
  note IH = step.IH [of "fb[logo_pos x0 y0 w stride i := rgb_of (px ?x ?y)]"]
  show ?case
    using step.prems x step.hyps(2) IH
    by (subst draw_logo.simps)
      (auto simp: bmp24_next [OF w(2) h x y] run mod_Suc div_Suc upt_conv_Cons simp del: One_nat_def; simp)
qed

section \<open>Properties\<close>

text \<open>C32. Drawing a logo of 24 bits per pixel that fits the screen ends without a panic. Every pixel of the logo
  is then at its place, the picture the right way up, and nothing else of the frame buffer has changed.\<close>

theorem logo_drawn:
  assumes w: "0 < w" "3 * w + 3 < 2 ^ 31" and h: "h < 2 ^ 31" and fits: "x0 + w \<le> stride" "(y0 + h) * stride < USIZE_BOUND"
    and fb: "(y0 + h) * stride \<le> length fb"
  shows "\<exists>fb'. draw_logo x0 w stride (bmp_into_iter (bmp24 w h px)) x0 y0 fb = Some fb' \<and> length fb' = length fb \<and>
    (\<forall>x y. x < stride \<longrightarrow> fb' ! (x + y * stride) =
      (if x0 \<le> x \<and> x < x0 + w \<and> y0 \<le> y \<and> y < y0 + h then rgb_of (px (x - x0) (y - y0)) else fb ! (x + y * stride)))"
proof -
  let ?pos = "logo_pos x0 y0 w stride" and ?col = "\<lambda>j. rgb_of (px (j mod w) (j div w))"
  let ?fb = "paint ?pos ?col [0..<w * h] fb"
  have run: "draw_logo x0 w stride (bmp_into_iter (bmp24 w h px)) x0 y0 fb = Some ?fb"
    using draw_logo_from [OF w h fits _ fb, of 0 px] by (simp add: bmp_into_iter_def)
  have col: "x0 + j mod w < stride" for j using fits(1) mod_less_divisor [OF w(1), of j] by linarith
  note at = paint_at [where fb = fb and col = ?col, OF distinct_upt logo_pos_inj [OF w(1) fits(1), of y0]]
  have "?fb ! (x + y * stride) = (if x0 \<le> x \<and> x < x0 + w \<and> y0 \<le> y \<and> y < y0 + h then rgb_of (px (x - x0) (y - y0)) else fb ! (x + y * stride))"
    if x: "x < stride" for x y
  proof (cases "x0 \<le> x \<and> x < x0 + w \<and> y0 \<le> y \<and> y < y0 + h")
    case True
    define j where "j = (y - y0) * w + (x - x0)"
    have "x - x0 < w" using True by auto
    then have m: "j mod w = x - x0" "j div w = y - y0" by (simp_all add: j_def)
    have "(y - y0 + 1) * w \<le> h * w" using True by (intro mult_right_mono) auto
    then have j: "j < w * h" using \<open>x - x0 < w\<close> by (simp add: j_def mult.commute)
    with logo_pos_bound [OF fits(1) j, of y0] fb at [of j] show ?thesis using True m by simp
  next
    case False
    have "x + y * stride \<notin> ?pos ` set [0..<w * h]"
    proof
      assume "x + y * stride \<in> ?pos ` set [0..<w * h]"
      then obtain j where j: "j < w * h" "x = x0 + j mod w" "y = y0 + j div w" using grid_inject [OF x col] by auto
      then have "j div w < h" by (simp add: less_mult_imp_div_less mult.commute)
      with j False mod_less_divisor [OF w(1), of j] show False by simp
    qed
    then have "?fb ! (x + y * stride) = fb ! (x + y * stride)" by (rule paint_other)
    with False show ?thesis by (simp only: if_False)
  qed
  with run show ?thesis by (intro exI [of _ ?fb]) simp
qed

theorem logo_drawn_witness:
  "\<exists>fb'. draw_logo 1 2 4 (bmp_into_iter (bmp24 2 1 (\<lambda>x y. (word_of_nat x, 2, 3)))) 1 1 (replicate 12 7) = Some fb' \<and>
    fb' ! 6 = 0x10203 \<and> fb' ! 7 = 7"
proof -
  from logo_drawn [of 2 1 1 4 1 "replicate 12 7" "\<lambda>x y. (word_of_nat x, 2, 3)"] obtain fb' where
    r: "draw_logo 1 2 4 (bmp_into_iter (bmp24 2 1 (\<lambda>x y. (word_of_nat x, 2, 3)))) 1 1 (replicate 12 7) = Some fb'" and
    p: "\<forall>x y. x < 4 \<longrightarrow> fb' ! (x + y * 4) = (if 1 \<le> x \<and> x < 1 + 2 \<and> 1 \<le> y \<and> y < 1 + 1
      then rgb_of (word_of_nat (x - 1), 2, 3) else replicate 12 7 ! (x + y * 4))" by auto
  from p [rule_format, of 2 1] p [rule_format, of 3 1] r show ?thesis by (simp add: rgb_of_def rgb_def)
qed

text \<open>Images of 32 bits per pixel are read one byte too far: from the bytes blue, green, red and padding of a
  pixel the colour is made with green in place of blue, red in place of green and the padding as red.\<close>

theorem bmp32_channels_shifted:
  "bmp_next \<lparr>bi_bmp = \<lparr>bmp_width = 1, bmp_height = 1, bmp_bpp = 32, bmp_mapping = [b, g, r, p]\<rparr>, bi_x = 0, bi_y = 0\<rparr> =
    Some (Some (rgb p r g), \<lparr>bi_bmp = \<lparr>bmp_width = 1, bmp_height = 1, bmp_bpp = 32, bmp_mapping = [b, g, r, p]\<rparr>, bi_x = 0, bi_y = 1\<rparr>)"
  by (simp add: bmp_next_def as_usize_def i32_def i32_ok_def i32_div_def usub_def umul_def uadd_def byte_at_def)

end
