(* ===== verification/Elf_File.thy ===== *)
theory Elf_File
  imports Bytes
begin

text \<open>
  Executable files, \<open>elf/src/lib.rs\<close>, \<open>header/file.rs\<close> and \<open>header/program.rs\<close>: the file header with its checks, the
  segments, and the place of an address of the executable in the file. The file is a list of bytes at
  address \<open>at\<close>, which matters for the alignment checks only. Header fields are read in the byte order of
  the machine, whatever the header says. Reads through pointers that leave the file are \<open>None\<close>.
\<close>

section \<open>The file header\<close>

datatype Width = Width32 | Width64

datatype Endianness = Little | Big

datatype Abi = SystemV

datatype ElfType = Relocatable | Executable | Shared | Core

datatype Isa = Nonspecific | Sparc | X86 | Mips | PowerPc | Arm | SuperH | Itanium | Amd64 | AArch64 | RiscV

datatype ElfError = NoElfHeader | IncorrectElfAlign | WrongMagic | InvalidWidth nat | InvalidEndianness nat |
  InvalidAbi nat | InvalidType nat | InvalidIsa nat

definition width_try_from :: "nat \<Rightarrow> (ElfError, Width) result" where
  "width_try_from v = (case map_of [(1, Width32), (2, Width64)] v of Some x \<Rightarrow> Inr x | None \<Rightarrow> Inl (InvalidWidth v))"

definition endianness_try_from :: "nat \<Rightarrow> (ElfError, Endianness) result" where
  "endianness_try_from v = (case map_of [(1, Little), (2, Big)] v of Some x \<Rightarrow> Inr x | None \<Rightarrow> Inl (InvalidEndianness v))"

definition abi_try_from :: "nat \<Rightarrow> (ElfError, Abi) result" where
  "abi_try_from v = (case map_of [(0, SystemV)] v of Some x \<Rightarrow> Inr x | None \<Rightarrow> Inl (InvalidAbi v))"

definition type_try_from :: "nat \<Rightarrow> (ElfError, ElfType) result" where
  "type_try_from v = (case map_of [(1, Relocatable), (2, Executable), (3, Shared), (4, Core)] v of
     Some x \<Rightarrow> Inr x | None \<Rightarrow> Inl (InvalidType v))"

definition isa_try_from :: "nat \<Rightarrow> (ElfError, Isa) result" where
  "isa_try_from v = (case map_of [(0, Nonspecific), (2, Sparc), (3, X86), (8, Mips), (0x14, PowerPc), (0x28, Arm),
       (0x2a, SuperH), (0x32, Itanium), (0x3e, Amd64), (0xb7, AArch64), (0xf3, RiscV)] v of
     Some x \<Rightarrow> Inr x | None \<Rightarrow> Inl (InvalidIsa v))"

text \<open>The part of the header whose layout depends on the width.\<close>

record FileHeaderBit =
  fh_entry_point :: usize
  fh_program_header_offset :: usize
  fh_section_header_offset :: usize
  fh_flags :: nat
  fh_header_size :: nat
  fh_program_header_entry_size :: usize
  fh_program_header_entry_count :: usize
  fh_section_header_entry_size :: usize
  fh_section_header_entry_count :: usize
  fh_string_table_index :: nat

record FileHeader =
  fh_magic :: "u8 list"
  fh_width :: Width
  fh_endianness :: Endianness
  fh_header_version :: nat
  fh_abi :: Abi
  fh_type :: ElfType
  fh_isa :: Isa
  fh_elf_version :: nat
  fh_extra :: FileHeaderBit

definition header_bit :: "nat \<Rightarrow> u8 list \<Rightarrow> FileHeaderBit" where
  "header_bit n bs = (let rest = 24 + 3 * n in
     \<lparr>fh_entry_point = field 24 n bs, fh_program_header_offset = field (24 + n) n bs,
      fh_section_header_offset = field (24 + 2 * n) n bs, fh_flags = field rest 4 bs, fh_header_size = field (rest + 4) 2 bs,
      fh_program_header_entry_size = field (rest + 6) 2 bs, fh_program_header_entry_count = field (rest + 8) 2 bs,
      fh_section_header_entry_size = field (rest + 10) 2 bs, fh_section_header_entry_count = field (rest + 12) 2 bs,
      fh_string_table_index = field (rest + 14) 2 bs\<rparr>)"

text \<open>\<open>TryFrom<&FileHeaderRaw>\<close>: the enumerations are checked in this order. The union is read by the width.\<close>

definition header_try_from :: "u8 list \<Rightarrow> (ElfError, FileHeader) result" where
  "header_try_from bs =
     (case width_try_from (field 4 1 bs) of
       Inl e \<Rightarrow> Inl e
     | Inr width \<Rightarrow> (case endianness_try_from (field 5 1 bs) of
         Inl e \<Rightarrow> Inl e
       | Inr endianness \<Rightarrow> (case abi_try_from (field 7 1 bs) of
           Inl e \<Rightarrow> Inl e
         | Inr abi \<Rightarrow> (case type_try_from (field 16 2 bs) of
             Inl e \<Rightarrow> Inl e
           | Inr ty \<Rightarrow> (case isa_try_from (field 18 2 bs) of
               Inl e \<Rightarrow> Inl e
             | Inr isa \<Rightarrow> Inr \<lparr>fh_magic = take 4 bs, fh_width = width, fh_endianness = endianness, fh_header_version = field 6 1 bs,
                 fh_abi = abi, fh_type = ty, fh_isa = isa, fh_elf_version = field 20 4 bs,
                 fh_extra = (case width of Width32 \<Rightarrow> header_bit 4 bs | Width64 \<Rightarrow> header_bit 8 bs)\<rparr>)))))"

definition FILE_HEADER_SIZE :: nat where
  "FILE_HEADER_SIZE = 64"

definition header_try_new :: "usize \<Rightarrow> u8 list \<Rightarrow> (ElfError, FileHeader) result" where
  "header_try_new at bs =
     (if length bs < FILE_HEADER_SIZE then Inl NoElfHeader
      else if at mod 8 \<noteq> 0 then Inl IncorrectElfAlign
      else case header_try_from bs of
        Inl e \<Rightarrow> Inl e
      | Inr header \<Rightarrow> if fh_magic header \<noteq> [0x7f, 0x45, 0x4c, 0x46] then Inl WrongMagic else Inr header)"

abbreviation program_header_entry_size :: "FileHeader \<Rightarrow> usize" where
  "program_header_entry_size h \<equiv> fh_program_header_entry_size (fh_extra h)"

abbreviation section_header_entry_size :: "FileHeader \<Rightarrow> usize" where
  "section_header_entry_size h \<equiv> fh_section_header_entry_size (fh_extra h)"

definition program_header :: "FileHeader \<Rightarrow> (usize \<times> usize) rust" where
  "program_header h = do {
     size \<leftarrow> umul (program_header_entry_size h) (fh_program_header_entry_count (fh_extra h));
     end \<leftarrow> uadd (fh_program_header_offset (fh_extra h)) size;
     Some (fh_program_header_offset (fh_extra h), end) }"

definition section_header :: "FileHeader \<Rightarrow> (usize \<times> usize) rust" where
  "section_header h = do {
     size \<leftarrow> umul (section_header_entry_size h) (fh_section_header_entry_count (fh_extra h));
     end \<leftarrow> uadd (fh_section_header_offset (fh_extra h)) size;
     Some (fh_section_header_offset (fh_extra h), end) }"

section \<open>Segments\<close>

record Segment =
  seg_type :: nat
  seg_flags :: nat
  seg_file_offset :: nat
  seg_vaddr :: nat
  seg_paddr :: nat
  seg_file_size :: nat
  seg_memory_size :: nat
  seg_alignment :: nat

definition SEGMENT_SIZE :: nat where
  "SEGMENT_SIZE = 56"

definition segment_at :: "nat \<Rightarrow> u8 list \<Rightarrow> Segment" where
  "segment_at off bs = \<lparr>seg_type = field off 4 bs, seg_flags = field (off + 4) 4 bs, seg_file_offset = field (off + 8) 8 bs,
     seg_vaddr = field (off + 16) 8 bs, seg_paddr = field (off + 24) 8 bs, seg_file_size = field (off + 32) 8 bs,
     seg_memory_size = field (off + 40) 8 bs, seg_alignment = field (off + 48) 8 bs\<rparr>"

definition SEG_LOAD :: nat where "SEG_LOAD = 1"

definition SEG_DYNAMIC :: nat where "SEG_DYNAMIC = 2"

definition SEG_TLS :: nat where "SEG_TLS = 7"

definition file_location :: "Segment \<Rightarrow> (usize \<times> usize) rust" where
  "file_location seg = do { end \<leftarrow> uadd (seg_file_offset seg) (seg_file_size seg); Some (seg_file_offset seg, end) }"

definition memory_location :: "Segment \<Rightarrow> (nat \<times> nat) rust" where
  "memory_location seg = do { end \<leftarrow> uadd (seg_vaddr seg) (seg_memory_size seg); Some (seg_vaddr seg, end) }"

section \<open>Files\<close>

record ElfFile =
  ef_base :: nat
  ef_header :: FileHeader
  ef_program_header :: "Segment list"
  ef_section_header :: "u8 list"
  ef_at :: usize
  ef_data :: "u8 list"

text \<open>A division by an entry size of zero panics. The table of segments is a slice of whole entries at an
  aligned address.\<close>

definition file_try_new :: "usize \<Rightarrow> u8 list \<Rightarrow> (ElfError, ElfFile) result rust" where
  "file_try_new at elf_data = do {
     header \<leftarrow> slice 0 FILE_HEADER_SIZE elf_data;
     case header_try_new at header of
       Inl e \<Rightarrow> Some (Inl e)
     | Inr header \<Rightarrow> do {
         (ps, pe) \<leftarrow> program_header header;
         rust_assert (program_header_entry_size header \<noteq> 0);
         let pcount = (pe - ps) div program_header_entry_size header;
         rust_assert ((at + ps) mod 8 = 0);
         rust_assert (ps + pcount * SEGMENT_SIZE \<le> length elf_data);
         (ss, se) \<leftarrow> section_header header;
         rust_assert (section_header_entry_size header \<noteq> 0);
         let scount = (se - ss) div section_header_entry_size header;
         sections \<leftarrow> slice ss (ss + scount) elf_data;
         Some (Inr \<lparr>ef_base = 0, ef_header = header,
           ef_program_header = map (\<lambda>i. segment_at (ps + i * SEGMENT_SIZE) elf_data) [0..<pcount],
           ef_section_header = sections, ef_at = at, ef_data = elf_data\<rparr>) } }"

text \<open>The segments, moved by the base. The iterator computes each segment when it is asked for.\<close>

definition moved_segment :: "ElfFile \<Rightarrow> Segment \<Rightarrow> Segment rust" where
  "moved_segment self entry = do { v \<leftarrow> uadd (seg_vaddr entry) (ef_base self); Some (entry\<lparr>seg_vaddr := v\<rparr>) }"

fun find_segment :: "ElfFile \<Rightarrow> (Segment \<Rightarrow> bool rust) \<Rightarrow> Segment list \<Rightarrow> Segment option rust" where
  "find_segment self p [] = Some None"
| "find_segment self p (entry # entries) = do {
     seg \<leftarrow> moved_segment self entry;
     found \<leftarrow> p seg;
     if found then Some (Some seg) else find_segment self p entries }"

definition index_data :: "ElfFile \<Rightarrow> usize \<times> usize \<Rightarrow> u8 list rust" where
  "index_data self loc = slice (fst loc) (snd loc) (ef_data self)"

definition ranges_overlap :: "usize \<times> usize \<Rightarrow> usize \<times> usize \<Rightarrow> bool" where
  "ranges_overlap a b \<longleftrightarrow> \<not> (fst a \<ge> snd b \<or> fst b \<ge> snd a)"

definition index_data_mut :: "ElfFile \<Rightarrow> usize \<times> usize \<Rightarrow> u8 list rust" where
  "index_data_mut self loc = do {
     ph \<leftarrow> program_header (ef_header self);
     sh \<leftarrow> section_header (ef_header self);
     rust_assert (\<not> ranges_overlap loc (0, FILE_HEADER_SIZE) \<and> \<not> ranges_overlap loc ph \<and> \<not> ranges_overlap loc sh);
     slice (fst loc) (snd loc) (ef_data self) }"

definition segment_for_address :: "ElfFile \<Rightarrow> nat \<Rightarrow> Segment option rust" where
  "segment_for_address self addr = find_segment self
     (\<lambda>seg. do { (a, b) \<leftarrow> memory_location seg; Some (a \<le> addr \<and> addr < b) }) (ef_program_header self)"

text \<open>A pointer into the file is an offset into its data.\<close>

definition data_at_address :: "ElfFile \<Rightarrow> nat \<Rightarrow> usize option rust" where
  "data_at_address self addr = do {
     found \<leftarrow> segment_for_address self addr;
     case found of
       None \<Rightarrow> Some None
     | Some seg \<Rightarrow> do {
         loc \<leftarrow> file_location seg;
         bytes \<leftarrow> index_data self loc;
         d \<leftarrow> usub addr (seg_vaddr seg);
         Some (Some (fst loc + d)) } }"

definition data_at_address_mut :: "ElfFile \<Rightarrow> nat \<Rightarrow> usize option rust" where
  "data_at_address_mut self addr = do {
     found \<leftarrow> segment_for_address self addr;
     case found of
       None \<Rightarrow> Some None
     | Some seg \<Rightarrow> do {
         loc \<leftarrow> file_location seg;
         bytes \<leftarrow> index_data_mut self loc;
         d \<leftarrow> usub addr (seg_vaddr seg);
         Some (Some (fst loc + d)) } }"

definition data_at_unrel_address :: "ElfFile \<Rightarrow> nat \<Rightarrow> usize option rust" where
  "data_at_unrel_address self addr = do { a \<leftarrow> uadd addr (ef_base self); data_at_address self a }"

definition data_at_unrel_address_mut :: "ElfFile \<Rightarrow> nat \<Rightarrow> usize option rust" where
  "data_at_unrel_address_mut self addr = do { a \<leftarrow> uadd addr (ef_base self); data_at_address_mut self a }"

definition entrypoint :: "ElfFile \<Rightarrow> usize" where
  "entrypoint self = fh_entry_point (fh_extra (ef_header self))"

section \<open>A writer\<close>

text \<open>A 64-bit file with its segment table right behind the header and an empty section table after it.\<close>

fun type_code :: "ElfType \<Rightarrow> nat" where
  "type_code Relocatable = 1"
| "type_code Executable = 2"
| "type_code Shared = 3"
| "type_code Core = 4"

definition segment_bytes :: "Segment \<Rightarrow> u8 list" where
  "segment_bytes s = to_le 4 (seg_type s) @ to_le 4 (seg_flags s) @ to_le 8 (seg_file_offset s) @ to_le 8 (seg_vaddr s) @
     to_le 8 (seg_paddr s) @ to_le 8 (seg_file_size s) @ to_le 8 (seg_memory_size s) @ to_le 8 (seg_alignment s)"

definition elf_header_bytes :: "ElfType \<Rightarrow> nat \<Rightarrow> nat \<Rightarrow> u8 list" where
  "elf_header_bytes ty entry count = [0x7f, 0x45, 0x4c, 0x46, 2, 1, 1, 0] @ to_le 8 0 @ to_le 2 (type_code ty) @ to_le 2 0x3e @ to_le 4 1 @
     to_le 8 entry @ to_le 8 64 @ to_le 8 (64 + 56 * count) @ to_le 4 0 @ to_le 2 64 @ to_le 2 56 @ to_le 2 count @ to_le 2 64 @ to_le 2 0 @ to_le 2 0"

definition elf_file :: "ElfType \<Rightarrow> nat \<Rightarrow> Segment list \<Rightarrow> u8 list \<Rightarrow> u8 list" where
  "elf_file ty entry segs rest = elf_header_bytes ty entry (length segs) @ concat (map segment_bytes segs) @ rest"

definition segment_fits :: "Segment \<Rightarrow> bool" where
  "segment_fits s \<longleftrightarrow> seg_type s < 2 ^ 32 \<and> seg_flags s < 2 ^ 32 \<and> seg_file_offset s < 2 ^ 64 \<and> seg_vaddr s < 2 ^ 64 \<and>
     seg_paddr s < 2 ^ 64 \<and> seg_file_size s < 2 ^ 64 \<and> seg_memory_size s < 2 ^ 64 \<and> seg_alignment s < 2 ^ 64"

lemma length_segment_bytes [simp]: "length (segment_bytes s) = SEGMENT_SIZE"
  by (simp add: segment_bytes_def SEGMENT_SIZE_def)

lemma length_elf_header_bytes [simp]: "length (elf_header_bytes ty entry count) = FILE_HEADER_SIZE"
  by (simp add: elf_header_bytes_def FILE_HEADER_SIZE_def)

lemma field_drop: "field (off + k) n bs = field k n (drop off bs)"
  by (simp add: field_def add.commute)

lemma segment_at_bytes:
  assumes "drop off bs = segment_bytes s @ rest" and "segment_fits s"
  shows "segment_at off bs = s"
proof -
  have "field off 4 bs = field 0 4 (drop off bs)" by (simp add: field_def)
  then show ?thesis using assms(2)
    by (simp add: segment_at_def field_drop assms(1) segment_fits_def) (simp add: segment_bytes_def field_def)
qed

lemma elf_header_parsed:
  assumes "at mod 8 = 0" and "entry < 2 ^ 64" and "count < 2 ^ 16"
  shows "header_try_new at (elf_header_bytes ty entry count) =
    Inr \<lparr>fh_magic = [0x7f, 0x45, 0x4c, 0x46], fh_width = Width64, fh_endianness = Little, fh_header_version = 1, fh_abi = SystemV,
      fh_type = ty, fh_isa = Amd64, fh_elf_version = 1,
      fh_extra = \<lparr>fh_entry_point = entry, fh_program_header_offset = 64, fh_section_header_offset = 64 + 56 * count, fh_flags = 0,
        fh_header_size = 64, fh_program_header_entry_size = 56, fh_program_header_entry_count = count,
        fh_section_header_entry_size = 64, fh_section_header_entry_count = 0, fh_string_table_index = 0\<rparr>\<rparr>"
proof -
  let ?bs = "elf_header_bytes ty entry count"
  have kinds: "field 4 1 ?bs = 2" "field 5 1 ?bs = 1" "field 7 1 ?bs = 0" "field 6 1 ?bs = 1" "field 18 2 ?bs = 0x3e" "field 20 4 ?bs = 1"
    "take 4 ?bs = [0x7f, 0x45, 0x4c, 0x46]" "field 16 2 ?bs = type_code ty"
    by (cases ty; simp add: elf_header_bytes_def field_def)+
  have bit: "header_bit 8 ?bs = \<lparr>fh_entry_point = entry, fh_program_header_offset = 64, fh_section_header_offset = 64 + 56 * count,
      fh_flags = 0, fh_header_size = 64, fh_program_header_entry_size = 56, fh_program_header_entry_count = count,
      fh_section_header_entry_size = 64, fh_section_header_entry_count = 0, fh_string_table_index = 0\<rparr>"
    using assms(2,3) by (simp add: header_bit_def elf_header_bytes_def field_def)
  have "type_try_from (type_code ty) = Inr ty" by (cases ty) (simp_all add: type_try_from_def)
  with assms(1) bit show ?thesis
    by (simp add: header_try_new_def header_try_from_def kinds [unfolded One_nat_def] width_try_from_def endianness_try_from_def abi_try_from_def isa_try_from_def)
qed

section \<open>Addresses\<close>

text \<open>Looking an address up moves with the base: nothing of the answer but its existence depends on it.\<close>

definition segment_ok :: "nat \<Rightarrow> u8 list \<Rightarrow> Segment \<Rightarrow> bool" where
  "segment_ok b bs s \<longleftrightarrow> seg_vaddr s + b + seg_memory_size s < USIZE_BOUND \<and> seg_file_offset s + seg_file_size s \<le> length bs \<and>
     length bs < USIZE_BOUND"

definition covers :: "nat \<Rightarrow> Segment \<Rightarrow> bool" where
  "covers a s \<longleftrightarrow> seg_vaddr s \<le> a \<and> a < seg_vaddr s + seg_memory_size s"

lemma find_segment_covers:
  assumes "\<forall>s \<in> set segs. segment_ok (ef_base self) (ef_data self) s"
  shows "find_segment self (\<lambda>seg. do { (a, b) \<leftarrow> memory_location seg; Some (a \<le> addr + ef_base self \<and> addr + ef_base self < b) }) segs =
    Some (map_option (\<lambda>s. s\<lparr>seg_vaddr := seg_vaddr s + ef_base self\<rparr>) (find (covers addr) segs))"
  using assms
proof (induction segs)
  case (Cons s segs)
  have "seg_vaddr s + ef_base self < USIZE_BOUND" "seg_vaddr s + ef_base self + seg_memory_size s < USIZE_BOUND"
    using Cons.prems by (simp_all add: segment_ok_def)
  with Cons show ?case by (auto simp: moved_segment_def uadd_def memory_location_def covers_def)
qed simp

lemma data_at_unrel_covers:
  assumes "\<forall>s \<in> set (ef_program_header self). segment_ok (ef_base self) (ef_data self) s" and "addr + ef_base self < USIZE_BOUND"
  shows "data_at_unrel_address self addr =
    Some (map_option (\<lambda>s. seg_file_offset s + (addr - seg_vaddr s)) (find (covers addr) (ef_program_header self)))"
proof -
  note found = find_segment_covers [OF assms(1), of addr]
  show ?thesis
  proof (cases "find (covers addr) (ef_program_header self)")
    case None
    with found assms(2) show ?thesis by (simp add: data_at_unrel_address_def data_at_address_def segment_for_address_def uadd_def)
  next
    case (Some s)
    then have s: "s \<in> set (ef_program_header self)" "covers addr s" by (auto simp: find_Some_iff)
    with assms(1) have "segment_ok (ef_base self) (ef_data self) s" by blast
    with s(2) found Some assms(2) show ?thesis
      by (auto simp: data_at_unrel_address_def data_at_address_def segment_for_address_def uadd_def file_location_def index_data_def
        slice_def segment_ok_def covers_def usub_def)
  qed
qed

section \<open>Properties\<close>



text \<open>A file shorter than a header panics: the slice is taken before the header is checked, so that the error
  for a missing header is never returned.\<close>

theorem elf_short_file_panics: "length bs < FILE_HEADER_SIZE \<Longrightarrow> file_try_new at bs = None"
  by (simp add: file_try_new_def slice_def)

text \<open>Whether a file is one at all is checked last: a file of another kind is reported as one of an unknown
  width or processor.\<close>

lemma elf_magic_checked_last:
  "header_try_new 0 (replicate 64 0) = Inl (InvalidWidth 0)"
  by code_simp

end
