(* ===== verification/Elf_Dynamic.thy ===== *)
theory Elf_Dynamic
  imports Elf_File
begin

text \<open>
  The dynamic table of an executable, \<open>elf/src/dynamic_table.rs\<close>, its string table, \<open>string_table.rs\<close>, and its
  symbols, \<open>symbol_table.rs\<close>. The iterators of the source are searches through the entries in their order;
  a tag below zero, which the source accepts and reads as an enumeration, is \<open>None\<close>.
\<close>

unbundle bit_operations_syntax

section \<open>The dynamic table\<close>

datatype ExecutableAddressUnrelocated = Unrelocated nat

datatype ExecutableAddressRelocated = Relocated nat

datatype 'a DynamicTableEntry = DynNull | NeededLibrary nat | PltRelocationTableSize nat | PltGot 'a | HashTable 'a | StringTable 'a |
  SymbolTable 'a | RelaTableAddress 'a | RelaTableSize nat | RelaTableEntrySize nat | StringTableSize nat |
  SymbolTableEntrySize nat | InitFunction 'a | TerminateFunction 'a | ObjectName nat | RPath nat | Symbolic |
  RelTableAddress 'a | RelTableSize nat | RelTableEntrySize nat | PltRelType nat | DynDebug | TextRelocations |
  JumptableRelocations 'a

definition TAG_COUNT :: int where
  "TAG_COUNT = 24"

definition entry_of_tag :: "nat \<Rightarrow> nat \<Rightarrow> ExecutableAddressUnrelocated DynamicTableEntry" where
  "entry_of_tag tag v = [DynNull, NeededLibrary v, PltRelocationTableSize v, PltGot (Unrelocated v), HashTable (Unrelocated v),
     StringTable (Unrelocated v), SymbolTable (Unrelocated v), RelaTableAddress (Unrelocated v), RelaTableSize v,
     RelaTableEntrySize v, StringTableSize v, SymbolTableEntrySize v, InitFunction (Unrelocated v),
     TerminateFunction (Unrelocated v), ObjectName v, RPath v, Symbolic, RelTableAddress (Unrelocated v), RelTableSize v,
     RelTableEntrySize v, PltRelType v, DynDebug, TextRelocations, JumptableRelocations (Unrelocated v)] ! tag"

fun addr_relocate :: "nat \<Rightarrow> ExecutableAddressUnrelocated \<Rightarrow> ExecutableAddressRelocated rust" where
  "addr_relocate b (Unrelocated a) = do { s \<leftarrow> uadd a b; Some (Relocated s) }"

fun entry_relocate ::
  "nat \<Rightarrow> ExecutableAddressUnrelocated DynamicTableEntry \<Rightarrow> ExecutableAddressRelocated DynamicTableEntry rust" where
  "entry_relocate b DynNull = Some DynNull"
| "entry_relocate b (NeededLibrary v) = Some (NeededLibrary v)"
| "entry_relocate b (PltRelocationTableSize v) = Some (PltRelocationTableSize v)"
| "entry_relocate b (PltGot v) = map_option PltGot (addr_relocate b v)"
| "entry_relocate b (HashTable v) = map_option HashTable (addr_relocate b v)"
| "entry_relocate b (StringTable v) = map_option StringTable (addr_relocate b v)"
| "entry_relocate b (SymbolTable v) = map_option SymbolTable (addr_relocate b v)"
| "entry_relocate b (RelaTableAddress v) = map_option RelaTableAddress (addr_relocate b v)"
| "entry_relocate b (RelaTableSize v) = Some (RelaTableSize v)"
| "entry_relocate b (RelaTableEntrySize v) = Some (RelaTableEntrySize v)"
| "entry_relocate b (StringTableSize v) = Some (StringTableSize v)"
| "entry_relocate b (SymbolTableEntrySize v) = Some (SymbolTableEntrySize v)"
| "entry_relocate b (InitFunction v) = map_option InitFunction (addr_relocate b v)"
| "entry_relocate b (TerminateFunction v) = map_option TerminateFunction (addr_relocate b v)"
| "entry_relocate b (ObjectName v) = Some (ObjectName v)"
| "entry_relocate b (RPath v) = Some (RPath v)"
| "entry_relocate b Symbolic = Some Symbolic"
| "entry_relocate b (RelTableAddress v) = map_option RelTableAddress (addr_relocate b v)"
| "entry_relocate b (RelTableSize v) = Some (RelTableSize v)"
| "entry_relocate b (RelTableEntrySize v) = Some (RelTableEntrySize v)"
| "entry_relocate b (PltRelType v) = Some (PltRelType v)"
| "entry_relocate b DynDebug = Some DynDebug"
| "entry_relocate b TextRelocations = Some TextRelocations"
| "entry_relocate b (JumptableRelocations v) = map_option JumptableRelocations (addr_relocate b v)"

text \<open>\<open>DynamicTableIter\<close>: pairs of tag and value, at an aligned address.\<close>

definition dynamic_iter_new :: "usize \<Rightarrow> u8 list \<Rightarrow> (int \<times> nat) list rust" where
  "dynamic_iter_new ptr bs = do {
     rust_assert (ptr mod 8 = 0);
     Some (map (\<lambda>i. (le_signed 8 (field (16 * i) 8 bs), field (16 * i + 8) 8 bs)) [0..<length bs div 16]) }"

definition dynamic_iter_item :: "int \<times> nat \<Rightarrow> (unit, ExecutableAddressUnrelocated DynamicTableEntry) result rust" where
  "dynamic_iter_item tag =
     (if fst tag < TAG_COUNT then (if fst tag < 0 then None else Some (Inr (entry_of_tag (nat (fst tag)) (snd tag))))
      else Some (Inl ()))"

definition dynamic_pairs :: "ElfFile \<Rightarrow> (int \<times> nat) list rust" where
  "dynamic_pairs self = do {
     found \<leftarrow> find_segment self (\<lambda>seg. Some (seg_type seg = SEG_DYNAMIC)) (ef_program_header self);
     seg \<leftarrow> found;
     loc \<leftarrow> file_location seg;
     bytes \<leftarrow> index_data self loc;
     dynamic_iter_new (ef_at self + fst loc) bytes }"

text \<open>The next relocated entry of the table, entries with unknown tags being skipped.\<close>

definition dynamic_item :: "ElfFile \<Rightarrow> int \<times> nat \<Rightarrow> ExecutableAddressRelocated DynamicTableEntry option rust" where
  "dynamic_item self tag = do {
     r \<leftarrow> dynamic_iter_item tag;
     case r of
       Inl _ \<Rightarrow> Some None
     | Inr e \<Rightarrow> map_option Some (entry_relocate (ef_base self) e) }"

fun find_entry :: "ElfFile \<Rightarrow> (ExecutableAddressRelocated DynamicTableEntry \<Rightarrow> 'b option) \<Rightarrow> (int \<times> nat) list \<Rightarrow> 'b option rust" where
  "find_entry self f [] = Some None"
| "find_entry self f (tag # tags) = do {
     item \<leftarrow> dynamic_item self tag;
     case Option.bind item f of
       Some b \<Rightarrow> Some (Some b)
     | None \<Rightarrow> find_entry self f tags }"

fun filter_entries :: "ElfFile \<Rightarrow> (ExecutableAddressRelocated DynamicTableEntry \<Rightarrow> 'b option) \<Rightarrow> (int \<times> nat) list \<Rightarrow> 'b list rust" where
  "filter_entries self f [] = Some []"
| "filter_entries self f (tag # tags) = do {
     item \<leftarrow> dynamic_item self tag;
     bs \<leftarrow> filter_entries self f tags;
     Some (case Option.bind item f of Some b \<Rightarrow> b # bs | None \<Rightarrow> bs) }"

definition dynamic_find :: "ElfFile \<Rightarrow> (ExecutableAddressRelocated DynamicTableEntry \<Rightarrow> 'b option) \<Rightarrow> 'b option rust" where
  "dynamic_find self f = do { tags \<leftarrow> dynamic_pairs self; find_entry self f tags }"

definition dynamic_filter :: "ElfFile \<Rightarrow> (ExecutableAddressRelocated DynamicTableEntry \<Rightarrow> 'b option) \<Rightarrow> 'b list rust" where
  "dynamic_filter self f = do { tags \<leftarrow> dynamic_pairs self; filter_entries self f tags }"

text \<open>\<open>data_at_address(addr).unwrap()\<close>\<close>

fun data_ptr :: "ElfFile \<Rightarrow> ExecutableAddressRelocated \<Rightarrow> usize rust" where
  "data_ptr self (Relocated a) = do { p \<leftarrow> data_at_address self a; p }"

section \<open>Strings\<close>

record StringTable =
  st_start :: usize
  st_len :: usize

definition dynamic_string_table :: "ElfFile \<Rightarrow> StringTable option rust" where
  "dynamic_string_table self = do {
     addr \<leftarrow> dynamic_find self (\<lambda>e. case e of StringTable a \<Rightarrow> Some a | _ \<Rightarrow> None);
     case addr of
       None \<Rightarrow> Some None
     | Some a \<Rightarrow> do {
         len \<leftarrow> dynamic_find self (\<lambda>e. case e of StringTableSize n \<Rightarrow> Some n | _ \<Rightarrow> None);
         case len of
           None \<Rightarrow> Some None
         | Some n \<Rightarrow> do {
             p \<leftarrow> data_ptr self a;
             rust_assert (p + n \<le> length (ef_data self));
             Some (Some \<lparr>st_start = p, st_len = n\<rparr>) } } }"

text \<open>\<open>CStr::from_ptr\<close>: the bytes up to the first zero, wherever that is in the file.\<close>

definition c_str :: "u8 list \<Rightarrow> usize \<Rightarrow> u8 list rust" where
  "c_str bs p = (let s = takeWhile (\<lambda>b. b \<noteq> 0) (drop p bs) in if p + length s < length bs then Some s else None)"

definition get_string :: "ElfFile \<Rightarrow> StringTable \<Rightarrow> nat \<Rightarrow> u8 list rust" where
  "get_string file self index = do {
     rust_assert (index < st_len self);
     c_str (ef_data file) (st_start self + index) }"

section \<open>Symbols\<close>

record SymbolTableEntry =
  sym_name :: "nat option"
  sym_info :: u8
  sym_other :: u8
  sym_section_table_index :: nat
  sym_value :: ExecutableAddressUnrelocated
  sym_size :: nat

definition SYMBOL_SIZE :: nat where
  "SYMBOL_SIZE = 24"

definition symbol_at :: "u8 list \<Rightarrow> nat \<Rightarrow> SymbolTableEntry" where
  "symbol_at bs off = \<lparr>sym_name = (let n = field off 4 bs in if n = 0 then None else Some n), sym_info = byte_field (off + 4) bs,
     sym_other = byte_field (off + 5) bs, sym_section_table_index = field (off + 6) 2 bs,
     sym_value = Unrelocated (field (off + 8) 8 bs), sym_size = field (off + 16) 8 bs\<rparr>"

definition get_binding :: "u8 \<Rightarrow> u8" where
  "get_binding info = info AND 0xf"

definition get_type :: "u8 \<Rightarrow> u8" where
  "get_type info = drop_bit 4 info"

definition is_local :: "u8 \<Rightarrow> bool" where
  "is_local info \<longleftrightarrow> get_binding info = 0"

definition is_weak_info :: "u8 \<Rightarrow> bool" where
  "is_weak_info info \<longleftrightarrow> get_binding info = 2"

definition dynamic_symbol_table :: "ElfFile \<Rightarrow> SymbolTableEntry list option rust" where
  "dynamic_symbol_table self = do {
     symbol_table_addr \<leftarrow> dynamic_find self (\<lambda>e. case e of SymbolTable a \<Rightarrow> Some a | _ \<Rightarrow> None);
     case symbol_table_addr of
       None \<Rightarrow> Some None
     | Some sa \<Rightarrow> do {
         hash_table_addr \<leftarrow> dynamic_find self (\<lambda>e. case e of HashTable a \<Rightarrow> Some a | _ \<Rightarrow> None);
         case hash_table_addr of
           None \<Rightarrow> Some None
         | Some ha \<Rightarrow> do {
             hp \<leftarrow> data_ptr self ha;
             rust_assert (hp + 8 \<le> length (ef_data self));
             let len = field (hp + 4) 4 (ef_data self);
             sp \<leftarrow> data_ptr self sa;
             rust_assert (sp + len * SYMBOL_SIZE \<le> length (ef_data self));
             Some (Some (map (\<lambda>i. symbol_at (ef_data self) (sp + i * SYMBOL_SIZE)) [0..<len])) } } }"

datatype ExportedSymbolTy = Strong | Weak

record ExportedSymbol =
  es_ty :: ExportedSymbolTy
  es_value :: ExecutableAddressRelocated
  es_size :: nat

definition is_strong :: "ExportedSymbol \<Rightarrow> bool" where
  "is_strong self \<longleftrightarrow> es_ty self = Strong"

definition is_weak :: "ExportedSymbol \<Rightarrow> bool" where
  "is_weak self \<longleftrightarrow> \<not> is_strong self"

type_synonym SymbolMap = "u8 list \<rightharpoonup> ExportedSymbol"

text \<open>\<open>HashMap::try_insert\<close>: the error carries the value that was not inserted.\<close>

definition try_insert :: "u8 list \<Rightarrow> ExportedSymbol \<Rightarrow> SymbolMap \<Rightarrow> (ExportedSymbol, unit) result \<times> SymbolMap" where
  "try_insert name v m = (case m name of None \<Rightarrow> (Inr (), m(name \<mapsto> v)) | Some _ \<Rightarrow> (Inl v, m))"

definition symbol_map_insert :: "u8 list \<Rightarrow> ExportedSymbol \<Rightarrow> SymbolMap \<Rightarrow> SymbolMap" where
  "symbol_map_insert name addr m =
     (if is_weak addr then snd (try_insert name addr m)
      else case try_insert name addr m of
        (Inl value, m') \<Rightarrow> if is_weak value then m'(name \<mapsto> addr) else m'
      | (Inr _, m') \<Rightarrow> m')"

definition export_symbol :: "ElfFile \<Rightarrow> StringTable \<Rightarrow> SymbolTableEntry \<Rightarrow> SymbolMap \<Rightarrow> SymbolMap rust" where
  "export_symbol self strings symbol m =
     (if sym_section_table_index symbol \<noteq> 0 \<and> \<not> is_local (sym_info symbol) then do {
        index \<leftarrow> sym_name symbol;
        name \<leftarrow> get_string self strings index;
        value \<leftarrow> addr_relocate (ef_base self) (sym_value symbol);
        let ty = (if is_weak_info (sym_info symbol) then Weak else Strong);
        Some (symbol_map_insert name \<lparr>es_ty = ty, es_value = value, es_size = sym_size symbol\<rparr> m) }
      else Some m)"

definition exported_symbols :: "ElfFile \<Rightarrow> SymbolMap rust" where
  "exported_symbols self = do {
     symbols \<leftarrow> dynamic_symbol_table self;
     case symbols of
       None \<Rightarrow> Some Map.empty
     | Some table \<Rightarrow> do {
         strings \<leftarrow> dynamic_string_table self;
         strings \<leftarrow> strings;
         for_each (export_symbol self strings) table Map.empty } }"

section \<open>Which definition wins\<close>

lemma symbol_map_insert_first: "symbol_map_insert name v m = (if m name = None then m(name \<mapsto> v) else m)"
  by (auto simp: symbol_map_insert_def try_insert_def split: option.split)

text \<open>The entries of the symbol table that define \<open>name\<close>, and what is exported for one.\<close>

definition definition_of :: "ElfFile \<Rightarrow> StringTable \<Rightarrow> u8 list \<Rightarrow> SymbolTableEntry \<Rightarrow> bool" where
  "definition_of self strings name s \<longleftrightarrow> sym_section_table_index s \<noteq> 0 \<and> \<not> is_local (sym_info s) \<and>
     Option.bind (sym_name s) (get_string self strings) = Some name"

definition exported :: "ElfFile \<Rightarrow> SymbolTableEntry \<Rightarrow> ExportedSymbol" where
  "exported self s = \<lparr>es_ty = (if is_weak_info (sym_info s) then Weak else Strong),
     es_value = the (addr_relocate (ef_base self) (sym_value s)), es_size = sym_size s\<rparr>"

lemma export_symbol_first:
  assumes "export_symbol self strings s m = Some m'"
  shows "m' name = (if m name = None \<and> definition_of self strings name s then Some (exported self s) else m name)"
proof (cases "sym_section_table_index s \<noteq> 0 \<and> \<not> is_local (sym_info s)")
  case True
  with assms obtain i nm v where "sym_name s = Some i" "get_string self strings i = Some nm" "addr_relocate (ef_base self) (sym_value s) = Some v"
    and "m' = symbol_map_insert nm \<lparr>es_ty = if is_weak_info (sym_info s) then Weak else Strong, es_value = v, es_size = sym_size s\<rparr> m"
    by (auto simp: export_symbol_def bind_eq_Some_conv)
  with True show ?thesis by (auto simp: symbol_map_insert_first definition_of_def exported_def)
next
  case False
  with assms show ?thesis by (auto simp: export_symbol_def definition_of_def)
qed

lemma export_symbols_first:
  assumes "for_each (export_symbol self strings) table m = Some m'"
  shows "m' name = (case m name of
      Some e \<Rightarrow> Some e
    | None \<Rightarrow> map_option (exported self) (find (definition_of self strings name) table))"
  using assms
proof (induction table arbitrary: m)
  case (Cons s table)
  from Cons.prems obtain m1 where m1: "export_symbol self strings s m = Some m1" "for_each (export_symbol self strings) table m1 = Some m'"
    by (auto simp: bind_eq_Some_conv)
  from Cons.IH [OF m1(2)] export_symbol_first [OF m1(1), of name] show ?case by (auto split: option.split)
qed (simp split: option.split)

section \<open>An example\<close>

text \<open>A file with the tables above: two definitions of one name, and one relocation.\<close>

definition sample_bytes :: "u8 list" where
  "sample_bytes = replicate 64 0 @
     [5, 0, 0, 0, 0, 0, 0, 0, 248, 0, 0, 0, 0, 0, 0, 0, 10, 0, 0, 0, 0, 0, 0, 0, 3, 0, 0, 0, 0, 0, 0, 0, 6, 0, 0, 0,
      0, 0, 0, 0, 168, 0, 0, 0, 0, 0, 0, 0, 4, 0, 0, 0, 0, 0, 0, 0, 160, 0, 0, 0, 0, 0, 0, 0, 7, 0, 0, 0, 0, 0, 0,
      0, 216, 0, 0, 0, 0, 0, 0, 0, 8, 0, 0, 0, 0, 0, 0, 0, 24, 0, 0, 0, 0, 0, 0, 0] @
     [0, 0, 0, 0, 2, 0, 0, 0] @
     [1, 0, 0, 0, 18, 0, 1, 0, 16, 0, 0, 0, 0, 0, 0, 0, 4, 0, 0, 0, 0, 0, 0, 0, 1, 0, 0, 0, 18, 0, 1, 0, 32, 0, 0,
      0, 0, 0, 0, 0, 4, 0, 0, 0, 0, 0, 0, 0] @
     [240, 0, 0, 0, 0, 0, 0, 0, 8, 0, 0, 0, 0, 0, 0, 0, 16, 0, 0, 0, 0, 0, 0, 0] @
     [0, 0, 0, 0, 0, 0, 0, 0] @
     [0, 102, 0]"

definition sample_file :: ElfFile where
  "sample_file = \<lparr>ef_base = 0,
     ef_header = \<lparr>fh_magic = [0x7f, 0x45, 0x4c, 0x46], fh_width = Width64, fh_endianness = Little, fh_header_version = 1, fh_abi = SystemV,
       fh_type = Shared, fh_isa = Amd64, fh_elf_version = 1,
       fh_extra = \<lparr>fh_entry_point = 0, fh_program_header_offset = 64, fh_section_header_offset = 64, fh_flags = 0,
         fh_header_size = 64, fh_program_header_entry_size = 56, fh_program_header_entry_count = 0,
         fh_section_header_entry_size = 64, fh_section_header_entry_count = 0, fh_string_table_index = 0\<rparr>\<rparr>,
     ef_program_header =
       [\<lparr>seg_type = SEG_LOAD, seg_flags = 7, seg_file_offset = 64, seg_vaddr = 64, seg_paddr = 0, seg_file_size = 187,
          seg_memory_size = 187, seg_alignment = 8\<rparr>,
        \<lparr>seg_type = SEG_DYNAMIC, seg_flags = 6, seg_file_offset = 64, seg_vaddr = 64, seg_paddr = 0, seg_file_size = 96,
          seg_memory_size = 96, seg_alignment = 8\<rparr>],
     ef_section_header = [], ef_at = 0, ef_data = sample_bytes\<rparr>"

lemma length_sample: "length sample_bytes = 251"
  by (simp add: sample_bytes_def)

lemma sample_pairs: "dynamic_pairs sample_file = Some [(5, 248), (10, 3), (6, 168), (4, 160), (7, 216), (8, 24)]"
  by (simp add: dynamic_pairs_def sample_file_def moved_segment_def uadd_def file_location_def index_data_def slice_def length_sample
      dynamic_iter_new_def rust_assert_def upt_rec SEG_DYNAMIC_def SEG_LOAD_def) (simp add: sample_bytes_def field_def le_signed_def)

lemma sample_ptr: "64 \<le> a \<Longrightarrow> a < 251 \<Longrightarrow> data_at_address sample_file a = Some (Some a)"
  by (simp add: data_at_address_def segment_for_address_def sample_file_def moved_segment_def uadd_def memory_location_def
      file_location_def index_data_def slice_def length_sample usub_def)

lemma sample_fields: "ef_base sample_file = 0" "ef_data sample_file = sample_bytes"
  by (simp_all add: sample_file_def)

lemmas sample_eval = dynamic_find_def dynamic_filter_def sample_pairs dynamic_item_def dynamic_iter_item_def TAG_COUNT_def
  entry_of_tag_def sample_ptr sample_fields length_sample uadd_def rust_assert_def

lemma sample_strings: "dynamic_string_table sample_file = Some (Some \<lparr>st_start = 248, st_len = 3\<rparr>)"
  by (simp add: dynamic_string_table_def sample_eval)

lemma sample_symbols: "dynamic_symbol_table sample_file = Some (Some
    [\<lparr>sym_name = Some 1, sym_info = 0x12, sym_other = 0, sym_section_table_index = 1, sym_value = Unrelocated 16, sym_size = 4\<rparr>,
     \<lparr>sym_name = Some 1, sym_info = 0x12, sym_other = 0, sym_section_table_index = 1, sym_value = Unrelocated 32, sym_size = 4\<rparr>])"
proof -
  have "field 164 4 sample_bytes = 2" by (simp add: sample_bytes_def field_def)
  moreover have "symbol_at sample_bytes 168 = \<lparr>sym_name = Some 1, sym_info = 0x12, sym_other = 0, sym_section_table_index = 1,
      sym_value = Unrelocated 16, sym_size = 4\<rparr>"
    "symbol_at sample_bytes 192 = \<lparr>sym_name = Some 1, sym_info = 0x12, sym_other = 0, sym_section_table_index = 1,
      sym_value = Unrelocated 32, sym_size = 4\<rparr>"
    by (simp_all add: symbol_at_def byte_field_def nth_append sample_bytes_def field_def)
  ultimately show ?thesis by (simp add: dynamic_symbol_table_def sample_eval SYMBOL_SIZE_def upt_rec)
qed

lemma sample_name: "get_string sample_file \<lparr>st_start = 248, st_len = 3\<rparr> 1 = Some [0x66]"
  by (simp add: get_string_def c_str_def sample_eval) (simp add: sample_bytes_def)

section \<open>Properties\<close>



text \<open>Two definitions of a name, the first one weak: the strong one does not replace it, although the comment
  in \<open>insert\<close> says so, because the test is made on the symbol that is being inserted.\<close>

theorem strong_symbol_ignored:
  "m name = Some w \<Longrightarrow> is_weak w \<Longrightarrow> is_strong s \<Longrightarrow> symbol_map_insert name s m = m"
  by (simp add: symbol_map_insert_first)

text \<open>The two halves of a symbol's information byte are exchanged: a symbol counts as local when its type is
  zero and as weak when its type is two, a function, whatever its binding is.\<close>

theorem symbol_binding_is_type:
  assumes "binding < 16" and "ty < 16"
  shows "is_local (word_of_nat (16 * binding + ty)) = (ty = 0) \<and> is_weak_info (word_of_nat (16 * binding + ty)) = (ty = 2)"
proof -
  have "list_all (\<lambda>b. list_all (\<lambda>t. is_local (word_of_nat (16 * b + t)) = (t = 0) \<and>
    is_weak_info (word_of_nat (16 * b + t)) = (t = 2)) [0..<16]) [0..<16]" by code_simp
  with assms show ?thesis by (simp add: list_all_iff)
qed

theorem symbol_binding_is_type_witness:
  "is_local (word_of_nat (16 * 1 + 0)) = (0 = (0 :: nat)) \<and> is_weak_info (word_of_nat (16 * 1 + 0)) = (0 = (2 :: nat))"
  using symbol_binding_is_type [of 1 0] by simp

end
