(* ===== verification/Elf_Relocation.thy ===== *)
theory Elf_Relocation
  imports Elf_Dynamic
begin

text \<open>
  Relocation and linking, \<open>elf/src/relocation.rs\<close>: the relocation tables of an executable, moving it to a base
  address, and binding its jump slots to the symbols of other executables.
\<close>

section \<open>Relocation tables\<close>

datatype RelocationTableEntry =
    Rel (rel_offset: nat) (rel_info: nat)
  | Rela (rel_offset: nat) (rel_info: nat) (rel_addend: int)

datatype RelocationType = X86_64_Relative | X86_64_JumpSlot

definition symbol_table_index :: "RelocationTableEntry \<Rightarrow> nat" where
  "symbol_table_index e = rel_info e div 2 ^ 32"

definition symbol_table_type :: "RelocationTableEntry \<Rightarrow> RelocationType rust" where
  "symbol_table_type e = map_of [(8, X86_64_Relative), (7, X86_64_JumpSlot)] (rel_info e mod 2 ^ 32)"

definition rel_at :: "u8 list \<Rightarrow> nat \<Rightarrow> RelocationTableEntry" where
  "rel_at bs off = Rel (field off 8 bs) (field (off + 8) 8 bs)"

definition rela_at :: "u8 list \<Rightarrow> nat \<Rightarrow> RelocationTableEntry" where
  "rela_at bs off = Rela (field off 8 bs) (field (off + 8) 8 bs) (le_signed 8 (field (off + 16) 8 bs))"

text \<open>The entries of a table of \<open>len\<close> bytes at a pointer.\<close>

definition rel_table :: "ElfFile \<Rightarrow> ExecutableAddressRelocated \<Rightarrow> nat \<Rightarrow> RelocationTableEntry list rust" where
  "rel_table self start len = do {
     p \<leftarrow> data_ptr self start;
     rust_assert (p + len div 16 * 16 \<le> length (ef_data self));
     Some (map (\<lambda>i. rel_at (ef_data self) (p + i * 16)) [0..<len div 16]) }"

definition rela_table :: "ElfFile \<Rightarrow> ExecutableAddressRelocated \<Rightarrow> nat \<Rightarrow> RelocationTableEntry list rust" where
  "rela_table self start len = do {
     p \<leftarrow> data_ptr self start;
     rust_assert (p + len div 24 * 24 \<le> length (ef_data self));
     Some (map (\<lambda>i. rela_at (ef_data self) (p + i * 24)) [0..<len div 24]) }"

fun rust_concat :: "('a \<Rightarrow> 'b list rust) \<Rightarrow> 'a list \<Rightarrow> 'b list rust" where
  "rust_concat f [] = Some []"
| "rust_concat f (x # xs) = do { y \<leftarrow> f x; ys \<leftarrow> rust_concat f xs; Some (y @ ys) }"

definition relocations :: "ElfFile \<Rightarrow> RelocationTableEntry list rust" where
  "relocations self = do {
     rel_addresses \<leftarrow> dynamic_filter self (\<lambda>e. case e of RelTableAddress a \<Rightarrow> Some a | _ \<Rightarrow> None);
     rel_lengths \<leftarrow> dynamic_filter self (\<lambda>e. case e of RelTableSize n \<Rightarrow> Some n | _ \<Rightarrow> None);
     rels \<leftarrow> rust_concat (\<lambda>(start, len). rel_table self start len) (zip rel_addresses rel_lengths);
     rela_addresses \<leftarrow> dynamic_filter self (\<lambda>e. case e of RelaTableAddress a \<Rightarrow> Some a | _ \<Rightarrow> None);
     rela_lengths \<leftarrow> dynamic_filter self (\<lambda>e. case e of RelaTableSize n \<Rightarrow> Some n | _ \<Rightarrow> None);
     relas \<leftarrow> rust_concat (\<lambda>(start, len). rela_table self start len) (zip rela_addresses rela_lengths);
     Some (rels @ relas) }"

definition jumptable_relocations :: "ElfFile \<Rightarrow> RelocationTableEntry list option rust" where
  "jumptable_relocations self = do {
     table_address \<leftarrow> dynamic_find self (\<lambda>e. case e of JumptableRelocations a \<Rightarrow> Some a | _ \<Rightarrow> None);
     case table_address of
       None \<Rightarrow> Some None
     | Some start \<Rightarrow> do {
         table_length \<leftarrow> dynamic_find self (\<lambda>e. case e of PltRelocationTableSize n \<Rightarrow> Some n | _ \<Rightarrow> None);
         case table_length of
           None \<Rightarrow> Some None
         | Some len \<Rightarrow> do {
             with_addend \<leftarrow> dynamic_find self (\<lambda>e. case e of
               PltRelType n \<Rightarrow> (if n = 7 then Some True else if n = 17 then Some False else None) | _ \<Rightarrow> None);
             case with_addend of
               None \<Rightarrow> Some None
             | Some rela \<Rightarrow> map_option Some (if rela then rela_table self start len else rel_table self start len) } } }"

section \<open>Moving and linking\<close>

text \<open>A write of eight bytes through a pointer.\<close>

definition write_u64 :: "usize \<Rightarrow> nat \<Rightarrow> u8 list \<Rightarrow> u8 list rust" where
  "write_u64 p v bs = (if p + 8 \<le> length bs then Some (take p bs @ to_le 8 v @ drop (p + 8) bs) else None)"

definition wrapping_add_signed :: "nat \<Rightarrow> int \<Rightarrow> nat" where
  "wrapping_add_signed a d = nat ((int a + d) mod 2 ^ 64)"

definition relocate_entry :: "nat \<Rightarrow> RelocationTableEntry \<Rightarrow> ElfFile \<Rightarrow> ElfFile rust" where
  "relocate_entry base reloc self = (case reloc of
     Rel _ _ \<Rightarrow> None
   | Rela addr _ addend \<Rightarrow> do {
       ptr \<leftarrow> data_at_unrel_address_mut self addr;
       ptr \<leftarrow> ptr;
       ty \<leftarrow> symbol_table_type reloc;
       case ty of
         X86_64_Relative \<Rightarrow> do {
           d \<leftarrow> write_u64 ptr (wrapping_add_signed base addend) (ef_data self);
           Some (self\<lparr>ef_data := d\<rparr>) }
       | X86_64_JumpSlot \<Rightarrow> Some self })"

definition relocate :: "nat \<Rightarrow> ElfFile \<Rightarrow> ElfFile rust" where
  "relocate base self = do {
     relocs \<leftarrow> relocations self;
     self' \<leftarrow> for_each (relocate_entry base) relocs self;
     Some (self'\<lparr>ef_base := base\<rparr>) }"

datatype LinkError = LinkError "u8 list"

fun link_entries ::
  "SymbolMap \<Rightarrow> SymbolTableEntry list \<Rightarrow> StringTable \<Rightarrow> RelocationTableEntry list \<Rightarrow> ElfFile \<Rightarrow> ((LinkError, unit) result \<times> ElfFile) rust" where
  "link_entries symbol_map symbols strings [] self = Some (Inr (), self)"
| "link_entries symbol_map symbols strings (Rel _ _ # is) self = None"
| "link_entries symbol_map symbols strings (Rela addr info addend # is) self = do {
     let idx = symbol_table_index (Rela addr info addend);
     rust_assert (idx < length symbols);
     index \<leftarrow> sym_name (symbols ! idx);
     name \<leftarrow> get_string self strings index;
     case symbol_map name of
       None \<Rightarrow> Some (Inl (LinkError name), self)
     | Some address \<Rightarrow> do {
         ptr \<leftarrow> data_at_unrel_address self addr;
         ptr \<leftarrow> ptr;
         ty \<leftarrow> symbol_table_type (Rela addr info addend);
         case ty of
           X86_64_Relative \<Rightarrow> None
         | X86_64_JumpSlot \<Rightarrow> do {
             d \<leftarrow> write_u64 ptr (case es_value address of Relocated a \<Rightarrow> a) (ef_data self);
             link_entries symbol_map symbols strings is (self\<lparr>ef_data := d\<rparr>) } } }"

definition elf_link :: "SymbolMap \<Rightarrow> ElfFile \<Rightarrow> ((LinkError, unit) result \<times> ElfFile) rust" where
  "elf_link symbol_map self = do {
     symbols \<leftarrow> dynamic_symbol_table self;
     symbols \<leftarrow> symbols;
     strings \<leftarrow> dynamic_string_table self;
     strings \<leftarrow> strings;
     plt \<leftarrow> jumptable_relocations self;
     plt \<leftarrow> plt;
     link_entries symbol_map symbols strings plt self }"

section \<open>Writes\<close>

lemma write_u64_length: "write_u64 p v bs = Some cs \<Longrightarrow> length cs = length bs"
  by (auto simp: write_u64_def split: if_splits)

lemma write_u64_other: "write_u64 p v bs = Some cs \<Longrightarrow> i < p \<or> p + 8 \<le> i \<Longrightarrow> cs ! i = bs ! i"
  by (auto simp: write_u64_def nth_append split: if_splits)

lemma write_u64_field: "write_u64 p v bs = Some cs \<Longrightarrow> field p 8 cs = v mod 2 ^ 64"
  by (auto simp: write_u64_def field_def split: if_splits)

lemma field_cong: "length bs = length cs \<Longrightarrow> (\<And>i. off \<le> i \<Longrightarrow> i < off + n \<Longrightarrow> bs ! i = cs ! i) \<Longrightarrow> field off n bs = field off n cs"
proof -
  assume len: "length bs = length cs" and eq: "\<And>i. off \<le> i \<Longrightarrow> i < off + n \<Longrightarrow> bs ! i = cs ! i"
  have "take n (drop off bs) = take n (drop off cs)"
    by (rule nth_equalityI) (use len eq in auto)
  then show ?thesis by (simp add: field_def)
qed

section \<open>The effect of relocation\<close>

text \<open>What the lookup of a target needs of the file, apart from its bytes.\<close>

definition same_layout :: "ElfFile \<Rightarrow> ElfFile \<Rightarrow> bool" where
  "same_layout f g \<longleftrightarrow> ef_base g = ef_base f \<and> ef_header g = ef_header f \<and> ef_program_header g = ef_program_header f \<and>
     length (ef_data g) = length (ef_data f)"

lemma find_segment_layout: "same_layout f g \<Longrightarrow> find_segment g p segs = find_segment f p segs"
proof (induction segs)
  case (Cons s segs)
  have "moved_segment g s = moved_segment f s" using Cons.prems by (simp add: moved_segment_def same_layout_def)
  then show ?case using Cons by (simp only: find_segment.simps)
qed simp

lemma target_layout:
  assumes "same_layout f g"
  shows "data_at_unrel_address_mut g a = data_at_unrel_address_mut f a"
proof -
  have i: "(index_data_mut g loc = None) = (index_data_mut f loc = None)" for loc
    using assms by (auto simp: index_data_mut_def same_layout_def slice_def bind_eq_None_conv)
  have "data_at_address_mut g b = data_at_address_mut f b" for b
  proof -
    have found: "segment_for_address g b = segment_for_address f b"
      using assms find_segment_layout [OF assms] by (simp add: segment_for_address_def same_layout_def)
    have step: "(do { bytes \<leftarrow> index_data_mut g loc; k }) = (do { bytes \<leftarrow> index_data_mut f loc; k })" for loc and k :: "usize option rust"
      using i [of loc] by (cases "index_data_mut g loc"; cases "index_data_mut f loc") simp_all
    show ?thesis by (simp only: data_at_address_mut_def found step)
  qed
  with assms show ?thesis by (simp add: data_at_unrel_address_mut_def same_layout_def)
qed

text \<open>A relocation that can be applied, whether it writes, and where.\<close>

definition reloc_place :: "ElfFile \<Rightarrow> RelocationTableEntry \<Rightarrow> usize" where
  "reloc_place self r = (case data_at_unrel_address_mut self (rel_offset r) of Some (Some p) \<Rightarrow> p | _ \<Rightarrow> 0)"

definition reloc_ok :: "ElfFile \<Rightarrow> RelocationTableEntry \<Rightarrow> bool" where
  "reloc_ok self r \<longleftrightarrow> (case r of Rel _ _ \<Rightarrow> False | Rela _ _ _ \<Rightarrow> True) \<and> symbol_table_type r \<noteq> None \<and>
     data_at_unrel_address_mut self (rel_offset r) = Some (Some (reloc_place self r)) \<and> reloc_place self r + 8 \<le> length (ef_data self)"

definition relative :: "RelocationTableEntry \<Rightarrow> bool" where
  "relative r \<longleftrightarrow> symbol_table_type r = Some X86_64_Relative"

definition reloc_apart :: "ElfFile \<Rightarrow> RelocationTableEntry \<Rightarrow> RelocationTableEntry \<Rightarrow> bool" where
  "reloc_apart self r s \<longleftrightarrow> relative r \<longrightarrow> relative s \<longrightarrow>
     reloc_place self r + 8 \<le> reloc_place self s \<or> reloc_place self s + 8 \<le> reloc_place self r"

lemma reloc_layout:
  assumes "same_layout f g"
  shows "reloc_place g r = reloc_place f r" and "reloc_ok g r = reloc_ok f r" and "reloc_apart g r s = reloc_apart f r s"
proof -
  show place: "reloc_place g r = reloc_place f r" for r by (simp add: reloc_place_def target_layout [OF assms])
  show "reloc_ok g r = reloc_ok f r" "reloc_apart g r s = reloc_apart f r s"
    using assms by (auto simp: reloc_ok_def reloc_apart_def place target_layout [OF assms] same_layout_def)
qed

lemma relocate_entry_effect:
  assumes ok: "reloc_ok self r"
  shows "\<exists>self'. relocate_entry base r self = Some self' \<and> same_layout self self' \<and>
    (relative r \<longrightarrow> field (reloc_place self r) 8 (ef_data self') = wrapping_add_signed base (rel_addend r)) \<and>
    (\<forall>i. (relative r \<longrightarrow> i < reloc_place self r \<or> reloc_place self r + 8 \<le> i) \<longrightarrow> ef_data self' ! i = ef_data self ! i)"
proof -
  from ok obtain a n d ty where r: "r = Rela a n d" and ty: "symbol_table_type r = Some ty"
    by (auto simp: reloc_ok_def split: RelocationTableEntry.splits)
  have p: "data_at_unrel_address_mut self a = Some (Some (reloc_place self r))" "reloc_place self r + 8 \<le> length (ef_data self)"
    using ok r by (simp_all add: reloc_ok_def)
  show ?thesis
  proof (cases ty)
    case X86_64_Relative
    obtain bs where w: "write_u64 (reloc_place self r) (wrapping_add_signed base d) (ef_data self) = Some bs"
      using p(2) by (auto simp: write_u64_def)
    have "wrapping_add_signed base d < 2 ^ 64" by (simp add: wrapping_add_signed_def nat_less_iff)
    with write_u64_field [OF w] write_u64_other [OF w] write_u64_length [OF w] show ?thesis
      using p(1) ty r X86_64_Relative w by (auto simp: relocate_entry_def same_layout_def relative_def)
  next
    case X86_64_JumpSlot
    with p(1) ty r show ?thesis by (auto simp: relocate_entry_def same_layout_def relative_def)
  qed
qed

lemma same_layout_trans: "same_layout f g \<Longrightarrow> same_layout g h \<Longrightarrow> same_layout f h"
  by (simp add: same_layout_def)

lemma relocate_entries_effect:
  assumes "\<forall>r \<in> set relocs. reloc_ok self r" and "sorted_wrt (reloc_apart self) relocs"
  shows "\<exists>self'. for_each (relocate_entry base) relocs self = Some self' \<and> same_layout self self' \<and>
    (\<forall>r \<in> set relocs. relative r \<longrightarrow> field (reloc_place self r) 8 (ef_data self') = wrapping_add_signed base (rel_addend r)) \<and>
    (\<forall>i. (\<forall>r \<in> set relocs. relative r \<longrightarrow> i < reloc_place self r \<or> reloc_place self r + 8 \<le> i) \<longrightarrow> ef_data self' ! i = ef_data self ! i)"
  using assms
proof (induction relocs arbitrary: self)
  case Nil
  then show ?case by (simp add: same_layout_def)
next
  case (Cons r relocs)
  obtain g where g: "relocate_entry base r self = Some g" "same_layout self g"
    "relative r \<longrightarrow> field (reloc_place self r) 8 (ef_data g) = wrapping_add_signed base (rel_addend r)"
    "\<forall>i. (relative r \<longrightarrow> i < reloc_place self r \<or> reloc_place self r + 8 \<le> i) \<longrightarrow> ef_data g ! i = ef_data self ! i"
    using relocate_entry_effect [of self r base] Cons.prems(1) by auto
  note lay = reloc_layout [OF g(2)]
  have "reloc_apart g = reloc_apart self" by (intro ext lay(3))
  with Cons.prems have "\<forall>r \<in> set relocs. reloc_ok g r" "sorted_wrt (reloc_apart g) relocs" by (simp_all add: lay(2))
  from Cons.IH [OF this] obtain h where h: "for_each (relocate_entry base) relocs g = Some h" "same_layout g h"
    "\<forall>r \<in> set relocs. relative r \<longrightarrow> field (reloc_place self r) 8 (ef_data h) = wrapping_add_signed base (rel_addend r)"
    "\<forall>i. (\<forall>r \<in> set relocs. relative r \<longrightarrow> i < reloc_place self r \<or> reloc_place self r + 8 \<le> i) \<longrightarrow> ef_data h ! i = ef_data g ! i"
    by (auto simp: lay)
  have "field (reloc_place self r) 8 (ef_data h) = field (reloc_place self r) 8 (ef_data g)" if "relative r"
  proof (rule field_cong)
    show "length (ef_data h) = length (ef_data g)" using h(2) by (simp add: same_layout_def)
    fix i assume i: "reloc_place self r \<le> i" "i < reloc_place self r + 8"
    have "i < reloc_place self s \<or> reloc_place self s + 8 \<le> i" if "s \<in> set relocs" "relative s" for s
    proof -
      have "reloc_apart self r s" using Cons.prems(2) that(1) by simp
      with \<open>relative r\<close> that(2) i show ?thesis by (auto simp: reloc_apart_def)
    qed
    with h(4) show "ef_data h ! i = ef_data g ! i" by blast
  qed
  with g h(1,3,4) same_layout_trans [OF g(2) h(2)] show ?case by (intro exI [of _ h]) auto
qed

lemma sample_relocations: "relocations sample_file = Some [Rela 240 8 16]"
proof -
  have "rela_at sample_bytes 216 = Rela 240 8 16" by (simp add: rela_at_def sample_bytes_def field_def le_signed_def)
  then show ?thesis by (simp add: relocations_def sample_eval rela_table_def upt_rec)
qed

lemma sample_reloc_ok: "reloc_ok sample_file (Rela 240 8 16)" "reloc_place sample_file (Rela 240 8 16) = 240"
proof -
  have "data_at_unrel_address_mut sample_file 240 = Some (Some 240)"
    by (simp add: data_at_unrel_address_mut_def data_at_address_mut_def segment_for_address_def moved_segment_def uadd_def memory_location_def
      file_location_def index_data_mut_def slice_def usub_def program_header_def section_header_def umul_def rust_assert_def
      ranges_overlap_def FILE_HEADER_SIZE_def sample_file_def length_sample)
  then show "reloc_place sample_file (Rela 240 8 16) = 240" "reloc_ok sample_file (Rela 240 8 16)"
    by (simp_all add: reloc_place_def reloc_ok_def sample_fields length_sample symbol_table_type_def)
qed

section \<open>Properties\<close>

text \<open>C26. Relocation to a base address: when every entry of the relocation tables can be applied and no two
  targets overlap, it does not panic, every relative target then holds the base plus the addend,
  modulo the word size, no other byte of the file changes, and the file is at the new base.\<close>

theorem relocate_correct:
  assumes "relocations self = Some relocs" and "\<forall>r \<in> set relocs. reloc_ok self r" and "sorted_wrt (reloc_apart self) relocs"
  shows "\<exists>self'. relocate base self = Some self' \<and> ef_base self' = base \<and> length (ef_data self') = length (ef_data self) \<and>
    (\<forall>r \<in> set relocs. relative r \<longrightarrow> field (reloc_place self r) 8 (ef_data self') = wrapping_add_signed base (rel_addend r)) \<and>
    (\<forall>i. (\<forall>r \<in> set relocs. relative r \<longrightarrow> i < reloc_place self r \<or> reloc_place self r + 8 \<le> i) \<longrightarrow>
      ef_data self' ! i = ef_data self ! i)"
proof -
  obtain g where "for_each (relocate_entry base) relocs self = Some g" "same_layout self g"
    "\<forall>r \<in> set relocs. relative r \<longrightarrow> field (reloc_place self r) 8 (ef_data g) = wrapping_add_signed base (rel_addend r)"
    "\<forall>i. (\<forall>r \<in> set relocs. relative r \<longrightarrow> i < reloc_place self r \<or> reloc_place self r + 8 \<le> i) \<longrightarrow> ef_data g ! i = ef_data self ! i"
    using relocate_entries_effect [OF assms(2,3)] by blast
  with assms(1) show ?thesis by (intro exI [of _ "g\<lparr>ef_base := base\<rparr>"]) (simp add: relocate_def same_layout_def)
qed

theorem relocate_correct_witness:
  "\<exists>self'. relocate 0x7000 sample_file = Some self' \<and> ef_base self' = 0x7000 \<and> field 240 8 (ef_data self') = 0x7010"
  using relocate_correct [OF sample_relocations, of "0x7000"] sample_reloc_ok
  by (auto simp: relative_def symbol_table_type_def wrapping_add_signed_def)

end
