(* ===== verification/Font_Format.thy ===== *)
theory Font_Format
  imports Prelude
begin

text \<open>
  The data the generated font files under \<open>fonts/\<close> consist of: glyph descriptors, character
  maps, kerning pairs and the font record, with the fields in the order of the initialisers.
  The graphics library that reads them is not part of the repository; what it documents about
  the two character map formats is the hypothesis \<open>cmap_lookup\<close> of the properties that need
  it. A font's bitmap array is the concatenation of its glyph blocks; \<open>tiled\<close> says that the
  descriptors cut it into exactly these blocks.
\<close>

section \<open>Byte tables\<close>

text \<open>A line of \<open>n\<close> bytes of an array initialiser, written as one hexadecimal number with two
  digits per byte; \<open>lines\<close> are full lines of eight bytes.\<close>

fun line :: "nat \<Rightarrow> int \<Rightarrow> u8 list" where
  "line 0 v = []"
| "line (Suc n) v = line n (drop_bit 8 v) @ [word_of_int (take_bit 8 v)]"

definition lines :: "int list \<Rightarrow> u8 list" where
  "lines vs = concat (map (line 8) vs)"

lemma length_line [simp]: "length (line n v) = n"
  by (induction n arbitrary: v) simp_all

lemma length_lines [simp]: "length (lines vs) = 8 * length vs"
  by (induction vs) (simp_all add: lines_def)

lemma lines_append: "lines (us @ vs) = lines us @ lines vs"
  by (simp add: lines_def)

lemma line_ne [simp]: "line n v = [] \<longleftrightarrow> n = 0"
  by (metis length_0_conv length_line)

lemma lines_ne [simp]: "lines vs = [] \<longleftrightarrow> vs = []"
  by (metis length_0_conv length_lines mult_is_0 zero_neq_numeral)

lemma last_line: "0 < n \<Longrightarrow> last (line n v) = word_of_int (take_bit 8 v)"
  by (cases n) simp_all

lemma last_lines: "vs \<noteq> [] \<Longrightarrow> last (lines vs) = word_of_int (take_bit 8 (last vs))"
  by (induction vs) (auto simp: lines_def last_line last_append)

section \<open>Font data\<close>

record glyph_dsc =
  bitmap_index :: nat
  adv_w :: nat
  box_w :: nat
  box_h :: nat
  ofs_x :: int
  ofs_y :: int

abbreviation gd :: "nat \<Rightarrow> nat \<Rightarrow> nat \<Rightarrow> nat \<Rightarrow> int \<Rightarrow> int \<Rightarrow> glyph_dsc" where
  "gd i a w h x y \<equiv> \<lparr>bitmap_index = i, adv_w = a, box_w = w, box_h = h, ofs_x = x, ofs_y = y\<rparr>"

datatype cmap_format = CMAP_FORMAT0_TINY | CMAP_SPARSE_TINY

record cmap =
  range_start :: nat
  range_length :: nat
  glyph_id_start :: nat
  unicode_list :: "nat list option"
  list_length :: nat
  cmap_type :: cmap_format

record kern_pair =
  glyph_ids :: "nat list"
  kern_values :: "int list"
  pair_cnt :: nat
  glyph_ids_size :: nat

record font_dsc =
  glyph_bitmap :: "u8 list"
  glyph_dscs :: "glyph_dsc list"
  cmaps :: "cmap list"
  kern_dsc :: "kern_pair option"
  kern_scale :: nat
  cmap_num :: nat
  bpp :: nat
  kern_classes :: nat
  bitmap_format :: nat
  has_cache :: bool

text \<open>The version macros of the graphics library select the optional fields of a font.\<close>

record lvgl_version =
  v_major :: nat
  v_minor :: nat
  v_check :: "nat \<Rightarrow> nat \<Rightarrow> nat \<Rightarrow> bool"

record lv_font =
  line_height :: int
  base_line :: int
  subpx_none :: "unit option"
  underline :: "(int \<times> int) option"
  dsc :: font_dsc

text \<open>The version the configuration header is written for, for the concrete instances.\<close>

definition lvgl_8_3_5 :: lvgl_version where
  "lvgl_8_3_5 = \<lparr>v_major = 8, v_minor = 3,
     v_check = (\<lambda>a b c. a < 8 \<or> a = 8 \<and> (b < 3 \<or> b = 3 \<and> c \<le> 5))\<rparr>"

section \<open>How descriptors cut the bitmap\<close>

definition glyph_bytes :: "nat \<Rightarrow> glyph_dsc \<Rightarrow> nat" where
  "glyph_bytes b g = (box_w g * box_h g * b + 7) div 8"

text \<open>The bytes a reader of glyph \<open>g\<close> takes from the font.\<close>

definition glyph_slice :: "font_dsc \<Rightarrow> glyph_dsc \<Rightarrow> u8 list" where
  "glyph_slice f g = take (glyph_bytes (bpp f) g) (drop (bitmap_index g) (glyph_bitmap f))"

fun tiled :: "nat \<Rightarrow> nat \<Rightarrow> glyph_dsc list \<Rightarrow> u8 list list \<Rightarrow> bool" where
  "tiled b off [] [] = True"
| "tiled b off (g # gs) (x # xs) =
     (bitmap_index g = off \<and> length x = glyph_bytes b g \<and> tiled b (off + length x) gs xs)"
| "tiled b off _ _ = False"

lemma tiled_slice:
  assumes "tiled b (length pre) gs xs" and "i < length gs"
  shows "i < length xs \<and>
    take (glyph_bytes b (gs ! i)) (drop (bitmap_index (gs ! i)) (pre @ concat xs)) = xs ! i"
  using assms
proof (induction gs arbitrary: pre xs i)
  case Nil
  then show ?case by simp
next
  case (Cons g gs)
  then obtain y ys where xs: "xs = y # ys" by (cases xs) auto
  with Cons.prems(1) have "bitmap_index g = length pre \<and> length y = glyph_bytes b g \<and>
      tiled b (length (pre @ y)) gs ys"
    unfolding xs tiled.simps length_append by blast
  then have g: "bitmap_index g = length pre" "length y = glyph_bytes b g"
    and t: "tiled b (length (pre @ y)) gs ys" by blast+
  show ?case
  proof (cases i)
    case 0
    with xs g show ?thesis by simp
  next
    case (Suc j)
    with Cons.IH [OF t, of j] Cons.prems(2) xs show ?thesis by simp
  qed
qed

lemma tiled_length: "tiled b off gs xs \<Longrightarrow> length xs = length gs"
  by (induction b off gs xs rule: tiled.induct) auto

text \<open>Glyph 0 is reserved and has no pixels; glyph \<open>Suc i\<close> is the \<open>i\<close>-th block.\<close>

definition font_tiled :: "font_dsc \<Rightarrow> u8 list list \<Rightarrow> bool" where
  "font_tiled f xs \<longleftrightarrow> glyph_bitmap f = concat xs \<and> glyph_dscs f \<noteq> [] \<and>
     glyph_bytes (bpp f) (hd (glyph_dscs f)) = 0 \<and> tiled (bpp f) 0 (tl (glyph_dscs f)) xs"

lemma font_tiled_slice:
  assumes "font_tiled f xs" and "i < length xs"
  shows "Suc i < length (glyph_dscs f) \<and> glyph_slice f (glyph_dscs f ! Suc i) = xs ! i"
proof -
  obtain r gs where gs: "glyph_dscs f = r # gs" using assms(1) by (cases "glyph_dscs f") (auto simp: font_tiled_def)
  with assms(1) have t: "tiled (bpp f) (length []) gs xs" and b: "glyph_bitmap f = concat xs"
    by (simp_all add: font_tiled_def)
  from tiled_length [OF t] assms(2) have "i < length gs" by simp
  with tiled_slice [OF t this] gs b show ?thesis by (simp add: glyph_slice_def)
qed

section \<open>Character maps\<close>

text \<open>The documented meaning of the two formats: a tiny range map counts glyphs from
  \<open>glyph_id_start\<close>, a sparse one by the position of the offset in its list; outside its range a
  map yields nothing.\<close>

fun index_of :: "nat \<Rightarrow> nat list \<Rightarrow> nat option" where
  "index_of x [] = None"
| "index_of x (y # ys) = (if x = y then Some 0 else map_option Suc (index_of x ys))"

definition documented_lookup :: "cmap \<Rightarrow> nat \<Rightarrow> nat option" where
  "documented_lookup c u =
     (if u < range_start c \<or> range_start c + range_length c \<le> u then None
      else case cmap_type c of
        CMAP_FORMAT0_TINY \<Rightarrow> Some (glyph_id_start c + (u - range_start c))
      | CMAP_SPARSE_TINY \<Rightarrow>
          (case unicode_list c of
             None \<Rightarrow> None
           | Some us \<Rightarrow> map_option (\<lambda>i. glyph_id_start c + i) (index_of (u - range_start c) us)))"

text \<open>What the properties assume of the library's lookup function.\<close>

definition cmap_lookup :: "(cmap \<Rightarrow> nat \<Rightarrow> nat option) \<Rightarrow> bool" where
  "cmap_lookup get \<longleftrightarrow> (\<forall>c u. get c u = documented_lookup c u)"

text \<open>A font with one character map renders character \<open>u\<close> as the given bytes.\<close>

definition renders :: "(cmap \<Rightarrow> nat \<Rightarrow> nat option) \<Rightarrow> font_dsc \<Rightarrow> nat \<Rightarrow> u8 list \<Rightarrow> bool" where
  "renders get f u x \<longleftrightarrow>
     (case cmaps f of
        [c] \<Rightarrow> (case get c u of
            Some g \<Rightarrow> 0 < g \<and> g < length (glyph_dscs f) \<and> glyph_slice f (glyph_dscs f ! g) = x
          | None \<Rightarrow> False)
      | _ \<Rightarrow> False)"

text \<open>The blocks of a font, in order, are the glyphs its character map selects.\<close>

lemma renders_block:
  assumes get: "cmap_lookup get" and tiled: "font_tiled f (map snd blocks)" and c: "cmaps f = [c]"
    and ids: "map (documented_lookup c) (map fst blocks) = map Some [1..<Suc (length blocks)]"
    and mem: "(u, x) \<in> set blocks"
  shows "renders get f u x"
proof -
  from mem obtain i where i: "i < length blocks" "blocks ! i = (u, x)" by (auto simp: in_set_conv_nth)
  have "map (documented_lookup c) (map fst blocks) ! i = map Some [1..<Suc (length blocks)] ! i"
    using ids by simp
  then have "documented_lookup c u = Some (Suc i)" using i by (simp del: upt_Suc)
  then have "get c u = Some (Suc i)" using get by (simp add: cmap_lookup_def)
  moreover have "Suc i < length (glyph_dscs f) \<and> glyph_slice f (glyph_dscs f ! Suc i) = x"
    using font_tiled_slice [OF tiled, of i] i by simp
  ultimately show ?thesis by (simp add: renders_def c)
qed

section \<open>Limits\<close>

text \<open>The descriptor format for ordinary fonts (\<open>LV_FONT_FMT_TXT_LARGE\<close> being 0) has 20 bits for
  the bitmap index, 12 for the advance and 8 for each box field.\<close>

definition small_dsc :: "glyph_dsc \<Rightarrow> bool" where
  "small_dsc g \<longleftrightarrow> bitmap_index g < 2 ^ 20 \<and> adv_w g < 2 ^ 12 \<and> box_w g < 2 ^ 8 \<and> box_h g < 2 ^ 8 \<and>
     - (2 ^ 7) \<le> ofs_x g \<and> ofs_x g < 2 ^ 7 \<and> - (2 ^ 7) \<le> ofs_y g \<and> ofs_y g < 2 ^ 7"

text \<open>The box of a glyph lies between the bottom and the top of the line.\<close>

definition in_line :: "lv_font \<Rightarrow> glyph_dsc \<Rightarrow> bool" where
  "in_line f g \<longleftrightarrow> - base_line f \<le> ofs_y g \<and> ofs_y g + int (box_h g) \<le> line_height f - base_line f"

text \<open>The bits of the last byte after the last pixel are zero.\<close>

definition padding_clear :: "nat \<Rightarrow> glyph_dsc \<Rightarrow> u8 list \<Rightarrow> bool" where
  "padding_clear b g x \<longleftrightarrow> x = [] \<or>
     take_bit (8 * length x - box_w g * box_h g * b) (last x) = 0"

definition fits_format :: "lv_font \<Rightarrow> u8 list list \<Rightarrow> bool" where
  "fits_format f xs \<longleftrightarrow> list_all small_dsc (glyph_dscs (dsc f)) \<and> list_all (in_line f) (glyph_dscs (dsc f)) \<and>
     list_all2 (padding_clear (bpp (dsc f))) (tl (glyph_dscs (dsc f))) xs \<and> bitmap_format (dsc f) = 0"

lemma fits_formatI:
  assumes "dsc f = d" and "line_height f = l" and "base_line f = b" and "glyph_dscs d = gs" and "bpp d = k"
    and "bitmap_format d = 0" and "list_all small_dsc gs"
    and "list_all (\<lambda>g. - b \<le> ofs_y g \<and> ofs_y g + int (box_h g) \<le> l - b) gs"
    and "list_all2 (padding_clear k) (tl gs) xs"
  shows "fits_format f xs"
proof -
  have "in_line f = (\<lambda>g. - b \<le> ofs_y g \<and> ofs_y g + int (box_h g) \<le> l - b)"
    using assms(2,3) by (auto simp: in_line_def)
  with assms show ?thesis by (simp add: fits_format_def)
qed

text \<open>The kerning table lists one value per pair and only glyphs of the font, and every value is
  a signed byte.\<close>

definition kern_ok :: "font_dsc \<Rightarrow> bool" where
  "kern_ok f \<longleftrightarrow>
     (case kern_dsc f of
        None \<Rightarrow> True
      | Some k \<Rightarrow> length (glyph_ids k) = 2 * pair_cnt k \<and> length (kern_values k) = pair_cnt k \<and>
          list_all (\<lambda>g. 0 < g \<and> g < length (glyph_dscs f)) (glyph_ids k) \<and>
          list_all (\<lambda>v. - 128 \<le> v \<and> v < 128) (kern_values k))"

end
