(* ===== verification/Font_Open_Sans_48.thy ===== *)
theory Font_Open_Sans_48
  imports Font_Format
begin

text \<open>
  The generated font \<open>fonts/open_sans_48.c\<close>: every printable ASCII character, 2 bits per pixel. One definition per group of glyph blocks
  of the bitmap, then the descriptor table, the character map and
  the font record.
\<close>

section \<open>Font data\<close>

definition open_sans_48_glyphs_0021 :: "(nat \<times> u8 list) list" where
  "open_sans_48_glyphs_0021 =
   [(33, lines
     [0xbfebfe7fe7fe7fe7, 0xfe7fd7fd3fd3fd3f, 0xd3fd3fc3fc3fc3fc, 0x3fc3fc3fc3fc2fc2,
      0xfc2fc2fc00000000, 0x00503fdbffffffff] @
   line 3 0xbfe2f8),
    (34, lines
     [0x3fe01ff4ff807fd3, 0xfe00ff4ff803fc3f, 0xd00ff0bf403fc2fd, 0x00ff0bf003fc2fc0,
      0x0ff07f002fc1fc00, 0xbe07f002f8000000] @
   line 1 0x00),
    (35, lines
     [0x00003f400fc00000, 0x1fc007f000000bf0, 0x01fc000002fc00bf, 0x000000fe003f8000,
      0x003f400fd000000f, 0xd003f4000007f001, 0xfc000001fc007f00, 0x0000bf002fc002ff,
      0xfffffffffcbfffff, 0xffffff2fffffffff, 0xffc155fd55bf5540, 0x007f001fc000002f,
      0xc00bf000000be002, 0xf8000003f800fe00, 0x0000fd003f400000, 0x3f000fc000556fd5,
      0x5bf5543fffffffff, 0xff4fffffffffffd3, 0xfffffffffff4003f, 0x400fd000000fd003,
      0xf4000007f001fc00, 0x0001fc00bf000000, 0xbf002fc000003f80, 0x0fe000000fd003f4,
      0x000003f400fd0000, 0x00fc007f0000007f] @
   line 5 0x002fc00000),
    (36, lines
     [0x00007d000000007d, 0x000000007d000000, 0x007e0000002ffffe, 0x4001fffffff80bff,
      0xfffff81fffbeaff4, 0x3ff07d00b07fc07d, 0x0000bf807d0000bf, 0x807d0000bf807d00,
      0x007fc07d00003fe0, 0x7d00002ffd7d0000, 0x0ffffd000003ffff, 0x8000007ffff80000,
      0x07ffff8000007fff, 0xf000007ebffc0000, 0x7d0ffd00007d03fe, 0x00007d01ff00007d,
      0x00ff00007d01ff00, 0x007d02fea0007d07, 0xfdbf907e7ffcbfff, 0xfffff0bfffffffc0,
      0x1ffffffd00005afe, 0x400000007d000000, 0x007d000000007d00, 0x0000007d00000000] @
   line 3 0x290000),
    (37, lines
     [0x0015000000000000, 0x00bff8000003f800, 0x00ffffc00001fd00, 0x00bfeff80000ff00,
      0x003fc0ff00007f40, 0x001fd01fd0003fc0, 0x000bf003f8000fd0, 0x0003fc00ff000bf0,
      0x0000ff002fc003f8, 0x00003f800bf002fc, 0x00000fe002fc00fe, 0x000003f800bf00bf,
      0x000000fe002fc03f, 0x8000003fc00bf01f, 0xc000000bf003fc0f, 0xf02ff801fc00fe07,
      0xf43fffc03f807f43, 0xfc3ffffc0ff47fc1, 0xfd1fe0bf41ffffd0, 0xff0bf00ff01fffe0,
      0x3f43f802fc01ffd0, 0x2fc0fe007f400000, 0x0fe07f400fe00000, 0x0bf01fd003f80000,
      0x03f807f400fe0000, 0x02fc01fd003f8000, 0x00fe007f400fe000, 0x007f001fd003f800,
      0x003fc003f400fe00, 0x001fd000fe007f40, 0x000ff0003fc02fc0, 0x0007f4000bf00ff0,
      0x0002fc0000ff5bf4, 0x0000fd00002ffffc, 0x0000bf000002fffc, 0x00003f8000001ff8] @
   line 1 0x00),
    (38, lines
     [0x0000155000000000, 0x00bfff8000000000, 0xfffffc00000000ff, 0xffff80000000bfe0,
      0x3ff00000003fe003, 0xfe0000000ff400bf, 0x80000003fc001ff0, 0x000000ff0007fc00,
      0x00003fd002fe0000, 0x000ff800ff400000, 0x02ff007fc0000000, 0x3fe07fe00000000b,
      0xfc7ff000000000ff, 0xfff0000000001fff, 0xf00000000003fff0, 0x0000000007fff800,
      0x0000000bffff4000, 0xbf800bfe3ff4003f, 0xe007fe03ff000ff4, 0x03ff003ff00bfc02,
      0xff0007ff03fe00ff, 0xc000bfe1ff403fe0, 0x000bfeffc00ff800, 0x00ffffd003fe0000,
      0x0ffff000ffc00000, 0xfff4003ff000007f, 0xfc000bff00007fff, 0xc000fff401fffff8,
      0x002ffffffff7ff80, 0x02fffffff03ff400, 0x1fffffe007ff0000] @
   line 6 0x6ffe4000bff0)]"

definition open_sans_48_glyphs_0027 :: "(nat \<times> u8 list) list" where
  "open_sans_48_glyphs_0027 =
   [(39, lines
     [0x3fe3fe3fe3fe3fd2, 0xfd2fd2fc2fc1fc1f] @
   line 4 0xc1fc0000),
    (40, lines
     [0x0007f8000ff0003f, 0xd0007fc000ff4001, 0xff0003fd0007fc00, 0x0bf8000ff4001ff0,
      0x002fe0003fd0003f, 0xc0007fc000bfc000, 0xbfc000bf8000ff80, 0x00ff8000ff8000ff,
      0x8000ff8000ff8000, 0xbf8000bfc0007fc0, 0x007fc0003fd0003f, 0xe0002ff0001ff000,
      0x0ff4000bfc0003fc, 0x0003fe0001ff0000, 0xff80003fc0001fe0] @
   line 6 0x000bf40002a4),
    (41, lines
     [0x7f80002fe0000ff0, 0x0007fc0003fd0001, 0xff0000ff4000bfc0, 0x003fc0003fe0002f,
      0xf0001ff0000ff400, 0x0ff8000bf80007fc, 0x0007fc0007fc0003, 0xfc0003fc0003fd00,
      0x03fd0003fc0003fc, 0x0007fc0007fc000b, 0xfc000bf8000ff800, 0x0ff4001ff0002fe0,
      0x003fd0007fc000ff, 0x8000ff0002fe0003, 0xfc000bf8001ff000] @
   line 6 0x3fc0002a4000),
    (42, lines
     [0x0000ff800000002f, 0xe00000000bf40000, 0x0001fd000000007f, 0x000001001fc00102,
      0xf903f01be0fffefe, 0xfff83fffffffff0b, 0xffffffff80002ffd, 0x0000000fff800000,
      0x0bf7f8000007f8ff, 0x400007fc1ff00003, 0xfe03ff0002ff007f, 0xd0001f800fd00000] @
   line 4 0x80008000),
    (43, lines
     [0x00001a8000000002, 0xfc000000002fc000, 0x000002fc00000000, 0x2fc000000002fc00,
      0x0000002fc0000000, 0x02fc000000002fc0, 0x00000002fc00003f, 0xffffffffd3ffffff,
      0xfffd3fffffffffd2, 0xaaabfeaaa800002f, 0xc000000002fc0000, 0x00002fc000000002,
      0xfc000000002fc000, 0x000002fc00000000, 0x2fc000000002fc00] @
   line 7 0x0000002fc00000),
    (44, lines
     [0x02aa03ff07fe07fc, 0x0bfc0ff80ff40ff0, 0x1fe02fc03fc03f40]),
    (45, lines
     [0x0000007fffff7fff] @
   line 7 0xff7fffff7fffff),
    (46, lines
     [0x0507fcffeffffffb] @
   line 3 0xfe2f80),
    (47, lines
     [0x0000003fd0000003, 0xfc000000bf800000, 0x0ff4000001ff0000, 0x002fe0000003fc00,
      0x00007fc000000ff4, 0x000000ff0000002f, 0xe0000003fd000000, 0x7fc000000bf80000,
      0x00ff0000001ff000, 0x0003fd0000003fc0, 0x00000bf8000000ff, 0x4000001ff0000002,
      0xfe0000003fc00000, 0x07fc000000ff4000, 0x000ff0000002fe00, 0x00003fd0000007fc,
      0x000000bf8000000f, 0xf0000001ff000000, 0x3fd0000003fc0000] @
   line 1 0x00),
    (48, lines
     [0x00005500000007ff, 0xfd00000bffffe000, 0x0bfffffe0007ff96, 0xffd003ff401ffc01,
      0xff8001ff40bfc000, 0x3fe03fe0000bfc0f, 0xf40000ff47fc0000, 0x3fd2ff00000ff8bf,
      0xc00003ff2ff00000, 0xbfcffc00002ff3fe, 0x00000bfcff800002, 0xff3fe00000bfcff8,
      0x00002ff3fe00000b, 0xfcff800002ff3ff0, 0x0000bfcbfc00002f, 0xf2ff00000ff87fc0,
      0x0003fe1ff40000ff, 0x43fe00007fc0ffc0, 0x002ff01ff0000ff8, 0x03ff000bfc00bff0,
      0x0bfe000fffffff00, 0x00ffffff40000fff, 0xff0000006ff90000]),
    (49, lines
     [0x00007fc0001ffc00, 0x0bffc002fffc00ff, 0xffc03ffbfc1ffd7f, 0xc7ff47fc3fd07fc0,
      0xf007fc00007fc000, 0x07fc00007fc00007, 0xfc00007fc00007fc, 0x00007fc00007fc00,
      0x007fc00007fc0000, 0x7fc00007fc00007f, 0xc00007fc00007fc0, 0x0007fc00007fc000,
      0x07fc00007fc00007, 0xfc00007fc00007fc] @
   line 7 0x00007fc00007fc)]"

definition open_sans_48_glyphs_0032 :: "(nat \<times> u8 list) list" where
  "open_sans_48_glyphs_0032 =
   [(50, lines
     [0x0000554000000bff, 0xff40002ffffff800, 0x3fffffffc02fff96, 0xfff803fd0007ff00,
      0x380000bfd0000000, 0x0ff800000003ff00, 0x000000bfc0000000, 0x3ff00000000ffc00,
      0x000003fe00000001, 0xff40000000ffc000, 0x00007fe00000003f, 0xf00000002ff80000,
      0x001ffc0000000ffc, 0x0000000ffd000000, 0x0bfe00000007fe00, 0x000007ff00000003,
      0xff00000003ff0000, 0x0003ff40000002ff, 0x40000002ff800000, 0x01ff80000000ffc0,
      0x000000ffffffffff, 0x3fffffffffcfffff, 0xfffff3fffffffffc]),
    (51, lines
     [0x0000554000001bff, 0xff80007ffffffd00, 0xbfffffffc02ffe55, 0xbffc03f40007ff40,
      0x2000007fe0000000, 0x0ffc00000002ff00, 0x000000bfc0000000, 0x2ff00000000ff800,
      0x00000bfc00000007, 0xfd0000001ffe0000, 0xbffffd00002ffff4, 0x00000bffff800002,
      0xfffffe00000006ff, 0xf00000000ffe0000, 0x0000ffc00000001f, 0xf400000003fe0000,
      0x0000ff800000003f, 0xe00000000ff80000, 0x0007fe00000003ff, 0x08000002ffc3f400,
      0x07ffd0ffffffffe0, 0x3fffffffe00bffff, 0xffd0001afffa0000]),
    (52, lines
     [0x0000000bfc000000, 0x001ffc000000003f, 0xfc00000000bffc00, 0x000000fffc000000,
      0x02fffc00000007f7, 0xfc0000000ff3fc00, 0x00001fd3fc000000, 0x3fc3fc000000bf47,
      0xfc000000fe07fc00, 0x0003fc07fc000007, 0xf807fc00000ff007, 0xfc00002fd007fc00,
      0x003fc007fc0000ff, 0x0007fc0001fe0007, 0xfc0003fc0007fc00, 0x0bf40007fc000ff0,
      0x0007fc002fd00007, 0xfc003ffffffffffd, 0x3ffffffffffd3fff, 0xfffffffd3fffffff,
      0xfffd00000007fc00, 0x00000007fc000000, 0x0007fc0000000007, 0xfc0000000007fc00,
      0x00000007fc000000] @
   line 4 0x0007fc00),
    (53, lines
     [0x0bffffffe00fffff, 0xffe00fffffffe00f, 0xffffffe00ff00000, 0x000ff00000000ff0,
      0x0000000ff0000000, 0x1ff00000001ff000, 0x00001fe00000002f, 0xe00000002fe6be90,
      0x002ffffffd002fff, 0xffff802fffffffe0, 0x064002fff4000000, 0x3ffc0000000ffc00,
      0x000007fe00000003, 0xfe00000003ff0000, 0x0003ff00000003ff, 0x00000003fe000000,
      0x03fe0000000bfd00, 0x00000ffc5000003f, 0xf87e4002fff07fff, 0xffffc07fffffff00,
      0x3ffffff80001bffe] @
   line 2 0x4000),
    (54, lines
     [0x000001554000002f, 0xfffc00007fffff00, 0x00bfffffc000bffe, 0x5560007ff4000000,
      0x3ff00000002ff000, 0x00000ff800000007, 0xfc00000002fe0000, 0x0000ff400000003f,
      0xc00000001ff01bfe, 0x0007fc3ffff402fe, 0x3fffff80bfbfffff, 0xf42fff800bff0bff,
      0x4000bfd2ff80000f, 0xf8bfd00002ff2ff0, 0x00007fcbfc00001f, 0xf2ff000007fc7fc0,
      0x0001ff1ff000007f, 0xc3fd00002ff0ffc0, 0x000ff81ff40007fd, 0x03ff0003ff007ff4,
      0x07ff800bffffffc0, 0x00ffffffc0000bff, 0xff8000002ffe0000])]"

definition open_sans_48_glyphs_0037 :: "(nat \<times> u8 list) list" where
  "open_sans_48_glyphs_0037 =
   [(55, lines
     [0x3fffffffffc3ffff, 0xfffffc3fffffffff, 0xc3fffffffffc0000, 0x0000ff800000000f,
      0xf400000002ff0000, 0x00003fe000000007, 0xfc00000000ffc000, 0x00000ff400000002,
      0xff000000003fe000, 0x000007fc00000000, 0xffc00000000ff400, 0x000002ff00000000,
      0x3fe000000007fd00, 0x000000ffc0000000, 0x0ff800000002ff00, 0x0000003ff0000000,
      0x07fd00000000ffc0, 0x0000000ff8000000, 0x02ff000000003ff0, 0x00000007fd000000,
      0x00ffc00000000ff8, 0x00000002ff400000, 0x003ff000000007fd] @
   line 3 0x000000),
    (56, lines
     [0x00001550000000bf, 0xffe400007fffffe0, 0x001fffffff8003ff, 0x906ffd00bfe0007f,
      0xf00ffc0002ff00ff, 0x40000ff40ff40000, 0xff40ff40000ff00f, 0xf80001ff00bfc000,
      0x3ff003ff000bfd00, 0x2ffc02ff8000bff5, 0xffe00002fffff800, 0x0007fffc000000bf,
      0xffd000003fffffc0, 0x001ffe1fff0003ff, 0x402ffc00ffc0007f, 0xf01ff40001ff82ff,
      0x00000ffc3fd00000, 0x7fc3fd000003fc3f, 0xd000003fc3fe0000, 0x07fc3ff00000bfc2,
      0xff40001ff80ffe00, 0x07ff007fffabffd0, 0x02fffffff80007ff, 0xfffd000006fff900] @
   line 1 0x00),
    (57, lines
     [0x00005540000002ff, 0xfe000007fffff400, 0x07ffffff8003ffe5, 0xbff402ff8007ff00,
      0xff80007fd07fc000, 0x0ffc2ff00001ff0f, 0xf800003fd3fe0000, 0x0ff8ff800003fe3f,
      0xe00000bfcff80000, 0x3ff3ff00000ffcbf, 0xc0000bff0ffc0007, 0xffc3ff8007fff07f,
      0xffbffbfc07fffff6, 0xfe007ffff4bf8002, 0xffd03fd00000000f, 0xf400000003fc0000,
      0x0001ff00000000ff, 0x800000007fd00000, 0x003ff00000002ff4, 0x0000002ffc000000,
      0x7ffc000ffffffd00, 0x03fffffd0000ffff, 0xf800002fff900000]),
    (58, lines
     [0x2f8bfeffffffbfe3, 0xfc05000000000000, 0x0000000000000000, 0x0000000000503fcb] @
   line 7 0xffffffffbfe2f8),
    (59, lines
     [0x02f80bfe0fff0fff, 0x0ffe03fc00500000, 0x0000000000000000, 0x0000000000000000,
      0x0000000000000000, 0x02a907fe07fd0bfc, 0x0ffc0ff40ff01ff0, 0x2fd03fc03f807f40]),
    (60, lines
     [0x0000000000000000, 0x00001d000000001f, 0xd00000001ffd0000, 0x001fffd000001fff,
      0xe000001fffe00000, 0x1fffe000001fffd0, 0x00001fffd000001f, 0xffd0000003ffd000,
      0x00003ff800000003, 0xfff800000006fff8, 0x00000002fffd0000, 0x0002fffd00000002,
      0xfffd00000002fffe, 0x00000001fffd0000, 0x0001ffd000000001, 0xfd0000000001d000] @
   line 4 0x00000000),
    (61, lines
     [0xaaaaaaaaaa3fffff, 0xffffcffffffffff3, 0xfffffffffc000000, 0x0000000000000000,
      0x0000000000000000, 0x0000000000000000, 0x000000000aaaaaaa, 0xaaa3fffffffffcff,
      0xffffffff3fffffff] @
   line 2 0xffc0),
    (62, lines
     [0x0000000000034000, 0x0000003f40000000, 0x03ff400000003fff, 0x400000007fff4000,
      0x00007fff40000000, 0x7fff400000007fff, 0x400000007fff4000, 0x00007fff40000000,
      0x7ffd00000001ffd0, 0x000001fffc000002, 0xfffd000002fffd00, 0x0006fff9000007ff,
      0xf8000007fff80000, 0x03fff80000003ff8, 0x00000003f8000000, 0x0034000000000000] @
   line 4 0x00000000)]"

definition open_sans_48_glyphs_003f :: "(nat \<times> u8 list) list" where
  "open_sans_48_glyphs_003f =
   [(63, lines
     [0x00055400002ffffd, 0x002ffffffc03ffff, 0xfff02ff95bff40e0, 0x001ffc0000007fc0,
      0x000003fd0000003f, 0xd0000003fd000000, 0x3fc000000bfc0000, 0x00ff8000003ff000,
      0x000bfd000002ff80, 0x0000bfe000002ff8, 0x000003fe000000bf, 0x8000000ff0000000,
      0xfe0000001fd00000, 0x01fd0000000a9000, 0x0000000000000000, 0x0000000000000001,
      0x40000002ff000000, 0x3ff4000003ff8000, 0x003ff8000003ff00] @
   line 6 0x00000fd00000),
    (64, lines
     [0x0000001bffe40000, 0x0000007ffffff800, 0x0000007ffffffff4, 0x0000002ffe5006ff,
      0xe000000bfe000001, 0xff800002ff400000, 0x03fe00007fc00000, 0x000ff0000ff00000,
      0x00003fc002fd0000, 0x000002fd007f8000, 0x6ffe400ff00bf000, 0x3fffff00bf00fe00,
      0x1ffffff003f41fc0, 0x03fe00ff003f82fc, 0x00bf400ff002fc3f, 0x800ff000ff002fc3,
      0xf402fd000ff001fc, 0x7f403fc000fe001f, 0xc7f003fc000fe001, 0xfc7f003f8000fe00,
      0x1fcbf003f8000fe0, 0x02fcbf003f8001fe, 0x002fcbf003f8001f, 0xe003f87f003fc002,
      0xfe003f47f003fc00, 0x3fe007f07f401fe0, 0x07ff00ff03f800ff, 0x81faf82fd03fc007,
      0xffff1ffff802fc00, 0x2fffd0bffe001fe0, 0x006fe001ff4000ff, 0x0000000000000007,
      0xf800000000000000, 0x3fe0000000000000, 0x00ff800000000000, 0x0007ff0000001800,
      0x00001fff40016fc0, 0x0000003ffffffffc, 0x000000007fffffff, 0x80000000006ffffa,
      0x4000000000000000] @
   line 4 0x00000000),
    (65, lines
     [0x000007ff00000000, 0x003ffd0000000000, 0xfff80000000007ff, 0xf0000000002fffd0,
      0x00000000ff7f8000, 0x000007fcff000000, 0x002fe3fd00000000, 0xff4bf800000007fc,
      0x1ff00000002fe03f, 0xc0000000ff40ff80, 0x000003fc02ff0000, 0x002ff007fc000000,
      0xff800ff4000003fd, 0x002ff000002ff000, 0x7fc00000ff8000ff, 0x400003fd0003fe00,
      0x001ff0000bfc0000, 0xfffffffff40003ff, 0xffffffe0001fffff, 0xffffc000bfffffff,
      0xff4003ff000003fe, 0x001ff400000ffc00, 0xbfc000002ff403ff, 0x0000007fe01ff800,
      0x0000ffc0bfd00000, 0x02ff03ff00000007, 0xfe0ff80000000ffc, 0xbfd00000002ff3ff] @
   line 6 0x000000007fd0),
    (66, lines
     [0xffffffe4000fffff, 0xfff800fffffffff0, 0x0fffffffffc0ff80, 0x007ffd0ff80000bf,
      0xf0ff800003ff0ff8, 0x00002ff0ff800002, 0xff0ff800002ff0ff, 0x800002ff0ff80000,
      0x3fe0ff80000bfd0f, 0xf80002ff80ffffff, 0xffe00fffffffe000, 0xfffffffe400fffff,
      0xffff40ff80007ffd, 0x0ff800007ff0ff80, 0x0002ff4ff800000f, 0xfcff800000ffcff8,
      0x00000ffcff800000, 0xffcff800000ffcff, 0x800000ffcff80000, 0x2ff8ff800007ff4f,
      0xf80002fff0ffffff, 0xfffc0fffffffff00, 0xffffffff800fffff] @
   line 3 0xfe4000),
    (67, lines
     [0x0000005550000000, 0xbffffe00002fffff, 0xff4003fffffffc00, 0x3fffeabff003ffe0,
      0x000b402ffd000000, 0x00ffd00000000bfe, 0x000000003ff00000, 0x0001ff800000000b,
      0xfd000000003ff000, 0x000000ffc0000000, 0x03fe000000001ff8, 0x000000007fd00000,
      0x0001ff4000000007, 0xfd000000001ff400, 0x0000007fe0000000, 0x00ff8000000003ff,
      0x000000000ffc0000, 0x00002ff400000000, 0x7ff000000000ffc0, 0x00000002ffc00000,
      0x0003ff800000000b, 0xff800000000fffe4, 0x006e000ffffffff8, 0x000bffffffe00007,
      0xffffff400001bfff] @
   line 2 0x9000)]"

definition open_sans_48_glyphs_0044 :: "(nat \<times> u8 list) list" where
  "open_sans_48_glyphs_0044 =
   [(68, lines
     [0xffffff900000ffff, 0xfffe4000ffffffff, 0xe000fffffffffc00, 0xff8001bfff00ff80,
      0x000bff80ff800001, 0xffc0ff800000bfe0, 0xff8000003ff0ff80, 0x00002ff8ff800000,
      0x0ffcff8000000ffc, 0xff8000000bfcff80, 0x00000bfdff800000, 0x07fdff80000007fd,
      0xff80000007fdff80, 0x000007fdff800000, 0x07fdff80000007fd, 0xff8000000bfcff80,
      0x00000ffcff800000, 0x0ffcff8000001ff8, 0xff8000002ff4ff80, 0x00003ff0ff800000,
      0xffe0ff800002ffc0, 0xff80000fff40ff80, 0x01bffe00ffffffff, 0xf800ffffffffd000,
      0xfffffffe0000ffff] @
   line 4 0xff900000),
    (69, lines
     [0xffffffffbfffffff, 0xeffffffffbffffff, 0xfeff8000003fe000, 0x000ff8000003fe00,
      0x0000ff8000003fe0, 0x00000ff8000003fe, 0x000000ff8000003f, 0xe000000ffffffff3,
      0xfffffffcffffffff, 0x3fffffffcff80000, 0x03fe000000ff8000, 0x003fe000000ff800,
      0x0003fe000000ff80, 0x00003fe000000ff8, 0x000003fe000000ff, 0x8000003fe000000f,
      0xfffffffbfffffffe, 0xffffffffbfffffff] @
   line 1 0xe0),
    (70, lines
     [0xffffffffbfffffff, 0xeffffffffbffffff, 0xfeff8000003fe000, 0x000ff8000003fe00,
      0x0000ff8000003fe0, 0x00000ff8000003fe, 0x000000ff8000003f, 0xe000000ff8000003,
      0xfe000000ffffffff, 0x3fffffffcfffffff, 0xf3fffffffcff8000, 0x003fe000000ff800,
      0x0003fe000000ff80, 0x00003fe000000ff8, 0x000003fe000000ff, 0x8000003fe000000f,
      0xf8000003fe000000, 0xff8000003fe00000] @
   line 1 0x00),
    (71, lines
     [0x0000001554000000, 0x01bfffff800000ff, 0xffffff8000bfffff, 0xfff8002ffffaabff,
      0x400bffd00001f001, 0xffe0000000003ff8, 0x000000000bff0000, 0x000000ffc0000000,
      0x001ffc0000000002, 0xff40000000003ff0, 0x0000000003ff0000, 0x0000003fe0000000,
      0x0007fe0000000000, 0x7fd00007ffffe7fd, 0x00007ffffe7fd000, 0x07ffffe7fd00007f,
      0xfffe7fe00000003f, 0xe3fe00000003fe3f, 0xf00000003fe3ff00, 0x000003fe2ff40000,
      0x003fe1ffc0000003, 0xfe0ffd0000003fe0, 0x7ff0000003fe03ff, 0xc000003fe01fff00,
      0x0003fe00bffe4001, 0xbfe002fffffffffe, 0x0007ffffffffe000, 0x0bfffffff8000006] @
   line 4 0xfffe9000),
    (72, lines
     [0xff8000000ffffe00, 0x00003ffff8000000, 0xffffe0000003ffff, 0x8000000ffffe0000,
      0x003ffff8000000ff, 0xffe0000003ffff80, 0x00000ffffe000000, 0x3ffff8000000ffff,
      0xe0000003ffff8000, 0x000ffffe0000003f, 0xffffffffffffffff, 0xffffffffffffffff,
      0xffffffffffffffff, 0xf8000000ffffe000, 0x0003ffff8000000f, 0xfffe0000003ffff8,
      0x000000ffffe00000, 0x03ffff8000000fff, 0xfe0000003ffff800, 0x0000ffffe0000003,
      0xffff8000000ffffe, 0x0000003ffff80000, 0x00ffffe0000003ff, 0xff8000000ffffe00] @
   line 4 0x00003ff0),
    (73, lines
     [0xffbfeffbfeffbfef, 0xfbfeffbfeffbfeff, 0xbfeffbfeffbfeffb, 0xfeffbfeffbfeffbf,
      0xeffbfeffbfeffbfe] @
   line 3 0xffbfe0)]"

definition open_sans_48_glyphs_004a :: "(nat \<times> u8 list) list" where
  "open_sans_48_glyphs_004a =
   [(74, lines
     [0x0000ff80003fe000, 0x0ff80003fe0000ff, 0x80003fe0000ff800, 0x03fe0000ff80003f,
      0xe0000ff80003fe00, 0x00ff80003fe0000f, 0xf80003fe0000ff80, 0x003fe0000ff80003,
      0xfe0000ff80003fe0, 0x000ff80003fe0000, 0xff80003fe0000ff8, 0x0003fe0000ff8000,
      0x3fe0000ff80003fe, 0x0000ff80003fe000, 0x0ff40007fd0002ff, 0x0000ffc101ffe0ff,
      0xfff03ffff80ffff4] @
   line 4 0x02ffe000),
    (75, lines
     [0xff800000ffd3fe00, 0x000bfe0ff800003f, 0xf03fe00003ff00ff, 0x80002ff403fe0001,
      0xff800ff8000ffc00, 0x3fe000ffd000ff80, 0x0bfe0003fe003ff0, 0x000ff803ff00003f,
      0xe02ff40000ff81ff, 0x800003fe0ffc0000, 0x0ff8ffc000003feb, 0xff000000ffffff00,
      0x0003fffffd00000f, 0xffeffc00003ffd2f, 0xf80000ffd03ff000, 0x03fe00bfe0000ff8,
      0x00ffd0003fe001ff, 0xc000ff8003ff4003, 0xfe0003ff000ff800, 0x0bfe003fe0000ffd,
      0x00ff80001ffc03fe, 0x00003ff40ff80000, 0x3ff03fe00000bfe0, 0xff800000ffc3fe00] @
   line 4 0x0001ffc0),
    (76, lines
     [0xff8000003fe00000, 0x0ff8000003fe0000, 0x00ff8000003fe000, 0x000ff8000003fe00,
      0x0000ff8000003fe0, 0x00000ff8000003fe, 0x000000ff8000003f, 0xe000000ff8000003,
      0xfe000000ff800000, 0x3fe000000ff80000, 0x03fe000000ff8000, 0x003fe000000ff800,
      0x0003fe000000ff80, 0x00003fe000000ff8, 0x000003fe000000ff, 0x8000003fe000000f,
      0xffffffffffffffff, 0xffffffffffffffff] @
   line 1 0xf0),
    (77, lines
     [0xfff8000000007ffd, 0xfffc00000000fffd, 0xfffd00000000fffd, 0xfffe00000001fffd,
      0xffff00000003fffd, 0xffff40000003fffd, 0xffbf80000007fbfd, 0xff7fc000000ff7fd,
      0xff3fd000000ff3fd, 0xff1fe000001fe3fd, 0xff4ff000002fc3fd, 0xff4ff400003fc3fd,
      0xff4bf800007f83fd, 0xff43fc0000bf43fd, 0xff43fd0000ff03fd, 0xff42fe0001fe03fd,
      0xff40ff0002fd03fd, 0xff40ff4003fc03fd, 0xff40bf8007f803fd, 0xff403fc00bf403fd,
      0xff403fd00ff003fd, 0xff402fe01fe003fd, 0xff401ff02fd003fd, 0xff400ff43fc003fd,
      0xff400bf87f8003fd, 0xff4007fcbf4003fd, 0xff4003fdff0003fd, 0xff4002fffe0003fd,
      0xff4001fffd0003fd, 0xff4000fffc0003fd, 0xff4000bff80003fd, 0xff40007ff40003fd,
      0xff40003ff00003fd, 0xff40002fe00003fd]),
    (78, lines
     [0xfff0000000ff7ffd, 0x0000003fdfffc000, 0x000ff7fff4000003, 0xfdffff000000ff7f,
      0xffd000003fdffffc, 0x00000ff7fdff8000, 0x03fdff3ff00000ff, 0x7fc7fe00003fdff0,
      0xffc0000ff7fc0ff8, 0x0003fdff42ff0000, 0xff7fd03ff0003fdf, 0xf40bfd000ff7fd00,
      0xffc003fdff402ff4, 0x00ff7fd003ff003f, 0xdff4007fd00ff7fd, 0x000ffc03fdff4001,
      0xff80ff7fd0003ff0, 0x3fdff40007fe0ff7, 0xfd0000ffc3fdff40, 0x001ff8ff7fd00003,
      0xff3fdff400003fff, 0xf7fd00000bfffdff, 0x400000ffff7fd000, 0x002fffdff4000003,
      0xfff7fd000000bffd, 0xff4000000fff7fd0] @
   line 5 0x000002ffd0)]"

definition open_sans_48_glyphs_004f :: "(nat \<times> u8 list) list" where
  "open_sans_48_glyphs_004f =
   [(79, lines
     [0x0000015540000000, 0x007ffffe00000007, 0xffffffd000002fff, 0xfffff80000bfffaa,
      0xfffe0001fff4000b, 0xff4003ff800002ff, 0xc007ff000000bfe0, 0x0ffd0000003ff01f,
      0xfc0000002ff42ff4, 0x0000000ff83ff000, 0x00000ffc3ff00000, 0x000bfc3fe0000000,
      0x0bfd3fe000000007, 0xfd7fe000000007fd, 0x7fd000000007fe7f, 0xd000000007fe7fd0,
      0x00000007fe7fd000, 0x000007fe7fe00000, 0x0007fd3fe0000000, 0x0bfd3ff00000000b,
      0xfc3ff00000000ffc, 0x2ff40000000ffc1f, 0xf80000001ff80ffc, 0x0000003ff00bfe00,
      0x00007ff003ff4000, 0x00ffd002ffd00003, 0xff8000fffd006fff, 0x00003ffffffffc00,
      0x000ffffffff00000, 0x01ffffff80000000] @
   line 5 0x1bffe40000),
    (80, lines
     [0xfffffe9000ffffff, 0xfd00ffffffff80ff, 0xffffffe0ff8001ff, 0xf0ff80003ff8ff80,
      0x000ffcff80000bfd, 0xff800007fdff8000, 0x07fdff800003fdff, 0x800007fdff800007,
      0xfdff80000ffcff80, 0x001ffcff80003ff4, 0xff8006fff0ffffff, 0xffc0ffffffff00ff,
      0xfffff800fffffe40, 0x00ff80000000ff80, 0x000000ff80000000, 0xff80000000ff8000,
      0x0000ff80000000ff, 0x80000000ff800000, 0x00ff80000000ff80, 0x000000ff80000000,
      0xff80000000ff8000] @
   line 2 0x0000),
    (81, lines
     [0x0000015540000000, 0x007ffffe00000007, 0xffffffd000002fff, 0xfffff80000bfffaa,
      0xfffe0001fff4000b, 0xff4003ff800002ff, 0xc007ff000000bfe0, 0x0ffd0000003ff01f,
      0xfc0000002ff42ff4, 0x0000000ff83ff000, 0x00000ffc3ff00000, 0x000bfc3fe0000000,
      0x0bfd3fe000000007, 0xfd7fe000000007fd, 0x7fd000000007fe7f, 0xd000000007fe7fd0,
      0x00000007fe7fd000, 0x000007fe7fe00000, 0x0007fd3fe0000000, 0x0bfd3ff00000000b,
      0xfc3ff00000000ffc, 0x2ff40000000ffc1f, 0xf80000001ff80ffc, 0x0000003ff00bfe00,
      0x00007ff003ff4000, 0x00ffd002ffd00003, 0xffc000fffd006fff, 0x00003ffffffffc00,
      0x000ffffffff00000, 0x01ffffff40000000, 0x1bffff0000000000, 0x02ff800000000000,
      0xffe000000000007f, 0xf400000000002ffc, 0x00000000000fff00, 0x0000000003ff8000,
      0x00000001ffd00000] @
   line 5 0x0000006a90),
    (82, lines
     [0xfffffe90000fffff, 0xffd000ffffffff80, 0x0ffffffffe00ff80, 0x01fff40ff80002ff,
      0xc0ff80000ffc0ff8, 0x0000bfd0ff800007, 0xfd0ff800003fe0ff, 0x800003fd0ff80000,
      0x7fd0ff80000bfc0f, 0xf80000ffc0ff8000, 0x2ff40ff8001fff00, 0xffffffffc00fffff,
      0xfff000fffffff400, 0x0fffffff0000ff80, 0x1ff4000ff800ffc0, 0x00ff8007fe000ff8,
      0x003ff000ff8001ff, 0x800ff8000ffc00ff, 0x80007fe00ff80003, 0xff00ff80000ffc0f,
      0xf80000bfd0ff8000, 0x03ff0ff800002ff4, 0xff800000ffcff800] @
   line 3 0x000bfe),
    (83, lines
     [0x0000555000002fff, 0xff8001fffffff807, 0xfffffff40fffeaff, 0xf03ffc0002e03ff0,
      0x0000007fd0000000, 0xbfc0000000bfc000, 0x0000bfc00000007f, 0xd00000003ff00000,
      0x003ffc0000000fff, 0x80000007fff80000, 0x01ffff8000003fff, 0xf8000007ffff0000,
      0x007fffc0000007ff, 0xf0000000bff40000, 0x001ffc0000000ffc, 0x0000000bfc000000,
      0x07fc00000007fc00, 0x00000bfc0000000f, 0xfcd000003ff4ff90, 0x06fff0ffffffffc0,
      0xffffffff00bfffff] @
   line 7 0xf80006bffe4000)]"

definition open_sans_48_glyphs_0054 :: "(nat \<times> u8 list) list" where
  "open_sans_48_glyphs_0054 =
   [(84, lines
     [0x7ffffffffff1ffff, 0xffffffc7ffffffff, 0xff1ffffffffffc00, 0x003fe000000000ff,
      0x8000000003fe0000, 0x00000ff800000000, 0x3fe000000000ff80, 0x00000003fe000000,
      0x000ff8000000003f, 0xe000000000ff8000, 0x000003fe00000000, 0x0ff8000000003fe0,
      0x00000000ff800000, 0x0003fe000000000f, 0xf8000000003fe000, 0x000000ff80000000,
      0x03fe000000000ff8, 0x000000003fe00000, 0x0000ff8000000003, 0xfe000000000ff800,
      0x0000003fe0000000, 0x00ff8000000003fe, 0x000000000ff80000, 0x00003fe000000000] @
   line 4 0xff800000),
    (85, lines
     [0x7fd0000003fe7fd0, 0x000003fe7fd00000, 0x03fe7fd0000003fe, 0x7fd0000003fe7fd0,
      0x000003fe7fd00000, 0x03fe7fd0000003fe, 0x7fd0000003fe7fd0, 0x000003fe7fd00000,
      0x03fe7fd0000003fe, 0x7fd0000003fe7fd0, 0x000003fe7fd00000, 0x03fe7fd0000003fe,
      0x7fd0000003fe7fd0, 0x000003fe7fd00000, 0x03fe7fd0000003fe, 0x7fd0000003fe7fd0,
      0x000003fe7fd00000, 0x03fe7fd0000003fe, 0x3fe0000003fd3ff0, 0x000007fd3ff00000,
      0x0ffc1ff800001ffc, 0x0ffe00003ff40bff, 0xd006fff002ffffff, 0xffc000bfffffff00,
      0x001ffffff8000001] @
   line 4 0xbffe4000),
    (86, lines
     [0xffc00000007fdbfc, 0x0000000bfc7fe000, 0x0000ff83ff000000, 0x1ff42ff0000002ff,
      0x01ff4000003ff00f, 0xf8000003fe00ffc0, 0x00007fc007fc0000, 0x0bfc003fe00000ff,
      0x8003ff00001ff400, 0x2ff00002ff0001ff, 0x40003fe0000ff800, 0x03fd0000bfc0007f,
      0xc00007fc000ffc00, 0x003fe000ff800003, 0xff001ff000001ff0, 0x02ff000000ff403f,
      0xe000000ff803fd00, 0x0000bfc07fc00000, 0x07fc0ff80000003f, 0xe0ff40000002ff1f,
      0xf00000001ff2ff00, 0x000000ff3fe00000, 0x000bf7fc00000000, 0x7fffc000000003ff,
      0xf8000000003fff40, 0x00000002fff00000, 0x00000ffe00000000] @
   line 5 0x00ffd00000),
    (87, lines
     [0xbfc000001ff00000, 0x07fd7fd000002ff4, 0x00000bfc3fe00000, 0x3ff800000bfc3ff0,
      0x00003ffc00000ff8, 0x2ff000007ffc0000, 0x0ff41ff40000bffd, 0x00001ff40ff40000,
      0xfffe00002ff00ff8, 0x0000feff00003ff0, 0x0bfc0001fdbf0000, 0x3fe007fc0002fdbf,
      0x40007fd003fd0003, 0xfc7f8000bfc003fe, 0x0003fc3fc000ffc0, 0x02ff0007f83fc000,
      0xff8001ff000bf42f, 0xd000ff4000ff400f, 0xf01fe001ff0000ff, 0x800ff00ff002ff00,
      0x00ff801fe00ff003, 0xfe0000bfc02fd00b, 0xf403fd00007fc03f, 0xc007f807fc00003f,
      0xd03fc003fc0bfc00, 0x003fe07f8003fc0f, 0xf800002ff0bf8002, 0xfd0ff400001ff0ff,
      0x4001fe0ff000000f, 0xf0ff0000ff1ff000, 0x000ff4ff0000ff2f, 0xf000000bf9fe0000,
      0xbf3fe0000007fefd, 0x00007f7fd0000003, 0xfefc00003fbfc000, 0x0003fffc00003fff,
      0xc0000002fff80000, 0x2fff80000001fff4, 0x00001fff40000000, 0xfff000000fff0000,
      0x0000fff000000fff, 0x00000000bfe00000] @
   line 4 0x0ffe0000)]"

definition open_sans_48_glyphs_0058 :: "(nat \<times> u8 list) list" where
  "open_sans_48_glyphs_0058 =
   [(88, lines
     [0x3ff000000bfd03fe, 0x000003fe00bfc000, 0x02ff000ff80000ff, 0x8002ff0000bfc000,
      0x3fe0003fe0000bfc, 0x002ff00000ff800f, 0xf800002ff00bfc00, 0x0003fe03fe000000,
      0xbfc2ff0000000ff8, 0xff40000001ffbfc0, 0x0000003fffd00000, 0x0007fff000000000,
      0xfff4000000002ffc, 0x000000000fff4000, 0x00000bfff0000000, 0x03fffe00000002ff,
      0xbfc0000000ff4ff8, 0x000000bfc2ff0000, 0x003fd03fe000003f, 0xf00bfc00001ff400,
      0xff80000ffc002ff0, 0x0007fd0003fe0003, 0xff0000bfc001ff40, 0x000ffc00ffc00002,
      0xff407fd000003ff0, 0x3ff000000bfd2ff4] @
   line 5 0x000000ffc0),
    (89, lines
     [0xffc000000bfd7fe0, 0x00000ffc3ff00000, 0x1ff41ff400003ff0, 0x0ffc00007fe00bfd,
      0x0000bfc003fe0000, 0xff8002ff0002ff00, 0x00ff8003fe0000bf, 0xc007fc00007fd00f,
      0xfc00003ff01ff400, 0x001ff42ff000000f, 0xfc3fd0000007fcbf, 0xc0000003feff8000,
      0x0002ffff00000000, 0xfffe00000000bffc, 0x000000003ff80000, 0x00002ff000000000,
      0x2ff0000000002ff0, 0x000000002ff00000, 0x00002ff000000000, 0x2ff0000000002ff0,
      0x000000002ff00000, 0x00002ff000000000, 0x2ff0000000002ff0, 0x000000002ff00000,
      0x00002ff000000000] @
   line 4 0x2ff00000),
    (90, lines
     [0x3fffffffff0fffff, 0xffffc3fffffffff0, 0xfffffffffc000000, 0x07fd00000003ff00,
      0x000002ff40000000, 0xffc0000000bfd000, 0x00003fe00000002f, 0xf00000001ff80000,
      0x000ffc00000007fe, 0x00000003ff000000, 0x01ff80000000ffc0, 0x0000007fd0000000,
      0x3ff00000002ff400, 0x00000ffc0000000b, 0xfd00000003fe0000, 0x0002ff00000001ff,
      0x80000000ffc00000, 0x007fe00000003ff0, 0x0000001ff4000000, 0x0ffc00000007ffff,
      0xfffff6fffffffffd, 0xbfffffffff6fffff] @
   line 3 0xffffd0),
    (91, lines
     [0x7ffffc7ffffc7fff, 0xfc7feaa87f80007f, 0x80007f80007f8000, 0x7f80007f80007f80,
      0x007f80007f80007f, 0x80007f80007f8000, 0x7f80007f80007f80, 0x007f80007f80007f,
      0x80007f80007f8000, 0x7f80007f80007f80, 0x007f80007f80007f, 0x80007f80007f8000,
      0x7f80007f80007f80, 0x007f80007f80007f, 0x80007ffffc7ffffc] @
   line 6 0x7ffffc6aaaa8),
    (92, lines
     [0x3fc0000003fd0000, 0x001ff0000000ff00, 0x00000bf80000007f, 0xc0000003fd000000,
      0x2fe0000000ff0000, 0x000ff40000007fc0, 0x000003fc0000002f, 0xe0000001ff000000,
      0x0ff4000000bf8000, 0x0003fc0000003fd0, 0x000001ff0000000f, 0xf0000000bf800000,
      0x07fc0000003fd000, 0x0002fe0000000ff0, 0x000000ff40000007, 0xfc0000003fc00000,
      0x03fe0000001ff000, 0x0000ff4000000bf8, 0x0000007fc0000003] @
   line 1 0xfd),
    (93, lines
     [0xbffffefffffbffff, 0xdaaaff0007fc001f, 0xf0007fc001ff0007, 0xfc001ff0007fc001,
      0xff0007fc001ff000, 0x7fc001ff0007fc00, 0x1ff0007fc001ff00, 0x07fc001ff0007fc0,
      0x01ff0007fc001ff0, 0x007fc001ff0007fc, 0x001ff0007fc001ff, 0x0007fc001ff0007f,
      0xc001ff0007fc001f, 0xfbffffefffffbfff] @
   line 4 0xfdaaaa90)]"

definition open_sans_48_glyphs_005e :: "(nat \<times> u8 list) list" where
  "open_sans_48_glyphs_005e =
   [(94, lines
     [0x00001f8000000000, 0xff0000000007fe00, 0x0000003ffc000000, 0x01fff80000000fff,
      0xf00000007f5fe000, 0x0003fc3fc000001f, 0xe07f800000ff00ff, 0x000007f801fe0000,
      0x2fc003fc0000fe00, 0x07f8000bf0000ff0, 0x003fc0001fe002fd, 0x00003fc00ff00000,
      0x7f80bf400000ff03, 0xfc000001fe2fd000] @
   line 3 0x0003fc),
    (95, lines
     [0x000000000000ffff, 0xffffffc3ffffffff] @
   line 7 0xff0ffffffffffc),
    (96, lines
     [0x2aa000bfe000ffd0, 0x00ffc000ff8000ff] @
   line 6 0x4000ff0000bf),
    (97, lines
     [0x0006fff80000bfff, 0xff8002ffffffe000, 0xffeafff400a4001f, 0xfc0000000bfc0000,
      0x0007fd00000003fd, 0x00000003fd000000, 0x03fd0006fffffd00, 0xbffffffd03ffffff,
      0xfd0fff8003fd1ffc, 0x0003fd3ff00003fd, 0x3fe00003fd3fe000, 0x03fd3fe00007fd3f,
      0xe0000ffd3ff0002f, 0xfd2ff800bffd0fff, 0xabfafd0bfffff1fd, 0x02ffff80fd002ff9] @
   line 2 0x00fd),
    (98, lines
     [0x7fc00000001ff000, 0x000007fc00000001, 0xff000000007fc000, 0x00001ff000000007,
      0xfc00000001ff0000, 0x00007fc00000001f, 0xf000000007fc06ff, 0x8001ff0ffffe007f,
      0xcfffffe01ffbffff, 0xfe07ffe002ffc1ff, 0xe0002ff87ff00003, 0xff1ff800007fc7fd,
      0x00000ff5ff000003, 0xfe7fc00000ff9ff0, 0x00003ff7fc00000f, 0xfdff000003ff7fc0,
      0x0000ffdff000003f, 0xe7fc00000ff9ff40, 0x0003fd7fe00002ff, 0x1ffc0000ffc7ff80,
      0x00bfe1fff800bff0, 0x7ffffffff81fd3ff, 0xfff807f43ffff801] @
   line 5 0xfc01bfe000),
    (99, lines
     [0x0002fff90002ffff, 0xfc00ffffff803fff, 0xfff00bff400a00ff, 0xc000002ff4000003,
      0xff0000007fd00000, 0x07fc000000bfc000, 0x000bfc000000bfc0, 0x00000bfc000000bf,
      0xc000000bfc000000, 0xbfc0000007fd0000, 0x003fe0000003ff00, 0x00001ffc000000ff,
      0xf4006807ffffff80, 0x1ffffff8003fffff] @
   line 5 0x40006ffe40),
    (100, lines
     [0x00000000ff800000, 0x003fe00000000ff8, 0x00000003fe000000, 0x00ff800000003fe0,
      0x0000000ff8000000, 0x03fe00000000ff80, 0x0000003fe000bfe4, 0x0ff802ffffc3fe02,
      0xfffffcff81ffffff, 0xffe0ffe002fff87f, 0xe0002ffe3ff00003, 0xff8ff80000bfe7fd,
      0x00001ffaff000003, 0xfebfc00000ffaff0, 0x00003febfc00000f, 0xfaff000003febfc0,
      0x0000ffaff000003f, 0xebfc00000ff9ff40, 0x0003fe3fe00001ff, 0x8ffc0000ffe2ff80,
      0x007ff83ff800bffe, 0x07fffbffbf80bfff, 0xff1fe00bffff07f8] @
   line 5 0x002ff900fe),
    (101, lines
     [0x0006ffe000003fff, 0xfe0001ffffff8003, 0xffeaffe00ffd002f, 0xf01ff4000ff82ff0,
      0x0007fc3fd00003fd, 0x7fc00003fe7fc000, 0x02febfd55557febf, 0xfffffffebfffffff,
      0xfebffffffffebfc0, 0x000000bfc0000000, 0x7fc00000007fd000, 0x00003fe00000002f,
      0xf00000000ffc0000, 0x000bff4000b803ff, 0xfabff800fffffff8, 0x002ffffff40001bf] @
   line 2 0xfa00)]"

definition open_sans_48_glyphs_0066 :: "(nat \<times> u8 list) list" where
  "open_sans_48_glyphs_0066 =
   [(102, lines
     [0x0000bff90001ffff, 0xc000ffffe000fffa, 0xf4003ff000001ff4, 0x00000bfc000002ff,
      0x000000bfc000002f, 0xf000007fffff01ff, 0xffffc07ffffff00a, 0xbffaa8000bfc0000,
      0x02ff000000bfc000, 0x002ff000000bfc00, 0x0002ff000000bfc0, 0x00002ff000000bfc,
      0x000002ff000000bf, 0xc000002ff000000b, 0xfc000002ff000000, 0xbfc000002ff00000,
      0x0bfc000002ff0000, 0x00bfc000002ff000, 0x000bfc000002ff00] @
   line 1 0x00),
    (103, lines
     [0x0001fffffff400bf, 0xffffffd00bffffff, 0xff407ff41fff9403, 0xff000ff8001ff400,
      0x1ff000bfc0003fd0, 0x03ff0000ff800ff8, 0x0003fe003fe0000f, 0xf800bfc0003fe001,
      0xff0001ff4003ff00, 0x0ffc000bff41ffd0, 0x000ffffffe00000b, 0xffffd000002fffe4,
      0x000002fc00000000, 0x1fd000000000bf00, 0x00000003fc000000, 0x000bfd000000001f,
      0xfffffe40002fffff, 0xffc0007fffffffc0, 0x0fffffffff40ff80, 0x000bff0ff400000b,
      0xfc7fc000001ff1fe, 0x0000007fcbf80000, 0x02ff1ff000000ff4, 0x3ff00001ffc0bff9,
      0x55bffd00ffffffff, 0xd000bffffff80000] @
   line 5 0x1bfff90000),
    (104, lines
     [0x7fc00000007fc000, 0x00007fc00000007f, 0xc00000007fc00000, 0x007fc00000007fc0,
      0x0000007fc0000000, 0x7fc00000007fc000, 0x00007fc06ff9007f, 0xc3ffffc07fcfffff,
      0xf07feffffff87fff, 0x002ffc7ffc000bfd, 0x7ff00003fe7fe000, 0x03fe7fd00003fe7f,
      0xd00003fe7fc00003, 0xfe7fc00003fe7fc0, 0x0003fe7fc00003fe, 0x7fc00003fe7fc000,
      0x03fe7fc00003fe7f, 0xc00003fe7fc00003, 0xfe7fc00003fe7fc0, 0x0003fe7fc00003fe,
      0x7fc00003fe7fc000, 0x03fe7fc00003fe7f] @
   line 4 0xc00003fe),
    (105, lines
     [0x2f4bfcffdbfd7fc1, 0xa00000000000007f, 0xc7fc7fc7fc7fc7fc, 0x7fc7fc7fc7fc7fc7,
      0xfc7fc7fc7fc7fc7f, 0xc7fc7fc7fc7fc7fc] @
   line 6 0x7fc7fc7fc7fc),
    (106, lines
     [0x000bd000bfc003ff, 0x400bfd001ff0001a, 0x0000000000000000, 0x0000000001ff0007,
      0xfc001ff0007fc001, 0xff0007fc001ff000, 0x7fc001ff0007fc00, 0x1ff0007fc001ff00,
      0x07fc001ff0007fc0, 0x01ff0007fc001ff0, 0x007fc001ff0007fc, 0x001ff0007fc001ff,
      0x0007fc001ff0007f, 0xc001ff0007fc002f, 0xf000ffc007fe2fff, 0xf4bfffc2fffc07ff] @
   line 2 0x4000),
    (107, lines
     [0x7fc00000007fc000, 0x00007fc00000007f, 0xc00000007fc00000, 0x007fc00000007fc0,
      0x0000007fc0000000, 0x7fc00000007fc000, 0x00007fc0000ffc7f, 0xc0003ff07fc000bf,
      0xd07fc001ff807fc0, 0x03fe007fc00ffc00, 0x7fc02ff0007fc07f, 0xd0007fc0ff80007f,
      0xc3ff00007fcbfc00, 0x007fdffd00007fff, 0xff00007fffff8000, 0x7ffdffc0007ff43f,
      0xe0007fd02ff4007f, 0xc00ffc007fc007fd, 0x007fc003ff007fc0, 0x01ff807fc000ffc0,
      0x7fc0003ff07fc000, 0x2ff47fc0000ffc7f] @
   line 4 0xc0000bfe),
    (108, lines
     [0x7fc7fc7fc7fc7fc7, 0xfc7fc7fc7fc7fc7f, 0xc7fc7fc7fc7fc7fc, 0x7fc7fc7fc7fc7fc7,
      0xfc7fc7fc7fc7fc7f, 0xc7fc7fc7fc7fc7fc] @
   line 6 0x7fc7fc7fc7fc)]"

definition open_sans_48_glyphs_006d :: "(nat \<times> u8 list) list" where
  "open_sans_48_glyphs_006d =
   [(109, lines
     [0x7f006ff8000bff40, 0x1fd0ffffd01ffffd, 0x07f4fffffd1fffff, 0xc1feffffffcfffff,
      0xfc7ffe007fffe007, 0xff1ffe0007ffd000, 0xbfd7ff0000fff000, 0x0ff9ff80003ff400,
      0x03fe7fd0000bfc00, 0x00bfdff00002ff00, 0x002ff7fc0000bfc0, 0x000bfdff00002ff0,
      0x0002ff7fc0000bfc, 0x0000bfdff00002ff, 0x00002ff7fc0000bf, 0xc0000bfdff00002f,
      0xf00002ff7fc0000b, 0xfc0000bfdff00002, 0xff00002ff7fc0000, 0xbfc0000bfdff0000,
      0x2ff00002ff7fc000, 0x0bfc0000bfdff000, 0x02ff00002ff7fc00, 0x00bfc0000bfdff00,
      0x002ff00002ff7fc0, 0x000bfc0000bfdff0] @
   line 7 0x0002ff00002ff0),
    (110, lines
     [0x7f006ff9007f43ff, 0xffc07f4ffffff07f, 0xaffffff87fff002f, 0xfc7ff8000bfd7ff0,
      0x0003fe7fe00003fe, 0x7fd00003fe7fd000, 0x03fe7fc00003fe7f, 0xc00003fe7fc00003,
      0xfe7fc00003fe7fc0, 0x0003fe7fc00003fe, 0x7fc00003fe7fc000, 0x03fe7fc00003fe7f,
      0xc00003fe7fc00003, 0xfe7fc00003fe7fc0, 0x0003fe7fc00003fe, 0x7fc00003fe7fc000] @
   line 2 0x03fe),
    (111, lines
     [0x0002ffe4000003ff, 0xfff40000ffffffe0, 0x003fffffff400ffe, 0x001ffc01ff80007f,
      0xe02ff00002ff03fe, 0x00000ff47fd00000, 0xff87fc00000bfcbf, 0xc00000bfcbfc0000,
      0x07fcbfc000007fcb, 0xfc000007fcbfc000, 0x007fcbfc00000bfc, 0x7fc00000bfc7fd00,
      0x000ff83fe00000ff, 0x42ff00002ff00ff8, 0x0007fe00bfe001ff, 0xc003fffbfff4000f,
      0xfffffe00002fffff] @
   line 7 0x4000002ffe4000),
    (112, lines
     [0x7f006ff8001fd0bf, 0xffe007f8ffffff01, 0xfebfffffe07ffe00, 0x2ffc1ffe0002ff87,
      0xff00003ff1ff8000, 0x0bfd7fd00000ff5f, 0xf000003fe7fc0000, 0x0ff9ff000003ff7f,
      0xc00000ffdff00000, 0x3ff7fc00000ffdff, 0x000003fe7fc00000, 0xff9ff400007fd7fe,
      0x00002ff1ffc0000f, 0xfc7ffc000bfe1fff, 0xc00bff07feffffff, 0x41ff3fffff807fc3,
      0xffff801ff01bfe00, 0x07fc00000001ff00, 0x0000007fc0000000, 0x1ff000000007fc00,
      0x000001ff00000000, 0x7fc00000001ff000, 0x000007fc00000001, 0xff000000007fc000] @
   line 3 0x000000),
    (113, lines
     [0x000bfe407f801fff, 0xfc1fe02fffffcbf8, 0x1ffffffefe0ffe00, 0x2fff87fe0002ffe3,
      0xff00003ff8ff8000, 0x0bfe7fd00001ffaf, 0xf000003febfc0000, 0x0ffaff000003febf,
      0xc00000ffaff00000, 0x3febfc00000ffaff, 0x000003febfc00000, 0xff9ff400003fe3fe,
      0x00002ff8ffc0000f, 0xfe2ff8000bff83ff, 0x800bffe0bfffffef, 0xf80bfffff3fe00bf,
      0xfff0ff8002ff903f, 0xe00000000ff80000, 0x0003fe00000000ff, 0x800000003fe00000,
      0x000ff800000003fe, 0x00000000ff800000, 0x003fe00000000ff8, 0x00000003fe000000] @
   line 3 0x00ff80),
    (114, lines
     [0x7f002ff7f42fff7f, 0x4bffe7f9fffe7fbf, 0xe557fff0007ffc00, 0x07ff00007fe00007,
      0xfd00007fc00007fc, 0x00007fc00007fc00, 0x007fc00007fc0000, 0x7fc00007fc00007f,
      0xc00007fc00007fc0, 0x0007fc00007fc000, 0x07fc00007fc00007] @
   line 3 0xfc0000)]"

definition open_sans_48_glyphs_0073 :: "(nat \<times> u8 list) list" where
  "open_sans_48_glyphs_0073 =
   [(115, lines
     [0x001bff90001fffff, 0xf407ffffff40fffa, 0xbff02ff4001e03fe, 0x0000003fd0000003,
      0xfd0000003ff00000, 0x01ffd000000fffd0, 0x00003fffd00000bf, 0xffd00000bfff8000,
      0x00bffe000000bff4, 0x000001ffc000000b, 0xfc0000007fc00000, 0x07fc100000bfc3e0,
      0x002ff83ffebfff03, 0xffffffd02ffffff4] @
   line 5 0x001bffe400),
    (116, lines
     [0x001a000000fd0000, 0x03f400001fd00000, 0xbf400003fd00007f, 0xffff4ffffffd3fff,
      0xfff4abfeaa800ff4, 0x00003fd00000ff40, 0x0003fd00000ff400, 0x003fd00000ff4000,
      0x03fd00000ff40000, 0x3fd00000ff400003, 0xfd00000ff400003f, 0xd00000ff400003fd,
      0x00000ff800003ff4, 0x0000bffff800ffff, 0xe001ffff8000bff8]),
    (117, lines
     [0xbfc00003febfc000, 0x03febfc00003febf, 0xc00003febfc00003, 0xfebfc00003febfc0,
      0x0003febfc00003fe, 0xbfc00003febfc000, 0x03febfc00003febf, 0xc00003febfc00003,
      0xfebfc00003febfc0, 0x0003febfc00003fe, 0xbfc00003febfc000, 0x07febfc0000bfe7f,
      0xd0000ffe3ff0002f, 0xfe3ff800bffe1fff, 0xfffefe0ffffff1fe, 0x02ffffc0fe006ff9] @
   line 2 0x00fe),
    (118, lines
     [0xbfc000007fd7fc00, 0x000bfc3fe00000ff, 0x83ff00000ff41ff0, 0x0001ff00ff40003f,
      0xf00ff80003fd00bf, 0xc0007fc003fc000b, 0xfc003fe000ff4002, 0xff000ff0001ff002,
      0xff0000ff403fe000, 0x0bf803fc00007fc0, 0x7fc00003fd0bf800, 0x002fe0ff400001ff,
      0x0ff000000ff2fe00, 0x0000ff7fd0000007, 0xfbfc0000003fff80, 0x000003fff4000000,
      0x1fff00000000ffe0] @
   line 7 0x0000000ffd0000),
    (119, lines
     [0x7fc0000bfe00003f, 0xd3fd0000fff00007, 0xfc3fe0000fff0000, 0xbfc2ff0001fff400,
      0x0ff81ff0002fff80, 0x00ff40ff4003fbfc, 0x001ff00ff8003faf, 0xc002ff00bf8007f5,
      0xfd002fe007fc00bf, 0x0fe003fd003fc00f, 0xf0ff003fc003fd00, 0xfe0ff007fc002fe0,
      0x1fd0bf40bf8001ff, 0x02fc07f80ff4000f, 0xf03fc03fc0ff0000, 0xff43f803fc1ff000,
      0x0bf87f402fd2fe00, 0x00bf8bf001fe3fd0, 0x0007fcff000fe3fc, 0x00003fcfe000ff3f,
      0xc00003fdfd000bf7, 0xf800002fefc0007f, 0xbf400001fffc0003, 0xfff000000fff8000,
      0x3fff000000fff400, 0x02ffe000000bff00, 0x001ffd0000007ff0] @
   line 5 0x0000ffc000),
    (120, lines
     [0x2ff40000ffc0ffc0, 0x002ff007fd0003fe, 0x003ff000bfc001ff, 0x401ff8000ffc03ff,
      0x00003fe07fd00002, 0xff0ffc00000ff9ff, 0x0000007fffe00000, 0x03fffc0000001fff,
      0x80000000fff00000, 0x000fff00000002ff, 0xfc0000007fffd000, 0x000ffeff000001ff,
      0x0ff800003fe0bfc0, 0x000bfc03fe0000ff, 0x802ff4002ff000ff, 0xc007fe0007fd00ff,
      0xc0003ff01ff40001] @
   line 7 0xff83ff00000ffc),
    (121, lines
     [0xbfc000007fd7fd00, 0x000bfc3fe00000ff, 0xc2ff00000ff41ff4, 0x0002ff00ff80003f,
      0xf00bfc0003fd007f, 0xc0007fc003fe000b, 0xfc002ff000ff8001, 0xff001ff0000ff402,
      0xff0000bfc03fe000, 0x07fc03fc00003fd0, 0x7fc00002fe0ff800, 0x001ff0ff000000ff,
      0x1ff000000bf6fe00, 0x00007fbfd0000003, 0xfffc0000002fff80, 0x000000fff4000000,
      0x0fff00000000bfe0, 0x00000007fd000000, 0x00bfc00000000ff8, 0x00000000ff400000,
      0x002ff000000003fe, 0x00000000bfd00000, 0x002ffc000003ffff, 0x0000003fffd00000,
      0x03fff40000003ff8] @
   line 4 0x00000000)]"

definition open_sans_48_glyphs_007a :: "(nat \<times> u8 list) list" where
  "open_sans_48_glyphs_007a =
   [(122, lines
     [0x3fffffff0fffffff, 0xc3fffffff0aaaaaf, 0xfc000007fd000003, 0xff000001ff400000,
      0xffc00000bfc00000, 0x3fe000002ff00000, 0x0ff800000bfc0000, 0x07fe000003ff0000,
      0x01ff400000ffc000, 0x007fd000003ff000, 0x002ff000000ff800, 0x000bfc000003ffaa,
      0xaaa6fffffffebfff] @
   line 7 0xffffafffffffe0),
    (123, lines
     [0x000006fc00007ffc, 0x0002fffc0007ffe8, 0x000bfd00000ff800, 0x000ff000000ff000,
      0x000ff000000ff000, 0x000ff000000ff000, 0x000ff000000ff000, 0x000ff000000ff000,
      0x001ff000003fe000, 0x01ffc000bfff4000, 0xbff40000bffd0000, 0x6bff800000bfd000,
      0x002ff000001ff000, 0x000ff000000ff000, 0x000ff000000ff000, 0x000ff000000ff000,
      0x000ff000000ff000, 0x000ff000000ff400, 0x000ffc00000bff40, 0x0003fffc0001fffc,
      0x00002ffc00000058]),
    (124, lines
     [0x2a1fd7f5fd7f5fd7, 0xf5fd7f5fd7f5fd7f, 0x5fd7f5fd7f5fd7f5, 0xfd7f5fd7f5fd7f5f,
      0xd7f5fd7f5fd7f5fd, 0x7f5fd7f5fd7f5fd7, 0xf5fd7f5fd7f5fd7f] @
   line 4 0x5fd7f5fd),
    (125, lines
     [0x3f9000003ffd0000, 0x3fff40002bffc000, 0x00bfe000003ff000, 0x001ff000001ff000,
      0x001ff000001ff000, 0x001ff000001ff000, 0x001ff000001ff000, 0x001ff000001ff000,
      0x000ff400000ffc00, 0x0007ff400001fffd, 0x00001ffd0000bffd, 0x0003ffe8000bfd00,
      0x000ff800001ff000, 0x001ff000001ff000, 0x001ff000001ff000, 0x001ff000001ff000,
      0x001ff000001ff000, 0x001ff000002ff000, 0x003fe00001ffd000, 0x3fffc0003fff0000,
      0x3ff8000029000000]),
    (126, lines
     [0x0069400000007fff, 0x8000092fffff8003, 0xd3ffffffebfd3e40, 0xbfffffc340007fff,
      0xf41000006ff80000] @
   line 4 0x00000000)]"

text \<open>The glyph blocks of the bitmap with the code points of their comments.\<close>

definition open_sans_48_blocks :: "(nat \<times> u8 list) list" where
  "open_sans_48_blocks =
    [(32, [])] @
    open_sans_48_glyphs_0021 @
    open_sans_48_glyphs_0027 @
    open_sans_48_glyphs_0032 @
    open_sans_48_glyphs_0037 @
    open_sans_48_glyphs_003f @
    open_sans_48_glyphs_0044 @
    open_sans_48_glyphs_004a @
    open_sans_48_glyphs_004f @
    open_sans_48_glyphs_0054 @
    open_sans_48_glyphs_0058 @
    open_sans_48_glyphs_005e @
    open_sans_48_glyphs_0066 @
    open_sans_48_glyphs_006d @
    open_sans_48_glyphs_0073 @
    open_sans_48_glyphs_007a"

definition open_sans_48_glyph_bitmap :: "u8 list" where
  "open_sans_48_glyph_bitmap = concat (map snd open_sans_48_blocks)"

definition open_sans_48_glyph_dsc :: "glyph_dsc list" where
  "open_sans_48_glyph_dsc =
    [gd 0 0 0 0 0 0,
     gd 0 170 0 0 0 0,
     gd 0 195 6 34 3 0,
     gd 51 309 15 13 2 21,
     gd 100 429 25 34 1 0,
     gd 313 387 20 39 2 (-3),
     gd 508 587 33 35 2 0,
     gd 797 472 29 35 1 0,
     gd 1051 170 6 13 2 21,
     gd 1071 230 12 42 2 (-8),
     gd 1197 230 12 42 1 (-8),
     gd 1323 366 21 19 1 17,
     gd 1423 388 22 23 1 5,
     gd 1550 190 8 12 1 (-6),
     gd 1574 231 12 5 1 11,
     gd 1589 191 6 7 3 0,
     gd 1600 290 18 34 0 0,
     gd 1753 387 21 35 2 0,
     gd 1937 387 14 34 3 0,
     gd 2056 387 21 35 1 0,
     gd 2240 387 21 35 1 0,
     gd 2424 387 24 34 0 0,
     gd 2628 387 20 34 2 0,
     gd 2798 387 21 35 2 0,
     gd 2982 387 22 34 1 0,
     gd 3169 387 22 35 1 0,
     gd 3362 387 21 35 1 0,
     gd 3546 192 6 26 3 0,
     gd 3585 192 8 32 1 (-6),
     gd 3649 388 22 24 1 5,
     gd 3781 388 21 14 2 10,
     gd 3855 388 22 24 1 5,
     gd 3987 296 18 35 0 0,
     gd 4145 600 34 39 2 (-5),
     gd 4477 426 27 34 0 0,
     gd 4707 437 22 34 4 0,
     gd 4894 416 23 35 2 0,
     gd 5096 481 24 34 4 0,
     gd 5300 370 17 34 4 0,
     gd 5445 350 17 34 4 0,
     gd 5590 490 26 35 2 0,
     gd 5818 494 23 34 4 0,
     gd 6014 202 5 34 4 0,
     gd 6057 198 13 43 (-4) (-9),
     gd 6197 416 23 34 4 0,
     gd 6393 350 17 34 4 0,
     gd 6538 628 32 34 4 0,
     gd 6810 516 25 34 4 0,
     gd 7023 515 28 35 2 0,
     gd 7268 407 20 34 4 0,
     gd 7438 515 28 43 2 (-8),
     gd 7739 421 22 34 4 0,
     gd 7926 371 20 35 2 0,
     gd 8101 364 23 34 0 0,
     gd 8297 486 24 34 3 0,
     gd 8501 408 26 34 0 0,
     gd 8722 638 40 34 0 0,
     gd 9062 389 25 34 0 0,
     gd 9275 377 24 34 0 0,
     gd 9479 365 21 34 1 0,
     gd 9658 245 12 42 3 (-8),
     gd 9784 290 18 34 0 0,
     gd 9937 245 11 42 1 (-8),
     gd 10053 394 23 20 1 14,
     gd 10168 336 23 4 (-1) (-7),
     gd 10191 220 11 8 1 29,
     gd 10213 381 20 26 1 0,
     gd 10343 417 21 36 3 0,
     gd 10532 324 18 26 2 0,
     gd 10649 417 21 36 2 0,
     gd 10838 381 20 26 2 0,
     gd 10968 234 17 36 0 0,
     gd 11121 366 23 37 0 (-11),
     gd 11334 418 20 36 3 0,
     gd 11514 185 6 36 3 0,
     gd 11568 185 11 47 (-2) (-11),
     gd 11698 369 20 36 3 0,
     gd 11878 185 6 36 3 0,
     gd 11932 627 33 26 3 0,
     gd 12147 418 20 26 3 0,
     gd 12277 407 22 26 2 0,
     gd 12420 417 21 37 3 (-11),
     gd 12615 417 21 37 2 (-11),
     gd 12810 281 14 26 3 0,
     gd 12901 318 18 26 1 0,
     gd 13018 248 15 32 0 0,
     gd 13138 418 20 26 3 0,
     gd 13268 345 22 26 0 0,
     gd 13411 542 34 26 0 0,
     gd 13632 354 22 26 0 0,
     gd 13775 347 22 37 0 (-11),
     gd 13979 302 17 26 1 0,
     gd 14090 285 16 42 1 (-8),
     gd 14258 367 5 48 9 (-11),
     gd 14318 285 16 42 1 (-8),
     gd 14486 388 22 8 1 13]"

definition open_sans_48_cmap :: cmap where
  "open_sans_48_cmap =
     \<lparr>range_start = 32, range_length = 95, glyph_id_start = 1, unicode_list = None,
      list_length = 0, cmap_type = CMAP_FORMAT0_TINY\<rparr>"

definition open_sans_48_font_dsc :: "lvgl_version \<Rightarrow> font_dsc" where
  "open_sans_48_font_dsc v =
     \<lparr>glyph_bitmap = open_sans_48_glyph_bitmap, glyph_dscs = open_sans_48_glyph_dsc, cmaps = [open_sans_48_cmap],
      kern_dsc = None, kern_scale = 0, cmap_num = 1, bpp = 2, kern_classes = 0,
      bitmap_format = 0, has_cache = (v_check v 8 0 0)\<rparr>"

definition open_sans_48 :: "lvgl_version \<Rightarrow> lv_font" where
  "open_sans_48 v =
     \<lparr>line_height = 48, base_line = 11,
      subpx_none = (if \<not> (v_major v = 6 \<and> v_minor v = 0) then Some () else None),
      underline = (if v_check v 7 4 0 \<or> 8 \<le> v_major v then Some (- 2, 1) else None),
      dsc = open_sans_48_font_dsc v\<rparr>"

section \<open>Properties\<close>

lemmas open_sans_48_glyphs = open_sans_48_glyphs_0021_def
  open_sans_48_glyphs_0027_def
  open_sans_48_glyphs_0032_def
  open_sans_48_glyphs_0037_def
  open_sans_48_glyphs_003f_def
  open_sans_48_glyphs_0044_def
  open_sans_48_glyphs_004a_def
  open_sans_48_glyphs_004f_def
  open_sans_48_glyphs_0054_def
  open_sans_48_glyphs_0058_def
  open_sans_48_glyphs_005e_def
  open_sans_48_glyphs_0066_def
  open_sans_48_glyphs_006d_def
  open_sans_48_glyphs_0073_def
  open_sans_48_glyphs_007a_def

lemma open_sans_48_tiled: "tiled 2 0 (tl open_sans_48_glyph_dsc) (map snd open_sans_48_blocks)"
  by (simp add: open_sans_48_glyph_dsc_def open_sans_48_blocks_def open_sans_48_glyphs glyph_bytes_def)

lemma open_sans_48_font_tiled: "font_tiled (open_sans_48_font_dsc v) (map snd open_sans_48_blocks)"
  using open_sans_48_tiled
  by (simp add: font_tiled_def open_sans_48_font_dsc_def open_sans_48_glyph_bitmap_def open_sans_48_glyph_dsc_def glyph_bytes_def)

lemma open_sans_48_ids:
  "map (documented_lookup open_sans_48_cmap) (map fst open_sans_48_blocks) =
    map Some [1..<Suc (length open_sans_48_blocks)]"
  by (simp add: open_sans_48_blocks_def open_sans_48_glyphs open_sans_48_cmap_def documented_lookup_def)

lemma open_sans_48_limits:
  "list_all small_dsc open_sans_48_glyph_dsc"
  "list_all (\<lambda>g. - 11 \<le> ofs_y g \<and> ofs_y g + int (box_h g) \<le> 48 - 11) open_sans_48_glyph_dsc"
  by code_simp+

lemma open_sans_48_padding:
  "list_all2 (padding_clear 2) (tl open_sans_48_glyph_dsc) (map snd open_sans_48_blocks)"
  by (simp add: open_sans_48_glyph_dsc_def open_sans_48_blocks_def open_sans_48_glyphs padding_clear_def last_line last_lines)

lemma open_sans_48_fits: "fits_format (open_sans_48 v) (map snd open_sans_48_blocks)"
  by (rule fits_formatI [where d = "open_sans_48_font_dsc v", OF _ _ _ _ _ _ open_sans_48_limits open_sans_48_padding])
    (simp_all add: open_sans_48_def open_sans_48_font_dsc_def)

text \<open>C35. The font draws every character it has a block for with exactly that block: under the
  documented meaning of its character map, the glyph selected for a code point is the slice of
  the bitmap array written under that code point's comment. So descriptor indices, box sizes, bit
  depth, character map and bitmap agree for every printable ASCII character.\<close>

theorem open_sans_48_renders:
  assumes "cmap_lookup get" and "(u, x) \<in> set open_sans_48_blocks"
  shows "renders get (open_sans_48_font_dsc v) u x"
  by (rule renders_block [OF assms(1) open_sans_48_font_tiled _ open_sans_48_ids assms(2)])
    (simp add: open_sans_48_font_dsc_def)

theorem open_sans_48_renders_witness:
  "renders documented_lookup (open_sans_48_font_dsc lvgl_8_3_5) 33 (snd (hd open_sans_48_glyphs_0021))"
  by (rule open_sans_48_renders) (simp_all add: cmap_lookup_def open_sans_48_blocks_def open_sans_48_glyphs_0021_def)

end
