(* ===== verification/Font_Sf_Symbols_48.thy ===== *)
theory Font_Sf_Symbols_48
  imports Font_Format
begin

text \<open>
  The generated font \<open>fonts/sf_symbols_48.c\<close>: the restart and the power symbol, 4 bits per pixel. One definition per glyph block
  of the bitmap, then the descriptor table, the character map and
  the font record.
\<close>

section \<open>Font data\<close>

definition sf_symbols_48_glyph_100148 :: "u8 list" where
  "sf_symbols_48_glyph_100148 =
   lines
     [0x0000000000000000, 0x003dd40000000000, 0x0000000000000000, 0x000000000000bfff,
      0x4000000000000000, 0x0000000000000000, 0x000000affff40000, 0x0000000000000000,
      0x0000000000000000, 0x2effff4000000000, 0x0000000000000000, 0x000000000002efff,
      0xf400000000000000, 0x0000000000000000, 0x0000002effff4000, 0x0000000000000000,
      0x0000000000000000, 0x02effff400000000, 0x0000000000000000, 0x0000000000002eff,
      0xff30000000000000, 0x0000000000000000, 0x00000002effff300, 0x0000000000000000,
      0x00000000037acdee, 0xdcbfffff30000000, 0x0000000000000000, 0x28efffffffffffff,
      0xfff2000000000000, 0x000000002affffff, 0xfffffffffffff900, 0x0000000000000000,
      0x08fffffffffeddef, 0xfffffff700000000, 0x0000000001cfffff, 0xfb630000001affff,
      0xb000000000000000, 0x002efffff8100000, 0x00007ffffb000000, 0x000000000002efff,
      0xfb100000000007ff, 0xffc0000000000000, 0x00001effff600000, 0x0000007ffffc0000,
      0x00000000000000bf, 0xfff4000000000007, 0xffffc00000000000, 0x00000007ffff5000,
      0x000000007ffffc00, 0x0000000000000000, 0x1ffff80000000000, 0x08ffffc000000000,
      0x00000000009fffc0, 0x00000000006ffffc, 0x0000000000000000, 0x0001ffff30000000,
      0x0000bfffc0000000, 0x00000000000007ff, 0xfa0000000000008f, 0xfc00000000000000,
      0x0000000dfff20000, 0x0000000005500000, 0x0000000000000000, 0x1fffd00000000000,
      0x0000000000000000, 0x00000000005fff80, 0x0000000000000000, 0x0000000000000000,
      0x00008fff40000000, 0x0000000000000000, 0x00000000000000af, 0xff20000000000000,
      0x0000000000000000, 0x00000100bfff0000, 0x0000000000000000, 0x00000000000000af,
      0xe2cfff0000000000, 0x0000000000000000, 0x00000001fff8cfff, 0x0000000000000000,
      0x0000000000000000, 0x03fff9bfff000000, 0x0000000000000000, 0x000000000003fff8,
      0x9fff200000000000, 0x0000000000000000, 0x000006fff67fff50, 0x0000000000000000,
      0x0000000000000008, 0xfff44fff90000000, 0x0000000000000000, 0x000000000cfff10f,
      0xffe0000000000000, 0x0000000000000000, 0x001fffd00bfff500, 0x0000000000000000,
      0x0000000000007fff, 0x8005fffd00000000, 0x0000000000000000, 0x000000efff2000ef,
      0xff50000000000000, 0x0000000000000008, 0xfffb00007fffe100, 0x0000000000000000,
      0x000000002ffff400, 0x000dfffb00000000, 0x0000000000000000, 0x00dfffb0000004ff,
      0xff90000000000000, 0x00000000000bffff, 0x200000008ffff800, 0x0000000000000000,
      0x0000bffff5000000, 0x000bffffb1000000, 0x0000000000002dff, 0xff800000000000cf,
      0xfffe500000000000, 0x000007fffffa0000, 0x000000000bfffffd, 0x60000000000017ef,
      0xffff900000000000, 0x00008fffffffb753, 0x22358cfffffff600, 0x0000000000000003,
      0xdfffffffffffffff, 0xfffffb2000000000, 0x000000000006dfff, 0xfffffffffffffc40,
      0x0000000000000000, 0x00000004aeffffff, 0xffffe93000000000, 0x0000000000000000,
      0x0000257999975200] @
   line 7 0x00000000000000"

definition sf_symbols_48_glyph_1001a8_1 :: "u8 list" where
  "sf_symbols_48_glyph_1001a8_1 =
   lines
     [0x0000000000000000, 0x0000000010000000, 0x0000000000000000, 0x0000000000000000,
      0x00000004ff700000, 0x0000000000000000, 0x0000000000000000, 0x00000000bfff0000,
      0x0000000000000000, 0x0000000000000000, 0x000000000cfff000, 0x0000000000000000,
      0x0000000000000000, 0x0000000000cfff00, 0x0000000000000000, 0x0000000000000000,
      0x00000000000cfff0, 0x0000000000000000, 0x0000000000000000, 0x000000000000cfff,
      0x0000000000000000, 0x0000000000000000, 0x1000000000000cff, 0xf000000000000000,
      0x0000000000000002, 0xdfb00000000000cf, 0xff000000000008fe, 0x3000000000000001,
      0xdfff50000000000c, 0xfff00000000001ff, 0xff30000000000001, 0xdffff30000000000,
      0xcfff00000000000f, 0xfffe200000000000, 0xbffff80000000000, 0x0cfff00000000000,
      0x5ffffd0000000000, 0x7ffff80000000000, 0x00cfff0000000000, 0x005ffffa00000000,
      0x2ffffa0000000000, 0x000cfff000000000, 0x00007ffff5000000, 0x0bfffd0000000000,
      0x0000cfff00000000, 0x000000afffd00000, 0x04ffff3000000000, 0x00000cfff0000000,
      0x00000001efff7000, 0x00bfffa000000000, 0x000000cfff000000, 0x0000000006fffe00,
      0x002ffff200000000, 0x0000000cfff00000, 0x00000000000efff5, 0x0008fffb00000000,
      0x00000000cfff0000, 0x0000000000007fff, 0xb000dfff50000000, 0x000000000cfff000,
      0x00000000000001ff, 0xff101ffff0000000, 0x0000000000cfff00, 0x000000000000000c,
      0xfff504fffb000000, 0x00000000000cfff0, 0x0000000000000000, 0x8fff808fff800000,
      0x000000000000cfff, 0x0000000000000000, 0x05fffb09fff60000, 0x0000000000000cff,
      0xf000000000000000, 0x002fffd0afff4000, 0x00000000000000af, 0xfd00000000000000,
      0x0000ffff0cfff300, 0x0000000000000002, 0xbc40000000000000, 0x00000ffff0cfff30,
      0x0000000000000000, 0x0000000000000000, 0x000000ffff0bfff4, 0x0000000000000000,
      0x0000000000000000, 0x0000000ffff0afff, 0x5000000000000000, 0x0000000000000000,
      0x00000002fffe08ff, 0xf700000000000000, 0x0000000000000000, 0x000000004fffb05f,
      0xffb0000000000000, 0x0000000000000000, 0x0000000007fff902, 0xfffe000000000000,
      0x0000000000000000, 0x0000000000bfff50, 0x0efff40000000000, 0x0000000000000000,
      0x00000000001ffff1, 0x009fff9000000000, 0x0000000000000000, 0x000000000006fffc,
      0x0003ffff10000000, 0x0000000000000000, 0x000000000000dfff, 0x60000cfff8000000,
      0x0000000000000000, 0x0000000000005fff, 0xf100005ffff20000, 0x0000000000000000,
      0x0000000000000eff, 0xf8000000cfffc000, 0x0000000000000000, 0x00000000000009ff,
      0xff10000003ffff80, 0x0000000000000000, 0x00000000000005ff, 0xff6000000009ffff,
      0x6000000000000000, 0x00000000000003ff, 0xffc0000000000cff, 0xff60000000000000,
      0x00000000000003ef, 0xffe100000000002e, 0xffff800000000000, 0x00000000000005ff,
      0xfff4000000000000, 0x3fffffb100000000, 0x00000000000009ff, 0xfff5000000000000,
      0x003efffff7000000, 0x0000000000005eff, 0xfff5000000000000, 0x00002dfffffe8200,
      0x000000000016dfff, 0xffe4000000000000, 0x0000000afffffffc, 0x8531001247bfffff,
      0xffc1000000000000, 0x0000000004dfffff, 0xffffffffffffffff, 0xfe60000000000000,
      0x0000000000006eff, 0xffffffffffffffff, 0xf810000000000000, 0x0000000000000005,
      0xbffffffffffffffc]"

definition sf_symbols_48_glyph_1001a8_2 :: "u8 list" where
  "sf_symbols_48_glyph_1001a8_2 =
   lines
     [0x6000000000000000, 0x0000000000000000, 0x00048adeffedb851, 0x0000000000000000] @
   line 1 0x00"

definition sf_symbols_48_glyph_1001a8 :: "u8 list" where
  "sf_symbols_48_glyph_1001a8 = sf_symbols_48_glyph_1001a8_1 @ sf_symbols_48_glyph_1001a8_2"

text \<open>The glyph blocks of the bitmap with the code points of their comments.\<close>

definition sf_symbols_48_blocks :: "(nat \<times> u8 list) list" where
  "sf_symbols_48_blocks =
    [(1048904, sf_symbols_48_glyph_100148),
     (1049000, sf_symbols_48_glyph_1001a8)]"

definition sf_symbols_48_glyph_bitmap :: "u8 list" where
  "sf_symbols_48_glyph_bitmap = concat (map snd sf_symbols_48_blocks)"

definition sf_symbols_48_glyph_dsc :: "glyph_dsc list" where
  "sf_symbols_48_glyph_dsc =
    [gd 0 0 0 0 0 0,
     gd 0 797 42 51 4 (-6),
     gd 1071 899 49 50 4 (-7)]"

definition sf_symbols_48_unicode_list_0 :: "nat list" where
  "sf_symbols_48_unicode_list_0 = [0x0, 0x60]"

definition sf_symbols_48_cmap :: cmap where
  "sf_symbols_48_cmap =
     \<lparr>range_start = 1048904, range_length = 97, glyph_id_start = 1, unicode_list = Some sf_symbols_48_unicode_list_0,
      list_length = 2, cmap_type = CMAP_SPARSE_TINY\<rparr>"

definition sf_symbols_48_font_dsc :: "lvgl_version \<Rightarrow> font_dsc" where
  "sf_symbols_48_font_dsc v =
     \<lparr>glyph_bitmap = sf_symbols_48_glyph_bitmap, glyph_dscs = sf_symbols_48_glyph_dsc, cmaps = [sf_symbols_48_cmap],
      kern_dsc = None, kern_scale = 0, cmap_num = 1, bpp = 4, kern_classes = 0,
      bitmap_format = 0, has_cache = (8 \<le> v_major v)\<rparr>"

definition sf_symbols_48 :: "lvgl_version \<Rightarrow> lv_font" where
  "sf_symbols_48 v =
     \<lparr>line_height = 52, base_line = 7,
      subpx_none = (if \<not> (v_major v = 6 \<and> v_minor v = 0) then Some () else None),
      underline = (if v_check v 7 4 0 \<or> 8 \<le> v_major v then Some (- 7, 3) else None),
      dsc = sf_symbols_48_font_dsc v\<rparr>"

section \<open>Properties\<close>

lemmas sf_symbols_48_glyphs = sf_symbols_48_glyph_100148_def
  sf_symbols_48_glyph_1001a8_1_def
  sf_symbols_48_glyph_1001a8_2_def
  sf_symbols_48_glyph_1001a8_def

lemma sf_symbols_48_tiled: "tiled 4 0 (tl sf_symbols_48_glyph_dsc) (map snd sf_symbols_48_blocks)"
  by (simp add: sf_symbols_48_glyph_dsc_def sf_symbols_48_blocks_def sf_symbols_48_glyphs glyph_bytes_def)

lemma sf_symbols_48_font_tiled: "font_tiled (sf_symbols_48_font_dsc v) (map snd sf_symbols_48_blocks)"
  using sf_symbols_48_tiled
  by (simp add: font_tiled_def sf_symbols_48_font_dsc_def sf_symbols_48_glyph_bitmap_def sf_symbols_48_glyph_dsc_def glyph_bytes_def)

lemma sf_symbols_48_ids:
  "map (documented_lookup sf_symbols_48_cmap) (map fst sf_symbols_48_blocks) =
    map Some [1..<Suc (length sf_symbols_48_blocks)]"
  by (simp add: sf_symbols_48_blocks_def sf_symbols_48_cmap_def documented_lookup_def sf_symbols_48_unicode_list_0_def)

lemma sf_symbols_48_limits:
  "list_all small_dsc sf_symbols_48_glyph_dsc"
  "list_all (\<lambda>g. - 7 \<le> ofs_y g \<and> ofs_y g + int (box_h g) \<le> 52 - 7) sf_symbols_48_glyph_dsc"
  by code_simp+

lemma sf_symbols_48_padding:
  "list_all2 (padding_clear 4) (tl sf_symbols_48_glyph_dsc) (map snd sf_symbols_48_blocks)"
  by (simp add: sf_symbols_48_glyph_dsc_def sf_symbols_48_blocks_def sf_symbols_48_glyphs padding_clear_def last_line last_lines)

lemma sf_symbols_48_fits: "fits_format (sf_symbols_48 v) (map snd sf_symbols_48_blocks)"
  by (rule fits_formatI [where d = "sf_symbols_48_font_dsc v", OF _ _ _ _ _ _ sf_symbols_48_limits sf_symbols_48_padding])
    (simp_all add: sf_symbols_48_def sf_symbols_48_font_dsc_def)

text \<open>C38. The font draws every character it has a block for with exactly that block: under the
  documented meaning of its character map, the glyph selected for a code point is the slice of
  the bitmap array written under that code point's comment. So descriptor indices, box sizes, bit
  depth, character map and bitmap agree for the restart and the power symbol.\<close>

theorem sf_symbols_48_renders:
  assumes "cmap_lookup get" and "(u, x) \<in> set sf_symbols_48_blocks"
  shows "renders get (sf_symbols_48_font_dsc v) u x"
  by (rule renders_block [OF assms(1) sf_symbols_48_font_tiled _ sf_symbols_48_ids assms(2)])
    (simp add: sf_symbols_48_font_dsc_def)

theorem sf_symbols_48_renders_witness:
  "renders documented_lookup (sf_symbols_48_font_dsc lvgl_8_3_5) 0x1001A8 sf_symbols_48_glyph_1001a8"
  by (rule sf_symbols_48_renders) (simp_all add: cmap_lookup_def sf_symbols_48_blocks_def)

end
