(* ===== verification/Font_Quicksand_200.thy ===== *)
theory Font_Quicksand_200
  imports Font_Format
begin

text \<open>
  The generated font \<open>fonts/quicksand_200.c\<close>: the letters P, c, n, o, p and r, 2 bits per pixel. One definition per glyph block
  of the bitmap, then the descriptor table, the character map and
  the font record.
\<close>

section \<open>Font data\<close>

definition quicksand_200_glyph_0050_1 :: "u8 list" where
  "quicksand_200_glyph_0050_1 =
   lines
     [0x001bffffffffffff, 0xffffffffffffffa4, 0x0000000000000000, 0x07ffffffffffffff,
      0xffffffffffffffff, 0x9000000000000000, 0x7fffffffffffffff, 0xffffffffffffffff,
      0xfd00000000000003, 0xffffffffffffffff, 0xffffffffffffffff, 0xff8000000000002f,
      0xffffffffffffffff, 0xffffffffffffffff, 0xffe00000000000ff, 0xffffffffffffffff,
      0xffffffffffffffff, 0xfff40000000007ff, 0xffffffffffffffff, 0xffffffffffffffff,
      0xfff8000000001fff, 0xffffffffffffffff, 0xffffffffffffffff, 0xfffd000000007fff,
      0xffffffffffffffff, 0xffffffffffffffff, 0xfffe00000001ffff, 0xffffffffffffffff,
      0xffffffffffffffff, 0xfffe00000007ffff, 0xffffffffffffffff, 0xffffffffffffffff,
      0xfffe0000001fffff, 0xffffffffffffffff, 0xffffffffffffffff, 0xfffe0000007fffff,
      0xffffffffffffffff, 0xffffffffffffffff, 0xfffe000001ffffff, 0xffffffffffffffff,
      0xffffffffffffffff, 0xfffe000007ffffff, 0xffffffffffffffff, 0xffffffffffffffff,
      0xfffd00001fffffff, 0xe555555555555555, 0x55555affffffffff, 0xfffc00007fffffff,
      0x0000000000000000, 0x0000001bffffffff, 0xfffc0001fffffffc, 0x0000000000000000,
      0x00000001ffffffff, 0xfff40007fffffff0, 0x0000000000000000, 0x00000000bfffffff,
      0xfff0001fffffffc0, 0x0000000000000000, 0x000000007fffffff, 0xffe0007fffffff00,
      0x0000000000000000, 0x000000003fffffff, 0xffc001fffffffc00, 0x0000000000000000,
      0x000000003fffffff, 0xff8007fffffff000, 0x0000000000000000, 0x000000003fffffff,
      0xff001fffffffc000, 0x0000000000000000, 0x000000003fffffff, 0xfe007fffffff0000,
      0x0000000000000000, 0x000000007fffffff, 0xfc01fffffffc0000, 0x0000000000000000,
      0x00000000bfffffff, 0xf407fffffff00000, 0x0000000000000000, 0x00000000ffffffff,
      0xf01fffffffc00000, 0x0000000000000000, 0x00000001ffffffff, 0xc07fffffff000000,
      0x0000000000000000, 0x00000003ffffffff, 0x41fffffffc000000, 0x0000000000000000,
      0x00000007fffffffe, 0x07fffffff0000000, 0x0000000000000000, 0x0000000ffffffffc,
      0x1fffffffc0000000, 0x0000000000000000, 0x0000002ffffffff0, 0x7fffffff00000000,
      0x0000000000000000, 0x0000007fffffffd1, 0xfffffffc00000000, 0x0000000000000000,
      0x000000ffffffff87, 0xfffffff000000000, 0x0000000000000000, 0x000003fffffffe1f,
      0xffffffc000000000, 0x0000000000000000, 0x00000bfffffffc7f, 0xffffff0000000000,
      0x0000000000000000, 0x00001ffffffff1ff, 0xfffffc0000000000, 0x0000000000000000,
      0x00007fffffffc7ff, 0xfffff00000000000, 0x0000000000000000, 0x0000ffffffff1fff,
      0xffffc00000000000, 0x0000000000000000, 0x0003fffffffc7fff, 0xffff000000000000,
      0x0000000000000000, 0x000ffffffff1ffff, 0xfffc000000000000, 0x0000000000000000,
      0x003fffffffc7ffff, 0xfff0000000000000, 0x0000000000000000, 0x00ffffffff1fffff,
      0xffc0000000000000, 0x0000000000000000, 0x03fffffffc7fffff, 0xff00000000000000,
      0x0000000000000000, 0x0ffffffff1ffffff, 0xfc00000000000000, 0x0000000000000000,
      0x3fffffffc7ffffff, 0xf000000000000000, 0x0000000000000001, 0xffffffff1fffffff,
      0xc000000000000000, 0x000000000000000b, 0xfffffffc7fffffff, 0x0000000000000000,
      0x000000000000002f, 0xfffffff1fffffffc, 0x0000000000000000, 0x00000000000000ff,
      0xffffff87fffffff0]"

definition quicksand_200_glyph_0050_2 :: "u8 list" where
  "quicksand_200_glyph_0050_2 =
   lines
     [0x0000000000000000, 0x00000000000003ff, 0xfffffd1fffffffc0, 0x0000000000000000,
      0x0000000000002fff, 0xfffff07fffffff00, 0x0000000000000000, 0x000000000000ffff,
      0xffffc1fffffffc00, 0x0000000000000000, 0x000000000007ffff, 0xffff07fffffff000,
      0x0000000000000000, 0x00000000002fffff, 0xfff81fffffffc000, 0x0000000000000000,
      0x0000000000ffffff, 0xffc07fffffff0000, 0x0000000000000000, 0x000000000bffffff,
      0xff01fffffffc0000, 0x0000000000000000, 0x000000007fffffff, 0xf807fffffff00000,
      0x0000000000000000, 0x00000003ffffffff, 0xc01fffffffc00000, 0x0000000000000000,
      0x0000002fffffffff, 0x007fffffff000000, 0x0000000000000000, 0x000001fffffffff4,
      0x01fffffffc000000, 0x0000000000000000, 0x00000fffffffffc0, 0x07fffffff0000000,
      0x0000000000000000, 0x0000fffffffffd00, 0x1fffffffc0000000, 0x0000000000000000,
      0x000ffffffffff000, 0x7fffffff00000000, 0x0000000000000000, 0x01ffffffffff4001,
      0xfffffffc00000000, 0x0000000000000000, 0x2ffffffffff80007, 0xfffffff000000000,
      0x0000000000000007, 0xffffffffffc0001f, 0xffffffc000000000, 0x00000000000006ff,
      0xfffffffffd00007f, 0xffffff9555555555, 0x55555555555bffff, 0xffffffffe00001ff,
      0xffffffffffffffff, 0xffffffffffffffff, 0xffffffff000007ff, 0xffffffffffffffff,
      0xffffffffffffffff, 0xfffffff000001fff, 0xffffffffffffffff, 0xffffffffffffffff,
      0xffffff4000007fff, 0xffffffffffffffff, 0xffffffffffffffff, 0xfffff4000001ffff,
      0xffffffffffffffff, 0xffffffffffffffff, 0xffff40000007ffff, 0xffffffffffffffff,
      0xffffffffffffffff, 0xfff40000001fffff, 0xffffffffffffffff, 0xffffffffffffffff,
      0xff000000007fffff, 0xffffffffffffffff, 0xffffffffffffffff, 0xf000000001ffffff,
      0xffffffffffffffff, 0xfffffffffffffffd, 0x0000000007ffffff, 0xffffffffffffffff,
      0xffffffffffffffc0, 0x000000001fffffff, 0xffffffffffffffff, 0xfffffffffffff400,
      0x000000007fffffff, 0xffffffffffffffff, 0xfffffffffffd0000, 0x00000001ffffffff,
      0xffffffffffffffff, 0xfffffffffe400000, 0x00000007ffffffff, 0xffffffffffffffff,
      0xfffffffe40000000, 0x0000001fffffffff, 0xffffffffffffffff, 0xffffe90000000000,
      0x0000007fffffff00, 0x0000000000000000, 0x0000000000000000, 0x000001fffffffc00,
      0x0000000000000000, 0x0000000000000000, 0x000007fffffff000, 0x0000000000000000,
      0x0000000000000000, 0x00001fffffffc000, 0x0000000000000000, 0x0000000000000000,
      0x00007fffffff0000, 0x0000000000000000, 0x0000000000000000, 0x0001fffffffc0000,
      0x0000000000000000, 0x0000000000000000, 0x0007fffffff00000, 0x0000000000000000,
      0x0000000000000000, 0x001fffffffc00000, 0x0000000000000000, 0x0000000000000000,
      0x007fffffff000000, 0x0000000000000000, 0x0000000000000000, 0x01fffffffc000000,
      0x0000000000000000, 0x0000000000000000, 0x07fffffff0000000, 0x0000000000000000,
      0x0000000000000000, 0x1fffffffc0000000, 0x0000000000000000, 0x0000000000000000,
      0x7fffffff00000000, 0x0000000000000000, 0x0000000000000001, 0xfffffffc00000000,
      0x0000000000000000, 0x0000000000000007, 0xfffffff000000000, 0x0000000000000000,
      0x000000000000001f, 0xffffffc000000000, 0x0000000000000000, 0x000000000000007f,
      0xffffff0000000000, 0x0000000000000000]"

definition quicksand_200_glyph_0050_3 :: "u8 list" where
  "quicksand_200_glyph_0050_3 =
   lines
     [0x00000000000001ff, 0xfffffc0000000000, 0x0000000000000000, 0x00000000000007ff,
      0xfffff00000000000, 0x0000000000000000, 0x0000000000001fff, 0xffffc00000000000,
      0x0000000000000000, 0x0000000000007fff, 0xffff000000000000, 0x0000000000000000,
      0x000000000001ffff, 0xfffc000000000000, 0x0000000000000000, 0x000000000007ffff,
      0xfff0000000000000, 0x0000000000000000, 0x00000000001fffff, 0xffc0000000000000,
      0x0000000000000000, 0x00000000007fffff, 0xff00000000000000, 0x0000000000000000,
      0x0000000001ffffff, 0xfc00000000000000, 0x0000000000000000, 0x0000000007ffffff,
      0xf000000000000000, 0x0000000000000000, 0x000000001fffffff, 0xc000000000000000,
      0x0000000000000000, 0x000000007fffffff, 0x0000000000000000, 0x0000000000000000,
      0x00000001fffffffc, 0x0000000000000000, 0x0000000000000000, 0x00000007fffffff0,
      0x0000000000000000, 0x0000000000000000, 0x0000001fffffffc0, 0x0000000000000000,
      0x0000000000000000, 0x0000007fffffff00, 0x0000000000000000, 0x0000000000000000,
      0x000001fffffffc00, 0x0000000000000000, 0x0000000000000000, 0x000007fffffff000,
      0x0000000000000000, 0x0000000000000000, 0x00001fffffffc000, 0x0000000000000000,
      0x0000000000000000, 0x00007fffffff0000, 0x0000000000000000, 0x0000000000000000,
      0x0001fffffffc0000, 0x0000000000000000, 0x0000000000000000, 0x0007fffffff00000,
      0x0000000000000000, 0x0000000000000000, 0x001fffffffc00000, 0x0000000000000000,
      0x0000000000000000, 0x007fffffff000000, 0x0000000000000000, 0x0000000000000000,
      0x01fffffffc000000, 0x0000000000000000, 0x0000000000000000, 0x07fffffff0000000,
      0x0000000000000000, 0x0000000000000000, 0x1fffffffc0000000, 0x0000000000000000,
      0x0000000000000000, 0x7fffffff00000000, 0x0000000000000000, 0x0000000000000001,
      0xfffffffc00000000, 0x0000000000000000, 0x0000000000000007, 0xfffffff000000000,
      0x0000000000000000, 0x000000000000001f, 0xffffffc000000000, 0x0000000000000000,
      0x000000000000007f, 0xffffff0000000000, 0x0000000000000000, 0x00000000000001ff,
      0xfffffc0000000000, 0x0000000000000000, 0x00000000000003ff, 0xfffff00000000000,
      0x0000000000000000, 0x0000000000000bff, 0xffff400000000000, 0x0000000000000000,
      0x0000000000000fff, 0xfffc000000000000, 0x0000000000000000, 0x0000000000001fff,
      0xffc0000000000000, 0x0000000000000000, 0x0000000000001fff, 0xfc00000000000000,
      0x0000000000000000, 0x0000000000000bfe, 0x4000000000000000, 0x0000000000000000] @
   line 5 0x0000000000"

definition quicksand_200_glyph_0050 :: "u8 list" where
  "quicksand_200_glyph_0050 = quicksand_200_glyph_0050_1 @ quicksand_200_glyph_0050_2 @ quicksand_200_glyph_0050_3"

definition quicksand_200_glyph_0063_1 :: "u8 list" where
  "quicksand_200_glyph_0063_1 =
   lines
     [0x0000000000000000, 0x000005affffffa94, 0x0000000000000000, 0x0000000000000001,
      0xbffffffffffffe40, 0x0000000000000000, 0x00000000006fffff, 0xffffffffffff9000,
      0x0000000000000000, 0x000002ffffffffff, 0xffffffffffd00000, 0x0000000000000000,
      0x1fffffffffffffff, 0xffffffff80000000, 0x0000000000007fff, 0xffffffffffffffff,
      0xfffffe0000000000, 0x00000000ffffffff, 0xffffffffffffffff, 0xfff8000000000000,
      0x0002ffffffffffff, 0xffffffffffffffff, 0xd000000000000007, 0xffffffffffffffff,
      0xfffffffffffffe00, 0x00000000000bffff, 0xffffffffffffffff, 0xffffffffffe00000,
      0x0000000fffffffff, 0xffffffffffffffff, 0xfffffffe00000000, 0x000fffffffffffff,
      0xffffffffffffffff, 0xffffd0000000001f, 0xffffffffffffffff, 0xffffffffffffffff,
      0xfc000000001fffff, 0xffffffffffffffff, 0xffffffffffffff40, 0x0000001fffffffff,
      0xffffffffffffffff, 0xffffffffffe00000, 0x001fffffffffffff, 0xff900000016fffff,
      0xfffffffc0000001f, 0xffffffffffffe400, 0x000000000bffffff, 0xffff0000000fffff,
      0xfffffffe40000000, 0x0000001bffffffff, 0xc000000fffffffff, 0xfff8000000000000,
      0x00007ffffffff000, 0x000bfffffffffff0, 0x0000000000000000, 0x02fffffff4000007,
      0xffffffffffd00000, 0x000000000000001f, 0xfffffc000003ffff, 0xffffffc000000000,
      0x000000000001ffff, 0xfd000003ffffffff, 0xff80000000000000, 0x000000001ffffe00,
      0x0002ffffffffff40, 0x0000000000000000, 0x000000bffd000000, 0xffffffffff400000,
      0x0000000000000000, 0x000000000000bfff, 0xffffff4000000000, 0x0000000000000000,
      0x000000003fffffff, 0xff40000000000000, 0x0000000000000000, 0x00003fffffffff40,
      0x0000000000000000, 0x0000000000000000, 0x1fffffffff800000, 0x0000000000000000,
      0x0000000000000bff, 0xffffffc000000000, 0x0000000000000000, 0x0000000003ffffff,
      0xffc0000000000000, 0x0000000000000000, 0x000002ffffffffd0, 0x0000000000000000,
      0x0000000000000000, 0x00fffffffff00000, 0x0000000000000000, 0x000000000000007f,
      0xfffffff400000000, 0x0000000000000000, 0x00000000002fffff, 0xfff8000000000000,
      0x0000000000000000, 0x0000000ffffffffc, 0x0000000000000000, 0x0000000000000000,
      0x0007ffffffff0000, 0x0000000000000000, 0x0000000000000002, 0xffffffff40000000,
      0x0000000000000000, 0x000000000000ffff, 0xffffc00000000000, 0x0000000000000000,
      0x000000003fffffff, 0xe000000000000000, 0x0000000000000000, 0x00001ffffffff000,
      0x0000000000000000, 0x0000000000000000, 0x0bfffffffc000000, 0x0000000000000000,
      0x00000000000003ff, 0xfffffe0000000000, 0x0000000000000000, 0x0000000000ffffff,
      0xff40000000000000, 0x0000000000000000, 0x0000003fffffffc0, 0x0000000000000000,
      0x0000000000000000, 0x001ffffffff00000, 0x0000000000000000, 0x0000000000000007,
      0xfffffffc00000000, 0x0000000000000000, 0x000000000001ffff, 0xfffe000000000000,
      0x0000000000000000, 0x00000000bfffffff, 0x8000000000000000, 0x0000000000000000,
      0x00002fffffffd000, 0x0000000000000000, 0x0000000000000000, 0x0bfffffff4000000,
      0x0000000000000000, 0x00000000000002ff, 0xfffffd0000000000, 0x0000000000000000,
      0x0000000000ffffff, 0xff00000000000000, 0x0000000000000000, 0x0000003fffffffc0,
      0x0000000000000000]"

definition quicksand_200_glyph_0063_2 :: "u8 list" where
  "quicksand_200_glyph_0063_2 =
   lines
     [0x0000000000000000, 0x000ffffffff00000, 0x0000000000000000, 0x0000000000000003,
      0xfffffffc00000000, 0x0000000000000000, 0x000000000000ffff, 0xffff400000000000,
      0x0000000000000000, 0x000000002fffffff, 0xd000000000000000, 0x0000000000000000,
      0x00000bfffffff400, 0x0000000000000000, 0x0000000000000000, 0x02fffffffe000000,
      0x0000000000000000, 0x000000000000007f, 0xffffff8000000000, 0x0000000000000000,
      0x00000000001fffff, 0xfff0000000000000, 0x0000000000000000, 0x00000007fffffffc,
      0x0000000000000000, 0x0000000000000000, 0x0000ffffffff0000, 0x0000000000000000,
      0x0000000000000000, 0x3fffffffd0000000, 0x0000000000000000, 0x0000000000000fff,
      0xfffff80000000000, 0x0000000000000000, 0x0000000002ffffff, 0xff00000000000000,
      0x0000000000000000, 0x0000007fffffffc0, 0x0000000000000000, 0x0000000000000000,
      0x000ffffffff40000, 0x0000000000000000, 0x0000000000000003, 0xffffffff00000000,
      0x0000000000000000, 0x000000000000bfff, 0xffffc00000000000, 0x0000000000000000,
      0x000000001fffffff, 0xf800000000000000, 0x0000000000000000, 0x000003ffffffff00,
      0x0000000000000000, 0x0000000000000000, 0x00ffffffffe00000, 0x0000000000000000,
      0x000000000000001f, 0xfffffffc00000000, 0x0000000000000000, 0x000000000003ffff,
      0xffff800000000000, 0x0000000000000000, 0x00000000ffffffff, 0xf000000000000000,
      0x0000000000000000, 0x00001fffffffff00, 0x0000000000000000, 0x0000000000000000,
      0x03ffffffffe00000, 0x0000000000000000, 0x000000000000007f, 0xfffffffd00000000,
      0x0000000000000000, 0x00000000000fffff, 0xffffc00000000000, 0x0000000000000000,
      0x00000001ffffffff, 0xfc00000000000000, 0x0000000000000000, 0x00003fffffffffc0,
      0x0000000000000000, 0x0000000000000000, 0x07fffffffffc0000, 0x0000000000000000,
      0x00001ae8000000ff, 0xffffffffc0000000, 0x0000000000000000, 0x3fffe000000fffff,
      0xfffffc0000000000, 0x0000000000003fff, 0xfe000002ffffffff, 0xffd0000000000000,
      0x000000003fffffd0, 0x00003ffffffffffe, 0x0000000000000000, 0x00007ffffffc0000,
      0x03fffffffffff400, 0x0000000000000000, 0xffffffff4000007f, 0xffffffffffd00000,
      0x000000000002ffff, 0xffffe000000bffff, 0xffffffff40000000, 0x0000000bffffffff,
      0xf8000000ffffffff, 0xfffffe4000000000, 0x00bffffffffffe00, 0x00000fffffffffff,
      0xffff900000005bff, 0xffffffffff400000, 0x00ffffffffffffff, 0xffffffffffffffff,
      0xffffffc00000000f, 0xffffffffffffffff, 0xffffffffffffffff, 0xffd000000000ffff,
      0xffffffffffffffff, 0xffffffffffffffe0, 0x000000000bffffff, 0xffffffffffffffff,
      0xffffffffffe00000, 0x000000bfffffffff, 0xffffffffffffffff, 0xffffffe000000000,
      0x0007ffffffffffff, 0xffffffffffffffff, 0xffd0000000000000, 0x3fffffffffffffff,
      0xffffffffffffffc0, 0x00000000000001ff, 0xffffffffffffffff, 0xffffffffff800000,
      0x00000000000bffff, 0xffffffffffffffff, 0xfffffe0000000000, 0x000000003fffffff,
      0xffffffffffffffff, 0xf800000000000000, 0x000001bfffffffff, 0xffffffffffffe000,
      0x0000000000000000, 0x0002ffffffffffff, 0xfffffffe40000000, 0x0000000000000000,
      0x06ffffffffffffff, 0xffe4000000000000, 0x0000000000000001, 0xbffffffffffff900,
      0x0000000000000000, 0x000000000000005a]"

definition quicksand_200_glyph_0063_3 :: "u8 list" where
  "quicksand_200_glyph_0063_3 =
   lines
     [0xffffffa500000000] @
   line 3 0x000000"

definition quicksand_200_glyph_0063 :: "u8 list" where
  "quicksand_200_glyph_0063 = quicksand_200_glyph_0063_1 @ quicksand_200_glyph_0063_2 @ quicksand_200_glyph_0063_3"

definition quicksand_200_glyph_006e_1 :: "u8 list" where
  "quicksand_200_glyph_006e_1 =
   lines
     [0x0000000000000000, 0x0000001afffffa40, 0x0000000000000000, 0x0000000000000000,
      0x2fffffffffff9000, 0x0000000000015400, 0x00000000000bffff, 0xfffffffffe000000,
      0x0000002fff800000, 0x000001bfffffffff, 0xfffffff400000000, 0x01fffff000000000,
      0x1fffffffffffffff, 0xfffe0000000007ff, 0xfffc00000000ffff, 0xffffffffffffffff,
      0xd00000000fffffff, 0x0000000bffffffff, 0xfffffffffffff800, 0x00002fffffff0000,
      0x007fffffffffffff, 0xffffffffff000000, 0x3fffffff800002ff, 0xffffffffffffffff,
      0xffffffc000003fff, 0xffff80000fffffff, 0xffffffffffffffff, 0xfff000003fffffff,
      0xc0007fffffffffff, 0xfffffffffffffffc, 0x00003fffffffc001, 0xffffffffffffffff,
      0xffffffffffff0000, 0x3fffffffc007ffff, 0xffffffffffffffff, 0xffffffff80003fff,
      0xffffc01fffffffff, 0xffffffffffffffff, 0xffffc0003fffffff, 0xc07fffffffffffff,
      0xffffffffffffffff, 0xf0003fffffffc0ff, 0xfffffffe90000016, 0xfffffffffffff400,
      0x3fffffffc3ffffff, 0xff90000000000bff, 0xfffffffffc003fff, 0xffffcbfffffff400,
      0x0000000000bfffff, 0xfffffd003fffffff, 0xdfffffff40000000, 0x0000000fffffffff,
      0xff003fffffffffff, 0xfff4000000000000, 0x0002ffffffffff40, 0x3fffffffffffffc0,
      0x0000000000000000, 0x7fffffffff803fff, 0xfffffffffe000000, 0x0000000000001fff,
      0xffffffc03fffffff, 0xfffff40000000000, 0x000000000bffffff, 0xffd03fffffffffff,
      0xc000000000000000, 0x000003ffffffffe0, 0x3fffffffffff0000, 0x0000000000000000,
      0x00fffffffff03fff, 0xfffffffc00000000, 0x00000000000000bf, 0xfffffff03fffffff,
      0xfff4000000000000, 0x00000000003fffff, 0xfff43fffffffffe0, 0x0000000000000000,
      0x0000002ffffffff8, 0x3fffffffffc00000, 0x0000000000000000, 0x000ffffffffc3fff,
      0xffffff0000000000, 0x000000000000000f, 0xfffffffc3fffffff, 0xfe00000000000000,
      0x00000000000bffff, 0xfffc3ffffffffc00, 0x0000000000000000, 0x00000007fffffffd,
      0x3ffffffff8000000, 0x0000000000000000, 0x0003fffffffd3fff, 0xfffff40000000000,
      0x0000000000000003, 0xfffffffe3fffffff, 0xf000000000000000, 0x000000000002ffff,
      0xfffe3fffffffe000, 0x0000000000000000, 0x00000001ffffffff, 0x3fffffffd0000000,
      0x0000000000000000, 0x0001ffffffff3fff, 0xffffc00000000000, 0x0000000000000000,
      0xffffffff3fffffff, 0xc000000000000000, 0x000000000000ffff, 0xffff3fffffffc000,
      0x0000000000000000, 0x00000000ffffffff, 0x3fffffffc0000000, 0x0000000000000000,
      0x0000ffffffff3fff, 0xffffc00000000000, 0x0000000000000000, 0xffffffff3fffffff,
      0xc000000000000000, 0x000000000000ffff, 0xffff3fffffffc000, 0x0000000000000000,
      0x00000000ffffffff, 0x3fffffffc0000000, 0x0000000000000000, 0x0000ffffffff3fff,
      0xffffc00000000000, 0x0000000000000000, 0xffffffff3fffffff, 0xc000000000000000,
      0x000000000000ffff, 0xffff3fffffffc000, 0x0000000000000000, 0x00000000ffffffff,
      0x3fffffffc0000000, 0x0000000000000000, 0x0000ffffffff3fff, 0xffffc00000000000,
      0x0000000000000000, 0xffffffff3fffffff, 0xc000000000000000, 0x000000000000ffff,
      0xffff3fffffffc000, 0x0000000000000000, 0x00000000ffffffff, 0x3fffffffc0000000,
      0x0000000000000000, 0x0000ffffffff3fff, 0xffffc00000000000, 0x0000000000000000,
      0xffffffff3fffffff]"

definition quicksand_200_glyph_006e_2 :: "u8 list" where
  "quicksand_200_glyph_006e_2 =
   lines
     [0xc000000000000000, 0x000000000000ffff, 0xffff3fffffffc000, 0x0000000000000000,
      0x00000000ffffffff, 0x3fffffffc0000000, 0x0000000000000000, 0x0000ffffffff3fff,
      0xffffc00000000000, 0x0000000000000000, 0xffffffff3fffffff, 0xc000000000000000,
      0x000000000000ffff, 0xffff3fffffffc000, 0x0000000000000000, 0x00000000ffffffff,
      0x3fffffffc0000000, 0x0000000000000000, 0x0000ffffffff3fff, 0xffffc00000000000,
      0x0000000000000000, 0xffffffff3fffffff, 0xc000000000000000, 0x000000000000ffff,
      0xffff3fffffffc000, 0x0000000000000000, 0x00000000ffffffff, 0x3fffffffc0000000,
      0x0000000000000000, 0x0000ffffffff3fff, 0xffffc00000000000, 0x0000000000000000,
      0xffffffff3fffffff, 0xc000000000000000, 0x000000000000ffff, 0xffff3fffffffc000,
      0x0000000000000000, 0x00000000ffffffff, 0x3fffffffc0000000, 0x0000000000000000,
      0x0000ffffffff3fff, 0xffffc00000000000, 0x0000000000000000, 0xffffffff3fffffff,
      0xc000000000000000, 0x000000000000ffff, 0xffff3fffffffc000, 0x0000000000000000,
      0x00000000ffffffff, 0x3fffffffc0000000, 0x0000000000000000, 0x0000ffffffff3fff,
      0xffffc00000000000, 0x0000000000000000, 0xffffffff3fffffff, 0xc000000000000000,
      0x000000000000ffff, 0xffff3fffffffc000, 0x0000000000000000, 0x00000000ffffffff,
      0x3fffffffc0000000, 0x0000000000000000, 0x0000ffffffff3fff, 0xffffc00000000000,
      0x0000000000000000, 0xffffffff3fffffff, 0xc000000000000000, 0x000000000000ffff,
      0xffff3fffffffc000, 0x0000000000000000, 0x00000000ffffffff, 0x3fffffffc0000000,
      0x0000000000000000, 0x0000ffffffff3fff, 0xffffc00000000000, 0x0000000000000000,
      0xffffffff3fffffff, 0xc000000000000000, 0x000000000000ffff, 0xffff3fffffffc000,
      0x0000000000000000, 0x00000000ffffffff, 0x3fffffffc0000000, 0x0000000000000000,
      0x0000ffffffff3fff, 0xffffc00000000000, 0x0000000000000000, 0xffffffff3fffffff,
      0xc000000000000000, 0x000000000000ffff, 0xffff3fffffffc000, 0x0000000000000000,
      0x00000000ffffffff, 0x3fffffffc0000000, 0x0000000000000000, 0x0000ffffffff3fff,
      0xffffc00000000000, 0x0000000000000000, 0xffffffff3fffffff, 0xc000000000000000,
      0x000000000000ffff, 0xffff3fffffffc000, 0x0000000000000000, 0x00000000ffffffff,
      0x3fffffffc0000000, 0x0000000000000000, 0x0000ffffffff3fff, 0xffffc00000000000,
      0x0000000000000000, 0xffffffff3fffffff, 0xc000000000000000, 0x000000000000ffff,
      0xffff3fffffffc000, 0x0000000000000000, 0x00000000ffffffff, 0x3fffffffc0000000,
      0x0000000000000000, 0x0000ffffffff3fff, 0xffffc00000000000, 0x0000000000000000,
      0xffffffff3fffffff, 0xc000000000000000, 0x000000000000ffff, 0xffff3fffffff8000,
      0x0000000000000000, 0x00000000ffffffff, 0x3fffffff40000000, 0x0000000000000000,
      0x0000bffffffe1fff, 0xffff000000000000, 0x0000000000000000, 0x3ffffffc0ffffffd,
      0x0000000000000000, 0x0000000000002fff, 0xfff803fffff80000, 0x0000000000000000,
      0x000000000bffffe0, 0x00ffffd000000000, 0x0000000000000000, 0x000002ffff80001b,
      0xfe00000000000000, 0x0000000000000000] @
   line 4 0x002ff800"

definition quicksand_200_glyph_006e :: "u8 list" where
  "quicksand_200_glyph_006e = quicksand_200_glyph_006e_1 @ quicksand_200_glyph_006e_2"

definition quicksand_200_glyph_006f_1 :: "u8 list" where
  "quicksand_200_glyph_006f_1 =
   lines
     [0x0000000000000000, 0x0000016bfffffa40, 0x0000000000000000, 0x0000000000000000,
      0x00000006ffffffff, 0xffff900000000000, 0x0000000000000000, 0x0000000001bfffff,
      0xffffffffff800000, 0x0000000000000000, 0x0000000000006fff, 0xfffffffffffffffd,
      0x0000000000000000, 0x0000000000000007, 0xffffffffffffffff, 0xffffe00000000000,
      0x0000000000000000, 0x007fffffffffffff, 0xfffffffffe000000, 0x0000000000000000,
      0x000007ffffffffff, 0xffffffffffffffe0, 0x0000000000000000, 0x000000003fffffff,
      0xffffffffffffffff, 0xfffd000000000000, 0x000000000002ffff, 0xffffffffffffffff,
      0xffffffff80000000, 0x000000000000000f, 0xffffffffffffffff, 0xfffffffffffff400,
      0x0000000000000000, 0x007fffffffffffff, 0xffffffffffffffff, 0xfe00000000000000,
      0x000002ffffffffff, 0xffffffffffffffff, 0xffffffc000000000, 0x000000000bffffff,
      0xffffffffffffffff, 0xfffffffffff00000, 0x0000000000003fff, 0xffffffffffffffff,
      0xfffffffffffffffc, 0x0000000000000000, 0xffffffffffffffff, 0xffffffffffffffff,
      0xffff000000000000, 0x0003ffffffffffff, 0xff90000005bfffff, 0xffffffffc0000000,
      0x0000000fffffffff, 0xffff900000000002, 0xfffffffffffff000, 0x00000000003fffff,
      0xfffffff400000000, 0x00001bffffffffff, 0xfc000000000000bf, 0xffffffffff400000,
      0x0000000000bfffff, 0xffffff0000000000, 0x01fffffffffff400, 0x000000000000000f,
      0xffffffffff800000, 0x000003ffffffffff, 0x8000000000000000, 0x0001ffffffffffd0,
      0x000000000fffffff, 0xfffd000000000000, 0x000000003fffffff, 0xfff0000000002fff,
      0xfffffff000000000, 0x0000000000000bff, 0xfffffffc00000000, 0x7fffffffffc00000,
      0x0000000000000000, 0x02fffffffffd0000, 0x0000ffffffffff00, 0x0000000000000000,
      0x0000007fffffffff, 0x00000001ffffffff, 0xfc00000000000000, 0x00000000002fffff,
      0xffff80000003ffff, 0xfffff00000000000, 0x000000000000000b, 0xffffffffd000000b,
      0xffffffffc0000000, 0x0000000000000000, 0x0002fffffffff000, 0x000fffffffff4000,
      0x0000000000000000, 0x00000000ffffffff, 0xf400002ffffffffe, 0x0000000000000000,
      0x0000000000003fff, 0xfffffc00003fffff, 0xfffc000000000000, 0x0000000000000000,
      0x2ffffffffd00007f, 0xfffffff000000000, 0x0000000000000000, 0x00000ffffffffe00,
      0x00ffffffffe00000, 0x0000000000000000, 0x0000000007ffffff, 0xff0001ffffffffc0,
      0x0000000000000000, 0x00000000000003ff, 0xffffff4002ffffff, 0xff80000000000000,
      0x0000000000000000, 0x01ffffffffc003ff, 0xffffff0000000000, 0x0000000000000000,
      0x000000ffffffffc0, 0x07fffffffe000000, 0x0000000000000000, 0x00000000007fffff,
      0xffe00bfffffffc00, 0x0000000000000000, 0x000000000000003f, 0xfffffff00fffffff,
      0xfc00000000000000, 0x0000000000000000, 0x002ffffffff00fff, 0xfffff40000000000,
      0x0000000000000000, 0x0000000ffffffff4, 0x1ffffffff0000000, 0x0000000000000000,
      0x00000000000fffff, 0xfff82ffffffff000, 0x0000000000000000, 0x000000000000000b,
      0xfffffffc3fffffff, 0xe000000000000000, 0x0000000000000000, 0x0007fffffffc3fff,
      0xffffd00000000000, 0x0000000000000000, 0x00000003fffffffc, 0x3fffffffc0000000,
      0x0000000000000000, 0x000000000003ffff, 0xfffd7fffffffc000, 0x0000000000000000,
      0x0000000000000002]"

definition quicksand_200_glyph_006f_2 :: "u8 list" where
  "quicksand_200_glyph_006f_2 =
   lines
     [0xfffffffd7fffffff, 0xc000000000000000, 0x0000000000000000, 0x0002fffffffe7fff,
      0xffff800000000000, 0x0000000000000000, 0x00000001fffffffe, 0xbfffffff40000000,
      0x0000000000000000, 0x000000000001ffff, 0xffffbfffffff4000, 0x0000000000000000,
      0x0000000000000000, 0xffffffffbfffffff, 0x4000000000000000, 0x0000000000000000,
      0x0000ffffffffbfff, 0xffff400000000000, 0x0000000000000000, 0x00000000ffffffff,
      0xffffffff00000000, 0x0000000000000000, 0x000000000000ffff, 0xffffffffffff0000,
      0x0000000000000000, 0x0000000000000000, 0xffffffffffffffff, 0x0000000000000000,
      0x0000000000000000, 0x0000ffffffffffff, 0xffff000000000000, 0x0000000000000000,
      0x00000000ffffffff, 0xbfffffff40000000, 0x0000000000000000, 0x000000000000ffff,
      0xffffbfffffff4000, 0x0000000000000000, 0x0000000000000000, 0xffffffffbfffffff,
      0x4000000000000000, 0x0000000000000000, 0x0000ffffffffbfff, 0xffff800000000000,
      0x0000000000000000, 0x00000001ffffffff, 0x7fffffff80000000, 0x0000000000000000,
      0x000000000001ffff, 0xfffe7fffffffc000, 0x0000000000000000, 0x0000000000000002,
      0xfffffffe7fffffff, 0xc000000000000000, 0x0000000000000000, 0x0002fffffffd3fff,
      0xffffc00000000000, 0x0000000000000000, 0x00000003fffffffd, 0x3fffffffd0000000,
      0x0000000000000000, 0x000000000003ffff, 0xfffc3fffffffe000, 0x0000000000000000,
      0x0000000000000007, 0xfffffffc2fffffff, 0xf000000000000000, 0x0000000000000000,
      0x000bfffffffc1fff, 0xfffff00000000000, 0x0000000000000000, 0x0000000ffffffff8,
      0x0ffffffff4000000, 0x0000000000000000, 0x00000000000fffff, 0xfff40ffffffffc00,
      0x0000000000000000, 0x000000000000002f, 0xfffffff00bffffff, 0xfc00000000000000,
      0x0000000000000000, 0x003ffffffff007ff, 0xfffffe0000000000, 0x0000000000000000,
      0x0000007fffffffe0, 0x03ffffffff000000, 0x0000000000000000, 0x0000000000ffffff,
      0xffc002ffffffff80, 0x0000000000000000, 0x00000000000001ff, 0xffffffc001ffffff,
      0xffc0000000000000, 0x0000000000000000, 0x03ffffffff4000ff, 0xfffffff000000000,
      0x0000000000000000, 0x000007ffffffff00, 0x007ffffffff40000, 0x0000000000000000,
      0x000000000fffffff, 0xfe00003ffffffffc, 0x0000000000000000, 0x0000000000002fff,
      0xfffffd00002fffff, 0xfffe000000000000, 0x0000000000000000, 0x7ffffffffc00000f,
      0xffffffff40000000, 0x0000000000000000, 0x0000fffffffff400, 0x000bffffffffd000,
      0x0000000000000000, 0x00000003ffffffff, 0xf0000003ffffffff, 0xf000000000000000,
      0x00000000000bffff, 0xffffd0000001ffff, 0xfffffc0000000000, 0x000000000000002f,
      0xffffffff80000000, 0xffffffffff000000, 0x0000000000000000, 0x00bfffffffff0000,
      0x00007fffffffffc0, 0x0000000000000000, 0x000002fffffffffd, 0x000000002fffffff,
      0xfff4000000000000, 0x000000000fffffff, 0xfffc000000000fff, 0xfffffffe00000000,
      0x0000000000007fff, 0xfffffff000000000, 0x03ffffffffffc000, 0x0000000000000002,
      0xffffffffffd00000, 0x000001ffffffffff, 0xf800000000000000, 0x001fffffffffff80,
      0x0000000000bfffff, 0xffffff4000000000, 0x000000bfffffffff, 0xff0000000000003f,
      0xfffffffffff40000, 0x000000001fffffff, 0xfffffc0000000000, 0x000fffffffffffff,
      0x900000000006ffff, 0xfffffffff0000000]"

definition quicksand_200_glyph_006f_3 :: "u8 list" where
  "quicksand_200_glyph_006f_3 =
   lines
     [0x00000003ffffffff, 0xffffff90000006bf, 0xffffffffffffc000, 0x000000000000ffff,
      0xffffffffffffffff, 0xffffffffffffffff, 0x0000000000000000, 0x3fffffffffffffff,
      0xffffffffffffffff, 0xfffc000000000000, 0x00000bffffffffff, 0xffffffffffffffff,
      0xfffffff000000000, 0x0000000002ffffff, 0xffffffffffffffff, 0xffffffffffc00000,
      0x000000000000007f, 0xffffffffffffffff, 0xfffffffffffffe00, 0x0000000000000000,
      0x000fffffffffffff, 0xffffffffffffffff, 0xf400000000000000, 0x00000002ffffffff,
      0xffffffffffffffff, 0xffff800000000000, 0x0000000000003fff, 0xffffffffffffffff,
      0xfffffffd00000000, 0x0000000000000000, 0x07ffffffffffffff, 0xffffffffffe00000,
      0x0000000000000000, 0x0000007fffffffff, 0xfffffffffffffe00, 0x0000000000000000,
      0x000000000007ffff, 0xffffffffffffffff, 0xe000000000000000, 0x0000000000000000,
      0x6fffffffffffffff, 0xfffd000000000000, 0x0000000000000000, 0x000001bfffffffff,
      0xffffff8000000000, 0x0000000000000000, 0x000000000006ffff, 0xffffffff90000000,
      0x0000000000000000, 0x0000000000000000, 0x016bfffffa400000, 0x0000000000000000]"

definition quicksand_200_glyph_006f :: "u8 list" where
  "quicksand_200_glyph_006f = quicksand_200_glyph_006f_1 @ quicksand_200_glyph_006f_2 @ quicksand_200_glyph_006f_3"

definition quicksand_200_glyph_0070_1 :: "u8 list" where
  "quicksand_200_glyph_0070_1 =
   lines
     [0x0000000000000000, 0x0000006bffffe900, 0x0000000000000000, 0x00001bfe00000000,
      0x000000bfffffffff, 0xfe40000000000000, 0x000000ffffe00000, 0x0000002fffffffff,
      0xfffffd0000000000, 0x00000003fffff800, 0x00000007ffffffff, 0xffffffffe0000000,
      0x000000000ffffffe, 0x00000000bfffffff, 0xffffffffffff4000, 0x00000000001fffff,
      0xff00000007ffffff, 0xfffffffffffffff0, 0x0000000000003fff, 0xffff4000007fffff,
      0xffffffffffffffff, 0xfe0000000000003f, 0xffffff800002ffff, 0xffffffffffffffff,
      0xffffd00000000000, 0x3fffffffc0000fff, 0xffffffffffffffff, 0xfffffff800000000,
      0x003fffffffc0007f, 0xffffffffffffffff, 0xffffffffff000000, 0x00003fffffffc002,
      0xffffffffffffffff, 0xffffffffffffd000, 0x0000003fffffffc0, 0x0bffffffffffffff,
      0xfffffffffffffff4, 0x000000003fffffff, 0xc02fffffffffffff, 0xffffffffffffffff,
      0xfd000000003fffff, 0xffc0bfffffffffff, 0xffffffffffffffff, 0xffff800000003fff,
      0xffffc1ffffffffff, 0xffffffffffffffff, 0xffffffd00000003f, 0xffffffc3ffffffff,
      0xfff90000006fffff, 0xfffffffff4000000, 0x3fffffffcfffffff, 0xfff900000000006f,
      0xfffffffffffc0000, 0x003fffffffefffff, 0xffff800000000000, 0x02ffffffffffff00,
      0x00003fffffffffff, 0xfffff80000000000, 0x00002fffffffffff, 0xc000003fffffffff,
      0xffffff8000000000, 0x00000003ffffffff, 0xffe000003fffffff, 0xfffffffd00000000,
      0x00000000007fffff, 0xfffff000003fffff, 0xfffffffff0000000, 0x0000000000000fff,
      0xfffffffc00003fff, 0xffffffffff800000, 0x0000000000000003, 0xfffffffffe00003f,
      0xfffffffffffe0000, 0x0000000000000000, 0x00bfffffffff0000, 0x3ffffffffffff800,
      0x0000000000000000, 0x00002fffffffff80, 0x003fffffffffffe0, 0x0000000000000000,
      0x0000000fffffffff, 0xc0003fffffffffff, 0xc000000000000000, 0x0000000003ffffff,
      0xffe0003fffffffff, 0xff00000000000000, 0x000000000000ffff, 0xfffff0003fffffff,
      0xfffd000000000000, 0x000000000000007f, 0xfffffff8003fffff, 0xfffff80000000000,
      0x0000000000000000, 0x2ffffffffc003fff, 0xfffffff000000000, 0x0000000000000000,
      0x000ffffffffe003f, 0xffffffffd0000000, 0x0000000000000000, 0x000007ffffffff00,
      0x3fffffffffc00000, 0x0000000000000000, 0x00000003ffffffff, 0x403fffffffff4000,
      0x0000000000000000, 0x0000000001ffffff, 0xff803fffffffff00, 0x0000000000000000,
      0x000000000000ffff, 0xffffc03ffffffffd, 0x0000000000000000, 0x000000000000007f,
      0xffffffc03fffffff, 0xfc00000000000000, 0x0000000000000000, 0x3fffffffe03fffff,
      0xfff8000000000000, 0x0000000000000000, 0x002ffffffff03fff, 0xfffff00000000000,
      0x0000000000000000, 0x00001ffffffff03f, 0xfffffff000000000, 0x0000000000000000,
      0x0000000ffffffff0, 0x3fffffffe0000000, 0x0000000000000000, 0x000000000bffffff,
      0xf43fffffffd00000, 0x0000000000000000, 0x000000000007ffff, 0xfff83fffffffc000,
      0x0000000000000000, 0x00000000000003ff, 0xfffffc3fffffffc0, 0x0000000000000000,
      0x0000000000000003, 0xfffffffc3fffffff, 0x8000000000000000, 0x0000000000000000,
      0x03fffffffc3fffff, 0xff80000000000000, 0x0000000000000000, 0x0002fffffffc3fff,
      0xffff400000000000, 0x0000000000000000, 0x000001fffffffd3f, 0xffffff4000000000,
      0x0000000000000000]"

definition quicksand_200_glyph_0070_2 :: "u8 list" where
  "quicksand_200_glyph_0070_2 =
   lines
     [0x00000001fffffffd, 0x3fffffff00000000, 0x0000000000000000, 0x0000000000ffffff,
      0xfd3fffffff000000, 0x0000000000000000, 0x000000000000ffff, 0xfffd3fffffff0000,
      0x0000000000000000, 0x00000000000000ff, 0xfffffe3fffffff00, 0x0000000000000000,
      0x0000000000000000, 0xfffffffe3fffffff, 0x0000000000000000, 0x0000000000000000,
      0x00fffffffe3fffff, 0xff00000000000000, 0x0000000000000000, 0x0000fffffffe3fff,
      0xffff000000000000, 0x0000000000000000, 0x000000fffffffe3f, 0xffffff0000000000,
      0x0000000000000000, 0x00000000fffffffe, 0x3fffffff00000000, 0x0000000000000000,
      0x0000000000ffffff, 0xfe3fffffff000000, 0x0000000000000000, 0x000000000000ffff,
      0xfffd3fffffff4000, 0x0000000000000000, 0x00000000000001ff, 0xfffffd3fffffff40,
      0x0000000000000000, 0x0000000000000001, 0xfffffffd3fffffff, 0x4000000000000000,
      0x0000000000000000, 0x02fffffffc3fffff, 0xff80000000000000, 0x0000000000000000,
      0x0002fffffffc3fff, 0xffffc00000000000, 0x0000000000000000, 0x000003fffffffc3f,
      0xffffffc000000000, 0x0000000000000000, 0x00000003fffffffc, 0x3fffffffc0000000,
      0x0000000000000000, 0x0000000007ffffff, 0xf83fffffffd00000, 0x0000000000000000,
      0x00000000000bffff, 0xfff83ffffffff000, 0x0000000000000000, 0x0000000000000fff,
      0xfffff43ffffffff0, 0x0000000000000000, 0x000000000000000f, 0xfffffff03fffffff,
      0xf400000000000000, 0x0000000000000000, 0x1ffffffff03fffff, 0xfff8000000000000,
      0x0000000000000000, 0x003fffffffe03fff, 0xfffffc0000000000, 0x0000000000000000,
      0x00003fffffffd03f, 0xfffffffe00000000, 0x0000000000000000, 0x000000bfffffffc0,
      0x3fffffffff000000, 0x0000000000000000, 0x00000000ffffffff, 0xc03fffffffff4000,
      0x0000000000000000, 0x0000000002ffffff, 0xff403fffffffffc0, 0x0000000000000000,
      0x000000000003ffff, 0xffff003fffffffff, 0xe000000000000000, 0x0000000000000bff,
      0xfffffe003fffffff, 0xfff0000000000000, 0x000000000000001f, 0xfffffffd003fffff,
      0xfffffc0000000000, 0x0000000000000000, 0x3ffffffffc003fff, 0xfffffffd00000000,
      0x0000000000000000, 0x00bffffffff4003f, 0xffffffffff000000, 0x0000000000000000,
      0x0001fffffffff000, 0x3fffffffffffc000, 0x0000000000000000, 0x000003ffffffffd0,
      0x003ffffffffffff0, 0x0000000000000000, 0x0000000fffffffff, 0xc0003fffffffffff,
      0xfc00000000000000, 0x000000003fffffff, 0xff40003fffffffff, 0xffff000000000000,
      0x0000000000ffffff, 0xffff00003fffffff, 0xffffffc000000000, 0x000000000003ffff,
      0xfffffc00003fffff, 0xfffffffff4000000, 0x0000000000001fff, 0xfffffff800003fff,
      0xfffffffffffe0000, 0x00000000000000bf, 0xfffffffff000003f, 0xffffffffffffffd0,
      0x0000000000000007, 0xffffffffffc00000, 0x3fffffffffffffff, 0xf800000000000000,
      0x3fffffffffff4000, 0x003fffffffffffff, 0xffff900000000000, 0x07fffffffffffe00,
      0x00003fffffffcfff, 0xfffffffe40000000, 0x01bffffffffffffc, 0x0000003fffffffc7,
      0xfffffffffffe5000, 0x05bfffffffffffff, 0xf00000003fffffff, 0xc1ffffffffffffff,
      0xffffffffffffffff, 0xffc00000003fffff, 0xffc07fffffffffff, 0xffffffffffffffff,
      0xffff000000003fff, 0xffffc01fffffffff, 0xffffffffffffffff, 0xfffffc000000003f,
      0xffffffc007ffffff, 0xffffffffffffffff]"

definition quicksand_200_glyph_0070_3 :: "u8 list" where
  "quicksand_200_glyph_0070_3 =
   lines
     [0xfffffff000000000, 0x3fffffffc000ffff, 0xffffffffffffffff, 0xffffffffc0000000,
      0x003fffffffc0003f, 0xffffffffffffffff, 0xfffffffffe000000, 0x00003fffffffc000,
      0x07ffffffffffffff, 0xfffffffffff40000, 0x0000003fffffffc0, 0x0000ffffffffffff,
      0xffffffffffff8000, 0x000000003fffffff, 0xc000001fffffffff, 0xfffffffffffffd00,
      0x00000000003fffff, 0xffc0000002ffffff, 0xffffffffffffffe0, 0x0000000000003fff,
      0xffffc00000002fff, 0xfffffffffffffffe, 0x000000000000003f, 0xffffffc000000001,
      0xffffffffffffffff, 0xd000000000000000, 0x3fffffffc0000000, 0x000bffffffffffff,
      0xf800000000000000, 0x003fffffffc00000, 0x0000001bffffffff, 0xf900000000000000,
      0x00003fffffffc000, 0x000000000016affa, 0xa500000000000000, 0x0000003fffffffc0,
      0x0000000000000000, 0x0000000000000000, 0x000000003fffffff, 0xc000000000000000,
      0x0000000000000000, 0x00000000003fffff, 0xffc0000000000000, 0x0000000000000000,
      0x0000000000003fff, 0xffffc00000000000, 0x0000000000000000, 0x000000000000003f,
      0xffffffc000000000, 0x0000000000000000, 0x0000000000000000, 0x3fffffffc0000000,
      0x0000000000000000, 0x0000000000000000, 0x003fffffffc00000, 0x0000000000000000,
      0x0000000000000000, 0x00003fffffffc000, 0x0000000000000000, 0x0000000000000000,
      0x0000003fffffffc0, 0x0000000000000000, 0x0000000000000000, 0x000000003fffffff,
      0xc000000000000000, 0x0000000000000000, 0x00000000003fffff, 0xffc0000000000000,
      0x0000000000000000, 0x0000000000003fff, 0xffffc00000000000, 0x0000000000000000,
      0x000000000000003f, 0xffffffc000000000, 0x0000000000000000, 0x0000000000000000,
      0x3fffffffc0000000, 0x0000000000000000, 0x0000000000000000, 0x003fffffffc00000,
      0x0000000000000000, 0x0000000000000000, 0x00003fffffffc000, 0x0000000000000000,
      0x0000000000000000, 0x0000003fffffffc0, 0x0000000000000000, 0x0000000000000000,
      0x000000003fffffff, 0xc000000000000000, 0x0000000000000000, 0x00000000003fffff,
      0xffc0000000000000, 0x0000000000000000, 0x0000000000003fff, 0xffffc00000000000,
      0x0000000000000000, 0x000000000000003f, 0xffffffc000000000, 0x0000000000000000,
      0x0000000000000000, 0x3fffffffc0000000, 0x0000000000000000, 0x0000000000000000,
      0x003fffffffc00000, 0x0000000000000000, 0x0000000000000000, 0x00003fffffffc000,
      0x0000000000000000, 0x0000000000000000, 0x0000003fffffffc0, 0x0000000000000000,
      0x0000000000000000, 0x000000003fffffff, 0xc000000000000000, 0x0000000000000000,
      0x00000000003fffff, 0xffc0000000000000, 0x0000000000000000, 0x0000000000003fff,
      0xffffc00000000000, 0x0000000000000000, 0x000000000000003f, 0xffffffc000000000,
      0x0000000000000000, 0x0000000000000000, 0x3fffffffc0000000, 0x0000000000000000,
      0x0000000000000000, 0x003fffffffc00000, 0x0000000000000000, 0x0000000000000000,
      0x00003fffffff8000, 0x0000000000000000, 0x0000000000000000, 0x0000003fffffff40,
      0x0000000000000000, 0x0000000000000000, 0x000000001fffffff, 0x0000000000000000,
      0x0000000000000000, 0x00000000000fffff, 0xfd00000000000000, 0x0000000000000000,
      0x00000000000003ff, 0xfff8000000000000, 0x0000000000000000, 0x0000000000000000,
      0xffffe00000000000, 0x0000000000000000]"

definition quicksand_200_glyph_0070_4 :: "u8 list" where
  "quicksand_200_glyph_0070_4 =
   lines
     [0x0000000000000000, 0x001bfe0000000000, 0x0000000000000000, 0x0000000000000000] @
   line 1 0x00"

definition quicksand_200_glyph_0070 :: "u8 list" where
  "quicksand_200_glyph_0070 = quicksand_200_glyph_0070_1 @ quicksand_200_glyph_0070_2 @ quicksand_200_glyph_0070_3 @ quicksand_200_glyph_0070_4"

definition quicksand_200_glyph_0072_1 :: "u8 list" where
  "quicksand_200_glyph_0072_1 =
   lines
     [0x0000000000000000, 0x0000006bfff90000, 0x0000000000000000, 0x0001bfffffffd000,
      0x0015400000000000, 0x00bffffffffff000, 0x0bffe00000000000, 0x7ffffffffffff001,
      0xfffff0000000000f, 0xfffffffffffff01f, 0xfffff000000002ff, 0xffffffffffffe0ff,
      0xfffff00000003fff, 0xffffffffffffcbff, 0xffffc0000007ffff, 0xffffffffffff3fff,
      0xffff800000bfffff, 0xfffffffffffcffff, 0xfffe00000bffffff, 0xfffffffffff3ffff,
      0xfffc0000ffffffff, 0xffffffffffcfffff, 0xfff0000bffffffff, 0xfffffffffd3fffff,
      0xffc000bfffffffff, 0xfffffffff0ffffff, 0xff000bffffffffff, 0xffffffff43ffffff,
      0xfc007ffffffff900, 0x06fffff40fffffff, 0xf003fffffff40000, 0x006ffe003fffffff,
      0xc03ffffffd000000, 0x00000000ffffffff, 0x01ffffff80000000, 0x00000003fffffffc,
      0x0ffffff000000000, 0x0000000ffffffff0, 0xbffffe0000000000, 0x0000003fffffffc3,
      0xffffe00000000000, 0x000000ffffffff2f, 0xfffe000000000000, 0x000003fffffffcff,
      0xffe0000000000000, 0x00000ffffffffbff, 0xfe00000000000000, 0x00003fffffffffff,
      0xf000000000000000, 0x0000ffffffffffff, 0x0000000000000000, 0x0003fffffffffff4,
      0x0000000000000000, 0x000fffffffffff80, 0x0000000000000000, 0x003ffffffffffc00,
      0x0000000000000000, 0x00ffffffffffd000, 0x0000000000000000, 0x03ffffffffff0000,
      0x0000000000000000, 0x0ffffffffff00000, 0x0000000000000000, 0x3fffffffff800000,
      0x0000000000000000, 0xfffffffffc000000, 0x0000000000000003, 0xfffffffff0000000,
      0x000000000000000f, 0xffffffff40000000, 0x000000000000003f, 0xfffffffc00000000,
      0x00000000000000ff, 0xffffffe000000000, 0x00000000000003ff, 0xffffff4000000000,
      0x0000000000000fff, 0xfffffc0000000000, 0x0000000000003fff, 0xfffff00000000000,
      0x000000000000ffff, 0xffff800000000000, 0x000000000003ffff, 0xfffd000000000000,
      0x00000000000fffff, 0xfff0000000000000, 0x00000000003fffff, 0xffc0000000000000,
      0x0000000000ffffff, 0xff00000000000000, 0x0000000003ffffff, 0xfc00000000000000,
      0x000000000fffffff, 0xf000000000000000, 0x000000003fffffff, 0xc000000000000000,
      0x00000000ffffffff, 0x0000000000000000, 0x00000003fffffffc, 0x0000000000000000,
      0x0000000ffffffff0, 0x0000000000000000, 0x0000003fffffffc0, 0x0000000000000000,
      0x000000ffffffff00, 0x0000000000000000, 0x000003fffffffc00, 0x0000000000000000,
      0x00000ffffffff000, 0x0000000000000000, 0x00003fffffffc000, 0x0000000000000000,
      0x0000ffffffff0000, 0x0000000000000000, 0x0003fffffffc0000, 0x0000000000000000,
      0x000ffffffff00000, 0x0000000000000000, 0x003fffffffc00000, 0x0000000000000000,
      0x00ffffffff000000, 0x0000000000000000, 0x03fffffffc000000, 0x0000000000000000,
      0x0ffffffff0000000, 0x0000000000000000, 0x3fffffffc0000000, 0x0000000000000000,
      0xffffffff00000000, 0x0000000000000003, 0xfffffffc00000000, 0x000000000000000f,
      0xfffffff000000000, 0x000000000000003f, 0xffffffc000000000, 0x00000000000000ff,
      0xffffff0000000000, 0x00000000000003ff, 0xfffffc0000000000, 0x0000000000000fff,
      0xfffff00000000000, 0x0000000000003fff, 0xffffc00000000000, 0x000000000000ffff,
      0xffff000000000000, 0x000000000003ffff, 0xfffc000000000000, 0x00000000000fffff,
      0xfff0000000000000]"

definition quicksand_200_glyph_0072_2 :: "u8 list" where
  "quicksand_200_glyph_0072_2 =
   lines
     [0x00000000003fffff, 0xffc0000000000000, 0x0000000000ffffff, 0xff00000000000000,
      0x0000000003ffffff, 0xfc00000000000000, 0x000000000fffffff, 0xf000000000000000,
      0x000000003fffffff, 0xc000000000000000, 0x00000000ffffffff, 0x0000000000000000,
      0x00000003fffffffc, 0x0000000000000000, 0x0000000ffffffff0, 0x0000000000000000,
      0x0000003fffffffc0, 0x0000000000000000, 0x000000ffffffff00, 0x0000000000000000,
      0x000003fffffffc00, 0x0000000000000000, 0x00000ffffffff000, 0x0000000000000000,
      0x00003fffffffc000, 0x0000000000000000, 0x0000ffffffff0000, 0x0000000000000000,
      0x0003fffffffc0000, 0x0000000000000000, 0x000ffffffff00000, 0x0000000000000000,
      0x003fffffffc00000, 0x0000000000000000, 0x00ffffffff000000, 0x0000000000000000,
      0x03fffffffc000000, 0x0000000000000000, 0x0ffffffff0000000, 0x0000000000000000,
      0x3fffffffc0000000, 0x0000000000000000, 0xffffffff00000000, 0x0000000000000003,
      0xfffffffc00000000, 0x000000000000000f, 0xffffffe000000000, 0x000000000000003f,
      0xffffff4000000000, 0x000000000000007f, 0xfffffc0000000000, 0x00000000000000ff,
      0xffffd00000000000, 0x00000000000000ff, 0xfffe000000000000, 0x00000000000000ff,
      0xffd0000000000000, 0x000000000000006f, 0xf800000000000000] @
   line 6 0x000000000000"

definition quicksand_200_glyph_0072 :: "u8 list" where
  "quicksand_200_glyph_0072 = quicksand_200_glyph_0072_1 @ quicksand_200_glyph_0072_2"

text \<open>The glyph blocks of the bitmap with the code points of their comments.\<close>

definition quicksand_200_blocks :: "(nat \<times> u8 list) list" where
  "quicksand_200_blocks =
    [(80, quicksand_200_glyph_0050),
     (99, quicksand_200_glyph_0063),
     (110, quicksand_200_glyph_006e),
     (111, quicksand_200_glyph_006f),
     (112, quicksand_200_glyph_0070),
     (114, quicksand_200_glyph_0072)]"

definition quicksand_200_glyph_bitmap :: "u8 list" where
  "quicksand_200_glyph_bitmap = concat (map snd quicksand_200_blocks)"

definition quicksand_200_glyph_dsc :: "glyph_dsc list" where
  "quicksand_200_glyph_dsc =
    [gd 0 0 0 0 0 0,
     gd 0 1917 95 140 17 0,
     gd 3325 1661 89 108 9 (-2),
     gd 5728 1869 88 106 14 0,
     gd 8060 1955 104 108 9 (-2),
     gd 10868 1965 100 145 14 (-40),
     gd 14493 1283 63 106 14 0]"

definition quicksand_200_unicode_list_0 :: "nat list" where
  "quicksand_200_unicode_list_0 = [0x0, 0x13, 0x1e, 0x1f, 0x20, 0x22]"

definition quicksand_200_cmap :: cmap where
  "quicksand_200_cmap =
     \<lparr>range_start = 80, range_length = 35, glyph_id_start = 1, unicode_list = Some quicksand_200_unicode_list_0,
      list_length = 6, cmap_type = CMAP_SPARSE_TINY\<rparr>"

definition quicksand_200_kern_pair_glyph_ids :: "nat list" where
  "quicksand_200_kern_pair_glyph_ids = [1, 2, 1, 4, 6, 2, 6, 4]"

definition quicksand_200_kern_pair_values :: "int list" where
  "quicksand_200_kern_pair_values = [- 32, - 32, - 70, - 70]"

definition quicksand_200_kern_pairs :: kern_pair where
  "quicksand_200_kern_pairs =
     \<lparr>glyph_ids = quicksand_200_kern_pair_glyph_ids, kern_values = quicksand_200_kern_pair_values,
      pair_cnt = 4, glyph_ids_size = 0\<rparr>"

definition quicksand_200_font_dsc :: "lvgl_version \<Rightarrow> font_dsc" where
  "quicksand_200_font_dsc v =
     \<lparr>glyph_bitmap = quicksand_200_glyph_bitmap, glyph_dscs = quicksand_200_glyph_dsc, cmaps = [quicksand_200_cmap],
      kern_dsc = Some quicksand_200_kern_pairs, kern_scale = 16, cmap_num = 1, bpp = 2, kern_classes = 0,
      bitmap_format = 0, has_cache = (v_check v 8 0 0)\<rparr>"

definition quicksand_200 :: "lvgl_version \<Rightarrow> lv_font" where
  "quicksand_200 v =
     \<lparr>line_height = 180, base_line = 40,
      subpx_none = (if \<not> (v_major v = 6 \<and> v_minor v = 0) then Some () else None),
      underline = (if v_check v 7 4 0 \<or> 8 \<le> v_major v then Some (- 20, 10) else None),
      dsc = quicksand_200_font_dsc v\<rparr>"

section \<open>Properties\<close>

lemmas quicksand_200_glyphs = quicksand_200_glyph_0050_1_def
  quicksand_200_glyph_0050_2_def
  quicksand_200_glyph_0050_3_def
  quicksand_200_glyph_0050_def
  quicksand_200_glyph_0063_1_def
  quicksand_200_glyph_0063_2_def
  quicksand_200_glyph_0063_3_def
  quicksand_200_glyph_0063_def
  quicksand_200_glyph_006e_1_def
  quicksand_200_glyph_006e_2_def
  quicksand_200_glyph_006e_def
  quicksand_200_glyph_006f_1_def
  quicksand_200_glyph_006f_2_def
  quicksand_200_glyph_006f_3_def
  quicksand_200_glyph_006f_def
  quicksand_200_glyph_0070_1_def
  quicksand_200_glyph_0070_2_def
  quicksand_200_glyph_0070_3_def
  quicksand_200_glyph_0070_4_def
  quicksand_200_glyph_0070_def
  quicksand_200_glyph_0072_1_def
  quicksand_200_glyph_0072_2_def
  quicksand_200_glyph_0072_def
  quicksand_200_kern_pair_glyph_ids_def

lemma quicksand_200_tiled: "tiled 2 0 (tl quicksand_200_glyph_dsc) (map snd quicksand_200_blocks)"
  by (simp add: quicksand_200_glyph_dsc_def quicksand_200_blocks_def quicksand_200_glyphs glyph_bytes_def)

lemma quicksand_200_font_tiled: "font_tiled (quicksand_200_font_dsc v) (map snd quicksand_200_blocks)"
  using quicksand_200_tiled
  by (simp add: font_tiled_def quicksand_200_font_dsc_def quicksand_200_glyph_bitmap_def quicksand_200_glyph_dsc_def glyph_bytes_def)

lemma quicksand_200_ids:
  "map (documented_lookup quicksand_200_cmap) (map fst quicksand_200_blocks) =
    map Some [1..<Suc (length quicksand_200_blocks)]"
  by (simp add: quicksand_200_blocks_def quicksand_200_cmap_def documented_lookup_def quicksand_200_unicode_list_0_def)

lemma quicksand_200_limits:
  "list_all small_dsc quicksand_200_glyph_dsc"
  "list_all (\<lambda>g. - 40 \<le> ofs_y g \<and> ofs_y g + int (box_h g) \<le> 180 - 40) quicksand_200_glyph_dsc"
  by code_simp+

lemma quicksand_200_padding:
  "list_all2 (padding_clear 2) (tl quicksand_200_glyph_dsc) (map snd quicksand_200_blocks)"
  by (simp add: quicksand_200_glyph_dsc_def quicksand_200_blocks_def quicksand_200_glyphs padding_clear_def last_line last_lines)

lemma quicksand_200_fits: "fits_format (quicksand_200 v) (map snd quicksand_200_blocks)"
  by (rule fits_formatI [where d = "quicksand_200_font_dsc v", OF _ _ _ _ _ _ quicksand_200_limits quicksand_200_padding])
    (simp_all add: quicksand_200_def quicksand_200_font_dsc_def)

lemma quicksand_200_kern_ok: "kern_ok (quicksand_200_font_dsc v)"
  by (simp add: kern_ok_def quicksand_200_font_dsc_def quicksand_200_kern_pairs_def quicksand_200_kern_pair_glyph_ids_def
      quicksand_200_kern_pair_values_def quicksand_200_glyph_dsc_def)

text \<open>C36. The font draws every character it has a block for with exactly that block: under the
  documented meaning of its character map, the glyph selected for a code point is the slice of
  the bitmap array written under that code point's comment. So descriptor indices, box sizes, bit
  depth, character map and bitmap agree for the letters P, c, n, o, p and r.\<close>

theorem quicksand_200_renders:
  assumes "cmap_lookup get" and "(u, x) \<in> set quicksand_200_blocks"
  shows "renders get (quicksand_200_font_dsc v) u x"
  by (rule renders_block [OF assms(1) quicksand_200_font_tiled _ quicksand_200_ids assms(2)])
    (simp add: quicksand_200_font_dsc_def)

theorem quicksand_200_renders_witness:
  "renders documented_lookup (quicksand_200_font_dsc lvgl_8_3_5) 0x50 quicksand_200_glyph_0050"
  by (rule quicksand_200_renders) (simp_all add: cmap_lookup_def quicksand_200_blocks_def)

end
