(* ===== verification/Boot_Menu.thy ===== *)
theory Boot_Menu
  imports Font_Open_Sans_48 Font_Sf_Symbols_48 Font_Quicksand_200
begin

text \<open>
  The texts of the boot menu, \<open>bootloader/src/main.rs\<close>, as code points, against the fonts they
  are drawn with: the title in \<open>quicksand_200\<close>, the boot entries in \<open>open_sans_48\<close> and the two
  power buttons in \<open>sf_symbols_48\<close>.
\<close>

section \<open>Texts\<close>

text \<open>The decimal digits \<open>format!\<close> writes for a number.\<close>

fun decimal :: "nat \<Rightarrow> nat list" where
  "decimal n = (if n < 10 then [48 + n] else decimal (n div 10) @ [48 + n mod 10])"

declare decimal.simps [simp del]

definition code_points :: "string \<Rightarrow> nat list" where
  "code_points s = map of_char s"

definition title_text :: "nat list" where
  "title_text = code_points ''popcorn''"

definition entry_text :: "nat \<Rightarrow> nat list" where
  "entry_text i =
     (if i = 0 then code_points ''Boot popcorn2'' else code_points ''Boot option '' @ decimal i)"

definition reboot_text :: "nat list" where
  "reboot_text = [0x100148]"

definition power_off_text :: "nat list" where
  "power_off_text = [0x1001A8]"

section \<open>Properties\<close>

definition drawable :: "(cmap \<Rightarrow> nat \<Rightarrow> nat option) \<Rightarrow> font_dsc \<Rightarrow> nat list \<Rightarrow> bool" where
  "drawable get f us \<longleftrightarrow> list_all (\<lambda>u. \<exists>x. renders get f u x) us"

lemma decimal_digits: "u \<in> set (decimal n) \<Longrightarrow> 48 \<le> u \<and> u < 58"
proof (induction n rule: decimal.induct)
  case (1 n)
  show ?case
  proof (cases "n < 10")
    case True
    with 1(2) have "u = 48 + n" by (subst (asm) decimal.simps) simp
    with True show ?thesis by simp
  next
    case False
    with 1(2) have "u \<in> set (decimal (n div 10)) \<or> u = 48 + n mod 10"
      by (subst (asm) decimal.simps) auto
    with 1(1) [OF False] show ?thesis by auto
  qed
qed

lemma open_sans_48_codes: "map fst open_sans_48_blocks = [32..<127]"
  by (simp add: open_sans_48_blocks_def open_sans_48_glyphs upt_rec_numeral)

lemma open_sans_48_has:
  assumes "32 \<le> u" and "u < 127"
  shows "\<exists>x. (u, x) \<in> set open_sans_48_blocks"
proof -
  have "u \<in> set (map fst open_sans_48_blocks)" 
    unfolding open_sans_48_codes set_upt using assms by (simp only: atLeastLessThan_iff)
  then show ?thesis by force
qed

lemma entry_text_ascii: "u \<in> set (entry_text i) \<Longrightarrow> 32 \<le> u \<and> u < 127"
  by (auto simp: entry_text_def code_points_def split: if_splits dest: decimal_digits)

lemma drawableI: "(\<And>u. u \<in> set us \<Longrightarrow> \<exists>x. renders get f u x) \<Longrightarrow> drawable get f us"
  by (simp add: drawable_def list_all_iff)

lemma drawable_blocks:
  assumes "\<And>u x. (u, x) \<in> set blocks \<Longrightarrow> renders get f u x"
    and "\<And>u. u \<in> set us \<Longrightarrow> \<exists>x. (u, x) \<in> set blocks"
  shows "drawable get f us"
proof (rule drawableI)
  fix u
  assume "u \<in> set us"
  with assms(2) obtain x where "(u, x) \<in> set blocks" by blast
  with assms(1) show "\<exists>x. renders get f u x" by blast
qed

lemma quicksand_200_has: "u \<in> set title_text \<Longrightarrow> \<exists>x. (u, x) \<in> set quicksand_200_blocks"
  by (auto simp: title_text_def code_points_def quicksand_200_blocks_def)

lemma sf_symbols_48_has:
  "u \<in> set (reboot_text @ power_off_text) \<Longrightarrow> \<exists>x. (u, x) \<in> set sf_symbols_48_blocks"
  by (auto simp: reboot_text_def power_off_text_def sf_symbols_48_blocks_def)




end
