(* ===== verification/C_Preprocessor.thy ===== *)
theory C_Preprocessor
  imports Main "HOL-Library.Code_Target_Nat" "HOL-Library.Code_Target_Int"
begin

text \<open>
  The part of the C preprocessor that \<open>bootloader/lvgl/lv_conf.h\<close>, \<open>fonts/fonts.h\<close> and
  \<open>fonts/cursor.c\<close> use: object-like macros, one function-like macro that is only defined,
  \<open>#undef\<close>, \<open>#include\<close> and nested conditionals. A macro body that is an integer constant
  expression is kept as an expression (every such body of these files is one token or
  parenthesised, so substitution of expressions and of tokens agree), any other body as
  its text. Macros are an association list with the latest definition first.
\<close>

section \<open>Directives\<close>

datatype pbinop = Mul | Eq | Ne | Ge | LAnd | LOr

datatype pexp =
    PNum int
  | PId string
  | PNot pexp
  | PBin pbinop pexp pexp

datatype macro =
    MExp pexp
  | MText string
  | MFun string string

datatype directive =
    Define string macro
  | Undef string
  | Include string
  | If pexp "directive list" "directive list"
  | Ifndef string "directive list"
  | Ifdef string "directive list" "directive list"
  | Decl string

type_synonym macros = "(string \<times> macro) list"

definition undef :: "string \<Rightarrow> macros \<Rightarrow> macros" where
  "undef n env = filter (\<lambda>p. fst p \<noteq> n) env"

section \<open>Integer constant expressions\<close>

fun apply_binop :: "pbinop \<Rightarrow> int \<Rightarrow> int \<Rightarrow> int" where
  "apply_binop Mul a b = a * b"
| "apply_binop Eq a b = of_bool (a = b)"
| "apply_binop Ne a b = of_bool (a \<noteq> b)"
| "apply_binop Ge a b = of_bool (b \<le> a)"
| "apply_binop LAnd a b = of_bool (a \<noteq> 0 \<and> b \<noteq> 0)"
| "apply_binop LOr a b = of_bool (a \<noteq> 0 \<or> b \<noteq> 0)"

lemma hide_shorter:
  assumes "n \<notin> set hid" and "map_of env n = Some m"
  shows "length (filter (\<lambda>p. fst p \<noteq> n \<and> fst p \<notin> set hid) env) <
    length (filter (\<lambda>p. fst p \<notin> set hid) env)"
proof -
  have "length (filter (\<lambda>p. fst p \<noteq> n) (filter (\<lambda>p. fst p \<notin> set hid) env)) <
      length (filter (\<lambda>p. fst p \<notin> set hid) env)"
    using assms by (intro length_filter_less [of "(n, m)"]) (auto dest: map_of_SomeD)
  then show ?thesis by (simp add: conj_commute)
qed

text \<open>A name that is no macro counts as 0. \<open>hid\<close> holds the macros whose bodies are being
  expanded; they are not expanded again. A body that is no integer expression makes the
  condition ill-formed.\<close>

function eval_pexp :: "string list \<Rightarrow> macros \<Rightarrow> pexp \<Rightarrow> int option" where
  "eval_pexp hid env (PNum i) = Some i"
| "eval_pexp hid env (PId n) =
     (if n \<in> set hid then Some 0
      else case map_of env n of
        None \<Rightarrow> Some 0
      | Some (MExp e) \<Rightarrow> eval_pexp (n # hid) env e
      | Some (MText _) \<Rightarrow> None
      | Some (MFun _ _) \<Rightarrow> Some 0)"
| "eval_pexp hid env (PNot e) = map_option (\<lambda>v. of_bool (v = 0)) (eval_pexp hid env e)"
| "eval_pexp hid env (PBin f a b) =
     (case (eval_pexp hid env a, eval_pexp hid env b) of
        (Some x, Some y) \<Rightarrow> Some (apply_binop f x y)
      | _ \<Rightarrow> None)"
  by pat_completeness auto

termination
  by (relation "measures [\<lambda>(hid, env, e). length (filter (\<lambda>p. fst p \<notin> set hid) env), \<lambda>(hid, env, e). size e]")
    (auto simp: hide_shorter)

definition macro_value :: "macros \<Rightarrow> string \<Rightarrow> int option" where
  "macro_value env n = eval_pexp [] env (PId n)"

section \<open>Processing\<close>

fun cpp :: "directive \<Rightarrow> macros \<Rightarrow> macros option"
  and cpps :: "directive list \<Rightarrow> macros \<Rightarrow> macros option" where
  "cpp (Define n m) env = Some ((n, m) # env)"
| "cpp (Undef n) env = Some (undef n env)"
| "cpp (Include _) env = Some env"
| "cpp (If c t e) env =
     (case eval_pexp [] env c of
        None \<Rightarrow> None
      | Some v \<Rightarrow> if v \<noteq> 0 then cpps t env else cpps e env)"
| "cpp (Ifndef n t) env = (if map_of env n = None then cpps t env else Some env)"
| "cpp (Ifdef n t e) env = (if map_of env n = None then cpps e env else cpps t env)"
| "cpp (Decl _) env = Some env"
| "cpps [] env = Some env"
| "cpps (d # ds) env = (case cpp d env of None \<Rightarrow> None | Some env' \<Rightarrow> cpps ds env')"

lemma cpps_append: "cpps (ds @ es) env = (case cpps ds env of None \<Rightarrow> None | Some env' \<Rightarrow> cpps es env')"
  by (induction ds arbitrary: env) (auto split: option.splits)

end
