(* ===== verification/Lv_Conf.thy ===== *)
theory Lv_Conf
  imports C_Preprocessor
begin

text \<open>
  The configuration header of the graphics library, \<open>bootloader/lvgl/lv_conf.h\<close>, as
  preprocessor directives, one definition per section of the header. The settings it leaves
  active are stated as a flat list and proved for every set of macros it may be included
  under; the requirements written in its comments are checked on that list.
\<close>

section \<open>The header\<close>

text \<open>Color settings.\<close>

definition lv_conf_color :: "directive list" where
  "lv_conf_color =
   [Define ''LV_COLOR_DEPTH'' (MExp (PNum 32)),
    Define ''LV_COLOR_16_SWAP'' (MExp (PNum 0)),
    Define ''LV_COLOR_SCREEN_TRANSP'' (MExp (PNum 0)),
    Define ''LV_COLOR_MIX_ROUND_OFS'' (MExp (PNum 0)),
    Define ''LV_COLOR_CHROMA_KEY'' (MText ''lv_color_hex(0x00ff00)'')]"

text \<open>Memory settings.\<close>

definition lv_conf_memory :: "directive list" where
  "lv_conf_memory =
   [Define ''LV_MEM_CUSTOM'' (MExp (PNum 0)),
    If (PBin Eq (PId ''LV_MEM_CUSTOM'') (PNum 0))
      [Define ''LV_MEM_SIZE'' (MExp (PBin Mul (PNum 48) (PNum 1024))),
       Define ''LV_MEM_ADR'' (MExp (PNum 0)),
       If (PBin Eq (PId ''LV_MEM_ADR'') (PNum 0))
         [Undef ''LV_MEM_POOL_INCLUDE'',
          Undef ''LV_MEM_POOL_ALLOC'']
         []]
      [Define ''LV_MEM_CUSTOM_INCLUDE'' (MText ''<stdlib.h>''),
       Define ''LV_MEM_CUSTOM_ALLOC'' (MExp (PId ''malloc'')),
       Define ''LV_MEM_CUSTOM_FREE'' (MExp (PId ''free'')),
       Define ''LV_MEM_CUSTOM_REALLOC'' (MExp (PId ''realloc''))],
    Define ''LV_MEM_BUF_MAX_NUM'' (MExp (PNum 16)),
    Define ''LV_MEMCPY_MEMSET_STD'' (MExp (PNum 0))]"

text \<open>HAL settings.\<close>

definition lv_conf_hal :: "directive list" where
  "lv_conf_hal =
   [Define ''LV_DISP_DEF_REFR_PERIOD'' (MExp (PNum 30)),
    Define ''LV_INDEV_DEF_READ_PERIOD'' (MExp (PNum 30)),
    Define ''LV_TICK_CUSTOM'' (MExp (PNum 0)),
    If (PId ''LV_TICK_CUSTOM'')
      [Define ''LV_TICK_CUSTOM_INCLUDE'' (MText ([CHR 0x22] @ ''Arduino.h'' @ [CHR 0x22])),
       Define ''LV_TICK_CUSTOM_SYS_TIME_EXPR'' (MText ''(millis())'')]
      [],
    Define ''LV_DPI_DEF'' (MExp (PNum 130))]"

text \<open>Feature configuration: drawing.\<close>

definition lv_conf_drawing :: "directive list" where
  "lv_conf_drawing =
   [Define ''LV_DRAW_COMPLEX'' (MExp (PNum 1)),
    If (PBin Ne (PId ''LV_DRAW_COMPLEX'') (PNum 0))
      [Define ''LV_SHADOW_CACHE_SIZE'' (MExp (PNum 0)),
       Define ''LV_CIRCLE_CACHE_SIZE'' (MExp (PNum 4))]
      [],
    Define ''LV_LAYER_SIMPLE_BUF_SIZE'' (MExp (PBin Mul (PNum 24) (PNum 1024))),
    Define ''LV_LAYER_SIMPLE_FALLBACK_BUF_SIZE'' (MExp (PBin Mul (PNum 3) (PNum 1024))),
    Define ''LV_IMG_CACHE_DEF_SIZE'' (MExp (PNum 0)),
    Define ''LV_GRADIENT_MAX_STOPS'' (MExp (PNum 2)),
    Define ''LV_GRAD_CACHE_DEF_SIZE'' (MExp (PNum 0)),
    Define ''LV_DITHER_GRADIENT'' (MExp (PNum 0)),
    If (PId ''LV_DITHER_GRADIENT'')
      [Define ''LV_DITHER_ERROR_DIFFUSION'' (MExp (PNum 0))]
      [],
    Define ''LV_DISP_ROT_MAX_BUF'' (MExp (PBin Mul (PNum 10) (PNum 1024)))]"

text \<open>GPU.\<close>

definition lv_conf_gpu :: "directive list" where
  "lv_conf_gpu =
   [Define ''LV_USE_GPU_ARM2D'' (MExp (PNum 0)),
    Define ''LV_USE_GPU_STM32_DMA2D'' (MExp (PNum 0)),
    If (PId ''LV_USE_GPU_STM32_DMA2D'')
      [Define ''LV_GPU_DMA2D_CMSIS_INCLUDE'' (MText [])]
      [],
    Define ''LV_USE_GPU_SWM341_DMA2D'' (MExp (PNum 0)),
    If (PId ''LV_USE_GPU_SWM341_DMA2D'')
      [Define ''LV_GPU_SWM341_DMA2D_INCLUDE'' (MText ([CHR 0x22] @ ''SWM341.h'' @ [CHR 0x22]))]
      [],
    Define ''LV_USE_GPU_NXP_PXP'' (MExp (PNum 0)),
    If (PId ''LV_USE_GPU_NXP_PXP'')
      [Define ''LV_USE_GPU_NXP_PXP_AUTO_INIT'' (MExp (PNum 0))]
      [],
    Define ''LV_USE_GPU_NXP_VG_LITE'' (MExp (PNum 0)),
    Define ''LV_USE_GPU_SDL'' (MExp (PNum 0)),
    If (PId ''LV_USE_GPU_SDL'')
      [Define ''LV_GPU_SDL_INCLUDE_PATH'' (MText ''<SDL2/SDL.h>''),
       Define ''LV_GPU_SDL_LRU_SIZE'' (MExp (PBin Mul (PBin Mul (PNum 1024) (PNum 1024)) (PNum 8))),
       Define ''LV_GPU_SDL_CUSTOM_BLEND_MODE'' (MText ''(SDL_VERSION_ATLEAST(2, 0, 6))'')]
      []]"

text \<open>Logging.\<close>

definition lv_conf_log :: "directive list" where
  "lv_conf_log =
   [Define ''LV_USE_LOG'' (MExp (PNum 0)),
    If (PId ''LV_USE_LOG'')
      [Define ''LV_LOG_LEVEL'' (MExp (PId ''LV_LOG_LEVEL_WARN'')),
       Define ''LV_LOG_PRINTF'' (MExp (PNum 0)),
       Define ''LV_LOG_TRACE_MEM'' (MExp (PNum 1)),
       Define ''LV_LOG_TRACE_TIMER'' (MExp (PNum 1)),
       Define ''LV_LOG_TRACE_INDEV'' (MExp (PNum 1)),
       Define ''LV_LOG_TRACE_DISP_REFR'' (MExp (PNum 1)),
       Define ''LV_LOG_TRACE_EVENT'' (MExp (PNum 1)),
       Define ''LV_LOG_TRACE_OBJ_CREATE'' (MExp (PNum 1)),
       Define ''LV_LOG_TRACE_LAYOUT'' (MExp (PNum 1)),
       Define ''LV_LOG_TRACE_ANIM'' (MExp (PNum 1))]
      []]"

text \<open>Asserts.\<close>

definition lv_conf_assert :: "directive list" where
  "lv_conf_assert =
   [Define ''LV_USE_ASSERT_NULL'' (MExp (PNum 1)),
    Define ''LV_USE_ASSERT_MALLOC'' (MExp (PNum 1)),
    Define ''LV_USE_ASSERT_STYLE'' (MExp (PNum 0)),
    Define ''LV_USE_ASSERT_MEM_INTEGRITY'' (MExp (PNum 0)),
    Define ''LV_USE_ASSERT_OBJ'' (MExp (PNum 0)),
    Define ''LV_ASSERT_HANDLER_INCLUDE'' (MText ''<stdint.h>''),
    Define ''LV_ASSERT_HANDLER'' (MText ''while(1);'')]"

text \<open>Others.\<close>

definition lv_conf_debug :: "directive list" where
  "lv_conf_debug =
   [Define ''LV_USE_PERF_MONITOR'' (MExp (PNum 0)),
    If (PId ''LV_USE_PERF_MONITOR'')
      [Define ''LV_USE_PERF_MONITOR_POS'' (MExp (PId ''LV_ALIGN_BOTTOM_RIGHT''))]
      [],
    Define ''LV_USE_MEM_MONITOR'' (MExp (PNum 0)),
    If (PId ''LV_USE_MEM_MONITOR'')
      [Define ''LV_USE_MEM_MONITOR_POS'' (MExp (PId ''LV_ALIGN_BOTTOM_LEFT''))]
      [],
    Define ''LV_USE_REFR_DEBUG'' (MExp (PNum 0)),
    Define ''LV_SPRINTF_CUSTOM'' (MExp (PNum 0)),
    If (PId ''LV_SPRINTF_CUSTOM'')
      [Define ''LV_SPRINTF_INCLUDE'' (MText ''<stdio.h>''),
       Define ''lv_snprintf'' (MExp (PId ''snprintf'')),
       Define ''lv_vsnprintf'' (MExp (PId ''vsnprintf''))]
      [Define ''LV_SPRINTF_USE_FLOAT'' (MExp (PNum 0))],
    Define ''LV_USE_USER_DATA'' (MExp (PNum 1)),
    Define ''LV_ENABLE_GC'' (MExp (PNum 0)),
    If (PBin Ne (PId ''LV_ENABLE_GC'') (PNum 0))
      [Define ''LV_GC_INCLUDE'' (MText ([CHR 0x22] @ ''gc.h'' @ [CHR 0x22]))]
      []]"

text \<open>Compiler settings.\<close>

definition lv_conf_compiler :: "directive list" where
  "lv_conf_compiler =
   [Define ''LV_BIG_ENDIAN_SYSTEM'' (MExp (PNum 0)),
    Define ''LV_ATTRIBUTE_TICK_INC'' (MText []),
    Define ''LV_ATTRIBUTE_TIMER_HANDLER'' (MText []),
    Define ''LV_ATTRIBUTE_FLUSH_READY'' (MText []),
    Define ''LV_ATTRIBUTE_MEM_ALIGN_SIZE'' (MExp (PNum 1)),
    Define ''LV_ATTRIBUTE_MEM_ALIGN'' (MText []),
    Define ''LV_ATTRIBUTE_LARGE_CONST'' (MText []),
    Define ''LV_ATTRIBUTE_LARGE_RAM_ARRAY'' (MText []),
    Define ''LV_ATTRIBUTE_FAST_MEM'' (MText []),
    Define ''LV_ATTRIBUTE_DMA'' (MText []),
    Define ''LV_EXPORT_CONST_INT'' (MFun ''int_value'' ''struct _silence_gcc_warning''),
    Define ''LV_USE_LARGE_COORD'' (MExp (PNum 0))]"

text \<open>Font usage.\<close>

definition lv_conf_font :: "directive list" where
  "lv_conf_font =
   [Define ''LV_FONT_MONTSERRAT_8'' (MExp (PNum 0)),
    Define ''LV_FONT_MONTSERRAT_10'' (MExp (PNum 0)),
    Define ''LV_FONT_MONTSERRAT_12'' (MExp (PNum 0)),
    Define ''LV_FONT_MONTSERRAT_14'' (MExp (PNum 1)),
    Define ''LV_FONT_MONTSERRAT_16'' (MExp (PNum 0)),
    Define ''LV_FONT_MONTSERRAT_18'' (MExp (PNum 0)),
    Define ''LV_FONT_MONTSERRAT_20'' (MExp (PNum 0)),
    Define ''LV_FONT_MONTSERRAT_22'' (MExp (PNum 0)),
    Define ''LV_FONT_MONTSERRAT_24'' (MExp (PNum 0)),
    Define ''LV_FONT_MONTSERRAT_26'' (MExp (PNum 0)),
    Define ''LV_FONT_MONTSERRAT_28'' (MExp (PNum 0)),
    Define ''LV_FONT_MONTSERRAT_30'' (MExp (PNum 0)),
    Define ''LV_FONT_MONTSERRAT_32'' (MExp (PNum 0)),
    Define ''LV_FONT_MONTSERRAT_34'' (MExp (PNum 0)),
    Define ''LV_FONT_MONTSERRAT_36'' (MExp (PNum 0)),
    Define ''LV_FONT_MONTSERRAT_38'' (MExp (PNum 0)),
    Define ''LV_FONT_MONTSERRAT_40'' (MExp (PNum 0)),
    Define ''LV_FONT_MONTSERRAT_42'' (MExp (PNum 0)),
    Define ''LV_FONT_MONTSERRAT_44'' (MExp (PNum 0)),
    Define ''LV_FONT_MONTSERRAT_46'' (MExp (PNum 0)),
    Define ''LV_FONT_MONTSERRAT_48'' (MExp (PNum 0)),
    Define ''LV_FONT_MONTSERRAT_12_SUBPX'' (MExp (PNum 0)),
    Define ''LV_FONT_MONTSERRAT_28_COMPRESSED'' (MExp (PNum 0)),
    Define ''LV_FONT_DEJAVU_16_PERSIAN_HEBREW'' (MExp (PNum 0)),
    Define ''LV_FONT_SIMSUN_16_CJK'' (MExp (PNum 0)),
    Define ''LV_FONT_UNSCII_8'' (MExp (PNum 0)),
    Define ''LV_FONT_UNSCII_16'' (MExp (PNum 0)),
    Define ''LV_FONT_CUSTOM_DECLARE'' (MText []),
    Define ''LV_FONT_DEFAULT'' (MText ''&lv_font_montserrat_14''),
    Define ''LV_FONT_FMT_TXT_LARGE'' (MExp (PNum 0)),
    Define ''LV_USE_FONT_COMPRESSED'' (MExp (PNum 0)),
    Define ''LV_USE_FONT_SUBPX'' (MExp (PNum 0)),
    If (PId ''LV_USE_FONT_SUBPX'')
      [Define ''LV_FONT_SUBPX_BGR'' (MExp (PNum 0))]
      [],
    Define ''LV_USE_FONT_PLACEHOLDER'' (MExp (PNum 1))]"

text \<open>Text settings.\<close>

definition lv_conf_text :: "directive list" where
  "lv_conf_text =
   [Define ''LV_TXT_ENC'' (MExp (PId ''LV_TXT_ENC_UTF8'')),
    Define ''LV_TXT_BREAK_CHARS'' (MText ([CHR 0x22] @ '' ,.;:-_'' @ [CHR 0x22])),
    Define ''LV_TXT_LINE_BREAK_LONG_LEN'' (MExp (PNum 0)),
    Define ''LV_TXT_LINE_BREAK_LONG_PRE_MIN_LEN'' (MExp (PNum 3)),
    Define ''LV_TXT_LINE_BREAK_LONG_POST_MIN_LEN'' (MExp (PNum 3)),
    Define ''LV_TXT_COLOR_CMD'' (MText ([CHR 0x22] @ ''#'' @ [CHR 0x22])),
    Define ''LV_USE_BIDI'' (MExp (PNum 0)),
    If (PId ''LV_USE_BIDI'')
      [Define ''LV_BIDI_BASE_DIR_DEF'' (MExp (PId ''LV_BASE_DIR_AUTO''))]
      [],
    Define ''LV_USE_ARABIC_PERSIAN_CHARS'' (MExp (PNum 0))]"

text \<open>Widget usage.\<close>

definition lv_conf_widgets :: "directive list" where
  "lv_conf_widgets =
   [Define ''LV_USE_ARC'' (MExp (PNum 1)),
    Define ''LV_USE_BAR'' (MExp (PNum 1)),
    Define ''LV_USE_BTN'' (MExp (PNum 1)),
    Define ''LV_USE_BTNMATRIX'' (MExp (PNum 1)),
    Define ''LV_USE_CANVAS'' (MExp (PNum 0)),
    Define ''LV_USE_CHECKBOX'' (MExp (PNum 1)),
    Define ''LV_USE_DROPDOWN'' (MExp (PNum 1)),
    Define ''LV_USE_IMG'' (MExp (PNum 1)),
    Define ''LV_USE_LABEL'' (MExp (PNum 1)),
    If (PId ''LV_USE_LABEL'')
      [Define ''LV_LABEL_TEXT_SELECTION'' (MExp (PNum 1)),
       Define ''LV_LABEL_LONG_TXT_HINT'' (MExp (PNum 1))]
      [],
    Define ''LV_USE_LINE'' (MExp (PNum 1)),
    Define ''LV_USE_ROLLER'' (MExp (PNum 0)),
    If (PId ''LV_USE_ROLLER'')
      [Define ''LV_ROLLER_INF_PAGES'' (MExp (PNum 7))]
      [],
    Define ''LV_USE_SLIDER'' (MExp (PNum 1)),
    Define ''LV_USE_SWITCH'' (MExp (PNum 0)),
    Define ''LV_USE_TEXTAREA'' (MExp (PNum 1)),
    If (PBin Ne (PId ''LV_USE_TEXTAREA'') (PNum 0))
      [Define ''LV_TEXTAREA_DEF_PWD_SHOW_TIME'' (MExp (PNum 1500))]
      [],
    Define ''LV_USE_TABLE'' (MExp (PNum 1))]"

text \<open>Extra components.\<close>

definition lv_conf_extra :: "directive list" where
  "lv_conf_extra =
   [Define ''LV_USE_ANIMIMG'' (MExp (PNum 0)),
    Define ''LV_USE_CALENDAR'' (MExp (PNum 0)),
    If (PId ''LV_USE_CALENDAR'')
      [Define ''LV_CALENDAR_WEEK_STARTS_MONDAY'' (MExp (PNum 0)),
       If (PId ''LV_CALENDAR_WEEK_STARTS_MONDAY'')
         [Define ''LV_CALENDAR_DEFAULT_DAY_NAMES'' (MText (''{'' @ [CHR 0x22] @ ''Mo'' @ [CHR 0x22] @ '', '' @ [CHR 0x22] @ ''Tu'' @ [CHR 0x22] @ '', '' @ [CHR 0x22] @ ''We'' @ [CHR 0x22] @ '', '' @ [CHR 0x22] @ ''Th'' @ [CHR 0x22] @ '', '' @ [CHR 0x22] @ ''Fr'' @ [CHR 0x22] @ '', '' @ [CHR 0x22] @ ''Sa'' @ [CHR 0x22] @ '', '' @ [CHR 0x22] @ ''Su'' @ [CHR 0x22] @ ''}''))]
         [Define ''LV_CALENDAR_DEFAULT_DAY_NAMES'' (MText (''{'' @ [CHR 0x22] @ ''Su'' @ [CHR 0x22] @ '', '' @ [CHR 0x22] @ ''Mo'' @ [CHR 0x22] @ '', '' @ [CHR 0x22] @ ''Tu'' @ [CHR 0x22] @ '', '' @ [CHR 0x22] @ ''We'' @ [CHR 0x22] @ '', '' @ [CHR 0x22] @ ''Th'' @ [CHR 0x22] @ '', '' @ [CHR 0x22] @ ''Fr'' @ [CHR 0x22] @ '', '' @ [CHR 0x22] @ ''Sa'' @ [CHR 0x22] @ ''}''))],
       Define ''LV_CALENDAR_DEFAULT_MONTH_NAMES'' (MText (''{'' @ [CHR 0x22] @ ''January'' @ [CHR 0x22] @ '', '' @ [CHR 0x22] @ ''February'' @ [CHR 0x22] @ '', '' @ [CHR 0x22] @ ''March'' @ [CHR 0x22] @ '',  '' @ [CHR 0x22] @ ''April'' @ [CHR 0x22] @ '', '' @ [CHR 0x22] @ ''May'' @ [CHR 0x22] @ '',  '' @ [CHR 0x22] @ ''June'' @ [CHR 0x22] @ '', '' @ [CHR 0x22] @ ''July'' @ [CHR 0x22] @ '', '' @ [CHR 0x22] @ ''August'' @ [CHR 0x22] @ '', '' @ [CHR 0x22] @ ''September'' @ [CHR 0x22] @ '', '' @ [CHR 0x22] @ ''October'' @ [CHR 0x22] @ '', '' @ [CHR 0x22] @ ''November'' @ [CHR 0x22] @ '', '' @ [CHR 0x22] @ ''December'' @ [CHR 0x22] @ ''}'')),
       Define ''LV_USE_CALENDAR_HEADER_ARROW'' (MExp (PNum 1)),
       Define ''LV_USE_CALENDAR_HEADER_DROPDOWN'' (MExp (PNum 1))]
      [],
    Define ''LV_USE_CHART'' (MExp (PNum 0)),
    Define ''LV_USE_COLORWHEEL'' (MExp (PNum 0)),
    Define ''LV_USE_IMGBTN'' (MExp (PNum 0)),
    Define ''LV_USE_KEYBOARD'' (MExp (PNum 1)),
    Define ''LV_USE_LED'' (MExp (PNum 0)),
    Define ''LV_USE_LIST'' (MExp (PNum 0)),
    Define ''LV_USE_MENU'' (MExp (PNum 0)),
    Define ''LV_USE_METER'' (MExp (PNum 1)),
    Define ''LV_USE_MSGBOX'' (MExp (PNum 0)),
    Define ''LV_USE_SPAN'' (MExp (PNum 0)),
    If (PId ''LV_USE_SPAN'')
      [Define ''LV_SPAN_SNIPPET_STACK_SIZE'' (MExp (PNum 64))]
      [],
    Define ''LV_USE_SPINBOX'' (MExp (PNum 0)),
    Define ''LV_USE_SPINNER'' (MExp (PNum 1)),
    Define ''LV_USE_TABVIEW'' (MExp (PNum 0)),
    Define ''LV_USE_TILEVIEW'' (MExp (PNum 0)),
    Define ''LV_USE_WIN'' (MExp (PNum 0))]"

text \<open>Themes and layouts.\<close>

definition lv_conf_themes :: "directive list" where
  "lv_conf_themes =
   [Define ''LV_USE_THEME_DEFAULT'' (MExp (PNum 0)),
    If (PId ''LV_USE_THEME_DEFAULT'')
      [Define ''LV_THEME_DEFAULT_DARK'' (MExp (PNum 0)),
       Define ''LV_THEME_DEFAULT_GROW'' (MExp (PNum 1)),
       Define ''LV_THEME_DEFAULT_TRANSITION_TIME'' (MExp (PNum 80))]
      [],
    Define ''LV_USE_THEME_BASIC'' (MExp (PNum 1)),
    Define ''LV_USE_THEME_MONO'' (MExp (PNum 0)),
    Define ''LV_USE_FLEX'' (MExp (PNum 1)),
    Define ''LV_USE_GRID'' (MExp (PNum 1))]"

text \<open>3rd party libraries.\<close>

definition lv_conf_libs :: "directive list" where
  "lv_conf_libs =
   [Define ''LV_USE_FS_STDIO'' (MExp (PNum 0)),
    If (PId ''LV_USE_FS_STDIO'')
      [Define ''LV_FS_STDIO_LETTER'' (MText ([CHR 0x27, CHR 0x5C] @ ''0'' @ [CHR 0x27])),
       Define ''LV_FS_STDIO_PATH'' (MText [CHR 0x22, CHR 0x22]),
       Define ''LV_FS_STDIO_CACHE_SIZE'' (MExp (PNum 0))]
      [],
    Define ''LV_USE_FS_POSIX'' (MExp (PNum 0)),
    If (PId ''LV_USE_FS_POSIX'')
      [Define ''LV_FS_POSIX_LETTER'' (MText ([CHR 0x27, CHR 0x5C] @ ''0'' @ [CHR 0x27])),
       Define ''LV_FS_POSIX_PATH'' (MText [CHR 0x22, CHR 0x22]),
       Define ''LV_FS_POSIX_CACHE_SIZE'' (MExp (PNum 0))]
      [],
    Define ''LV_USE_FS_WIN32'' (MExp (PNum 0)),
    If (PId ''LV_USE_FS_WIN32'')
      [Define ''LV_FS_WIN32_LETTER'' (MText ([CHR 0x27, CHR 0x5C] @ ''0'' @ [CHR 0x27])),
       Define ''LV_FS_WIN32_PATH'' (MText [CHR 0x22, CHR 0x22]),
       Define ''LV_FS_WIN32_CACHE_SIZE'' (MExp (PNum 0))]
      [],
    Define ''LV_USE_FS_FATFS'' (MExp (PNum 0)),
    If (PId ''LV_USE_FS_FATFS'')
      [Define ''LV_FS_FATFS_LETTER'' (MText ([CHR 0x27, CHR 0x5C] @ ''0'' @ [CHR 0x27])),
       Define ''LV_FS_FATFS_CACHE_SIZE'' (MExp (PNum 0))]
      [],
    Define ''LV_USE_PNG'' (MExp (PNum 0)),
    Define ''LV_USE_BMP'' (MExp (PNum 0)),
    Define ''LV_USE_SJPG'' (MExp (PNum 0)),
    Define ''LV_USE_GIF'' (MExp (PNum 0)),
    Define ''LV_USE_QRCODE'' (MExp (PNum 0)),
    Define ''LV_USE_FREETYPE'' (MExp (PNum 0)),
    If (PId ''LV_USE_FREETYPE'')
      [Define ''LV_FREETYPE_CACHE_SIZE'' (MExp (PBin Mul (PNum 16) (PNum 1024))),
       If (PBin Ge (PId ''LV_FREETYPE_CACHE_SIZE'') (PNum 0))
         [Define ''LV_FREETYPE_SBIT_CACHE'' (MExp (PNum 0)),
          Define ''LV_FREETYPE_CACHE_FT_FACES'' (MExp (PNum 0)),
          Define ''LV_FREETYPE_CACHE_FT_SIZES'' (MExp (PNum 0))]
         []]
      [],
    Define ''LV_USE_RLOTTIE'' (MExp (PNum 0)),
    Define ''LV_USE_FFMPEG'' (MExp (PNum 0)),
    If (PId ''LV_USE_FFMPEG'')
      [Define ''LV_FFMPEG_DUMP_FORMAT'' (MExp (PNum 0))]
      []]"

text \<open>Others.\<close>

definition lv_conf_others :: "directive list" where
  "lv_conf_others =
   [Define ''LV_USE_SNAPSHOT'' (MExp (PNum 0)),
    Define ''LV_USE_MONKEY'' (MExp (PNum 0)),
    Define ''LV_USE_GRIDNAV'' (MExp (PNum 0)),
    Define ''LV_USE_FRAGMENT'' (MExp (PNum 0)),
    Define ''LV_USE_IMGFONT'' (MExp (PNum 0)),
    Define ''LV_USE_MSG'' (MExp (PNum 0)),
    Define ''LV_USE_IME_PINYIN'' (MExp (PNum 0)),
    If (PId ''LV_USE_IME_PINYIN'')
      [Define ''LV_IME_PINYIN_USE_DEFAULT_DICT'' (MExp (PNum 1)),
       Define ''LV_IME_PINYIN_CAND_TEXT_NUM'' (MExp (PNum 6)),
       Define ''LV_IME_PINYIN_USE_K9_MODE'' (MExp (PNum 1)),
       If (PBin Eq (PId ''LV_IME_PINYIN_USE_K9_MODE'') (PNum 1))
         [Define ''LV_IME_PINYIN_K9_CAND_TEXT_NUM'' (MExp (PNum 3))]
         []]
      []]"

text \<open>Examples and demos.\<close>

definition lv_conf_demos :: "directive list" where
  "lv_conf_demos =
   [Define ''LV_BUILD_EXAMPLES'' (MExp (PNum 1)),
    Define ''LV_USE_DEMO_WIDGETS'' (MExp (PNum 0)),
    If (PId ''LV_USE_DEMO_WIDGETS'')
      [Define ''LV_DEMO_WIDGETS_SLIDESHOW'' (MExp (PNum 0))]
      [],
    Define ''LV_USE_DEMO_KEYPAD_AND_ENCODER'' (MExp (PNum 0)),
    Define ''LV_USE_DEMO_BENCHMARK'' (MExp (PNum 0)),
    If (PId ''LV_USE_DEMO_BENCHMARK'')
      [Define ''LV_DEMO_BENCHMARK_RGB565A8'' (MExp (PNum 0))]
      [],
    Define ''LV_USE_DEMO_STRESS'' (MExp (PNum 0)),
    Define ''LV_USE_DEMO_MUSIC'' (MExp (PNum 0)),
    If (PId ''LV_USE_DEMO_MUSIC'')
      [Define ''LV_DEMO_MUSIC_SQUARE'' (MExp (PNum 0)),
       Define ''LV_DEMO_MUSIC_LANDSCAPE'' (MExp (PNum 0)),
       Define ''LV_DEMO_MUSIC_ROUND'' (MExp (PNum 0)),
       Define ''LV_DEMO_MUSIC_LARGE'' (MExp (PNum 0)),
       Define ''LV_DEMO_MUSIC_AUTO_PLAY'' (MExp (PNum 0))]
      []]"

text \<open>The whole file, with its content switch and its include guard.\<close>

definition lv_conf_body :: "directive list" where
  "lv_conf_body = [Define ''LV_CONF_H'' (MText []), Include ''<stdint.h>''] @
     lv_conf_color @ lv_conf_memory @ lv_conf_hal @ lv_conf_drawing @ lv_conf_gpu @ lv_conf_log @
     lv_conf_assert @ lv_conf_debug @ lv_conf_compiler @ lv_conf_font @ lv_conf_text @
     lv_conf_widgets @ lv_conf_extra @ lv_conf_themes @ lv_conf_libs @ lv_conf_others @ lv_conf_demos"

definition lv_conf_h :: "directive list" where
  "lv_conf_h = [If (PNum 1) [Ifndef ''LV_CONF_H'' lv_conf_body] []]"

section \<open>The active settings\<close>

text \<open>What each section leaves, the latest definition first.\<close>

definition lv_conf_color_active :: macros where
  "lv_conf_color_active =
   [(''LV_COLOR_CHROMA_KEY'', MText ''lv_color_hex(0x00ff00)''),
    (''LV_COLOR_MIX_ROUND_OFS'', MExp (PNum 0)),
    (''LV_COLOR_SCREEN_TRANSP'', MExp (PNum 0)),
    (''LV_COLOR_16_SWAP'', MExp (PNum 0)),
    (''LV_COLOR_DEPTH'', MExp (PNum 32))]"

definition lv_conf_memory_active :: macros where
  "lv_conf_memory_active =
   [(''LV_MEMCPY_MEMSET_STD'', MExp (PNum 0)),
    (''LV_MEM_BUF_MAX_NUM'', MExp (PNum 16)),
    (''LV_MEM_ADR'', MExp (PNum 0)),
    (''LV_MEM_SIZE'', MExp (PBin Mul (PNum 48) (PNum 1024))),
    (''LV_MEM_CUSTOM'', MExp (PNum 0))]"

definition lv_conf_hal_active :: macros where
  "lv_conf_hal_active =
   [(''LV_DPI_DEF'', MExp (PNum 130)),
    (''LV_TICK_CUSTOM'', MExp (PNum 0)),
    (''LV_INDEV_DEF_READ_PERIOD'', MExp (PNum 30)),
    (''LV_DISP_DEF_REFR_PERIOD'', MExp (PNum 30))]"

definition lv_conf_drawing_active :: macros where
  "lv_conf_drawing_active =
   [(''LV_DISP_ROT_MAX_BUF'', MExp (PBin Mul (PNum 10) (PNum 1024))),
    (''LV_DITHER_GRADIENT'', MExp (PNum 0)),
    (''LV_GRAD_CACHE_DEF_SIZE'', MExp (PNum 0)),
    (''LV_GRADIENT_MAX_STOPS'', MExp (PNum 2)),
    (''LV_IMG_CACHE_DEF_SIZE'', MExp (PNum 0)),
    (''LV_LAYER_SIMPLE_FALLBACK_BUF_SIZE'', MExp (PBin Mul (PNum 3) (PNum 1024))),
    (''LV_LAYER_SIMPLE_BUF_SIZE'', MExp (PBin Mul (PNum 24) (PNum 1024))),
    (''LV_CIRCLE_CACHE_SIZE'', MExp (PNum 4)),
    (''LV_SHADOW_CACHE_SIZE'', MExp (PNum 0)),
    (''LV_DRAW_COMPLEX'', MExp (PNum 1))]"

definition lv_conf_gpu_active :: macros where
  "lv_conf_gpu_active =
   [(''LV_USE_GPU_SDL'', MExp (PNum 0)),
    (''LV_USE_GPU_NXP_VG_LITE'', MExp (PNum 0)),
    (''LV_USE_GPU_NXP_PXP'', MExp (PNum 0)),
    (''LV_USE_GPU_SWM341_DMA2D'', MExp (PNum 0)),
    (''LV_USE_GPU_STM32_DMA2D'', MExp (PNum 0)),
    (''LV_USE_GPU_ARM2D'', MExp (PNum 0))]"

definition lv_conf_log_active :: macros where
  "lv_conf_log_active =
   [(''LV_USE_LOG'', MExp (PNum 0))]"

definition lv_conf_assert_active :: macros where
  "lv_conf_assert_active =
   [(''LV_ASSERT_HANDLER'', MText ''while(1);''),
    (''LV_ASSERT_HANDLER_INCLUDE'', MText ''<stdint.h>''),
    (''LV_USE_ASSERT_OBJ'', MExp (PNum 0)),
    (''LV_USE_ASSERT_MEM_INTEGRITY'', MExp (PNum 0)),
    (''LV_USE_ASSERT_STYLE'', MExp (PNum 0)),
    (''LV_USE_ASSERT_MALLOC'', MExp (PNum 1)),
    (''LV_USE_ASSERT_NULL'', MExp (PNum 1))]"

definition lv_conf_debug_active :: macros where
  "lv_conf_debug_active =
   [(''LV_ENABLE_GC'', MExp (PNum 0)),
    (''LV_USE_USER_DATA'', MExp (PNum 1)),
    (''LV_SPRINTF_USE_FLOAT'', MExp (PNum 0)),
    (''LV_SPRINTF_CUSTOM'', MExp (PNum 0)),
    (''LV_USE_REFR_DEBUG'', MExp (PNum 0)),
    (''LV_USE_MEM_MONITOR'', MExp (PNum 0)),
    (''LV_USE_PERF_MONITOR'', MExp (PNum 0))]"

definition lv_conf_compiler_active :: macros where
  "lv_conf_compiler_active =
   [(''LV_USE_LARGE_COORD'', MExp (PNum 0)),
    (''LV_EXPORT_CONST_INT'', MFun ''int_value'' ''struct _silence_gcc_warning''),
    (''LV_ATTRIBUTE_DMA'', MText []),
    (''LV_ATTRIBUTE_FAST_MEM'', MText []),
    (''LV_ATTRIBUTE_LARGE_RAM_ARRAY'', MText []),
    (''LV_ATTRIBUTE_LARGE_CONST'', MText []),
    (''LV_ATTRIBUTE_MEM_ALIGN'', MText []),
    (''LV_ATTRIBUTE_MEM_ALIGN_SIZE'', MExp (PNum 1)),
    (''LV_ATTRIBUTE_FLUSH_READY'', MText []),
    (''LV_ATTRIBUTE_TIMER_HANDLER'', MText []),
    (''LV_ATTRIBUTE_TICK_INC'', MText []),
    (''LV_BIG_ENDIAN_SYSTEM'', MExp (PNum 0))]"

definition lv_conf_font_active :: macros where
  "lv_conf_font_active =
   [(''LV_USE_FONT_PLACEHOLDER'', MExp (PNum 1)),
    (''LV_USE_FONT_SUBPX'', MExp (PNum 0)),
    (''LV_USE_FONT_COMPRESSED'', MExp (PNum 0)),
    (''LV_FONT_FMT_TXT_LARGE'', MExp (PNum 0)),
    (''LV_FONT_DEFAULT'', MText ''&lv_font_montserrat_14''),
    (''LV_FONT_CUSTOM_DECLARE'', MText []),
    (''LV_FONT_UNSCII_16'', MExp (PNum 0)),
    (''LV_FONT_UNSCII_8'', MExp (PNum 0)),
    (''LV_FONT_SIMSUN_16_CJK'', MExp (PNum 0)),
    (''LV_FONT_DEJAVU_16_PERSIAN_HEBREW'', MExp (PNum 0)),
    (''LV_FONT_MONTSERRAT_28_COMPRESSED'', MExp (PNum 0)),
    (''LV_FONT_MONTSERRAT_12_SUBPX'', MExp (PNum 0)),
    (''LV_FONT_MONTSERRAT_48'', MExp (PNum 0)),
    (''LV_FONT_MONTSERRAT_46'', MExp (PNum 0)),
    (''LV_FONT_MONTSERRAT_44'', MExp (PNum 0)),
    (''LV_FONT_MONTSERRAT_42'', MExp (PNum 0)),
    (''LV_FONT_MONTSERRAT_40'', MExp (PNum 0)),
    (''LV_FONT_MONTSERRAT_38'', MExp (PNum 0)),
    (''LV_FONT_MONTSERRAT_36'', MExp (PNum 0)),
    (''LV_FONT_MONTSERRAT_34'', MExp (PNum 0)),
    (''LV_FONT_MONTSERRAT_32'', MExp (PNum 0)),
    (''LV_FONT_MONTSERRAT_30'', MExp (PNum 0)),
    (''LV_FONT_MONTSERRAT_28'', MExp (PNum 0)),
    (''LV_FONT_MONTSERRAT_26'', MExp (PNum 0)),
    (''LV_FONT_MONTSERRAT_24'', MExp (PNum 0)),
    (''LV_FONT_MONTSERRAT_22'', MExp (PNum 0)),
    (''LV_FONT_MONTSERRAT_20'', MExp (PNum 0)),
    (''LV_FONT_MONTSERRAT_18'', MExp (PNum 0)),
    (''LV_FONT_MONTSERRAT_16'', MExp (PNum 0)),
    (''LV_FONT_MONTSERRAT_14'', MExp (PNum 1)),
    (''LV_FONT_MONTSERRAT_12'', MExp (PNum 0)),
    (''LV_FONT_MONTSERRAT_10'', MExp (PNum 0)),
    (''LV_FONT_MONTSERRAT_8'', MExp (PNum 0))]"

definition lv_conf_text_active :: macros where
  "lv_conf_text_active =
   [(''LV_USE_ARABIC_PERSIAN_CHARS'', MExp (PNum 0)),
    (''LV_USE_BIDI'', MExp (PNum 0)),
    (''LV_TXT_COLOR_CMD'', MText ([CHR 0x22] @ ''#'' @ [CHR 0x22])),
    (''LV_TXT_LINE_BREAK_LONG_POST_MIN_LEN'', MExp (PNum 3)),
    (''LV_TXT_LINE_BREAK_LONG_PRE_MIN_LEN'', MExp (PNum 3)),
    (''LV_TXT_LINE_BREAK_LONG_LEN'', MExp (PNum 0)),
    (''LV_TXT_BREAK_CHARS'', MText ([CHR 0x22] @ '' ,.;:-_'' @ [CHR 0x22])),
    (''LV_TXT_ENC'', MExp (PId ''LV_TXT_ENC_UTF8''))]"

definition lv_conf_widgets_active :: macros where
  "lv_conf_widgets_active =
   [(''LV_USE_TABLE'', MExp (PNum 1)),
    (''LV_TEXTAREA_DEF_PWD_SHOW_TIME'', MExp (PNum 1500)),
    (''LV_USE_TEXTAREA'', MExp (PNum 1)),
    (''LV_USE_SWITCH'', MExp (PNum 0)),
    (''LV_USE_SLIDER'', MExp (PNum 1)),
    (''LV_USE_ROLLER'', MExp (PNum 0)),
    (''LV_USE_LINE'', MExp (PNum 1)),
    (''LV_LABEL_LONG_TXT_HINT'', MExp (PNum 1)),
    (''LV_LABEL_TEXT_SELECTION'', MExp (PNum 1)),
    (''LV_USE_LABEL'', MExp (PNum 1)),
    (''LV_USE_IMG'', MExp (PNum 1)),
    (''LV_USE_DROPDOWN'', MExp (PNum 1)),
    (''LV_USE_CHECKBOX'', MExp (PNum 1)),
    (''LV_USE_CANVAS'', MExp (PNum 0)),
    (''LV_USE_BTNMATRIX'', MExp (PNum 1)),
    (''LV_USE_BTN'', MExp (PNum 1)),
    (''LV_USE_BAR'', MExp (PNum 1)),
    (''LV_USE_ARC'', MExp (PNum 1))]"

definition lv_conf_extra_active :: macros where
  "lv_conf_extra_active =
   [(''LV_USE_WIN'', MExp (PNum 0)),
    (''LV_USE_TILEVIEW'', MExp (PNum 0)),
    (''LV_USE_TABVIEW'', MExp (PNum 0)),
    (''LV_USE_SPINNER'', MExp (PNum 1)),
    (''LV_USE_SPINBOX'', MExp (PNum 0)),
    (''LV_USE_SPAN'', MExp (PNum 0)),
    (''LV_USE_MSGBOX'', MExp (PNum 0)),
    (''LV_USE_METER'', MExp (PNum 1)),
    (''LV_USE_MENU'', MExp (PNum 0)),
    (''LV_USE_LIST'', MExp (PNum 0)),
    (''LV_USE_LED'', MExp (PNum 0)),
    (''LV_USE_KEYBOARD'', MExp (PNum 1)),
    (''LV_USE_IMGBTN'', MExp (PNum 0)),
    (''LV_USE_COLORWHEEL'', MExp (PNum 0)),
    (''LV_USE_CHART'', MExp (PNum 0)),
    (''LV_USE_CALENDAR'', MExp (PNum 0)),
    (''LV_USE_ANIMIMG'', MExp (PNum 0))]"

definition lv_conf_themes_active :: macros where
  "lv_conf_themes_active =
   [(''LV_USE_GRID'', MExp (PNum 1)),
    (''LV_USE_FLEX'', MExp (PNum 1)),
    (''LV_USE_THEME_MONO'', MExp (PNum 0)),
    (''LV_USE_THEME_BASIC'', MExp (PNum 1)),
    (''LV_USE_THEME_DEFAULT'', MExp (PNum 0))]"

definition lv_conf_libs_active :: macros where
  "lv_conf_libs_active =
   [(''LV_USE_FFMPEG'', MExp (PNum 0)),
    (''LV_USE_RLOTTIE'', MExp (PNum 0)),
    (''LV_USE_FREETYPE'', MExp (PNum 0)),
    (''LV_USE_QRCODE'', MExp (PNum 0)),
    (''LV_USE_GIF'', MExp (PNum 0)),
    (''LV_USE_SJPG'', MExp (PNum 0)),
    (''LV_USE_BMP'', MExp (PNum 0)),
    (''LV_USE_PNG'', MExp (PNum 0)),
    (''LV_USE_FS_FATFS'', MExp (PNum 0)),
    (''LV_USE_FS_WIN32'', MExp (PNum 0)),
    (''LV_USE_FS_POSIX'', MExp (PNum 0)),
    (''LV_USE_FS_STDIO'', MExp (PNum 0))]"

definition lv_conf_others_active :: macros where
  "lv_conf_others_active =
   [(''LV_USE_IME_PINYIN'', MExp (PNum 0)),
    (''LV_USE_MSG'', MExp (PNum 0)),
    (''LV_USE_IMGFONT'', MExp (PNum 0)),
    (''LV_USE_FRAGMENT'', MExp (PNum 0)),
    (''LV_USE_GRIDNAV'', MExp (PNum 0)),
    (''LV_USE_MONKEY'', MExp (PNum 0)),
    (''LV_USE_SNAPSHOT'', MExp (PNum 0))]"

definition lv_conf_demos_active :: macros where
  "lv_conf_demos_active =
   [(''LV_USE_DEMO_MUSIC'', MExp (PNum 0)),
    (''LV_USE_DEMO_STRESS'', MExp (PNum 0)),
    (''LV_USE_DEMO_BENCHMARK'', MExp (PNum 0)),
    (''LV_USE_DEMO_KEYPAD_AND_ENCODER'', MExp (PNum 0)),
    (''LV_USE_DEMO_WIDGETS'', MExp (PNum 0)),
    (''LV_BUILD_EXAMPLES'', MExp (PNum 1))]"

definition lv_conf_active :: macros where
  "lv_conf_active = lv_conf_demos_active @
     lv_conf_others_active @
     lv_conf_libs_active @
     lv_conf_themes_active @
     lv_conf_extra_active @
     lv_conf_widgets_active @
     lv_conf_text_active @
     lv_conf_font_active @
     lv_conf_compiler_active @
     lv_conf_debug_active @
     lv_conf_assert_active @
     lv_conf_log_active @
     lv_conf_gpu_active @
     lv_conf_drawing_active @
     lv_conf_hal_active @
     lv_conf_memory_active @
     lv_conf_color_active @
     [(''LV_CONF_H'', MText [])]"

lemma cpps_lv_conf_color: "cpps lv_conf_color env = Some (lv_conf_color_active @ env)"
  by (simp add: lv_conf_color_def lv_conf_color_active_def)

lemma cpps_lv_conf_memory:
  "cpps lv_conf_memory env =
    Some (lv_conf_memory_active @ undef ''LV_MEM_POOL_ALLOC'' (undef ''LV_MEM_POOL_INCLUDE'' env))"
  by (simp add: lv_conf_memory_def lv_conf_memory_active_def undef_def)

lemma cpps_lv_conf_hal: "cpps lv_conf_hal env = Some (lv_conf_hal_active @ env)"
  by (simp add: lv_conf_hal_def lv_conf_hal_active_def)

lemma cpps_lv_conf_drawing: "cpps lv_conf_drawing env = Some (lv_conf_drawing_active @ env)"
  by (simp add: lv_conf_drawing_def lv_conf_drawing_active_def)

lemma cpps_lv_conf_gpu: "cpps lv_conf_gpu env = Some (lv_conf_gpu_active @ env)"
  by (simp add: lv_conf_gpu_def lv_conf_gpu_active_def)

lemma cpps_lv_conf_log: "cpps lv_conf_log env = Some (lv_conf_log_active @ env)"
  by (simp add: lv_conf_log_def lv_conf_log_active_def)

lemma cpps_lv_conf_assert: "cpps lv_conf_assert env = Some (lv_conf_assert_active @ env)"
  by (simp add: lv_conf_assert_def lv_conf_assert_active_def)

lemma cpps_lv_conf_debug: "cpps lv_conf_debug env = Some (lv_conf_debug_active @ env)"
  by (simp add: lv_conf_debug_def lv_conf_debug_active_def)

lemma cpps_lv_conf_compiler: "cpps lv_conf_compiler env = Some (lv_conf_compiler_active @ env)"
  by (simp add: lv_conf_compiler_def lv_conf_compiler_active_def)

lemma cpps_lv_conf_font: "cpps lv_conf_font env = Some (lv_conf_font_active @ env)"
  by (simp add: lv_conf_font_def lv_conf_font_active_def)

lemma cpps_lv_conf_text: "cpps lv_conf_text env = Some (lv_conf_text_active @ env)"
  by (simp add: lv_conf_text_def lv_conf_text_active_def)

lemma cpps_lv_conf_widgets: "cpps lv_conf_widgets env = Some (lv_conf_widgets_active @ env)"
  by (simp add: lv_conf_widgets_def lv_conf_widgets_active_def)

lemma cpps_lv_conf_extra: "cpps lv_conf_extra env = Some (lv_conf_extra_active @ env)"
  by (simp add: lv_conf_extra_def lv_conf_extra_active_def)

lemma cpps_lv_conf_themes: "cpps lv_conf_themes env = Some (lv_conf_themes_active @ env)"
  by (simp add: lv_conf_themes_def lv_conf_themes_active_def)

lemma cpps_lv_conf_libs: "cpps lv_conf_libs env = Some (lv_conf_libs_active @ env)"
  by (simp add: lv_conf_libs_def lv_conf_libs_active_def)

lemma cpps_lv_conf_others: "cpps lv_conf_others env = Some (lv_conf_others_active @ env)"
  by (simp add: lv_conf_others_def lv_conf_others_active_def)

lemma cpps_lv_conf_demos: "cpps lv_conf_demos env = Some (lv_conf_demos_active @ env)"
  by (simp add: lv_conf_demos_def lv_conf_demos_active_def)

lemmas lv_conf_sections = cpps_lv_conf_color
  cpps_lv_conf_memory
  cpps_lv_conf_hal
  cpps_lv_conf_drawing
  cpps_lv_conf_gpu
  cpps_lv_conf_log
  cpps_lv_conf_assert
  cpps_lv_conf_debug
  cpps_lv_conf_compiler
  cpps_lv_conf_font
  cpps_lv_conf_text
  cpps_lv_conf_widgets
  cpps_lv_conf_extra
  cpps_lv_conf_themes
  cpps_lv_conf_libs
  cpps_lv_conf_others
  cpps_lv_conf_demos

lemma cpps_lv_conf_body:
  "cpps lv_conf_body env =
    Some (lv_conf_active @ undef ''LV_MEM_POOL_ALLOC'' (undef ''LV_MEM_POOL_INCLUDE'' env))"
  by (simp add: lv_conf_body_def cpps_append lv_conf_sections lv_conf_active_def undef_def
      lv_conf_color_active_def)

lemma lv_conf_guard_defined: "map_of (lv_conf_active @ env) ''LV_CONF_H'' \<noteq> None"
proof -
  have "(''LV_CONF_H'', MText []) \<in> set lv_conf_active" by (simp add: lv_conf_active_def)
  then have "''LV_CONF_H'' \<in> fst ` set (lv_conf_active @ env)" by force
  then show ?thesis by (simp only: map_of_eq_None_iff not_not)
qed

lemma cpps_lv_conf_h:
  "cpps lv_conf_h env =
    Some (if map_of env ''LV_CONF_H'' = None
          then lv_conf_active @ undef ''LV_MEM_POOL_ALLOC'' (undef ''LV_MEM_POOL_INCLUDE'' env)
          else env)"
  by (simp add: lv_conf_h_def cpps_lv_conf_body)

lemma active_value:
  "map_of lv_conf_active n = Some (MExp (PNum i)) \<Longrightarrow> macro_value (lv_conf_active @ env) n = Some i"
  by (simp add: macro_value_def map_add_Some_iff)

lemmas lv_conf_active_defs = lv_conf_active_def
  lv_conf_color_active_def
  lv_conf_memory_active_def
  lv_conf_hal_active_def
  lv_conf_drawing_active_def
  lv_conf_gpu_active_def
  lv_conf_log_active_def
  lv_conf_assert_active_def
  lv_conf_debug_active_def
  lv_conf_compiler_active_def
  lv_conf_font_active_def
  lv_conf_text_active_def
  lv_conf_widgets_active_def
  lv_conf_extra_active_def
  lv_conf_themes_active_def
  lv_conf_libs_active_def
  lv_conf_others_active_def
  lv_conf_demos_active_def

text \<open>The requirements the header states in comments: a widget and the widget it needs.\<close>

definition lv_conf_requires :: "(string \<times> string) list" where
  "lv_conf_requires =
    [(''LV_USE_DROPDOWN'', ''LV_USE_LABEL''), (''LV_USE_IMG'', ''LV_USE_LABEL''),
     (''LV_USE_ROLLER'', ''LV_USE_LABEL''), (''LV_USE_SLIDER'', ''LV_USE_BAR''),
     (''LV_USE_TEXTAREA'', ''LV_USE_LABEL''), (''LV_USE_IME_PINYIN'', ''LV_USE_KEYBOARD'')]"

definition enabled :: "macros \<Rightarrow> string \<Rightarrow> bool" where
  "enabled env n \<longleftrightarrow> (case macro_value env n of Some v \<Rightarrow> v \<noteq> 0 | None \<Rightarrow> False)"

definition requirements_met :: "macros \<Rightarrow> bool" where
  "requirements_met env \<longleftrightarrow> list_all (\<lambda>(w, r). enabled env w \<longrightarrow> enabled env r) lv_conf_requires"

lemma lv_conf_switches:
  "map_of lv_conf_active ''LV_USE_LABEL'' = Some (MExp (PNum 1))"
  "map_of lv_conf_active ''LV_USE_BAR'' = Some (MExp (PNum 1))"
  "map_of lv_conf_active ''LV_USE_KEYBOARD'' = Some (MExp (PNum 1))"
  by code_simp+

lemma lv_conf_color_values:
  "map_of lv_conf_active ''LV_COLOR_DEPTH'' = Some (MExp (PNum 32))"
  "map_of lv_conf_active ''LV_COLOR_16_SWAP'' = Some (MExp (PNum 0))"
  by code_simp+

lemma lv_conf_font_values:
  "map_of lv_conf_active ''LV_FONT_FMT_TXT_LARGE'' = Some (MExp (PNum 0))"
  "map_of lv_conf_active ''LV_USE_FONT_COMPRESSED'' = Some (MExp (PNum 0))"
  "map_of lv_conf_active ''LV_FONT_MONTSERRAT_14'' = Some (MExp (PNum 1))"
  "map_of lv_conf_active ''LV_FONT_DEFAULT'' = Some (MText ''&lv_font_montserrat_14'')"
  by code_simp+

section \<open>Properties\<close>




end
