(* ===== verification/Cursor_Image.thy ===== *)
theory Cursor_Image
  imports Font_Format Lv_Conf
begin

text \<open>
  The mouse cursor, \<open>fonts/cursor.c\<close>: one initialiser whose contents depend on the colour
  configuration. Each of the four conditional blocks is a definition with one list per line
  of the source, a row of 32 pixels; a pixel is written as one hexadecimal number of two
  digits per byte, so \<open>0\<close> is a pixel of zero bytes. The array is the concatenation of the
  blocks whose condition holds under the macros in force.
\<close>

section \<open>The image\<close>

definition cursor_px_8 :: "int list list" where
  "cursor_px_8 =
    [[0, 0, 0, 0, 0, 0, 0, 0, 0, 0, 0, 0, 0, 0, 0, 0, 0, 0, 0, 0, 0, 0, 0, 0, 0, 0, 0, 0, 0, 0,
       0, 0],
     [0, 0, 0, 0, 0, 0, 0, 0, 0, 0, 0, 0, 0, 0, 0, 0, 0, 0, 0, 0, 0, 0, 0, 0, 0, 0, 0, 0, 0, 0,
       0, 0],
     [0, 0, 0, 0, 0, 0, 0, 0, 0, 0, 0, 0, 0, 0, 0, 0, 0, 0, 0, 0, 0, 0, 0, 0, 0, 0, 0, 0, 0, 0,
       0, 0],
     [0, 0, 0, 0, 0, 0, 0, 0, 0, 0, 0, 0, 0, 0, 0, 0, 0, 0, 0, 0, 0, 0, 0, 0, 0, 0, 0, 0, 0, 0,
       0, 0],
     [0, 0, 0, 0, 0, 0, 0, 0, 0, 0, 0, 0, 0, 0, 0, 0, 0, 0, 0, 0, 0, 0, 0, 0, 0, 0, 0, 0, 0, 0,
       0, 0],
     [0, 0, 0, 0, 0, 0, 0, 0, 0, 0, 0, 0, 0, 0, 0, 0, 0, 0, 0, 0, 0, 0, 0, 0, 0, 0, 0, 0, 0, 0,
       0, 0],
     [0, 0, 0, 0, 0, 0, 0, 0, 0, 0, 0, 0, 0, 0, 0, 0, 0, 0, 0, 0, 0, 0, 0, 0, 0, 0, 0, 0, 0, 0,
       0, 0],
     [0, 0, 0, 0, 0, 0, 0, 0, 0, 0, 0xff2d, 0, 0, 0, 0, 0, 0, 0, 0, 0, 0, 0, 0, 0, 0, 0, 0, 0, 0,
       0, 0, 0],
     [0, 0, 0, 0, 0, 0, 0, 0, 0, 0, 0xffe9, 0xff2e, 0, 0, 0, 0, 0, 0, 0, 0, 0, 0, 0, 0, 0, 0, 0,
       0, 0, 0, 0, 0],
     [0, 0, 0, 0, 0, 0, 0, 0, 0, 0, 0xfffd, 0xffeb, 0xff2d, 0, 0, 0, 0, 0, 0, 0, 0, 0, 0, 0, 0,
       0, 0, 0, 0, 0, 0, 0],
     [0, 0, 0, 0, 0, 0, 0, 0, 0, 0, 0xfffd, 0x6dff, 0xffeb, 0xff2d, 0, 0, 0, 0, 0, 0, 0, 0, 0, 0,
       0, 0, 0, 0, 0, 0, 0, 0],
     [0, 0, 0, 0, 0, 0, 0, 0, 0, 0, 0xfffd, 0x00ff, 0x6dff, 0xffea, 0xff2c, 0, 0, 0, 0, 0, 0, 0,
       0, 0, 0, 0, 0, 0, 0, 0, 0, 0],
     [0, 0, 0, 0, 0, 0, 0, 0, 0, 0, 0xfffd, 0x00ff, 0x00ff, 0x6dff, 0xffea, 0xff2c, 0, 0, 0, 0,
       0, 0, 0, 0, 0, 0, 0, 0, 0, 0, 0, 0],
     [0, 0, 0, 0, 0, 0, 0, 0, 0, 0, 0xfffd, 0x00ff, 0x00ff, 0x00ff, 0x6dff, 0xffea, 0xff2c, 0, 0,
       0, 0, 0, 0, 0, 0, 0, 0, 0, 0, 0, 0, 0],
     [0, 0, 0, 0, 0, 0, 0, 0, 0, 0, 0xfffd, 0x00ff, 0x00ff, 0x00ff, 0x00ff, 0x6dff, 0xffea,
       0xff2b, 0, 0, 0, 0, 0, 0, 0, 0, 0, 0, 0, 0, 0, 0],
     [0, 0, 0, 0, 0, 0, 0, 0, 0, 0, 0xfffd, 0x00ff, 0x00ff, 0x00ff, 0x00ff, 0x00ff, 0x6dff,
       0xffe9, 0xff2b, 0, 0, 0, 0, 0, 0, 0, 0, 0, 0, 0, 0, 0],
     [0, 0, 0, 0, 0, 0, 0, 0, 0, 0, 0xfffd, 0x00ff, 0x00ff, 0x00ff, 0x00ff, 0x00ff, 0x00ff,
       0x6dff, 0xffe9, 0xff2b, 0, 0, 0, 0, 0, 0, 0, 0, 0, 0, 0, 0],
     [0, 0, 0, 0, 0, 0, 0, 0, 0, 0, 0xfffd, 0x00ff, 0x00ff, 0x00ff, 0x00ff, 0x24ff, 0x25ff,
       0x25ff, 0x92ff, 0xffe9, 0xff2a, 0, 0, 0, 0, 0, 0, 0, 0, 0, 0, 0],
     [0, 0, 0, 0, 0, 0, 0, 0, 0, 0, 0xfffd, 0x00ff, 0x00ff, 0x25ff, 0x00ff, 0x49ff, 0xffff,
       0xffd5, 0xffd0, 0xffd0, 0xffb9, 0xff13, 0, 0, 0, 0, 0, 0, 0, 0, 0, 0],
     [0, 0, 0, 0, 0, 0, 0, 0, 0, 0, 0xfffd, 0x00ff, 0x92ff, 0xffff, 0x24ff, 0x00ff, 0xdbff,
       0xff6c, 0, 0, 0, 0, 0, 0, 0, 0, 0, 0, 0, 0, 0, 0],
     [0, 0, 0, 0, 0, 0, 0, 0, 0, 0, 0xfffd, 0x92ff, 0xffe1, 0xff9e, 0xb6ff, 0x00ff, 0x25ff,
       0xffe8, 0xff0b, 0, 0, 0, 0, 0, 0, 0, 0, 0, 0, 0, 0, 0],
     [0, 0, 0, 0, 0, 0, 0, 0, 0, 0, 0xfffd, 0xffdd, 0xff1f, 0xff0e, 0xffeb, 0x24ff, 0x00ff,
       0xb7ff, 0xff7d, 0, 0, 0, 0, 0, 0, 0, 0, 0, 0, 0, 0, 0],
     [0, 0, 0, 0, 0, 0, 0, 0, 0, 0, 0xffd6, 0xff1b, 0, 0, 0xff71, 0xb7ff, 0x00ff, 0x25ff, 0xfff1,
       0xff14, 0, 0, 0, 0, 0, 0, 0, 0, 0, 0, 0, 0],
     [0, 0, 0, 0, 0, 0, 0, 0, 0, 0, 0xff17, 0, 0, 0, 0xff07, 0xffe1, 0x49ff, 0xb6ff, 0xffff,
       0xff63, 0, 0, 0, 0, 0, 0, 0, 0, 0, 0, 0, 0],
     [0, 0, 0, 0, 0, 0, 0, 0, 0, 0, 0, 0, 0, 0, 0, 0xff5f, 0xffff, 0xffbe, 0xff37, 0, 0, 0, 0, 0,
       0, 0, 0, 0, 0, 0, 0, 0],
     [0, 0, 0, 0, 0, 0, 0, 0, 0, 0, 0, 0, 0, 0, 0, 0xff02, 0xff41, 0, 0, 0, 0, 0, 0, 0, 0, 0, 0,
       0, 0, 0, 0, 0],
     [0, 0, 0, 0, 0, 0, 0, 0, 0, 0, 0, 0, 0, 0, 0, 0, 0, 0, 0, 0, 0, 0, 0, 0, 0, 0, 0, 0, 0, 0,
       0, 0],
     [0, 0, 0, 0, 0, 0, 0, 0, 0, 0, 0, 0, 0, 0, 0, 0, 0, 0, 0, 0, 0, 0, 0, 0, 0, 0, 0, 0, 0, 0,
       0, 0],
     [0, 0, 0, 0, 0, 0, 0, 0, 0, 0, 0, 0, 0, 0, 0, 0, 0, 0, 0, 0, 0, 0, 0, 0, 0, 0, 0, 0, 0, 0,
       0, 0],
     [0, 0, 0, 0, 0, 0, 0, 0, 0, 0, 0, 0, 0, 0, 0, 0, 0, 0, 0, 0, 0, 0, 0, 0, 0, 0, 0, 0, 0, 0,
       0, 0],
     [0, 0, 0, 0, 0, 0, 0, 0, 0, 0, 0, 0, 0, 0, 0, 0, 0, 0, 0, 0, 0, 0, 0, 0, 0, 0, 0, 0, 0, 0,
       0, 0],
     [0, 0, 0, 0, 0, 0, 0, 0, 0, 0, 0, 0, 0, 0, 0, 0, 0, 0, 0, 0, 0, 0, 0, 0, 0, 0, 0, 0, 0, 0,
       0, 0]]"

definition cursor_px_16 :: "int list list" where
  "cursor_px_16 =
    [[0, 0, 0, 0, 0, 0, 0, 0, 0, 0, 0, 0, 0, 0, 0, 0, 0, 0, 0, 0, 0, 0, 0, 0, 0, 0, 0, 0, 0, 0,
       0, 0],
     [0, 0, 0, 0, 0, 0, 0, 0, 0, 0, 0, 0, 0, 0, 0, 0, 0, 0, 0, 0, 0, 0, 0, 0, 0, 0, 0, 0, 0, 0,
       0, 0],
     [0, 0, 0, 0, 0, 0, 0, 0, 0, 0, 0, 0, 0, 0, 0, 0, 0, 0, 0, 0, 0, 0, 0, 0, 0, 0, 0, 0, 0, 0,
       0, 0],
     [0, 0, 0, 0, 0, 0, 0, 0, 0, 0, 0, 0, 0, 0, 0, 0, 0, 0, 0, 0, 0, 0, 0, 0, 0, 0, 0, 0, 0, 0,
       0, 0],
     [0, 0, 0, 0, 0, 0, 0, 0, 0, 0, 0, 0, 0, 0, 0, 0, 0, 0, 0, 0, 0, 0, 0, 0, 0, 0, 0, 0, 0, 0,
       0, 0],
     [0, 0, 0, 0, 0, 0, 0, 0, 0, 0, 0, 0, 0, 0, 0, 0, 0, 0, 0, 0, 0, 0, 0, 0, 0, 0, 0, 0, 0, 0,
       0, 0],
     [0, 0, 0, 0, 0, 0, 0, 0, 0, 0, 0, 0, 0, 0, 0, 0, 0, 0, 0, 0, 0, 0, 0, 0, 0, 0, 0, 0, 0, 0,
       0, 0],
     [0, 0, 0, 0, 0, 0, 0, 0, 0, 0, 0xffff2d, 0, 0, 0, 0, 0, 0, 0, 0, 0, 0, 0, 0, 0, 0, 0, 0, 0,
       0, 0, 0, 0],
     [0, 0, 0, 0, 0, 0, 0, 0, 0, 0, 0xffffe9, 0xffff2e, 0, 0, 0, 0, 0, 0, 0, 0, 0, 0, 0, 0, 0, 0,
       0, 0, 0, 0, 0, 0],
     [0, 0, 0, 0, 0, 0, 0, 0, 0, 0, 0xfffffd, 0xffffeb, 0xffff2d, 0, 0, 0, 0, 0, 0, 0, 0, 0, 0,
       0, 0, 0, 0, 0, 0, 0, 0, 0],
     [0, 0, 0, 0, 0, 0, 0, 0, 0, 0, 0xfffffd, 0xab5aff, 0xffffeb, 0xffff2d, 0, 0, 0, 0, 0, 0, 0,
       0, 0, 0, 0, 0, 0, 0, 0, 0, 0, 0],
     [0, 0, 0, 0, 0, 0, 0, 0, 0, 0, 0xfffffd, 0x0000ff, 0xab5aff, 0xffffea, 0xffff2c, 0, 0, 0, 0,
       0, 0, 0, 0, 0, 0, 0, 0, 0, 0, 0, 0, 0],
     [0, 0, 0, 0, 0, 0, 0, 0, 0, 0, 0xfffffd, 0x0000ff, 0x0000ff, 0xab5aff, 0xffffea, 0xffff2c,
       0, 0, 0, 0, 0, 0, 0, 0, 0, 0, 0, 0, 0, 0, 0, 0],
     [0, 0, 0, 0, 0, 0, 0, 0, 0, 0, 0xfffffd, 0x0000ff, 0x0000ff, 0x0000ff, 0xcb5aff, 0xffffea,
       0xffff2c, 0, 0, 0, 0, 0, 0, 0, 0, 0, 0, 0, 0, 0, 0, 0],
     [0, 0, 0, 0, 0, 0, 0, 0, 0, 0, 0xfffffd, 0x0000ff, 0x0000ff, 0x0000ff, 0x0000ff, 0xcb5aff,
       0xffffea, 0xffff2b, 0, 0, 0, 0, 0, 0, 0, 0, 0, 0, 0, 0, 0, 0],
     [0, 0, 0, 0, 0, 0, 0, 0, 0, 0, 0xfffffd, 0x0000ff, 0x0000ff, 0x0000ff, 0x0000ff, 0x0000ff,
       0xcb5aff, 0xffffe9, 0xffff2b, 0, 0, 0, 0, 0, 0, 0, 0, 0, 0, 0, 0, 0],
     [0, 0, 0, 0, 0, 0, 0, 0, 0, 0, 0xfffffd, 0x0000ff, 0x0000ff, 0x0000ff, 0x0000ff, 0x0000ff,
       0x0000ff, 0xcb5aff, 0xffffe9, 0xffff2b, 0, 0, 0, 0, 0, 0, 0, 0, 0, 0, 0, 0],
     [0, 0, 0, 0, 0, 0, 0, 0, 0, 0, 0xfffffd, 0x0000ff, 0x0000ff, 0x0000ff, 0x0000ff, 0xa210ff,
       0x2529ff, 0x2529ff, 0xf083ff, 0xffffe9, 0xffff2a, 0, 0, 0, 0, 0, 0, 0, 0, 0, 0, 0],
     [0, 0, 0, 0, 0, 0, 0, 0, 0, 0, 0xfffffd, 0x0000ff, 0x0000ff, 0x4529ff, 0x0000ff, 0xe841ff,
       0xffffff, 0xffffd5, 0xffffd0, 0xffffd0, 0xffffb9, 0xffff13, 0, 0, 0, 0, 0, 0, 0, 0, 0, 0],
     [0, 0, 0, 0, 0, 0, 0, 0, 0, 0, 0xfffffd, 0x0000ff, 0xae73ff, 0xbef7ff, 0xa318ff, 0x0000ff,
       0xb6b5ff, 0xffff6c, 0, 0, 0, 0, 0, 0, 0, 0, 0, 0, 0, 0, 0, 0],
     [0, 0, 0, 0, 0, 0, 0, 0, 0, 0, 0xfffffd, 0xef7bff, 0xffffe1, 0xffff9e, 0x9294ff, 0x0000ff,
       0x6631ff, 0xffffe8, 0xffff0b, 0, 0, 0, 0, 0, 0, 0, 0, 0, 0, 0, 0, 0],
     [0, 0, 0, 0, 0, 0, 0, 0, 0, 0, 0xfffffd, 0xffffdd, 0xffff1f, 0xffff0e, 0xdfffeb, 0x0421ff,
       0x0000ff, 0x34a5ff, 0xffff7d, 0, 0, 0, 0, 0, 0, 0, 0, 0, 0, 0, 0, 0],
     [0, 0, 0, 0, 0, 0, 0, 0, 0, 0, 0xffffd6, 0xffff1b, 0, 0, 0xffff71, 0x14a5ff, 0x0000ff,
       0x0421ff, 0xdffff1, 0xffff14, 0, 0, 0, 0, 0, 0, 0, 0, 0, 0, 0, 0],
     [0, 0, 0, 0, 0, 0, 0, 0, 0, 0, 0xffff17, 0, 0, 0, 0xffff07, 0xffffe1, 0x2842ff, 0x9294ff,
       0xffffff, 0xffff63, 0, 0, 0, 0, 0, 0, 0, 0, 0, 0, 0, 0],
     [0, 0, 0, 0, 0, 0, 0, 0, 0, 0, 0, 0, 0, 0, 0, 0xffff5f, 0xffffff, 0xffffbe, 0xffff37, 0, 0,
       0, 0, 0, 0, 0, 0, 0, 0, 0, 0, 0],
     [0, 0, 0, 0, 0, 0, 0, 0, 0, 0, 0, 0, 0, 0, 0, 0xffff02, 0xffff41, 0, 0, 0, 0, 0, 0, 0, 0, 0,
       0, 0, 0, 0, 0, 0],
     [0, 0, 0, 0, 0, 0, 0, 0, 0, 0, 0, 0, 0, 0, 0, 0, 0, 0, 0, 0, 0, 0, 0, 0, 0, 0, 0, 0, 0, 0,
       0, 0],
     [0, 0, 0, 0, 0, 0, 0, 0, 0, 0, 0, 0, 0, 0, 0, 0, 0, 0, 0, 0, 0, 0, 0, 0, 0, 0, 0, 0, 0, 0,
       0, 0],
     [0, 0, 0, 0, 0, 0, 0, 0, 0, 0, 0, 0, 0, 0, 0, 0, 0, 0, 0, 0, 0, 0, 0, 0, 0, 0, 0, 0, 0, 0,
       0, 0],
     [0, 0, 0, 0, 0, 0, 0, 0, 0, 0, 0, 0, 0, 0, 0, 0, 0, 0, 0, 0, 0, 0, 0, 0, 0, 0, 0, 0, 0, 0,
       0, 0],
     [0, 0, 0, 0, 0, 0, 0, 0, 0, 0, 0, 0, 0, 0, 0, 0, 0, 0, 0, 0, 0, 0, 0, 0, 0, 0, 0, 0, 0, 0,
       0, 0],
     [0, 0, 0, 0, 0, 0, 0, 0, 0, 0, 0, 0, 0, 0, 0, 0, 0, 0, 0, 0, 0, 0, 0, 0, 0, 0, 0, 0, 0, 0,
       0, 0]]"

definition cursor_px_16_swap :: "int list list" where
  "cursor_px_16_swap =
    [[0, 0, 0, 0, 0, 0, 0, 0, 0, 0, 0, 0, 0, 0, 0, 0, 0, 0, 0, 0, 0, 0, 0, 0, 0, 0, 0, 0, 0, 0,
       0, 0],
     [0, 0, 0, 0, 0, 0, 0, 0, 0, 0, 0, 0, 0, 0, 0, 0, 0, 0, 0, 0, 0, 0, 0, 0, 0, 0, 0, 0, 0, 0,
       0, 0],
     [0, 0, 0, 0, 0, 0, 0, 0, 0, 0, 0, 0, 0, 0, 0, 0, 0, 0, 0, 0, 0, 0, 0, 0, 0, 0, 0, 0, 0, 0,
       0, 0],
     [0, 0, 0, 0, 0, 0, 0, 0, 0, 0, 0, 0, 0, 0, 0, 0, 0, 0, 0, 0, 0, 0, 0, 0, 0, 0, 0, 0, 0, 0,
       0, 0],
     [0, 0, 0, 0, 0, 0, 0, 0, 0, 0, 0, 0, 0, 0, 0, 0, 0, 0, 0, 0, 0, 0, 0, 0, 0, 0, 0, 0, 0, 0,
       0, 0],
     [0, 0, 0, 0, 0, 0, 0, 0, 0, 0, 0, 0, 0, 0, 0, 0, 0, 0, 0, 0, 0, 0, 0, 0, 0, 0, 0, 0, 0, 0,
       0, 0],
     [0, 0, 0, 0, 0, 0, 0, 0, 0, 0, 0, 0, 0, 0, 0, 0, 0, 0, 0, 0, 0, 0, 0, 0, 0, 0, 0, 0, 0, 0,
       0, 0],
     [0, 0, 0, 0, 0, 0, 0, 0, 0, 0, 0xffff2d, 0, 0, 0, 0, 0, 0, 0, 0, 0, 0, 0, 0, 0, 0, 0, 0, 0,
       0, 0, 0, 0],
     [0, 0, 0, 0, 0, 0, 0, 0, 0, 0, 0xffffe9, 0xffff2e, 0, 0, 0, 0, 0, 0, 0, 0, 0, 0, 0, 0, 0, 0,
       0, 0, 0, 0, 0, 0],
     [0, 0, 0, 0, 0, 0, 0, 0, 0, 0, 0xfffffd, 0xffffeb, 0xffff2d, 0, 0, 0, 0, 0, 0, 0, 0, 0, 0,
       0, 0, 0, 0, 0, 0, 0, 0, 0],
     [0, 0, 0, 0, 0, 0, 0, 0, 0, 0, 0xfffffd, 0x5aabff, 0xffffeb, 0xffff2d, 0, 0, 0, 0, 0, 0, 0,
       0, 0, 0, 0, 0, 0, 0, 0, 0, 0, 0],
     [0, 0, 0, 0, 0, 0, 0, 0, 0, 0, 0xfffffd, 0x0000ff, 0x5aabff, 0xffffea, 0xffff2c, 0, 0, 0, 0,
       0, 0, 0, 0, 0, 0, 0, 0, 0, 0, 0, 0, 0],
     [0, 0, 0, 0, 0, 0, 0, 0, 0, 0, 0xfffffd, 0x0000ff, 0x0000ff, 0x5aabff, 0xffffea, 0xffff2c,
       0, 0, 0, 0, 0, 0, 0, 0, 0, 0, 0, 0, 0, 0, 0, 0],
     [0, 0, 0, 0, 0, 0, 0, 0, 0, 0, 0xfffffd, 0x0000ff, 0x0000ff, 0x0000ff, 0x5acbff, 0xffffea,
       0xffff2c, 0, 0, 0, 0, 0, 0, 0, 0, 0, 0, 0, 0, 0, 0, 0],
     [0, 0, 0, 0, 0, 0, 0, 0, 0, 0, 0xfffffd, 0x0000ff, 0x0000ff, 0x0000ff, 0x0000ff, 0x5acbff,
       0xffffea, 0xffff2b, 0, 0, 0, 0, 0, 0, 0, 0, 0, 0, 0, 0, 0, 0],
     [0, 0, 0, 0, 0, 0, 0, 0, 0, 0, 0xfffffd, 0x0000ff, 0x0000ff, 0x0000ff, 0x0000ff, 0x0000ff,
       0x5acbff, 0xffffe9, 0xffff2b, 0, 0, 0, 0, 0, 0, 0, 0, 0, 0, 0, 0, 0],
     [0, 0, 0, 0, 0, 0, 0, 0, 0, 0, 0xfffffd, 0x0000ff, 0x0000ff, 0x0000ff, 0x0000ff, 0x0000ff,
       0x0000ff, 0x5acbff, 0xffffe9, 0xffff2b, 0, 0, 0, 0, 0, 0, 0, 0, 0, 0, 0, 0],
     [0, 0, 0, 0, 0, 0, 0, 0, 0, 0, 0xfffffd, 0x0000ff, 0x0000ff, 0x0000ff, 0x0000ff, 0x10a2ff,
       0x2925ff, 0x2925ff, 0x83f0ff, 0xffffe9, 0xffff2a, 0, 0, 0, 0, 0, 0, 0, 0, 0, 0, 0],
     [0, 0, 0, 0, 0, 0, 0, 0, 0, 0, 0xfffffd, 0x0000ff, 0x0000ff, 0x2945ff, 0x0000ff, 0x41e8ff,
       0xffffff, 0xffffd5, 0xffffd0, 0xffffd0, 0xffffb9, 0xffff13, 0, 0, 0, 0, 0, 0, 0, 0, 0, 0],
     [0, 0, 0, 0, 0, 0, 0, 0, 0, 0, 0xfffffd, 0x0000ff, 0x73aeff, 0xf7beff, 0x18a3ff, 0x0000ff,
       0xb5b6ff, 0xffff6c, 0, 0, 0, 0, 0, 0, 0, 0, 0, 0, 0, 0, 0, 0],
     [0, 0, 0, 0, 0, 0, 0, 0, 0, 0, 0xfffffd, 0x7befff, 0xffffe1, 0xffff9e, 0x9492ff, 0x0000ff,
       0x3166ff, 0xffffe8, 0xffff0b, 0, 0, 0, 0, 0, 0, 0, 0, 0, 0, 0, 0, 0],
     [0, 0, 0, 0, 0, 0, 0, 0, 0, 0, 0xfffffd, 0xffffdd, 0xffff1f, 0xffff0e, 0xffdfeb, 0x2104ff,
       0x0000ff, 0xa534ff, 0xffff7d, 0, 0, 0, 0, 0, 0, 0, 0, 0, 0, 0, 0, 0],
     [0, 0, 0, 0, 0, 0, 0, 0, 0, 0, 0xffffd6, 0xffff1b, 0, 0, 0xffff71, 0xa514ff, 0x0000ff,
       0x2104ff, 0xffdff1, 0xffff14, 0, 0, 0, 0, 0, 0, 0, 0, 0, 0, 0, 0],
     [0, 0, 0, 0, 0, 0, 0, 0, 0, 0, 0xffff17, 0, 0, 0, 0xffff07, 0xffffe1, 0x4228ff, 0x9492ff,
       0xffffff, 0xffff63, 0, 0, 0, 0, 0, 0, 0, 0, 0, 0, 0, 0],
     [0, 0, 0, 0, 0, 0, 0, 0, 0, 0, 0, 0, 0, 0, 0, 0xffff5f, 0xffffff, 0xffffbe, 0xffff37, 0, 0,
       0, 0, 0, 0, 0, 0, 0, 0, 0, 0, 0],
     [0, 0, 0, 0, 0, 0, 0, 0, 0, 0, 0, 0, 0, 0, 0, 0xffff02, 0xffff41, 0, 0, 0, 0, 0, 0, 0, 0, 0,
       0, 0, 0, 0, 0, 0],
     [0, 0, 0, 0, 0, 0, 0, 0, 0, 0, 0, 0, 0, 0, 0, 0, 0, 0, 0, 0, 0, 0, 0, 0, 0, 0, 0, 0, 0, 0,
       0, 0],
     [0, 0, 0, 0, 0, 0, 0, 0, 0, 0, 0, 0, 0, 0, 0, 0, 0, 0, 0, 0, 0, 0, 0, 0, 0, 0, 0, 0, 0, 0,
       0, 0],
     [0, 0, 0, 0, 0, 0, 0, 0, 0, 0, 0, 0, 0, 0, 0, 0, 0, 0, 0, 0, 0, 0, 0, 0, 0, 0, 0, 0, 0, 0,
       0, 0],
     [0, 0, 0, 0, 0, 0, 0, 0, 0, 0, 0, 0, 0, 0, 0, 0, 0, 0, 0, 0, 0, 0, 0, 0, 0, 0, 0, 0, 0, 0,
       0, 0],
     [0, 0, 0, 0, 0, 0, 0, 0, 0, 0, 0, 0, 0, 0, 0, 0, 0, 0, 0, 0, 0, 0, 0, 0, 0, 0, 0, 0, 0, 0,
       0, 0],
     [0, 0, 0, 0, 0, 0, 0, 0, 0, 0, 0, 0, 0, 0, 0, 0, 0, 0, 0, 0, 0, 0, 0, 0, 0, 0, 0, 0, 0, 0,
       0, 0]]"

definition cursor_px_32 :: "int list list" where
  "cursor_px_32 =
    [[0, 0, 0, 0, 0, 0, 0, 0, 0, 0, 0, 0, 0, 0, 0, 0, 0, 0, 0, 0, 0, 0, 0, 0, 0, 0, 0, 0, 0, 0,
       0, 0],
     [0, 0, 0, 0, 0, 0, 0, 0, 0, 0, 0, 0, 0, 0, 0, 0, 0, 0, 0, 0, 0, 0, 0, 0, 0, 0, 0, 0, 0, 0,
       0, 0],
     [0, 0, 0, 0, 0, 0, 0, 0, 0, 0, 0, 0, 0, 0, 0, 0, 0, 0, 0, 0, 0, 0, 0, 0, 0, 0, 0, 0, 0, 0,
       0, 0],
     [0, 0, 0, 0, 0, 0, 0, 0, 0, 0, 0, 0, 0, 0, 0, 0, 0, 0, 0, 0, 0, 0, 0, 0, 0, 0, 0, 0, 0, 0,
       0, 0],
     [0, 0, 0, 0, 0, 0, 0, 0, 0, 0, 0, 0, 0, 0, 0, 0, 0, 0, 0, 0, 0, 0, 0, 0, 0, 0, 0, 0, 0, 0,
       0, 0],
     [0, 0, 0, 0, 0, 0, 0, 0, 0, 0, 0, 0, 0, 0, 0, 0, 0, 0, 0, 0, 0, 0, 0, 0, 0, 0, 0, 0, 0, 0,
       0, 0],
     [0, 0, 0, 0, 0, 0, 0, 0, 0, 0, 0, 0, 0, 0, 0, 0, 0, 0, 0, 0, 0, 0, 0, 0, 0, 0, 0, 0, 0, 0,
       0, 0],
     [0, 0, 0, 0, 0, 0, 0, 0, 0, 0, 0xffffff2d, 0, 0, 0, 0, 0, 0, 0, 0, 0, 0, 0, 0, 0, 0, 0, 0,
       0, 0, 0, 0, 0],
     [0, 0, 0, 0, 0, 0, 0, 0, 0, 0, 0xfefefee9, 0xffffff2e, 0, 0, 0, 0, 0, 0, 0, 0, 0, 0, 0, 0,
       0, 0, 0, 0, 0, 0, 0, 0],
     [0, 0, 0, 0, 0, 0, 0, 0, 0, 0, 0xfffffffd, 0xfbfbfbeb, 0xffffff2d, 0, 0, 0, 0, 0, 0, 0, 0,
       0, 0, 0, 0, 0, 0, 0, 0, 0, 0, 0],
     [0, 0, 0, 0, 0, 0, 0, 0, 0, 0, 0xfffffffd, 0x545454ff, 0xfbfbfbeb, 0xffffff2d, 0, 0, 0, 0,
       0, 0, 0, 0, 0, 0, 0, 0, 0, 0, 0, 0, 0, 0],
     [0, 0, 0, 0, 0, 0, 0, 0, 0, 0, 0xfffffffd, 0x000000ff, 0x555555ff, 0xfbfbfbea, 0xffffff2c,
       0, 0, 0, 0, 0, 0, 0, 0, 0, 0, 0, 0, 0, 0, 0, 0, 0],
     [0, 0, 0, 0, 0, 0, 0, 0, 0, 0, 0xfffffffd, 0x000000ff, 0x000000ff, 0x555555ff, 0xfbfbfbea,
       0xffffff2c, 0, 0, 0, 0, 0, 0, 0, 0, 0, 0, 0, 0, 0, 0, 0, 0],
     [0, 0, 0, 0, 0, 0, 0, 0, 0, 0, 0xfffffffd, 0x000000ff, 0x000000ff, 0x000000ff, 0x565656ff,
       0xfbfbfbea, 0xffffff2c, 0, 0, 0, 0, 0, 0, 0, 0, 0, 0, 0, 0, 0, 0, 0],
     [0, 0, 0, 0, 0, 0, 0, 0, 0, 0, 0xfffffffd, 0x000000ff, 0x000000ff, 0x000000ff, 0x000000ff,
       0x565656ff, 0xfcfcfcea, 0xffffff2b, 0, 0, 0, 0, 0, 0, 0, 0, 0, 0, 0, 0, 0, 0],
     [0, 0, 0, 0, 0, 0, 0, 0, 0, 0, 0xfffffffd, 0x000000ff, 0x000000ff, 0x000000ff, 0x000000ff,
       0x000000ff, 0x575757ff, 0xfcfcfce9, 0xffffff2b, 0, 0, 0, 0, 0, 0, 0, 0, 0, 0, 0, 0, 0],
     [0, 0, 0, 0, 0, 0, 0, 0, 0, 0, 0xfffffffd, 0x000000ff, 0x000100ff, 0x000000ff, 0x000000ff,
       0x000000ff, 0x000000ff, 0x575757ff, 0xfcfcfce9, 0xffffff2b, 0, 0, 0, 0, 0, 0, 0, 0, 0, 0,
       0, 0],
     [0, 0, 0, 0, 0, 0, 0, 0, 0, 0, 0xfffffffd, 0x000000ff, 0x000000ff, 0x000000ff, 0x000000ff,
       0x131313ff, 0x242424ff, 0x242424ff, 0x7d7d7dff, 0xfefefee9, 0xffffff2a, 0, 0, 0, 0, 0, 0,
       0, 0, 0, 0, 0],
     [0, 0, 0, 0, 0, 0, 0, 0, 0, 0, 0xfffffffd, 0x000000ff, 0x000000ff, 0x262626ff, 0x000000ff,
       0x3c3c3cff, 0xffffffff, 0xfefefed5, 0xfefefed0, 0xfefefed0, 0xffffffb9, 0xfefefe13, 0, 0,
       0, 0, 0, 0, 0, 0, 0, 0],
     [0, 0, 0, 0, 0, 0, 0, 0, 0, 0, 0xfffffffd, 0x000000ff, 0x727272ff, 0xf2f2f2ff, 0x151515ff,
       0x000000ff, 0xb3b3b3ff, 0xfefefe6c, 0, 0, 0, 0, 0, 0, 0, 0, 0, 0, 0, 0, 0, 0],
     [0, 0, 0, 0, 0, 0, 0, 0, 0, 0, 0xfffffffd, 0x7b7b7bff, 0xfefefee1, 0xfefefe9e, 0x909090ff,
       0x000000ff, 0x2d2d2dff, 0xfdfdfde8, 0xfefefe0b, 0, 0, 0, 0, 0, 0, 0, 0, 0, 0, 0, 0, 0],
     [0, 0, 0, 0, 0, 0, 0, 0, 0, 0, 0xfffffffd, 0xfefefedd, 0xfefefe1f, 0xffffff0e, 0xf8f8f8eb,
       0x1f1f1fff, 0x000000ff, 0xa2a2a2ff, 0xffffff7d, 0, 0, 0, 0, 0, 0, 0, 0, 0, 0, 0, 0, 0],
     [0, 0, 0, 0, 0, 0, 0, 0, 0, 0, 0xfefefed6, 0xfefefe1b, 0, 0, 0xfefefc71, 0xa1a1a1ff,
       0x000000ff, 0x202020ff, 0xf9f9f9f1, 0xffffff14, 0, 0, 0, 0, 0, 0, 0, 0, 0, 0, 0, 0],
     [0, 0, 0, 0, 0, 0, 0, 0, 0, 0, 0xfefefe17, 0, 0, 0, 0xffffff07, 0xfdfdfde1, 0x424242ff,
       0x919191ff, 0xfafafaff, 0xffffff63, 0, 0, 0, 0, 0, 0, 0, 0, 0, 0, 0, 0],
     [0, 0, 0, 0, 0, 0, 0, 0, 0, 0, 0, 0, 0, 0, 0, 0xfefefe5f, 0xffffffff, 0xfefefebe,
       0xffffff37, 0, 0, 0, 0, 0, 0, 0, 0, 0, 0, 0, 0, 0],
     [0, 0, 0, 0, 0, 0, 0, 0, 0, 0, 0, 0, 0, 0, 0, 0xffffff02, 0xffffff41, 0, 0, 0, 0, 0, 0, 0,
       0, 0, 0, 0, 0, 0, 0, 0],
     [0, 0, 0, 0, 0, 0, 0, 0, 0, 0, 0, 0, 0, 0, 0, 0, 0, 0, 0, 0, 0, 0, 0, 0, 0, 0, 0, 0, 0, 0,
       0, 0],
     [0, 0, 0, 0, 0, 0, 0, 0, 0, 0, 0, 0, 0, 0, 0, 0, 0, 0, 0, 0, 0, 0, 0, 0, 0, 0, 0, 0, 0, 0,
       0, 0],
     [0, 0, 0, 0, 0, 0, 0, 0, 0, 0, 0, 0, 0, 0, 0, 0, 0, 0, 0, 0, 0, 0, 0, 0, 0, 0, 0, 0, 0, 0,
       0, 0],
     [0, 0, 0, 0, 0, 0, 0, 0, 0, 0, 0, 0, 0, 0, 0, 0, 0, 0, 0, 0, 0, 0, 0, 0, 0, 0, 0, 0, 0, 0,
       0, 0],
     [0, 0, 0, 0, 0, 0, 0, 0, 0, 0, 0, 0, 0, 0, 0, 0, 0, 0, 0, 0, 0, 0, 0, 0, 0, 0, 0, 0, 0, 0,
       0, 0],
     [0, 0, 0, 0, 0, 0, 0, 0, 0, 0, 0, 0, 0, 0, 0, 0, 0, 0, 0, 0, 0, 0, 0, 0, 0, 0, 0, 0, 0, 0,
       0, 0]]"

text \<open>The bytes of pixels of \<open>k\<close> bytes.\<close>

definition bytes_of :: "nat \<Rightarrow> int list list \<Rightarrow> u8 list" where
  "bytes_of k vs = concat (map (line k) (concat vs))"

text \<open>The blocks with their conditions, in the order of the file.\<close>

definition cursor_blocks :: "(pexp \<times> u8 list) list" where
  "cursor_blocks =
    [(PBin LOr (PBin Eq (PId ''LV_COLOR_DEPTH'') (PNum 1)) (PBin Eq (PId ''LV_COLOR_DEPTH'') (PNum 8)),
        bytes_of 2 cursor_px_8),
     (PBin LAnd (PBin Eq (PId ''LV_COLOR_DEPTH'') (PNum 16)) (PBin Eq (PId ''LV_COLOR_16_SWAP'') (PNum 0)),
        bytes_of 3 cursor_px_16),
     (PBin LAnd (PBin Eq (PId ''LV_COLOR_DEPTH'') (PNum 16)) (PBin Ne (PId ''LV_COLOR_16_SWAP'') (PNum 0)),
        bytes_of 3 cursor_px_16_swap),
     (PBin Eq (PId ''LV_COLOR_DEPTH'') (PNum 32),
        bytes_of 4 cursor_px_32)]"

fun active_blocks :: "macros \<Rightarrow> (pexp \<times> u8 list) list \<Rightarrow> u8 list option" where
  "active_blocks env [] = Some []"
| "active_blocks env ((c, x) # bs) =
     (case (eval_pexp [] env c, active_blocks env bs) of
        (Some v, Some ys) \<Rightarrow> Some ((if v \<noteq> 0 then x else []) @ ys)
      | _ \<Rightarrow> None)"

definition cursor_map :: "macros \<Rightarrow> u8 list option" where
  "cursor_map env = active_blocks env cursor_blocks"

record img_dsc =
  img_w :: nat
  img_h :: nat
  data_size :: nat
  img_data :: "u8 list"

text \<open>\<open>px\<close> stands for \<open>LV_IMG_PX_SIZE_ALPHA_BYTE\<close>, which the graphics library defines.\<close>

definition cursor :: "nat \<Rightarrow> macros \<Rightarrow> img_dsc option" where
  "cursor px env =
     map_option (\<lambda>m. \<lparr>img_w = 32, img_h = 32, data_size = 1024 * px, img_data = m\<rparr>) (cursor_map env)"

section \<open>Pixels and bytes\<close>

lemma nth_chunks:
  assumes "p < length vs" and "j < k"
  shows "concat (map (line k) vs) ! (k * p + j) = line k (vs ! p) ! j"
  using assms(1)
proof (induction vs arbitrary: p)
  case Nil
  then show ?case by simp
next
  case (Cons v vs)
  show ?case
  proof (cases p)
    case 0
    with assms(2) show ?thesis by (simp add: nth_append)
  next
    case (Suc q)
    with Cons assms(2) show ?thesis by (simp add: nth_append)
  qed
qed

lemma length_bytes_of: "length (bytes_of k vs) = k * length (concat vs)"
proof -
  have "length (concat (map (line k) us)) = k * length us" for us by (induction us) simp_all
  then show ?thesis by (simp add: bytes_of_def)
qed

lemma nth_bytes_of:
  "p < length (concat vs) \<Longrightarrow> j < k \<Longrightarrow> bytes_of k vs ! (k * p + j) = line k (concat vs ! p) ! j"
  unfolding bytes_of_def by (rule nth_chunks)

lemma line_2: "line 2 v = [word_of_int (take_bit 8 (drop_bit 8 v)), word_of_int (take_bit 8 v)]"
  and line_3: "line 3 v = [word_of_int (take_bit 8 (drop_bit 16 v)), word_of_int (take_bit 8 (drop_bit 8 v)),
    word_of_int (take_bit 8 v)]"
  and line_4: "line 4 v = [word_of_int (take_bit 8 (drop_bit 24 v)), word_of_int (take_bit 8 (drop_bit 16 v)),
    word_of_int (take_bit 8 (drop_bit 8 v)), word_of_int (take_bit 8 v)]"
  by (simp_all add: numeral_eq_Suc)

lemma cursor_px_length:
  "length (concat cursor_px_8) = 1024" "length (concat cursor_px_16) = 1024"
  "length (concat cursor_px_16_swap) = 1024" "length (concat cursor_px_32) = 1024"
  by (simp_all add: cursor_px_8_def cursor_px_16_def cursor_px_16_swap_def cursor_px_32_def)

text \<open>The last byte of a pixel is its alpha value.\<close>

lemma cursor_alpha:
  "map (take_bit 8) (concat cursor_px_8) = map (take_bit 8) (concat cursor_px_32)"
  "map (take_bit 8) (concat cursor_px_16) = map (take_bit 8) (concat cursor_px_32)"
  "map (take_bit 8) (concat cursor_px_16_swap) = map (take_bit 8) (concat cursor_px_32)"
  by (simp_all add: cursor_px_8_def cursor_px_16_def cursor_px_16_swap_def cursor_px_32_def)

lemma cursor_swap:
  "map (\<lambda>v. take_bit 8 (drop_bit 16 v)) (concat cursor_px_16_swap) =
    map (\<lambda>v. take_bit 8 (drop_bit 8 v)) (concat cursor_px_16)"
  "map (\<lambda>v. take_bit 8 (drop_bit 8 v)) (concat cursor_px_16_swap) =
    map (\<lambda>v. take_bit 8 (drop_bit 16 v)) (concat cursor_px_16)"
  by (simp_all add: cursor_px_16_def cursor_px_16_swap_def)

section \<open>Properties\<close>

text \<open>Bytes per pixel with alpha at each colour depth, as the pixel format comments give them.\<close>

definition alpha_px_size :: "int \<Rightarrow> nat" where
  "alpha_px_size d = (if d = 1 \<or> d = 8 then 2 else if d = 16 then 3 else 4)"

lemma cursor_map_cases:
  assumes "macro_value env ''LV_COLOR_DEPTH'' = Some d" and "macro_value env ''LV_COLOR_16_SWAP'' = Some s"
  shows "cursor_map env = Some (
    (if d = 1 \<or> d = 8 then bytes_of 2 cursor_px_8 else []) @
    (if d = 16 \<and> s = 0 then bytes_of 3 cursor_px_16 else []) @
    (if d = 16 \<and> s \<noteq> 0 then bytes_of 3 cursor_px_16_swap else []) @
    (if d = 32 then bytes_of 4 cursor_px_32 else []))"
  using assms unfolding macro_value_def cursor_map_def cursor_blocks_def
  by (simp del: eval_pexp.simps(2))

text \<open>At every colour depth the library supports exactly one block of the initialiser is
  compiled, and the size the descriptor declares, width times height times the bytes of a pixel,
  is the number of bytes in the array.\<close>

theorem cursor_size_matches:
  assumes "macro_value env ''LV_COLOR_DEPTH'' = Some d" and "macro_value env ''LV_COLOR_16_SWAP'' = Some s"
    and "d = 1 \<or> d = 8 \<or> d = 16 \<or> d = 32"
  shows "\<exists>c. cursor (alpha_px_size d) env = Some c \<and> length (img_data c) = data_size c \<and>
    data_size c = img_w c * img_h c * alpha_px_size d \<and>
    img_data c \<in> {bytes_of 2 cursor_px_8, bytes_of 3 cursor_px_16, bytes_of 3 cursor_px_16_swap,
      bytes_of 4 cursor_px_32}"
  using assms(3) unfolding cursor_def cursor_map_cases [OF assms(1,2)]
  by (auto simp: alpha_px_size_def length_bytes_of cursor_px_length simp del: length_concat)

theorem cursor_size_matches_witness:
  "\<exists>c. cursor (alpha_px_size 16) [(''LV_COLOR_DEPTH'', MExp (PNum 16))] = Some c \<and>
    length (img_data c) = data_size c \<and> data_size c = img_w c * img_h c * alpha_px_size 16 \<and>
    img_data c \<in> {bytes_of 2 cursor_px_8, bytes_of 3 cursor_px_16, bytes_of 3 cursor_px_16_swap,
      bytes_of 4 cursor_px_32}"
  by (rule cursor_size_matches [where s = 0]) (simp_all add: macro_value_def)

text \<open>The variants show the same shape: pixel by pixel the alpha byte is the same at every
  colour depth, and the byte-swapped 16-bit variant has the two colour bytes of the other one
  exchanged.\<close>

theorem cursor_variants_agree:
  assumes "p < 1024"
  shows "bytes_of 2 cursor_px_8 ! (2 * p + 1) = bytes_of 4 cursor_px_32 ! (4 * p + 3) \<and>
    bytes_of 3 cursor_px_16 ! (3 * p + 2) = bytes_of 4 cursor_px_32 ! (4 * p + 3) \<and>
    bytes_of 3 cursor_px_16_swap ! (3 * p + 2) = bytes_of 4 cursor_px_32 ! (4 * p + 3) \<and>
    bytes_of 3 cursor_px_16_swap ! (3 * p) = bytes_of 3 cursor_px_16 ! (3 * p + 1) \<and>
    bytes_of 3 cursor_px_16_swap ! (3 * p + 1) = bytes_of 3 cursor_px_16 ! (3 * p)"
proof -
  have p: "p < length (concat cursor_px_8)" "p < length (concat cursor_px_16)"
    "p < length (concat cursor_px_16_swap)" "p < length (concat cursor_px_32)"
    using assms by (simp_all only: cursor_px_length)
  note a = cursor_alpha [THEN arg_cong [where f = "\<lambda>xs. xs ! p"]]
    cursor_swap [THEN arg_cong [where f = "\<lambda>xs. xs ! p"]]
  note eqs = a [unfolded nth_map [OF p(1)] nth_map [OF p(2)] nth_map [OF p(3)] nth_map [OF p(4)]]
  have first: "bytes_of k vs ! (k * p) = line k (concat vs ! p) ! 0"
    if "p < length (concat vs)" "0 < k" for k vs
    using nth_bytes_of [OF that] by simp
  have byte: "bytes_of k vs ! (k * p + j) = line k (concat vs ! p) ! j"
    if "p < length (concat vs)" "j < k" for k j vs
    using that by (rule nth_bytes_of)
  have small: "(1::nat) < 2" "(1::nat) < 3" "(2::nat) < 3" "(3::nat) < 4" "(0::nat) < 3" by simp_all
  show ?thesis
    unfolding first [OF p(2) small(5)] first [OF p(3) small(5)] byte [OF p(1) small(1)]
      byte [OF p(2) small(2)] byte [OF p(3) small(2)] byte [OF p(2) small(3)] byte [OF p(3) small(3)]
      byte [OF p(4) small(4)]
    by (simp add: line_2 line_3 line_4 eqs)
qed

theorem cursor_variants_agree_witness:
  "(7::nat) < 1024 \<and> bytes_of 2 cursor_px_8 ! (2 * 7 + 1) = bytes_of 4 cursor_px_32 ! (4 * 7 + 3)"
  using cursor_variants_agree [of 7] by simp

end
