(* ===== verification/Fonts_Header.thy ===== *)
theory Fonts_Header
  imports C_Preprocessor
begin

text \<open>
  The header \<open>fonts/fonts.h\<close>, which declares the fonts and the cursor to the bootloader. The
  declarations that survive preprocessing are collected by \<open>decls\<close>.
\<close>

section \<open>Surviving declarations\<close>

fun decl :: "directive \<Rightarrow> macros \<Rightarrow> string list"
  and decls :: "directive list \<Rightarrow> macros \<Rightarrow> string list" where
  "decl (Decl s) env = [s]"
| "decl (If c t e) env =
     (case eval_pexp [] env c of
        None \<Rightarrow> []
      | Some v \<Rightarrow> if v \<noteq> 0 then decls t env else decls e env)"
| "decl (Ifndef n t) env = (if map_of env n = None then decls t env else [])"
| "decl (Ifdef n t e) env = (if map_of env n = None then decls e env else decls t env)"
| "decl (Define _ _) env = []"
| "decl (Undef _) env = []"
| "decl (Include _) env = []"
| "decls [] env = []"
| "decls (d # ds) env =
     decl d env @ (case cpp d env of None \<Rightarrow> [] | Some env' \<Rightarrow> decls ds env')"

section \<open>The header\<close>

definition fonts_h :: "directive list" where
  "fonts_h =
   [Ifndef ''FONTS_QUICKSAND_256_H''
      [Define ''FONTS_QUICKSAND_256_H'' (MText []),
       Include ''lvgl/lvgl.h'',
       Ifdef ''__cplusplus'' [Decl (''extern '' @ [CHR 0x22] @ ''C'' @ [CHR 0x22] @ '' {'')] [],
       Decl ''extern lv_font_t quicksand_200;'',
       Decl ''extern lv_font_t open_sans_48;'',
       Decl ''extern lv_font_t sf_symbols_48;'',
       Decl ''extern lv_img_dsc_t cursor;'',
       Ifdef ''__cplusplus'' [Decl ''}''] []]]"

section \<open>Properties\<close>

text \<open>The first inclusion of the header in a C translation unit declares the three fonts and
  the cursor and nothing else, and every further inclusion declares nothing.\<close>

theorem fonts_h_declares:
  assumes "map_of env ''__cplusplus'' = None" and "map_of env ''FONTS_QUICKSAND_256_H'' = None"
  shows "decls (fonts_h @ fonts_h) env =
    [''extern lv_font_t quicksand_200;'', ''extern lv_font_t open_sans_48;'',
     ''extern lv_font_t sf_symbols_48;'', ''extern lv_img_dsc_t cursor;'']"
  using assms by (simp add: fonts_h_def)

theorem fonts_h_declares_witness:
  "decls (fonts_h @ fonts_h) [(''LV_COLOR_DEPTH'', MExp (PNum 32))] =
    [''extern lv_font_t quicksand_200;'', ''extern lv_font_t open_sans_48;'',
     ''extern lv_font_t sf_symbols_48;'', ''extern lv_img_dsc_t cursor;'']"
  by (rule fonts_h_declares) simp_all

end
