(* ===== verification/Font_Quicksand_256.thy ===== *)
theory Font_Quicksand_256
  imports Font_Format
begin

text \<open>
  The generated font \<open>fonts/quicksand_256.c\<close>: the space and the letters P, c, n, o, p and r, 4 bits per pixel. One definition per glyph block
  of the bitmap, then the descriptor table, the character map and
  the font record.
\<close>

section \<open>Font data\<close>

definition quicksand_256_glyph_0050_1 :: "u8 list" where
  "quicksand_256_glyph_0050_1 =
   lines
     [0x000000048abccccc, 0xcccccccccccccccc, 0xcccccccccccccccc, 0xcccccccccccccccc,
      0xcccccccbba986520, 0x0000000000000000, 0x0000000000000000, 0x000000000000005d,
      0xffffffffffffffff, 0xffffffffffffffff, 0xffffffffffffffff, 0xffffffffffffffff,
      0xfffffffffda62000, 0x0000000000000000, 0x0000000000000000, 0x000000afffffffff,
      0xffffffffffffffff, 0xffffffffffffffff, 0xffffffffffffffff, 0xffffffffffffffff,
      0xffffffe940000000, 0x0000000000000000, 0x00000000000000cf, 0xffffffffffffffff,
      0xffffffffffffffff, 0xffffffffffffffff, 0xffffffffffffffff, 0xffffffffffffffff,
      0xffe8200000000000, 0x0000000000000000, 0x0000009fffffffff, 0xffffffffffffffff,
      0xffffffffffffffff, 0xffffffffffffffff, 0xffffffffffffffff, 0xffffffffffffffb4,
      0x0000000000000000, 0x000000000000003f, 0xffffffffffffffff, 0xffffffffffffffff,
      0xffffffffffffffff, 0xffffffffffffffff, 0xffffffffffffffff, 0xfffffffffc300000,
      0x0000000000000000, 0x0000000bffffffff, 0xffffffffffffffff, 0xffffffffffffffff,
      0xffffffffffffffff, 0xffffffffffffffff, 0xffffffffffffffff, 0xffffb20000000000,
      0x0000000000000001, 0xffffffffffffffff, 0xffffffffffffffff, 0xffffffffffffffff,
      0xffffffffffffffff, 0xffffffffffffffff, 0xfffffffffffffff7, 0x0000000000000000,
      0x000000004fffffff, 0xffffffffffffffff, 0xffffffffffffffff, 0xffffffffffffffff,
      0xffffffffffffffff, 0xffffffffffffffff, 0xfffffffffd300000, 0x0000000000000000,
      0x06ffffffffffffff, 0xffffffffffffffff, 0xffffffffffffffff, 0xffffffffffffffff,
      0xffffffffffffffff, 0xffffffffffffffff, 0xffff700000000000, 0x00000000007fffff,
      0xffffffffffffffff, 0xffffffffffffffff, 0xffffffffffffffff, 0xffffffffffffffff,
      0xffffffffffffffff, 0xffffffffffffffa0, 0x0000000000000000, 0x0007ffffffffffff,
      0xffffffffffffffff, 0xffffffffffffffff, 0xffffffffffffffff, 0xffffffffffffffff,
      0xffffffffffffffff, 0xffffffffd2000000, 0x0000000000007fff, 0xffffffffffffffff,
      0xffffffffffffffff, 0xffffffffffffffff, 0xffffffffffffffff, 0xffffffffffffffff,
      0xffffffffffffffff, 0xffe3000000000000, 0x000007ffffffffff, 0xffffffffffffffff,
      0xffffffffffffffff, 0xffffffffffffffff, 0xffffffffffffffff, 0xffffffffffffffff,
      0xfffffffffffff300, 0x000000000000007f, 0xffffffffffffffff, 0xffffffffffffffff,
      0xffffffffffffffff, 0xffffffffffffffff, 0xffffffffffffffff, 0xffffffffffffffff,
      0xfffffff300000000, 0x00000007ffffffff, 0xffffffffffffffff, 0xffffffffffffffff,
      0xffffffffffffffff, 0xffffffffffffffff, 0xffffffffffffffff, 0xffffffffffffffff,
      0xf300000000000000, 0x7fffffffffffffff, 0xffffffffffffffff, 0xffffffffffffffff,
      0xffffffffffffffff, 0xffffffffffffffff, 0xffffffffffffffff, 0xffffffffffe20000,
      0x0000000007ffffff, 0xffffffffffffffff, 0xffffffffffffffff, 0xffffffffffffffff,
      0xffffffffffffffff, 0xffffffffffffffff, 0xffffffffffffffff, 0xffffd10000000000,
      0x007fffffffffffff, 0xffffffffffffffff, 0xffffffffffffffff, 0xffffffffffffffff,
      0xffffffffffffffff, 0xffffffffffffffff, 0xffffffffffffffb0, 0x000000000007ffff,
      0xffffffffffffffff, 0xffffffffffffffff, 0xffffffffffffffff, 0xffffffffffffffff,
      0xffffffffffffffff]"

definition quicksand_256_glyph_0050_2 :: "u8 list" where
  "quicksand_256_glyph_0050_2 =
   lines
     [0xffffffffffffffff, 0xffffffff80000000, 0x00007fffffffffff, 0xffffffff80000000,
      0x0000000000000000, 0x0000000000000000, 0x0000000000000246, 0x9dffffffffffffff,
      0xffffffffffffffff, 0xff400000000007ff, 0xffffffffffffffff, 0xf800000000000000,
      0x0000000000000000, 0x0000000000000000, 0x0000000000016cff, 0xffffffffffffffff,
      0xfffffffffffe0000, 0x0000007fffffffff, 0xffffffffff800000, 0x0000000000000000,
      0x0000000000000000, 0x0000000000000000, 0x00000003bfffffff, 0xffffffffffffffff,
      0xfffff90000000007, 0xffffffffffffffff, 0xfff8000000000000, 0x0000000000000000,
      0x0000000000000000, 0x0000000000000000, 0x003dffffffffffff, 0xfffffffffffffff3,
      0x000000007fffffff, 0xffffffffffff8000, 0x0000000000000000, 0x0000000000000000,
      0x0000000000000000, 0x00000000000007ff, 0xffffffffffffffff, 0xffffffffd0000000,
      0x07ffffffffffffff, 0xfffff80000000000, 0x0000000000000000, 0x0000000000000000,
      0x0000000000000000, 0x00000004efffffff, 0xffffffffffffffff, 0xff600000007fffff,
      0xffffffffffffff80, 0x0000000000000000, 0x0000000000000000, 0x0000000000000000,
      0x0000000000000000, 0x02dfffffffffffff, 0xfffffffffffe0000, 0x0007ffffffffffff,
      0xfffffff800000000, 0x0000000000000000, 0x0000000000000000, 0x0000000000000000,
      0x000000000001cfff, 0xffffffffffffffff, 0xfffff70000007fff, 0xffffffffffffffff,
      0x8000000000000000, 0x0000000000000000, 0x0000000000000000, 0x0000000000000000,
      0x000000cfffffffff, 0xffffffffffffffe0, 0x000007ffffffffff, 0xfffffffff8000000,
      0x0000000000000000, 0x0000000000000000, 0x0000000000000000, 0x0000000000000001,
      0xdfffffffffffffff, 0xffffffff6000007f, 0xffffffffffffffff, 0xff80000000000000,
      0x0000000000000000, 0x0000000000000000, 0x0000000000000000, 0x0000000002ffffff,
      0xffffffffffffffff, 0xfd000007ffffffff, 0xfffffffffff80000, 0x0000000000000000,
      0x0000000000000000, 0x0000000000000000, 0x0000000000000000, 0x0005ffffffffffff,
      0xfffffffffff40000, 0x7fffffffffffffff, 0xffff800000000000, 0x0000000000000000,
      0x0000000000000000, 0x0000000000000000, 0x0000000000000aff, 0xffffffffffffffff,
      0xffffa00007ffffff, 0xfffffffffffff800, 0x0000000000000000, 0x0000000000000000,
      0x0000000000000000, 0x0000000000000000, 0x0000001effffffff, 0xffffffffffffff10,
      0x007fffffffffffff, 0xffffff8000000000, 0x0000000000000000, 0x0000000000000000,
      0x0000000000000000, 0x0000000000000000, 0x5fffffffffffffff, 0xfffffff60007ffff,
      0xfffffffffffffff8, 0x0000000000000000, 0x0000000000000000, 0x0000000000000000,
      0x0000000000000000, 0x0000000000cfffff, 0xffffffffffffffff, 0xb0007fffffffffff,
      0xffffffff80000000, 0x0000000000000000, 0x0000000000000000, 0x0000000000000000,
      0x0000000000000000, 0x0003ffffffffffff, 0xffffffffff0007ff, 0xffffffffffffffff,
      0xf800000000000000, 0x0000000000000000, 0x0000000000000000, 0x0000000000000000,
      0x0000000000000cff, 0xffffffffffffffff, 0xfff4007fffffffff, 0xffffffffff800000,
      0x0000000000000000, 0x0000000000000000, 0x0000000000000000, 0x0000000000000000,
      0x0000004fffffffff, 0xffffffffffff8007, 0xffffffffffffffff, 0xfff8000000000000,
      0x0000000000000000, 0x0000000000000000]"

definition quicksand_256_glyph_0050_3 :: "u8 list" where
  "quicksand_256_glyph_0050_3 =
   lines
     [0x0000000000000000, 0x0000000000000000, 0xefffffffffffffff, 0xfffffc007fffffff,
      0xffffffffffff8000, 0x0000000000000000, 0x0000000000000000, 0x0000000000000000,
      0x0000000000000000, 0x0000000008ffffff, 0xfffffffffffffff0, 0x07ffffffffffffff,
      0xfffff80000000000, 0x0000000000000000, 0x0000000000000000, 0x0000000000000000,
      0x0000000000000000, 0x003fffffffffffff, 0xffffffff307fffff, 0xffffffffffffff80,
      0x0000000000000000, 0x0000000000000000, 0x0000000000000000, 0x0000000000000000,
      0x000000000000efff, 0xffffffffffffffff, 0xf607ffffffffffff, 0xfffffff800000000,
      0x0000000000000000, 0x0000000000000000, 0x0000000000000000, 0x0000000000000000,
      0x00000affffffffff, 0xffffffffff907fff, 0xffffffffffffffff, 0x8000000000000000,
      0x0000000000000000, 0x0000000000000000, 0x0000000000000000, 0x000000000000006f,
      0xffffffffffffffff, 0xfffb07ffffffffff, 0xfffffffff8000000, 0x0000000000000000,
      0x0000000000000000, 0x0000000000000000, 0x0000000000000000, 0x00000002ffffffff,
      0xffffffffffffd07f, 0xffffffffffffffff, 0xff80000000000000, 0x0000000000000000,
      0x0000000000000000, 0x0000000000000000, 0x0000000000000000, 0x0fffffffffffffff,
      0xffffff07ffffffff, 0xfffffffffff80000, 0x0000000000000000, 0x0000000000000000,
      0x0000000000000000, 0x0000000000000000, 0x0000000000dfffff, 0xfffffffffffffff0,
      0x7fffffffffffffff, 0xffff800000000000, 0x0000000000000000, 0x0000000000000000,
      0x0000000000000000, 0x0000000000000000, 0x000bffffffffffff, 0xffffffff27ffffff,
      0xfffffffffffff800, 0x0000000000000000, 0x0000000000000000, 0x0000000000000000,
      0x0000000000000000, 0x0000000000009fff, 0xffffffffffffffff, 0xf37fffffffffffff,
      0xffffff8000000000, 0x0000000000000000, 0x0000000000000000, 0x0000000000000000,
      0x0000000000000000, 0x000008ffffffffff, 0xffffffffff47ffff, 0xfffffffffffffff8,
      0x0000000000000000, 0x0000000000000000, 0x0000000000000000, 0x0000000000000000,
      0x000000000000007f, 0xffffffffffffffff, 0xfff47fffffffffff, 0xffffffff80000000,
      0x0000000000000000, 0x0000000000000000, 0x0000000000000000, 0x0000000000000000,
      0x00000007ffffffff, 0xffffffffffff57ff, 0xffffffffffffffff, 0xf800000000000000,
      0x0000000000000000, 0x0000000000000000, 0x0000000000000000, 0x0000000000000000,
      0x6fffffffffffffff, 0xfffff57fffffffff, 0xffffffffff800000, 0x0000000000000000,
      0x0000000000000000, 0x0000000000000000, 0x0000000000000000, 0x0000000006ffffff,
      0xffffffffffffff57, 0xffffffffffffffff, 0xfff8000000000000, 0x0000000000000000,
      0x0000000000000000, 0x0000000000000000, 0x0000000000000000, 0x007fffffffffffff,
      0xfffffff57fffffff, 0xffffffffffff8000, 0x0000000000000000, 0x0000000000000000,
      0x0000000000000000, 0x0000000000000000, 0x000000000008ffff, 0xffffffffffffffff,
      0x47ffffffffffffff, 0xfffff80000000000, 0x0000000000000000, 0x0000000000000000,
      0x0000000000000000, 0x0000000000000000, 0x00009fffffffffff, 0xfffffffff37fffff,
      0xffffffffffffff80, 0x0000000000000000, 0x0000000000000000, 0x0000000000000000,
      0x0000000000000000, 0x0000000000000aff, 0xffffffffffffffff, 0xff27ffffffffffff,
      0xfffffff800000000, 0x0000000000000000]"

definition quicksand_256_glyph_0050_4 :: "u8 list" where
  "quicksand_256_glyph_0050_4 =
   lines
     [0x0000000000000000, 0x0000000000000000, 0x0000000000000000, 0x000000dfffffffff,
      0xfffffffffff17fff, 0xffffffffffffffff, 0x8000000000000000, 0x0000000000000000,
      0x0000000000000000, 0x0000000000000000, 0x000000000000000f, 0xffffffffffffffff,
      0xffff07ffffffffff, 0xfffffffff8000000, 0x0000000000000000, 0x0000000000000000,
      0x0000000000000000, 0x0000000000000000, 0x00000002ffffffff, 0xffffffffffffe07f,
      0xffffffffffffffff, 0xff80000000000000, 0x0000000000000000, 0x0000000000000000,
      0x0000000000000000, 0x0000000000000000, 0x5fffffffffffffff, 0xfffffc07ffffffff,
      0xfffffffffff80000, 0x0000000000000000, 0x0000000000000000, 0x0000000000000000,
      0x0000000000000000, 0x0000000009ffffff, 0xffffffffffffff90, 0x7fffffffffffffff,
      0xffff800000000000, 0x0000000000000000, 0x0000000000000000, 0x0000000000000000,
      0x0000000000000000, 0x00dfffffffffffff, 0xfffffff707ffffff, 0xfffffffffffff800,
      0x0000000000000000, 0x0000000000000000, 0x0000000000000000, 0x0000000000000000,
      0x00000000001fffff, 0xffffffffffffffff, 0x407fffffffffffff, 0xffffff8000000000,
      0x0000000000000000, 0x0000000000000000, 0x0000000000000000, 0x0000000000000000,
      0x0006ffffffffffff, 0xfffffffff107ffff, 0xfffffffffffffff8, 0x0000000000000000,
      0x0000000000000000, 0x0000000000000000, 0x0000000000000000, 0x000000000000cfff,
      0xffffffffffffffff, 0xfd007fffffffffff, 0xffffffff80000000, 0x0000000000000000,
      0x0000000000000000, 0x0000000000000000, 0x0000000000000000, 0x00002fffffffffff,
      0xffffffffffa007ff, 0xffffffffffffffff, 0xf800000000000000, 0x0000000000000000,
      0x0000000000000000, 0x0000000000000000, 0x00000000000009ff, 0xffffffffffffffff,
      0xfff6007fffffffff, 0xffffffffff800000, 0x0000000000000000, 0x0000000000000000,
      0x0000000000000000, 0x0000000000000000, 0x000001ffffffffff, 0xffffffffffff1007,
      0xffffffffffffffff, 0xfff8000000000000, 0x0000000000000000, 0x0000000000000000,
      0x0000000000000000, 0x000000000000008f, 0xffffffffffffffff, 0xffffd0007fffffff,
      0xffffffffffff8000, 0x0000000000000000, 0x0000000000000000, 0x0000000000000000,
      0x0000000000000000, 0x0000001fffffffff, 0xfffffffffffff800, 0x07ffffffffffffff,
      0xfffff80000000000, 0x0000000000000000, 0x0000000000000000, 0x0000000000000000,
      0x0000000000000009, 0xffffffffffffffff, 0xffffff20007fffff, 0xffffffffffffff80,
      0x0000000000000000, 0x0000000000000000, 0x0000000000000000, 0x0000000000000000,
      0x00000002ffffffff, 0xffffffffffffffd0, 0x0007ffffffffffff, 0xfffffff800000000,
      0x0000000000000000, 0x0000000000000000, 0x0000000000000000, 0x0000000000000000,
      0xcfffffffffffffff, 0xfffffff600007fff, 0xffffffffffffffff, 0x8000000000000000,
      0x0000000000000000, 0x0000000000000000, 0x0000000000000000, 0x000000007fffffff,
      0xffffffffffffffff, 0x100007ffffffffff, 0xfffffffff8000000, 0x0000000000000000,
      0x0000000000000000, 0x0000000000000000, 0x0000000000000000, 0x3fffffffffffffff,
      0xffffffff9000007f, 0xffffffffffffffff, 0xff80000000000000, 0x0000000000000000,
      0x0000000000000000, 0x0000000000000000, 0x000000001effffff, 0xffffffffffffffff,
      0xf2000007ffffffff, 0xfffffffffff80000]"

definition quicksand_256_glyph_0050_5 :: "u8 list" where
  "quicksand_256_glyph_0050_5 =
   lines
     [0x0000000000000000, 0x0000000000000000, 0x0000000000000000, 0x0000000000000000,
      0x1dffffffffffffff, 0xfffffffffb000000, 0x7fffffffffffffff, 0xffff800000000000,
      0x0000000000000000, 0x0000000000000000, 0x0000000000000000, 0x000000000cffffff,
      0xffffffffffffffff, 0xff30000007ffffff, 0xfffffffffffff800, 0x0000000000000000,
      0x0000000000000000, 0x0000000000000000, 0x0000000000000000, 0x1cffffffffffffff,
      0xffffffffffa00000, 0x007fffffffffffff, 0xffffff8000000000, 0x0000000000000000,
      0x0000000000000000, 0x0000000000000000, 0x000000002dffffff, 0xffffffffffffffff,
      0xfff200000007ffff, 0xfffffffffffffff8, 0x0000000000000000, 0x0000000000000000,
      0x0000000000000000, 0x0000000000000000, 0x6fffffffffffffff, 0xfffffffffff80000,
      0x00007fffffffffff, 0xffffffff80000000, 0x0000000000000000, 0x0000000000000000,
      0x0000000000000000, 0x00000001bfffffff, 0xffffffffffffffff, 0xfffe0000000007ff,
      0xffffffffffffffff, 0xf800000000000000, 0x0000000000000000, 0x0000000000000000,
      0x0000000000000018, 0xffffffffffffffff, 0xffffffffffff5000, 0x0000007fffffffff,
      0xffffffffff800000, 0x0000000000000000, 0x0000000000000000, 0x0000000000000000,
      0x0000039fffffffff, 0xffffffffffffffff, 0xffffa00000000007, 0xffffffffffffffff,
      0xfff8000000000000, 0x0000000000000000, 0x0000000000000000, 0x0000000000259eff,
      0xffffffffffffffff, 0xffffffffffffe100, 0x000000007fffffff, 0xffffffffffffeccc,
      0xcccccccccccccccc, 0xcccccccccccccccc, 0xcccccccccccccccc, 0xceffffffffffffff,
      0xffffffffffffffff, 0xfffff40000000000, 0x07ffffffffffffff, 0xffffffffffffffff,
      0xffffffffffffffff, 0xffffffffffffffff, 0xffffffffffffffff, 0xffffffffffffffff,
      0xfffffffffffff700, 0x00000000007fffff, 0xffffffffffffffff, 0xffffffffffffffff,
      0xffffffffffffffff, 0xffffffffffffffff, 0xffffffffffffffff, 0xffffffffffffffff,
      0xfffffa0000000000, 0x0007ffffffffffff, 0xffffffffffffffff, 0xffffffffffffffff,
      0xffffffffffffffff, 0xffffffffffffffff, 0xffffffffffffffff, 0xfffffffffffffc00,
      0x0000000000007fff, 0xffffffffffffffff, 0xffffffffffffffff, 0xffffffffffffffff,
      0xffffffffffffffff, 0xffffffffffffffff, 0xffffffffffffffff, 0xfffffd1000000000,
      0x000007ffffffffff, 0xffffffffffffffff, 0xffffffffffffffff, 0xffffffffffffffff,
      0xffffffffffffffff, 0xffffffffffffffff, 0xfffffffffffffd10, 0x000000000000007f,
      0xffffffffffffffff, 0xffffffffffffffff, 0xffffffffffffffff, 0xffffffffffffffff,
      0xffffffffffffffff, 0xffffffffffffffff, 0xfffffd1000000000, 0x00000007ffffffff,
      0xffffffffffffffff, 0xffffffffffffffff, 0xffffffffffffffff, 0xffffffffffffffff,
      0xffffffffffffffff, 0xfffffffffffffd10, 0x0000000000000000, 0x7fffffffffffffff,
      0xffffffffffffffff, 0xffffffffffffffff, 0xffffffffffffffff, 0xffffffffffffffff,
      0xffffffffffffffff, 0xfffffb1000000000, 0x0000000007ffffff, 0xffffffffffffffff,
      0xffffffffffffffff, 0xffffffffffffffff, 0xffffffffffffffff, 0xffffffffffffffff,
      0xfffffffffffff900, 0x0000000000000000, 0x007fffffffffffff, 0xffffffffffffffff,
      0xffffffffffffffff, 0xffffffffffffffff, 0xffffffffffffffff, 0xffffffffffffffff,
      0xfffff50000000000, 0x000000000007ffff]"

definition quicksand_256_glyph_0050_6 :: "u8 list" where
  "quicksand_256_glyph_0050_6 =
   lines
     [0xffffffffffffffff, 0xffffffffffffffff, 0xffffffffffffffff, 0xffffffffffffffff,
      0xffffffffffffffff, 0xffffffffffffc200, 0x0000000000000000, 0x00007fffffffffff,
      0xffffffffffffffff, 0xffffffffffffffff, 0xffffffffffffffff, 0xffffffffffffffff,
      0xffffffffffffffff, 0xffff700000000000, 0x00000000000007ff, 0xffffffffffffffff,
      0xffffffffffffffff, 0xffffffffffffffff, 0xffffffffffffffff, 0xffffffffffffffff,
      0xfffffffffffb2000, 0x0000000000000000, 0x0000007fffffffff, 0xffffffffffffffff,
      0xffffffffffffffff, 0xffffffffffffffff, 0xffffffffffffffff, 0xffffffffffffffff,
      0xffd4000000000000, 0x0000000000000007, 0xffffffffffffffff, 0xffffffffffffffff,
      0xffffffffffffffff, 0xffffffffffffffff, 0xffffffffffffffff, 0xfffffffffd500000,
      0x0000000000000000, 0x000000007fffffff, 0xffffffffffffffff, 0xffffffffffffffff,
      0xffffffffffffffff, 0xffffffffffffffff, 0xffffffffffffffff, 0xa400000000000000,
      0x0000000000000000, 0x07ffffffffffffff, 0xffffffffffffffff, 0xffffffffffffffff,
      0xffffffffffffffff, 0xffffffffffffffff, 0xffffffc610000000, 0x0000000000000000,
      0x00000000007fffff, 0xffffffffffffffff, 0xffffffffffffffff, 0xffffffffffffffff,
      0xffffffffffffffff, 0xfffffffffffd9510, 0x0000000000000000, 0x0000000000000000,
      0x0007ffffffffffff, 0xffffffffffffffff, 0xffffffffffffffff, 0xffffffffffffffff,
      0xffffffffffffedca, 0x8630000000000000, 0x0000000000000000, 0x0000000000007fff,
      0xffffffffffffffff, 0x8000000000000000, 0x0000000000000000, 0x0000000000000000,
      0x0000000000000000, 0x0000000000000000, 0x0000000000000000, 0x000007ffffffffff,
      0xfffffffff8000000, 0x0000000000000000, 0x0000000000000000, 0x0000000000000000,
      0x0000000000000000, 0x0000000000000000, 0x000000000000007f, 0xffffffffffffffff,
      0xff80000000000000, 0x0000000000000000, 0x0000000000000000, 0x0000000000000000,
      0x0000000000000000, 0x0000000000000000, 0x00000007ffffffff, 0xfffffffffff80000,
      0x0000000000000000, 0x0000000000000000, 0x0000000000000000, 0x0000000000000000,
      0x0000000000000000, 0x0000000000000000, 0x7fffffffffffffff, 0xffff800000000000,
      0x0000000000000000, 0x0000000000000000, 0x0000000000000000, 0x0000000000000000,
      0x0000000000000000, 0x0000000007ffffff, 0xfffffffffffff800, 0x0000000000000000,
      0x0000000000000000, 0x0000000000000000, 0x0000000000000000, 0x0000000000000000,
      0x0000000000000000, 0x007fffffffffffff, 0xffffff8000000000, 0x0000000000000000,
      0x0000000000000000, 0x0000000000000000, 0x0000000000000000, 0x0000000000000000,
      0x000000000007ffff, 0xfffffffffffffff8, 0x0000000000000000, 0x0000000000000000,
      0x0000000000000000, 0x0000000000000000, 0x0000000000000000, 0x0000000000000000,
      0x00007fffffffffff, 0xffffffff80000000, 0x0000000000000000, 0x0000000000000000,
      0x0000000000000000, 0x0000000000000000, 0x0000000000000000, 0x00000000000007ff,
      0xffffffffffffffff, 0xf800000000000000, 0x0000000000000000, 0x0000000000000000,
      0x0000000000000000, 0x0000000000000000, 0x0000000000000000, 0x0000007fffffffff,
      0xffffffffff800000, 0x0000000000000000, 0x0000000000000000, 0x0000000000000000,
      0x0000000000000000, 0x0000000000000000]"

definition quicksand_256_glyph_0050_7 :: "u8 list" where
  "quicksand_256_glyph_0050_7 =
   lines
     [0x0000000000000007, 0xffffffffffffffff, 0xfff8000000000000, 0x0000000000000000,
      0x0000000000000000, 0x0000000000000000, 0x0000000000000000, 0x0000000000000000,
      0x000000007fffffff, 0xffffffffffff8000, 0x0000000000000000, 0x0000000000000000,
      0x0000000000000000, 0x0000000000000000, 0x0000000000000000, 0x0000000000000000,
      0x07ffffffffffffff, 0xfffff80000000000, 0x0000000000000000, 0x0000000000000000,
      0x0000000000000000, 0x0000000000000000, 0x0000000000000000, 0x00000000007fffff,
      0xffffffffffffff80, 0x0000000000000000, 0x0000000000000000, 0x0000000000000000,
      0x0000000000000000, 0x0000000000000000, 0x0000000000000000, 0x0007ffffffffffff,
      0xfffffff800000000, 0x0000000000000000, 0x0000000000000000, 0x0000000000000000,
      0x0000000000000000, 0x0000000000000000, 0x0000000000007fff, 0xffffffffffffffff,
      0x8000000000000000, 0x0000000000000000, 0x0000000000000000, 0x0000000000000000,
      0x0000000000000000, 0x0000000000000000, 0x000007ffffffffff, 0xfffffffff8000000,
      0x0000000000000000, 0x0000000000000000, 0x0000000000000000, 0x0000000000000000,
      0x0000000000000000, 0x000000000000007f, 0xffffffffffffffff, 0xff80000000000000,
      0x0000000000000000, 0x0000000000000000, 0x0000000000000000, 0x0000000000000000,
      0x0000000000000000, 0x00000007ffffffff, 0xfffffffffff80000, 0x0000000000000000,
      0x0000000000000000, 0x0000000000000000, 0x0000000000000000, 0x0000000000000000,
      0x0000000000000000, 0x7fffffffffffffff, 0xffff800000000000, 0x0000000000000000,
      0x0000000000000000, 0x0000000000000000, 0x0000000000000000, 0x0000000000000000,
      0x0000000007ffffff, 0xfffffffffffff800, 0x0000000000000000, 0x0000000000000000,
      0x0000000000000000, 0x0000000000000000, 0x0000000000000000, 0x0000000000000000,
      0x007fffffffffffff, 0xffffff8000000000, 0x0000000000000000, 0x0000000000000000,
      0x0000000000000000, 0x0000000000000000, 0x0000000000000000, 0x000000000007ffff,
      0xfffffffffffffff8, 0x0000000000000000, 0x0000000000000000, 0x0000000000000000,
      0x0000000000000000, 0x0000000000000000, 0x0000000000000000, 0x00007fffffffffff,
      0xffffffff80000000, 0x0000000000000000, 0x0000000000000000, 0x0000000000000000,
      0x0000000000000000, 0x0000000000000000, 0x00000000000007ff, 0xffffffffffffffff,
      0xf800000000000000, 0x0000000000000000, 0x0000000000000000, 0x0000000000000000,
      0x0000000000000000, 0x0000000000000000, 0x0000007fffffffff, 0xffffffffff800000,
      0x0000000000000000, 0x0000000000000000, 0x0000000000000000, 0x0000000000000000,
      0x0000000000000000, 0x0000000000000007, 0xffffffffffffffff, 0xfff8000000000000,
      0x0000000000000000, 0x0000000000000000, 0x0000000000000000, 0x0000000000000000,
      0x0000000000000000, 0x000000007fffffff, 0xffffffffffff8000, 0x0000000000000000,
      0x0000000000000000, 0x0000000000000000, 0x0000000000000000, 0x0000000000000000,
      0x0000000000000000, 0x07ffffffffffffff, 0xfffff80000000000, 0x0000000000000000,
      0x0000000000000000, 0x0000000000000000, 0x0000000000000000, 0x0000000000000000,
      0x00000000007fffff, 0xffffffffffffff80, 0x0000000000000000, 0x0000000000000000,
      0x0000000000000000, 0x0000000000000000]"

definition quicksand_256_glyph_0050_8 :: "u8 list" where
  "quicksand_256_glyph_0050_8 =
   lines
     [0x0000000000000000, 0x0000000000000000, 0x0007ffffffffffff, 0xfffffff800000000,
      0x0000000000000000, 0x0000000000000000, 0x0000000000000000, 0x0000000000000000,
      0x0000000000000000, 0x0000000000007fff, 0xffffffffffffffff, 0x8000000000000000,
      0x0000000000000000, 0x0000000000000000, 0x0000000000000000, 0x0000000000000000,
      0x0000000000000000, 0x000007ffffffffff, 0xfffffffff8000000, 0x0000000000000000,
      0x0000000000000000, 0x0000000000000000, 0x0000000000000000, 0x0000000000000000,
      0x000000000000007f, 0xffffffffffffffff, 0xff80000000000000, 0x0000000000000000,
      0x0000000000000000, 0x0000000000000000, 0x0000000000000000, 0x0000000000000000,
      0x00000007ffffffff, 0xfffffffffff80000, 0x0000000000000000, 0x0000000000000000,
      0x0000000000000000, 0x0000000000000000, 0x0000000000000000, 0x0000000000000000,
      0x7fffffffffffffff, 0xffff800000000000, 0x0000000000000000, 0x0000000000000000,
      0x0000000000000000, 0x0000000000000000, 0x0000000000000000, 0x0000000007ffffff,
      0xfffffffffffff800, 0x0000000000000000, 0x0000000000000000, 0x0000000000000000,
      0x0000000000000000, 0x0000000000000000, 0x0000000000000000, 0x007fffffffffffff,
      0xffffff8000000000, 0x0000000000000000, 0x0000000000000000, 0x0000000000000000,
      0x0000000000000000, 0x0000000000000000, 0x000000000007ffff, 0xfffffffffffffff8,
      0x0000000000000000, 0x0000000000000000, 0x0000000000000000, 0x0000000000000000,
      0x0000000000000000, 0x0000000000000000, 0x00007fffffffffff, 0xffffffff80000000,
      0x0000000000000000, 0x0000000000000000, 0x0000000000000000, 0x0000000000000000,
      0x0000000000000000, 0x00000000000007ff, 0xffffffffffffffff, 0xf800000000000000,
      0x0000000000000000, 0x0000000000000000, 0x0000000000000000, 0x0000000000000000,
      0x0000000000000000, 0x0000007fffffffff, 0xffffffffff800000, 0x0000000000000000,
      0x0000000000000000, 0x0000000000000000, 0x0000000000000000, 0x0000000000000000,
      0x0000000000000007, 0xffffffffffffffff, 0xfff8000000000000, 0x0000000000000000,
      0x0000000000000000, 0x0000000000000000, 0x0000000000000000, 0x0000000000000000,
      0x000000007fffffff, 0xffffffffffff8000, 0x0000000000000000, 0x0000000000000000,
      0x0000000000000000, 0x0000000000000000, 0x0000000000000000, 0x0000000000000000,
      0x07ffffffffffffff, 0xfffff80000000000, 0x0000000000000000, 0x0000000000000000,
      0x0000000000000000, 0x0000000000000000, 0x0000000000000000, 0x00000000007fffff,
      0xffffffffffffff80, 0x0000000000000000, 0x0000000000000000, 0x0000000000000000,
      0x0000000000000000, 0x0000000000000000, 0x0000000000000000, 0x0007ffffffffffff,
      0xfffffff800000000, 0x0000000000000000, 0x0000000000000000, 0x0000000000000000,
      0x0000000000000000, 0x0000000000000000, 0x0000000000007fff, 0xffffffffffffffff,
      0x8000000000000000, 0x0000000000000000, 0x0000000000000000, 0x0000000000000000,
      0x0000000000000000, 0x0000000000000000, 0x000007ffffffffff, 0xfffffffff8000000,
      0x0000000000000000, 0x0000000000000000, 0x0000000000000000, 0x0000000000000000,
      0x0000000000000000, 0x000000000000007f, 0xffffffffffffffff, 0xff80000000000000,
      0x0000000000000000, 0x0000000000000000]"

definition quicksand_256_glyph_0050_9 :: "u8 list" where
  "quicksand_256_glyph_0050_9 =
   lines
     [0x0000000000000000, 0x0000000000000000, 0x0000000000000000, 0x00000007ffffffff,
      0xfffffffffff80000, 0x0000000000000000, 0x0000000000000000, 0x0000000000000000,
      0x0000000000000000, 0x0000000000000000, 0x0000000000000000, 0x7fffffffffffffff,
      0xffff800000000000, 0x0000000000000000, 0x0000000000000000, 0x0000000000000000,
      0x0000000000000000, 0x0000000000000000, 0x0000000007ffffff, 0xfffffffffffff800,
      0x0000000000000000, 0x0000000000000000, 0x0000000000000000, 0x0000000000000000,
      0x0000000000000000, 0x0000000000000000, 0x007fffffffffffff, 0xffffff8000000000,
      0x0000000000000000, 0x0000000000000000, 0x0000000000000000, 0x0000000000000000,
      0x0000000000000000, 0x000000000007ffff, 0xfffffffffffffff8, 0x0000000000000000,
      0x0000000000000000, 0x0000000000000000, 0x0000000000000000, 0x0000000000000000,
      0x0000000000000000, 0x00007fffffffffff, 0xffffffff80000000, 0x0000000000000000,
      0x0000000000000000, 0x0000000000000000, 0x0000000000000000, 0x0000000000000000,
      0x00000000000007ff, 0xffffffffffffffff, 0xf800000000000000, 0x0000000000000000,
      0x0000000000000000, 0x0000000000000000, 0x0000000000000000, 0x0000000000000000,
      0x0000007fffffffff, 0xffffffffff800000, 0x0000000000000000, 0x0000000000000000,
      0x0000000000000000, 0x0000000000000000, 0x0000000000000000, 0x0000000000000007,
      0xffffffffffffffff, 0xfff8000000000000, 0x0000000000000000, 0x0000000000000000,
      0x0000000000000000, 0x0000000000000000, 0x0000000000000000, 0x000000007fffffff,
      0xffffffffffff8000, 0x0000000000000000, 0x0000000000000000, 0x0000000000000000,
      0x0000000000000000, 0x0000000000000000, 0x0000000000000000, 0x07ffffffffffffff,
      0xfffff70000000000, 0x0000000000000000, 0x0000000000000000, 0x0000000000000000,
      0x0000000000000000, 0x0000000000000000, 0x00000000006fffff, 0xffffffffffffff70,
      0x0000000000000000, 0x0000000000000000, 0x0000000000000000, 0x0000000000000000,
      0x0000000000000000, 0x0000000000000000, 0x0004ffffffffffff, 0xfffffff500000000,
      0x0000000000000000, 0x0000000000000000, 0x0000000000000000, 0x0000000000000000,
      0x0000000000000000, 0x0000000000001fff, 0xffffffffffffffff, 0x1000000000000000,
      0x0000000000000000, 0x0000000000000000, 0x0000000000000000, 0x0000000000000000,
      0x0000000000000000, 0x000000cfffffffff, 0xffffffffc0000000, 0x0000000000000000,
      0x0000000000000000, 0x0000000000000000, 0x0000000000000000, 0x0000000000000000,
      0x0000000000000005, 0xffffffffffffffff, 0xf500000000000000, 0x0000000000000000,
      0x0000000000000000, 0x0000000000000000, 0x0000000000000000, 0x0000000000000000,
      0x000000000cffffff, 0xfffffffffc000000, 0x0000000000000000, 0x0000000000000000,
      0x0000000000000000, 0x0000000000000000, 0x0000000000000000, 0x0000000000000000,
      0x002fffffffffffff, 0xfe10000000000000, 0x0000000000000000, 0x0000000000000000,
      0x0000000000000000, 0x0000000000000000, 0x0000000000000000, 0x0000000000004fff,
      0xfffffffffe200000, 0x0000000000000000, 0x0000000000000000, 0x0000000000000000,
      0x0000000000000000, 0x0000000000000000, 0x0000000000000000, 0x0000002cffffffff,
      0xfb10000000000000, 0x0000000000000000]"

definition quicksand_256_glyph_0050_10 :: "u8 list" where
  "quicksand_256_glyph_0050_10 =
   lines
     [0x0000000000000000, 0x0000000000000000, 0x0000000000000000, 0x0000000000000000,
      0x0000000000000000, 0x049dfffd93000000, 0x0000000000000000, 0x0000000000000000,
      0x0000000000000000, 0x0000000000000000, 0x0000000000000000, 0x0000000000000000] @
   line 2 0x0000"

definition quicksand_256_glyph_0050 :: "u8 list" where
  "quicksand_256_glyph_0050 = quicksand_256_glyph_0050_1 @ quicksand_256_glyph_0050_2 @ quicksand_256_glyph_0050_3 @ quicksand_256_glyph_0050_4 @ quicksand_256_glyph_0050_5 @ quicksand_256_glyph_0050_6 @ quicksand_256_glyph_0050_7 @ quicksand_256_glyph_0050_8 @ quicksand_256_glyph_0050_9 @ quicksand_256_glyph_0050_10"

definition quicksand_256_glyph_0063_1 :: "u8 list" where
  "quicksand_256_glyph_0063_1 =
   lines
     [0x0000000000000000, 0x0000000000000000, 0x0000000000000000, 0x00000002578abdee,
      0xfffffffedcba9754, 0x1000000000000000, 0x0000000000000000, 0x0000000000000000,
      0x0000000000000000, 0x0000000000000000, 0x000037adffffffff, 0xffffffffffffffff,
      0xffffda7410000000, 0x0000000000000000, 0x0000000000000000, 0x0000000000000000,
      0x0000000000000000, 0x0027bfffffffffff, 0xffffffffffffffff, 0xfffffffffffda620,
      0x0000000000000000, 0x0000000000000000, 0x0000000000000000, 0x0000000000000000,
      0x028dffffffffffff, 0xffffffffffffffff, 0xffffffffffffffff, 0xfd83000000000000,
      0x0000000000000000, 0x0000000000000000, 0x0000000000000000, 0x06cfffffffffffff,
      0xffffffffffffffff, 0xffffffffffffffff, 0xffffffe930000000, 0x0000000000000000,
      0x0000000000000000, 0x0000000000000000, 0x18ffffffffffffff, 0xffffffffffffffff,
      0xffffffffffffffff, 0xfffffffffffc6000, 0x0000000000000000, 0x0000000000000000,
      0x0000000000000000, 0x2affffffffffffff, 0xffffffffffffffff, 0xffffffffffffffff,
      0xfffffffffffffffe, 0x7000000000000000, 0x0000000000000000, 0x0000000000000000,
      0x19ffffffffffffff, 0xffffffffffffffff, 0xffffffffffffffff, 0xffffffffffffffff,
      0xfffe700000000000, 0x0000000000000000, 0x0000000000000000, 0x07ffffffffffffff,
      0xffffffffffffffff, 0xffffffffffffffff, 0xffffffffffffffff, 0xfffffffd30000000,
      0x0000000000000000, 0x0000000000000000, 0x03dfffffffffffff, 0xffffffffffffffff,
      0xffffffffffffffff, 0xffffffffffffffff, 0xfffffffffff90000, 0x0000000000000000,
      0x0000000000000000, 0x009fffffffffffff, 0xffffffffffffffff, 0xffffffffffffffff,
      0xffffffffffffffff, 0xffffffffffffffd2, 0x0000000000000000, 0x0000000000000000,
      0x003dffffffffffff, 0xffffffffffffffff, 0xffffffffffffffff, 0xffffffffffffffff,
      0xffffffffffffffff, 0xfe30000000000000, 0x0000000000000000, 0x0007ffffffffffff,
      0xffffffffffffffff, 0xffffffffffffffff, 0xffffffffffffffff, 0xffffffffffffffff,
      0xfffff30000000000, 0x0000000000000000, 0x0000afffffffffff, 0xffffffffffffffff,
      0xffffffffffffffff, 0xffffffffffffffff, 0xffffffffffffffff, 0xfffffffe20000000,
      0x0000000000000000, 0x00002dffffffffff, 0xffffffffffffffff, 0xffffffffffffffff,
      0xffffffffffffffff, 0xffffffffffffffff, 0xffffffffffc00000, 0x0000000000000000,
      0x000003efffffffff, 0xffffffffffffffff, 0xffffffffffffffff, 0xffffffffffffffff,
      0xffffffffffffffff, 0xfffffffffffff700, 0x0000000000000000, 0x0000004fffffffff,
      0xffffffffffffffff, 0xffffffffffffffff, 0xffffffffffffffff, 0xffffffffffffffff,
      0xffffffffffffffff, 0x0000000000000000, 0x00000005ffffffff, 0xffffffffffffffff,
      0xffffffffffffffff, 0xffffffffffffffff, 0xffffffffffffffff, 0xffffffffffffffff,
      0xff60000000000000, 0x000000005fffffff, 0xffffffffffffffff, 0xffffffffffffffff,
      0xffffffffffffffff, 0xffffffffffffffff, 0xffffffffffffffff, 0xffffb00000000000,
      0x0000000005ffffff, 0xffffffffffffffff, 0xffffffffffffffff, 0xfda7542100000012,
      0x3579bdffffffffff, 0xffffffffffffffff, 0xfffffff000000000, 0x00000000004fffff,
      0xffffffffffffffff, 0xfffffffffffffffb, 0x7300000000000000, 0x00000000036aefff,
      0xffffffffffffffff]"

definition quicksand_256_glyph_0063_2 :: "u8 list" where
  "quicksand_256_glyph_0063_2 =
   lines
     [0xfffffffff1000000, 0x000000000003ffff, 0xffffffffffffffff, 0xffffffffffffffa5,
      0x0000000000000000, 0x0000000000000002, 0x7dffffffffffffff, 0xfffffffffff20000,
      0x0000000000001eff, 0xffffffffffffffff, 0xfffffffffffffd71, 0x0000000000000000,
      0x0000000000000000, 0x00004cffffffffff, 0xfffffffffffff100, 0x00000000000000cf,
      0xffffffffffffffff, 0xfffffffffffffd50, 0x0000000000000000, 0x0000000000000000,
      0x000000004dffffff, 0xfffffffffffffff0, 0x0000000000000009, 0xffffffffffffffff,
      0xfffffffffffffd50, 0x0000000000000000, 0x0000000000000000, 0x0000000000007fff,
      0xffffffffffffffff, 0xb000000000000000, 0x6fffffffffffffff, 0xffffffffffffff80,
      0x0000000000000000, 0x0000000000000000, 0x0000000000000003, 0xefffffffffffffff,
      0xff50000000000000, 0x02ffffffffffffff, 0xffffffffffffffc2, 0x0000000000000000,
      0x0000000000000000, 0x0000000000000000, 0x002effffffffffff, 0xfffd000000000000,
      0x000cffffffffffff, 0xfffffffffffffff8, 0x0000000000000000, 0x0000000000000000,
      0x0000000000000000, 0x000002efffffffff, 0xfffff30000000000, 0x00007fffffffffff,
      0xfffffffffffffffe, 0x4000000000000000, 0x0000000000000000, 0x0000000000000000,
      0x000000001cffffff, 0xffffff7000000000, 0x000002ffffffffff, 0xffffffffffffffff,
      0xd200000000000000, 0x0000000000000000, 0x0000000000000000, 0x0000000000008fff,
      0xfffffff600000000, 0x0000000cffffffff, 0xffffffffffffffff, 0xfb10000000000000,
      0x0000000000000000, 0x0000000000000000, 0x0000000000000001, 0x8cffffe920000000,
      0x000000005fffffff, 0xffffffffffffffff, 0xffb0000000000000, 0x0000000000000000,
      0x0000000000000000, 0x0000000000000000, 0x0000011100000000, 0x0000000000efffff,
      0xffffffffffffffff, 0xfffa000000000000, 0x0000000000000000, 0x0000000000000000,
      0x0000000000000000, 0x0000000000000000, 0x000000000007ffff, 0xffffffffffffffff,
      0xffffb00000000000, 0x0000000000000000, 0x0000000000000000, 0x0000000000000000,
      0x0000000000000000, 0x0000000000001fff, 0xffffffffffffffff, 0xfffffc0000000000,
      0x0000000000000000, 0x0000000000000000, 0x0000000000000000, 0x0000000000000000,
      0x000000000000008f, 0xffffffffffffffff, 0xffffffe100000000, 0x0000000000000000,
      0x0000000000000000, 0x0000000000000000, 0x0000000000000000, 0x0000000000000001,
      0xffffffffffffffff, 0xffffffff30000000, 0x0000000000000000, 0x0000000000000000,
      0x0000000000000000, 0x0000000000000000, 0x0000000000000000, 0x08ffffffffffffff,
      0xfffffffff6000000, 0x0000000000000000, 0x0000000000000000, 0x0000000000000000,
      0x0000000000000000, 0x0000000000000000, 0x000effffffffffff, 0xffffffffffa00000,
      0x0000000000000000, 0x0000000000000000, 0x0000000000000000, 0x0000000000000000,
      0x0000000000000000, 0x00006fffffffffff, 0xfffffffffffe1000, 0x0000000000000000,
      0x0000000000000000, 0x0000000000000000, 0x0000000000000000, 0x0000000000000000,
      0x000000dfffffffff, 0xfffffffffffff500, 0x0000000000000000, 0x0000000000000000,
      0x0000000000000000, 0x0000000000000000, 0x0000000000000000, 0x00000003ffffffff,
      0xffffffffffffffb0, 0x0000000000000000, 0x0000000000000000, 0x0000000000000000,
      0x0000000000000000, 0x0000000000000000]"

definition quicksand_256_glyph_0063_3 :: "u8 list" where
  "quicksand_256_glyph_0063_3 =
   lines
     [0x0000000009ffffff, 0xffffffffffffffff, 0x2000000000000000, 0x0000000000000000,
      0x0000000000000000, 0x0000000000000000, 0x0000000000000000, 0x00000000000effff,
      0xffffffffffffffff, 0xf800000000000000, 0x0000000000000000, 0x0000000000000000,
      0x0000000000000000, 0x0000000000000000, 0x0000000000004fff, 0xffffffffffffffff,
      0xfff1000000000000, 0x0000000000000000, 0x0000000000000000, 0x0000000000000000,
      0x0000000000000000, 0x00000000000000af, 0xffffffffffffffff, 0xffff700000000000,
      0x0000000000000000, 0x0000000000000000, 0x0000000000000000, 0x0000000000000000,
      0x0000000000000000, 0xefffffffffffffff, 0xffffff1000000000, 0x0000000000000000,
      0x0000000000000000, 0x0000000000000000, 0x0000000000000000, 0x0000000000000000,
      0x03ffffffffffffff, 0xfffffff900000000, 0x0000000000000000, 0x0000000000000000,
      0x0000000000000000, 0x0000000000000000, 0x0000000000000000, 0x0008ffffffffffff,
      0xfffffffff2000000, 0x0000000000000000, 0x0000000000000000, 0x0000000000000000,
      0x0000000000000000, 0x0000000000000000, 0x00000cffffffffff, 0xffffffffffc00000,
      0x0000000000000000, 0x0000000000000000, 0x0000000000000000, 0x0000000000000000,
      0x0000000000000000, 0x0000000fffffffff, 0xffffffffffff6000, 0x0000000000000000,
      0x0000000000000000, 0x0000000000000000, 0x0000000000000000, 0x0000000000000000,
      0x000000004fffffff, 0xffffffffffffff00, 0x0000000000000000, 0x0000000000000000,
      0x0000000000000000, 0x0000000000000000, 0x0000000000000000, 0x00000000007fffff,
      0xfffffffffffffffb, 0x0000000000000000, 0x0000000000000000, 0x0000000000000000,
      0x0000000000000000, 0x0000000000000000, 0x000000000000bfff, 0xffffffffffffffff,
      0xf600000000000000, 0x0000000000000000, 0x0000000000000000, 0x0000000000000000,
      0x0000000000000000, 0x00000000000000ef, 0xffffffffffffffff, 0xfff2000000000000,
      0x0000000000000000, 0x0000000000000000, 0x0000000000000000, 0x0000000000000000,
      0x0000000000000001, 0xffffffffffffffff, 0xffffe00000000000, 0x0000000000000000,
      0x0000000000000000, 0x0000000000000000, 0x0000000000000000, 0x0000000000000000,
      0x03ffffffffffffff, 0xffffffa000000000, 0x0000000000000000, 0x0000000000000000,
      0x0000000000000000, 0x0000000000000000, 0x0000000000000000, 0x0006ffffffffffff,
      0xffffffff60000000, 0x0000000000000000, 0x0000000000000000, 0x0000000000000000,
      0x0000000000000000, 0x0000000000000000, 0x000008ffffffffff, 0xffffffffff300000,
      0x0000000000000000, 0x0000000000000000, 0x0000000000000000, 0x0000000000000000,
      0x0000000000000000, 0x0000000affffffff, 0xffffffffffff0000, 0x0000000000000000,
      0x0000000000000000, 0x0000000000000000, 0x0000000000000000, 0x0000000000000000,
      0x000000000cffffff, 0xfffffffffffffe00, 0x0000000000000000, 0x0000000000000000,
      0x0000000000000000, 0x0000000000000000, 0x0000000000000000, 0x00000000000dffff,
      0xfffffffffffffffc, 0x0000000000000000, 0x0000000000000000, 0x0000000000000000,
      0x0000000000000000, 0x0000000000000000, 0x0000000000000fff, 0xffffffffffffffff,
      0xfa00000000000000, 0x0000000000000000, 0x0000000000000000, 0x0000000000000000,
      0x0000000000000000, 0x000000000000000f]"

definition quicksand_256_glyph_0063_4 :: "u8 list" where
  "quicksand_256_glyph_0063_4 =
   lines
     [0xffffffffffffffff, 0xfff8000000000000, 0x0000000000000000, 0x0000000000000000,
      0x0000000000000000, 0x0000000000000000, 0x0000000000000000, 0x1fffffffffffffff,
      0xfffff70000000000, 0x0000000000000000, 0x0000000000000000, 0x0000000000000000,
      0x0000000000000000, 0x0000000000000000, 0x002fffffffffffff, 0xfffffff600000000,
      0x0000000000000000, 0x0000000000000000, 0x0000000000000000, 0x0000000000000000,
      0x0000000000000000, 0x00002fffffffffff, 0xfffffffff5000000, 0x0000000000000000,
      0x0000000000000000, 0x0000000000000000, 0x0000000000000000, 0x0000000000000000,
      0x0000003fffffffff, 0xfffffffffff40000, 0x0000000000000000, 0x0000000000000000,
      0x0000000000000000, 0x0000000000000000, 0x0000000000000000, 0x000000003fffffff,
      0xfffffffffffff400, 0x0000000000000000, 0x0000000000000000, 0x0000000000000000,
      0x0000000000000000, 0x0000000000000000, 0x00000000003fffff, 0xfffffffffffffff4,
      0x0000000000000000, 0x0000000000000000, 0x0000000000000000, 0x0000000000000000,
      0x0000000000000000, 0x0000000000003fff, 0xffffffffffffffff, 0xf400000000000000,
      0x0000000000000000, 0x0000000000000000, 0x0000000000000000, 0x0000000000000000,
      0x000000000000003f, 0xffffffffffffffff, 0xfff4000000000000, 0x0000000000000000,
      0x0000000000000000, 0x0000000000000000, 0x0000000000000000, 0x0000000000000000,
      0x2fffffffffffffff, 0xfffff50000000000, 0x0000000000000000, 0x0000000000000000,
      0x0000000000000000, 0x0000000000000000, 0x0000000000000000, 0x002fffffffffffff,
      0xfffffff500000000, 0x0000000000000000, 0x0000000000000000, 0x0000000000000000,
      0x0000000000000000, 0x0000000000000000, 0x00001fffffffffff, 0xfffffffff6000000,
      0x0000000000000000, 0x0000000000000000, 0x0000000000000000, 0x0000000000000000,
      0x0000000000000000, 0x0000000fffffffff, 0xfffffffffff80000, 0x0000000000000000,
      0x0000000000000000, 0x0000000000000000, 0x0000000000000000, 0x0000000000000000,
      0x000000000fffffff, 0xfffffffffffff900, 0x0000000000000000, 0x0000000000000000,
      0x0000000000000000, 0x0000000000000000, 0x0000000000000000, 0x00000000000dffff,
      0xfffffffffffffffb, 0x0000000000000000, 0x0000000000000000, 0x0000000000000000,
      0x0000000000000000, 0x0000000000000000, 0x0000000000000cff, 0xffffffffffffffff,
      0xfd00000000000000, 0x0000000000000000, 0x0000000000000000, 0x0000000000000000,
      0x0000000000000000, 0x000000000000000a, 0xffffffffffffffff, 0xffff000000000000,
      0x0000000000000000, 0x0000000000000000, 0x0000000000000000, 0x0000000000000000,
      0x0000000000000000, 0x08ffffffffffffff, 0xffffff3000000000, 0x0000000000000000,
      0x0000000000000000, 0x0000000000000000, 0x0000000000000000, 0x0000000000000000,
      0x0006ffffffffffff, 0xffffffff50000000, 0x0000000000000000, 0x0000000000000000,
      0x0000000000000000, 0x0000000000000000, 0x0000000000000000, 0x000004ffffffffff,
      0xffffffffff900000, 0x0000000000000000, 0x0000000000000000, 0x0000000000000000,
      0x0000000000000000, 0x0000000000000000, 0x00000001ffffffff, 0xffffffffffffc000,
      0x0000000000000000, 0x0000000000000000, 0x0000000000000000, 0x0000000000000000,
      0x0000000000000000, 0x0000000000efffff]"

definition quicksand_256_glyph_0063_5 :: "u8 list" where
  "quicksand_256_glyph_0063_5 =
   lines
     [0xfffffffffffffff0, 0x0000000000000000, 0x0000000000000000, 0x0000000000000000,
      0x0000000000000000, 0x0000000000000000, 0x000000000000cfff, 0xffffffffffffffff,
      0xf500000000000000, 0x0000000000000000, 0x0000000000000000, 0x0000000000000000,
      0x0000000000000000, 0x000000000000008f, 0xffffffffffffffff, 0xfff9000000000000,
      0x0000000000000000, 0x0000000000000000, 0x0000000000000000, 0x0000000000000000,
      0x0000000000000000, 0x5fffffffffffffff, 0xfffffe0000000000, 0x0000000000000000,
      0x0000000000000000, 0x0000000000000000, 0x0000000000000000, 0x0000000000000000,
      0x001fffffffffffff, 0xffffffff30000000, 0x0000000000000000, 0x0000000000000000,
      0x0000000000000000, 0x0000000000000000, 0x0000000000000000, 0x00000effffffffff,
      0xffffffffff900000, 0x0000000000000000, 0x0000000000000000, 0x0000000000000000,
      0x0000000000000000, 0x0000000000000000, 0x00000009ffffffff, 0xfffffffffffff000,
      0x0000000000000000, 0x0000000000000000, 0x0000000000000000, 0x0000000000000000,
      0x0000000000000000, 0x0000000005ffffff, 0xfffffffffffffff6, 0x0000000000000000,
      0x0000000000000000, 0x0000000000000000, 0x0000000000000000, 0x0000000000000000,
      0x000000000001ffff, 0xffffffffffffffff, 0xfc00000000000000, 0x0000000000000000,
      0x0000000000000000, 0x0000000000000000, 0x0000000000000000, 0x00000000000000cf,
      0xffffffffffffffff, 0xffff400000000000, 0x0000000000000000, 0x0000000000000000,
      0x0000000000000000, 0x0000000000000000, 0x0000000000000000, 0x7fffffffffffffff,
      0xffffffc000000000, 0x0000000000000000, 0x0000000000000000, 0x0000000000000000,
      0x0000000000000000, 0x0000000000000000, 0x001fffffffffffff, 0xfffffffff4000000,
      0x0000000000000000, 0x0000000000000000, 0x0000000000000000, 0x0000000000000000,
      0x0000000000000000, 0x00000cffffffffff, 0xfffffffffffc0000, 0x0000000000000000,
      0x0000000000000000, 0x0000000000000000, 0x0000000000000000, 0x0000000000000000,
      0x00000006ffffffff, 0xffffffffffffff50, 0x0000000000000000, 0x0000000000000000,
      0x0000000000000000, 0x0000000000000000, 0x0000000000000000, 0x0000000000ffffff,
      0xffffffffffffffff, 0xe100000000000000, 0x0000000000000000, 0x0000000000000000,
      0x0000000000000000, 0x0000000000000000, 0x0000000000009fff, 0xffffffffffffffff,
      0xfff9000000000000, 0x0000000000000000, 0x0000000000000000, 0x0000000000000000,
      0x0000000000000000, 0x000000000000003f, 0xffffffffffffffff, 0xffffff4000000000,
      0x0000000000000000, 0x0000000000000000, 0x0000000000000000, 0x0000000000000000,
      0x0000000000000000, 0x0cffffffffffffff, 0xffffffffe1000000, 0x0000000000000000,
      0x0000000000000000, 0x0000000000000000, 0x0000000000000000, 0x0000000000000000,
      0x0004ffffffffffff, 0xfffffffffffb0000, 0x0000000000000000, 0x0000000000000000,
      0x0000000000000000, 0x0000000000000000, 0x0000000000000000, 0x000000dfffffffff,
      0xffffffffffffff80, 0x0000000000000000, 0x0000000000000000, 0x0000000000000000,
      0x0000000000000000, 0x0000000000000000, 0x000000005fffffff, 0xffffffffffffffff,
      0xf500000000000000, 0x0000000000000000, 0x0000000000000000, 0x0000000000000000,
      0x0000000000000000, 0x00000000000dffff]"

definition quicksand_256_glyph_0063_6 :: "u8 list" where
  "quicksand_256_glyph_0063_6 =
   lines
     [0xffffffffffffffff, 0xffff400000000000, 0x0000000000000000, 0x0000000000000000,
      0x0000000000000000, 0x0000000000000000, 0x00000000000004ff, 0xffffffffffffffff,
      0xfffffff300000000, 0x0000000000000000, 0x0000000000000000, 0x0000000000000000,
      0x0000000000000000, 0x0000000000000000, 0xcfffffffffffffff, 0xffffffffff300000,
      0x0000000000000000, 0x0000000000000000, 0x0000000000000000, 0x000000000006acdd,
      0xb820000000000000, 0x003fffffffffffff, 0xfffffffffffff400, 0x0000000000000000,
      0x0000000000000000, 0x0000000000000000, 0x000000000006efff, 0xfffffb1000000000,
      0x000009ffffffffff, 0xffffffffffffffff, 0x6000000000000000, 0x0000000000000000,
      0x0000000000000000, 0x0000000000009fff, 0xffffffffe2000000, 0x00000000efffffff,
      0xffffffffffffffff, 0xfff9000000000000, 0x0000000000000000, 0x0000000000000000,
      0x0000000000000aff, 0xfffffffffffd0000, 0x00000000004fffff, 0xffffffffffffffff,
      0xffffffc200000000, 0x0000000000000000, 0x0000000000000000, 0x00000000000001bf,
      0xffffffffffffff90, 0x0000000000000aff, 0xffffffffffffffff, 0xffffffffff600000,
      0x0000000000000000, 0x0000000000000000, 0x000000000000003d, 0xffffffffffffffff,
      0xf100000000000000, 0xdfffffffffffffff, 0xfffffffffffffb20, 0x0000000000000000,
      0x0000000000000000, 0x0000000000000008, 0xffffffffffffffff, 0xfff6000000000000,
      0x003fffffffffffff, 0xffffffffffffffff, 0xf800000000000000, 0x0000000000000000,
      0x0000000000000005, 0xefffffffffffffff, 0xfffffa0000000000, 0x000006ffffffffff,
      0xffffffffffffffff, 0xffffe70000000000, 0x0000000000000000, 0x0000000000000004,
      0xcfffffffffffffff, 0xfffffffd00000000, 0x00000000afffffff, 0xffffffffffffffff,
      0xffffffffe8200000, 0x0000000000000000, 0x0000000000000005, 0xcfffffffffffffff,
      0xfffffffffe000000, 0x00000000000cffff, 0xffffffffffffffff, 0xfffffffffffffc61,
      0x0000000000000000, 0x0000000000000049, 0xffffffffffffffff, 0xfffffffffffe0000,
      0x00000000000001df, 0xffffffffffffffff, 0xffffffffffffffff, 0xffc8300000000000,
      0x00000000000015ae, 0xffffffffffffffff, 0xfffffffffffffb00, 0x0000000000000000,
      0x2effffffffffffff, 0xffffffffffffffff, 0xffffffffda754210, 0x000001123579beff,
      0xffffffffffffffff, 0xfffffffffffffff6, 0x0000000000000000, 0x0002efffffffffff,
      0xffffffffffffffff, 0xffffffffffffffff, 0xffffffffffffffff, 0xffffffffffffffff,
      0xffffffffffffffff, 0xe000000000000000, 0x0000002effffffff, 0xffffffffffffffff,
      0xffffffffffffffff, 0xffffffffffffffff, 0xffffffffffffffff, 0xffffffffffffffff,
      0xff60000000000000, 0x0000000002efffff, 0xffffffffffffffff, 0xffffffffffffffff,
      0xffffffffffffffff, 0xffffffffffffffff, 0xffffffffffffffff, 0xfffb000000000000,
      0x0000000000001dff, 0xffffffffffffffff, 0xffffffffffffffff, 0xffffffffffffffff,
      0xffffffffffffffff, 0xffffffffffffffff, 0xffffd10000000000, 0x0000000000000001,
      0xcfffffffffffffff, 0xffffffffffffffff, 0xffffffffffffffff, 0xffffffffffffffff,
      0xffffffffffffffff, 0xfffffd1000000000, 0x0000000000000000, 0x0009ffffffffffff,
      0xffffffffffffffff, 0xffffffffffffffff, 0xffffffffffffffff, 0xffffffffffffffff,
      0xffffffc100000000, 0x0000000000000000]"

definition quicksand_256_glyph_0063_7 :: "u8 list" where
  "quicksand_256_glyph_0063_7 =
   lines
     [0x0000006fffffffff, 0xffffffffffffffff, 0xffffffffffffffff, 0xffffffffffffffff,
      0xffffffffffffffff, 0xfffffffa00000000, 0x0000000000000000, 0x0000000002dfffff,
      0xffffffffffffffff, 0xffffffffffffffff, 0xffffffffffffffff, 0xffffffffffffffff,
      0xffffffff70000000, 0x0000000000000000, 0x00000000000008ff, 0xffffffffffffffff,
      0xffffffffffffffff, 0xffffffffffffffff, 0xffffffffffffffff, 0xffffffffd3000000,
      0x0000000000000000, 0x0000000000000000, 0x3dffffffffffffff, 0xffffffffffffffff,
      0xffffffffffffffff, 0xffffffffffffffff, 0xfffffffff7000000, 0x0000000000000000,
      0x0000000000000000, 0x00007fffffffffff, 0xffffffffffffffff, 0xffffffffffffffff,
      0xffffffffffffffff, 0xfffffffffa100000, 0x0000000000000000, 0x0000000000000000,
      0x000000019fffffff, 0xffffffffffffffff, 0xffffffffffffffff, 0xffffffffffffffff,
      0xfffffffffa200000, 0x0000000000000000, 0x0000000000000000, 0x000000000002afff,
      0xffffffffffffffff, 0xffffffffffffffff, 0xffffffffffffffff, 0xfffffffff9200000,
      0x0000000000000000, 0x0000000000000000, 0x0000000000000002, 0x9fffffffffffffff,
      0xffffffffffffffff, 0xffffffffffffffff, 0xffffffffd7100000, 0x0000000000000000,
      0x0000000000000000, 0x0000000000000000, 0x00017dffffffffff, 0xffffffffffffffff,
      0xffffffffffffffff, 0xffffffff94000000, 0x0000000000000000, 0x0000000000000000,
      0x0000000000000000, 0x0000000038efffff, 0xffffffffffffffff, 0xffffffffffffffff,
      0xffffffea50000000, 0x0000000000000000, 0x0000000000000000, 0x0000000000000000,
      0x000000000000037c, 0xffffffffffffffff, 0xffffffffffffffff, 0xfffffc8300000000,
      0x0000000000000000, 0x0000000000000000, 0x0000000000000000, 0x0000000000000000,
      0x00047bdfffffffff, 0xffffffffffffffff, 0xffc9630000000000, 0x0000000000000000,
      0x0000000000000000, 0x0000000000000000, 0x0000000000000000, 0x00000000003579ac,
      0xdefffffffeddca97, 0x6410000000000000, 0x0000000000000000] @
   line 3 0x000000"

definition quicksand_256_glyph_0063 :: "u8 list" where
  "quicksand_256_glyph_0063 = quicksand_256_glyph_0063_1 @ quicksand_256_glyph_0063_2 @ quicksand_256_glyph_0063_3 @ quicksand_256_glyph_0063_4 @ quicksand_256_glyph_0063_5 @ quicksand_256_glyph_0063_6 @ quicksand_256_glyph_0063_7"

definition quicksand_256_glyph_006e_1 :: "u8 list" where
  "quicksand_256_glyph_006e_1 =
   lines
     [0x0000000000000000, 0x0000000000000000, 0x0000000000000000, 0x0000000002579bde,
      0xffffffedcb975300, 0x0000000000000000, 0x0000000000000000, 0x0000000000000000,
      0x0000000000000000, 0x0000000000000000, 0x00000037bfffffff, 0xffffffffffffffff,
      0xda62000000000000, 0x0000000000000000, 0x0000000000000000, 0x0000000000000000,
      0x0000000000000000, 0x00004aefffffffff, 0xffffffffffffffff, 0xfffffd8300000000,
      0x0000000000000000, 0x0000000000058aa9, 0x7300000000000000, 0x0000000000000000,
      0x0028efffffffffff, 0xffffffffffffffff, 0xfffffffffd710000, 0x0000000000000000,
      0x00000000019fffff, 0xfffd500000000000, 0x0000000000000000, 0x04bfffffffffffff,
      0xffffffffffffffff, 0xfffffffffffff810, 0x0000000000000000, 0x0000000004efffff,
      0xffffffa000000000, 0x0000000000000000, 0x5dffffffffffffff, 0xffffffffffffffff,
      0xffffffffffffffff, 0x7000000000000000, 0x0000000005ffffff, 0xffffffffb0000000,
      0x0000000000000004, 0xdfffffffffffffff, 0xffffffffffffffff, 0xffffffffffffffff,
      0xffd3000000000000, 0x0000000002ffffff, 0xffffffffff900000, 0x000000000000002b,
      0xffffffffffffffff, 0xffffffffffffffff, 0xffffffffffffffff, 0xfffff80000000000,
      0x0000000000cfffff, 0xffffffffffff3000, 0x000000000000008f, 0xffffffffffffffff,
      0xffffffffffffffff, 0xffffffffffffffff, 0xfffffffc10000000, 0x00000000004fffff,
      0xfffffffffffffa00, 0x00000000000003df, 0xffffffffffffffff, 0xffffffffffffffff,
      0xffffffffffffffff, 0xfffffffffe200000, 0x00000000000affff, 0xfffffffffffffff0,
      0x00000000000008ff, 0xffffffffffffffff, 0xffffffffffffffff, 0xffffffffffffffff,
      0xfffffffffffe3000, 0x000000000000dfff, 0xffffffffffffffff, 0x3000000000001cff,
      0xffffffffffffffff, 0xffffffffffffffff, 0xffffffffffffffff, 0xffffffffffffff30,
      0x0000000000000fff, 0xffffffffffffffff, 0xf500000000003eff, 0xffffffffffffffff,
      0xffffffffffffffff, 0xffffffffffffffff, 0xffffffffffffffff, 0x20000000000000ff,
      0xffffffffffffffff, 0xff60000000005fff, 0xffffffffffffffff, 0xffffffffffffffff,
      0xffffffffffffffff, 0xffffffffffffffff, 0xfe1000000000001f, 0xffffffffffffffff,
      0xfff6000000007fff, 0xffffffffffffffff, 0xffffffffffffffff, 0xffffffffffffffff,
      0xffffffffffffffff, 0xfffc000000000001, 0xffffffffffffffff, 0xffff600000008fff,
      0xffffffffffffffff, 0xffffffffffffffff, 0xffffffffffffffff, 0xffffffffffffffff,
      0xfffff90000000000, 0x1fffffffffffffff, 0xfffff60000009fff, 0xffffffffffffffff,
      0xffffffffffffffff, 0xffffffffffffffff, 0xffffffffffffffff, 0xfffffff500000000,
      0x01ffffffffffffff, 0xffffff6000009fff, 0xffffffffffffffff, 0xffffffffffffffff,
      0xffffffffffffffff, 0xffffffffffffffff, 0xffffffffe1000000, 0x001fffffffffffff,
      0xfffffff600007fff, 0xffffffffffffffff, 0xffffffffffffffff, 0xffffffffffffffff,
      0xffffffffffffffff, 0xffffffffff900000, 0x0001ffffffffffff, 0xffffffff60005fff,
      0xffffffffffffffff, 0xfffffffc97531100, 0x00123579cfffffff, 0xffffffffffffffff,
      0xffffffffffff3000, 0x00001fffffffffff, 0xfffffffff6003fff, 0xffffffffffffffff,
      0xffffb73000000000, 0x0000000000038dff, 0xffffffffffffffff, 0xfffffffffffffb00,
      0x000001ffffffffff]"

definition quicksand_256_glyph_006e_2 :: "u8 list" where
  "quicksand_256_glyph_006e_2 =
   lines
     [0xffffffffff601eff, 0xffffffffffffffff, 0xffc6100000000000, 0x0000000000000002,
      0x9fffffffffffffff, 0xfffffffffffffff4, 0x0000001fffffffff, 0xfffffffffff60bff,
      0xffffffffffffffff, 0xf920000000000000, 0x0000000000000000, 0x0019ffffffffffff,
      0xffffffffffffffff, 0xb0000001ffffffff, 0xffffffffffff67ff, 0xffffffffffffffff,
      0x8100000000000000, 0x0000000000000000, 0x000002cfffffffff, 0xffffffffffffffff,
      0xff3000001fffffff, 0xfffffffffffff9ff, 0xfffffffffffffffa, 0x2000000000000000,
      0x0000000000000000, 0x000000009fffffff, 0xffffffffffffffff, 0xfff9000001ffffff,
      0xffffffffffffffff, 0xffffffffffffffd4, 0x0000000000000000, 0x0000000000000000,
      0x00000000006fffff, 0xffffffffffffffff, 0xfffff000001fffff, 0xffffffffffffffff,
      0xffffffffffffff90, 0x0000000000000000, 0x0000000000000000, 0x0000000000004fff,
      0xffffffffffffffff, 0xffffff500001ffff, 0xffffffffffffffff, 0xfffffffffffffe50,
      0x0000000000000000, 0x0000000000000000, 0x000000000000004f, 0xffffffffffffffff,
      0xfffffffb00001fff, 0xffffffffffffffff, 0xfffffffffffffd20, 0x0000000000000000,
      0x0000000000000000, 0x0000000000000000, 0x6fffffffffffffff, 0xfffffffff00001ff,
      0xffffffffffffffff, 0xfffffffffffffc10, 0x0000000000000000, 0x0000000000000000,
      0x0000000000000000, 0x009fffffffffffff, 0xffffffffff50001f, 0xffffffffffffffff,
      0xfffffffffffffb00, 0x0000000000000000, 0x0000000000000000, 0x0000000000000000,
      0x0000dfffffffffff, 0xfffffffffff90001, 0xffffffffffffffff, 0xfffffffffffffb00,
      0x0000000000000000, 0x0000000000000000, 0x0000000000000000, 0x000003ffffffffff,
      0xffffffffffffe000, 0x1fffffffffffffff, 0xfffffffffffffc00, 0x0000000000000000,
      0x0000000000000000, 0x0000000000000000, 0x0000000affffffff, 0xffffffffffffff20,
      0x01ffffffffffffff, 0xfffffffffffffd10, 0x0000000000000000, 0x0000000000000000,
      0x0000000000000000, 0x000000002fffffff, 0xfffffffffffffff6, 0x001fffffffffffff,
      0xffffffffffffff20, 0x0000000000000000, 0x0000000000000000, 0x0000000000000000,
      0x0000000000afffff, 0xffffffffffffffff, 0x9001ffffffffffff, 0xffffffffffffff60,
      0x0000000000000000, 0x0000000000000000, 0x0000000000000000, 0x000000000003ffff,
      0xffffffffffffffff, 0xfd001fffffffffff, 0xffffffffffffffa0, 0x0000000000000000,
      0x0000000000000000, 0x0000000000000000, 0x0000000000000cff, 0xffffffffffffffff,
      0xfff001ffffffffff, 0xffffffffffffffe1, 0x0000000000000000, 0x0000000000000000,
      0x0000000000000000, 0x000000000000007f, 0xffffffffffffffff, 0xffff301fffffffff,
      0xfffffffffffffff6, 0x0000000000000000, 0x0000000000000000, 0x0000000000000000,
      0x0000000000000001, 0xffffffffffffffff, 0xfffff601ffffffff, 0xfffffffffffffffd,
      0x0000000000000000, 0x0000000000000000, 0x0000000000000000, 0x0000000000000000,
      0x0dffffffffffffff, 0xffffff801fffffff, 0xffffffffffffffff, 0x6000000000000000,
      0x0000000000000000, 0x0000000000000000, 0x0000000000000000, 0x008fffffffffffff,
      0xfffffffb01ffffff, 0xffffffffffffffff, 0xe000000000000000, 0x0000000000000000,
      0x0000000000000000, 0x0000000000000000, 0x0004ffffffffffff, 0xffffffffd01fffff,
      0xffffffffffffffff, 0xf800000000000000]"

definition quicksand_256_glyph_006e_3 :: "u8 list" where
  "quicksand_256_glyph_006e_3 =
   lines
     [0x0000000000000000, 0x0000000000000000, 0x0000000000000000, 0x00001fffffffffff,
      0xffffffffff01ffff, 0xffffffffffffffff, 0xff20000000000000, 0x0000000000000000,
      0x0000000000000000, 0x0000000000000000, 0x000000dfffffffff, 0xfffffffffff01fff,
      0xffffffffffffffff, 0xffc0000000000000, 0x0000000000000000, 0x0000000000000000,
      0x0000000000000000, 0x0000000bffffffff, 0xffffffffffff21ff, 0xffffffffffffffff,
      0xfff8000000000000, 0x0000000000000000, 0x0000000000000000, 0x0000000000000000,
      0x000000008fffffff, 0xfffffffffffff31f, 0xffffffffffffffff, 0xffff400000000000,
      0x0000000000000000, 0x0000000000000000, 0x0000000000000000, 0x0000000006ffffff,
      0xffffffffffffff51, 0xffffffffffffffff, 0xfffff00000000000, 0x0000000000000000,
      0x0000000000000000, 0x0000000000000000, 0x00000000004fffff, 0xfffffffffffffff6,
      0x1fffffffffffffff, 0xfffffd0000000000, 0x0000000000000000, 0x0000000000000000,
      0x0000000000000000, 0x000000000002ffff, 0xffffffffffffffff, 0x71ffffffffffffff,
      0xffffffb000000000, 0x0000000000000000, 0x0000000000000000, 0x0000000000000000,
      0x0000000000001fff, 0xffffffffffffffff, 0xf71fffffffffffff, 0xfffffff900000000,
      0x0000000000000000, 0x0000000000000000, 0x0000000000000000, 0x00000000000000ff,
      0xffffffffffffffff, 0xff81ffffffffffff, 0xffffffff80000000, 0x0000000000000000,
      0x0000000000000000, 0x0000000000000000, 0x000000000000000f, 0xffffffffffffffff,
      0xfff81fffffffffff, 0xfffffffff7000000, 0x0000000000000000, 0x0000000000000000,
      0x0000000000000000, 0x0000000000000000, 0xffffffffffffffff, 0xffff81ffffffffff,
      0xffffffffff600000, 0x0000000000000000, 0x0000000000000000, 0x0000000000000000,
      0x0000000000000000, 0x0effffffffffffff, 0xfffff91fffffffff, 0xfffffffffff60000,
      0x0000000000000000, 0x0000000000000000, 0x0000000000000000, 0x0000000000000000,
      0x00efffffffffffff, 0xffffff91ffffffff, 0xffffffffffff6000, 0x0000000000000000,
      0x0000000000000000, 0x0000000000000000, 0x0000000000000000, 0x000effffffffffff,
      0xfffffff91fffffff, 0xfffffffffffff600, 0x0000000000000000, 0x0000000000000000,
      0x0000000000000000, 0x0000000000000000, 0x0000efffffffffff, 0xffffffff91ffffff,
      0xffffffffffffff60, 0x0000000000000000, 0x0000000000000000, 0x0000000000000000,
      0x0000000000000000, 0x00000effffffffff, 0xfffffffff91fffff, 0xfffffffffffffff6,
      0x0000000000000000, 0x0000000000000000, 0x0000000000000000, 0x0000000000000000,
      0x000000efffffffff, 0xffffffffff91ffff, 0xffffffffffffffff, 0x6000000000000000,
      0x0000000000000000, 0x0000000000000000, 0x0000000000000000, 0x0000000effffffff,
      0xfffffffffff91fff, 0xffffffffffffffff, 0xf600000000000000, 0x0000000000000000,
      0x0000000000000000, 0x0000000000000000, 0x00000000efffffff, 0xffffffffffff91ff,
      0xffffffffffffffff, 0xff60000000000000, 0x0000000000000000, 0x0000000000000000,
      0x0000000000000000, 0x000000000effffff, 0xfffffffffffff91f, 0xffffffffffffffff,
      0xfff6000000000000, 0x0000000000000000, 0x0000000000000000, 0x0000000000000000,
      0x0000000000efffff, 0xffffffffffffff91, 0xffffffffffffffff, 0xffff600000000000,
      0x0000000000000000, 0x0000000000000000]"

definition quicksand_256_glyph_006e_4 :: "u8 list" where
  "quicksand_256_glyph_006e_4 =
   lines
     [0x0000000000000000, 0x00000000000effff, 0xfffffffffffffff9, 0x1fffffffffffffff,
      0xfffff60000000000, 0x0000000000000000, 0x0000000000000000, 0x0000000000000000,
      0x000000000000efff, 0xffffffffffffffff, 0x91ffffffffffffff, 0xffffff6000000000,
      0x0000000000000000, 0x0000000000000000, 0x0000000000000000, 0x0000000000000eff,
      0xffffffffffffffff, 0xf91fffffffffffff, 0xfffffff600000000, 0x0000000000000000,
      0x0000000000000000, 0x0000000000000000, 0x00000000000000ef, 0xffffffffffffffff,
      0xff91ffffffffffff, 0xffffffff60000000, 0x0000000000000000, 0x0000000000000000,
      0x0000000000000000, 0x000000000000000e, 0xffffffffffffffff, 0xfff91fffffffffff,
      0xfffffffff6000000, 0x0000000000000000, 0x0000000000000000, 0x0000000000000000,
      0x0000000000000000, 0xefffffffffffffff, 0xffff91ffffffffff, 0xffffffffff600000,
      0x0000000000000000, 0x0000000000000000, 0x0000000000000000, 0x0000000000000000,
      0x0effffffffffffff, 0xfffff91fffffffff, 0xfffffffffff60000, 0x0000000000000000,
      0x0000000000000000, 0x0000000000000000, 0x0000000000000000, 0x00efffffffffffff,
      0xffffff91ffffffff, 0xffffffffffff6000, 0x0000000000000000, 0x0000000000000000,
      0x0000000000000000, 0x0000000000000000, 0x000effffffffffff, 0xfffffff91fffffff,
      0xfffffffffffff600, 0x0000000000000000, 0x0000000000000000, 0x0000000000000000,
      0x0000000000000000, 0x0000efffffffffff, 0xffffffff91ffffff, 0xffffffffffffff60,
      0x0000000000000000, 0x0000000000000000, 0x0000000000000000, 0x0000000000000000,
      0x00000effffffffff, 0xfffffffff91fffff, 0xfffffffffffffff6, 0x0000000000000000,
      0x0000000000000000, 0x0000000000000000, 0x0000000000000000, 0x000000efffffffff,
      0xffffffffff91ffff, 0xffffffffffffffff, 0x6000000000000000, 0x0000000000000000,
      0x0000000000000000, 0x0000000000000000, 0x0000000effffffff, 0xfffffffffff91fff,
      0xffffffffffffffff, 0xf600000000000000, 0x0000000000000000, 0x0000000000000000,
      0x0000000000000000, 0x00000000efffffff, 0xffffffffffff91ff, 0xffffffffffffffff,
      0xff60000000000000, 0x0000000000000000, 0x0000000000000000, 0x0000000000000000,
      0x000000000effffff, 0xfffffffffffff91f, 0xffffffffffffffff, 0xfff6000000000000,
      0x0000000000000000, 0x0000000000000000, 0x0000000000000000, 0x0000000000efffff,
      0xffffffffffffff91, 0xffffffffffffffff, 0xffff600000000000, 0x0000000000000000,
      0x0000000000000000, 0x0000000000000000, 0x00000000000effff, 0xfffffffffffffff9,
      0x1fffffffffffffff, 0xfffff60000000000, 0x0000000000000000, 0x0000000000000000,
      0x0000000000000000, 0x000000000000efff, 0xffffffffffffffff, 0x91ffffffffffffff,
      0xffffff6000000000, 0x0000000000000000, 0x0000000000000000, 0x0000000000000000,
      0x0000000000000eff, 0xffffffffffffffff, 0xf91fffffffffffff, 0xfffffff600000000,
      0x0000000000000000, 0x0000000000000000, 0x0000000000000000, 0x00000000000000ef,
      0xffffffffffffffff, 0xff91ffffffffffff, 0xffffffff60000000, 0x0000000000000000,
      0x0000000000000000, 0x0000000000000000, 0x000000000000000e, 0xffffffffffffffff,
      0xfff91fffffffffff, 0xfffffffff6000000, 0x0000000000000000, 0x0000000000000000,
      0x0000000000000000, 0x0000000000000000]"

definition quicksand_256_glyph_006e_5 :: "u8 list" where
  "quicksand_256_glyph_006e_5 =
   lines
     [0xefffffffffffffff, 0xffff91ffffffffff, 0xffffffffff600000, 0x0000000000000000,
      0x0000000000000000, 0x0000000000000000, 0x0000000000000000, 0x0effffffffffffff,
      0xfffff91fffffffff, 0xfffffffffff60000, 0x0000000000000000, 0x0000000000000000,
      0x0000000000000000, 0x0000000000000000, 0x00efffffffffffff, 0xffffff91ffffffff,
      0xffffffffffff6000, 0x0000000000000000, 0x0000000000000000, 0x0000000000000000,
      0x0000000000000000, 0x000effffffffffff, 0xfffffff91fffffff, 0xfffffffffffff600,
      0x0000000000000000, 0x0000000000000000, 0x0000000000000000, 0x0000000000000000,
      0x0000efffffffffff, 0xffffffff91ffffff, 0xffffffffffffff60, 0x0000000000000000,
      0x0000000000000000, 0x0000000000000000, 0x0000000000000000, 0x00000effffffffff,
      0xfffffffff91fffff, 0xfffffffffffffff6, 0x0000000000000000, 0x0000000000000000,
      0x0000000000000000, 0x0000000000000000, 0x000000efffffffff, 0xffffffffff91ffff,
      0xffffffffffffffff, 0x6000000000000000, 0x0000000000000000, 0x0000000000000000,
      0x0000000000000000, 0x0000000effffffff, 0xfffffffffff91fff, 0xffffffffffffffff,
      0xf600000000000000, 0x0000000000000000, 0x0000000000000000, 0x0000000000000000,
      0x00000000efffffff, 0xffffffffffff91ff, 0xffffffffffffffff, 0xff60000000000000,
      0x0000000000000000, 0x0000000000000000, 0x0000000000000000, 0x000000000effffff,
      0xfffffffffffff91f, 0xffffffffffffffff, 0xfff6000000000000, 0x0000000000000000,
      0x0000000000000000, 0x0000000000000000, 0x0000000000efffff, 0xffffffffffffff91,
      0xffffffffffffffff, 0xffff600000000000, 0x0000000000000000, 0x0000000000000000,
      0x0000000000000000, 0x00000000000effff, 0xfffffffffffffff9, 0x1fffffffffffffff,
      0xfffff60000000000, 0x0000000000000000, 0x0000000000000000, 0x0000000000000000,
      0x000000000000efff, 0xffffffffffffffff, 0x91ffffffffffffff, 0xffffff6000000000,
      0x0000000000000000, 0x0000000000000000, 0x0000000000000000, 0x0000000000000eff,
      0xffffffffffffffff, 0xf91fffffffffffff, 0xfffffff600000000, 0x0000000000000000,
      0x0000000000000000, 0x0000000000000000, 0x00000000000000ef, 0xffffffffffffffff,
      0xff91ffffffffffff, 0xffffffff60000000, 0x0000000000000000, 0x0000000000000000,
      0x0000000000000000, 0x000000000000000e, 0xffffffffffffffff, 0xfff91fffffffffff,
      0xfffffffff6000000, 0x0000000000000000, 0x0000000000000000, 0x0000000000000000,
      0x0000000000000000, 0xefffffffffffffff, 0xffff91ffffffffff, 0xffffffffff600000,
      0x0000000000000000, 0x0000000000000000, 0x0000000000000000, 0x0000000000000000,
      0x0effffffffffffff, 0xfffff91fffffffff, 0xfffffffffff60000, 0x0000000000000000,
      0x0000000000000000, 0x0000000000000000, 0x0000000000000000, 0x00efffffffffffff,
      0xffffff91ffffffff, 0xffffffffffff6000, 0x0000000000000000, 0x0000000000000000,
      0x0000000000000000, 0x0000000000000000, 0x000effffffffffff, 0xfffffff91fffffff,
      0xfffffffffffff600, 0x0000000000000000, 0x0000000000000000, 0x0000000000000000,
      0x0000000000000000, 0x0000efffffffffff, 0xffffffff91ffffff, 0xffffffffffffff60,
      0x0000000000000000, 0x0000000000000000, 0x0000000000000000, 0x0000000000000000,
      0x00000effffffffff, 0xfffffffff91fffff]"

definition quicksand_256_glyph_006e_6 :: "u8 list" where
  "quicksand_256_glyph_006e_6 =
   lines
     [0xfffffffffffffff6, 0x0000000000000000, 0x0000000000000000, 0x0000000000000000,
      0x0000000000000000, 0x000000efffffffff, 0xffffffffff91ffff, 0xffffffffffffffff,
      0x6000000000000000, 0x0000000000000000, 0x0000000000000000, 0x0000000000000000,
      0x0000000effffffff, 0xfffffffffff91fff, 0xffffffffffffffff, 0xf600000000000000,
      0x0000000000000000, 0x0000000000000000, 0x0000000000000000, 0x00000000efffffff,
      0xffffffffffff91ff, 0xffffffffffffffff, 0xff60000000000000, 0x0000000000000000,
      0x0000000000000000, 0x0000000000000000, 0x000000000effffff, 0xfffffffffffff91f,
      0xffffffffffffffff, 0xfff6000000000000, 0x0000000000000000, 0x0000000000000000,
      0x0000000000000000, 0x0000000000efffff, 0xffffffffffffff91, 0xffffffffffffffff,
      0xffff600000000000, 0x0000000000000000, 0x0000000000000000, 0x0000000000000000,
      0x00000000000effff, 0xfffffffffffffff9, 0x1fffffffffffffff, 0xfffff60000000000,
      0x0000000000000000, 0x0000000000000000, 0x0000000000000000, 0x000000000000efff,
      0xffffffffffffffff, 0x91ffffffffffffff, 0xffffff6000000000, 0x0000000000000000,
      0x0000000000000000, 0x0000000000000000, 0x0000000000000eff, 0xffffffffffffffff,
      0xf91fffffffffffff, 0xfffffff600000000, 0x0000000000000000, 0x0000000000000000,
      0x0000000000000000, 0x00000000000000ef, 0xffffffffffffffff, 0xff91ffffffffffff,
      0xffffffff60000000, 0x0000000000000000, 0x0000000000000000, 0x0000000000000000,
      0x000000000000000e, 0xffffffffffffffff, 0xfff91fffffffffff, 0xfffffffff6000000,
      0x0000000000000000, 0x0000000000000000, 0x0000000000000000, 0x0000000000000000,
      0xefffffffffffffff, 0xffff91ffffffffff, 0xffffffffff600000, 0x0000000000000000,
      0x0000000000000000, 0x0000000000000000, 0x0000000000000000, 0x0effffffffffffff,
      0xfffff91fffffffff, 0xfffffffffff60000, 0x0000000000000000, 0x0000000000000000,
      0x0000000000000000, 0x0000000000000000, 0x00efffffffffffff, 0xffffff91ffffffff,
      0xffffffffffff6000, 0x0000000000000000, 0x0000000000000000, 0x0000000000000000,
      0x0000000000000000, 0x000effffffffffff, 0xfffffff91fffffff, 0xfffffffffffff600,
      0x0000000000000000, 0x0000000000000000, 0x0000000000000000, 0x0000000000000000,
      0x0000efffffffffff, 0xffffffff91ffffff, 0xffffffffffffff60, 0x0000000000000000,
      0x0000000000000000, 0x0000000000000000, 0x0000000000000000, 0x00000effffffffff,
      0xfffffffff91fffff, 0xfffffffffffffff6, 0x0000000000000000, 0x0000000000000000,
      0x0000000000000000, 0x0000000000000000, 0x000000efffffffff, 0xffffffffff91ffff,
      0xffffffffffffffff, 0x6000000000000000, 0x0000000000000000, 0x0000000000000000,
      0x0000000000000000, 0x0000000effffffff, 0xfffffffffff91fff, 0xffffffffffffffff,
      0xf600000000000000, 0x0000000000000000, 0x0000000000000000, 0x0000000000000000,
      0x00000000efffffff, 0xffffffffffff90ff, 0xffffffffffffffff, 0xff60000000000000,
      0x0000000000000000, 0x0000000000000000, 0x0000000000000000, 0x000000000effffff,
      0xfffffffffffff80f, 0xffffffffffffffff, 0xfff5000000000000, 0x0000000000000000,
      0x0000000000000000, 0x0000000000000000, 0x0000000000dfffff, 0xffffffffffffff80,
      0xefffffffffffffff, 0xffff300000000000]"

definition quicksand_256_glyph_006e_7 :: "u8 list" where
  "quicksand_256_glyph_006e_7 =
   lines
     [0x0000000000000000, 0x0000000000000000, 0x0000000000000000, 0x00000000000bffff,
      0xfffffffffffffff6, 0x0affffffffffffff, 0xfffff00000000000, 0x0000000000000000,
      0x0000000000000000, 0x0000000000000000, 0x0000000000008fff, 0xffffffffffffffff,
      0x205fffffffffffff, 0xfffffa0000000000, 0x0000000000000000, 0x0000000000000000,
      0x0000000000000000, 0x00000000000002ff, 0xffffffffffffffff, 0xd000dfffffffffff,
      0xffffff3000000000, 0x0000000000000000, 0x0000000000000000, 0x0000000000000000,
      0x000000000000000b, 0xffffffffffffffff, 0xf50004ffffffffff, 0xffffff9000000000,
      0x0000000000000000, 0x0000000000000000, 0x0000000000000000, 0x0000000000000000,
      0x2fffffffffffffff, 0xfc000007ffffffff, 0xffffffc000000000, 0x0000000000000000,
      0x0000000000000000, 0x0000000000000000, 0x0000000000000000, 0x005fffffffffffff,
      0xfe10000008ffffff, 0xffffffc100000000, 0x0000000000000000, 0x0000000000000000,
      0x0000000000000000, 0x0000000000000000, 0x00006fffffffffff, 0xfd2000000004dfff,
      0xffffff8000000000, 0x0000000000000000, 0x0000000000000000, 0x0000000000000000,
      0x0000000000000000, 0x0000003dffffffff, 0xf91000000000005a, 0xdffeb71000000000,
      0x0000000000000000, 0x0000000000000000, 0x0000000000000000, 0x0000000000000000,
      0x0000000004adffec] @
   line 4 0x82000000"

definition quicksand_256_glyph_006e :: "u8 list" where
  "quicksand_256_glyph_006e = quicksand_256_glyph_006e_1 @ quicksand_256_glyph_006e_2 @ quicksand_256_glyph_006e_3 @ quicksand_256_glyph_006e_4 @ quicksand_256_glyph_006e_5 @ quicksand_256_glyph_006e_6 @ quicksand_256_glyph_006e_7"

definition quicksand_256_glyph_006f_1 :: "u8 list" where
  "quicksand_256_glyph_006f_1 =
   lines
     [0x0000000000000000, 0x0000000000000000, 0x0000000000000000, 0x000000003579acde,
      0xffffffeedba86420, 0x0000000000000000, 0x0000000000000000, 0x0000000000000000,
      0x0000000000000000, 0x0000000000000000, 0x0000000000000000, 0x00000000037adfff,
      0xffffffffffffffff, 0xffffffc962000000, 0x0000000000000000, 0x0000000000000000,
      0x0000000000000000, 0x0000000000000000, 0x0000000000000000, 0x0000000000027bff,
      0xffffffffffffffff, 0xffffffffffffffff, 0xea51000000000000, 0x0000000000000000,
      0x0000000000000000, 0x0000000000000000, 0x0000000000000000, 0x0000000000000028,
      0xdfffffffffffffff, 0xffffffffffffffff, 0xffffffffffb60000, 0x0000000000000000,
      0x0000000000000000, 0x0000000000000000, 0x0000000000000000, 0x0000000000000000,
      0x006cffffffffffff, 0xffffffffffffffff, 0xffffffffffffffff, 0xfffa300000000000,
      0x0000000000000000, 0x0000000000000000, 0x0000000000000000, 0x0000000000000000,
      0x0000029fffffffff, 0xffffffffffffffff, 0xffffffffffffffff, 0xfffffffffffd6000,
      0x0000000000000000, 0x0000000000000000, 0x0000000000000000, 0x0000000000000000,
      0x0000000002afffff, 0xffffffffffffffff, 0xffffffffffffffff, 0xffffffffffffffff,
      0xfffe700000000000, 0x0000000000000000, 0x0000000000000000, 0x0000000000000000,
      0x00000000000002af, 0xffffffffffffffff, 0xffffffffffffffff, 0xffffffffffffffff,
      0xfffffffffffe6000, 0x0000000000000000, 0x0000000000000000, 0x0000000000000000,
      0x0000000000000000, 0x008fffffffffffff, 0xffffffffffffffff, 0xffffffffffffffff,
      0xffffffffffffffff, 0xfffd400000000000, 0x0000000000000000, 0x0000000000000000,
      0x0000000000000000, 0x0000005effffffff, 0xffffffffffffffff, 0xffffffffffffffff,
      0xffffffffffffffff, 0xfffffffffffa1000, 0x0000000000000000, 0x0000000000000000,
      0x0000000000000000, 0x00000000001bffff, 0xffffffffffffffff, 0xffffffffffffffff,
      0xffffffffffffffff, 0xffffffffffffffff, 0xfff6000000000000, 0x0000000000000000,
      0x0000000000000000, 0x0000000000000005, 0xffffffffffffffff, 0xffffffffffffffff,
      0xffffffffffffffff, 0xffffffffffffffff, 0xffffffffffb10000, 0x0000000000000000,
      0x0000000000000000, 0x0000000000000000, 0x0000afffffffffff, 0xffffffffffffffff,
      0xffffffffffffffff, 0xffffffffffffffff, 0xffffffffffffffff, 0xfe40000000000000,
      0x0000000000000000, 0x0000000000000000, 0x000000002dffffff, 0xffffffffffffffff,
      0xffffffffffffffff, 0xffffffffffffffff, 0xffffffffffffffff, 0xfffffffff8000000,
      0x0000000000000000, 0x0000000000000000, 0x00000000000005ff, 0xffffffffffffffff,
      0xffffffffffffffff, 0xffffffffffffffff, 0xffffffffffffffff, 0xffffffffffffffff,
      0xb100000000000000, 0x0000000000000000, 0x0000000000000000, 0x008fffffffffffff,
      0xffffffffffffffff, 0xffffffffffffffff, 0xffffffffffffffff, 0xffffffffffffffff,
      0xfffffffd20000000, 0x0000000000000000, 0x0000000000000000, 0x0000000affffffff,
      0xffffffffffffffff, 0xffffffffffffffff, 0xffffffffffffffff, 0xffffffffffffffff,
      0xffffffffffffffe3, 0x0000000000000000, 0x0000000000000000, 0x000000000000bfff,
      0xffffffffffffffff, 0xffffffffffffffff, 0xffffffffffffffff, 0xffffffffffffffff,
      0xffffffffffffffff]"

definition quicksand_256_glyph_006f_2 :: "u8 list" where
  "quicksand_256_glyph_006f_2 =
   lines
     [0xffffff4000000000, 0x0000000000000000, 0x0000000000000000, 0x0bffffffffffffff,
      0xffffffffffffffff, 0xffffffffffffffff, 0xffffffffffffffff, 0xffffffffffffffff,
      0xfffffffffffff400, 0x0000000000000000, 0x0000000000000000, 0x000000cfffffffff,
      0xffffffffffffffff, 0xffffffffffffca75, 0x3210000012468adf, 0xffffffffffffffff,
      0xffffffffffffffff, 0xffff400000000000, 0x0000000000000000, 0x00000000000bffff,
      0xffffffffffffffff, 0xffffffffffffffb7, 0x3000000000000000, 0x00000148dfffffff,
      0xffffffffffffffff, 0xfffffffffff30000, 0x0000000000000000, 0x0000000000000000,
      0xafffffffffffffff, 0xffffffffffffffff, 0xfb61000000000000, 0x0000000000000002,
      0x7dffffffffffffff, 0xffffffffffffffff, 0xfe20000000000000, 0x0000000000000000,
      0x000008ffffffffff, 0xffffffffffffffff, 0xffffe82000000000, 0x0000000000000000,
      0x000000004affffff, 0xffffffffffffffff, 0xffffffffe1000000, 0x0000000000000000,
      0x00000000006fffff, 0xffffffffffffffff, 0xffffffffe7000000, 0x0000000000000000,
      0x0000000000000000, 0x2affffffffffffff, 0xfffffffffffffffc, 0x0000000000000000,
      0x0000000000000003, 0xffffffffffffffff, 0xfffffffffffff800, 0x0000000000000000,
      0x0000000000000000, 0x000000002bffffff, 0xffffffffffffffff, 0xffffffa000000000,
      0x0000000000000000, 0x00001effffffffff, 0xffffffffffffffff, 0xfb20000000000000,
      0x0000000000000000, 0x0000000000000000, 0x4effffffffffffff, 0xfffffffffffff600,
      0x0000000000000000, 0x0000000000bfffff, 0xffffffffffffffff, 0xffffff5000000000,
      0x0000000000000000, 0x0000000000000000, 0x000000009fffffff, 0xffffffffffffffff,
      0xffff200000000000, 0x0000000000000007, 0xffffffffffffffff, 0xffffffffffc10000,
      0x0000000000000000, 0x0000000000000000, 0x0000000000000004, 0xefffffffffffffff,
      0xffffffffffd00000, 0x0000000000000000, 0x00002fffffffffff, 0xfffffffffffffff9,
      0x0000000000000000, 0x0000000000000000, 0x0000000000000000, 0x0000001cffffffff,
      0xffffffffffffffff, 0xf900000000000000, 0x0000000000cfffff, 0xffffffffffffffff,
      0xffff600000000000, 0x0000000000000000, 0x0000000000000000, 0x00000000000000af,
      0xffffffffffffffff, 0xffffffff30000000, 0x0000000000000007, 0xffffffffffffffff,
      0xfffffffff4000000, 0x0000000000000000, 0x0000000000000000, 0x0000000000000000,
      0x000009ffffffffff, 0xffffffffffffffd0, 0x0000000000000000, 0x00001fffffffffff,
      0xffffffffffffff30, 0x0000000000000000, 0x0000000000000000, 0x0000000000000000,
      0x0000000000008fff, 0xffffffffffffffff, 0xfffff70000000000, 0x0000000000afffff,
      0xffffffffffffffff, 0xfff3000000000000, 0x0000000000000000, 0x0000000000000000,
      0x0000000000000000, 0x0008ffffffffffff, 0xffffffffffff2000, 0x0000000000000004,
      0xffffffffffffffff, 0xffffffff40000000, 0x0000000000000000, 0x0000000000000000,
      0x0000000000000000, 0x00000000009fffff, 0xffffffffffffffff, 0xffa0000000000000,
      0x00000cffffffffff, 0xfffffffffffff500, 0x0000000000000000, 0x0000000000000000,
      0x0000000000000000, 0x0000000000000000, 0x0bffffffffffffff, 0xfffffffff3000000,
      0x00000000005fffff, 0xffffffffffffffff, 0xff80000000000000, 0x0000000000000000,
      0x0000000000000000, 0x0000000000000000]"

definition quicksand_256_glyph_006f_3 :: "u8 list" where
  "quicksand_256_glyph_006f_3 =
   lines
     [0x00000001dfffffff, 0xfffffffffffffffc, 0x0000000000000000, 0xdfffffffffffffff,
      0xfffffffb00000000, 0x0000000000000000, 0x0000000000000000, 0x0000000000000000,
      0x000000000000002f, 0xffffffffffffffff, 0xffffff4000000000, 0x000005ffffffffff,
      0xffffffffffffe100, 0x0000000000000000, 0x0000000000000000, 0x0000000000000000,
      0x0000000000000000, 0x000006ffffffffff, 0xffffffffffffc000, 0x00000000000dffff,
      0xffffffffffffffff, 0xff40000000000000, 0x0000000000000000, 0x0000000000000000,
      0x0000000000000000, 0x000000000000bfff, 0xffffffffffffffff, 0xfff3000000000000,
      0x4fffffffffffffff, 0xfffffffa00000000, 0x0000000000000000, 0x0000000000000000,
      0x0000000000000000, 0x0000000000000000, 0x001fffffffffffff, 0xfffffffffa000000,
      0x000000bfffffffff, 0xffffffffffffe100, 0x0000000000000000, 0x0000000000000000,
      0x0000000000000000, 0x0000000000000000, 0x0000000006ffffff, 0xffffffffffffffff,
      0x100000000001ffff, 0xffffffffffffffff, 0xff60000000000000, 0x0000000000000000,
      0x0000000000000000, 0x0000000000000000, 0x0000000000000000, 0xdfffffffffffffff,
      0xffffff8000000000, 0x08ffffffffffffff, 0xfffffffc00000000, 0x0000000000000000,
      0x0000000000000000, 0x0000000000000000, 0x0000000000000000, 0x0000004fffffffff,
      0xffffffffffffe000, 0x0000000dffffffff, 0xfffffffffffff400, 0x0000000000000000,
      0x0000000000000000, 0x0000000000000000, 0x0000000000000000, 0x0000000000000bff,
      0xffffffffffffffff, 0xfff4000000003fff, 0xffffffffffffffff, 0xffb0000000000000,
      0x0000000000000000, 0x0000000000000000, 0x0000000000000000, 0x0000000000000000,
      0x0003ffffffffffff, 0xfffffffffa000000, 0x009fffffffffffff, 0xffffffff40000000,
      0x0000000000000000, 0x0000000000000000, 0x0000000000000000, 0x0000000000000000,
      0x0000000000bfffff, 0xffffffffffffffff, 0x00000000efffffff, 0xfffffffffffffc00,
      0x0000000000000000, 0x0000000000000000, 0x0000000000000000, 0x0000000000000000,
      0x0000000000000000, 0x4fffffffffffffff, 0xffffff40000003ff, 0xffffffffffffffff,
      0xfff5000000000000, 0x0000000000000000, 0x0000000000000000, 0x0000000000000000,
      0x0000000000000000, 0x0000000dffffffff, 0xffffffffffff9000, 0x0007ffffffffffff,
      0xffffffffe0000000, 0x0000000000000000, 0x0000000000000000, 0x0000000000000000,
      0x0000000000000000, 0x00000000000007ff, 0xffffffffffffffff, 0xffe000000bffffff,
      0xffffffffffffff90, 0x0000000000000000, 0x0000000000000000, 0x0000000000000000,
      0x0000000000000000, 0x0000000000000000, 0x0001ffffffffffff, 0xfffffffff200000f,
      0xffffffffffffffff, 0xffff300000000000, 0x0000000000000000, 0x0000000000000000,
      0x0000000000000000, 0x0000000000000000, 0x0000000000cfffff, 0xfffffffffffffff6,
      0x00003fffffffffff, 0xfffffffffe000000, 0x0000000000000000, 0x0000000000000000,
      0x0000000000000000, 0x0000000000000000, 0x0000000000000000, 0x6fffffffffffffff,
      0xfffffa00007fffff, 0xfffffffffffffff9, 0x0000000000000000, 0x0000000000000000,
      0x0000000000000000, 0x0000000000000000, 0x0000000000000000, 0x0000002fffffffff,
      0xfffffffffffe0000, 0xafffffffffffffff, 0xfffff40000000000, 0x0000000000000000,
      0x0000000000000000, 0x0000000000000000]"

definition quicksand_256_glyph_006f_4 :: "u8 list" where
  "quicksand_256_glyph_006f_4 =
   lines
     [0x0000000000000000, 0x0000000000000dff, 0xffffffffffffffff, 0xff1000dfffffffff,
      0xfffffffffff00000, 0x0000000000000000, 0x0000000000000000, 0x0000000000000000,
      0x0000000000000000, 0x0000000000000000, 0x0009ffffffffffff, 0xffffffff4000ffff,
      0xffffffffffffffff, 0xc000000000000000, 0x0000000000000000, 0x0000000000000000,
      0x0000000000000000, 0x0000000000000000, 0x0000000005ffffff, 0xffffffffffffff70,
      0x03ffffffffffffff, 0xffffff9000000000, 0x0000000000000000, 0x0000000000000000,
      0x0000000000000000, 0x0000000000000000, 0x0000000000000002, 0xffffffffffffffff,
      0xffffa005ffffffff, 0xffffffffffff5000, 0x0000000000000000, 0x0000000000000000,
      0x0000000000000000, 0x0000000000000000, 0x0000000000000000, 0x000000efffffffff,
      0xffffffffffc008ff, 0xffffffffffffffff, 0xff20000000000000, 0x0000000000000000,
      0x0000000000000000, 0x0000000000000000, 0x0000000000000000, 0x000000000000bfff,
      0xffffffffffffffff, 0xe00affffffffffff, 0xffffffff00000000, 0x0000000000000000,
      0x0000000000000000, 0x0000000000000000, 0x0000000000000000, 0x0000000000000000,
      0x009fffffffffffff, 0xfffffff10bffffff, 0xfffffffffffffd00, 0x0000000000000000,
      0x0000000000000000, 0x0000000000000000, 0x0000000000000000, 0x0000000000000000,
      0x000000007fffffff, 0xfffffffffffff20d, 0xffffffffffffffff, 0xfffb000000000000,
      0x0000000000000000, 0x0000000000000000, 0x0000000000000000, 0x0000000000000000,
      0x000000000000005f, 0xffffffffffffffff, 0xfff40fffffffffff, 0xfffffffff9000000,
      0x0000000000000000, 0x0000000000000000, 0x0000000000000000, 0x0000000000000000,
      0x0000000000000000, 0x00003fffffffffff, 0xfffffffff50fffff, 0xfffffffffffffff8,
      0x0000000000000000, 0x0000000000000000, 0x0000000000000000, 0x0000000000000000,
      0x0000000000000000, 0x00000000001fffff, 0xfffffffffffffff6, 0x1fffffffffffffff,
      0xfffff60000000000, 0x0000000000000000, 0x0000000000000000, 0x0000000000000000,
      0x0000000000000000, 0x0000000000000000, 0x0fffffffffffffff, 0xfffff71fffffffff,
      0xfffffffffff50000, 0x0000000000000000, 0x0000000000000000, 0x0000000000000000,
      0x0000000000000000, 0x0000000000000000, 0x0000000fffffffff, 0xfffffffffff82fff,
      0xffffffffffffffff, 0xf500000000000000, 0x0000000000000000, 0x0000000000000000,
      0x0000000000000000, 0x0000000000000000, 0x0000000000000eff, 0xffffffffffffffff,
      0xf93fffffffffffff, 0xfffffff400000000, 0x0000000000000000, 0x0000000000000000,
      0x0000000000000000, 0x0000000000000000, 0x0000000000000000, 0x000effffffffffff,
      0xfffffff93fffffff, 0xfffffffffffff400, 0x0000000000000000, 0x0000000000000000,
      0x0000000000000000, 0x0000000000000000, 0x0000000000000000, 0x000000000dffffff,
      0xfffffffffffffa3f, 0xffffffffffffffff, 0xfff4000000000000, 0x0000000000000000,
      0x0000000000000000, 0x0000000000000000, 0x0000000000000000, 0x000000000000000d,
      0xffffffffffffffff, 0xfffa3fffffffffff, 0xfffffffff4000000, 0x0000000000000000,
      0x0000000000000000, 0x0000000000000000, 0x0000000000000000, 0x0000000000000000,
      0x00000dffffffffff, 0xfffffffffa3fffff, 0xfffffffffffffff4, 0x0000000000000000,
      0x0000000000000000, 0x0000000000000000]"

definition quicksand_256_glyph_006f_5 :: "u8 list" where
  "quicksand_256_glyph_006f_5 =
   lines
     [0x0000000000000000, 0x0000000000000000, 0x00000000000effff, 0xfffffffffffffff9,
      0x2fffffffffffffff, 0xfffff50000000000, 0x0000000000000000, 0x0000000000000000,
      0x0000000000000000, 0x0000000000000000, 0x0000000000000000, 0x0effffffffffffff,
      0xfffff91fffffffff, 0xfffffffffff50000, 0x0000000000000000, 0x0000000000000000,
      0x0000000000000000, 0x0000000000000000, 0x0000000000000000, 0x0000000fffffffff,
      0xfffffffffff81fff, 0xffffffffffffffff, 0xf700000000000000, 0x0000000000000000,
      0x0000000000000000, 0x0000000000000000, 0x0000000000000000, 0x0000000000000fff,
      0xffffffffffffffff, 0xf70fffffffffffff, 0xfffffff800000000, 0x0000000000000000,
      0x0000000000000000, 0x0000000000000000, 0x0000000000000000, 0x0000000000000000,
      0x001fffffffffffff, 0xfffffff60fffffff, 0xfffffffffffff900, 0x0000000000000000,
      0x0000000000000000, 0x0000000000000000, 0x0000000000000000, 0x0000000000000000,
      0x000000003fffffff, 0xfffffffffffff50d, 0xffffffffffffffff, 0xfffb000000000000,
      0x0000000000000000, 0x0000000000000000, 0x0000000000000000, 0x0000000000000000,
      0x000000000000005f, 0xffffffffffffffff, 0xfff40bffffffffff, 0xfffffffffe000000,
      0x0000000000000000, 0x0000000000000000, 0x0000000000000000, 0x0000000000000000,
      0x0000000000000000, 0x00007fffffffffff, 0xfffffffff20affff, 0xffffffffffffffff,
      0x0000000000000000, 0x0000000000000000, 0x0000000000000000, 0x0000000000000000,
      0x0000000000000000, 0x00000000009fffff, 0xfffffffffffffff1, 0x08ffffffffffffff,
      0xffffff3000000000, 0x0000000000000000, 0x0000000000000000, 0x0000000000000000,
      0x0000000000000000, 0x0000000000000000, 0xcfffffffffffffff, 0xffffe005ffffffff,
      0xffffffffffff6000, 0x0000000000000000, 0x0000000000000000, 0x0000000000000000,
      0x0000000000000000, 0x0000000000000000, 0x000000ffffffffff, 0xffffffffffc003ff,
      0xffffffffffffffff, 0xff90000000000000, 0x0000000000000000, 0x0000000000000000,
      0x0000000000000000, 0x0000000000000000, 0x000000000002ffff, 0xffffffffffffffff,
      0xa000ffffffffffff, 0xffffffffd0000000, 0x0000000000000000, 0x0000000000000000,
      0x0000000000000000, 0x0000000000000000, 0x0000000000000000, 0x06ffffffffffffff,
      0xffffff7000dfffff, 0xfffffffffffffff1, 0x0000000000000000, 0x0000000000000000,
      0x0000000000000000, 0x0000000000000000, 0x0000000000000000, 0x0000000affffffff,
      0xffffffffffff4000, 0xafffffffffffffff, 0xfffff50000000000, 0x0000000000000000,
      0x0000000000000000, 0x0000000000000000, 0x0000000000000000, 0x0000000000000eff,
      0xffffffffffffffff, 0xff10007fffffffff, 0xfffffffffffa0000, 0x0000000000000000,
      0x0000000000000000, 0x0000000000000000, 0x0000000000000000, 0x0000000000000000,
      0x002fffffffffffff, 0xfffffffe00003fff, 0xffffffffffffffff, 0xfe00000000000000,
      0x0000000000000000, 0x0000000000000000, 0x0000000000000000, 0x0000000000000000,
      0x000000007fffffff, 0xfffffffffffffa00, 0x000fffffffffffff, 0xffffffff40000000,
      0x0000000000000000, 0x0000000000000000, 0x0000000000000000, 0x0000000000000000,
      0x00000000000000df, 0xffffffffffffffff, 0xfff600000bffffff, 0xffffffffffffffa0,
      0x0000000000000000, 0x0000000000000000]"

definition quicksand_256_glyph_006f_6 :: "u8 list" where
  "quicksand_256_glyph_006f_6 =
   lines
     [0x0000000000000000, 0x0000000000000000, 0x0000000000000000, 0x0002ffffffffffff,
      0xfffffffff2000007, 0xffffffffffffffff, 0xfffff10000000000, 0x0000000000000000,
      0x0000000000000000, 0x0000000000000000, 0x0000000000000000, 0x0000000008ffffff,
      0xffffffffffffffe0, 0x000003ffffffffff, 0xfffffffffff70000, 0x0000000000000000,
      0x0000000000000000, 0x0000000000000000, 0x0000000000000000, 0x000000000000000e,
      0xffffffffffffffff, 0xffff90000000efff, 0xffffffffffffffff, 0xfe00000000000000,
      0x0000000000000000, 0x0000000000000000, 0x0000000000000000, 0x0000000000000000,
      0x00006fffffffffff, 0xffffffffff400000, 0x009fffffffffffff, 0xffffffff50000000,
      0x0000000000000000, 0x0000000000000000, 0x0000000000000000, 0x0000000000000000,
      0x0000000000dfffff, 0xffffffffffffffff, 0x000000003fffffff, 0xffffffffffffffd0,
      0x0000000000000000, 0x0000000000000000, 0x0000000000000000, 0x0000000000000000,
      0x0000000000000005, 0xffffffffffffffff, 0xfffffa000000000d, 0xffffffffffffffff,
      0xfffff60000000000, 0x0000000000000000, 0x0000000000000000, 0x0000000000000000,
      0x0000000000000000, 0x00000dffffffffff, 0xfffffffffff40000, 0x000008ffffffffff,
      0xfffffffffffe0000, 0x0000000000000000, 0x0000000000000000, 0x0000000000000000,
      0x0000000000000000, 0x00000000006fffff, 0xffffffffffffffff, 0xe00000000001ffff,
      0xffffffffffffffff, 0xff80000000000000, 0x0000000000000000, 0x0000000000000000,
      0x0000000000000000, 0x0000000000000000, 0xefffffffffffffff, 0xffffff8000000000,
      0x00bfffffffffffff, 0xfffffffff2000000, 0x0000000000000000, 0x0000000000000000,
      0x0000000000000000, 0x0000000000000000, 0x000009ffffffffff, 0xffffffffffff2000,
      0x000000004fffffff, 0xfffffffffffffffc, 0x0000000000000000, 0x0000000000000000,
      0x0000000000000000, 0x0000000000000000, 0x00000000003fffff, 0xffffffffffffffff,
      0xfb0000000000000d, 0xffffffffffffffff, 0xffffff7000000000, 0x0000000000000000,
      0x0000000000000000, 0x0000000000000000, 0x0000000000000000, 0xdfffffffffffffff,
      0xfffffff300000000, 0x000005ffffffffff, 0xfffffffffffff300, 0x0000000000000000,
      0x0000000000000000, 0x0000000000000000, 0x0000000000000000, 0x000009ffffffffff,
      0xffffffffffffc000, 0x000000000000dfff, 0xffffffffffffffff, 0xfffd100000000000,
      0x0000000000000000, 0x0000000000000000, 0x0000000000000000, 0x00000000005fffff,
      0xffffffffffffffff, 0xff40000000000000, 0x005fffffffffffff, 0xffffffffffb00000,
      0x0000000000000000, 0x0000000000000000, 0x0000000000000000, 0x0000000000000002,
      0xffffffffffffffff, 0xfffffffc00000000, 0x000000000cffffff, 0xffffffffffffffff,
      0xf800000000000000, 0x0000000000000000, 0x0000000000000000, 0x0000000000000000,
      0x00001dffffffffff, 0xfffffffffffff300, 0x0000000000000004, 0xffffffffffffffff,
      0xffffffff70000000, 0x0000000000000000, 0x0000000000000000, 0x0000000000000000,
      0x0000000000cfffff, 0xffffffffffffffff, 0xffa0000000000000, 0x000000afffffffff,
      0xfffffffffffffff6, 0x0000000000000000, 0x0000000000000000, 0x0000000000000000,
      0x000000000000000b, 0xffffffffffffffff, 0xffffffff20000000, 0x0000000000002fff,
      0xffffffffffffffff, 0xffffff6000000000]"

definition quicksand_256_glyph_006f_7 :: "u8 list" where
  "quicksand_256_glyph_006f_7 =
   lines
     [0x0000000000000000, 0x0000000000000000, 0x0000000000000000, 0x0000bfffffffffff,
      0xfffffffffffff800, 0x0000000000000000, 0x0007ffffffffffff, 0xfffffffffffff700,
      0x0000000000000000, 0x0000000000000000, 0x0000000000000000, 0x000000000bffffff,
      0xffffffffffffffff, 0xffd0000000000000, 0x0000000000cfffff, 0xffffffffffffffff,
      0xffff900000000000, 0x0000000000000000, 0x0000000000000000, 0x00000000000001cf,
      0xffffffffffffffff, 0xffffffff30000000, 0x0000000000000000, 0x2fffffffffffffff,
      0xfffffffffffb1000, 0x0000000000000000, 0x0000000000000000, 0x0000000000000000,
      0x003effffffffffff, 0xfffffffffffff900, 0x0000000000000000, 0x00000007ffffffff,
      0xffffffffffffffff, 0xffd3000000000000, 0x0000000000000000, 0x0000000000000000,
      0x00000007ffffffff, 0xffffffffffffffff, 0xffd0000000000000, 0x00000000000000bf,
      0xffffffffffffffff, 0xffffffffff700000, 0x0000000000000000, 0x0000000000000000,
      0x000000000001bfff, 0xffffffffffffffff, 0xffffffff20000000, 0x0000000000000000,
      0x00001effffffffff, 0xffffffffffffffff, 0xfc30000000000000, 0x0000000000000000,
      0x0000000000000000, 0x6fffffffffffffff, 0xfffffffffffff600, 0x0000000000000000,
      0x000000000003ffff, 0xffffffffffffffff, 0xfffffffff9100000, 0x0000000000000000,
      0x0000000000000000, 0x00003cffffffffff, 0xffffffffffffffff, 0xffa0000000000000,
      0x0000000000000000, 0x006fffffffffffff, 0xffffffffffffffff, 0xf810000000000000,
      0x0000000000000000, 0x000000003bffffff, 0xffffffffffffffff, 0xfffffffc00000000,
      0x0000000000000000, 0x0000000008ffffff, 0xffffffffffffffff, 0xfffffffff9200000,
      0x0000000000000000, 0x0000000000004bff, 0xffffffffffffffff, 0xffffffffffffe100,
      0x0000000000000000, 0x0000000000000000, 0xafffffffffffffff, 0xffffffffffffffff,
      0xfc61000000000000, 0x0000000000000002, 0x8effffffffffffff, 0xffffffffffffffff,
      0xff20000000000000, 0x0000000000000000, 0x0000000bffffffff, 0xffffffffffffffff,
      0xffffffffffc73000, 0x0000000000000000, 0x0159dfffffffffff, 0xffffffffffffffff,
      0xfffffff300000000, 0x0000000000000000, 0x00000000000000cf, 0xffffffffffffffff,
      0xffffffffffffffff, 0xffffc97532100000, 0x12468adfffffffff, 0xffffffffffffffff,
      0xffffffffffff4000, 0x0000000000000000, 0x0000000000000000, 0x00000cffffffffff,
      0xffffffffffffffff, 0xffffffffffffffff, 0xffffffffffffffff, 0xffffffffffffffff,
      0xffffffffffffffff, 0xf400000000000000, 0x0000000000000000, 0x000000000000bfff,
      0xffffffffffffffff, 0xffffffffffffffff, 0xffffffffffffffff, 0xffffffffffffffff,
      0xffffffffffffffff, 0xffffff4000000000, 0x0000000000000000, 0x0000000000000000,
      0x000affffffffffff, 0xffffffffffffffff, 0xffffffffffffffff, 0xffffffffffffffff,
      0xffffffffffffffff, 0xffffffffffe30000, 0x0000000000000000, 0x0000000000000000,
      0x00000000008fffff, 0xffffffffffffffff, 0xffffffffffffffff, 0xffffffffffffffff,
      0xffffffffffffffff, 0xfffffffffffffffd, 0x2000000000000000, 0x0000000000000000,
      0x0000000000000000, 0x05ffffffffffffff, 0xffffffffffffffff, 0xffffffffffffffff,
      0xffffffffffffffff, 0xffffffffffffffff, 0xffffb10000000000, 0x0000000000000000,
      0x0000000000000000, 0x000000003dffffff]"

definition quicksand_256_glyph_006f_8 :: "u8 list" where
  "quicksand_256_glyph_006f_8 =
   lines
     [0xffffffffffffffff, 0xffffffffffffffff, 0xffffffffffffffff, 0xffffffffffffffff,
      0xfffffffff8000000, 0x0000000000000000, 0x0000000000000000, 0x0000000000000001,
      0xafffffffffffffff, 0xffffffffffffffff, 0xffffffffffffffff, 0xffffffffffffffff,
      0xfffffffffffffe40, 0x0000000000000000, 0x0000000000000000, 0x0000000000000000,
      0x00000006ffffffff, 0xffffffffffffffff, 0xffffffffffffffff, 0xffffffffffffffff,
      0xffffffffffffffff, 0xffb1000000000000, 0x0000000000000000, 0x0000000000000000,
      0x000000000000001b, 0xffffffffffffffff, 0xffffffffffffffff, 0xffffffffffffffff,
      0xffffffffffffffff, 0xfffffff600000000, 0x0000000000000000, 0x0000000000000000,
      0x0000000000000000, 0x0000005effffffff, 0xffffffffffffffff, 0xffffffffffffffff,
      0xffffffffffffffff, 0xfffffffffffa1000, 0x0000000000000000, 0x0000000000000000,
      0x0000000000000000, 0x000000000000008f, 0xffffffffffffffff, 0xffffffffffffffff,
      0xffffffffffffffff, 0xfffffffffffffffd, 0x4000000000000000, 0x0000000000000000,
      0x0000000000000000, 0x0000000000000000, 0x000002afffffffff, 0xffffffffffffffff,
      0xffffffffffffffff, 0xffffffffffffffff, 0xfffe600000000000, 0x0000000000000000,
      0x0000000000000000, 0x0000000000000000, 0x00000000000002af, 0xffffffffffffffff,
      0xffffffffffffffff, 0xffffffffffffffff, 0xfffffffe70000000, 0x0000000000000000,
      0x0000000000000000, 0x0000000000000000, 0x0000000000000000, 0x0000029fffffffff,
      0xffffffffffffffff, 0xffffffffffffffff, 0xfffffffffffd6000, 0x0000000000000000,
      0x0000000000000000, 0x0000000000000000, 0x0000000000000000, 0x000000000000006c,
      0xffffffffffffffff, 0xffffffffffffffff, 0xfffffffffffffffa, 0x4000000000000000,
      0x0000000000000000, 0x0000000000000000, 0x0000000000000000, 0x0000000000000000,
      0x00000028dfffffff, 0xffffffffffffffff, 0xffffffffffffffff, 0xffb6000000000000,
      0x0000000000000000, 0x0000000000000000, 0x0000000000000000, 0x0000000000000000,
      0x0000000000000002, 0x7bffffffffffffff, 0xffffffffffffffff, 0xffffea5100000000,
      0x0000000000000000, 0x0000000000000000, 0x0000000000000000, 0x0000000000000000,
      0x0000000000000000, 0x00000000037adfff, 0xffffffffffffffff, 0xffffffc962000000,
      0x0000000000000000, 0x0000000000000000, 0x0000000000000000, 0x0000000000000000,
      0x0000000000000000, 0x0000000000000000, 0x00003579acdeffff, 0xffeedba864200000,
      0x0000000000000000, 0x0000000000000000, 0x0000000000000000] @
   line 1 0x00"

definition quicksand_256_glyph_006f :: "u8 list" where
  "quicksand_256_glyph_006f = quicksand_256_glyph_006f_1 @ quicksand_256_glyph_006f_2 @ quicksand_256_glyph_006f_3 @ quicksand_256_glyph_006f_4 @ quicksand_256_glyph_006f_5 @ quicksand_256_glyph_006f_6 @ quicksand_256_glyph_006f_7 @ quicksand_256_glyph_006f_8"

definition quicksand_256_glyph_0070_1 :: "u8 list" where
  "quicksand_256_glyph_0070_1 =
   lines
     [0x0000000000000000, 0x0000000000000000, 0x0000000000000000, 0x000000002579bcde,
      0xfffffedcb9752000, 0x0000000000000000, 0x0000000000000000, 0x0000000000000000,
      0x0000000169bba840, 0x0000000000000000, 0x0000000000000000, 0x000048cfffffffff,
      0xffffffffffffffd9, 0x6200000000000000, 0x0000000000000000, 0x0000000000000000,
      0x000002affffffffe, 0x6000000000000000, 0x0000000000000000, 0x17bfffffffffffff,
      0xffffffffffffffff, 0xffe9400000000000, 0x0000000000000000, 0x0000000000000000,
      0x00005fffffffffff, 0xfc10000000000000, 0x000000000000016c, 0xffffffffffffffff,
      0xffffffffffffffff, 0xfffffe9300000000, 0x0000000000000000, 0x0000000000000000,
      0x0006ffffffffffff, 0xffc0000000000000, 0x0000000000029fff, 0xffffffffffffffff,
      0xffffffffffffffff, 0xffffffffd6000000, 0x0000000000000000, 0x0000000000000000,
      0x003fffffffffffff, 0xfffa000000000000, 0x0000000004bfffff, 0xffffffffffffffff,
      0xffffffffffffffff, 0xfffffffffff81000, 0x0000000000000000, 0x0000000000000000,
      0x00dfffffffffffff, 0xffff300000000000, 0x00000003bfffffff, 0xffffffffffffffff,
      0xffffffffffffffff, 0xfffffffffffff810, 0x0000000000000000, 0x0000000000000000,
      0x04ffffffffffffff, 0xffffb00000000000, 0x000001afffffffff, 0xffffffffffffffff,
      0xffffffffffffffff, 0xffffffffffffffe7, 0x0000000000000000, 0x0000000000000000,
      0x0affffffffffffff, 0xfffff00000000000, 0x00007fffffffffff, 0xffffffffffffffff,
      0xffffffffffffffff, 0xffffffffffffffff, 0xd300000000000000, 0x0000000000000000,
      0x0effffffffffffff, 0xfffff30000000000, 0x002cffffffffffff, 0xffffffffffffffff,
      0xffffffffffffffff, 0xffffffffffffffff, 0xff90000000000000, 0x0000000000000000,
      0x0fffffffffffffff, 0xfffff50000000000, 0x06ffffffffffffff, 0xffffffffffffffff,
      0xffffffffffffffff, 0xffffffffffffffff, 0xfffd300000000000, 0x0000000000000000,
      0x0fffffffffffffff, 0xfffff60000000000, 0xafffffffffffffff, 0xffffffffffffffff,
      0xffffffffffffffff, 0xffffffffffffffff, 0xfffff70000000000, 0x0000000000000000,
      0x1fffffffffffffff, 0xfffff6000000001c, 0xffffffffffffffff, 0xffffffffffffffff,
      0xffffffffffffffff, 0xffffffffffffffff, 0xffffffb000000000, 0x0000000000000000,
      0x1fffffffffffffff, 0xfffff600000002ef, 0xffffffffffffffff, 0xffffffffffffffff,
      0xffffffffffffffff, 0xffffffffffffffff, 0xfffffffd20000000, 0x0000000000000000,
      0x1fffffffffffffff, 0xfffff60000003fff, 0xffffffffffffffff, 0xffffffffffffffff,
      0xffffffffffffffff, 0xffffffffffffffff, 0xffffffffe3000000, 0x0000000000000000,
      0x1fffffffffffffff, 0xfffff6000003ffff, 0xffffffffffffffff, 0xffffffffffffffff,
      0xffffffffffffffff, 0xffffffffffffffff, 0xffffffffff400000, 0x0000000000000000,
      0x1fffffffffffffff, 0xfffff600003fffff, 0xffffffffffffffff, 0xffffffffffffffff,
      0xffffffffffffffff, 0xffffffffffffffff, 0xfffffffffff40000, 0x0000000000000000,
      0x1fffffffffffffff, 0xfffff60002efffff, 0xffffffffffffffff, 0xffffffffffffffff,
      0xffffffffffffffff, 0xffffffffffffffff, 0xffffffffffff4000, 0x0000000000000000,
      0x1fffffffffffffff, 0xfffff6001dffffff, 0xffffffffffffffff, 0xffffffffffffffff,
      0xffffffffffffffff]"

definition quicksand_256_glyph_0070_2 :: "u8 list" where
  "quicksand_256_glyph_0070_2 =
   lines
     [0xffffffffffffffff, 0xfffffffffffff400, 0x0000000000000000, 0x1fffffffffffffff,
      0xfffff600bfffffff, 0xffffffffffffffff, 0xfffffffb96431000, 0x00013579cfffffff,
      0xffffffffffffffff, 0xffffffffffffff30, 0x0000000000000000, 0x1fffffffffffffff,
      0xfffff607ffffffff, 0xffffffffffffffff, 0xfffb620000000000, 0x000000000037cfff,
      0xffffffffffffffff, 0xffffffffffffffe1, 0x0000000000000000, 0x1fffffffffffffff,
      0xfffff63fffffffff, 0xffffffffffffffff, 0xb500000000000000, 0x000000000000016c,
      0xffffffffffffffff, 0xfffffffffffffffd, 0x0000000000000000, 0x1fffffffffffffff,
      0xfffff7dfffffffff, 0xffffffffffffff82, 0x0000000000000000, 0x0000000000000000,
      0x3affffffffffffff, 0xffffffffffffffff, 0xa000000000000000, 0x1fffffffffffffff,
      0xfffffeffffffffff, 0xffffffffffff8100, 0x0000000000000000, 0x0000000000000000,
      0x002affffffffffff, 0xffffffffffffffff, 0xf600000000000000, 0x1fffffffffffffff,
      0xffffffffffffffff, 0xffffffffffa10000, 0x0000000000000000, 0x0000000000000000,
      0x00003cffffffffff, 0xffffffffffffffff, 0xff30000000000000, 0x1fffffffffffffff,
      0xffffffffffffffff, 0xffffffffe4000000, 0x0000000000000000, 0x0000000000000000,
      0x0000007fffffffff, 0xffffffffffffffff, 0xffd0000000000000, 0x1fffffffffffffff,
      0xffffffffffffffff, 0xfffffffa00000000, 0x0000000000000000, 0x0000000000000000,
      0x00000002dfffffff, 0xffffffffffffffff, 0xfff9000000000000, 0x1fffffffffffffff,
      0xffffffffffffffff, 0xffffff6000000000, 0x0000000000000000, 0x0000000000000000,
      0x000000000affffff, 0xffffffffffffffff, 0xffff300000000000, 0x1fffffffffffffff,
      0xffffffffffffffff, 0xffffe30000000000, 0x0000000000000000, 0x0000000000000000,
      0x00000000007fffff, 0xffffffffffffffff, 0xffffd00000000000, 0x1fffffffffffffff,
      0xffffffffffffffff, 0xfffd100000000000, 0x0000000000000000, 0x0000000000000000,
      0x000000000005ffff, 0xffffffffffffffff, 0xfffff70000000000, 0x1fffffffffffffff,
      0xffffffffffffffff, 0xffc1000000000000, 0x0000000000000000, 0x0000000000000000,
      0x0000000000004fff, 0xffffffffffffffff, 0xffffff1000000000, 0x1fffffffffffffff,
      0xffffffffffffffff, 0xfd10000000000000, 0x0000000000000000, 0x0000000000000000,
      0x00000000000004ff, 0xffffffffffffffff, 0xffffff9000000000, 0x1fffffffffffffff,
      0xffffffffffffffff, 0xd100000000000000, 0x0000000000000000, 0x0000000000000000,
      0x000000000000005f, 0xffffffffffffffff, 0xfffffff200000000, 0x1fffffffffffffff,
      0xfffffffffffffffe, 0x2000000000000000, 0x0000000000000000, 0x0000000000000000,
      0x0000000000000006, 0xffffffffffffffff, 0xfffffffa00000000, 0x1fffffffffffffff,
      0xfffffffffffffff4, 0x0000000000000000, 0x0000000000000000, 0x0000000000000000,
      0x0000000000000000, 0x9fffffffffffffff, 0xffffffff20000000, 0x1fffffffffffffff,
      0xffffffffffffff70, 0x0000000000000000, 0x0000000000000000, 0x0000000000000000,
      0x0000000000000000, 0x0cffffffffffffff, 0xffffffffa0000000, 0x1fffffffffffffff,
      0xfffffffffffffb00, 0x0000000000000000, 0x0000000000000000, 0x0000000000000000,
      0x0000000000000000, 0x02ffffffffffffff, 0xfffffffff1000000, 0x1fffffffffffffff,
      0xfffffffffffff100, 0x0000000000000000]"

definition quicksand_256_glyph_0070_3 :: "u8 list" where
  "quicksand_256_glyph_0070_3 =
   lines
     [0x0000000000000000, 0x0000000000000000, 0x0000000000000000, 0x006fffffffffffff,
      0xfffffffff8000000, 0x1fffffffffffffff, 0xffffffffffff6000, 0x0000000000000000,
      0x0000000000000000, 0x0000000000000000, 0x0000000000000000, 0x000bffffffffffff,
      0xfffffffffe000000, 0x1fffffffffffffff, 0xfffffffffffc0000, 0x0000000000000000,
      0x0000000000000000, 0x0000000000000000, 0x0000000000000000, 0x0002ffffffffffff,
      0xffffffffff500000, 0x1fffffffffffffff, 0xfffffffffff30000, 0x0000000000000000,
      0x0000000000000000, 0x0000000000000000, 0x0000000000000000, 0x00008fffffffffff,
      0xffffffffffb00000, 0x1fffffffffffffff, 0xffffffffffa00000, 0x0000000000000000,
      0x0000000000000000, 0x0000000000000000, 0x0000000000000000, 0x00000effffffffff,
      0xfffffffffff10000, 0x1fffffffffffffff, 0xffffffffff200000, 0x0000000000000000,
      0x0000000000000000, 0x0000000000000000, 0x0000000000000000, 0x000006ffffffffff,
      0xfffffffffff60000, 0x1fffffffffffffff, 0xfffffffff9000000, 0x0000000000000000,
      0x0000000000000000, 0x0000000000000000, 0x0000000000000000, 0x000000efffffffff,
      0xfffffffffffc0000, 0x1fffffffffffffff, 0xfffffffff2000000, 0x0000000000000000,
      0x0000000000000000, 0x0000000000000000, 0x0000000000000000, 0x0000006fffffffff,
      0xffffffffffff1000, 0x1fffffffffffffff, 0xffffffffb0000000, 0x0000000000000000,
      0x0000000000000000, 0x0000000000000000, 0x0000000000000000, 0x0000000effffffff,
      0xffffffffffff5000, 0x1fffffffffffffff, 0xffffffff40000000, 0x0000000000000000,
      0x0000000000000000, 0x0000000000000000, 0x0000000000000000, 0x00000008ffffffff,
      0xffffffffffffa000, 0x1fffffffffffffff, 0xfffffffe00000000, 0x0000000000000000,
      0x0000000000000000, 0x0000000000000000, 0x0000000000000000, 0x00000002ffffffff,
      0xffffffffffffe000, 0x1fffffffffffffff, 0xfffffff800000000, 0x0000000000000000,
      0x0000000000000000, 0x0000000000000000, 0x0000000000000000, 0x00000000cfffffff,
      0xfffffffffffff200, 0x1fffffffffffffff, 0xfffffff300000000, 0x0000000000000000,
      0x0000000000000000, 0x0000000000000000, 0x0000000000000000, 0x000000007fffffff,
      0xfffffffffffff600, 0x1fffffffffffffff, 0xffffffe000000000, 0x0000000000000000,
      0x0000000000000000, 0x0000000000000000, 0x0000000000000000, 0x000000001fffffff,
      0xfffffffffffff900, 0x1fffffffffffffff, 0xffffff9000000000, 0x0000000000000000,
      0x0000000000000000, 0x0000000000000000, 0x0000000000000000, 0x000000000dffffff,
      0xfffffffffffffd00, 0x1fffffffffffffff, 0xffffff5000000000, 0x0000000000000000,
      0x0000000000000000, 0x0000000000000000, 0x0000000000000000, 0x0000000008ffffff,
      0xffffffffffffff00, 0x1fffffffffffffff, 0xffffff1000000000, 0x0000000000000000,
      0x0000000000000000, 0x0000000000000000, 0x0000000000000000, 0x0000000004ffffff,
      0xffffffffffffff20, 0x1fffffffffffffff, 0xfffffd0000000000, 0x0000000000000000,
      0x0000000000000000, 0x0000000000000000, 0x0000000000000000, 0x0000000000ffffff,
      0xffffffffffffff50, 0x1fffffffffffffff, 0xfffffa0000000000, 0x0000000000000000,
      0x0000000000000000, 0x0000000000000000, 0x0000000000000000, 0x0000000000dfffff,
      0xffffffffffffff80, 0x1fffffffffffffff]"

definition quicksand_256_glyph_0070_4 :: "u8 list" where
  "quicksand_256_glyph_0070_4 =
   lines
     [0xfffff70000000000, 0x0000000000000000, 0x0000000000000000, 0x0000000000000000,
      0x0000000000000000, 0x0000000000afffff, 0xffffffffffffffa0, 0x1fffffffffffffff,
      0xfffff40000000000, 0x0000000000000000, 0x0000000000000000, 0x0000000000000000,
      0x0000000000000000, 0x00000000007fffff, 0xffffffffffffffc0, 0x1fffffffffffffff,
      0xfffff10000000000, 0x0000000000000000, 0x0000000000000000, 0x0000000000000000,
      0x0000000000000000, 0x00000000004fffff, 0xffffffffffffffe0, 0x1fffffffffffffff,
      0xfffff00000000000, 0x0000000000000000, 0x0000000000000000, 0x0000000000000000,
      0x0000000000000000, 0x00000000002fffff, 0xfffffffffffffff0, 0x1fffffffffffffff,
      0xffffd00000000000, 0x0000000000000000, 0x0000000000000000, 0x0000000000000000,
      0x0000000000000000, 0x00000000000fffff, 0xfffffffffffffff1, 0x1fffffffffffffff,
      0xffffb00000000000, 0x0000000000000000, 0x0000000000000000, 0x0000000000000000,
      0x0000000000000000, 0x00000000000effff, 0xfffffffffffffff2, 0x1fffffffffffffff,
      0xffffa00000000000, 0x0000000000000000, 0x0000000000000000, 0x0000000000000000,
      0x0000000000000000, 0x00000000000dffff, 0xfffffffffffffff3, 0x1fffffffffffffff,
      0xffff900000000000, 0x0000000000000000, 0x0000000000000000, 0x0000000000000000,
      0x0000000000000000, 0x00000000000bffff, 0xfffffffffffffff4, 0x1fffffffffffffff,
      0xffff800000000000, 0x0000000000000000, 0x0000000000000000, 0x0000000000000000,
      0x0000000000000000, 0x00000000000affff, 0xfffffffffffffff5, 0x1fffffffffffffff,
      0xffff700000000000, 0x0000000000000000, 0x0000000000000000, 0x0000000000000000,
      0x0000000000000000, 0x00000000000affff, 0xfffffffffffffff5, 0x1fffffffffffffff,
      0xffff600000000000, 0x0000000000000000, 0x0000000000000000, 0x0000000000000000,
      0x0000000000000000, 0x000000000009ffff, 0xfffffffffffffff6, 0x1fffffffffffffff,
      0xffff600000000000, 0x0000000000000000, 0x0000000000000000, 0x0000000000000000,
      0x0000000000000000, 0x000000000009ffff, 0xfffffffffffffff6, 0x1fffffffffffffff,
      0xffff600000000000, 0x0000000000000000, 0x0000000000000000, 0x0000000000000000,
      0x0000000000000000, 0x000000000009ffff, 0xfffffffffffffff6, 0x1fffffffffffffff,
      0xffff600000000000, 0x0000000000000000, 0x0000000000000000, 0x0000000000000000,
      0x0000000000000000, 0x000000000009ffff, 0xfffffffffffffff6, 0x1fffffffffffffff,
      0xffff700000000000, 0x0000000000000000, 0x0000000000000000, 0x0000000000000000,
      0x0000000000000000, 0x000000000009ffff, 0xfffffffffffffff6, 0x1fffffffffffffff,
      0xffff700000000000, 0x0000000000000000, 0x0000000000000000, 0x0000000000000000,
      0x0000000000000000, 0x00000000000affff, 0xfffffffffffffff5, 0x1fffffffffffffff,
      0xffff800000000000, 0x0000000000000000, 0x0000000000000000, 0x0000000000000000,
      0x0000000000000000, 0x00000000000bffff, 0xfffffffffffffff4, 0x1fffffffffffffff,
      0xffff900000000000, 0x0000000000000000, 0x0000000000000000, 0x0000000000000000,
      0x0000000000000000, 0x00000000000cffff, 0xfffffffffffffff4, 0x1fffffffffffffff,
      0xffffa00000000000, 0x0000000000000000, 0x0000000000000000, 0x0000000000000000,
      0x0000000000000000, 0x00000000000dffff]"

definition quicksand_256_glyph_0070_5 :: "u8 list" where
  "quicksand_256_glyph_0070_5 =
   lines
     [0xfffffffffffffff3, 0x1fffffffffffffff, 0xffffc00000000000, 0x0000000000000000,
      0x0000000000000000, 0x0000000000000000, 0x0000000000000000, 0x00000000000fffff,
      0xfffffffffffffff2, 0x1fffffffffffffff, 0xffffe00000000000, 0x0000000000000000,
      0x0000000000000000, 0x0000000000000000, 0x0000000000000000, 0x00000000001fffff,
      0xfffffffffffffff0, 0x1fffffffffffffff, 0xfffff00000000000, 0x0000000000000000,
      0x0000000000000000, 0x0000000000000000, 0x0000000000000000, 0x00000000003fffff,
      0xfffffffffffffff0, 0x1fffffffffffffff, 0xfffff20000000000, 0x0000000000000000,
      0x0000000000000000, 0x0000000000000000, 0x0000000000000000, 0x00000000005fffff,
      0xffffffffffffffd0, 0x1fffffffffffffff, 0xfffff50000000000, 0x0000000000000000,
      0x0000000000000000, 0x0000000000000000, 0x0000000000000000, 0x00000000008fffff,
      0xffffffffffffffb0, 0x1fffffffffffffff, 0xfffff80000000000, 0x0000000000000000,
      0x0000000000000000, 0x0000000000000000, 0x0000000000000000, 0x0000000000bfffff,
      0xffffffffffffff90, 0x1fffffffffffffff, 0xfffffb0000000000, 0x0000000000000000,
      0x0000000000000000, 0x0000000000000000, 0x0000000000000000, 0x0000000000efffff,
      0xffffffffffffff70, 0x1fffffffffffffff, 0xfffffe0000000000, 0x0000000000000000,
      0x0000000000000000, 0x0000000000000000, 0x0000000000000000, 0x0000000002ffffff,
      0xffffffffffffff40, 0x1fffffffffffffff, 0xffffff2000000000, 0x0000000000000000,
      0x0000000000000000, 0x0000000000000000, 0x0000000000000000, 0x0000000006ffffff,
      0xffffffffffffff10, 0x1fffffffffffffff, 0xffffff7000000000, 0x0000000000000000,
      0x0000000000000000, 0x0000000000000000, 0x0000000000000000, 0x000000000affffff,
      0xfffffffffffffe00, 0x1fffffffffffffff, 0xffffffb000000000, 0x0000000000000000,
      0x0000000000000000, 0x0000000000000000, 0x0000000000000000, 0x000000000effffff,
      0xfffffffffffffb00, 0x1fffffffffffffff, 0xfffffff000000000, 0x0000000000000000,
      0x0000000000000000, 0x0000000000000000, 0x0000000000000000, 0x000000003fffffff,
      0xfffffffffffff800, 0x1fffffffffffffff, 0xfffffff500000000, 0x0000000000000000,
      0x0000000000000000, 0x0000000000000000, 0x0000000000000000, 0x000000009fffffff,
      0xfffffffffffff400, 0x1fffffffffffffff, 0xfffffffa00000000, 0x0000000000000000,
      0x0000000000000000, 0x0000000000000000, 0x0000000000000000, 0x00000000efffffff,
      0xfffffffffffff000, 0x1fffffffffffffff, 0xffffffff10000000, 0x0000000000000000,
      0x0000000000000000, 0x0000000000000000, 0x0000000000000000, 0x00000004ffffffff,
      0xffffffffffffc000, 0x1fffffffffffffff, 0xffffffff70000000, 0x0000000000000000,
      0x0000000000000000, 0x0000000000000000, 0x0000000000000000, 0x0000000bffffffff,
      0xffffffffffff8000, 0x1fffffffffffffff, 0xffffffffd0000000, 0x0000000000000000,
      0x0000000000000000, 0x0000000000000000, 0x0000000000000000, 0x0000002fffffffff,
      0xffffffffffff3000, 0x1fffffffffffffff, 0xfffffffff4000000, 0x0000000000000000,
      0x0000000000000000, 0x0000000000000000, 0x0000000000000000, 0x0000009fffffffff,
      0xfffffffffffe0000, 0x1fffffffffffffff, 0xfffffffffc000000, 0x0000000000000000,
      0x0000000000000000, 0x0000000000000000]"

definition quicksand_256_glyph_0070_6 :: "u8 list" where
  "quicksand_256_glyph_0070_6 =
   lines
     [0x0000000000000000, 0x000001ffffffffff, 0xfffffffffff90000, 0x1fffffffffffffff,
      0xffffffffff400000, 0x0000000000000000, 0x0000000000000000, 0x0000000000000000,
      0x0000000000000000, 0x000008ffffffffff, 0xfffffffffff40000, 0x1fffffffffffffff,
      0xffffffffffc00000, 0x0000000000000000, 0x0000000000000000, 0x0000000000000000,
      0x0000000000000000, 0x00001fffffffffff, 0xffffffffffe00000, 0x1fffffffffffffff,
      0xfffffffffff40000, 0x0000000000000000, 0x0000000000000000, 0x0000000000000000,
      0x0000000000000000, 0x0000afffffffffff, 0xffffffffff800000, 0x1fffffffffffffff,
      0xfffffffffffd0000, 0x0000000000000000, 0x0000000000000000, 0x0000000000000000,
      0x0000000000000000, 0x0003ffffffffffff, 0xffffffffff200000, 0x1fffffffffffffff,
      0xffffffffffff8000, 0x0000000000000000, 0x0000000000000000, 0x0000000000000000,
      0x0000000000000000, 0x000dffffffffffff, 0xfffffffffc000000, 0x1fffffffffffffff,
      0xfffffffffffff200, 0x0000000000000000, 0x0000000000000000, 0x0000000000000000,
      0x0000000000000000, 0x007fffffffffffff, 0xfffffffff5000000, 0x1fffffffffffffff,
      0xfffffffffffffc00, 0x0000000000000000, 0x0000000000000000, 0x0000000000000000,
      0x0000000000000000, 0x03ffffffffffffff, 0xffffffffe0000000, 0x1fffffffffffffff,
      0xffffffffffffff80, 0x0000000000000000, 0x0000000000000000, 0x0000000000000000,
      0x0000000000000000, 0x0dffffffffffffff, 0xffffffff60000000, 0x1fffffffffffffff,
      0xfffffffffffffff5, 0x0000000000000000, 0x0000000000000000, 0x0000000000000000,
      0x0000000000000000, 0xafffffffffffffff, 0xfffffffe00000000, 0x1fffffffffffffff,
      0xffffffffffffffff, 0x3000000000000000, 0x0000000000000000, 0x0000000000000000,
      0x0000000000000008, 0xffffffffffffffff, 0xfffffff700000000, 0x1fffffffffffffff,
      0xffffffffffffffff, 0xe100000000000000, 0x0000000000000000, 0x0000000000000000,
      0x000000000000006f, 0xffffffffffffffff, 0xffffffe000000000, 0x1fffffffffffffff,
      0xffffffffffffffff, 0xfd10000000000000, 0x0000000000000000, 0x0000000000000000,
      0x00000000000005ff, 0xffffffffffffffff, 0xffffff6000000000, 0x1fffffffffffffff,
      0xffffffffffffffff, 0xffd1000000000000, 0x0000000000000000, 0x0000000000000000,
      0x0000000000004fff, 0xffffffffffffffff, 0xfffffc0000000000, 0x1fffffffffffffff,
      0xffffffffffffffff, 0xfffd200000000000, 0x0000000000000000, 0x0000000000000000,
      0x000000000005ffff, 0xffffffffffffffff, 0xfffff30000000000, 0x1fffffffffffffff,
      0xffffffffffffffff, 0xffffe30000000000, 0x0000000000000000, 0x0000000000000000,
      0x00000000007fffff, 0xffffffffffffffff, 0xffff900000000000, 0x1fffffffffffffff,
      0xffffffffffffffff, 0xffffff6000000000, 0x0000000000000000, 0x0000000000000000,
      0x000000000affffff, 0xffffffffffffffff, 0xfffe100000000000, 0x1fffffffffffffff,
      0xffffffffffffffff, 0xfffffffa10000000, 0x0000000000000000, 0x0000000000000000,
      0x00000002dfffffff, 0xffffffffffffffff, 0xfff5000000000000, 0x1fffffffffffffff,
      0xffffffffffffffff, 0xffffffffe4000000, 0x0000000000000000, 0x0000000000000000,
      0x0000007fffffffff, 0xffffffffffffffff, 0xffa0000000000000, 0x1fffffffffffffff,
      0xffffffffffffffff, 0xffffffffffa10000]"

definition quicksand_256_glyph_0070_7 :: "u8 list" where
  "quicksand_256_glyph_0070_7 =
   lines
     [0x0000000000000000, 0x0000000000000000, 0x00003dffffffffff, 0xffffffffffffffff,
      0xfe10000000000000, 0x1fffffffffffffff, 0xffffffffffffffff, 0xffffffffffff8100,
      0x0000000000000000, 0x0000000000000000, 0x002affffffffffff, 0xffffffffffffffff,
      0xf300000000000000, 0x1fffffffffffffff, 0xfffffbffffffffff, 0xffffffffffffff92,
      0x0000000000000000, 0x0000000000000000, 0x3affffffffffffff, 0xffffffffffffffff,
      0x7000000000000000, 0x1fffffffffffffff, 0xfffff69fffffffff, 0xffffffffffffffff,
      0xb500000000000000, 0x000000000000016d, 0xffffffffffffffff, 0xfffffffffffffffa,
      0x0000000000000000, 0x1fffffffffffffff, 0xfffff60cffffffff, 0xffffffffffffffff,
      0xfffb720000000000, 0x000000000037cfff, 0xffffffffffffffff, 0xffffffffffffffc0,
      0x0000000000000000, 0x1fffffffffffffff, 0xfffff601dfffffff, 0xffffffffffffffff,
      0xfffffffc96531100, 0x00123579cfffffff, 0xffffffffffffffff, 0xfffffffffffffd10,
      0x0000000000000000, 0x1fffffffffffffff, 0xfffff6002effffff, 0xffffffffffffffff,
      0xffffffffffffffff, 0xffffffffffffffff, 0xffffffffffffffff, 0xffffffffffffe200,
      0x0000000000000000, 0x1fffffffffffffff, 0xfffff60003ffffff, 0xffffffffffffffff,
      0xffffffffffffffff, 0xffffffffffffffff, 0xffffffffffffffff, 0xfffffffffffe2000,
      0x0000000000000000, 0x1fffffffffffffff, 0xfffff600003fffff, 0xffffffffffffffff,
      0xffffffffffffffff, 0xffffffffffffffff, 0xffffffffffffffff, 0xffffffffffe20000,
      0x0000000000000000, 0x1fffffffffffffff, 0xfffff6000003efff, 0xffffffffffffffff,
      0xffffffffffffffff, 0xffffffffffffffff, 0xffffffffffffffff, 0xfffffffffe200000,
      0x0000000000000000, 0x1fffffffffffffff, 0xfffff60000002dff, 0xffffffffffffffff,
      0xffffffffffffffff, 0xffffffffffffffff, 0xffffffffffffffff, 0xffffffffd1000000,
      0x0000000000000000, 0x1fffffffffffffff, 0xfffff600000001cf, 0xffffffffffffffff,
      0xffffffffffffffff, 0xffffffffffffffff, 0xffffffffffffffff, 0xfffffffb10000000,
      0x0000000000000000, 0x1fffffffffffffff, 0xfffff60000000009, 0xffffffffffffffff,
      0xffffffffffffffff, 0xffffffffffffffff, 0xffffffffffffffff, 0xffffff9000000000,
      0x0000000000000000, 0x1fffffffffffffff, 0xfffff60000000000, 0x5fffffffffffffff,
      0xffffffffffffffff, 0xffffffffffffffff, 0xffffffffffffffff, 0xfffff50000000000,
      0x0000000000000000, 0x1fffffffffffffff, 0xfffff60000000000, 0x02cfffffffffffff,
      0xffffffffffffffff, 0xffffffffffffffff, 0xffffffffffffffff, 0xfffc200000000000,
      0x0000000000000000, 0x1fffffffffffffff, 0xfffff60000000000, 0x0007ffffffffffff,
      0xffffffffffffffff, 0xffffffffffffffff, 0xffffffffffffffff, 0xff80000000000000,
      0x0000000000000000, 0x1fffffffffffffff, 0xfffff60000000000, 0x00001affffffffff,
      0xffffffffffffffff, 0xffffffffffffffff, 0xffffffffffffffff, 0xc300000000000000,
      0x0000000000000000, 0x1fffffffffffffff, 0xfffff60000000000, 0x0000004dffffffff,
      0xffffffffffffffff, 0xffffffffffffffff, 0xffffffffffffffe6, 0x0000000000000000,
      0x0000000000000000, 0x1fffffffffffffff, 0xfffff60000000000, 0x000000005dffffff,
      0xffffffffffffffff, 0xffffffffffffffff, 0xfffffffffffff800, 0x0000000000000000,
      0x0000000000000000, 0x1fffffffffffffff]"

definition quicksand_256_glyph_0070_8 :: "u8 list" where
  "quicksand_256_glyph_0070_8 =
   lines
     [0xfffff60000000000, 0x00000000005dffff, 0xffffffffffffffff, 0xffffffffffffffff,
      0xfffffffffff81000, 0x0000000000000000, 0x0000000000000000, 0x1fffffffffffffff,
      0xfffff60000000000, 0x0000000000004bff, 0xffffffffffffffff, 0xffffffffffffffff,
      0xffffffffd7000000, 0x0000000000000000, 0x0000000000000000, 0x1fffffffffffffff,
      0xfffff60000000000, 0x0000000000000018, 0xdfffffffffffffff, 0xffffffffffffffff,
      0xffffffa400000000, 0x0000000000000000, 0x0000000000000000, 0x1fffffffffffffff,
      0xfffff60000000000, 0x0000000000000000, 0x038dffffffffffff, 0xffffffffffffffff,
      0xffe9500000000000, 0x0000000000000000, 0x0000000000000000, 0x1fffffffffffffff,
      0xfffff60000000000, 0x0000000000000000, 0x000026adffffffff, 0xffffffffffffffda,
      0x6200000000000000, 0x0000000000000000, 0x0000000000000000, 0x1fffffffffffffff,
      0xfffff60000000000, 0x0000000000000000, 0x000000000368abde, 0xfffffedcba853000,
      0x0000000000000000, 0x0000000000000000, 0x0000000000000000, 0x1fffffffffffffff,
      0xfffff60000000000, 0x0000000000000000, 0x0000000000000000, 0x0000000000000000,
      0x0000000000000000, 0x0000000000000000, 0x0000000000000000, 0x1fffffffffffffff,
      0xfffff60000000000, 0x0000000000000000, 0x0000000000000000, 0x0000000000000000,
      0x0000000000000000, 0x0000000000000000, 0x0000000000000000, 0x1fffffffffffffff,
      0xfffff60000000000, 0x0000000000000000, 0x0000000000000000, 0x0000000000000000,
      0x0000000000000000, 0x0000000000000000, 0x0000000000000000, 0x1fffffffffffffff,
      0xfffff60000000000, 0x0000000000000000, 0x0000000000000000, 0x0000000000000000,
      0x0000000000000000, 0x0000000000000000, 0x0000000000000000, 0x1fffffffffffffff,
      0xfffff60000000000, 0x0000000000000000, 0x0000000000000000, 0x0000000000000000,
      0x0000000000000000, 0x0000000000000000, 0x0000000000000000, 0x1fffffffffffffff,
      0xfffff60000000000, 0x0000000000000000, 0x0000000000000000, 0x0000000000000000,
      0x0000000000000000, 0x0000000000000000, 0x0000000000000000, 0x1fffffffffffffff,
      0xfffff60000000000, 0x0000000000000000, 0x0000000000000000, 0x0000000000000000,
      0x0000000000000000, 0x0000000000000000, 0x0000000000000000, 0x1fffffffffffffff,
      0xfffff60000000000, 0x0000000000000000, 0x0000000000000000, 0x0000000000000000,
      0x0000000000000000, 0x0000000000000000, 0x0000000000000000, 0x1fffffffffffffff,
      0xfffff60000000000, 0x0000000000000000, 0x0000000000000000, 0x0000000000000000,
      0x0000000000000000, 0x0000000000000000, 0x0000000000000000, 0x1fffffffffffffff,
      0xfffff60000000000, 0x0000000000000000, 0x0000000000000000, 0x0000000000000000,
      0x0000000000000000, 0x0000000000000000, 0x0000000000000000, 0x1fffffffffffffff,
      0xfffff60000000000, 0x0000000000000000, 0x0000000000000000, 0x0000000000000000,
      0x0000000000000000, 0x0000000000000000, 0x0000000000000000, 0x1fffffffffffffff,
      0xfffff60000000000, 0x0000000000000000, 0x0000000000000000, 0x0000000000000000,
      0x0000000000000000, 0x0000000000000000, 0x0000000000000000, 0x1fffffffffffffff,
      0xfffff60000000000, 0x0000000000000000, 0x0000000000000000, 0x0000000000000000,
      0x0000000000000000, 0x0000000000000000]"

definition quicksand_256_glyph_0070_9 :: "u8 list" where
  "quicksand_256_glyph_0070_9 =
   lines
     [0x0000000000000000, 0x1fffffffffffffff, 0xfffff60000000000, 0x0000000000000000,
      0x0000000000000000, 0x0000000000000000, 0x0000000000000000, 0x0000000000000000,
      0x0000000000000000, 0x1fffffffffffffff, 0xfffff60000000000, 0x0000000000000000,
      0x0000000000000000, 0x0000000000000000, 0x0000000000000000, 0x0000000000000000,
      0x0000000000000000, 0x1fffffffffffffff, 0xfffff60000000000, 0x0000000000000000,
      0x0000000000000000, 0x0000000000000000, 0x0000000000000000, 0x0000000000000000,
      0x0000000000000000, 0x1fffffffffffffff, 0xfffff60000000000, 0x0000000000000000,
      0x0000000000000000, 0x0000000000000000, 0x0000000000000000, 0x0000000000000000,
      0x0000000000000000, 0x1fffffffffffffff, 0xfffff60000000000, 0x0000000000000000,
      0x0000000000000000, 0x0000000000000000, 0x0000000000000000, 0x0000000000000000,
      0x0000000000000000, 0x1fffffffffffffff, 0xfffff60000000000, 0x0000000000000000,
      0x0000000000000000, 0x0000000000000000, 0x0000000000000000, 0x0000000000000000,
      0x0000000000000000, 0x1fffffffffffffff, 0xfffff60000000000, 0x0000000000000000,
      0x0000000000000000, 0x0000000000000000, 0x0000000000000000, 0x0000000000000000,
      0x0000000000000000, 0x1fffffffffffffff, 0xfffff60000000000, 0x0000000000000000,
      0x0000000000000000, 0x0000000000000000, 0x0000000000000000, 0x0000000000000000,
      0x0000000000000000, 0x1fffffffffffffff, 0xfffff60000000000, 0x0000000000000000,
      0x0000000000000000, 0x0000000000000000, 0x0000000000000000, 0x0000000000000000,
      0x0000000000000000, 0x1fffffffffffffff, 0xfffff60000000000, 0x0000000000000000,
      0x0000000000000000, 0x0000000000000000, 0x0000000000000000, 0x0000000000000000,
      0x0000000000000000, 0x1fffffffffffffff, 0xfffff60000000000, 0x0000000000000000,
      0x0000000000000000, 0x0000000000000000, 0x0000000000000000, 0x0000000000000000,
      0x0000000000000000, 0x1fffffffffffffff, 0xfffff60000000000, 0x0000000000000000,
      0x0000000000000000, 0x0000000000000000, 0x0000000000000000, 0x0000000000000000,
      0x0000000000000000, 0x1fffffffffffffff, 0xfffff60000000000, 0x0000000000000000,
      0x0000000000000000, 0x0000000000000000, 0x0000000000000000, 0x0000000000000000,
      0x0000000000000000, 0x1fffffffffffffff, 0xfffff60000000000, 0x0000000000000000,
      0x0000000000000000, 0x0000000000000000, 0x0000000000000000, 0x0000000000000000,
      0x0000000000000000, 0x1fffffffffffffff, 0xfffff60000000000, 0x0000000000000000,
      0x0000000000000000, 0x0000000000000000, 0x0000000000000000, 0x0000000000000000,
      0x0000000000000000, 0x1fffffffffffffff, 0xfffff60000000000, 0x0000000000000000,
      0x0000000000000000, 0x0000000000000000, 0x0000000000000000, 0x0000000000000000,
      0x0000000000000000, 0x1fffffffffffffff, 0xfffff60000000000, 0x0000000000000000,
      0x0000000000000000, 0x0000000000000000, 0x0000000000000000, 0x0000000000000000,
      0x0000000000000000, 0x1fffffffffffffff, 0xfffff60000000000, 0x0000000000000000,
      0x0000000000000000, 0x0000000000000000, 0x0000000000000000, 0x0000000000000000,
      0x0000000000000000, 0x1fffffffffffffff, 0xfffff60000000000, 0x0000000000000000,
      0x0000000000000000, 0x0000000000000000]"

definition quicksand_256_glyph_0070_10 :: "u8 list" where
  "quicksand_256_glyph_0070_10 =
   lines
     [0x0000000000000000, 0x0000000000000000, 0x0000000000000000, 0x1fffffffffffffff,
      0xfffff60000000000, 0x0000000000000000, 0x0000000000000000, 0x0000000000000000,
      0x0000000000000000, 0x0000000000000000, 0x0000000000000000, 0x1fffffffffffffff,
      0xfffff60000000000, 0x0000000000000000, 0x0000000000000000, 0x0000000000000000,
      0x0000000000000000, 0x0000000000000000, 0x0000000000000000, 0x1fffffffffffffff,
      0xfffff60000000000, 0x0000000000000000, 0x0000000000000000, 0x0000000000000000,
      0x0000000000000000, 0x0000000000000000, 0x0000000000000000, 0x1fffffffffffffff,
      0xfffff60000000000, 0x0000000000000000, 0x0000000000000000, 0x0000000000000000,
      0x0000000000000000, 0x0000000000000000, 0x0000000000000000, 0x1fffffffffffffff,
      0xfffff60000000000, 0x0000000000000000, 0x0000000000000000, 0x0000000000000000,
      0x0000000000000000, 0x0000000000000000, 0x0000000000000000, 0x1fffffffffffffff,
      0xfffff60000000000, 0x0000000000000000, 0x0000000000000000, 0x0000000000000000,
      0x0000000000000000, 0x0000000000000000, 0x0000000000000000, 0x0fffffffffffffff,
      0xfffff60000000000, 0x0000000000000000, 0x0000000000000000, 0x0000000000000000,
      0x0000000000000000, 0x0000000000000000, 0x0000000000000000, 0x0fffffffffffffff,
      0xfffff60000000000, 0x0000000000000000, 0x0000000000000000, 0x0000000000000000,
      0x0000000000000000, 0x0000000000000000, 0x0000000000000000, 0x0effffffffffffff,
      0xfffff40000000000, 0x0000000000000000, 0x0000000000000000, 0x0000000000000000,
      0x0000000000000000, 0x0000000000000000, 0x0000000000000000, 0x0bffffffffffffff,
      0xfffff00000000000, 0x0000000000000000, 0x0000000000000000, 0x0000000000000000,
      0x0000000000000000, 0x0000000000000000, 0x0000000000000000, 0x06ffffffffffffff,
      0xffffb00000000000, 0x0000000000000000, 0x0000000000000000, 0x0000000000000000,
      0x0000000000000000, 0x0000000000000000, 0x0000000000000000, 0x00efffffffffffff,
      0xffff400000000000, 0x0000000000000000, 0x0000000000000000, 0x0000000000000000,
      0x0000000000000000, 0x0000000000000000, 0x0000000000000000, 0x005fffffffffffff,
      0xfffb000000000000, 0x0000000000000000, 0x0000000000000000, 0x0000000000000000,
      0x0000000000000000, 0x0000000000000000, 0x0000000000000000, 0x0009ffffffffffff,
      0xffe1000000000000, 0x0000000000000000, 0x0000000000000000, 0x0000000000000000,
      0x0000000000000000, 0x0000000000000000, 0x0000000000000000, 0x00009fffffffffff,
      0xfd20000000000000, 0x0000000000000000, 0x0000000000000000, 0x0000000000000000,
      0x0000000000000000, 0x0000000000000000, 0x0000000000000000, 0x000005efffffffff,
      0xa100000000000000, 0x0000000000000000, 0x0000000000000000, 0x0000000000000000,
      0x0000000000000000, 0x0000000000000000, 0x0000000000000000, 0x00000006adffec82,
      0x0000000000000000, 0x0000000000000000, 0x0000000000000000, 0x0000000000000000,
      0x0000000000000000, 0x0000000000000000, 0x0000000000000000]"

definition quicksand_256_glyph_0070 :: "u8 list" where
  "quicksand_256_glyph_0070 = quicksand_256_glyph_0070_1 @ quicksand_256_glyph_0070_2 @ quicksand_256_glyph_0070_3 @ quicksand_256_glyph_0070_4 @ quicksand_256_glyph_0070_5 @ quicksand_256_glyph_0070_6 @ quicksand_256_glyph_0070_7 @ quicksand_256_glyph_0070_8 @ quicksand_256_glyph_0070_9 @ quicksand_256_glyph_0070_10"

definition quicksand_256_glyph_0072_1 :: "u8 list" where
  "quicksand_256_glyph_0072_1 =
   lines
     [0x0000000000000000, 0x0000000000000000, 0x0000000000000000, 0x00000000257abdef,
      0xfffec96200000000, 0x0000000000000000, 0x0000000000000000, 0x0000000000000000,
      0x0000027befffffff, 0xfffffffffd700000, 0x0000000000000000, 0x0000000000000000,
      0x0000000000000000, 0x00028dffffffffff, 0xfffffffffffff700, 0x0000000000058aa9,
      0x7300000000000000, 0x0000000000000000, 0x004bffffffffffff, 0xfffffffffffffffd,
      0x30000000019fffff, 0xfffd500000000000, 0x0000000000000000, 0x05dfffffffffffff,
      0xffffffffffffffff, 0xff40000004efffff, 0xffffffa000000000, 0x0000000000000000,
      0x3cffffffffffffff, 0xffffffffffffffff, 0xffff200005ffffff, 0xffffffffb0000000,
      0x0000000000000001, 0xafffffffffffffff, 0xffffffffffffffff, 0xfffffa0002ffffff,
      0xffffffffff900000, 0x0000000000000005, 0xefffffffffffffff, 0xffffffffffffffff,
      0xfffffff100cfffff, 0xffffffffffff3000, 0x000000000000001a, 0xffffffffffffffff,
      0xffffffffffffffff, 0xffffffff604fffff, 0xfffffffffffffa00, 0x000000000000003d,
      0xffffffffffffffff, 0xffffffffffffffff, 0xfffffffff80affff, 0xfffffffffffffff0,
      0x000000000000005f, 0xffffffffffffffff, 0xffffffffffffffff, 0xffffffffff80dfff,
      0xffffffffffffffff, 0x300000000000007f, 0xffffffffffffffff, 0xffffffffffffffff,
      0xfffffffffff80fff, 0xffffffffffffffff, 0xf50000000000008f, 0xffffffffffffffff,
      0xffffffffffffffff, 0xffffffffffff60ff, 0xffffffffffffffff, 0xff6000000000008f,
      0xffffffffffffffff, 0xffffffffffffffff, 0xfffffffffffff31f, 0xffffffffffffffff,
      0xfff600000000008f, 0xffffffffffffffff, 0xffffffffffffffff, 0xffffffffffffff01,
      0xffffffffffffffff, 0xffff60000000007f, 0xffffffffffffffff, 0xffffffffffffffff,
      0xffffffffffffffa0, 0x1fffffffffffffff, 0xfffff6000000005f, 0xffffffffffffffff,
      0xffffffffffffffff, 0xfffffffffffffff2, 0x01ffffffffffffff, 0xffffff600000003f,
      0xffffffffffffffff, 0xffffffffffffffff, 0xfffffffffffffff6, 0x001fffffffffffff,
      0xfffffff60000001d, 0xffffffffffffffff, 0xfffffb7420000125, 0x8dfffffffffffff6,
      0x0001ffffffffffff, 0xffffffff6000000b, 0xffffffffffffffff, 0xfffa400000000000,
      0x00039fffffffffc3, 0x00001fffffffffff, 0xfffffffff6000006, 0xffffffffffffffff,
      0xfe71000000000000, 0x000000048accb830, 0x000001ffffffffff, 0xffffffffff600002,
      0xffffffffffffffff, 0xf700000000000000, 0x0000000000000000, 0x0000001fffffffff,
      0xfffffffffff60000, 0xcfffffffffffffff, 0xb100000000000000, 0x0000000000000000,
      0x00000001ffffffff, 0xffffffffffff6000, 0x6fffffffffffffff, 0x5000000000000000,
      0x0000000000000000, 0x000000001fffffff, 0xfffffffffffff600, 0x1efffffffffffffd,
      0x2000000000000000, 0x0000000000000000, 0x0000000001ffffff, 0xffffffffffffff60,
      0x08fffffffffffffb, 0x0000000000000000, 0x0000000000000000, 0x00000000001fffff,
      0xfffffffffffffff6, 0x02fffffffffffff9, 0x0000000000000000, 0x0000000000000000,
      0x000000000001ffff, 0xffffffffffffffff, 0x609ffffffffffff8, 0x0000000000000000,
      0x0000000000000000, 0x0000000000001fff, 0xffffffffffffffff, 0xf62ffffffffffff8,
      0x0000000000000000, 0x0000000000000000, 0x00000000000001ff, 0xffffffffffffffff,
      0xff69fffffffffff9]"

definition quicksand_256_glyph_0072_2 :: "u8 list" where
  "quicksand_256_glyph_0072_2 =
   lines
     [0x0000000000000000, 0x0000000000000000, 0x000000000000001f, 0xffffffffffffffff,
      0xfff7fffffffffffb, 0x0000000000000000, 0x0000000000000000, 0x0000000000000001,
      0xffffffffffffffff, 0xffffdffffffffffd, 0x1000000000000000, 0x0000000000000000,
      0x0000000000000000, 0x1fffffffffffffff, 0xffffffffffffffff, 0x2000000000000000,
      0x0000000000000000, 0x0000000000000000, 0x01ffffffffffffff, 0xffffffffffffffff,
      0x6000000000000000, 0x0000000000000000, 0x0000000000000000, 0x001fffffffffffff,
      0xffffffffffffffff, 0xa000000000000000, 0x0000000000000000, 0x0000000000000000,
      0x0001ffffffffffff, 0xffffffffffffffff, 0xe100000000000000, 0x0000000000000000,
      0x0000000000000000, 0x00001fffffffffff, 0xffffffffffffffff, 0xf500000000000000,
      0x0000000000000000, 0x0000000000000000, 0x000001ffffffffff, 0xffffffffffffffff,
      0xfb00000000000000, 0x0000000000000000, 0x0000000000000000, 0x0000001fffffffff,
      0xffffffffffffffff, 0xff20000000000000, 0x0000000000000000, 0x0000000000000000,
      0x00000001ffffffff, 0xffffffffffffffff, 0xff90000000000000, 0x0000000000000000,
      0x0000000000000000, 0x000000001fffffff, 0xffffffffffffffff, 0xfff1000000000000,
      0x0000000000000000, 0x0000000000000000, 0x0000000001ffffff, 0xffffffffffffffff,
      0xfff8000000000000, 0x0000000000000000, 0x0000000000000000, 0x00000000001fffff,
      0xffffffffffffffff, 0xffff100000000000, 0x0000000000000000, 0x0000000000000000,
      0x000000000001ffff, 0xffffffffffffffff, 0xffff900000000000, 0x0000000000000000,
      0x0000000000000000, 0x0000000000001fff, 0xffffffffffffffff, 0xfffff20000000000,
      0x0000000000000000, 0x0000000000000000, 0x00000000000001ff, 0xffffffffffffffff,
      0xfffffc0000000000, 0x0000000000000000, 0x0000000000000000, 0x000000000000001f,
      0xffffffffffffffff, 0xffffff5000000000, 0x0000000000000000, 0x0000000000000000,
      0x0000000000000001, 0xffffffffffffffff, 0xfffffff000000000, 0x0000000000000000,
      0x0000000000000000, 0x0000000000000000, 0x1fffffffffffffff, 0xfffffffa00000000,
      0x0000000000000000, 0x0000000000000000, 0x0000000000000000, 0x01ffffffffffffff,
      0xffffffff50000000, 0x0000000000000000, 0x0000000000000000, 0x0000000000000000,
      0x001fffffffffffff, 0xfffffffff1000000, 0x0000000000000000, 0x0000000000000000,
      0x0000000000000000, 0x0001ffffffffffff, 0xfffffffffd000000, 0x0000000000000000,
      0x0000000000000000, 0x0000000000000000, 0x00001fffffffffff, 0xffffffffff900000,
      0x0000000000000000, 0x0000000000000000, 0x0000000000000000, 0x000001ffffffffff,
      0xfffffffffff50000, 0x0000000000000000, 0x0000000000000000, 0x0000000000000000,
      0x0000001fffffffff, 0xffffffffffff2000, 0x0000000000000000, 0x0000000000000000,
      0x0000000000000000, 0x00000001ffffffff, 0xfffffffffffff000, 0x0000000000000000,
      0x0000000000000000, 0x0000000000000000, 0x000000001fffffff, 0xfffffffffffffd00,
      0x0000000000000000, 0x0000000000000000, 0x0000000000000000, 0x0000000001ffffff,
      0xffffffffffffffb0, 0x0000000000000000, 0x0000000000000000, 0x0000000000000000,
      0x00000000001fffff, 0xfffffffffffffffa, 0x0000000000000000, 0x0000000000000000,
      0x0000000000000000, 0x000000000001ffff]"

definition quicksand_256_glyph_0072_3 :: "u8 list" where
  "quicksand_256_glyph_0072_3 =
   lines
     [0xffffffffffffffff, 0x8000000000000000, 0x0000000000000000, 0x0000000000000000,
      0x0000000000001fff, 0xffffffffffffffff, 0xf700000000000000, 0x0000000000000000,
      0x0000000000000000, 0x00000000000001ff, 0xffffffffffffffff, 0xff70000000000000,
      0x0000000000000000, 0x0000000000000000, 0x000000000000001f, 0xffffffffffffffff,
      0xfff6000000000000, 0x0000000000000000, 0x0000000000000000, 0x0000000000000001,
      0xffffffffffffffff, 0xffff600000000000, 0x0000000000000000, 0x0000000000000000,
      0x0000000000000000, 0x1fffffffffffffff, 0xfffff60000000000, 0x0000000000000000,
      0x0000000000000000, 0x0000000000000000, 0x01ffffffffffffff, 0xffffff6000000000,
      0x0000000000000000, 0x0000000000000000, 0x0000000000000000, 0x001fffffffffffff,
      0xfffffff600000000, 0x0000000000000000, 0x0000000000000000, 0x0000000000000000,
      0x0001ffffffffffff, 0xffffffff60000000, 0x0000000000000000, 0x0000000000000000,
      0x0000000000000000, 0x00001fffffffffff, 0xfffffffff6000000, 0x0000000000000000,
      0x0000000000000000, 0x0000000000000000, 0x000001ffffffffff, 0xffffffffff600000,
      0x0000000000000000, 0x0000000000000000, 0x0000000000000000, 0x0000001fffffffff,
      0xfffffffffff60000, 0x0000000000000000, 0x0000000000000000, 0x0000000000000000,
      0x00000001ffffffff, 0xffffffffffff6000, 0x0000000000000000, 0x0000000000000000,
      0x0000000000000000, 0x000000001fffffff, 0xfffffffffffff600, 0x0000000000000000,
      0x0000000000000000, 0x0000000000000000, 0x0000000001ffffff, 0xffffffffffffff60,
      0x0000000000000000, 0x0000000000000000, 0x0000000000000000, 0x00000000001fffff,
      0xfffffffffffffff6, 0x0000000000000000, 0x0000000000000000, 0x0000000000000000,
      0x000000000001ffff, 0xffffffffffffffff, 0x6000000000000000, 0x0000000000000000,
      0x0000000000000000, 0x0000000000001fff, 0xffffffffffffffff, 0xf600000000000000,
      0x0000000000000000, 0x0000000000000000, 0x00000000000001ff, 0xffffffffffffffff,
      0xff60000000000000, 0x0000000000000000, 0x0000000000000000, 0x000000000000001f,
      0xffffffffffffffff, 0xfff6000000000000, 0x0000000000000000, 0x0000000000000000,
      0x0000000000000001, 0xffffffffffffffff, 0xffff600000000000, 0x0000000000000000,
      0x0000000000000000, 0x0000000000000000, 0x1fffffffffffffff, 0xfffff60000000000,
      0x0000000000000000, 0x0000000000000000, 0x0000000000000000, 0x01ffffffffffffff,
      0xffffff6000000000, 0x0000000000000000, 0x0000000000000000, 0x0000000000000000,
      0x001fffffffffffff, 0xfffffff600000000, 0x0000000000000000, 0x0000000000000000,
      0x0000000000000000, 0x0001ffffffffffff, 0xffffffff60000000, 0x0000000000000000,
      0x0000000000000000, 0x0000000000000000, 0x00001fffffffffff, 0xfffffffff6000000,
      0x0000000000000000, 0x0000000000000000, 0x0000000000000000, 0x000001ffffffffff,
      0xffffffffff600000, 0x0000000000000000, 0x0000000000000000, 0x0000000000000000,
      0x0000001fffffffff, 0xfffffffffff60000, 0x0000000000000000, 0x0000000000000000,
      0x0000000000000000, 0x00000001ffffffff, 0xffffffffffff6000, 0x0000000000000000,
      0x0000000000000000, 0x0000000000000000, 0x000000001fffffff, 0xfffffffffffff600,
      0x0000000000000000, 0x0000000000000000]"

definition quicksand_256_glyph_0072_4 :: "u8 list" where
  "quicksand_256_glyph_0072_4 =
   lines
     [0x0000000000000000, 0x0000000001ffffff, 0xffffffffffffff60, 0x0000000000000000,
      0x0000000000000000, 0x0000000000000000, 0x00000000001fffff, 0xfffffffffffffff6,
      0x0000000000000000, 0x0000000000000000, 0x0000000000000000, 0x000000000001ffff,
      0xffffffffffffffff, 0x6000000000000000, 0x0000000000000000, 0x0000000000000000,
      0x0000000000001fff, 0xffffffffffffffff, 0xf600000000000000, 0x0000000000000000,
      0x0000000000000000, 0x00000000000001ff, 0xffffffffffffffff, 0xff60000000000000,
      0x0000000000000000, 0x0000000000000000, 0x000000000000001f, 0xffffffffffffffff,
      0xfff6000000000000, 0x0000000000000000, 0x0000000000000000, 0x0000000000000001,
      0xffffffffffffffff, 0xffff600000000000, 0x0000000000000000, 0x0000000000000000,
      0x0000000000000000, 0x1fffffffffffffff, 0xfffff60000000000, 0x0000000000000000,
      0x0000000000000000, 0x0000000000000000, 0x01ffffffffffffff, 0xffffff6000000000,
      0x0000000000000000, 0x0000000000000000, 0x0000000000000000, 0x001fffffffffffff,
      0xfffffff600000000, 0x0000000000000000, 0x0000000000000000, 0x0000000000000000,
      0x0001ffffffffffff, 0xffffffff60000000, 0x0000000000000000, 0x0000000000000000,
      0x0000000000000000, 0x00001fffffffffff, 0xfffffffff6000000, 0x0000000000000000,
      0x0000000000000000, 0x0000000000000000, 0x000001ffffffffff, 0xffffffffff600000,
      0x0000000000000000, 0x0000000000000000, 0x0000000000000000, 0x0000001fffffffff,
      0xfffffffffff60000, 0x0000000000000000, 0x0000000000000000, 0x0000000000000000,
      0x00000001ffffffff, 0xffffffffffff6000, 0x0000000000000000, 0x0000000000000000,
      0x0000000000000000, 0x000000001fffffff, 0xfffffffffffff600, 0x0000000000000000,
      0x0000000000000000, 0x0000000000000000, 0x0000000001ffffff, 0xffffffffffffff60,
      0x0000000000000000, 0x0000000000000000, 0x0000000000000000, 0x00000000001fffff,
      0xfffffffffffffff6, 0x0000000000000000, 0x0000000000000000, 0x0000000000000000,
      0x000000000001ffff, 0xffffffffffffffff, 0x6000000000000000, 0x0000000000000000,
      0x0000000000000000, 0x0000000000001fff, 0xffffffffffffffff, 0xf600000000000000,
      0x0000000000000000, 0x0000000000000000, 0x00000000000001ff, 0xffffffffffffffff,
      0xff60000000000000, 0x0000000000000000, 0x0000000000000000, 0x000000000000001f,
      0xffffffffffffffff, 0xfff6000000000000, 0x0000000000000000, 0x0000000000000000,
      0x0000000000000001, 0xffffffffffffffff, 0xffff600000000000, 0x0000000000000000,
      0x0000000000000000, 0x0000000000000000, 0x1fffffffffffffff, 0xfffff60000000000,
      0x0000000000000000, 0x0000000000000000, 0x0000000000000000, 0x01ffffffffffffff,
      0xffffff6000000000, 0x0000000000000000, 0x0000000000000000, 0x0000000000000000,
      0x001fffffffffffff, 0xfffffff600000000, 0x0000000000000000, 0x0000000000000000,
      0x0000000000000000, 0x0001ffffffffffff, 0xffffffff60000000, 0x0000000000000000,
      0x0000000000000000, 0x0000000000000000, 0x00001fffffffffff, 0xfffffffff6000000,
      0x0000000000000000, 0x0000000000000000, 0x0000000000000000, 0x000001ffffffffff,
      0xffffffffff600000, 0x0000000000000000, 0x0000000000000000, 0x0000000000000000,
      0x0000001fffffffff, 0xfffffffffff60000]"

definition quicksand_256_glyph_0072_5 :: "u8 list" where
  "quicksand_256_glyph_0072_5 =
   lines
     [0x0000000000000000, 0x0000000000000000, 0x0000000000000000, 0x00000001ffffffff,
      0xffffffffffff6000, 0x0000000000000000, 0x0000000000000000, 0x0000000000000000,
      0x000000001fffffff, 0xfffffffffffff600, 0x0000000000000000, 0x0000000000000000,
      0x0000000000000000, 0x0000000001ffffff, 0xffffffffffffff60, 0x0000000000000000,
      0x0000000000000000, 0x0000000000000000, 0x00000000001fffff, 0xfffffffffffffff6,
      0x0000000000000000, 0x0000000000000000, 0x0000000000000000, 0x000000000001ffff,
      0xffffffffffffffff, 0x6000000000000000, 0x0000000000000000, 0x0000000000000000,
      0x0000000000001fff, 0xffffffffffffffff, 0xf600000000000000, 0x0000000000000000,
      0x0000000000000000, 0x00000000000000ff, 0xffffffffffffffff, 0xff60000000000000,
      0x0000000000000000, 0x0000000000000000, 0x000000000000000f, 0xffffffffffffffff,
      0xfff5000000000000, 0x0000000000000000, 0x0000000000000000, 0x0000000000000000,
      0xefffffffffffffff, 0xffff300000000000, 0x0000000000000000, 0x0000000000000000,
      0x0000000000000000, 0x0affffffffffffff, 0xfffff00000000000, 0x0000000000000000,
      0x0000000000000000, 0x0000000000000000, 0x005fffffffffffff, 0xfffffa0000000000,
      0x0000000000000000, 0x0000000000000000, 0x0000000000000000, 0x0000dfffffffffff,
      0xffffff3000000000, 0x0000000000000000, 0x0000000000000000, 0x0000000000000000,
      0x000004ffffffffff, 0xffffff9000000000, 0x0000000000000000, 0x0000000000000000,
      0x0000000000000000, 0x00000007ffffffff, 0xffffffc000000000, 0x0000000000000000,
      0x0000000000000000, 0x0000000000000000, 0x0000000008ffffff, 0xffffffc100000000,
      0x0000000000000000, 0x0000000000000000, 0x0000000000000000, 0x000000000004dfff,
      0xffffff8000000000, 0x0000000000000000, 0x0000000000000000, 0x0000000000000000,
      0x000000000000005a, 0xdffeb71000000000, 0x0000000000000000, 0x0000000000000000,
      0x0000000000000000] @
   line 4 0x00000000"

definition quicksand_256_glyph_0072 :: "u8 list" where
  "quicksand_256_glyph_0072 = quicksand_256_glyph_0072_1 @ quicksand_256_glyph_0072_2 @ quicksand_256_glyph_0072_3 @ quicksand_256_glyph_0072_4 @ quicksand_256_glyph_0072_5"

text \<open>The glyph blocks of the bitmap with the code points of their comments.\<close>

definition quicksand_256_blocks :: "(nat \<times> u8 list) list" where
  "quicksand_256_blocks =
    [(32, []),
     (80, quicksand_256_glyph_0050),
     (99, quicksand_256_glyph_0063),
     (110, quicksand_256_glyph_006e),
     (111, quicksand_256_glyph_006f),
     (112, quicksand_256_glyph_0070),
     (114, quicksand_256_glyph_0072)]"

definition quicksand_256_glyph_bitmap :: "u8 list" where
  "quicksand_256_glyph_bitmap = concat (map snd quicksand_256_blocks)"

definition quicksand_256_glyph_dsc :: "glyph_dsc list" where
  "quicksand_256_glyph_dsc =
    [gd 0 0 0 0 0 0,
     gd 0 1126 0 0 0 0,
     gd 0 2454 121 180 22 0,
     gd 10890 2126 114 139 11 (-3),
     gd 18813 2392 113 136 18 0,
     gd 26497 2503 134 139 11 (-3),
     gd 35810 2515 128 186 18 (-51),
     gd 47714 1642 81 136 18 0]"

definition quicksand_256_unicode_list_0 :: "nat list" where
  "quicksand_256_unicode_list_0 = [0x0, 0x30, 0x43, 0x4e, 0x4f, 0x50, 0x52]"

definition quicksand_256_cmap :: cmap where
  "quicksand_256_cmap =
     \<lparr>range_start = 32, range_length = 83, glyph_id_start = 1, unicode_list = Some quicksand_256_unicode_list_0,
      list_length = 7, cmap_type = CMAP_SPARSE_TINY\<rparr>"

definition quicksand_256_kern_pair_glyph_ids :: "nat list" where
  "quicksand_256_kern_pair_glyph_ids = [2, 3, 2, 5, 7, 3, 7, 5]"

definition quicksand_256_kern_pair_values :: "int list" where
  "quicksand_256_kern_pair_values = [- 41, - 41, - 90, - 90]"

definition quicksand_256_kern_pairs :: kern_pair where
  "quicksand_256_kern_pairs =
     \<lparr>glyph_ids = quicksand_256_kern_pair_glyph_ids, kern_values = quicksand_256_kern_pair_values,
      pair_cnt = 4, glyph_ids_size = 0\<rparr>"

definition quicksand_256_font_dsc :: "lvgl_version \<Rightarrow> font_dsc" where
  "quicksand_256_font_dsc v =
     \<lparr>glyph_bitmap = quicksand_256_glyph_bitmap, glyph_dscs = quicksand_256_glyph_dsc, cmaps = [quicksand_256_cmap],
      kern_dsc = Some quicksand_256_kern_pairs, kern_scale = 16, cmap_num = 1, bpp = 4, kern_classes = 0,
      bitmap_format = 0, has_cache = (v_check v 8 0 0)\<rparr>"

definition quicksand_256 :: "lvgl_version \<Rightarrow> lv_font" where
  "quicksand_256 v =
     \<lparr>line_height = 231, base_line = 51,
      subpx_none = (if \<not> (v_major v = 6 \<and> v_minor v = 0) then Some () else None),
      underline = (if v_check v 7 4 0 \<or> 8 \<le> v_major v then Some (- 26, 13) else None),
      dsc = quicksand_256_font_dsc v\<rparr>"

section \<open>Properties\<close>

lemmas quicksand_256_glyphs = quicksand_256_glyph_0050_1_def
  quicksand_256_glyph_0050_2_def
  quicksand_256_glyph_0050_3_def
  quicksand_256_glyph_0050_4_def
  quicksand_256_glyph_0050_5_def
  quicksand_256_glyph_0050_6_def
  quicksand_256_glyph_0050_7_def
  quicksand_256_glyph_0050_8_def
  quicksand_256_glyph_0050_9_def
  quicksand_256_glyph_0050_10_def
  quicksand_256_glyph_0050_def
  quicksand_256_glyph_0063_1_def
  quicksand_256_glyph_0063_2_def
  quicksand_256_glyph_0063_3_def
  quicksand_256_glyph_0063_4_def
  quicksand_256_glyph_0063_5_def
  quicksand_256_glyph_0063_6_def
  quicksand_256_glyph_0063_7_def
  quicksand_256_glyph_0063_def
  quicksand_256_glyph_006e_1_def
  quicksand_256_glyph_006e_2_def
  quicksand_256_glyph_006e_3_def
  quicksand_256_glyph_006e_4_def
  quicksand_256_glyph_006e_5_def
  quicksand_256_glyph_006e_6_def
  quicksand_256_glyph_006e_7_def
  quicksand_256_glyph_006e_def
  quicksand_256_glyph_006f_1_def
  quicksand_256_glyph_006f_2_def
  quicksand_256_glyph_006f_3_def
  quicksand_256_glyph_006f_4_def
  quicksand_256_glyph_006f_5_def
  quicksand_256_glyph_006f_6_def
  quicksand_256_glyph_006f_7_def
  quicksand_256_glyph_006f_8_def
  quicksand_256_glyph_006f_def
  quicksand_256_glyph_0070_1_def
  quicksand_256_glyph_0070_2_def
  quicksand_256_glyph_0070_3_def
  quicksand_256_glyph_0070_4_def
  quicksand_256_glyph_0070_5_def
  quicksand_256_glyph_0070_6_def
  quicksand_256_glyph_0070_7_def
  quicksand_256_glyph_0070_8_def
  quicksand_256_glyph_0070_9_def
  quicksand_256_glyph_0070_10_def
  quicksand_256_glyph_0070_def
  quicksand_256_glyph_0072_1_def
  quicksand_256_glyph_0072_2_def
  quicksand_256_glyph_0072_3_def
  quicksand_256_glyph_0072_4_def
  quicksand_256_glyph_0072_5_def
  quicksand_256_glyph_0072_def
  quicksand_256_kern_pair_glyph_ids_def

lemma quicksand_256_tiled: "tiled 4 0 (tl quicksand_256_glyph_dsc) (map snd quicksand_256_blocks)"
  by (simp add: quicksand_256_glyph_dsc_def quicksand_256_blocks_def quicksand_256_glyphs glyph_bytes_def)

lemma quicksand_256_font_tiled: "font_tiled (quicksand_256_font_dsc v) (map snd quicksand_256_blocks)"
  using quicksand_256_tiled
  by (simp add: font_tiled_def quicksand_256_font_dsc_def quicksand_256_glyph_bitmap_def quicksand_256_glyph_dsc_def glyph_bytes_def)

lemma quicksand_256_ids:
  "map (documented_lookup quicksand_256_cmap) (map fst quicksand_256_blocks) =
    map Some [1..<Suc (length quicksand_256_blocks)]"
  by (simp add: quicksand_256_blocks_def quicksand_256_cmap_def documented_lookup_def quicksand_256_unicode_list_0_def)

lemma quicksand_256_limits:
  "list_all small_dsc quicksand_256_glyph_dsc"
  "list_all (\<lambda>g. - 51 \<le> ofs_y g \<and> ofs_y g + int (box_h g) \<le> 231 - 51) quicksand_256_glyph_dsc"
  by code_simp+

lemma quicksand_256_padding:
  "list_all2 (padding_clear 4) (tl quicksand_256_glyph_dsc) (map snd quicksand_256_blocks)"
  by (simp add: quicksand_256_glyph_dsc_def quicksand_256_blocks_def quicksand_256_glyphs padding_clear_def last_line last_lines)

lemma quicksand_256_fits: "fits_format (quicksand_256 v) (map snd quicksand_256_blocks)"
  by (rule fits_formatI [where d = "quicksand_256_font_dsc v", OF _ _ _ _ _ _ quicksand_256_limits quicksand_256_padding])
    (simp_all add: quicksand_256_def quicksand_256_font_dsc_def)

lemma quicksand_256_kern_ok: "kern_ok (quicksand_256_font_dsc v)"
  by (simp add: kern_ok_def quicksand_256_font_dsc_def quicksand_256_kern_pairs_def quicksand_256_kern_pair_glyph_ids_def
      quicksand_256_kern_pair_values_def quicksand_256_glyph_dsc_def)

text \<open>C37. The font draws every character it has a block for with exactly that block: under the
  documented meaning of its character map, the glyph selected for a code point is the slice of
  the bitmap array written under that code point's comment. So descriptor indices, box sizes, bit
  depth, character map and bitmap agree for the space and the letters P, c, n, o, p and r.\<close>

theorem quicksand_256_renders:
  assumes "cmap_lookup get" and "(u, x) \<in> set quicksand_256_blocks"
  shows "renders get (quicksand_256_font_dsc v) u x"
  by (rule renders_block [OF assms(1) quicksand_256_font_tiled _ quicksand_256_ids assms(2)])
    (simp add: quicksand_256_font_dsc_def)

theorem quicksand_256_renders_witness:
  "renders documented_lookup (quicksand_256_font_dsc lvgl_8_3_5) 0x50 quicksand_256_glyph_0050"
  by (rule quicksand_256_renders) (simp_all add: cmap_lookup_def quicksand_256_blocks_def)

end
