(* ===== verification/Spec2Isabelle.thy ===== *)
theory Spec2Isabelle
  imports Boot_Handoff Kernel_Heap Rw_Lock Threading Bootstrap_Lock Targa Psf_Font Bmp_Image Elf_Relocation Boot_Menu Cursor_Image Fonts_Header Font_Quicksand_256
begin

text \<open>
  A verification library for popcorn-2, a kernel for amd64 with its bootloader. The program is
  written in Rust, with C for the fonts, the cursor and the configuration of the graphics library.

  \<^bold>\<open>How code is modelled.\<close> A type \<open>'a rust\<close> is an option in which \<open>None\<close> is a panic or undefined
  behaviour; a \<open>Result\<close> is a sum with the error on the left. A \<open>usize\<close> is a natural number below \<open>2 ^ 64\<close>
  and every operation on it is checked, as in a debug build (\<open>uadd\<close>, \<open>usub\<close> and \<open>umul\<close> of \<open>Prelude\<close>); words
  that are used bit by bit are of type \<open>64 word\<close> or \<open>8 word\<close>. Structs are records, enums are data types, and methods that
  mutate return the new state. Loops over ranges are \<open>for_each\<close>; a loop that need not end is an option-valued partial
  function, and its end is a theorem. No definition has fuel. Interleavings of cores are step relations with one step per
  atomic access, read as sequentially consistent.

  \<^bold>\<open>Physical memory.\<close> \<open>Addresses\<close> has the types of \<open>kernel_api/src/memory\<close> and their arithmetic.
  \<open>Backing_Allocator\<close> is the trait of \<open>allocator.rs\<close> with its provided methods; its contract is a chain of locales
  that the two allocators interpret. \<open>Bitmap_Allocator\<close> (\<open>bitmap_allocator\<close>) finds a free run exactly when there is
  one, takes exactly that run and never hands a frame out twice. \<open>Watermark_Allocator\<close> serves the
  start of the kernel. \<open>Kernel_Init\<close> is the part of \<open>kmain\<close> that goes from the memory map to the second allocator and
  hands over what the first has given away.

  \<^bold>\<open>Virtual memory.\<close> \<open>Page_Entry\<close> and \<open>Page_Table\<close> are the entries and tables of
  \<open>kernel/src/hal/arch/amd64\<close>. \<open>Page_Forest\<close> gives them their meaning: the tables form a forest, in which a page is a
  path, and map, unmap and translate are update, removal and lookup of a finite map over paths. The
  lemmas are proved once in a locale for the allocator of the tables, which \<open>Kernel_Paging\<close> interprets with the
  bitmap allocator. \<open>Ranged_Map\<close> and \<open>Virtual_Allocator\<close> (\<open>ranged_btree\<close>, \<open>ranged_btree_allocator\<close>,
  \<open>kernel/src/memory/virtual.rs\<close>) hand out ranges of pages. \<open>Memory_Mapping\<close> composes all of this as
  \<open>kernel_api/src/memory/mapping.rs\<close> does: in every run of making and dropping mappings and stacks, live ones share
  no page, no guard page and no frame, and every page leads to its own frame. \<open>Old_Mapping\<close> is the deprecated form that
  still carries the heap, and \<open>Kernel_Heap\<close> (\<open>kernel_default_heap\<close>) shows that blocks of the heap are
  mapped throughout and share no byte.

  \<^bold>\<open>Locks and threads.\<close> \<open>Rw_Lock\<close>, \<open>Spin_Lock\<close>, \<open>Once_Lock\<close> and \<open>Bootstrap_Lock\<close> are the
  modules of \<open>kernel_api/src/sync\<close> as step relations over any number of callers: exclusion, the exact
  meaning of the lock word, absence of deadlock, one initialisation, and the interrupt flag. \<open>Threading\<close> is
  the round-robin scheduler with the context switch: every thread gets its turn after a number of slices given by its place in the
  queue, with the registers it had.

  \<^bold>\<open>Starting the kernel.\<close> \<open>Boot_Paging\<close> is the second implementation of page tables, the one of
  \<open>bootloader/src/paging.rs\<close>; whatever calls were made, failed ones included, the tables it leaves mean to the kernel
  what they mean to the bootloader. \<open>Boot_Handoff\<close> is the part of \<open>main\<close> that maps physical memory, sets up
  the stack and makes the memory map that \<open>Kernel_Init\<close> starts from; it proves the map exact, physical
  memory mapped where the kernel looks for it, and the flaw that tables made after the map was taken lie in
  memory the map calls free. The firmware is a parameter there, with what is relied on of it in \<open>page_source\<close>.

  \<^bold>\<open>File formats.\<close> \<open>Bytes\<close> has little-endian fields of byte lists. \<open>Elf_File\<close>, \<open>Elf_Dynamic\<close> and
  \<open>Elf_Relocation\<close> (crate \<open>elf\<close>) read executables, export their symbols, and relocate and link them in place. \<open>Targa\<close>,
  \<open>Psf_Font\<close> and \<open>Bmp_Image\<close> read images and fonts. For each there is a writer of the format in the theory, and
  reading what was written gives it back, by the code's own accessors and iterators.

  \<^bold>\<open>The C sources.\<close> \<open>C_Preprocessor\<close> evaluates the directives \<open>Lv_Conf\<close> consists of: the header
  \<open>lv_conf.h\<close> leaves exactly the listed settings. \<open>Font_Format\<close> has the structures of the fonts, the theories
  \<open>Font_Open_Sans_48\<close>, \<open>Font_Quicksand_200\<close>, \<open>Font_Quicksand_256\<close> and \<open>Font_Sf_Symbols_48\<close> their data byte by byte,
  and \<open>Fonts_Header\<close> and \<open>Cursor_Image\<close> the other two files. Each font draws each of its characters with the block of the
  bitmap below that character's comment, and \<open>Boot_Menu\<close> shows that every text of the menu can be drawn.

  \<^bold>\<open>Bounds.\<close> Frames that hold tables are below \<open>2 ^ 47\<close> bytes, where the kernel's map of physical memory ends;
  frames the bootloader maps are below \<open>2 ^ 52\<close>, the width of its address field; physical memory it maps is below
  \<open>2 ^ 46\<close>, which the code asserts.

  \<^bold>\<open>Not modelled.\<close> Device drivers (interrupt controllers, serial ports, the tables of ACPI) are port and
  memory-mapped I/O. The descriptor tables of the processor are constants that are loaded by single
  instructions. Exception handlers, the entry code and the switch to new tables are assembly. The executor of tasks polls futures,
  which are values of the compiler, and nothing in the kernel reaches it. The user interface of the
  bootloader and its reading of files are calls of the firmware and of a graphics library that is not in the
  repository; the loading of segments by \<open>bootloader/src/elf.rs\<close> is left out, while the file and the tables it works on are
  modelled. The slab allocator is not part of the build. Memory orderings weaker than sequential consistency,
  procedural macros, the build tools and the test drivers are left out as well.
\<close>

end
